(* ===== verification/Prelude.thy ===== *)
theory Prelude
  imports Complex_Main "HOL-Library.AList" "HOL-Library.Sublist"
    "HOL-Library.List_Lexorder" "HOL-Library.Char_ord"
begin

text \<open>
  Shared vocabulary of the development: two small sequencing structures, their rules, and
  generic facts on lists and association lists.

  \<^item> A computation that can only raise is a value of \<open>'e + 'a\<close>, \<open>Inl\<close> the exception.
    \<open>rbind\<close> sequences two of them as consecutive Python statements are sequenced.
  \<^item> A computation that also reads and writes the world (database, file system, clock) is a
    function \<open>'w \<Rightarrow> ('e + 'a) \<times> 'w\<close>: the world survives an exception, as files
    written before a \<open>raise\<close> do. \<open>actbind\<close> sequences, \<open>actcatch\<close> is
    \<open>try/except\<close>.
  \<^item> \<open>wp m Q E w\<close> says that running \<open>m\<close> from \<open>w\<close> ends in \<open>Q\<close>
    when it returns and in \<open>E\<close> when it raises; the collection \<open>wp_rules\<close> holds one
    equation for each construct, so that a handler is verified by one simplification.
\<close>

named_theorems wp_rules "weakest-precondition equations of the sequencing constructs"
named_theorems res_elims "inversion of successful raising computations"

section \<open>Raising computations\<close>

definition rbind :: "'e + 'a \<Rightarrow> ('a \<Rightarrow> 'e + 'b) \<Rightarrow> 'e + 'b" where
  "rbind m f = (case m of Inl e \<Rightarrow> Inl e | Inr x \<Rightarrow> f x)"

definition rguard :: "bool \<Rightarrow> 'e \<Rightarrow> 'e + unit" where
  "rguard b e = (if b then Inr () else Inl e)"

lemma rbind_Inl [simp]: "rbind (Inl e) f = Inl e"
  by (simp add: rbind_def)

lemma rbind_Inr [simp]: "rbind (Inr x) f = f x"
  by (simp add: rbind_def)

lemma rbind_eq_Inr [res_elims]:
  "rbind m f = Inr y \<longleftrightarrow> (\<exists>x. m = Inr x \<and> f x = Inr y)"
  by (cases m) auto

lemma rbind_eq_Inl:
  "rbind m f = Inl e \<longleftrightarrow> m = Inl e \<or> (\<exists>x. m = Inr x \<and> f x = Inl e)"
  by (cases m) auto

lemma rguard_eq_Inr [res_elims]: "rguard b e = Inr u \<longleftrightarrow> b"
  by (cases u) (simp add: rguard_def)

lemma rguard_True [simp]: "rguard True e = Inr ()"
  by (simp add: rguard_def)

lemma rguard_False [simp]: "rguard False e = Inl e"
  by (simp add: rguard_def)

lemma rbind_cong [fundef_cong]:
  "m = m' \<Longrightarrow> (\<And>x. m' = Inr x \<Longrightarrow> f x = f' x) \<Longrightarrow> rbind m f = rbind m' f'"
  by (cases m') simp_all

lemma rbind_assoc: "rbind (rbind m f) g = rbind m (\<lambda>x. rbind (f x) g)"
  by (cases m) simp_all

text \<open>A comprehension whose element expression may raise stops at the first exception.\<close>

fun rmapM :: "('a \<Rightarrow> 'e + 'b) \<Rightarrow> 'a list \<Rightarrow> 'e + 'b list" where
  "rmapM f [] = Inr []"
| "rmapM f (x # xs) = rbind (f x) (\<lambda>y. rbind (rmapM f xs) (\<lambda>ys. Inr (y # ys)))"

lemma rmapM_Inr_iff:
  "rmapM f xs = Inr ys \<longleftrightarrow> list_all2 (\<lambda>x y. f x = Inr y) xs ys"
proof (induction xs arbitrary: ys)
  case Nil
  then show ?case by auto
next
  case (Cons x xs)
  then show ?case by (cases ys) (auto simp: rbind_eq_Inr)
qed

lemma rmapM_elem: "rmapM f xs = Inr ys \<Longrightarrow> y \<in> set ys \<Longrightarrow> \<exists>x \<in> set xs. f x = Inr y"
  by (induction xs arbitrary: ys) (auto simp: rbind_eq_Inr)

lemma rmapM_total: "(\<And>x. x \<in> set xs \<Longrightarrow> f x = Inr (g x)) \<Longrightarrow> rmapM f xs = Inr (map g xs)"
  by (induction xs) simp_all

lemma rmapM_cong [fundef_cong]:
  "xs = ys \<Longrightarrow> (\<And>x. x \<in> set ys \<Longrightarrow> f x = g x) \<Longrightarrow> rmapM f xs = rmapM g ys"
  by (induction ys arbitrary: xs) (auto cong: rbind_cong)

section \<open>Actions on a world that may raise\<close>

type_synonym ('w, 'e, 'a) act = "'w \<Rightarrow> ('e + 'a) \<times> 'w"

definition actret :: "'a \<Rightarrow> ('w, 'e, 'a) act" where
  "actret x = (\<lambda>w. (Inr x, w))"

definition actraise :: "'e \<Rightarrow> ('w, 'e, 'a) act" where
  "actraise e = (\<lambda>w. (Inl e, w))"

definition actbind :: "('w, 'e, 'a) act \<Rightarrow> ('a \<Rightarrow> ('w, 'e, 'b) act) \<Rightarrow> ('w, 'e, 'b) act" where
  "actbind m f = (\<lambda>w. case m w of (Inl e, w') \<Rightarrow> (Inl e, w') | (Inr x, w') \<Rightarrow> f x w')"

definition actlift :: "'e + 'a \<Rightarrow> ('w, 'e, 'a) act" where
  "actlift r = (\<lambda>w. (r, w))"

definition actread :: "('w \<Rightarrow> 'a) \<Rightarrow> ('w, 'e, 'a) act" where
  "actread g = (\<lambda>w. (Inr (g w), w))"

definition actreadR :: "('w \<Rightarrow> 'e + 'a) \<Rightarrow> ('w, 'e, 'a) act" where
  "actreadR g = (\<lambda>w. (g w, w))"

definition actwrite :: "('w \<Rightarrow> 'w) \<Rightarrow> ('w, 'e, unit) act" where
  "actwrite g = (\<lambda>w. (Inr (), g w))"

definition actguard :: "bool \<Rightarrow> 'e \<Rightarrow> ('w, 'e, unit) act" where
  "actguard b e = (\<lambda>w. (rguard b e, w))"

definition actwhen :: "bool \<Rightarrow> ('w, 'e, unit) act \<Rightarrow> ('w, 'e, unit) act" where
  "actwhen b m = (if b then m else actret ())"

text \<open>\<open>try: m except E as e: h e\<close>: the handler is chosen by the exception, \<open>None\<close> when
  no \<open>except\<close> clause names it. The world of the failing body is kept.\<close>

definition actcatch ::
  "('w, 'e, 'a) act \<Rightarrow> ('e \<Rightarrow> ('w, 'e, 'a) act option) \<Rightarrow> ('w, 'e, 'a) act" where
  "actcatch m h = (\<lambda>w. case m w of
      (Inr x, w') \<Rightarrow> (Inr x, w')
    | (Inl e, w') \<Rightarrow> (case h e of None \<Rightarrow> (Inl e, w') | Some k \<Rightarrow> k w'))"

fun actfor :: "('x \<Rightarrow> ('w, 'e, unit) act) \<Rightarrow> 'x list \<Rightarrow> ('w, 'e, unit) act" where
  "actfor f [] = actret ()"
| "actfor f (x # xs) = actbind (f x) (\<lambda>_. actfor f xs)"

definition wp ::
  "('w, 'e, 'a) act \<Rightarrow> ('a \<Rightarrow> 'w \<Rightarrow> bool) \<Rightarrow> ('e \<Rightarrow> 'w \<Rightarrow> bool) \<Rightarrow> 'w \<Rightarrow> bool" where
  "wp m Q E w = (case m w of (Inr x, w') \<Rightarrow> Q x w' | (Inl e, w') \<Rightarrow> E e w')"

lemma wp_ret [wp_rules]: "wp (actret x) Q E w = Q x w"
  by (simp add: wp_def actret_def)

lemma wp_raise [wp_rules]: "wp (actraise e) Q E w = E e w"
  by (simp add: wp_def actraise_def)

lemma wp_bind [wp_rules]: "wp (actbind m f) Q E w = wp m (\<lambda>x. wp (f x) Q E) E w"
  by (simp add: wp_def actbind_def split: prod.splits sum.splits)

lemma wp_lift [wp_rules]:
  "wp (actlift r) Q E w = (case r of Inl e \<Rightarrow> E e w | Inr x \<Rightarrow> Q x w)"
  by (simp add: wp_def actlift_def split: sum.splits)

lemma wp_read [wp_rules]: "wp (actread g) Q E w = Q (g w) w"
  by (simp add: wp_def actread_def)

lemma wp_readR [wp_rules]:
  "wp (actreadR g) Q E w = (case g w of Inl e \<Rightarrow> E e w | Inr x \<Rightarrow> Q x w)"
  by (simp add: wp_def actreadR_def split: sum.splits)

lemma wp_write [wp_rules]: "wp (actwrite g) Q E w = Q () (g w)"
  by (simp add: wp_def actwrite_def)

lemma wp_guard [wp_rules]: "wp (actguard b e) Q E w = (if b then Q () w else E e w)"
  by (simp add: wp_def actguard_def)

lemma wp_when [wp_rules]: "wp (actwhen b m) Q E w = (if b then wp m Q E w else Q () w)"
  by (simp add: actwhen_def wp_ret)

lemma wp_catch [wp_rules]:
  "wp (actcatch m h) Q E w =
     wp m Q (\<lambda>e w'. case h e of None \<Rightarrow> E e w' | Some k \<Rightarrow> wp k Q E w') w"
  by (simp add: wp_def actcatch_def split: prod.splits sum.splits option.splits)

lemma wp_if [wp_rules]:
  "wp (if b then m else n) Q E w = (if b then wp m Q E w else wp n Q E w)"
  by simp

lemma wp_mono:
  assumes "wp m Q E w" and "\<And>x w'. Q x w' \<Longrightarrow> Q' x w'" and "\<And>e w'. E e w' \<Longrightarrow> E' e w'"
  shows "wp m Q' E' w"
  using assms by (auto simp: wp_def split: prod.splits sum.splits)

lemma wp_conj:
  "wp m Q E w \<Longrightarrow> wp m Q' E' w \<Longrightarrow>
     wp m (\<lambda>x w'. Q x w' \<and> Q' x w') (\<lambda>e w'. E e w' \<and> E' e w') w"
  by (auto simp: wp_def split: prod.splits sum.splits)

lemma wp_for_inv:
  assumes "\<And>x w. x \<in> set xs \<Longrightarrow> I w \<Longrightarrow> wp (f x) (\<lambda>_. I) E w" and "I w"
  shows "wp (actfor f xs) (\<lambda>_. I) E w"
  using assms
proof (induction xs arbitrary: w)
  case Nil
  then show ?case by (simp add: wp_ret)
next
  case (Cons x xs)
  have "wp (f x) (\<lambda>_. I) E w" using Cons.prems by simp
  then have "wp (f x) (\<lambda>_. wp (actfor f xs) (\<lambda>_. I) E) E w"
    by (rule wp_mono) (use Cons in auto)
  then show ?case by (simp add: wp_bind)
qed

text \<open>Reading a result off a \<open>wp\<close> statement and back.\<close>

lemma wp_returns: "wp m Q E w \<Longrightarrow> m w = (Inr x, w') \<Longrightarrow> Q x w'"
  by (simp add: wp_def)

lemma wp_raises: "wp m Q E w \<Longrightarrow> m w = (Inl e, w') \<Longrightarrow> E e w'"
  by (simp add: wp_def)

lemma wpI:
  "(\<And>x w'. m w = (Inr x, w') \<Longrightarrow> Q x w') \<Longrightarrow> (\<And>e w'. m w = (Inl e, w') \<Longrightarrow> E e w') \<Longrightarrow>
     wp m Q E w"
  by (auto simp: wp_def split: prod.splits sum.splits)

lemma actbind_returns [res_elims]:
  "actbind m f w = (Inr y, w'') \<longleftrightarrow> (\<exists>x w'. m w = (Inr x, w') \<and> f x w' = (Inr y, w''))"
  by (auto simp: actbind_def split: prod.splits sum.splits)

lemma actguard_returns [res_elims]: "actguard b e w = (Inr u, w') \<longleftrightarrow> b \<and> w' = w"
  by (cases u) (auto simp: actguard_def rguard_def)

lemma actlift_returns [res_elims]: "actlift r w = (Inr x, w') \<longleftrightarrow> r = Inr x \<and> w' = w"
  by (auto simp: actlift_def)

lemma actread_returns [res_elims]: "actread g w = (Inr x, w') \<longleftrightarrow> x = g w \<and> w' = w"
  by (auto simp: actread_def)

lemma actreadR_returns [res_elims]: "actreadR g w = (Inr x, w') \<longleftrightarrow> g w = Inr x \<and> w' = w"
  by (auto simp: actreadR_def)

lemma actwrite_returns [res_elims]: "actwrite g w = (Inr u, w') \<longleftrightarrow> w' = g w"
  by (cases u) (auto simp: actwrite_def)

lemma actret_returns [res_elims]: "actret x w = (Inr y, w') \<longleftrightarrow> y = x \<and> w' = w"
  by (auto simp: actret_def)

lemma actraise_returns [res_elims]: "actraise e w = (Inr y, w') \<longleftrightarrow> False"
  by (simp add: actraise_def)

section \<open>Lists and association lists\<close>

text \<open>Python's \<open>next((x for x in xs if p(x)), None)\<close> is the library's \<open>find\<close>.\<close>

lemma find_Some_D: "find p xs = Some x \<Longrightarrow> x \<in> set xs \<and> p x"
  by (auto simp: find_Some_iff)

lemma distinct_map_inj: "distinct (map f xs) \<Longrightarrow> x \<in> set xs \<Longrightarrow> y \<in> set xs \<Longrightarrow> f x = f y \<Longrightarrow> x = y"
  by (auto simp: distinct_map dest: inj_onD)

lemma map_of_update: "map_of (AList.update k v al) = (map_of al)(k \<mapsto> v)"
  by (rule update_conv')

lemma distinct_keys_update: "distinct (map fst al) \<Longrightarrow> distinct (map fst (AList.update k v al))"
  by (rule distinct_update)

end
