(* ===== verification/PyVal.thy ===== *)
theory PyVal
  imports Prelude
begin

text \<open>
  The values, exceptions and string operations of Python that the program uses.

  \<open>pyval\<close> is what \<open>json.loads\<close> returns: the program's dictionaries of type
  \<open>dict[str, Any]\<close> are such values, and every access that can raise on a value of another
  shape raises here too. A dictionary is an association list in insertion order. A float is a
  rational number (every finite double is one), an infinity or NaN; comparisons are therefore exact.
  A string is a list of characters, the code points below 256.
\<close>

section \<open>Values\<close>

datatype pyfloat = Fin rat | PosInf | NegInf | NaN

datatype pyval =
    JNone
  | JBool bool
  | JInt int
  | JFloat pyfloat
  | JStr string
  | JList "pyval list"
  | JDict "(string \<times> pyval) list"

type_synonym pydict = "(string \<times> pyval) list"

text \<open>An f-string is its template with the interpolated values; text is never inspected.\<close>

datatype msg = Msg string "pyval list"

datatype exc =
    ValueError msg
  | WritePolicyError msg
  | DiscoveryError msg
  | IncompleteOperatorEvidence msg
  | BrainError msg
  | KeyError pyval
  | TypeError
  | AttributeError
  | IndexError
  | OSError msg
  | IntegrityError
  | OverflowError
  | AssertionError
  | RuntimeError msg
  | TimeoutExpired
  | Diverges
  | UnicodeError
  | ZeroDivisionError
  | BudgetError msg
  | ToolFailed string msg
  | SkillResolutionError msg
  | YAMLError msg
  | Unresolved msg

text \<open>\<open>WritePolicyError\<close> and \<open>DiscoveryError\<close> (with its subclass \<open>IncompleteOperatorEvidence\<close>) are subclasses of \<open>ValueError\<close>,
  \<open>BrainError\<close> of \<open>RuntimeError\<close>, \<open>sqlite3.IntegrityError\<close> and
  \<open>subprocess.TimeoutExpired\<close> of neither (\<open>Diverges\<close> is no exception: see \<open>Agent\<close>), \<open>UnicodeError\<close> of \<open>ValueError\<close>;
  \<open>BudgetError\<close>, the \<open>ToolFailed\<close> of \<open>core/errors.py\<close> and \<open>Unresolved\<close> of \<open>RuntimeError\<close>;
  \<open>SkillResolutionError\<close> of \<open>ValueError\<close>, \<open>yaml.YAMLError\<close> of neither.\<close>

fun is_ValueError :: "exc \<Rightarrow> bool" where
  "is_ValueError (ValueError _) = True"
| "is_ValueError (WritePolicyError _) = True"
| "is_ValueError (DiscoveryError _) = True"
| "is_ValueError (IncompleteOperatorEvidence _) = True"
| "is_ValueError UnicodeError = True"
| "is_ValueError (SkillResolutionError _) = True"
| "is_ValueError _ = False"

fun is_OSError :: "exc \<Rightarrow> bool" where
  "is_OSError (OSError _) = True"
| "is_OSError _ = False"

fun is_WritePolicyError :: "exc \<Rightarrow> bool" where
  "is_WritePolicyError (WritePolicyError _) = True"
| "is_WritePolicyError _ = False"

fun is_KeyError :: "exc \<Rightarrow> bool" where
  "is_KeyError (KeyError _) = True"
| "is_KeyError _ = False"

fun is_TypeError :: "exc \<Rightarrow> bool" where
  "is_TypeError TypeError = True"
| "is_TypeError _ = False"

fun is_BrainError :: "exc \<Rightarrow> bool" where
  "is_BrainError (BrainError _) = True"
| "is_BrainError _ = False"

section \<open>Truth, identity with a constant, equality\<close>

fun truthy :: "pyval \<Rightarrow> bool" where
  "truthy JNone = False"
| "truthy (JBool b) = b"
| "truthy (JInt i) = (i \<noteq> 0)"
| "truthy (JFloat f) = (f \<noteq> Fin 0)"
| "truthy (JStr s) = (s \<noteq> [])"
| "truthy (JList xs) = (xs \<noteq> [])"
| "truthy (JDict d) = (d \<noteq> [])"

text \<open>\<open>v is True\<close>, \<open>v is False\<close>, \<open>v is None\<close>; the \<open>isinstance\<close> tests. A
  \<open>bool\<close> is an instance of \<open>int\<close>, but \<open>type(v) is int\<close> excludes it.\<close>

definition is_True :: "pyval \<Rightarrow> bool" where "is_True v = (v = JBool True)"
definition is_False :: "pyval \<Rightarrow> bool" where "is_False v = (v = JBool False)"
definition is_None :: "pyval \<Rightarrow> bool" where "is_None v = (v = JNone)"

fun is_str :: "pyval \<Rightarrow> bool" where "is_str (JStr _) = True" | "is_str _ = False"
fun is_list :: "pyval \<Rightarrow> bool" where "is_list (JList _) = True" | "is_list _ = False"
fun is_dict :: "pyval \<Rightarrow> bool" where "is_dict (JDict _) = True" | "is_dict _ = False"
fun is_bool :: "pyval \<Rightarrow> bool" where "is_bool (JBool _) = True" | "is_bool _ = False"

fun type_is_int :: "pyval \<Rightarrow> bool" where "type_is_int (JInt _) = True" | "type_is_int _ = False"

fun isinstance_int :: "pyval \<Rightarrow> bool" where
  "isinstance_int (JInt _) = True"
| "isinstance_int (JBool _) = True"
| "isinstance_int _ = False"

fun isinstance_number :: "pyval \<Rightarrow> bool" where
  "isinstance_number (JInt _) = True"
| "isinstance_number (JBool _) = True"
| "isinstance_number (JFloat _) = True"
| "isinstance_number _ = False"

text \<open>The numeric value of an int, bool or float.\<close>

fun num_of :: "pyval \<Rightarrow> pyfloat option" where
  "num_of (JBool b) = Some (Fin (if b then 1 else 0))"
| "num_of (JInt i) = Some (Fin (of_int i))"
| "num_of (JFloat f) = Some f"
| "num_of _ = None"

fun float_eq :: "pyfloat \<Rightarrow> pyfloat \<Rightarrow> bool" where
  "float_eq (Fin a) (Fin b) = (a = b)"
| "float_eq PosInf PosInf = True"
| "float_eq NegInf NegInf = True"
| "float_eq _ _ = False"

fun float_less :: "pyfloat \<Rightarrow> pyfloat \<Rightarrow> bool" where
  "float_less (Fin a) (Fin b) = (a < b)"
| "float_less NegInf (Fin _) = True"
| "float_less NegInf PosInf = True"
| "float_less (Fin _) PosInf = True"
| "float_less _ _ = False"

fun is_finite :: "pyfloat \<Rightarrow> bool" where
  "is_finite (Fin _) = True"
| "is_finite _ = False"

lemma size_in_JList: "x \<in> set xs \<Longrightarrow> size x < size (JList xs)"
  by (induction xs) auto

lemma size_in_JDict: "(k, v) \<in> set d \<Longrightarrow> size v < size (JDict d)"
  by (induction d) auto

text \<open>\<open>==\<close>: numbers compare across types (\<open>True == 1 == 1.0\<close>), lists elementwise,
  dictionaries by key whatever the order. (Two occurrences of the same NaN object inside
  containers, which Python takes as equal by identity, are unequal here.)\<close>

function py_eq :: "pyval \<Rightarrow> pyval \<Rightarrow> bool" where
  "py_eq a b =
     (case (num_of a, num_of b) of
        (Some x, Some y) \<Rightarrow> float_eq x y
      | _ \<Rightarrow>
        (case (a, b) of
           (JNone, JNone) \<Rightarrow> True
         | (JStr s, JStr t) \<Rightarrow> s = t
         | (JList xs, JList ys) \<Rightarrow>
             length xs = length ys \<and> list_all (\<lambda>(x, y). py_eq x y) (zip xs ys)
         | (JDict d, JDict d') \<Rightarrow>
             length d = length d' \<and>
             list_all (\<lambda>(k, v). case map_of d' k of None \<Rightarrow> False | Some v' \<Rightarrow> py_eq v v') d
         | _ \<Rightarrow> False))"
  by pat_completeness auto
termination
  by (relation "measure (\<lambda>(a, b). size a)")
     (auto dest!: set_zip_leftD dest: size_in_JList size_in_JDict)

declare py_eq.simps [simp del]

lemma py_eq_JStr [simp]: "py_eq (JStr s) v \<longleftrightarrow> v = JStr s"
  by (cases v) (auto simp: py_eq.simps)

lemma py_eq_JStr_right [simp]: "py_eq v (JStr s) \<longleftrightarrow> v = JStr s"
  by (cases v) (auto simp: py_eq.simps)

lemma py_eq_JNone [simp]: "py_eq JNone v \<longleftrightarrow> v = JNone"
  by (cases v) (auto simp: py_eq.simps)

lemma py_eq_JNone_right [simp]: "py_eq v JNone \<longleftrightarrow> v = JNone"
  by (cases v) (auto simp: py_eq.simps)

lemma py_eq_JInt [simp]:
  "py_eq (JInt i) (JInt j) \<longleftrightarrow> i = j"
  "py_eq (JBool b) (JBool c) \<longleftrightarrow> b = c"
  by (auto simp: py_eq.simps)

lemma py_eq_JInt_iff: "py_eq v (JInt i) \<longleftrightarrow> num_of v = Some (Fin (of_int i))"
  by (cases v; simp add: py_eq.simps)
     (metis float_eq.elims(2) float_eq.simps(1))

text \<open>\<open>v in {"A", "B"}\<close> and \<open>v in ["A", "B"]\<close> for literal strings. An unhashable
  value (list or dict) raises \<open>TypeError\<close> on a set or a dictionary, not on a list.\<close>

fun hashable :: "pyval \<Rightarrow> bool" where
  "hashable (JList _) = False"
| "hashable (JDict _) = False"
| "hashable _ = True"

definition in_strs :: "pyval \<Rightarrow> string list \<Rightarrow> bool" where
  "in_strs v ss = (case v of JStr s \<Rightarrow> s \<in> set ss | _ \<Rightarrow> False)"

definition in_strset :: "pyval \<Rightarrow> string list \<Rightarrow> exc + bool" where
  "in_strset v ss = (if hashable v then Inr (in_strs v ss) else Inl TypeError)"

definition in_list :: "pyval \<Rightarrow> pyval list \<Rightarrow> bool" where
  "in_list v vs = list_ex (py_eq v) vs"

section \<open>Dictionaries\<close>

definition dget :: "pydict \<Rightarrow> string \<Rightarrow> pyval" where
  "dget d k = (case map_of d k of None \<Rightarrow> JNone | Some v \<Rightarrow> v)"

definition dget_or :: "pydict \<Rightarrow> string \<Rightarrow> pyval \<Rightarrow> pyval" where
  "dget_or d k v0 = (case map_of d k of None \<Rightarrow> v0 | Some v \<Rightarrow> v)"

definition dhas :: "pydict \<Rightarrow> string \<Rightarrow> bool" where
  "dhas d k = (map_of d k \<noteq> None)"

definition dset :: "pydict \<Rightarrow> string \<Rightarrow> pyval \<Rightarrow> pydict" where
  "dset d k v = AList.update k v d"

text \<open>\<open>d.setdefault(k, v)\<close>, \<open>d.pop(k, v0)\<close> and \<open>{**a, **b}\<close>.\<close>

definition dsetdefault :: "pydict \<Rightarrow> string \<Rightarrow> pyval \<Rightarrow> pydict" where
  "dsetdefault d k v = (if dhas d k then d else dset d k v)"

definition dpop :: "pydict \<Rightarrow> string \<Rightarrow> pyval \<Rightarrow> pyval \<times> pydict" where
  "dpop d k v0 = (dget_or d k v0, AList.delete k d)"

definition dmerge :: "pydict \<Rightarrow> pydict \<Rightarrow> pydict" where
  "dmerge a b = fold (\<lambda>(k, v) acc. dset acc k v) b a"

lemma map_of_dset [simp]: "map_of (dset d k v) = (map_of d)(k \<mapsto> v)"
  by (simp add: dset_def update_conv')

lemma dget_dset [simp]: "dget (dset d k v) k' = (if k = k' then v else dget d k')"
  by (simp add: dget_def)

lemma dget_or_dset [simp]: "dget_or (dset d k v) k' v0 = (if k = k' then v else dget_or d k' v0)"
  by (simp add: dget_or_def)

lemma dhas_dset [simp]: "dhas (dset d k v) k' \<longleftrightarrow> k = k' \<or> dhas d k'"
  by (simp add: dhas_def)

lemma dget_or_JNone: "dget_or d k JNone = dget d k"
  by (simp add: dget_or_def dget_def)

lemma map_of_dmerge: "map_of (dmerge a b) = map_of a ++ map_of (rev b)"
proof (induction b arbitrary: a)
  case Nil
  then show ?case by (simp add: dmerge_def)
next
  case (Cons p b)
  obtain k v where p: "p = (k, v)" by (cases p)
  have "map_of (dmerge a (p # b)) = map_of (dset a k v) ++ map_of (rev b)"
    using Cons.IH[of "dset a k v"] by (simp add: dmerge_def p del: map_of_dset)
  also have "\<dots> = map_of a ++ map_of (rev (p # b))"
    by (simp add: p)
  finally show ?case .
qed

lemma dmerge_single: "dmerge a [(k, v)] = dset a k v"
  by (simp add: dmerge_def)

text \<open>The same operations on a value that need not be a dictionary: \<open>.get\<close> exists on
  dictionaries only, indexing with a string key raises \<open>TypeError\<close> on everything else, and
  \<open>k in v\<close> works on dictionaries, lists and strings.\<close>

definition vget_or :: "pyval \<Rightarrow> string \<Rightarrow> pyval \<Rightarrow> exc + pyval" where
  "vget_or v k v0 = (case v of JDict d \<Rightarrow> Inr (dget_or d k v0) | _ \<Rightarrow> Inl AttributeError)"

definition vget :: "pyval \<Rightarrow> string \<Rightarrow> exc + pyval" where
  "vget v k = vget_or v k JNone"

definition vindex :: "pyval \<Rightarrow> string \<Rightarrow> exc + pyval" where
  "vindex v k = (case v of
      JDict d \<Rightarrow> (case map_of d k of None \<Rightarrow> Inl (KeyError (JStr k)) | Some x \<Rightarrow> Inr x)
    | _ \<Rightarrow> Inl TypeError)"

lemma vget_JDict [simp]: "vget (JDict d) k = Inr (dget d k)"
  by (simp add: vget_def vget_or_def dget_or_JNone)

lemma vget_or_JDict [simp]: "vget_or (JDict d) k v0 = Inr (dget_or d k v0)"
  by (simp add: vget_or_def)

lemma vget_or_Inr: "vget_or v k v0 = Inr x \<longleftrightarrow> (\<exists>d. v = JDict d \<and> x = dget_or d k v0)"
  by (cases v) (auto simp: vget_or_def)

lemma vget_Inr: "vget v k = Inr x \<longleftrightarrow> (\<exists>d. v = JDict d \<and> x = dget d k)"
  by (auto simp: vget_def vget_or_Inr dget_or_JNone)

lemma vindex_Inr: "vindex v k = Inr x \<longleftrightarrow> (\<exists>d. v = JDict d \<and> map_of d k = Some x)"
  by (cases v) (auto simp: vindex_def split: option.splits)

text \<open>The text of a string value, \<open>s\<close> for any other.\<close>

definition str_or :: "pyval \<Rightarrow> string \<Rightarrow> string" where
  "str_or v s = (case v of JStr x \<Rightarrow> x | _ \<Rightarrow> s)"

text \<open>\<open>a or b\<close>.\<close>

definition py_or :: "pyval \<Rightarrow> pyval \<Rightarrow> pyval" where
  "py_or a b = (if truthy a then a else b)"

text \<open>Iterating over a value: a dictionary yields its keys, a string its characters.\<close>

definition viter :: "pyval \<Rightarrow> exc + pyval list" where
  "viter v = (case v of
      JList xs \<Rightarrow> Inr xs
    | JDict d \<Rightarrow> Inr (map (\<lambda>(k, _). JStr k) d)
    | JStr s \<Rightarrow> Inr (map (\<lambda>c. JStr [c]) s)
    | _ \<Rightarrow> Inl TypeError)"

text \<open>\<open>a < b\<close> on numbers and on strings (by code point); other operands raise.\<close>

definition py_less :: "pyval \<Rightarrow> pyval \<Rightarrow> exc + bool" where
  "py_less a b =
     (case (num_of a, num_of b) of
        (Some x, Some y) \<Rightarrow> Inr (float_less x y)
      | _ \<Rightarrow> (case (a, b) of (JStr s, JStr t) \<Rightarrow> Inr (s < t) | _ \<Rightarrow> Inl TypeError))"

text \<open>A value contains a float that JSON cannot write: \<open>json.dumps(..., allow_nan=False)\<close>
  raises \<open>ValueError\<close> on it.\<close>

fun has_nonfinite :: "pyval \<Rightarrow> bool" where
  "has_nonfinite (JFloat f) = (\<not> is_finite f)"
| "has_nonfinite (JList xs) = list_ex has_nonfinite xs"
| "has_nonfinite (JDict d) = list_ex (\<lambda>(_, v). has_nonfinite v) d"
| "has_nonfinite _ = False"

section \<open>Strings\<close>

definition is_space :: "char \<Rightarrow> bool" where
  "is_space c = (let n = of_char c :: nat in
     (9 \<le> n \<and> n \<le> 13) \<or> (28 \<le> n \<and> n \<le> 32) \<or> n = 133 \<or> n = 160)"

definition strip_chars :: "(char \<Rightarrow> bool) \<Rightarrow> string \<Rightarrow> string" where
  "strip_chars p s = rev (dropWhile p (rev (dropWhile p s)))"

definition strip :: "string \<Rightarrow> string" where
  "strip s = strip_chars is_space s"

definition lower_char :: "char \<Rightarrow> char" where
  "lower_char c = (let n = of_char c :: nat in
     if (65 \<le> n \<and> n \<le> 90) \<or> (192 \<le> n \<and> n \<le> 222 \<and> n \<noteq> 215)
     then char_of (n + 32) else c)"

definition lower :: "string \<Rightarrow> string" where
  "lower s = map lower_char s"

text \<open>\<open>upper\<close> turns the sharp s (223) into two letters; the micro sign and the y with
  diaeresis leave the first 256 code points and stay as they are here (neither is ASCII).\<close>

definition upper_char :: "char \<Rightarrow> string" where
  "upper_char c = (let n = of_char c :: nat in
     if 97 \<le> n \<and> n \<le> 122 then [char_of (n - 32)]
     else if n = 223 then ''SS''
     else if 224 \<le> n \<and> n \<le> 254 \<and> n \<noteq> 247 then [char_of (n - 32)]
     else [c])"

definition upper :: "string \<Rightarrow> string" where
  "upper s = concat (map upper_char s)"

fun starts_with :: "string \<Rightarrow> string \<Rightarrow> bool" where
  "starts_with _ [] = True"
| "starts_with [] (_ # _) = False"
| "starts_with (c # s) (d # t) = (c = d \<and> starts_with s t)"

text \<open>\<open>needle in text\<close>.\<close>

fun contains :: "string \<Rightarrow> string \<Rightarrow> bool" where
  "contains [] t = (t = [])"
| "contains (c # s) t = (starts_with (c # s) t \<or> contains s t)"

text \<open>\<open>str(v).upper() == "PASS"\<close>: only a string's \<open>str\<close> has that upper case.\<close>

definition says_pass :: "pyval \<Rightarrow> bool" where
  "says_pass v = (case v of JStr s \<Rightarrow> upper s = ''PASS'' | _ \<Rightarrow> False)"

lemma strip_nil [simp]: "strip [] = []"
  by (simp add: strip_def strip_chars_def)

lemma starts_with_iff: "starts_with s t \<longleftrightarrow> (\<exists>u. s = t @ u)"
  by (induction s t rule: starts_with.induct) auto

lemma contains_iff: "contains s t \<longleftrightarrow> (\<exists>u v. s = u @ t @ v)"
proof (induction s t rule: contains.induct)
  case (1 t)
  then show ?case by auto
next
  case (2 c s t)
  have "(\<exists>u v. c # s = u @ t @ v) \<longleftrightarrow> (\<exists>v. c # s = t @ v) \<or> (\<exists>u v. s = u @ t @ v)"
    by (metis append_Cons append_Nil list.sel(3) neq_Nil_conv)
  with 2 show ?case by (simp add: starts_with_iff del: starts_with.simps)
qed

lemma set_strip_chars: "set (strip_chars p s) \<subseteq> set s"
  by (auto simp: strip_chars_def dest!: set_dropWhileD)

text \<open>Decimal numerals, as \<open>str(n)\<close> prints them.\<close>

fun dec :: "nat \<Rightarrow> string" where
  "dec n = (if n < 10 then [char_of (48 + n)] else dec (n div 10) @ [char_of (48 + n mod 10)])"

declare dec.simps [simp del]

fun undec :: "nat \<Rightarrow> string \<Rightarrow> nat" where
  "undec acc [] = acc"
| "undec acc (c # s) = undec (10 * acc + (of_char c - 48)) s"

lemma undec_append: "undec a (s @ t) = undec (undec a s) t"
  by (induction s arbitrary: a) simp_all

lemma undec_dec: "undec 0 (dec n) = n"
proof (induction n rule: dec.induct)
  case (1 n)
  show ?case
  proof (cases "n < 10")
    case True
    then show ?thesis by (subst dec.simps) (simp add: of_char_of take_bit_eq_mod)
  next
    case False
    with 1 have "undec 0 (dec (n div 10)) = n div 10" by simp
    then show ?thesis using False
      by (subst dec.simps) (simp add: undec_append of_char_of take_bit_eq_mod)
  qed
qed

lemma inj_dec: "inj dec"
  by (metis injI undec_dec)

end
