(* ===== verification/Lib.thy ===== *)
theory Lib
  imports PyVal
begin

text \<open>
  The functions of the interpreter, its standard library and its surroundings that the model takes
  as arguments: hashing, the JSON text format, number formats, the clock, the two sources of
  fresh identifiers, and the configuration of the process. They are the fields of one record,
  \<open>lib\<close>; every theorem holds for all of them unless a hypothesis says otherwise.

  The clock is a sequence of readings: the world counts how often \<open>time.time()\<close> was called and
  the n-th call returns \<open>clk L n\<close>, so that time may pass between any two calls of one
  operation. \<open>uuid4()\<close>, \<open>secrets.token_urlsafe()\<close> are sequences in the same way.
\<close>

type_synonym path = "string list"

text \<open>The layouts in which values are written as JSON, one for each way \<open>json.dumps\<close> is called.\<close>

datatype json_layout =
    JsonCanonical  \<comment> \<open>\<open>sort_keys=True, separators=(",", ":"), ensure_ascii=False\<close>\<close>
  | JsonCompact    \<comment> \<open>\<open>sort_keys=True, separators=(",", ":")\<close>\<close>
  | JsonLine       \<comment> \<open>\<open>ensure_ascii=False\<close>\<close>
  | JsonIndented   \<comment> \<open>\<open>indent=2, ensure_ascii=False\<close>\<close>
  | JsonPlain      \<comment> \<open>\<open>indent=2\<close>\<close>

record lib =
  sha256 :: "string \<Rightarrow> string"
    \<comment> \<open>\<open>hashlib.sha256(...).hexdigest()\<close>\<close>
  json_dumps :: "pyval \<Rightarrow> string"
    \<comment> \<open>\<open>json.dumps\<close> without options\<close>
  json_as :: "json_layout \<Rightarrow> pyval \<Rightarrow> string"
  json_text :: "pyval \<Rightarrow> string"
    \<comment> \<open>\<open>json.dumps(..., indent=2)\<close> and a newline, the layout of files\<close>
  json_loads :: "string \<Rightarrow> pyval option"
    \<comment> \<open>\<open>json.loads\<close>, \<open>None\<close> where it raises \<open>ValueError\<close>\<close>
  yaml_loads :: "string \<Rightarrow> exc + pyval"
    \<comment> \<open>\<open>yaml.safe_load\<close> of a text\<close>
  repr_of :: "pyval \<Rightarrow> string"
    \<comment> \<open>\<open>str\<close> of a float, a list or a dictionary, \<open>repr\<close> of a string\<close>
  exc_text :: "exc \<Rightarrow> string"
    \<comment> \<open>\<open>str\<close> of an exception\<close>
  float_of_str :: "string \<Rightarrow> pyfloat option"
  int_of_str :: "string \<Rightarrow> int option"
  clk :: "nat \<Rightarrow> rat"
  uuid :: "nat \<Rightarrow> string"
  token :: "nat \<Rightarrow> string"
  cwd :: path
  home :: path
  repo_root :: path
  state_root_env :: "string option"
    \<comment> \<open>the environment variable \<open>INFER_FORGE_STATE_ROOT\<close>\<close>
  xdg_state_env :: "string option"
    \<comment> \<open>the environment variable \<open>XDG_STATE_HOME\<close>\<close>
  user_id_env :: "string option"
    \<comment> \<open>the environment variable \<open>USER_ID\<close>\<close>
  cluster_profile :: "exc + pyval"
    \<comment> \<open>\<open>yaml.safe_load\<close> of the cluster profile of the repository\<close>

text \<open>\<open>str(i)\<close> of an integer and \<open>str(v)\<close> of any value.\<close>

definition dec_int :: "int \<Rightarrow> string" where
  "dec_int i = (if i < 0 then CHR ''-'' # dec (nat (- i)) else dec (nat i))"

fun py_str :: "lib \<Rightarrow> pyval \<Rightarrow> string" where
  "py_str L (JStr s) = s"
| "py_str L JNone = ''None''"
| "py_str L (JBool b) = (if b then ''True'' else ''False'')"
| "py_str L (JInt i) = dec_int i"
| "py_str L v = repr_of L v"

text \<open>\<open>float(v)\<close> and \<open>int(v)\<close>.\<close>

definition py_float :: "lib \<Rightarrow> pyval \<Rightarrow> exc + pyfloat" where
  "py_float L v = (case num_of v of
      Some x \<Rightarrow> Inr x
    | None \<Rightarrow> (case v of
        JStr s \<Rightarrow> (case float_of_str L s of
            Some x \<Rightarrow> Inr x
          | None \<Rightarrow> Inl (ValueError (Msg ''could not convert string to float'' [v])))
      | _ \<Rightarrow> Inl TypeError))"

definition trunc_rat :: "rat \<Rightarrow> int" where
  "trunc_rat r = (if 0 \<le> r then floor r else - floor (- r))"

definition py_int :: "lib \<Rightarrow> pyval \<Rightarrow> exc + int" where
  "py_int L v = (case v of
      JInt i \<Rightarrow> Inr i
    | JBool b \<Rightarrow> Inr (if b then 1 else 0)
    | JFloat (Fin r) \<Rightarrow> Inr (trunc_rat r)
    | JFloat NaN \<Rightarrow> Inl (ValueError (Msg ''cannot convert float NaN to integer'' []))
    | JFloat _ \<Rightarrow> Inl OverflowError
    | JStr s \<Rightarrow> (case int_of_str L s of
          Some i \<Rightarrow> Inr i
        | None \<Rightarrow> Inl (ValueError (Msg ''invalid literal for int()'' [v])))
    | _ \<Rightarrow> Inl TypeError)"

text \<open>\<open>dict(v)\<close>: a copy of a dictionary, or the dictionary of a sequence of pairs (only
  string keys are represented; other keys raise \<open>TypeError\<close> here).\<close>

fun pairs_dict :: "pydict \<Rightarrow> pyval list \<Rightarrow> exc + pydict" where
  "pairs_dict d [] = Inr d"
| "pairs_dict d (JList [JStr k, v] # xs) = pairs_dict (dset d k v) xs"
| "pairs_dict d (JStr [a, b] # xs) = pairs_dict (dset d [a] (JStr [b])) xs"
| "pairs_dict d (JDict [(k, _), (k', _)] # xs) = pairs_dict (dset d k (JStr k')) xs"
| "pairs_dict d (JList [_, _] # xs) = Inl TypeError"
| "pairs_dict d (JList _ # xs) = Inl (ValueError (Msg ''dictionary update sequence'' []))"
| "pairs_dict d (JStr _ # xs) = Inl (ValueError (Msg ''dictionary update sequence'' []))"
| "pairs_dict d (JDict _ # xs) = Inl (ValueError (Msg ''dictionary update sequence'' []))"
| "pairs_dict d (_ # xs) = Inl TypeError"

definition py_dict :: "pyval \<Rightarrow> exc + pydict" where
  "py_dict v = (case v of
      JDict d \<Rightarrow> Inr d
    | _ \<Rightarrow> rbind (viter v) (pairs_dict []))"

lemma py_dict_JDict [simp]: "py_dict (JDict d) = Inr d"
  by (simp add: py_dict_def)

lemma py_int_JInt [simp]: "py_int L (JInt i) = Inr i"
  by (simp add: py_int_def)

lemma py_float_Fin [simp]: "py_float L (JFloat x) = Inr x"
  by (simp add: py_float_def)

end
