(* ===== verification/Contracts.thy ===== *)
theory Contracts
  imports Lib
begin

text \<open>
  The dataclasses of \<open>engine/contracts.py\<close>: the measured tensor schema \<open>IOSpec\<close>, the
  operator specification and its content-derived key, the queue's task view, the event, the run
  and the normalised failure report. A constructor call is a function to \<open>exc + _\<close> that runs
  the class's \<open>__post_init__\<close> checks in their order; \<open>from_dict\<close> is
  \<open>cls(**d)\<close>, which raises \<open>TypeError\<close> on an unknown or a missing field.
\<close>

section \<open>Keyword construction\<close>

definition kwargs_ok :: "string list \<Rightarrow> string list \<Rightarrow> pydict \<Rightarrow> bool" where
  "kwargs_ok required optional d \<longleftrightarrow>
     list_all (\<lambda>k. k \<in> set required \<or> k \<in> set optional) (map fst d) \<and>
     list_all (dhas d) required"

section \<open>IOSpec\<close>

record iospec =
  io_name :: pyval
  io_dtype :: pyval
  io_shape :: pyval
  io_layout :: pyval

text \<open>\<open>not str(v).strip()\<close>: no value but a blank string prints as one.\<close>

definition blank :: "pyval \<Rightarrow> bool" where
  "blank v = (case v of JStr s \<Rightarrow> strip s = [] | _ \<Rightarrow> False)"

definition mk_iospec :: "pyval \<Rightarrow> pyval \<Rightarrow> pyval \<Rightarrow> pyval \<Rightarrow> exc + iospec" where
  "mk_iospec name dtype shape layout =
     (if blank name then Inl (ValueError (Msg ''name is required'' []))
      else if blank dtype then Inl (ValueError (Msg ''dtype is required'' []))
      else if blank layout then Inl (ValueError (Msg ''layout is required'' []))
      else if is_None shape then Inl (ValueError (Msg ''shape is required'' []))
      else Inr \<lparr>io_name = name, io_dtype = dtype, io_shape = shape, io_layout = layout\<rparr>)"

definition iospec_to_dict :: "iospec \<Rightarrow> pydict" where
  "iospec_to_dict s =
     [(''name'', io_name s), (''dtype'', io_dtype s), (''shape'', io_shape s),
      (''layout'', io_layout s)]"

definition iospec_from_dict :: "pyval \<Rightarrow> exc + iospec" where
  "iospec_from_dict v = (case v of
      JDict d \<Rightarrow>
        if kwargs_ok [''name'', ''dtype'', ''shape'', ''layout''] [] d
        then mk_iospec (dget d ''name'') (dget d ''dtype'') (dget d ''shape'') (dget d ''layout'')
        else Inl TypeError
    | _ \<Rightarrow> Inl TypeError)"

definition iospec_ok :: "iospec \<Rightarrow> bool" where
  "iospec_ok s \<longleftrightarrow> \<not> blank (io_name s) \<and> \<not> blank (io_dtype s) \<and> \<not> blank (io_layout s) \<and>
     io_shape s \<noteq> JNone"

lemma mk_iospec_ok: "mk_iospec n d s l = Inr x \<Longrightarrow> iospec_ok x"
  by (auto simp: mk_iospec_def iospec_ok_def is_None_def split: if_splits)

lemma iospec_roundtrip: "iospec_ok s \<Longrightarrow> iospec_from_dict (JDict (iospec_to_dict s)) = Inr s"
  by (simp add: iospec_from_dict_def iospec_to_dict_def kwargs_ok_def dhas_def dget_def
      mk_iospec_def iospec_ok_def is_None_def)

section \<open>OperatorSpec\<close>

record opspec =
  os_operator_id :: pyval
  os_model_id :: pyval
  os_model_revision :: pyval
  os_plugin_revision :: pyval
  os_backend :: pyval
  os_inputs :: "iospec list"
  os_outputs :: "iospec list"
  os_semantics :: pyval
  os_evidence :: pyval
  os_environment :: pyval
  os_schema_version :: pyval

text \<open>The list comprehension of \<open>__post_init__\<close>: anything but a list of dictionaries
  raises \<open>TypeError\<close> (a string yields characters, a dictionary its keys).\<close>

definition io_list :: "pyval \<Rightarrow> exc + iospec list" where
  "io_list v = rbind (viter v) (rmapM iospec_from_dict)"

text \<open>The keyword arguments of the constructor before \<open>__post_init__\<close> has run.\<close>

record opspec_args =
  oa_operator_id :: pyval
  oa_model_id :: pyval
  oa_model_revision :: pyval
  oa_plugin_revision :: pyval
  oa_backend :: pyval
  oa_inputs :: pyval
  oa_outputs :: pyval
  oa_semantics :: pyval
  oa_evidence :: pyval
  oa_environment :: pyval
  oa_schema_version :: pyval

definition mk_opspec :: "opspec_args \<Rightarrow> exc + opspec" where
  "mk_opspec a =
     (if \<not> truthy (oa_operator_id a) \<or> \<not> truthy (oa_model_id a) \<or> \<not> truthy (oa_backend a)
      then Inl (ValueError (Msg ''operator_id, model_id and backend are required'' []))
      else if \<not> truthy (oa_inputs a) \<or> \<not> truthy (oa_outputs a)
      then Inl (ValueError (Msg ''inputs and outputs are required'' []))
      else if \<not> truthy (oa_semantics a)
      then Inl (ValueError (Msg ''semantics are required'' []))
      else rbind (io_list (oa_inputs a)) (\<lambda>ins.
           rbind (io_list (oa_outputs a)) (\<lambda>outs.
           if \<not> py_eq (oa_schema_version a) (JInt 1)
           then Inl (ValueError (Msg ''unsupported schema_version'' []))
           else Inr \<lparr>os_operator_id = oa_operator_id a, os_model_id = oa_model_id a,
                     os_model_revision = oa_model_revision a,
                     os_plugin_revision = oa_plugin_revision a, os_backend = oa_backend a,
                     os_inputs = ins, os_outputs = outs, os_semantics = oa_semantics a,
                     os_evidence = oa_evidence a, os_environment = oa_environment a,
                     os_schema_version = oa_schema_version a\<rparr>)))"

definition opspec_required :: "string list" where
  "opspec_required = [''operator_id'', ''model_id'', ''model_revision'', ''plugin_revision'',
     ''backend'', ''inputs'', ''outputs'', ''semantics'']"

definition opspec_optional :: "string list" where
  "opspec_optional = [''evidence'', ''environment'', ''schema_version'']"

definition opspec_to_dict :: "opspec \<Rightarrow> pydict" where
  "opspec_to_dict s =
     [(''operator_id'', os_operator_id s), (''model_id'', os_model_id s),
      (''model_revision'', os_model_revision s), (''plugin_revision'', os_plugin_revision s),
      (''backend'', os_backend s),
      (''inputs'', JList (map (\<lambda>x. JDict (iospec_to_dict x)) (os_inputs s))),
      (''outputs'', JList (map (\<lambda>x. JDict (iospec_to_dict x)) (os_outputs s))),
      (''semantics'', os_semantics s), (''evidence'', os_evidence s),
      (''environment'', os_environment s), (''schema_version'', os_schema_version s)]"

text \<open>\<open>from_dict\<close> drops a recorded \<open>operator_key\<close>: the key is always derived.\<close>

definition opspec_from_dict :: "pydict \<Rightarrow> exc + opspec" where
  "opspec_from_dict d0 =
     (let d = AList.delete ''operator_key'' d0 in
      if \<not> kwargs_ok opspec_required opspec_optional d then Inl TypeError
      else mk_opspec
        \<lparr>oa_operator_id = dget d ''operator_id'', oa_model_id = dget d ''model_id'',
         oa_model_revision = dget d ''model_revision'',
         oa_plugin_revision = dget d ''plugin_revision'', oa_backend = dget d ''backend'',
         oa_inputs = dget d ''inputs'', oa_outputs = dget d ''outputs'',
         oa_semantics = dget d ''semantics'',
         oa_evidence = dget_or d ''evidence'' (JDict []),
         oa_environment = dget_or d ''environment'' (JDict []),
         oa_schema_version = dget_or d ''schema_version'' (JInt 1)\<rparr>)"

text \<open>The key hashes what an implementation depends on; evidence and the operator's name are
  not part of it.\<close>

definition operator_key_body :: "opspec \<Rightarrow> pydict" where
  "operator_key_body s =
     [(''model_id'', os_model_id s), (''model_revision'', os_model_revision s),
      (''plugin_revision'', os_plugin_revision s), (''backend'', os_backend s),
      (''environment'', os_environment s), (''semantics'', os_semantics s),
      (''inputs'', JList (map (\<lambda>x. JDict (iospec_to_dict x)) (os_inputs s))),
      (''outputs'', JList (map (\<lambda>x. JDict (iospec_to_dict x)) (os_outputs s)))]"

definition operator_key :: "lib \<Rightarrow> opspec \<Rightarrow> string" where
  "operator_key L s = sha256 L (json_as L JsonCanonical (JDict (operator_key_body s)))"

definition opspec_ok :: "opspec \<Rightarrow> bool" where
  "opspec_ok s \<longleftrightarrow>
     truthy (os_operator_id s) \<and> truthy (os_model_id s) \<and> truthy (os_backend s) \<and>
     os_inputs s \<noteq> [] \<and> os_outputs s \<noteq> [] \<and> truthy (os_semantics s) \<and>
     list_all iospec_ok (os_inputs s) \<and> list_all iospec_ok (os_outputs s) \<and>
     py_eq (os_schema_version s) (JInt 1)"

lemma iospec_from_dict_ok: "iospec_from_dict v = Inr s \<Longrightarrow> iospec_ok s"
  by (auto simp: iospec_from_dict_def intro: mk_iospec_ok split: pyval.splits if_splits)

lemma io_list_ok: "io_list v = Inr xs \<Longrightarrow> list_all iospec_ok xs"
  by (auto simp: io_list_def rbind_eq_Inr rmapM_Inr_iff list_all2_conv_all_nth list_all_length
      intro: iospec_from_dict_ok)

lemma io_list_nonempty: "truthy v \<Longrightarrow> io_list v = Inr xs \<Longrightarrow> xs \<noteq> []"
  by (cases v) (auto simp: io_list_def viter_def rbind_eq_Inr rmapM_Inr_iff)

lemma io_list_to_dicts:
  "list_all iospec_ok xs \<Longrightarrow> io_list (JList (map (\<lambda>x. JDict (iospec_to_dict x)) xs)) = Inr xs"
proof -
  assume "list_all iospec_ok xs"
  then have "rmapM iospec_from_dict (map (\<lambda>x. JDict (iospec_to_dict x)) xs) = Inr xs"
    by (induction xs) (simp_all add: iospec_roundtrip)
  then show ?thesis by (simp add: io_list_def viter_def)
qed

lemma mk_opspec_ok:
  assumes "mk_opspec a = Inr s"
  shows "opspec_ok s"
  using assms
  by (auto simp: mk_opspec_def opspec_ok_def rbind_eq_Inr split: if_splits
      dest: io_list_ok io_list_nonempty)

lemma opspec_from_dict_ok: "opspec_from_dict d = Inr s \<Longrightarrow> opspec_ok s"
  by (auto simp: opspec_from_dict_def Let_def intro: mk_opspec_ok split: if_splits)

lemma opspec_roundtrip:
  assumes "opspec_ok s"
  shows "opspec_from_dict (opspec_to_dict s) = Inr s"
proof -
  have *: "AList.delete ''operator_key'' (opspec_to_dict s) = opspec_to_dict s"
    by (simp add: opspec_to_dict_def)
  show ?thesis
    using assms
    by (simp add: opspec_from_dict_def * Let_def)
       (simp add: opspec_to_dict_def kwargs_ok_def opspec_required_def opspec_optional_def
         dhas_def dget_def dget_or_def mk_opspec_def opspec_ok_def io_list_to_dicts)
qed

text \<open>Evidence does not enter the key, nor does the operator's name.\<close>

lemma operator_key_evidence:
  "operator_key L (s\<lparr>os_evidence := e, os_operator_id := i\<rparr>) = operator_key L s"
  by (simp add: operator_key_def operator_key_body_def)

section \<open>Tasks, events, runs\<close>

datatype stage = Torch | Xpu | Integration | Diagnosis
datatype tstatus = Pending | Running | Succeeded | Failed

fun stage_name :: "stage \<Rightarrow> string" where
  "stage_name Torch = ''torch''"
| "stage_name Xpu = ''xpu''"
| "stage_name Integration = ''integration''"
| "stage_name Diagnosis = ''diagnosis''"

definition parse_stage :: "string \<Rightarrow> stage option" where
  "parse_stage s = find (\<lambda>g. stage_name g = s) [Torch, Xpu, Integration, Diagnosis]"

lemma parse_stage_name [simp]: "parse_stage (stage_name g) = Some g"
  by (cases g) (simp_all add: parse_stage_def)

text \<open>\<open>_STAGES\<close>: the stage before and the stage after.\<close>

fun prev_stage :: "stage \<Rightarrow> stage option" where
  "prev_stage Xpu = Some Torch"
| "prev_stage Integration = Some Xpu"
| "prev_stage _ = None"

fun next_stage :: "stage \<Rightarrow> stage option" where
  "next_stage Torch = Some Xpu"
| "next_stage Xpu = Some Integration"
| "next_stage _ = None"

lemma next_prev_stage: "next_stage g = Some h \<longleftrightarrow> prev_stage h = Some g"
  by (cases g; cases h) auto

text \<open>The view of a queue row that workers receive: an \<open>OperatorTask\<close>, or a
  \<open>DiagnosticTask\<close>, whose \<open>t_source\<close> names the failed task.\<close>

record task =
  t_id :: string
  t_run :: string
  t_key :: string
  t_stage :: stage
  t_status :: tstatus
  t_attempt :: int
  t_input :: pydict
  t_output :: pydict
  t_token :: "string option"
  t_expires :: "rat option"
  t_source :: "string option"

definition is_diagnostic :: "task \<Rightarrow> bool" where
  "is_diagnostic t \<longleftrightarrow> t_source t \<noteq> None"

record event =
  ev_id :: string
  ev_run :: string
  ev_type :: string
  ev_task :: "string option"
  ev_payload :: pydict
  ev_time :: rat

record run =
  r_id :: string
  r_model :: string
  r_model_revision :: string
  r_plugin_revision :: string
  r_backend :: string
  r_status :: string
  r_environment :: pydict
  r_metadata :: pydict
  r_created :: rat
  r_updated :: rat

section \<open>BugReport\<close>

record bug =
  b_source :: string
  b_type :: string
  b_message :: string
  b_traceback :: pyval
  b_context :: pydict
  b_occurred :: pyfloat
  b_metadata :: pydict
  b_schema :: int

definition bug_to_dict :: "bug \<Rightarrow> pydict" where
  "bug_to_dict b =
     [(''source_task_id'', JStr (b_source b)), (''error_type'', JStr (b_type b)),
      (''message'', JStr (b_message b)), (''traceback'', b_traceback b),
      (''context'', JDict (b_context b)), (''occurred_at'', JFloat (b_occurred b)),
      (''metadata'', JDict (b_metadata b)), (''schema_version'', JInt (b_schema b))]"

text \<open>\<open>BugReport.from_error\<close> on a dictionary: the conventional fields are popped one after
  the other, what is left joins the metadata. \<open>error_type\<close>'s default pops \<open>type\<close> first,
  because Python evaluates the default before the call.\<close>

definition bug_from_dict :: "lib \<Rightarrow> string \<Rightarrow> pydict \<Rightarrow> rat \<Rightarrow> exc + bug" where
  "bug_from_dict L source_task_id d now =
     (let (source, d1) = dpop d ''source_task_id'' (JStr source_task_id);
          (ty, d2) = dpop d1 ''type'' (JStr ''unknown'');
          (error_type, d3) = dpop d2 ''error_type'' ty;
          (message, d4) = dpop d3 ''message'' JNone;
          (message', d5) = (if is_None message then dpop d4 ''error'' (JStr []) else (message, d4));
          (traceback, d6) = dpop d5 ''traceback'' JNone;
          (context, d7) = dpop d6 ''context'' (JDict [])
      in rbind (py_dict (py_or context (JDict []))) (\<lambda>ctx.
         let (occurred, d8) = dpop d7 ''occurred_at'' (JFloat (Fin now)) in
         rbind (py_float L occurred) (\<lambda>occ.
         let (schema, d9) = dpop d8 ''schema_version'' (JInt 1) in
         rbind (py_int L schema) (\<lambda>ver.
         let (meta, d10) = dpop d9 ''metadata'' (JDict []) in
         rbind (py_dict (py_or meta (JDict []))) (\<lambda>m.
         Inr \<lparr>b_source = py_str L source, b_type = py_str L error_type,
              b_message = py_str L message', b_traceback = traceback, b_context = ctx,
              b_occurred = occ, b_metadata = dmerge m d10, b_schema = ver\<rparr>)))))"

text \<open>A failure argument is a \<open>BugReport\<close>, a dictionary, or any other value, whose
  \<open>str\<close> becomes the message (empty for a falsy one).\<close>

datatype failure = FReport bug | FValue pyval

definition bug_from_error :: "lib \<Rightarrow> string \<Rightarrow> failure \<Rightarrow> rat \<Rightarrow> exc + bug" where
  "bug_from_error L source_task_id e now = (case e of
      FReport b \<Rightarrow> Inr b
    | FValue (JDict d) \<Rightarrow> bug_from_dict L source_task_id d now
    | FValue v \<Rightarrow> Inr \<lparr>b_source = source_task_id, b_type = ''unknown'',
         b_message = py_str L (py_or v (JStr [])), b_traceback = JNone, b_context = [],
         b_occurred = Fin now, b_metadata = [], b_schema = 1\<rparr>)"

text \<open>A report that is written out and normalised again comes back unchanged.\<close>

lemma bug_roundtrip: "bug_from_dict L x (bug_to_dict b) now = Inr b"
proof -
  have [simp]: "dmerge m [] = m" for m by (simp add: dmerge_def)
  have [simp]: "py_or (JDict m) (JDict []) = JDict m" for m by (simp add: py_or_def)
  show ?thesis
    by (simp add: bug_from_dict_def bug_to_dict_def dpop_def dget_or_def is_None_def Let_def)
qed

end
