(* ===== verification/Files.thy ===== *)
theory Files
  imports Lib
begin

text \<open>
  The file system as the program sees it through \<open>pathlib\<close> and \<open>os\<close>: a finite table from
  absolute paths (lists of names, the root is the empty list) to directories, files with their
  bytes, and symbolic links; and the system state \<open>os\<close> that every action of the program reads
  and writes: the files, and how many clock readings and fresh identifiers have been drawn.

  \<open>Path.resolve()\<close> follows links component by component. A chain of more than
  \<open>link_fuel\<close> links is taken as a loop (\<open>RuntimeError\<close>). Disk and permission failures are
  not represented: a write fails only where the table makes it fail.
\<close>

datatype node = Dir | File string | Link bool path

type_synonym fs = "(path \<times> node) list"

record os =
  files :: fs
  clock_reads :: nat
  ids_drawn :: nat

section \<open>Reading the table\<close>

definition node_at :: "fs \<Rightarrow> path \<Rightarrow> node option" where
  "node_at f p = (if p = [] then Some Dir else map_of f p)"

definition link_fuel :: nat where "link_fuel = 40"

function resolve_from :: "nat \<Rightarrow> fs \<Rightarrow> path \<Rightarrow> path \<Rightarrow> path option" where
  "resolve_from n f done [] = Some done"
| "resolve_from n f done (c # cs) =
     (if c = ''..'' then resolve_from n f (butlast done) cs
      else (case node_at f (done @ [c]) of
          Some (Link ab target) \<Rightarrow>
            (if n = 0 then None
             else resolve_from (n - 1) f (if ab then [] else done) (target @ cs))
        | _ \<Rightarrow> resolve_from n f (done @ [c]) cs))"
  by pat_completeness auto
termination
  by (relation "measures [\<lambda>(n, f, d, r). n, \<lambda>(n, f, d, r). length r]") auto

definition full :: "fs \<Rightarrow> path \<Rightarrow> path option" where
  "full f p = resolve_from link_fuel f [] p"

definition resolve :: "fs \<Rightarrow> path \<Rightarrow> exc + path" where
  "resolve f p = (case full f p of
      None \<Rightarrow> Inl (RuntimeError (Msg ''Symlink loop'' []))
    | Some q \<Rightarrow> Inr q)"

text \<open>\<open>lpath\<close> follows every link but a last component that is one.\<close>

definition lpath :: "fs \<Rightarrow> path \<Rightarrow> path option" where
  "lpath f p = (if p = [] \<or> last p = ''..'' then full f p
     else map_option (\<lambda>q. q @ [last p]) (full f (butlast p)))"

definition lstat :: "fs \<Rightarrow> path \<Rightarrow> node option" where
  "lstat f p = Option.bind (lpath f p) (node_at f)"

definition stat :: "fs \<Rightarrow> path \<Rightarrow> node option" where
  "stat f p = Option.bind (full f p) (node_at f)"

definition is_symlink :: "fs \<Rightarrow> path \<Rightarrow> bool" where
  "is_symlink f p = (case lstat f p of Some (Link _ _) \<Rightarrow> True | _ \<Rightarrow> False)"

definition is_file :: "fs \<Rightarrow> path \<Rightarrow> bool" where
  "is_file f p = (case stat f p of Some (File _) \<Rightarrow> True | _ \<Rightarrow> False)"

definition path_exists :: "fs \<Rightarrow> path \<Rightarrow> bool" where
  "path_exists f p = (stat f p \<noteq> None)"

definition read_bytes :: "fs \<Rightarrow> path \<Rightarrow> exc + string" where
  "read_bytes f p = (case stat f p of
      Some (File c) \<Rightarrow> Inr c
    | _ \<Rightarrow> Inl (OSError (Msg ''cannot read'' [])))"

text \<open>\<open>Path(s)\<close>: an absolute flag and the components, empty and \<open>.\<close> ones dropped.\<close>

fun split_slash :: "string \<Rightarrow> string \<Rightarrow> string list" where
  "split_slash acc [] = [rev acc]"
| "split_slash acc (c # s) =
     (if c = CHR ''/'' then rev acc # split_slash [] s else split_slash (c # acc) s)"

definition path_parts :: "string \<Rightarrow> path" where
  "path_parts s = filter (\<lambda>c. c \<noteq> [] \<and> c \<noteq> ''.'') (split_slash [] s)"

definition is_absolute :: "string \<Rightarrow> bool" where
  "is_absolute s = (s \<noteq> [] \<and> hd s = CHR ''/'')"

text \<open>The location a path string names before links are followed: relative ones start in
  the working directory.\<close>

definition locate :: "lib \<Rightarrow> string \<Rightarrow> path" where
  "locate L s = (if is_absolute s then path_parts s else cwd L @ path_parts s)"

text \<open>\<open>Path(s).expanduser()\<close>; other users' home directories are not represented.\<close>

definition expand_user :: "lib \<Rightarrow> string \<Rightarrow> exc + path" where
  "expand_user L s =
     (case path_parts s of
        (CHR ''~'' # u) # rest \<Rightarrow>
          if is_absolute s then Inr (path_parts s)
          else if u = [] then Inr (home L @ rest)
          else Inl (RuntimeError (Msg ''Could not determine home directory'' []))
      | _ \<Rightarrow> Inr (locate L s))"

text \<open>\<open>str(path)\<close> of an absolute path.\<close>

fun join_parts :: "path \<Rightarrow> string" where
  "join_parts [] = []"
| "join_parts (c # cs) = CHR ''/'' # c @ join_parts cs"

definition path_str :: "path \<Rightarrow> string" where
  "path_str p = (if p = [] then ''/'' else join_parts p)"

text \<open>\<open>a.is_relative_to(b)\<close> and \<open>b in a.parents\<close>.\<close>

definition under :: "path \<Rightarrow> path \<Rightarrow> bool" where
  "under a b = prefix b a"

definition strictly_under :: "path \<Rightarrow> path \<Rightarrow> bool" where
  "strictly_under a b = strict_prefix b a"

section \<open>Changing the table\<close>

definition set_node :: "fs \<Rightarrow> path \<Rightarrow> node \<Rightarrow> fs" where
  "set_node f p x = AList.update p x f"

definition parent_is_dir :: "fs \<Rightarrow> path \<Rightarrow> bool" where
  "parent_is_dir f p = (p \<noteq> [] \<and> node_at f (butlast p) = Some Dir)"

definition FileExistsError :: exc where
  "FileExistsError = OSError (Msg ''File exists'' [])"

definition NoParentError :: exc where
  "NoParentError = OSError (Msg ''No such file or directory'' [])"

text \<open>\<open>path.mkdir()\<close>\<close>

definition mkdir :: "path \<Rightarrow> fs \<Rightarrow> exc + fs" where
  "mkdir p f = (case lpath f p of
      None \<Rightarrow> Inl (OSError (Msg ''Too many levels of symbolic links'' []))
    | Some q \<Rightarrow>
        if node_at f q \<noteq> None then Inl FileExistsError
        else if \<not> parent_is_dir f q then Inl NoParentError
        else Inr (set_node f q Dir))"

text \<open>\<open>path.mkdir(parents=True, exist_ok=True)\<close>: each missing ancestor, then the path.\<close>

fun mkdirs :: "path list \<Rightarrow> fs \<Rightarrow> exc + fs" where
  "mkdirs [] f = Inr f"
| "mkdirs (p # ps) f =
     (if stat f p = Some Dir then mkdirs ps f else rbind (mkdir p f) (mkdirs ps))"

definition mkdir_parents :: "path \<Rightarrow> fs \<Rightarrow> exc + fs" where
  "mkdir_parents p f = mkdirs (prefixes p) f"

text \<open>The net effect of \<open>_atomic_text\<close>: the complete content appears at the path, by
  \<open>os.replace\<close> (which replaces a file or a link) or by \<open>os.link\<close> (which refuses an
  existing name). The temporary name is removed on every path.\<close>

definition put_file :: "path \<Rightarrow> string \<Rightarrow> bool \<Rightarrow> fs \<Rightarrow> exc + fs" where
  "put_file p content overwrite f = (case lpath f p of
      None \<Rightarrow> Inl (OSError (Msg ''Too many levels of symbolic links'' []))
    | Some q \<Rightarrow>
        if \<not> parent_is_dir f q then Inl NoParentError
        else if \<not> overwrite \<and> node_at f q \<noteq> None then Inl FileExistsError
        else if node_at f q = Some Dir then Inl (OSError (Msg ''Is a directory'' []))
        else Inr (set_node f q (File content)))"

section \<open>Actions\<close>

definition now :: "lib \<Rightarrow> ('a os_scheme, exc, rat) act" where
  "now L = (\<lambda>w. (Inr (clk L (clock_reads w)), w\<lparr>clock_reads := Suc (clock_reads w)\<rparr>))"

definition draw_uuid :: "lib \<Rightarrow> ('a os_scheme, exc, string) act" where
  "draw_uuid L = (\<lambda>w. (Inr (uuid L (ids_drawn w)), w\<lparr>ids_drawn := Suc (ids_drawn w)\<rparr>))"

definition draw_token :: "lib \<Rightarrow> ('a os_scheme, exc, string) act" where
  "draw_token L = (\<lambda>w. (Inr (token L (ids_drawn w)), w\<lparr>ids_drawn := Suc (ids_drawn w)\<rparr>))"

definition fsop :: "(fs \<Rightarrow> exc + fs) \<Rightarrow> ('a os_scheme, exc, unit) act" where
  "fsop g = (\<lambda>w. case g (files w) of
      Inl e \<Rightarrow> (Inl e, w)
    | Inr f \<Rightarrow> (Inr (), w\<lparr>files := f\<rparr>))"

lemma wp_now [wp_rules]:
  "wp (now L) Q E w = Q (clk L (clock_reads w)) (w\<lparr>clock_reads := Suc (clock_reads w)\<rparr>)"
  by (simp add: wp_def now_def)

lemma wp_draw_uuid [wp_rules]:
  "wp (draw_uuid L) Q E w = Q (uuid L (ids_drawn w)) (w\<lparr>ids_drawn := Suc (ids_drawn w)\<rparr>)"
  by (simp add: wp_def draw_uuid_def)

lemma wp_draw_token [wp_rules]:
  "wp (draw_token L) Q E w = Q (token L (ids_drawn w)) (w\<lparr>ids_drawn := Suc (ids_drawn w)\<rparr>)"
  by (simp add: wp_def draw_token_def)

lemma wp_fsop [wp_rules]:
  "wp (fsop g) Q E w =
     (case g (files w) of Inl e \<Rightarrow> E e w | Inr f \<Rightarrow> Q () (w\<lparr>files := f\<rparr>))"
  by (simp add: wp_def fsop_def split: sum.splits)

lemma fsop_returns [res_elims]:
  "fsop g w = (Inr u, w') \<longleftrightarrow> (\<exists>f. g (files w) = Inr f \<and> w' = w\<lparr>files := f\<rparr>)"
  by (cases u) (auto simp: fsop_def split: sum.splits)

section \<open>Facts\<close>

text \<open>Every entry of a sound table has a directory above it.\<close>

definition fs_ok :: "fs \<Rightarrow> bool" where
  "fs_ok f \<longleftrightarrow> (\<forall>p x. map_of f p = Some x \<longrightarrow> p \<noteq> [] \<and> node_at f (butlast p) = Some Dir)"

lemma node_at_set_node [simp]:
  "p \<noteq> [] \<Longrightarrow> node_at (set_node f p x) q = (if q = p then Some x else node_at f q)"
  by (auto simp: node_at_def set_node_def update_conv')

lemma node_at_Nil [simp]: "node_at f [] = Some Dir"
  by (simp add: node_at_def)

lemma fs_ok_set_node:
  assumes "fs_ok f" "parent_is_dir f p" "node_at f p \<noteq> Some Dir \<or> x = Dir"
  shows "fs_ok (set_node f p x)"
proof -
  have p: "p \<noteq> []" "node_at f (butlast p) = Some Dir"
    using assms(2) by (auto simp: parent_is_dir_def)
  have "butlast p \<noteq> p" using p(1) by (metis append_butlast_last_id not_Cons_self2 self_append_conv)
  show ?thesis
    unfolding fs_ok_def
  proof (intro allI impI)
    fix q y assume q: "map_of (set_node f p x) q = Some y"
    show "q \<noteq> [] \<and> node_at (set_node f p x) (butlast q) = Some Dir"
    proof (cases "q = p")
      case True
      then show ?thesis using p \<open>butlast p \<noteq> p\<close> by simp
    next
      case False
      then have "map_of f q = Some y" using q by (simp add: set_node_def update_conv')
      then have *: "q \<noteq> []" "node_at f (butlast q) = Some Dir"
        using assms(1) by (auto simp: fs_ok_def)
      then show ?thesis using p(1) assms(3) by auto
    qed
  qed
qed

lemma parent_is_dir_append [simp]:
  "parent_is_dir f (d @ [c]) \<longleftrightarrow> node_at f d = Some Dir"
  by (simp add: parent_is_dir_def)

lemma under_refl [simp]: "under p p"
  by (simp add: under_def)

text \<open>A path without links on the way resolves to itself.\<close>

definition link_free :: "fs \<Rightarrow> path \<Rightarrow> bool" where
  "link_free f p \<longleftrightarrow>
     ''..'' \<notin> set p \<and> (\<forall>q ab t. prefix q p \<longrightarrow> node_at f q \<noteq> Some (Link ab t))"

lemma resolve_from_link_free:
  "link_free f (d @ r) \<Longrightarrow> resolve_from n f d r = Some (d @ r)"
proof (induction r arbitrary: d)
  case Nil
  then show ?case by simp
next
  case (Cons c cs)
  have "prefix (d @ [c]) (d @ c # cs)" by simp
  then have *: "node_at f (d @ [c]) \<noteq> Some (Link ab t)" for ab t
    using Cons.prems by (auto simp: link_free_def)
  have c: "c \<noteq> ''..''" using Cons.prems by (auto simp: link_free_def)
  have "resolve_from n f (d @ [c]) cs = Some (d @ c # cs)"
    using Cons.IH[of "d @ [c]"] Cons.prems by simp
  then show ?case using * c by (auto split: option.splits node.splits)
qed

lemma full_link_free: "link_free f p \<Longrightarrow> full f p = Some p"
  using resolve_from_link_free[of f "[]" p] by (simp add: full_def)

lemma link_free_butlast: "link_free f p \<Longrightarrow> link_free f (butlast p)"
  by (auto simp: link_free_def prefix_order.trans[OF _ prefixeq_butlast] dest: in_set_butlastD)

lemma lpath_link_free:
  assumes "link_free f p"
  shows "lpath f p = Some p"
proof (cases "p = []")
  case True
  then show ?thesis using full_link_free[OF assms] by (simp add: lpath_def)
next
  case False
  then have "last p \<noteq> ''..''" using assms last_in_set[of p] by (metis link_free_def)
  then show ?thesis using False
    by (simp add: lpath_def full_link_free link_free_butlast assms)
qed

lemma is_symlink_link_free: "link_free f p \<Longrightarrow> \<not> is_symlink f p"
  by (auto simp: is_symlink_def lstat_def lpath_link_free link_free_def split: option.splits node.splits)

lemma stat_link_free: "link_free f p \<Longrightarrow> stat f p = node_at f p"
  by (simp add: stat_def full_link_free)

lemma resolve_link_free: "link_free f p \<Longrightarrow> resolve f p = Inr p"
  by (simp add: resolve_def full_link_free)

text \<open>Parsing a printed path gives it back, when its components are proper names.\<close>

definition name_ok :: "string \<Rightarrow> bool" where
  "name_ok c \<longleftrightarrow> c \<noteq> [] \<and> c \<noteq> ''.'' \<and> CHR ''/'' \<notin> set c"

lemma split_slash_name:
  "CHR ''/'' \<notin> set c \<Longrightarrow>
     split_slash acc (c @ s) = (case s of [] \<Rightarrow> [rev acc @ c] | _ \<Rightarrow> split_slash (rev c @ acc) s)"
  by (induction c arbitrary: acc) (auto split: list.splits)

lemma split_slash_join:
  "list_all name_ok p \<Longrightarrow> p \<noteq> [] \<Longrightarrow> split_slash acc (join_parts p) = rev acc # p"
proof (induction p arbitrary: acc)
  case Nil
  then show ?case by simp
next
  case (Cons c cs)
  have c: "CHR ''/'' \<notin> set c" using Cons.prems by (simp add: name_ok_def)
  show ?case
  proof (cases cs)
    case Nil
    then show ?thesis using split_slash_name[OF c, of "[]" "[]"] by simp
  next
    case (Cons b bs)
    then have "split_slash (rev c) (join_parts cs) = c # cs"
      using Cons.IH[of "rev c"] Cons.prems by simp
    then show ?thesis using Cons split_slash_name[OF c, of "[]" "join_parts cs"] by simp
  qed
qed

lemma path_parts_path_str:
  assumes "list_all name_ok p"
  shows "path_parts (path_str p) = p"
proof (cases "p = []")
  case True
  then show ?thesis by (simp add: path_str_def path_parts_def)
next
  case False
  have "filter (\<lambda>c. c \<noteq> [] \<and> c \<noteq> ''.'') p = p"
    using assms by (auto simp: filter_id_conv list_all_iff name_ok_def)
  then show ?thesis
    using False split_slash_join[OF assms False, of "[]"] by (simp add: path_str_def path_parts_def)
qed

end
