(* ===== verification/Storage.thy ===== *)
theory Storage
  imports Files
begin

text \<open>
  \<open>core/storage.py\<close>: the policy that runtime files stay outside the source repository
  (\<open>ensure_external\<close>), the directory name of an identity (\<open>safe_component\<close>), the layout
  of a run (\<open>RunPaths\<close>: identity marker, one fresh directory per attempt), the walk from a
  file back to its attempt and the artifact inventory follow in \<open>Artifacts\<close>.
\<close>

section \<open>ensure\_external\<close>

definition ensure_external_path :: "lib \<Rightarrow> fs \<Rightarrow> path \<Rightarrow> exc + path" where
  "ensure_external_path L f p =
     rbind (resolve f p) (\<lambda>candidate.
     rbind (resolve f (repo_root L)) (\<lambda>source.
     if candidate = source \<or> strictly_under candidate source \<or> strictly_under source candidate
     then Inl (WritePolicyError (Msg ''runtime path overlaps the source repository'' []))
     else rbind (resolve f (home L)) (\<lambda>h.
     if candidate = h \<or> candidate = []
     then Inl (WritePolicyError (Msg ''runtime path must be a dedicated directory'' []))
     else Inr candidate)))"

definition ensure_external :: "lib \<Rightarrow> fs \<Rightarrow> string \<Rightarrow> exc + path" where
  "ensure_external L f s = rbind (expand_user L s) (ensure_external_path L f)"

text \<open>\<open>default_state_root()\<close>: an empty variable counts as unset.\<close>

definition default_state_root :: "lib \<Rightarrow> fs \<Rightarrow> exc + path" where
  "default_state_root L f =
     (case state_root_env L of
        Some (c # s) \<Rightarrow> ensure_external L f (c # s)
      | _ \<Rightarrow>
        (case xdg_state_env L of
           Some (c # s) \<Rightarrow>
             rbind (expand_user L (c # s)) (\<lambda>b. ensure_external_path L f (b @ [''infer-forge'']))
         | _ \<Rightarrow> ensure_external_path L f (home L @ [''.local'', ''state'', ''infer-forge''])))"

section \<open>safe\_component\<close>

definition is_alnum :: "char \<Rightarrow> bool" where
  "is_alnum c = (let n = of_char c :: nat in
     (48 \<le> n \<and> n \<le> 57) \<or> (65 \<le> n \<and> n \<le> 90) \<or> (97 \<le> n \<and> n \<le> 122))"

definition is_safe_char :: "char \<Rightarrow> bool" where
  "is_safe_char c \<longleftrightarrow> is_alnum c \<or> c = CHR ''_'' \<or> c = CHR ''.'' \<or> c = CHR ''-''"

text \<open>\<open>[a-zA-Z0-9][a-zA-Z0-9_.-]{0,95}\<close>\<close>

definition simple_name :: "string \<Rightarrow> bool" where
  "simple_name s = (case s of [] \<Rightarrow> False
     | c # t \<Rightarrow> is_alnum c \<and> list_all is_safe_char t \<and> length t \<le> 95)"

text \<open>\<open>re.sub(r"[^a-zA-Z0-9_.-]+", "-", s)\<close>: a maximal run of other characters becomes one
  dash; the flag says that the previous character was one of them.\<close>

fun dash_runs :: "bool \<Rightarrow> string \<Rightarrow> string" where
  "dash_runs _ [] = []"
| "dash_runs b (c # s) =
     (if is_safe_char c then c # dash_runs False s
      else if b then dash_runs True s
      else CHR ''-'' # dash_runs True s)"

text \<open>\<open>s.encode()\<close>: UTF-8.\<close>

definition utf8_char :: "char \<Rightarrow> string" where
  "utf8_char c = (let n = of_char c :: nat in
     if n < 128 then [c] else [char_of (192 + n div 64), char_of (128 + n mod 64)])"

definition utf8 :: "string \<Rightarrow> string" where
  "utf8 s = concat (map utf8_char s)"

definition safe_stem :: "string \<Rightarrow> string" where
  "safe_stem v =
     (let s = take 64 (strip_chars (\<lambda>c. c = CHR ''.'' \<or> c = CHR ''-'') (dash_runs False v))
      in if s = [] then ''id'' else s)"

definition safe_component :: "lib \<Rightarrow> string \<Rightarrow> exc + string" where
  "safe_component L v =
     (if strip v = []
      then Inl (WritePolicyError (Msg ''run and task identities must be nonempty strings'' []))
      else if simple_name v then Inr v
      else Inr (safe_stem v @ ''-'' @ take 12 (sha256 L (utf8 v))))"

text \<open>A safe component is one name of a directory entry.\<close>

lemma is_safe_char_no_slash: "is_safe_char c \<Longrightarrow> c \<noteq> CHR ''/''"
  by (auto simp: is_safe_char_def is_alnum_def)

lemma dash_runs_safe: "list_all is_safe_char (dash_runs b s)"
  by (induction b s rule: dash_runs.induct) (auto simp: is_safe_char_def)

lemma safe_stem_safe: "list_all is_safe_char (safe_stem v)"
proof -
  have "set (strip_chars p (dash_runs False v)) \<subseteq> set (dash_runs False v)" for p
    by (rule set_strip_chars)
  then have "list_all is_safe_char (take 64 (strip_chars p (dash_runs False v)))" for p
    using dash_runs_safe[of False v] by (auto simp: list_all_iff dest: in_set_takeD)
  then show ?thesis by (auto simp: safe_stem_def Let_def is_safe_char_def is_alnum_def)
qed

lemma safe_stem_nonempty: "safe_stem v \<noteq> []"
  by (simp add: safe_stem_def Let_def)

lemma safe_stem_length: "length (safe_stem v) \<le> 64"
  by (auto simp: safe_stem_def Let_def)

definition hex_hash :: "lib \<Rightarrow> bool" where
  "hex_hash L \<longleftrightarrow> (\<forall>s. length (sha256 L s) = 64 \<and> list_all is_alnum (sha256 L s))"

lemma is_alnum_safe: "is_alnum c \<Longrightarrow> is_safe_char c"
  by (simp add: is_safe_char_def)

lemma simple_name_safe: "simple_name s \<Longrightarrow> list_all is_safe_char s \<and> s \<noteq> [] \<and> length s \<le> 96"
  by (cases s) (auto simp: simple_name_def is_alnum_safe)

lemma safe_component_chars:
  assumes "hex_hash L" "safe_component L v = Inr c"
  shows "list_all is_safe_char c \<and> c \<noteq> [] \<and> length c \<le> 96"
proof (cases "simple_name v")
  case True
  then have "c = v" using assms(2) by (auto simp: safe_component_def split: if_splits)
  then show ?thesis using simple_name_safe[OF True] by simp
next
  case False
  then have c: "c = safe_stem v @ ''-'' @ take 12 (sha256 L (utf8 v))"
    using assms(2) by (auto simp: safe_component_def split: if_splits)
  have "list_all is_alnum (sha256 L (utf8 v))" using assms(1) by (simp add: hex_hash_def)
  then have "list_all is_safe_char (take 12 (sha256 L (utf8 v)))"
    by (auto simp: list_all_iff is_alnum_safe dest: in_set_takeD)
  then show ?thesis
    using c safe_stem_safe[of v] safe_stem_length[of v] by (auto simp: is_safe_char_def)
qed

lemma safe_component_name:
  assumes "hex_hash L" "safe_component L v = Inr c"
  shows "name_ok c \<and> c \<noteq> ''..''"
proof -
  have safe: "list_all is_safe_char c" "c \<noteq> []" using safe_component_chars[OF assms] by auto
  have "CHR ''/'' \<notin> set c" using safe(1) is_safe_char_no_slash by (auto simp: list_all_iff)
  moreover have "c \<noteq> ''.'' \<and> c \<noteq> ''..''"
  proof (cases "simple_name v")
    case True
    then have "c = v" using assms(2) by (auto simp: safe_component_def split: if_splits)
    then show ?thesis using True by (auto simp: simple_name_def is_alnum_def)
  next
    case False
    then have c: "c = safe_stem v @ ''-'' @ take 12 (sha256 L (utf8 v))"
      using assms(2) by (auto simp: safe_component_def split: if_splits)
    have "length (sha256 L (utf8 v)) = 64" using assms(1) by (simp add: hex_hash_def)
    then have "13 \<le> length c" using c by simp
    then show ?thesis by auto
  qed
  ultimately show ?thesis using safe(2) by (simp add: name_ok_def)
qed

section \<open>Run layout\<close>

record attempt =
  a_root :: path
  a_run :: string
  a_task :: string
  a_number :: string

definition a_input :: "attempt \<Rightarrow> path" where "a_input a = a_root a @ [''input'']"
definition a_scratch :: "attempt \<Rightarrow> path" where "a_scratch a = a_root a @ [''scratch'']"
definition a_output :: "attempt \<Rightarrow> path" where "a_output a = a_root a @ [''output'']"
definition a_logs :: "attempt \<Rightarrow> path" where "a_logs a = a_root a @ [''logs'']"

record run_paths =
  rp_root :: path
  rp_run :: "string option"

text \<open>\<open>RunPaths(root, run_id)\<close> and \<open>RunPaths.for_run(run_id)\<close>.\<close>

definition mk_run_paths :: "lib \<Rightarrow> fs \<Rightarrow> path \<Rightarrow> string option \<Rightarrow> exc + run_paths" where
  "mk_run_paths L f dir run =
     rbind (ensure_external_path L f dir) (\<lambda>r.
     case run of
       None \<Rightarrow> Inr \<lparr>rp_root = r, rp_run = None\<rparr>
     | Some x \<Rightarrow> rbind (safe_component L x) (\<lambda>_. Inr \<lparr>rp_root = r, rp_run = Some x\<rparr>))"

definition run_paths_for :: "lib \<Rightarrow> fs \<Rightarrow> string \<Rightarrow> exc + run_paths" where
  "run_paths_for L f run =
     rbind (default_state_root L f) (\<lambda>base.
     rbind (safe_component L run) (\<lambda>c.
     mk_run_paths L f (base @ [''runs'', c]) (Some run)))"

definition rp_journal :: "run_paths \<Rightarrow> path" where "rp_journal p = rp_root p @ [''journal.jsonl'']"
definition rp_memory :: "run_paths \<Rightarrow> path" where "rp_memory p = rp_root p @ [''task_memory.json'']"
definition rp_state :: "run_paths \<Rightarrow> path" where "rp_state p = rp_root p @ [''state.sqlite'']"

text \<open>The run a marker file names, or the \<open>WritePolicyError\<close> that rejects it.\<close>

definition marker_run :: "lib \<Rightarrow> string option \<Rightarrow> string \<Rightarrow> exc + string" where
  "marker_run L wanted content =
     (case json_loads L content of
        None \<Rightarrow> Inl (WritePolicyError (Msg ''cannot read run identity'' []))
      | Some (JDict d) \<Rightarrow>
          if \<not> py_eq (dget d ''schema_version'') (JInt 1)
          then Inl (WritePolicyError (Msg ''unsupported run identity'' []))
          else (case dget d ''run_id'' of
              JStr x \<Rightarrow>
                if strip x = [] \<or> (wanted \<noteq> None \<and> wanted \<noteq> Some x)
                then Inl (WritePolicyError (Msg ''run identity conflicts'' []))
                else Inr x
            | _ \<Rightarrow> Inl (WritePolicyError (Msg ''run identity conflicts'' [])))
      | Some _ \<Rightarrow> Inl (WritePolicyError (Msg ''unsupported run identity'' [])))"

text \<open>\<open>initialize\<close>: create the run directory, adopt the identity of an existing marker or
  publish a complete one exclusively. The retry after a lost race is the same call again; here
  nothing can change between the test and the publication.\<close>

definition run_initialize :: "lib \<Rightarrow> run_paths \<Rightarrow> ('a os_scheme, exc, string) act" where
  "run_initialize L rp =
     actbind (actreadR (\<lambda>w. ensure_external_path L (files w) (rp_root rp))) (\<lambda>_.
     actbind (fsop (mkdir_parents (rp_root rp))) (\<lambda>_.
     let marker = rp_root rp @ [''run.json''] in
     actbind (actread files) (\<lambda>f.
     if is_symlink f marker
     then actraise (WritePolicyError (Msg ''run identity cannot be a symlink'' []))
     else if path_exists f marker
     then (case read_bytes f marker of
         Inl _ \<Rightarrow> actraise (WritePolicyError (Msg ''cannot read run identity'' []))
       | Inr c \<Rightarrow> actlift (marker_run L (rp_run rp) c))
     else
       actbind (case rp_run rp of Some x \<Rightarrow> actret x | None \<Rightarrow> draw_uuid L) (\<lambda>x.
       actbind (fsop (put_file marker
         (json_dumps L (JDict [(''schema_version'', JInt 1), (''run_id'', JStr x)])) False)) (\<lambda>_.
       actret x)))))"

text \<open>\<open>f"{number:06d}"\<close> and the first unused number, found by trying \<open>mkdir\<close> upwards. The
  fuel is one more than the entries of the table, which is always enough
  (\<open>free_number_enough\<close>).\<close>

definition pad6 :: "nat \<Rightarrow> string" where
  "pad6 n = replicate (6 - length (dec n)) (CHR ''0'') @ dec n"

fun free_number :: "nat \<Rightarrow> fs \<Rightarrow> path \<Rightarrow> nat \<Rightarrow> nat option" where
  "free_number 0 f parent n = None"
| "free_number (Suc k) f parent n =
     (if lstat f (parent @ [pad6 n]) = None then Some n else free_number k f parent (Suc n))"

definition attempt_identity :: "attempt \<Rightarrow> pydict" where
  "attempt_identity a =
     [(''run_id'', JStr (a_run a)), (''task_id'', JStr (a_task a)),
      (''attempt_id'', JStr (a_number a))]"

definition make_attempt_dirs :: "lib \<Rightarrow> attempt \<Rightarrow> ('a os_scheme, exc, unit) act" where
  "make_attempt_dirs L a =
     actbind (fsop (mkdir (a_root a))) (\<lambda>_.
     actbind (fsop (mkdir (a_input a))) (\<lambda>_.
     actbind (fsop (mkdir (a_scratch a))) (\<lambda>_.
     actbind (fsop (mkdir (a_output a))) (\<lambda>_.
     actbind (fsop (mkdir (a_logs a))) (\<lambda>_.
     fsop (put_file (a_root a @ [''.attempt.json''])
       (json_text L (JDict ((''schema_version'', JInt 1) # attempt_identity a))) True))))))"

definition allocate_attempt :: "lib \<Rightarrow> run_paths \<Rightarrow> string \<Rightarrow> ('a os_scheme, exc, attempt) act" where
  "allocate_attempt L rp task_id =
     actbind (run_initialize L rp) (\<lambda>run.
     actbind (actlift (safe_component L task_id)) (\<lambda>c.
     let parent = rp_root rp @ [''tasks'', c, ''attempts''] in
     actbind (actreadR (\<lambda>w. ensure_external_path L (files w) parent)) (\<lambda>_.
     actbind (actread files) (\<lambda>f.
     if is_symlink f parent \<or> is_symlink f (butlast parent) \<or> is_symlink f (butlast (butlast parent))
     then actraise (WritePolicyError (Msg ''task directories cannot be symlinks'' []))
     else
       actbind (actlift (resolve f parent)) (\<lambda>rparent.
       if \<not> strictly_under rparent (rp_root rp)
       then actraise (WritePolicyError (Msg ''task path escapes its run'' []))
       else
         actbind (fsop (mkdir_parents parent)) (\<lambda>_.
         actbind (actread (\<lambda>w. free_number (Suc (length (files w))) (files w) parent 1)) (\<lambda>k.
         case k of
           None \<Rightarrow> actraise (RuntimeError (Msg ''no free attempt'' []))
         | Some n \<Rightarrow>
             let a = \<lparr>a_root = parent @ [pad6 n], a_run = run, a_task = task_id,
                      a_number = pad6 n\<rparr> in
             actbind (make_attempt_dirs L a) (\<lambda>_. actret a))))))))"

text \<open>The numbering: padded numerals are distinct, so the search ends.\<close>

lemma undec_zeros: "undec a (replicate n (CHR ''0'')) = 10 ^ n * a"
  by (induction n arbitrary: a) (simp_all add: mult.assoc)

lemma undec_pad6: "undec 0 (pad6 n) = n"
  by (simp add: pad6_def undec_append undec_zeros undec_dec)

lemma inj_pad6: "inj pad6"
  by (metis injI undec_pad6)

lemma free_number_unused:
  "free_number k f p n = Some m \<Longrightarrow> lstat f (p @ [pad6 m]) = None \<and> n \<le> m"
  by (induction k f p n rule: free_number.induct) (auto split: if_splits)

lemma free_number_least:
  "free_number k f p n = Some m \<Longrightarrow> n \<le> i \<Longrightarrow> i < m \<Longrightarrow> lstat f (p @ [pad6 i]) \<noteq> None"
proof (induction k f p n rule: free_number.induct)
  case (2 k f p n)
  then show ?case by (cases "i = n") (auto split: if_splits)
qed simp

lemma free_number_None:
  "free_number k f p n = None \<Longrightarrow> i < k \<Longrightarrow> lstat f (p @ [pad6 (n + i)]) \<noteq> None"
proof (induction k f p n arbitrary: i rule: free_number.induct)
  case (2 k f p n)
  then show ?case by (cases i) (auto split: if_splits)
qed simp

lemma pad6_not_dotdot: "pad6 n \<noteq> ''..''"
  by (cases "length (dec n) < 6") (auto simp: pad6_def dest!: arg_cong[where f = length])

lemma free_number_enough: "\<exists>m. free_number (Suc (length f)) f p n = Some m"
proof (rule ccontr)
  assume "\<nexists>m. free_number (Suc (length f)) f p n = Some m"
  then have none: "free_number (Suc (length f)) f p n = None" by simp
  let ?g = "\<lambda>i. the (full f p) @ [pad6 (n + i)]"
  have "?g ` {..<Suc (length f)} \<subseteq> set (map fst f)"
  proof
    fix q assume "q \<in> ?g ` {..<Suc (length f)}"
    then obtain i where i: "i < Suc (length f)" "q = ?g i" by auto
    have "lstat f (p @ [pad6 (n + i)]) \<noteq> None" by (rule free_number_None[OF none i(1)])
    then have "map_of f q \<noteq> None"
      using i(2) by (auto simp: lstat_def lpath_def node_at_def pad6_not_dotdot
          split: option.splits if_splits bind_splits)
    then show "q \<in> set (map fst f)" by (metis map_of_eq_None_iff set_map)
  qed
  moreover have "inj_on ?g {..<Suc (length f)}"
    by (rule inj_onI) (use inj_pad6 in \<open>auto dest: injD\<close>)
  ultimately have "Suc (length f) \<le> card (set (map fst f))"
    by (metis card_image card_lessThan card_mono finite_set)
  also have "\<dots> \<le> length f" by (metis card_length length_map)
  finally show False by simp
qed

end
