(* ===== verification/Artifacts.thy ===== *)
theory Artifacts
  imports Storage
begin

text \<open>
  The second half of \<open>core/storage.py\<close>: the walk from a path up to the attempt that owns it
  (\<open>locate_attempt\<close>) and the artifact store of a directory: contained paths
  (\<open>ArtifactStore.path\<close>), writes, and the hashed inventory (\<open>register\<close>). A store is the
  resolved root directory of it.
\<close>

section \<open>locate\_attempt\<close>

definition wpe :: "string \<Rightarrow> exc" where
  "wpe s = WritePolicyError (Msg s [])"

definition read_json :: "lib \<Rightarrow> fs \<Rightarrow> path \<Rightarrow> pyval option" where
  "read_json L f p = (case read_bytes f p of Inl _ \<Rightarrow> None | Inr c \<Rightarrow> json_loads L c)"

definition nonempty_str :: "pyval \<Rightarrow> string option" where
  "nonempty_str v = (case v of JStr (c # s) \<Rightarrow> Some (c # s) | _ \<Rightarrow> None)"

text \<open>The test of one directory: \<open>None\<close> where it has no marker.\<close>

definition locate_at :: "lib \<Rightarrow> fs \<Rightarrow> path \<Rightarrow> exc + attempt option" where
  "locate_at L f dir =
     (let marker = dir @ [''.attempt.json'']; n = length dir in
      if is_symlink f marker then Inl (wpe ''attempt identity cannot be a symlink'')
      else if \<not> path_exists f marker then Inr None
      else if \<not> is_file f marker then Inl (wpe ''invalid attempt marker'')
      else (case read_json L f marker of
        None \<Rightarrow> Inl (wpe ''invalid attempt marker'')
      | Some payload \<Rightarrow>
        (case payload of
          JDict d \<Rightarrow>
            (case (nonempty_str (dget d ''run_id''), nonempty_str (dget d ''task_id''),
                   nonempty_str (dget d ''attempt_id'')) of
               (Some r, Some t, Some a) \<Rightarrow>
                 if \<not> py_eq (dget d ''schema_version'') (JInt 1)
                 then Inl (wpe ''invalid attempt identity'')
                 else if n < 4 \<or> last dir \<noteq> a \<or> dir ! (n - 2) \<noteq> ''attempts''
                 then Inl (wpe ''attempt identity does not match its directory'')
                 else rbind (safe_component L t) (\<lambda>c.
                   if dir ! (n - 3) \<noteq> c \<or> dir ! (n - 4) \<noteq> ''tasks''
                   then Inl (wpe ''attempt identity does not match its directory'')
                   else
                     let run_marker = take (n - 4) dir @ [''run.json''] in
                     if is_symlink f run_marker then Inl (wpe ''run identity cannot be a symlink'')
                     else (case read_json L f run_marker of
                       None \<Rightarrow> Inl (wpe ''cannot read owning run identity'')
                     | Some (JDict i) \<Rightarrow>
                         if \<not> py_eq (dget i ''schema_version'') (JInt 1) \<or>
                            \<not> py_eq (dget i ''run_id'') (JStr r)
                         then Inl (wpe ''attempt has a conflicting run identity'')
                         else rbind (ensure_external_path L f dir) (\<lambda>q.
                           Inr (Some \<lparr>a_root = q, a_run = r, a_task = t, a_number = a\<rparr>))
                     | Some _ \<Rightarrow> Inl (wpe ''attempt has a conflicting run identity'')))
             | _ \<Rightarrow> Inl (wpe ''invalid attempt identity''))
        | _ \<Rightarrow> Inl (wpe ''invalid attempt identity''))))"

fun locate_up :: "lib \<Rightarrow> fs \<Rightarrow> path list \<Rightarrow> exc + attempt option" where
  "locate_up L f [] = Inr None"
| "locate_up L f (d # ds) =
     rbind (locate_at L f d) (\<lambda>r. case r of Some a \<Rightarrow> Inr (Some a) | None \<Rightarrow> locate_up L f ds)"

definition locate_attempt :: "lib \<Rightarrow> fs \<Rightarrow> path \<Rightarrow> exc + attempt option" where
  "locate_attempt L f p =
     rbind (ensure_external_path L f p) (\<lambda>q. locate_up L f (rev (prefixes q)))"

section \<open>ArtifactStore\<close>

text \<open>\<open>ArtifactStore.path\<close>: relative, no \<open>..\<close>, no link below the root, and the resolved
  location is below the root.\<close>

definition store_path :: "lib \<Rightarrow> fs \<Rightarrow> path \<Rightarrow> string \<Rightarrow> exc + path" where
  "store_path L f dir rel =
     (let parts = path_parts rel in
      if is_absolute rel \<or> ''..'' \<in> set parts
      then Inl (wpe ''artifact must be relative to its owner'')
      else if list_ex (\<lambda>q. q \<noteq> [] \<and> is_symlink f (dir @ q)) (prefixes parts)
      then Inl (wpe ''artifact paths cannot contain symlinks'')
      else rbind (ensure_external_path L f (dir @ parts)) (\<lambda>p.
        if \<not> strictly_under p dir then Inl (wpe ''artifact escapes its owner'') else Inr p))"

definition store_write_text ::
  "lib \<Rightarrow> path \<Rightarrow> string \<Rightarrow> string \<Rightarrow> bool \<Rightarrow> ('a os_scheme, exc, path) act" where
  "store_write_text L dir rel content overwrite =
     actbind (actreadR (\<lambda>w. store_path L (files w) dir rel)) (\<lambda>p.
     actbind (fsop (mkdir_parents (butlast p))) (\<lambda>_.
     actbind (fsop (put_file p content overwrite)) (\<lambda>_. actret p)))"

text \<open>\<open>json.dumps(..., allow_nan=False)\<close> rejects a non-finite float before anything is
  written.\<close>

definition json_file_text :: "lib \<Rightarrow> pyval \<Rightarrow> exc + string" where
  "json_file_text L v =
     (if has_nonfinite v
      then Inl (ValueError (Msg ''Out of range float values are not JSON compliant'' []))
      else Inr (json_text L v))"

definition store_write_json ::
  "lib \<Rightarrow> path \<Rightarrow> string \<Rightarrow> pyval \<Rightarrow> bool \<Rightarrow> ('a os_scheme, exc, path) act" where
  "store_write_json L dir rel v overwrite =
     actbind (actlift (json_file_text L v)) (\<lambda>c. store_write_text L dir rel c overwrite)"

text \<open>The walk of \<open>register\<close>: names of a directory in order, files before subdirectories;
  \<open>scratch\<close> directories and the two marker files are left out; a link anywhere is an error.
  With a selection only the selected files count. The fuel is the depth the walk may reach.\<close>

definition children :: "fs \<Rightarrow> path \<Rightarrow> string list" where
  "children f d =
     sort (remdups (map (\<lambda>(p, _). last p) (filter (\<lambda>(p, _). p \<noteq> [] \<and> butlast p = d) f)))"

definition file_kind :: "string \<Rightarrow> string" where
  "file_kind name =
     (let has = \<lambda>suf. length suf < length name \<and> drop (length name - length suf) name = suf
      in if has ''.log'' then ''log'' else if has ''.json'' then ''json'' else ''file'')"

record artifact =
  af_path :: path
  af_size :: nat
  af_sha256 :: string
  af_kind :: string

definition register_file ::
  "lib \<Rightarrow> fs \<Rightarrow> path \<Rightarrow> path \<Rightarrow> path list option \<Rightarrow> path \<Rightarrow> exc + artifact list" where
  "register_file L f dir manifest sel rel =
     (let p = dir @ rel in
      if p = manifest \<or> last rel = ''.attempt.json'' then Inr []
      else if (case sel of None \<Rightarrow> False | Some s \<Rightarrow> rel \<notin> set s) then Inr []
      else if is_symlink f p then Inl (wpe ''artifact files cannot be symlinks'')
      else if \<not> is_file f p then Inl (wpe ''artifact must be a regular file'')
      else rbind (ensure_external_path L f p) (\<lambda>q.
        if \<not> strictly_under q dir then Inl (wpe ''artifact escapes its owner'')
        else rbind (read_bytes f p) (\<lambda>c.
          Inr [\<lparr>af_path = rel, af_size = length c, af_sha256 = sha256 L c,
                af_kind = file_kind (last rel)\<rparr>])))"

definition walk_dirs :: "fs \<Rightarrow> path \<Rightarrow> path list option \<Rightarrow> path \<Rightarrow> string list" where
  "walk_dirs f dir sel rel =
     filter (\<lambda>n. stat f (dir @ rel @ [n]) = Some Dir \<and>
         (case sel of None \<Rightarrow> True
          | Some s \<Rightarrow> list_ex (\<lambda>i. strict_prefix (rel @ [n]) i) s))
       (children f (dir @ rel))"

definition walk_files :: "fs \<Rightarrow> path \<Rightarrow> path \<Rightarrow> string list" where
  "walk_files f dir rel =
     filter (\<lambda>n. stat f (dir @ rel @ [n]) \<noteq> Some Dir) (children f (dir @ rel))"

fun walk ::
  "nat \<Rightarrow> lib \<Rightarrow> fs \<Rightarrow> path \<Rightarrow> path \<Rightarrow> path list option \<Rightarrow> path \<Rightarrow> exc + artifact list"
where
  "walk 0 L f dir manifest sel rel = Inr []"
| "walk (Suc k) L f dir manifest sel rel =
     (if list_ex (\<lambda>n. is_symlink f (dir @ rel @ [n])) (walk_dirs f dir sel rel)
      then Inl (wpe ''artifact directories cannot be symlinks'')
      else rbind (rmapM (\<lambda>n. register_file L f dir manifest sel (rel @ [n]))
                   (walk_files f dir rel)) (\<lambda>here.
        rbind (rmapM (\<lambda>n. walk k L f dir manifest sel (rel @ [n]))
                (filter (\<lambda>n. n \<noteq> ''scratch'') (walk_dirs f dir sel rel))) (\<lambda>below.
        Inr (concat here @ concat below))))"

definition posix :: "path \<Rightarrow> string" where
  "posix p = (case p of [] \<Rightarrow> ''.'' | c # cs \<Rightarrow> c @ join_parts cs)"

definition artifact_dict :: "artifact \<Rightarrow> pydict" where
  "artifact_dict a =
     [(''path'', JStr (posix (af_path a))), (''size_bytes'', JInt (int (af_size a))),
      (''sha256'', JStr (af_sha256 a)), (''kind'', JStr (af_kind a))]"

definition register_missing :: "string list \<Rightarrow> path list option \<Rightarrow> artifact list \<Rightarrow> string list" where
  "register_missing required sel arts =
     (let wanted = required @ (case sel of None \<Rightarrow> [] | Some s \<Rightarrow> map posix s)
      in filter (\<lambda>r. r \<notin> set (map (posix \<circ> af_path) arts)) wanted)"

definition register ::
  "lib \<Rightarrow> path \<Rightarrow> pydict \<Rightarrow> string \<Rightarrow> string list \<Rightarrow> string list option \<Rightarrow> string
     \<Rightarrow> ('a os_scheme, exc, path) act"
where
  "register L dir identity outcome required include manifest_name =
     actbind (actreadR (\<lambda>w. ensure_external_path L (files w) dir)) (\<lambda>_.
     actbind (fsop (mkdir_parents dir)) (\<lambda>_.
     actbind (actreadR (\<lambda>w. store_path L (files w) dir manifest_name)) (\<lambda>manifest.
     actbind (actreadR (\<lambda>w. case include of None \<Rightarrow> Inr None
       | Some xs \<Rightarrow> rbind (rmapM (store_path L (files w) dir) xs) (\<lambda>ps.
           Inr (Some (map (drop (length dir)) ps))))) (\<lambda>sel.
     actbind (actreadR (\<lambda>w. walk (Suc (length (files w))) L (files w) dir manifest sel []))
       (\<lambda>arts.
     actbind (actguard (register_missing required sel arts = [])
                (wpe ''missing required artifacts'')) (\<lambda>_.
     actbind (actlift (json_file_text L (JDict [(''schema_version'', JInt 1),
                (''identity'', JDict identity), (''outcome'', JStr outcome),
                (''artifacts'', JList (map (\<lambda>a. JDict (artifact_dict a)) arts))]))) (\<lambda>c.
     actbind (fsop (put_file manifest c True)) (\<lambda>_. actret manifest))))))))"

section \<open>Containment\<close>

lemma store_path_contained:
  "store_path L f dir rel = Inr p \<Longrightarrow> strictly_under p dir"
  by (auto simp: store_path_def Let_def rbind_eq_Inr split: if_splits)

lemma ensure_external_path_sound:
  assumes "ensure_external_path L f p = Inr q"
  shows "resolve f p = Inr q \<and> q \<noteq> [] \<and>
    (\<forall>s. resolve f (repo_root L) = Inr s \<longrightarrow> \<not> under q s \<and> \<not> under s q) \<and>
    (\<forall>h. resolve f (home L) = Inr h \<longrightarrow> q \<noteq> h)"
  using assms
  by (auto simp: ensure_external_path_def rbind_eq_Inr strictly_under_def under_def
      strict_prefix_def split: if_splits)

lemma store_path_external:
  "store_path L f dir rel = Inr p \<Longrightarrow> \<exists>q. ensure_external_path L f q = Inr p"
  by (auto simp: store_path_def Let_def rbind_eq_Inr split: if_splits)

lemma register_file_hash:
  "register_file L f dir m sel rel = Inr as \<Longrightarrow> a \<in> set as \<Longrightarrow>
     af_path a = rel \<and> (\<exists>c. read_bytes f (dir @ rel) = Inr c \<and> af_sha256 a = sha256 L c \<and>
       af_size a = length c) \<and> \<not> is_symlink f (dir @ rel)"
  by (auto simp: register_file_def Let_def rbind_eq_Inr split: if_splits)

lemma walk_hashes:
  assumes "walk k L f dir m sel rel = Inr as" "a \<in> set as"
  shows "prefix rel (af_path a) \<and>
     (\<exists>c. read_bytes f (dir @ af_path a) = Inr c \<and> af_sha256 a = sha256 L c \<and>
        af_size a = length c) \<and> \<not> is_symlink f (dir @ af_path a)"
  using assms
proof (induction k L f dir m sel rel arbitrary: as rule: walk.induct)
  case (1 L f dir m sel rel)
  then show ?case by simp
next
  case (2 k L f dir m sel rel)
  from "2.prems"(1) obtain here below where
    nolink: "\<not> list_ex (\<lambda>n. is_symlink f (dir @ rel @ [n])) (walk_dirs f dir sel rel)" and
    h: "rmapM (\<lambda>n. register_file L f dir m sel (rel @ [n])) (walk_files f dir rel) = Inr here" and
    b: "rmapM (\<lambda>n. walk k L f dir m sel (rel @ [n]))
         (filter (\<lambda>n. n \<noteq> ''scratch'') (walk_dirs f dir sel rel)) = Inr below" and
    as: "as = concat here @ concat below"
    by (auto simp: rbind_eq_Inr split: if_splits)
  from "2.prems"(2) as consider xs where "xs \<in> set here" "a \<in> set xs"
    | xs where "xs \<in> set below" "a \<in> set xs" by auto
  then show ?case
  proof cases
    case (1 xs)
    then obtain n where "register_file L f dir m sel (rel @ [n]) = Inr xs"
      using rmapM_elem[OF h] by blast
    from register_file_hash[OF this 1(2)] show ?thesis by auto
  next
    case (2 xs)
    then obtain n where n: "n \<in> set (filter (\<lambda>n. n \<noteq> ''scratch'') (walk_dirs f dir sel rel))"
        "walk k L f dir m sel (rel @ [n]) = Inr xs"
      using rmapM_elem[OF b] by blast
    have "prefix (rel @ [n]) (af_path a) \<and>
     (\<exists>c. read_bytes f (dir @ af_path a) = Inr c \<and> af_sha256 a = sha256 L c \<and>
        af_size a = length c) \<and> \<not> is_symlink f (dir @ af_path a)"
      by (rule "2.IH"[OF nolink h n(1) n(2) 2(2)])
    then show ?thesis by (auto dest: append_prefixD)
  qed
qed

end
