(* ===== verification/ResultGate.thy ===== *)
theory ResultGate
  imports Contracts Artifacts
begin

text \<open>
  \<open>engine/result_validation.py\<close>: the evidence gate of a worker's result. \<open>validate_result\<close>
  returns the list of everything that is wrong, the empty list being acceptance; it reads the
  evidence files but changes nothing. \<open>gate_spec\<close> says what acceptance means.
\<close>

section \<open>Fixed tables\<close>

fun stage_evidence :: "stage \<Rightarrow> string list" where
  "stage_evidence Torch = [''reference_artifact'', ''focused_tests'', ''independent_validation'']"
| "stage_evidence Xpu = [''build_record'', ''registration_record'', ''device_test'',
     ''dispatch_report'', ''independent_validation'']"
| "stage_evidence Integration = [''integration_report'', ''service_regression'',
     ''accuracy_regression'', ''fallback_report'', ''independent_validation'']"
| "stage_evidence Diagnosis = [''diagnosis_report'']"

definition diagnosis_actions :: "string list" where
  "diagnosis_actions = [''REDISCOVER_OPERATOR'', ''DISPATCH_TORCH_FIX'', ''DISPATCH_XPU_FIX'',
     ''RETRY'', ''BLOCKED'']"

definition report_key :: "stage \<Rightarrow> string" where
  "report_key g = (if g = Diagnosis then ''diagnosis_report'' else ''independent_validation'')"

section \<open>Reading the run\<close>

text \<open>\<open>run.environment.get("environment_proof", {}).get("fingerprint")\<close> and
  \<open>run.metadata.get("evidence_mode", "real")\<close>.\<close>

definition run_fingerprint :: "run \<Rightarrow> exc + pyval" where
  "run_fingerprint r = vget (dget_or (r_environment r) ''environment_proof'' (JDict []))
     ''fingerprint''"

definition run_mode :: "run \<Rightarrow> pyval" where
  "run_mode r = dget_or (r_metadata r) ''evidence_mode'' (JStr ''real'')"

definition result_identity :: "task \<Rightarrow> run \<Rightarrow> exc + pydict" where
  "result_identity t r = rbind (run_fingerprint r) (\<lambda>fp.
     Inr [(''task_id'', JStr (t_id t)), (''operator_key'', JStr (t_key t)),
          (''stage'', JStr (stage_name (t_stage t))), (''attempt'', JInt (t_attempt t)),
          (''environment_fingerprint'', fp), (''evidence_mode'', run_mode r)])"

definition err_if :: "bool \<Rightarrow> msg \<Rightarrow> msg list" where
  "err_if b m = (if b then [m] else [])"

lemma err_if_Nil [simp]: "err_if b m = [] \<longleftrightarrow> \<not> b"
  by (simp add: err_if_def)

text \<open>\<open>key not in d or d[key] != value\<close> for each identity field.\<close>

definition identity_errors :: "string \<Rightarrow> pydict \<Rightarrow> pydict \<Rightarrow> msg list" where
  "identity_errors what identity d =
     concat (map (\<lambda>(k, v). err_if (\<not> dhas d k \<or> \<not> py_eq (dget d k) v)
       (Msg what [JStr k])) identity)"

definition header_errors :: "task \<Rightarrow> run \<Rightarrow> pyval \<Rightarrow> pydict \<Rightarrow> msg list" where
  "header_errors t r fp result =
     (let mode = run_mode r;
          verdicts = map (dget result) (filter (dhas result) [''status'', ''verdict'']);
          env_required = py_eq mode (JStr ''real'') \<or>
            truthy (dget (r_metadata r) ''graph_environment_required'')
      in err_if (\<not> type_is_int (dget result ''schema_version'') \<or>
                 \<not> py_eq (dget result ''schema_version'') (JInt 1))
           (Msg ''schema_version must be 1'' []) @
         err_if (verdicts = [] \<or> list_ex (\<lambda>v. \<not> says_pass v) verdicts)
           (Msg ''an explicit PASS status/verdict is required'' []) @
         err_if (list_ex (\<lambda>k. is_False (dget result k)) [''ok'', ''success'', ''passed''])
           (Msg ''result contains an explicit failed check'' []) @
         err_if (\<not> in_strs mode [''real'', ''simulation''] \<or>
                 (py_eq mode (JStr ''simulation'') \<and>
                  truthy (dget (r_metadata r) ''environment_required'')))
           (Msg ''simulation evidence cannot satisfy an environment-backed run'' []) @
         err_if (env_required \<and> \<not> truthy fp)
           (Msg ''environment-backed results require a bound environment fingerprint'' []) @
         err_if (env_required \<and> t_stage t \<noteq> Diagnosis \<and> r_status r \<noteq> ''ENVIRONMENT_READY'')
           (Msg ''environment-backed results require a currently ready environment'' []))"

section \<open>The evidence files\<close>

definition evidence_path :: "lib \<Rightarrow> run \<Rightarrow> string \<Rightarrow> exc + path option" where
  "evidence_path L r v =
     (if is_absolute v then Inr (Some (path_parts v))
      else let base = dget (r_metadata r) ''artifact_root'' in
        if \<not> truthy base then Inr None
        else (case base of JStr b \<Rightarrow> Inr (Some (locate L b @ path_parts v)) | _ \<Rightarrow> Inl TypeError))"

definition outside_workspace :: "lib \<Rightarrow> fs \<Rightarrow> task \<Rightarrow> path \<Rightarrow> exc + bool" where
  "outside_workspace L f t p =
     rbind (vget (dget_or (t_input t) ''workspace'' (JDict [])) ''output'') (\<lambda>out.
     if \<not> truthy out then Inr False
     else (case out of
         JStr o' \<Rightarrow> rbind (resolve f p) (\<lambda>q. rbind (resolve f (locate L o')) (\<lambda>b.
           Inr (\<not> under q b)))
       | _ \<Rightarrow> Inl TypeError))"

text \<open>One evidence entry: the errors it adds, and its content when it could be read.\<close>

definition check_file ::
  "lib \<Rightarrow> fs \<Rightarrow> task \<Rightarrow> pydict \<Rightarrow> string \<Rightarrow> path \<Rightarrow> exc + msg list \<times> string option"
where
  "check_file L f t hashes k p =
     rbind (outside_workspace L f t p) (\<lambda>out.
     if out
     then Inr ([Msg ''evidence must belong to the claimed attempt output'' [JStr k]], None)
     else if is_symlink f p \<or> \<not> is_file f p
     then Inr ([Msg ''evidence must be a regular non-symlink file'' [JStr k]], None)
     else (case read_bytes f p of
         Inl _ \<Rightarrow> Inr ([Msg ''cannot read evidence'' [JStr k]], None)
       | Inr c \<Rightarrow>
           Inr (err_if (c = []) (Msg ''evidence is empty'' [JStr k]) @
                err_if (\<not> py_eq (dget hashes k) (JStr (sha256 L c)))
                  (Msg ''evidence hash mismatch'' [JStr k]), Some c)))"

definition check_evidence ::
  "lib \<Rightarrow> fs \<Rightarrow> task \<Rightarrow> run \<Rightarrow> pydict \<Rightarrow> string \<times> pyval \<Rightarrow> exc + msg list \<times> string option"
where
  "check_evidence L f t r hashes kv =
     (let k = fst kv in
      case snd kv of
        JStr v \<Rightarrow>
          if strip v = [] then Inr ([Msg ''evidence must be a file path'' [JStr k]], None)
          else rbind (evidence_path L r v) (\<lambda>mp.
            case mp of
              None \<Rightarrow> Inr ([Msg ''relative evidence requires run metadata.artifact_root'' [JStr k]],
                          None)
            | Some p \<Rightarrow> check_file L f t hashes k p)
      | _ \<Rightarrow> Inr ([Msg ''evidence must be a file path'' [JStr k]], None))"

fun scan_evidence ::
  "lib \<Rightarrow> fs \<Rightarrow> task \<Rightarrow> run \<Rightarrow> pydict \<Rightarrow> pydict \<Rightarrow> exc + msg list \<times> (string \<times> string) list"
where
  "scan_evidence L f t r hashes [] = Inr ([], [])"
| "scan_evidence L f t r hashes (kv # rest) =
     rbind (check_evidence L f t r hashes kv) (\<lambda>(errs, c).
     rbind (scan_evidence L f t r hashes rest) (\<lambda>(errs', cs).
     Inr (errs @ errs', (case c of None \<Rightarrow> cs | Some x \<Rightarrow> (fst kv, x) # cs))))"

section \<open>The report\<close>

text \<open>\<open>math.isfinite\<close> converts an integer to a double first.\<close>

definition isfinite :: "pyval \<Rightarrow> exc + bool" where
  "isfinite v = (case v of
      JInt i \<Rightarrow> if \<bar>i\<bar> < 2 ^ 1024 then Inr True else Inl OverflowError
    | JBool _ \<Rightarrow> Inr True
    | JFloat x \<Rightarrow> Inr (is_finite x)
    | _ \<Rightarrow> Inl TypeError)"

definition in_unit_interval :: "pyval \<Rightarrow> bool" where
  "in_unit_interval v = (case num_of v of
      Some (Fin q) \<Rightarrow> 0 \<le> q \<and> q \<le> 1
    | _ \<Rightarrow> False)"

definition bad_confidence :: "pyval \<Rightarrow> exc + bool" where
  "bad_confidence v =
     (if is_bool v \<or> \<not> isinstance_number v then Inr True
      else rbind (isfinite v) (\<lambda>fin. Inr (\<not> fin \<or> \<not> in_unit_interval v)))"

definition diagnosis_errors :: "pydict \<Rightarrow> pydict \<Rightarrow> exc + msg list" where
  "diagnosis_errors result report =
     rbind (bad_confidence (dget report ''confidence'')) (\<lambda>bad.
     Inr (concat (map (\<lambda>k. err_if (\<not> py_eq (dget result k) (dget report k) \<or> \<not> dhas report k)
            (Msg ''diagnosis result must match report field'' [JStr k]))
          [''diagnosis'', ''repair_conclusion'', ''next_action'', ''confidence'']) @
        err_if (\<not> truthy (dget report ''diagnosis'') \<or> \<not> truthy (dget report ''repair_conclusion''))
          (Msg ''diagnosis and repair_conclusion are required'' []) @
        err_if (\<not> in_strs (dget report ''next_action'') diagnosis_actions)
          (Msg ''diagnosis next_action is invalid'' []) @
        err_if bad
          (Msg ''diagnosis confidence must be a finite value between 0 and 1'' [])))"

definition passing_check :: "pyval \<Rightarrow> bool" where
  "passing_check c = (case c of
      JDict d \<Rightarrow> truthy (dget d ''name'') \<and> is_True (dget d ''passed'')
    | _ \<Rightarrow> False)"

definition validation_errors :: "pydict \<Rightarrow> pydict \<Rightarrow> pydict \<Rightarrow> string \<Rightarrow> msg list" where
  "validation_errors evidence hashes report worker =
     err_if (case dget report ''validator'' of
         JStr v \<Rightarrow> strip v = [] \<or> v = worker | _ \<Rightarrow> True)
       (Msg ''validation requires a recorded validator distinct from the producer'' []) @
     err_if (case dget report ''checks'' of
         JList cs \<Rightarrow> cs = [] \<or> list_ex (\<lambda>c. \<not> passing_check c) cs | _ \<Rightarrow> True)
       (Msg ''independent validation requires nonempty passing named checks'' []) @
     err_if (\<not> py_eq (dget report ''evidence_sha256'')
         (JDict (map (\<lambda>(k, _). (k, dget hashes k))
           (filter (\<lambda>(k, _). k \<noteq> ''independent_validation'') evidence))))
       (Msg ''validation report does not bind the submitted evidence hashes'' [])"

definition report_errors ::
  "task \<Rightarrow> pydict \<Rightarrow> pydict \<Rightarrow> pydict \<Rightarrow> pydict \<Rightarrow> pydict \<Rightarrow> string \<Rightarrow> exc + msg list"
where
  "report_errors t identity result evidence hashes report worker =
     rbind (if t_stage t = Diagnosis then diagnosis_errors result report
            else Inr (validation_errors evidence hashes report worker)) (\<lambda>es.
     Inr (identity_errors ''report does not match the claimed task/run'' identity report @
          err_if (\<not> type_is_int (dget report ''attempt''))
            (Msg ''report attempt must be an integer'' []) @
          err_if (\<not> says_pass (dget_or report ''verdict'' (JStr [])))
            (Msg ''report verdict must be PASS'' []) @ es))"

definition validate_result ::
  "lib \<Rightarrow> fs \<Rightarrow> task \<Rightarrow> run \<Rightarrow> pydict \<Rightarrow> string \<Rightarrow> exc + msg list"
where
  "validate_result L f t r result worker =
     rbind (run_fingerprint r) (\<lambda>fp.
     rbind (result_identity t r) (\<lambda>identity.
     let errors = header_errors t r fp result @
           identity_errors ''result does not match the claimed task/run'' identity result @
           err_if (\<not> type_is_int (dget result ''attempt''))
             (Msg ''result attempt must be an integer'' [])
     in (case (dget result ''evidence'', dget result ''evidence_sha256'') of
          (JDict evidence, JDict hashes) \<Rightarrow>
            let missing = concat (map (\<lambda>k. err_if (\<not> dhas evidence k)
                  (Msg ''missing stage evidence'' [JStr k])) (stage_evidence (t_stage t)))
            in rbind (scan_evidence L f t r hashes evidence) (\<lambda>(errs, contents).
               let errors' = errors @ missing @ errs; rk = report_key (t_stage t) in
               (case map_of contents rk of
                  None \<Rightarrow> Inr (errors' @ [Msg ''missing readable report'' [JStr rk]])
                | Some c \<Rightarrow>
                    (case json_loads L c of
                       None \<Rightarrow> Inr (errors' @ [Msg ''report must contain JSON'' [JStr rk]])
                     | Some (JDict report) \<Rightarrow>
                         rbind (report_errors t identity result evidence hashes report worker)
                           (\<lambda>es. Inr (errors' @ es))
                     | Some _ \<Rightarrow> Inr (errors' @ [Msg ''report must be an object'' [JStr rk]]))))
        | _ \<Rightarrow> Inr (errors @ [Msg ''evidence and evidence_sha256 must be objects'' []]))))"

section \<open>What acceptance means\<close>

text \<open>The evidence entry \<open>k\<close> names a readable regular file, inside the attempt's output
  directory when the task has a workspace, whose nonempty content has the declared hash.\<close>

definition evidence_holds ::
  "lib \<Rightarrow> fs \<Rightarrow> task \<Rightarrow> run \<Rightarrow> pydict \<Rightarrow> string \<Rightarrow> pyval \<Rightarrow> string \<Rightarrow> bool"
where
  "evidence_holds L f t r hashes k v c \<longleftrightarrow>
     (\<exists>s p. v = JStr s \<and> evidence_path L r s = Inr (Some p) \<and>
        outside_workspace L f t p = Inr False \<and> \<not> is_symlink f p \<and>
        read_bytes f p = Inr c \<and> c \<noteq> [] \<and> dget hashes k = JStr (sha256 L c))"

lemma check_file_clean:
  assumes "check_file L f t hashes k p = Inr ([], c)"
  shows "\<exists>x. c = Some x \<and> outside_workspace L f t p = Inr False \<and> \<not> is_symlink f p \<and>
    read_bytes f p = Inr x \<and> x \<noteq> [] \<and> dget hashes k = JStr (sha256 L x)"
proof -
  obtain out where out: "outside_workspace L f t p = Inr out" "\<not> out"
      "\<not> is_symlink f p" "is_file f p"
    using assms by (auto simp: check_file_def rbind_eq_Inr split: if_splits)
  then show ?thesis
    using assms by (cases "read_bytes f p") (auto simp: check_file_def)
qed

lemma check_evidence_clean:
  assumes "check_evidence L f t r hashes (k, v) = Inr ([], c)"
  shows "\<exists>x. c = Some x \<and> evidence_holds L f t r hashes k v x"
proof -
  obtain s where v: "v = JStr s" "strip s \<noteq> []"
    using assms by (cases v) (auto simp: check_evidence_def split: if_splits)
  then obtain p where "evidence_path L r s = Inr (Some p)" "check_file L f t hashes k p = Inr ([], c)"
    using assms by (auto simp: check_evidence_def rbind_eq_Inr split: option.splits)
  then show ?thesis
    using v check_file_clean by (fastforce simp: evidence_holds_def)
qed

lemma scan_evidence_clean:
  assumes "scan_evidence L f t r hashes ev = Inr ([], cs)"
  shows "map fst cs = map fst ev \<and>
    list_all2 (\<lambda>(k, v) (k', c). k' = k \<and> evidence_holds L f t r hashes k v c) ev cs"
  using assms
proof (induction ev arbitrary: cs)
  case Nil
  then show ?case by simp
next
  case (Cons kv ev)
  obtain k v where kv: "kv = (k, v)" by (cases kv)
  from Cons.prems obtain c cs' where
    c: "check_evidence L f t r hashes kv = Inr ([], c)" and
    s: "scan_evidence L f t r hashes ev = Inr ([], cs')" and
    cs: "cs = (case c of None \<Rightarrow> cs' | Some x \<Rightarrow> (fst kv, x) # cs')"
    by (auto simp: rbind_eq_Inr)
  from check_evidence_clean[OF c[unfolded kv]] obtain x where
    "c = Some x" "evidence_holds L f t r hashes k v x" by blast
  with Cons.IH[OF s] cs kv show ?case by simp
qed

text \<open>Both dictionaries agree with the identity of the claimed attempt.\<close>

definition bears_identity :: "task \<Rightarrow> run \<Rightarrow> pydict \<Rightarrow> bool" where
  "bears_identity t r d \<longleftrightarrow>
     dget d ''task_id'' = JStr (t_id t) \<and> dget d ''operator_key'' = JStr (t_key t) \<and>
     dget d ''stage'' = JStr (stage_name (t_stage t)) \<and> dget d ''attempt'' = JInt (t_attempt t) \<and>
     (\<exists>fp. run_fingerprint r = Inr fp \<and> dhas d ''environment_fingerprint'' \<and>
        py_eq (dget d ''environment_fingerprint'') fp) \<and>
     py_eq (dget d ''evidence_mode'') (run_mode r)"

lemma identity_errors_clean:
  assumes "result_identity t r = Inr identity" "identity_errors w identity d = []"
    "type_is_int (dget d ''attempt'')"
  shows "bears_identity t r d"
proof -
  obtain i where i: "dget d ''attempt'' = JInt i"
    using assms(3) by (cases "dget d ''attempt''") auto
  show ?thesis
    using assms(1,2) i
    by (auto simp: result_identity_def identity_errors_def bears_identity_def rbind_eq_Inr)
qed

text \<open>The content under which the report is read is one of the checked entries.\<close>

lemma scan_lookup:
  assumes "scan_evidence L f t r hashes ev = Inr ([], cs)" "map_of ev k = Some v"
  shows "\<exists>c. map_of cs k = Some c \<and> evidence_holds L f t r hashes k v c"
  using scan_evidence_clean[OF assms(1)] assms(2)
proof (induction ev arbitrary: cs)
  case Nil
  then show ?case by simp
next
  case (Cons kv ev)
  then show ?case by (cases cs) (auto split: if_splits)
qed

definition accepted_report :: "lib \<Rightarrow> fs \<Rightarrow> task \<Rightarrow> run \<Rightarrow> pydict \<Rightarrow> string \<Rightarrow> pydict \<Rightarrow> bool" where
  "accepted_report L f t r result worker report \<longleftrightarrow>
     bears_identity t r report \<and> says_pass (dget report ''verdict'') \<and>
     (if t_stage t = Diagnosis
      then in_strs (dget report ''next_action'') diagnosis_actions \<and>
        (\<forall>k \<in> {''diagnosis'', ''repair_conclusion'', ''next_action'', ''confidence''}.
           dhas report k \<and> py_eq (dget result k) (dget report k)) \<and>
        truthy (dget report ''diagnosis'') \<and> truthy (dget report ''repair_conclusion'') \<and>
        in_unit_interval (dget report ''confidence'')
      else (\<exists>v. dget report ''validator'' = JStr v \<and> v \<noteq> worker \<and> strip v \<noteq> []) \<and>
        (\<exists>cs. dget report ''checks'' = JList cs \<and> cs \<noteq> [] \<and> list_all passing_check cs) \<and>
        (\<exists>ev hs. dget result ''evidence'' = JDict ev \<and> dget result ''evidence_sha256'' = JDict hs \<and>
           py_eq (dget report ''evidence_sha256'')
             (JDict (map (\<lambda>(k, _). (k, dget hs k))
               (filter (\<lambda>(k, _). k \<noteq> ''independent_validation'') ev)))))"

lemma report_errors_clean:
  assumes "report_errors t identity result ev hs report worker = Inr []"
    "result_identity t r = Inr identity"
    "dget result ''evidence'' = JDict ev" "dget result ''evidence_sha256'' = JDict hs"
  shows "accepted_report L f t r result worker report"
proof -
  have id: "bears_identity t r report" and vp: "says_pass (dget_or report ''verdict'' (JStr []))"
    using assms(1) identity_errors_clean[OF assms(2)]
    by (auto simp: report_errors_def rbind_eq_Inr)
  from vp have "says_pass (dget report ''verdict'')"
    by (auto simp: dget_or_def dget_def says_pass_def upper_def split: option.splits)
  moreover have "bad_confidence (dget report ''confidence'') = Inr False \<Longrightarrow>
      in_unit_interval (dget report ''confidence'')"
    by (auto simp: bad_confidence_def rbind_eq_Inr split: if_splits)
  ultimately show ?thesis
    using assms(1,3,4) id
    by (auto simp: accepted_report_def report_errors_def rbind_eq_Inr diagnosis_errors_def
        validation_errors_def list_all_iff list_ex_iff split: if_splits pyval.splits)
qed

end
