(* ===== verification/Store.thy ===== *)
theory Store
  imports ResultGate
begin

text \<open>
  The \<open>EventStore\<close> of \<open>engine/scheduler.py\<close>: the four SQLite tables and their access
  functions. A table is the list of its rows in insertion order; a \<open>PRIMARY KEY\<close> or
  \<open>UNIQUE\<close> conflict makes \<open>INSERT OR IGNORE\<close> do nothing and a plain \<open>INSERT\<close> raise;
  \<open>ORDER BY created_at\<close> is a stable sort. The JSON columns hold their decoded values: what
  is stored there comes back equal (\<open>opspec_roundtrip\<close>, \<open>bug_roundtrip\<close>).

  \<open>atomic m\<close> is the decorator \<open>atomic_transition\<close>: an exception rolls the database back,
  while files written and identifiers drawn stay. A call of a decorated method inside another one
  does not open a transaction of its own, so the methods are defined without the decorator and
  wrapped where they are called from outside. Transactions are serialised
  (\<open>BEGIN IMMEDIATE\<close>), so an execution of several processes is a sequence of them.
\<close>

record row =
  k_id :: string
  k_run :: string
  k_key :: string
  k_stage :: stage
  k_status :: tstatus
  k_attempt :: int
  k_input :: pydict
  k_output :: pydict
  k_token :: "string option"
  k_worker :: "string option"
  k_expires :: "rat option"
  k_created :: rat
  k_updated :: rat

record database =
  runs :: "run list"
  operators :: "(string \<times> string \<times> opspec) list"
  tasks :: "row list"
  events :: "event list"

record world = os +
  db :: database
  db_path :: "path option"
    \<comment> \<open>\<open>None\<close> for an in-memory database\<close>

type_synonym 'a exec = "(world, exc, 'a) act"

definition atomic :: "'a exec \<Rightarrow> 'a exec" where
  "atomic m = (\<lambda>w. case m w of
      (Inl e, w') \<Rightarrow> (Inl e, w'\<lparr>db := db w\<rparr>)
    | (Inr x, w') \<Rightarrow> (Inr x, w'))"

definition dbwrite :: "(database \<Rightarrow> database) \<Rightarrow> unit exec" where
  "dbwrite g = actwrite (\<lambda>w. w\<lparr>db := g (db w)\<rparr>)"

lemma wp_dbwrite [wp_rules]: "wp (dbwrite g) Q E w = Q () (w\<lparr>db := g (db w)\<rparr>)"
  by (simp add: dbwrite_def wp_write)

lemma atomic_returns: "atomic m w = (Inr x, w') \<longleftrightarrow> m w = (Inr x, w')"
  by (auto simp: atomic_def split: prod.splits sum.splits)

lemma wp_atomic [wp_rules]:
  "wp (atomic m) Q E w = wp m Q (\<lambda>e w'. E e (w'\<lparr>db := db w\<rparr>)) w"
  by (simp add: wp_def atomic_def split: prod.splits sum.splits)

section \<open>Rows\<close>

definition row_of :: "database \<Rightarrow> string \<Rightarrow> row option" where
  "row_of d i = find (\<lambda>r. k_id r = i) (tasks d)"

definition change_row :: "string \<Rightarrow> (row \<Rightarrow> row) \<Rightarrow> database \<Rightarrow> database" where
  "change_row i g d = d\<lparr>tasks := map (\<lambda>r. if k_id r = i then g r else r) (tasks d)\<rparr>"

definition conflicts :: "row \<Rightarrow> row \<Rightarrow> bool" where
  "conflicts r s \<longleftrightarrow> k_id r = k_id s \<or> (k_run r = k_run s \<and> k_key r = k_key s \<and> k_stage r = k_stage s)"

text \<open>\<open>_task\<close>: the view of a row. A diagnosis row is stored under a key of its own; its
  view shows the operator key and the source task of its input contract.\<close>

definition view :: "row \<Rightarrow> task" where
  "view r =
     \<lparr>t_id = k_id r, t_run = k_run r,
      t_key = (if k_stage r = Diagnosis then str_or (dget (k_input r) ''operator_key'') (k_key r)
               else k_key r),
      t_stage = k_stage r, t_status = k_status r, t_attempt = k_attempt r,
      t_input = k_input r, t_output = k_output r, t_token = k_token r, t_expires = k_expires r,
      t_source = (if k_stage r = Diagnosis
                  then Some (str_or (dget (k_input r) ''source_task_id'') []) else None)\<rparr>"

definition tasks_of :: "database \<Rightarrow> string option \<Rightarrow> row list" where
  "tasks_of d rid = sort_key k_created
     (filter (\<lambda>r. case rid of None \<Rightarrow> True | Some x \<Rightarrow> k_run r = x) (tasks d))"

text \<open>\<open>pending_tasks\<close>: \<open>LIMIT max(0, limit)\<close>.\<close>

definition pending_of :: "database \<Rightarrow> string option \<Rightarrow> stage option \<Rightarrow> int option \<Rightarrow> row list" where
  "pending_of d rid g limit =
     (let rs = sort_key k_created (filter (\<lambda>r. k_status r = Pending \<and>
          (case rid of None \<Rightarrow> True | Some x \<Rightarrow> k_run r = x) \<and>
          (case g of None \<Rightarrow> True | Some x \<Rightarrow> k_stage r = x)) (tasks d))
      in (case limit of None \<Rightarrow> rs | Some n \<Rightarrow> take (nat (max 0 n)) rs))"

section \<open>Access functions\<close>

definition append_event :: "event \<Rightarrow> unit exec" where
  "append_event e =
     actbind (actread (\<lambda>w. ev_id e \<in> set (map ev_id (events (db w))))) (\<lambda>dup.
     if dup then actraise IntegrityError
     else dbwrite (\<lambda>d. d\<lparr>events := events d @ [e]\<rparr>))"

definition events_of :: "database \<Rightarrow> string option \<Rightarrow> event list" where
  "events_of d rid = sort_key ev_time
     (filter (\<lambda>e. case rid of None \<Rightarrow> True | Some x \<Rightarrow> ev_run e = x) (events d))"

definition run_of :: "database \<Rightarrow> string \<Rightarrow> run option" where
  "run_of d i = find (\<lambda>r. r_id r = i) (runs d)"

text \<open>\<open>run.created_at or now\<close>: zero is falsy.\<close>

definition save_run :: "lib \<Rightarrow> run \<Rightarrow> run exec" where
  "save_run L r =
     actbind (now L) (\<lambda>t.
     actbind (dbwrite (\<lambda>d. if run_of d (r_id r) \<noteq> None then d else d\<lparr>runs := runs d @ [r]\<rparr>)) (\<lambda>_.
     actread (\<lambda>w. the (run_of (db w) (r_id r)))))"

definition update_run :: "lib \<Rightarrow> run \<Rightarrow> run exec" where
  "update_run L r =
     actbind (now L) (\<lambda>t.
     let r' = r\<lparr>r_updated := t\<rparr> in
     actbind (dbwrite (\<lambda>d. d\<lparr>runs := map (\<lambda>x. if r_id x = r_id r then r' else x) (runs d)\<rparr>)) (\<lambda>_.
     actret r'))"

definition get_run :: "string \<Rightarrow> run exec" where
  "get_run i = actreadR (\<lambda>w. case run_of (db w) i of
      None \<Rightarrow> Inl (KeyError (JStr i)) | Some r \<Rightarrow> Inr r)"

text \<open>\<open>store.run(i).metadata\<close> of a run that may be missing.\<close>

definition expect_run :: "string \<Rightarrow> run exec" where
  "expect_run i = actreadR (\<lambda>w. case run_of (db w) i of
      None \<Rightarrow> Inl AttributeError | Some r \<Rightarrow> Inr r)"

definition operator_of :: "database \<Rightarrow> string \<Rightarrow> string \<Rightarrow> opspec option" where
  "operator_of d i k = map_option (snd \<circ> snd) (find (\<lambda>(i', k', _). i' = i \<and> k' = k) (operators d))"

definition put_operator :: "lib \<Rightarrow> string \<Rightarrow> opspec \<Rightarrow> bool exec" where
  "put_operator L i s =
     actbind (actread (\<lambda>w. operator_of (db w) i (operator_key L s) = None)) (\<lambda>new.
     actbind (actwhen new
       (dbwrite (\<lambda>d. d\<lparr>operators := operators d @ [(i, operator_key L s, s)]\<rparr>))) (\<lambda>_.
     actret new))"

text \<open>A row inserted by \<open>insert_task\<close> has no lease; its times are the clock's.\<close>

definition new_row :: "string \<Rightarrow> string \<Rightarrow> string \<Rightarrow> stage \<Rightarrow> pydict \<Rightarrow> rat \<Rightarrow> row" where
  "new_row i rid key g inp t =
     \<lparr>k_id = i, k_run = rid, k_key = key, k_stage = g, k_status = Pending, k_attempt = 0,
      k_input = inp, k_output = [], k_token = None, k_worker = None, k_expires = None,
      k_created = t, k_updated = t\<rparr>"

definition insert_task ::
  "lib \<Rightarrow> string \<Rightarrow> string \<Rightarrow> string \<Rightarrow> stage \<Rightarrow> pydict \<Rightarrow> bool exec" where
  "insert_task L i rid key g inp =
     actbind (now L) (\<lambda>t.
     let r = new_row i rid key g inp t in
     actbind (actread (\<lambda>w. \<not> list_ex (conflicts r) (tasks (db w)))) (\<lambda>new.
     actbind (actwhen new (dbwrite (\<lambda>d. d\<lparr>tasks := tasks d @ [r]\<rparr>))) (\<lambda>_.
     actret new)))"

definition get_row :: "string \<Rightarrow> row exec" where
  "get_row i = actreadR (\<lambda>w. case row_of (db w) i of
      None \<Rightarrow> Inl (KeyError (JStr i)) | Some r \<Rightarrow> Inr r)"

text \<open>\<open>_emit\<close>: the identifier is drawn, then the time read.\<close>

definition emit :: "lib \<Rightarrow> string \<Rightarrow> string \<Rightarrow> pydict \<Rightarrow> string option \<Rightarrow> unit exec" where
  "emit L rid ty payload tid =
     actbind (draw_uuid L) (\<lambda>u.
     actbind (now L) (\<lambda>t.
     append_event \<lparr>ev_id = u, ev_run = rid, ev_type = ty, ev_task = tid, ev_payload = payload,
                   ev_time = t\<rparr>))"

section \<open>Sound tables\<close>

text \<open>The two uniqueness constraints of the tasks table.\<close>

definition rows_distinct :: "row list \<Rightarrow> bool" where
  "rows_distinct rs \<longleftrightarrow> distinct (map k_id rs) \<and>
     distinct (map (\<lambda>r. (k_run r, k_key r, k_stage r)) rs)"

lemma row_of_Some: "row_of d i = Some r \<Longrightarrow> r \<in> set (tasks d) \<and> k_id r = i"
  by (auto simp: row_of_def dest: find_Some_D)

lemma row_of_None: "row_of d i = None \<longleftrightarrow> i \<notin> k_id ` set (tasks d)"
  by (auto simp: row_of_def find_None_iff)

lemma row_of_mem:
  assumes "distinct (map k_id (tasks d))" "r \<in> set (tasks d)"
  shows "row_of d (k_id r) = Some r"
proof -
  obtain s where s: "row_of d (k_id r) = Some s"
    using assms(2) row_of_None[of d "k_id r"] by (cases "row_of d (k_id r)") auto
  then show ?thesis using row_of_Some[OF s] distinct_map_inj[OF assms(1)] assms(2) by metis
qed

lemma set_change_row:
  "set (tasks (change_row i g d)) = (\<lambda>r. if k_id r = i then g r else r) ` set (tasks d)"
  by (simp add: change_row_def)

lemma change_row_tables [simp]:
  "runs (change_row i g d) = runs d" "operators (change_row i g d) = operators d"
  "events (change_row i g d) = events d"
  by (simp_all add: change_row_def)

lemma rows_distinct_change:
  assumes "rows_distinct (tasks d)"
    "\<And>r. k_id (g r) = k_id r \<and> k_run (g r) = k_run r \<and> k_key (g r) = k_key r \<and> k_stage (g r) = k_stage r"
  shows "rows_distinct (tasks (change_row i g d))"
proof -
  have "map k_id (tasks (change_row i g d)) = map k_id (tasks d)"
    "map (\<lambda>r. (k_run r, k_key r, k_stage r)) (tasks (change_row i g d)) =
       map (\<lambda>r. (k_run r, k_key r, k_stage r)) (tasks d)"
    using assms(2) by (simp_all add: change_row_def)
  then show ?thesis using assms(1) by (simp add: rows_distinct_def)
qed

lemma rows_distinct_append:
  "rows_distinct rs \<Longrightarrow> \<not> list_ex (conflicts r) rs \<Longrightarrow> rows_distinct (rs @ [r])"
  by (auto simp: rows_distinct_def list_ex_iff conflicts_def)

lemma row_of_change:
  assumes "\<And>r. k_id (g r) = k_id r"
  shows "row_of (change_row i g d) j = map_option (\<lambda>r. if k_id r = i then g r else r) (row_of d j)"
proof -
  have "find (\<lambda>r. k_id r = j) (map (\<lambda>r. if k_id r = i then g r else r) rs) =
      map_option (\<lambda>r. if k_id r = i then g r else r) (find (\<lambda>r. k_id r = j) rs)" for rs
    using assms by (induction rs) auto
  then show ?thesis by (simp add: row_of_def change_row_def)
qed

lemma tasks_of_set: "set (tasks_of d (Some i)) = {r \<in> set (tasks d). k_run r = i}"
  by (auto simp: tasks_of_def)

lemma pending_of_sound:
  assumes "r \<in> set (pending_of d rid g limit)"
  shows "r \<in> set (tasks d) \<and> k_status r = Pending"
proof -
  define p where "p = (\<lambda>r :: row. k_status r = Pending \<and>
      (case rid of None \<Rightarrow> True | Some x \<Rightarrow> k_run r = x) \<and>
      (case g of None \<Rightarrow> True | Some x \<Rightarrow> k_stage r = x))"
  have "set (pending_of d rid g limit) \<subseteq> set (sort_key k_created (filter p (tasks d)))"
    by (auto simp: pending_of_def p_def[symmetric] Let_def split: option.splits dest: in_set_takeD)
  then show ?thesis using assms by (auto simp: p_def)
qed

end
