(* ===== verification/Identity.thy ===== *)
theory Identity
  imports Store
begin

text \<open>
  The run's environment side of the scheduler: \<open>core/user_identity.py\<close>, the identity check of
  the persisted base model (\<open>validate_environment_identity\<close> of
  \<open>validators/deployment_validator.py\<close>), and the methods \<open>create_run\<close>,
  \<open>bind_environment\<close>, \<open>record_environment_failure\<close> and \<open>record_graph_transition\<close> of
  \<open>TaskScheduler\<close>.
\<close>

section \<open>Owner of an environment\<close>

definition is_user_char :: "char \<Rightarrow> bool" where
  "is_user_char c = (let n = of_char c :: nat in (48 \<le> n \<and> n \<le> 57) \<or> (97 \<le> n \<and> n \<le> 122))"

text \<open>\<open>[a-z0-9](?:[a-z0-9.-]*[a-z0-9])?\<close>\<close>

definition user_name :: "string \<Rightarrow> bool" where
  "user_name s \<longleftrightarrow> s \<noteq> [] \<and> is_user_char (hd s) \<and> is_user_char (last s) \<and>
     list_all (\<lambda>c. is_user_char c \<or> c = CHR ''.'' \<or> c = CHR ''-'') s"

definition resolve_user_id :: "lib \<Rightarrow> pyval \<Rightarrow> pyval \<Rightarrow> exc + string" where
  "resolve_user_id L explicit recorded =
     (let v = (if \<not> is_None explicit then explicit else recorded);
          v' = (if is_None v then JStr (case user_id_env L of None \<Rightarrow> [] | Some s \<Rightarrow> s) else v)
      in (case v' of
            JStr s \<Rightarrow>
              if strip s \<noteq> [] \<and> \<not> user_name (strip s)
              then Inl (ValueError (Msg ''user_id must contain lowercase letters'' []))
              else Inr (strip s)
          | _ \<Rightarrow> Inl (ValueError (Msg ''user_id must be a string supplied by the user'' []))))"

definition recorded_owner :: "lib \<Rightarrow> pydict \<Rightarrow> string \<Rightarrow> exc + string list" where
  "recorded_owner L env k = (case dget env k of
      JDict h \<Rightarrow>
        if truthy (dget h ''user_id'')
        then rbind (resolve_user_id L JNone (dget h ''user_id'')) (\<lambda>u. Inr [u])
        else Inr []
    | _ \<Rightarrow> Inr [])"

definition environment_user_id :: "lib \<Rightarrow> pydict \<Rightarrow> pyval \<Rightarrow> exc + string option" where
  "environment_user_id L env supplied =
     rbind (recorded_owner L env ''environment_proof'') (\<lambda>a.
     rbind (recorded_owner L env ''failed_environment_proof'') (\<lambda>b.
     let recorded = remdups (a @ b) in
     if 1 < length recorded
     then Inl (ValueError (Msg ''environment handoffs contain conflicting user_id values'' []))
     else
       let owner = (case recorded of [] \<Rightarrow> None | u # _ \<Rightarrow> Some u) in
       rbind (if is_None supplied then Inr None
              else rbind (resolve_user_id L supplied JNone) (\<lambda>u. Inr (Some u))) (\<lambda>requested.
       if owner \<noteq> None \<and> owner \<noteq> Some [] \<and> requested \<noteq> None \<and> requested \<noteq> owner
       then Inl (ValueError (Msg ''user_id does not match the recorded environment owner'' []))
       else Inr (if owner \<noteq> None then owner else requested))))"

section \<open>Base model identity\<close>

text \<open>The comprehension of the errors; the message of a key that the profile lacks raises
  \<open>KeyError\<close> itself, which the enclosing \<open>except\<close> turns into one error.\<close>

definition identity_key_error :: "pyval \<Rightarrow> pydict \<Rightarrow> string \<Rightarrow> exc + msg list" where
  "identity_key_error expected identity k =
     rbind (vget expected k) (\<lambda>x.
     if truthy x
     then rbind (vindex expected k) (\<lambda>y.
       if py_eq (dget identity k) y then Inr []
       else Inr [Msg ''base_model_identity must equal configured'' [JStr k, y]])
     else rbind (vindex expected k) (\<lambda>y.
       Inr [Msg ''base_model_identity must equal configured'' [JStr k, y]]))"

definition environment_identity_body :: "lib \<Rightarrow> fs \<Rightarrow> path \<Rightarrow> exc + msg list" where
  "environment_identity_body L f dir =
     rbind (cluster_profile L) (\<lambda>profile.
     rbind (vindex profile ''validation'') (\<lambda>v.
     rbind (vindex v ''base_model'') (\<lambda>expected.
     rbind (read_bytes f (dir @ [''base_model_identity.json''])) (\<lambda>c.
     case json_loads L c of
       None \<Rightarrow> Inl (ValueError (Msg ''Expecting value'' []))
     | Some (JDict identity) \<Rightarrow>
         rbind (rmapM (identity_key_error expected identity)
           [''name'', ''path'', ''served_model_name'']) (\<lambda>ms. Inr (concat ms))
     | Some _ \<Rightarrow> Inr [Msg ''base_model_identity.json must contain an object'' []]))))"

definition caught_identity :: "exc \<Rightarrow> bool" where
  "caught_identity e \<longleftrightarrow> is_OSError e \<or> is_ValueError e \<or> is_KeyError e \<or> is_TypeError e"

definition validate_environment_identity :: "lib \<Rightarrow> fs \<Rightarrow> path \<Rightarrow> exc + msg list" where
  "validate_environment_identity L f dir =
     (case environment_identity_body L f dir of
        Inr ms \<Rightarrow> Inr ms
      | Inl e \<Rightarrow> if caught_identity e
          then Inr [Msg ''cannot validate base_model_identity.json'' []] else Inl e)"

section \<open>create\_run\<close>

definition text_path :: "pyval \<Rightarrow> exc + string" where
  "text_path v = (case v of JStr s \<Rightarrow> Inr s | _ \<Rightarrow> Inl TypeError)"

text \<open>The directory that holds the runs of this database.\<close>

definition runs_base :: "lib \<Rightarrow> world \<Rightarrow> exc + path" where
  "runs_base L w = (case db_path w of
      Some p \<Rightarrow> Inr (butlast p @ [''runs''])
    | None \<Rightarrow> rbind (default_state_root L (files w)) (\<lambda>b. Inr (b @ [''runs''])))"

definition default_run_root :: "lib \<Rightarrow> string \<Rightarrow> world \<Rightarrow> exc + string" where
  "default_run_root L rid w =
     rbind (runs_base L w) (\<lambda>b.
     rbind (safe_component L rid) (\<lambda>c.
     rbind (ensure_external_path L (files w) (b @ [c])) (\<lambda>p. Inr (path_str p))))"

definition external_root :: "lib \<Rightarrow> pyval \<Rightarrow> world \<Rightarrow> exc + string" where
  "external_root L v w =
     rbind (text_path v) (\<lambda>s. rbind (ensure_external L (files w) s) (\<lambda>p. Inr (path_str p)))"

definition create_run :: "lib \<Rightarrow> run \<Rightarrow> run exec" where
  "create_run L r =
     actbind (actread (\<lambda>w. run_of (db w) (r_id r))) (\<lambda>existing.
     case existing of
       Some x \<Rightarrow> actret x
     | None \<Rightarrow>
         let mode = run_mode r; given = dget (r_metadata r) ''artifact_root'' in
         actbind (actguard (in_strs mode [''real'', ''simulation''])
           (ValueError (Msg ''evidence_mode must be real or simulation'' []))) (\<lambda>_.
         actbind
           (if py_eq mode (JStr ''real'') then
              actbind (actreadR (\<lambda>w. if truthy given then external_root L given w
                 else default_run_root L (r_id r) w)) (\<lambda>base.
              actret (r\<lparr>r_status := ''WAITING_FOR_ENVIRONMENT'',
                r_metadata := dset (dset (r_metadata r) ''environment_required'' (JBool True))
                  ''artifact_root'' (JStr base)\<rparr>))
            else if truthy given then
              actbind (actreadR (external_root L given)) (\<lambda>base.
              actret (r\<lparr>r_metadata := dset (r_metadata r) ''artifact_root'' (JStr base)\<rparr>))
            else actret r) (\<lambda>r'.
         actbind (save_run L r') (\<lambda>saved.
         actbind (emit L (r_id saved) ''run_created'' [(''model_id'', JStr (r_model saved))] None)
           (\<lambda>_. actret saved)))))"

section \<open>bind\_environment\<close>

definition bind_required :: "string list" where
  "bind_required = [''pod_ready'', ''runtime_importable'', ''code_ready'', ''device_ready'',
     ''base_model_loaded'', ''base_prefill'', ''base_decode'']"

definition bind_missing :: "pydict \<Rightarrow> pydict \<Rightarrow> string list" where
  "bind_missing proof checks =
     (if \<not> py_eq (dget proof ''state'') (JStr ''ENVIRONMENT_READY'') then [''state''] else []) @
     (if \<not> truthy (dget proof ''pod'') then [''pod''] else []) @
     filter (\<lambda>k. \<not> is_True (dget checks k)) bind_required"

definition bind_artifacts :: "string list" where
  "bind_artifacts = [''base_chat_result.json'', ''base_health_result.txt'',
     ''base_model_identity.json'', ''base_server_log.txt'', ''code_readiness.json'',
     ''device_readiness.json'', ''environment_fingerprint.txt'', ''runtime_import.txt'']"

definition bind_check_ok :: "pydict \<Rightarrow> bool" where
  "bind_check_ok checks \<longleftrightarrow>
     py_eq (dget checks ''base_health_check'') (JInt 200) \<and>
     dget checks ''base_chat_completion'' = JStr ''non_empty'' \<and>
     is_False (dget checks ''unexpected_fallback'')"

definition validator_ok :: "pyval \<Rightarrow> bool" where
  "validator_ok v = (case v of
      JNone \<Rightarrow> True
    | JDict d \<Rightarrow> is_True (dget d ''passed'') \<and> \<not> truthy (dget d ''errors'')
    | _ \<Rightarrow> False)"

text \<open>The checks that only read the proof: the readiness fields, the recorded owner, the
  validator's verdict and the list of artifacts. The result is the dictionary of checks, the
  artifact names and the mode.\<close>

definition bind_proof_checks :: "lib \<Rightarrow> run \<Rightarrow> pydict \<Rightarrow>
    exc + (pydict \<times> string list \<times> pyval \<times> string option)" where
  "bind_proof_checks L r proof =
     (let mode = dget_or proof ''evidence_mode'' (JStr ''real'') in
      rbind (in_strset mode [''real'', ''simulation'']) (\<lambda>known.
      rbind (rguard known
        (ValueError (Msg ''environment proof evidence_mode must be real or simulation'' []))) (\<lambda>_.
      rbind (rguard (\<not> (py_eq (run_mode r) (JStr ''real'') \<and> \<not> py_eq mode (JStr ''real'')))
        (ValueError (Msg ''simulation environment proof cannot satisfy a real run'' []))) (\<lambda>_.
      case py_or (dget proof ''checks'') (JDict []) of
        JDict checks \<Rightarrow>
          rbind (rguard (bind_missing proof checks = [])
            (ValueError (Msg ''environment proof is not ready'' []))) (\<lambda>_.
          rbind (rguard (case dget proof ''user_id'' of JStr s \<Rightarrow> strip s \<noteq> [] | _ \<Rightarrow> False)
            (ValueError (Msg ''environment proof must record the supplied user_id'' []))) (\<lambda>_.
          rbind (environment_user_id L (r_environment r) (dget proof ''user_id'')) (\<lambda>owner.
          rbind (rguard (bind_check_ok checks)
            (ValueError (Msg ''environment proof checks must equal the expected values'' []))) (\<lambda>_.
          rbind (rguard (validator_ok (dget proof ''validator''))
            (ValueError (Msg ''environment proof validator rejected the evidence'' []))) (\<lambda>_.
          (case py_or (dget proof ''artifacts'') (JList []) of
             JList items \<Rightarrow>
               rbind (rguard (list_all is_str items)
                 (ValueError (Msg ''environment proof artifacts must be a list of file names'' [])))
                 (\<lambda>_.
               let names = map (\<lambda>v. str_or v []) items in
               rbind (rguard (list_all (\<lambda>k. k \<in> set names) bind_artifacts)
                 (ValueError (Msg ''environment proof is missing evidence'' []))) (\<lambda>_.
               Inr (checks, names, mode, owner)))
           | _ \<Rightarrow> Inl (ValueError
               (Msg ''environment proof artifacts must be a list of file names'' [])))))))) 
      | _ \<Rightarrow> Inl (ValueError (Msg ''environment proof checks must be an object'' []))))))"

definition hash_evidence :: "lib \<Rightarrow> fs \<Rightarrow> path \<Rightarrow> string \<Rightarrow> exc + string \<times> pyval" where
  "hash_evidence L f dir name = (case read_bytes f (dir @ [name]) of
      Inl _ \<Rightarrow> Inl (ValueError (Msg ''cannot read environment evidence'' [JStr name]))
    | Inr c \<Rightarrow>
        if c = [] then Inl (ValueError (Msg ''environment evidence is empty'' [JStr name]))
        else Inr (name, JStr (sha256 L c)))"

text \<open>The checks that read the evidence directory; the result is the hash of each file.\<close>

definition bind_evidence :: "lib \<Rightarrow> fs \<Rightarrow> path \<Rightarrow> exc + pydict" where
  "bind_evidence L f dir =
     rbind (validate_environment_identity L f dir) (\<lambda>es.
     rbind (rguard (es = [])
       (ValueError (Msg ''environment proof identity rejected'' []))) (\<lambda>_.
     rbind (rmapM (hash_evidence L f dir) bind_artifacts) (\<lambda>hs.
     if is_file f (dir @ [''status.json''])
     then rbind (read_bytes f (dir @ [''status.json''])) (\<lambda>c.
       Inr (dset hs ''status.json'' (JStr (sha256 L c))))
     else Inr hs)))"

definition bound_proof ::
  "pydict \<Rightarrow> pydict \<Rightarrow> string list \<Rightarrow> pyval \<Rightarrow> string option \<Rightarrow> pydict \<Rightarrow> path \<Rightarrow> pydict" where
  "bound_proof proof checks names mode owner hashes dir =
     [(''pod'', dget proof ''pod''),
      (''user_id'', case owner of None \<Rightarrow> JNone | Some u \<Rightarrow> JStr u),
      (''checks'', JDict checks), (''artifacts'', JList (map JStr names)),
      (''fingerprint'', dget hashes ''environment_fingerprint.txt''),
      (''artifact_root'', JStr (path_str dir)), (''evidence_sha256'', JDict hashes),
      (''evidence_mode'', mode)]"

definition bind_environment :: "lib \<Rightarrow> string \<Rightarrow> pydict \<Rightarrow> string option \<Rightarrow> run exec" where
  "bind_environment L rid proof artifact_root =
     actbind (get_run rid) (\<lambda>r.
     actbind (actlift (bind_proof_checks L r proof)) (\<lambda>(checks, names, mode, owner).
     let given = (case artifact_root of Some (c # s) \<Rightarrow> JStr (c # s)
                  | _ \<Rightarrow> dget proof ''artifact_root'') in
     actbind (actguard (truthy given)
       (ValueError (Msg ''environment proof requires its artifact_root'' []))) (\<lambda>_.
     actbind (actlift (text_path given)) (\<lambda>s.
     actbind (actreadR (\<lambda>w. resolve (files w) (locate L s))) (\<lambda>dir.
     actbind (actreadR (\<lambda>w. bind_evidence L (files w) dir)) (\<lambda>hashes.
     let fp = dget hashes ''environment_fingerprint.txt'' in
     actbind (actlift (run_fingerprint r)) (\<lambda>previous.
     actbind (actread (\<lambda>w. tasks_of (db w) (Some rid) \<noteq> [])) (\<lambda>has_tasks.
     actbind (actguard (\<not> (truthy previous \<and> \<not> py_eq previous fp \<and> has_tasks))
       (ValueError (Msg ''environment changed after discovery'' []))) (\<lambda>_.
     let r' = r\<lparr>r_status := ''ENVIRONMENT_READY'',
                r_environment := dset (r_environment r) ''environment_proof''
                  (JDict (bound_proof proof checks names mode owner hashes dir))\<rparr> in
     actbind (update_run L r') (\<lambda>r''.
     actbind (emit L rid ''environment_bound''
       [(''pod'', dget proof ''pod''), (''artifacts'', JList (map JStr names))] None) (\<lambda>_.
     actret r'')))))))))))"

section \<open>record\_environment\_failure and record\_graph\_transition\<close>

definition record_environment_failure :: "lib \<Rightarrow> string \<Rightarrow> pydict \<Rightarrow> string \<Rightarrow> run exec" where
  "record_environment_failure L rid proof error =
     actbind (get_run rid) (\<lambda>r.
     actbind (actlift (environment_user_id L (r_environment r) (dget proof ''user_id''))) (\<lambda>owner.
     let previous = dget_or (r_environment r)
           (if r_status r = ''ENVIRONMENT_FAILED'' then ''failed_environment_proof''
            else ''environment_proof'') (JDict []) in
     actbind (actlift (if truthy (dget proof ''pod'') then Inr (dget proof ''pod'')
                       else vget previous ''pod'')) (\<lambda>pod.
     actbind (actguard (\<not> (truthy pod \<and> (owner = None \<or> owner = Some [])))
       (ValueError (Msg ''a failed environment with a Pod must record its user_id'' []))) (\<lambda>_.
     let r' = r\<lparr>r_status := ''ENVIRONMENT_FAILED'',
                r_environment := dset (r_environment r) ''failed_environment_proof''
                  (JDict [(''state'', dget_or proof ''state'' (JStr ''FAILED'')), (''pod'', pod),
                    (''user_id'', case owner of None \<Rightarrow> JNone | Some u \<Rightarrow> JStr u),
                    (''artifact_root'', dget proof ''artifact_root''),
                    (''checks'', dget_or proof ''checks'' (JDict [])),
                    (''artifacts'', dget_or proof ''artifacts'' (JList [])),
                    (''diagnosis'', dget_or proof ''reason'' (JStr error))])\<rparr> in
     actbind (update_run L r') (\<lambda>r''.
     actbind (emit L rid ''environment_failed''
       [(''error'', JStr error), (''artifacts'', dget_or proof ''artifacts'' (JList []))] None) (\<lambda>_.
     actret r''))))))"

definition graph_keys :: "string list" where
  "graph_keys = [''graph_environment_required'', ''graph_environment'', ''graph_discovery'',
     ''graph_shim_discovery'', ''graph_delivery'', ''graph_progress'']"

definition record_graph_transition :: "lib \<Rightarrow> string \<Rightarrow> string \<Rightarrow> pydict \<Rightarrow> run exec" where
  "record_graph_transition L rid key payload =
     actbind (actguard (key \<in> set graph_keys)
       (ValueError (Msg ''unsupported graph transition'' [JStr key]))) (\<lambda>_.
     actbind (get_run rid) (\<lambda>r.
     let v = (if key = ''graph_environment_required'' then JBool True else JDict payload) in
     if py_eq (dget (r_metadata r) key) v then actret r
     else
       let r' = r\<lparr>r_metadata := dset (r_metadata r) key v\<rparr> in
       actbind (update_run L r') (\<lambda>r''.
       actbind (emit L rid key payload None) (\<lambda>_. actret r''))))"

end
