(* ===== verification/Scheduler.thy ===== *)
theory Scheduler
  imports Identity
begin

text \<open>
  The queue side of \<open>TaskScheduler\<close> (\<open>engine/scheduler.py\<close>): discovery of an operator,
  claiming under a lease, renewal, completion through the evidence gate, failure with a diagnosis
  task, the application of a diagnosis, recovery of expired leases and reconciliation of a run.
  Every method is the body of the source's method; \<open>atomic\<close> (the decorator) is put around
  it where the step relation of \<open>SchedulerSteps\<close> calls it.
\<close>

section \<open>Discovery\<close>

definition environment_required :: "run \<Rightarrow> bool" where
  "environment_required r \<longleftrightarrow>
     \<not> py_eq (run_mode r) (JStr ''simulation'') \<or>
     truthy (dget (r_metadata r) ''environment_required'') \<or>
     truthy (dget (r_metadata r) ''graph_environment_required'')"

definition stage_task_id :: "string \<Rightarrow> string \<Rightarrow> stage \<Rightarrow> string" where
  "stage_task_id rid key g = rid @ '':'' @ key @ '':'' @ stage_name g"

definition diagnosis_task_id :: "string \<Rightarrow> string" where
  "diagnosis_task_id i = i @ '':diagnosis''"

text \<open>\<open>not fingerprint or spec.environment.get("fingerprint") != fingerprint\<close>\<close>

definition fingerprint_mismatch :: "run \<Rightarrow> opspec \<Rightarrow> exc + bool" where
  "fingerprint_mismatch r s =
     rbind (run_fingerprint r) (\<lambda>fp.
     if \<not> truthy fp then Inr True
     else rbind (vget (os_environment s) ''fingerprint'') (\<lambda>x. Inr (\<not> py_eq x fp)))"

definition discover_operator :: "lib \<Rightarrow> string \<Rightarrow> opspec \<Rightarrow> task exec" where
  "discover_operator L rid spec =
     actbind (get_run rid) (\<lambda>r.
     actbind (actguard (\<not> (environment_required r \<and> r_status r \<noteq> ''ENVIRONMENT_READY''))
       (ValueError (Msg ''environment proof is required before operator discovery'' []))) (\<lambda>_.
     actbind (actwhen (environment_required r)
       (actbind (actlift (fingerprint_mismatch r spec)) (\<lambda>bad.
        actbind (actguard (\<not> bad) (ValueError (Msg
          ''operator specification must reference the bound environment fingerprint'' []))) (\<lambda>_.
        actguard (py_eq (os_model_id spec) (JStr (r_model r)) \<and>
                  py_eq (os_backend spec) (JStr (r_backend r)))
          (ValueError (Msg ''operator specification does not match the run'' [])))))) (\<lambda>_.
     let key = operator_key L spec in
     actbind (put_operator L rid spec) (\<lambda>is_new.
     actbind (actread (\<lambda>w. find (\<lambda>t. k_key t = key \<and> k_stage t = Torch)
        (tasks_of (db w) (Some rid)))) (\<lambda>existing.
     case existing of
       Some t \<Rightarrow> actret (view t)
     | None \<Rightarrow>
         let tid = stage_task_id rid key Torch;
             inp = [(''operator_spec'', JDict (opspec_to_dict spec))] in
         actbind (insert_task L tid rid key Torch inp) (\<lambda>_.
         actbind (emit L rid ''operator_discovered''
           [(''operator_key'', JStr key), (''new'', JBool is_new)] None) (\<lambda>_.
         actbind (emit L rid ''task_created''
           [(''stage'', JStr ''torch''), (''operator_key'', JStr key)] (Some tid)) (\<lambda>_.
         actret (view (new_row tid rid key Torch inp 0))))))))))"

section \<open>Claiming\<close>

text \<open>\<open>_deps_succeeded\<close>\<close>

definition deps_succeeded :: "database \<Rightarrow> string \<Rightarrow> string \<Rightarrow> stage \<Rightarrow> exc + bool" where
  "deps_succeeded d rid key g =
     (if g = Diagnosis then Inr True
      else (case run_of d rid of
          None \<Rightarrow> Inl AttributeError
        | Some r \<Rightarrow>
            rbind
              (if environment_required r
               then if r_status r \<noteq> ''ENVIRONMENT_READY'' then Inr False
                 else rbind (run_fingerprint r) (\<lambda>fp.
                   if \<not> truthy fp then
                     (case operator_of d rid key of _ \<Rightarrow> Inr False)
                   else (case operator_of d rid key of
                       None \<Rightarrow> Inl AttributeError
                     | Some s \<Rightarrow>
                         rbind (vget (os_environment s) ''fingerprint'') (\<lambda>x. Inr (py_eq x fp))))
               else Inr True) (\<lambda>env_ok.
            if \<not> env_ok then Inr False
            else (case prev_stage g of
                None \<Rightarrow> Inr True
              | Some p \<Rightarrow> Inr (\<exists>t \<in> set (tasks d). k_run t = rid \<and> k_key t = key \<and>
                    k_stage t = p \<and> k_status t = Succeeded)))))"

definition clear_lease :: "row \<Rightarrow> row" where
  "clear_lease t = t\<lparr>k_token := None, k_worker := None, k_expires := None\<rparr>"

definition requeue :: "rat \<Rightarrow> row \<Rightarrow> row" where
  "requeue tm t = (clear_lease t)\<lparr>k_status := Pending, k_updated := tm\<rparr>"

definition lease_expired :: "rat \<Rightarrow> row \<Rightarrow> bool" where
  "lease_expired tm t \<longleftrightarrow>
     k_status t = Running \<and> (case k_expires t of None \<Rightarrow> False | Some e \<Rightarrow> e \<le> tm)"

definition expire_leases :: "rat \<Rightarrow> database \<Rightarrow> database" where
  "expire_leases tm d =
     d\<lparr>tasks := map (\<lambda>t. if lease_expired tm t then requeue tm t else t) (tasks d)\<rparr>"

definition take_lease :: "string \<Rightarrow> string \<Rightarrow> rat \<Rightarrow> rat \<Rightarrow> row \<Rightarrow> row" where
  "take_lease tok worker expires tm t =
     t\<lparr>k_status := Running, k_attempt := k_attempt t + 1, k_token := Some tok,
       k_worker := Some worker, k_expires := Some expires, k_updated := tm\<rparr>"

definition workspace_dict :: "attempt \<Rightarrow> pydict" where
  "workspace_dict a = attempt_identity a @
     [(''root'', JStr (path_str (a_root a))), (''input'', JStr (path_str (a_input a))),
      (''scratch'', JStr (path_str (a_scratch a))), (''output'', JStr (path_str (a_output a))),
      (''logs'', JStr (path_str (a_logs a)))]"

text \<open>A real run without a workspace of its own gets one when its first task is claimed.\<close>

definition bind_workspace :: "lib \<Rightarrow> run \<Rightarrow> run exec" where
  "bind_workspace L r =
     (if py_eq (run_mode r) (JStr ''real'') \<and> \<not> truthy (dget (r_metadata r) ''artifact_root'')
      then
        actbind (actreadR (default_run_root L (r_id r))) (\<lambda>base.
        let r' = r\<lparr>r_metadata := dset (r_metadata r) ''artifact_root'' (JStr base)\<rparr> in
        actbind (update_run L r') (\<lambda>r''.
        actbind (emit L (r_id r) ''run_workspace_bound'' [(''artifact_root'', JStr base)] None)
          (\<lambda>_. actret r'')))
      else actret r)"

text \<open>The attempt directory of a claimed row and its \<open>task.json\<close>.\<close>

definition prepare_workspace :: "lib \<Rightarrow> run \<Rightarrow> row \<Rightarrow> unit exec" where
  "prepare_workspace L r t =
     (let base = dget (r_metadata r) ''artifact_root'' in
      if \<not> truthy base then actret ()
      else
        actbind (actlift (text_path base)) (\<lambda>s.
        actbind (actreadR (\<lambda>w. rbind (expand_user L s) (\<lambda>p.
          mk_run_paths L (files w) p (Some (r_id r))))) (\<lambda>rp.
        actbind (allocate_attempt L rp (k_id t)) (\<lambda>a.
        let payload = dset (k_input t) ''workspace'' (JDict (workspace_dict a)) in
        actbind (actreadR (\<lambda>w. ensure_external_path L (files w) (a_input a))) (\<lambda>store.
        actbind (store_write_json L store ''task.json'' (JDict
          [(''task_id'', JStr (k_id t)), (''run_id'', JStr (k_run t)),
           (''stage'', JStr (stage_name (k_stage t))), (''attempt'', JInt (k_attempt t + 1)),
           (''input'', JDict payload)]) False) (\<lambda>_.
        dbwrite (change_row (k_id t) (\<lambda>x. x\<lparr>k_input := payload\<rparr>))))))))"

text \<open>\<open>WHERE task_id=? AND status='pending'\<close>\<close>

definition still_pending :: "database \<Rightarrow> string \<Rightarrow> bool" where
  "still_pending d i = (case row_of d i of None \<Rightarrow> False | Some x \<Rightarrow> k_status x = Pending)"

definition claim_one :: "lib \<Rightarrow> string \<Rightarrow> rat \<Rightarrow> rat \<Rightarrow> row \<Rightarrow> task option exec" where
  "claim_one L worker lease t0 t =
     actbind (draw_token L) (\<lambda>tok.
     actbind (actread (\<lambda>w. still_pending (db w) (k_id t))) (\<lambda>hit.
     if \<not> hit then actret None
     else
       actbind (dbwrite (change_row (k_id t) (take_lease tok worker (t0 + lease) t0))) (\<lambda>_.
       actbind (expect_run (k_run t)) (\<lambda>r.
       actbind (bind_workspace L r) (\<lambda>r'.
       actbind (prepare_workspace L r' t) (\<lambda>_.
       actbind (get_row (k_id t)) (\<lambda>x. actret (Some (view x)))))))))"

text \<open>The loop over the candidates: a claimed task is appended while fewer than \<open>limit\<close>
  are held and the dependencies have succeeded; the update is conditional on the row's status.\<close>

fun claim_loop ::
  "lib \<Rightarrow> string \<Rightarrow> rat \<Rightarrow> rat \<Rightarrow> int \<Rightarrow> task list \<Rightarrow> row list \<Rightarrow> task list exec" where
  "claim_loop L worker lease t0 limit claimed [] = actret claimed"
| "claim_loop L worker lease t0 limit claimed (t # ts) =
     (if limit \<le> int (length claimed) then claim_loop L worker lease t0 limit claimed ts
      else
        actbind (actreadR (\<lambda>w. deps_succeeded (db w) (k_run t) (k_key t) (k_stage t))) (\<lambda>ready.
        if \<not> ready then claim_loop L worker lease t0 limit claimed ts
        else
          actbind (claim_one L worker lease t0 t) (\<lambda>v. case v of
              None \<Rightarrow> claim_loop L worker lease t0 limit claimed ts
            | Some x \<Rightarrow> claim_loop L worker lease t0 limit (claimed @ [x]) ts)))"

definition emit_claim :: "lib \<Rightarrow> string \<Rightarrow> task \<Rightarrow> unit exec" where
  "emit_claim L worker v =
     emit L (t_run v) ''task_claimed''
       [(''worker_id'', JStr worker), (''stage'', JStr (stage_name (t_stage v))),
        (''attempt'', JInt (t_attempt v))] (Some (t_id v))"

definition claim_candidates :: "database \<Rightarrow> stage option \<Rightarrow> row list" where
  "claim_candidates d g =
     sort_key k_created (filter (\<lambda>t. k_status t = Pending \<and>
       (case g of None \<Rightarrow> True | Some x \<Rightarrow> k_stage t = x)) (tasks d))"

definition claim_ready ::
  "lib \<Rightarrow> string \<Rightarrow> string option \<Rightarrow> pyfloat \<Rightarrow> int \<Rightarrow> task list exec" where
  "claim_ready L worker stage lease_seconds limit =
     (case lease_seconds of
        Fin lease \<Rightarrow>
          if worker = [] \<or> limit \<le> 0 \<or> lease \<le> 0
          then actraise (ValueError (Msg ''worker, positive limit and positive lease required'' []))
          else (case map_option parse_stage stage of
            Some None \<Rightarrow> actraise (ValueError (Msg ''invalid stage'' []))
          | g \<Rightarrow>
            actbind (now L) (\<lambda>t0.
            actbind (dbwrite (expire_leases t0)) (\<lambda>_.
            actbind (actread (\<lambda>w. claim_candidates (db w) (Option.bind g id))) (\<lambda>candidates.
            actbind (claim_loop L worker lease t0 limit [] candidates) (\<lambda>claimed.
            actbind (actfor (emit_claim L worker) claimed) (\<lambda>_.
            actret claimed))))))
      | _ \<Rightarrow> actraise (ValueError (Msg ''worker, positive limit and positive lease required'' [])))"

section \<open>Leases\<close>

text \<open>\<open>_owned_lease\<close>: a missing token with the token in the worker's place is accepted; a
  worker name alone is not. The clock is read only when everything else matches.\<close>

definition lease_error :: exc where
  "lease_error = ValueError
     (Msg ''task requires its current unexpired lease token and matching worker'' [])"

definition lease_args ::
  "row \<Rightarrow> string option \<Rightarrow> string option \<Rightarrow> string option \<times> string option" where
  "lease_args t worker tok =
     (if (tok = None \<or> tok = Some []) \<and> worker = k_token t then (None, worker) else (worker, tok))"

definition lease_matches :: "row \<Rightarrow> string option \<Rightarrow> string option \<Rightarrow> bool" where
  "lease_matches t worker tok \<longleftrightarrow>
     tok \<noteq> None \<and> tok \<noteq> Some [] \<and> k_token t = tok \<and>
     (worker = None \<or> k_worker t = worker) \<and> k_status t = Running \<and> k_expires t \<noteq> None"

definition owned_lease :: "lib \<Rightarrow> string \<Rightarrow> string option \<Rightarrow> string option \<Rightarrow> row exec" where
  "owned_lease L tid worker tok =
     actbind (get_row tid) (\<lambda>t.
     let (worker', tok') = lease_args t worker tok in
     if \<not> lease_matches t worker' tok' then actraise lease_error
     else
       actbind (now L) (\<lambda>t0.
       if the (k_expires t) \<le> t0 then actraise lease_error else actret t))"

definition renew_lease :: "lib \<Rightarrow> string \<Rightarrow> string \<Rightarrow> string \<Rightarrow> pyfloat \<Rightarrow> task exec" where
  "renew_lease L tid worker tok lease_seconds =
     (case lease_seconds of
        Fin lease \<Rightarrow>
          if lease \<le> 0 then actraise (ValueError (Msg ''lease_seconds must be positive'' []))
          else
            actbind (owned_lease L tid (Some worker) (Some tok)) (\<lambda>t.
            actbind (now L) (\<lambda>t0.
            actbind (now L) (\<lambda>t1.
            actbind (dbwrite (change_row tid (\<lambda>x. if k_token x = Some tok
              then x\<lparr>k_expires := Some (t0 + lease), k_updated := t1\<rparr> else x))) (\<lambda>_.
            actbind (emit L (k_run t) ''lease_renewed''
              [(''lease_expires'', JFloat (Fin (t0 + lease)))] (Some tid)) (\<lambda>_.
            actbind (get_row tid) (\<lambda>x. actret (view x)))))))
      | _ \<Rightarrow> actraise (ValueError (Msg ''lease_seconds must be positive'' [])))"

section \<open>Failure and diagnosis\<close>

text \<open>\<open>_record_attempt\<close>: the output with the manifest's path.\<close>

definition record_attempt :: "lib \<Rightarrow> task \<Rightarrow> pydict \<Rightarrow> string \<Rightarrow> pydict exec" where
  "record_attempt L t output outcome =
     (let ws = dget (t_input t) ''workspace'' in
      if is_None ws then actret output
      else
        actbind (actlift (vindex ws ''root'')) (\<lambda>v.
        actbind (actlift (text_path v)) (\<lambda>s.
        actbind (actreadR (\<lambda>w. ensure_external L (files w) s)) (\<lambda>dir.
        actbind (store_write_json L dir ''result.json'' (JDict output) True) (\<lambda>_.
        actbind (actlift (vindex ws ''attempt_id'')) (\<lambda>aid.
        actbind (register L dir
          [(''run_id'', JStr (t_run t)), (''task_id'', JStr (t_id t)),
           (''stage'', JStr (stage_name (t_stage t))), (''attempt'', JInt (t_attempt t)),
           (''attempt_id'', aid)] outcome [''input/task.json'', ''result.json''] None
           ''manifest.json'') (\<lambda>m.
        actret (dset output ''artifact_manifest'' (JStr (path_str m))))))))))"

definition storage_failure :: "exc \<Rightarrow> bool" where
  "storage_failure e \<longleftrightarrow> is_OSError e \<or> is_WritePolicyError e"

definition diagnosis_input :: "task \<Rightarrow> bug \<Rightarrow> pydict" where
  "diagnosis_input t report =
     [(''source_task_id'', JStr (t_id t)), (''operator_key'', JStr (t_key t)),
      (''failed_stage'', JStr (stage_name (t_stage t))), (''source_attempt'', JInt (t_attempt t)),
      (''bug_report'', JDict (bug_to_dict report))]"

definition diagnosis_event :: "task \<Rightarrow> pydict" where
  "diagnosis_event t =
     [(''source_task_id'', JStr (t_id t)), (''operator_key'', JStr (t_key t)),
      (''failed_stage'', JStr (stage_name (t_stage t))), (''source_attempt'', JInt (t_attempt t))]"

definition reopen :: "pydict \<Rightarrow> rat \<Rightarrow> row \<Rightarrow> row" where
  "reopen inp t x = (requeue t x)\<lparr>k_input := inp, k_output := []\<rparr>"

definition ensure_diagnosis :: "lib \<Rightarrow> task \<Rightarrow> bug \<Rightarrow> task exec" where
  "ensure_diagnosis L t report =
     (let did = diagnosis_task_id (t_id t); inp = diagnosis_input t report in
      actbind (insert_task L did (t_run t) (''diagnosis:'' @ t_id t) Diagnosis inp) (\<lambda>inserted.
      actbind
        (if inserted
         then emit L (t_run t) ''diagnosis_task_created'' (diagnosis_event t) (Some did)
         else
           actbind (actreadR (\<lambda>w. case row_of (db w) did of
               None \<Rightarrow> Inl TypeError | Some x \<Rightarrow> Inr x)) (\<lambda>x.
           actbind (actlift (py_int L (dget_or (k_input x) ''source_attempt'' (JInt 0)))) (\<lambda>n.
           actwhen (n < t_attempt t)
             (actbind (now L) (\<lambda>t0.
              actbind (dbwrite (change_row did (reopen inp t0))) (\<lambda>_.
              emit L (t_run t) ''diagnosis_task_reopened'' (diagnosis_event t) (Some did))))))) (\<lambda>_.
      actreadR (\<lambda>w. case row_of (db w) did of
          None \<Rightarrow> Inl TypeError | Some x \<Rightarrow> Inr (view x)))))"

definition failure_report :: "lib \<Rightarrow> task \<Rightarrow> failure \<Rightarrow> bug exec" where
  "failure_report L t e =
     actbind (now L) (\<lambda>t0.
     actbind (actlift (bug_from_error L (t_id t) e t0)) (\<lambda>b.
     let c1 = dsetdefault (b_context b) ''failed_stage'' (JStr (stage_name (t_stage t)));
         c2 = dsetdefault c1 ''task_input'' (JDict (t_input t));
         c3 = (if t_output t \<noteq> [] then dsetdefault c2 ''task_output'' (JDict (t_output t)) else c2)
     in actret (b\<lparr>b_context := c3\<rparr>)))"

definition finish_row :: "tstatus \<Rightarrow> pydict \<Rightarrow> rat \<Rightarrow> row \<Rightarrow> row" where
  "finish_row st out t x = (clear_lease x)\<lparr>k_status := st, k_output := out, k_updated := t\<rparr>"

text \<open>The attempt is recorded as failed; a storage problem is noted in the report instead.\<close>

definition record_failure :: "lib \<Rightarrow> task \<Rightarrow> bug \<Rightarrow> (bug \<times> pydict) exec" where
  "record_failure L t b =
     actcatch
       (actbind (record_attempt L t [(''error'', JDict (bug_to_dict b))] ''FAILED'')
         (\<lambda>out. actret (b, out)))
       (\<lambda>e. if storage_failure e then
          (let b' = b\<lparr>b_metadata := dset (b_metadata b) ''artifact_registration_error'' (JStr (exc_text L e))\<rparr>
           in Some (actret (b', [(''error'', JDict (bug_to_dict b'))])))
        else None)"

definition fail :: "lib \<Rightarrow> string \<Rightarrow> string option \<Rightarrow> failure \<Rightarrow> string option \<Rightarrow> task exec" where
  "fail L tid worker e tok =
     actbind (get_row tid) (\<lambda>x.
     let t = view x in
     actbind (owned_lease L tid worker tok) (\<lambda>_.
     actbind (failure_report L t e) (\<lambda>b0.
     actbind (record_failure L t b0) (\<lambda>(b, out).
     actbind (owned_lease L tid worker tok) (\<lambda>_.
     actbind (now L) (\<lambda>t0.
     actbind (dbwrite (change_row tid (finish_row Failed out t0))) (\<lambda>_.
     actbind (actwhen (t_stage t \<noteq> Diagnosis)
       (actbind (ensure_diagnosis L t b) (\<lambda>_. actret ()))) (\<lambda>_.
     actbind (emit L (t_run t) ''task_failed''
       [(''stage'', JStr (stage_name (t_stage t))), (''error'', JDict (bug_to_dict b))] (Some tid))
       (\<lambda>_.
     actbind (get_row tid) (\<lambda>y. actret (view y)))))))))))"

section \<open>Completion\<close>

definition upstream_input :: "task \<Rightarrow> pydict \<Rightarrow> opspec \<Rightarrow> pydict" where
  "upstream_input t output spec =
     [(''upstream_task_id'', JStr (t_id t)), (''operator_spec'', JDict (opspec_to_dict spec)),
      (''upstream_result'', JDict output)]"

definition ensure_next :: "lib \<Rightarrow> task \<Rightarrow> pydict \<Rightarrow> stage \<Rightarrow> unit exec" where
  "ensure_next L t output g =
     actbind (actreadR (\<lambda>w. case operator_of (db w) (t_run t) (t_key t) of
         None \<Rightarrow> Inl AttributeError | Some s \<Rightarrow> Inr s)) (\<lambda>s.
     let tid = stage_task_id (t_run t) (t_key t) g in
     actbind (insert_task L tid (t_run t) (t_key t) g (upstream_input t output s)) (\<lambda>inserted.
     actwhen inserted (emit L (t_run t) ''task_created''
       [(''stage'', JStr (stage_name g)), (''operator_key'', JStr (t_key t))] (Some tid))))"

definition msg_text :: "msg \<Rightarrow> pyval" where
  "msg_text m = (case m of Msg s _ \<Rightarrow> JStr s)"

definition diagnosis_done :: "task \<Rightarrow> pydict \<Rightarrow> pydict" where
  "diagnosis_done t output =
     [(''source_task_id'', JStr (case t_source t of None \<Rightarrow> [] | Some s \<Rightarrow> s)),
      (''bug_report'', dget_or (t_input t) ''bug_report'' (JDict [])),
      (''diagnosis'', dget_or output ''diagnosis'' (dget output ''analysis'')),
      (''repair_conclusion'', dget_or output ''repair_conclusion''
         (dget_or output ''conclusion'' (dget output ''recommendation''))),
      (''status'', dget_or output ''status'' (JStr ''succeeded''))]"

definition rejection :: "pydict \<Rightarrow> msg list \<Rightarrow> failure" where
  "rejection output errors = FValue (JDict
     [(''reason'', JStr ''result_validation_failed''), (''result'', JDict output),
      (''validation_errors'', JList (map msg_text errors))])"

definition unregistered :: "lib \<Rightarrow> exc \<Rightarrow> failure" where
  "unregistered L e = FValue (JDict
     [(''reason'', JStr ''artifact_registration_failed''), (''message'', JStr (exc_text L e))])"

definition submission :: "string \<Rightarrow> int \<Rightarrow> pyval" where
  "submission worker attempt =
     JDict [(''worker'', JStr worker), (''attempt'', JInt attempt)]"

text \<open>What follows the accepted and recorded result.\<close>

definition finish_success ::
  "lib \<Rightarrow> task \<Rightarrow> string option \<Rightarrow> string option \<Rightarrow> pydict \<Rightarrow> task exec" where
  "finish_success L t worker tok output =
     actbind (owned_lease L (t_id t) worker tok) (\<lambda>_.
     actbind (now L) (\<lambda>t0.
     actbind (dbwrite (change_row (t_id t) (finish_row Succeeded output t0))) (\<lambda>_.
     actbind (emit L (t_run t) ''task_succeeded''
       [(''stage'', JStr (stage_name (t_stage t))), (''output'', JDict output)] (Some (t_id t))) (\<lambda>_.
     actbind
       (if t_stage t = Diagnosis
        then emit L (t_run t) ''diagnostic_completed'' (diagnosis_done t output) (Some (t_id t))
        else (case next_stage (t_stage t) of
            None \<Rightarrow> actret ()
          | Some g \<Rightarrow> ensure_next L t output g)) (\<lambda>_.
     actbind (get_row (t_id t)) (\<lambda>y. actret (view y)))))))"

definition complete ::
  "lib \<Rightarrow> string \<Rightarrow> string option \<Rightarrow> pyval option \<Rightarrow> string option \<Rightarrow> task exec" where
  "complete L tid worker result tok =
     actbind (get_row tid) (\<lambda>x0.
     let t = view x0 in
     actbind (owned_lease L tid worker tok) (\<lambda>x.
     let worker' = k_worker x; tok' = k_token x;
         wname = (case worker' of None \<Rightarrow> [] | Some s \<Rightarrow> s) in
     case (case result of None \<Rightarrow> JDict [] | Some v \<Rightarrow> v) of
       JDict output \<Rightarrow>
         actbind (expect_run (t_run t)) (\<lambda>r.
         actbind (actreadR (\<lambda>w. validate_result L (files w) t r output wname)) (\<lambda>errors.
         if errors \<noteq> [] then fail L tid worker' (rejection output errors) tok'
         else
           actbind (owned_lease L tid worker' tok') (\<lambda>_.
           let output1 = dset output ''_submission'' (submission wname (t_attempt t)) in
           actbind (actcatch
               (actbind (record_attempt L t output1 ''PASS'') (\<lambda>o'. actret (Inr o')))
               (\<lambda>e. if storage_failure e then Some (actret (Inl e)) else None)) (\<lambda>recorded.
           case recorded of
             Inl e \<Rightarrow> fail L tid worker' (unregistered L e) tok'
           | Inr output2 \<Rightarrow> finish_success L t worker' tok' output2))))
     | _ \<Rightarrow> actraise (ValueError (Msg ''result must be a mapping'' []))))"

section \<open>Applying a diagnosis\<close>

definition already_applied :: "database \<Rightarrow> task \<Rightarrow> bool" where
  "already_applied d t \<longleftrightarrow>
     list_ex (\<lambda>e. ev_type e = ''diagnosis_applied'' \<and> ev_task e = Some (t_id t) \<and>
         py_eq (dget (ev_payload e) ''source_attempt'') (dget (t_input t) ''source_attempt'') \<and>
         py_eq (dget (ev_payload e) ''diagnosis_attempt'') (JInt (t_attempt t)))
       (events_of d (Some (t_run t)))"

definition recovery_dict :: "task \<Rightarrow> pydict" where
  "recovery_dict t =
     [(''diagnosis_task_id'', JStr (t_id t)), (''diagnosis_attempt'', JInt (t_attempt t)),
      (''source_attempt'', dget (t_input t) ''source_attempt''), (''next_action'', JStr ''RETRY''),
      (''repair_conclusion'', dget (t_output t) ''repair_conclusion'')]"

definition diagnosis_row :: "string \<Rightarrow> task exec" where
  "diagnosis_row did = actreadR (\<lambda>w. case map_option view (row_of (db w) did) of
       Some t \<Rightarrow> if is_diagnostic t then Inr t
         else Inl (ValueError (Msg ''apply-diagnosis requires a diagnosis task'' []))
     | None \<Rightarrow> Inl (ValueError (Msg ''apply-diagnosis requires a diagnosis task'' [])))"

definition source_row :: "string \<Rightarrow> task exec" where
  "source_row i = actreadR (\<lambda>w. case map_option view (row_of (db w) i) of
       Some t \<Rightarrow> if is_diagnostic t
         then Inl (ValueError (Msg ''diagnosis source task is missing or invalid'' [])) else Inr t
     | None \<Rightarrow> Inl (ValueError (Msg ''diagnosis source task is missing or invalid'' [])))"

definition apply_diagnosis :: "lib \<Rightarrow> string \<Rightarrow> task exec" where
  "apply_diagnosis L did =
     actbind (diagnosis_row did) (\<lambda>diag.
     actbind (actguard (t_status diag = Succeeded)
       (ValueError (Msg ''diagnosis must be completed before it can be applied'' []))) (\<lambda>_.
     actbind (source_row (the (t_source diag))) (\<lambda>source.
     actbind (actguard (t_run source = t_run diag \<and> t_key source = t_key diag)
       (ValueError (Msg ''diagnosis does not match its source task'' []))) (\<lambda>_.
     let action = dget (t_output diag) ''next_action'' in
     actbind (actlift (in_strset action [''RETRY'', ''BLOCKED''])) (\<lambda>known.
     actbind (actguard known
       (ValueError (Msg ''next_action requires an external repair before retry'' [action]))) (\<lambda>_.
     actbind (actread (\<lambda>w. already_applied (db w) diag)) (\<lambda>applied.
     if applied then actret source
     else
       actbind (actwhen (action = JStr ''RETRY'')
         (actbind (actguard (t_status source = Failed)
            (ValueError (Msg ''RETRY requires a failed source task'' []))) (\<lambda>_.
          actbind (now L) (\<lambda>t0.
          dbwrite (change_row (t_id source)
            (reopen (dset (t_input source) ''recovery'' (JDict (recovery_dict diag))) t0)))))) (\<lambda>_.
       actbind (emit L (t_run diag) ''diagnosis_applied''
         [(''source_task_id'', JStr (t_id source)),
          (''source_attempt'', dget (t_input diag) ''source_attempt''),
          (''diagnosis_attempt'', JInt (t_attempt diag)), (''next_action'', action),
          (''repair_conclusion'', dget (t_output diag) ''repair_conclusion'')] (Some (t_id diag)))
         (\<lambda>_.
       actbind (get_row (t_id source)) (\<lambda>y. actret (view y)))))))))))"

section \<open>Recovery and reconciliation\<close>

definition recover :: "lib \<Rightarrow> bool \<Rightarrow> nat exec" where
  "recover L force =
     actbind (if force then actret 0 else now L) (\<lambda>t0.
     actbind (now L) (\<lambda>t1.
     let hit = (\<lambda>x. if force then k_status x = Running else lease_expired t0 x) in
     actbind (actread (\<lambda>w. length (filter hit (tasks (db w))))) (\<lambda>n.
     actbind (dbwrite (\<lambda>d. d\<lparr>tasks := map (\<lambda>x. if hit x then requeue t1 x else x) (tasks d)\<rparr>))
       (\<lambda>_. actret n))))"

definition diagnosis_for :: "database \<Rightarrow> string \<Rightarrow> task option" where
  "diagnosis_for d i = (case row_of d (diagnosis_task_id i) of
      Some x \<Rightarrow> if k_stage x = Diagnosis then Some (view x) else None
    | None \<Rightarrow> None)"

text \<open>The producer of a historical result: the recorded submission of this attempt, or the
  claim event of it.\<close>

definition claims_of :: "database \<Rightarrow> task \<Rightarrow> event list" where
  "claims_of d t = filter (\<lambda>e. ev_task e = Some (t_id t) \<and> ev_type e = ''task_claimed'')
     (events_of d (Some (t_run t)))"

definition producer :: "database \<Rightarrow> task \<Rightarrow> exc + pyval" where
  "producer d t =
     (let sub = dget_or (t_output t) ''_submission'' (JDict []) in
      rbind (vget sub ''attempt'') (\<lambda>a.
      rbind (if py_eq a (JInt (t_attempt t)) then vget sub ''worker'' else Inr JNone) (\<lambda>worker.
      if truthy worker then Inr worker
      else
        let claims = claims_of d t;
            matching = filter (\<lambda>e. py_eq (dget (ev_payload e) ''attempt'') (JInt (t_attempt t))) claims
        in if matching \<noteq> [] then Inr (dget (ev_payload (last matching)) ''worker_id'')
           else if int (length claims) = t_attempt t \<and> claims \<noteq> []
           then Inr (dget (ev_payload (last claims)) ''worker_id'')
           else if int (length claims) = t_attempt t then Inl IndexError
           else Inr worker)))"

record reconciliation =
  rc_created :: "string list"
  rc_blocked :: "(string \<times> msg list) list"

definition reconcile_one :: "lib \<Rightarrow> run \<Rightarrow> task \<Rightarrow> reconciliation \<Rightarrow> reconciliation exec" where
  "reconcile_one L r t acc =
     (if t_stage t = Diagnosis then actret acc
      else
        actbind (actread (\<lambda>w. diagnosis_for (db w) (t_id t))) (\<lambda>diag.
        if t_status t = Failed \<and> diag = None then
          actbind (now L) (\<lambda>t0.
          actbind (actlift (bug_from_error L (t_id t) (FValue (dget_or (t_output t) ''error''
            (JDict [(''message'', JStr ''historical task failure'')]))) t0)) (\<lambda>b.
          actbind (ensure_diagnosis L t b) (\<lambda>d.
          actret (acc\<lparr>rc_created := rc_created acc @ [t_id d]\<rparr>))))
        else (case next_stage (t_stage t) of
            None \<Rightarrow> actret acc
          | Some g \<Rightarrow>
              if t_status t \<noteq> Succeeded then actret acc
              else
                let nid = stage_task_id (r_id r) (t_key t) g in
                actbind (actread (\<lambda>w. row_of (db w) nid)) (\<lambda>next.
                if next \<noteq> None then actret acc
                else
                  actbind (actreadR (\<lambda>w. producer (db w) t)) (\<lambda>worker.
                  actbind
                    (if \<not> truthy worker
                     then actret [Msg ''cannot establish producer identity'' []]
                     else actreadR (\<lambda>w. validate_result L (files w) t r (t_output t)
                            (str_or worker []))) (\<lambda>errors.
                  if errors \<noteq> []
                  then actret (acc\<lparr>rc_blocked := rc_blocked acc @ [(t_id t, errors)]\<rparr>)
                  else
                    actbind (ensure_next L t (t_output t) g) (\<lambda>_.
                    actret (acc\<lparr>rc_created := rc_created acc @ [nid]\<rparr>))))))))"

fun reconcile_loop :: "lib \<Rightarrow> run \<Rightarrow> task list \<Rightarrow> reconciliation \<Rightarrow> reconciliation exec" where
  "reconcile_loop L r [] acc = actret acc"
| "reconcile_loop L r (t # ts) acc =
     actbind (reconcile_one L r t acc) (\<lambda>acc'. reconcile_loop L r ts acc')"

definition reconciliation_dict :: "reconciliation \<Rightarrow> pydict" where
  "reconciliation_dict rc =
     [(''created'', JList (map JStr (rc_created rc))),
      (''blocked'', JList (map (\<lambda>(i, ms). JDict [(''task_id'', JStr i),
         (''validation_errors'', JList (map msg_text ms))]) (rc_blocked rc)))]"

definition reconcile :: "lib \<Rightarrow> string \<Rightarrow> reconciliation exec" where
  "reconcile L rid =
     actbind (get_run rid) (\<lambda>r.
     actbind (actread (\<lambda>w. map view (tasks_of (db w) (Some rid)))) (\<lambda>ts.
     actbind (reconcile_loop L r ts \<lparr>rc_created = [], rc_blocked = []\<rparr>) (\<lambda>rc.
     actbind (emit L rid ''run_reconciled'' (reconciliation_dict rc) None) (\<lambda>_.
     actret rc))))"

end
