(* ===== verification/Lifecycle.thy ===== *)
theory Lifecycle
  imports Scheduler
begin

text \<open>
  The abstract specification of the task queue: what may happen to the rows of the tasks table,
  with no clock, file or event in it. \<open>row_step\<close> is the life of one row, \<open>table_step\<close> adds
  insertion, \<open>task_step\<close> adds failure, which is one step with the diagnosis it leaves behind.
  \<open>table_ok\<close> is the invariant of the machine. The locale \<open>task_machine\<close> is the interface:
  any system whose steps move its task rows along \<open>task_step\<close> has the invariant and the history
  properties proved here; \<open>SchedulerSteps\<close> interprets it on the scheduler.
\<close>

section \<open>Rows\<close>

definition leased :: "row \<Rightarrow> bool" where
  "leased r \<longleftrightarrow> k_token r \<noteq> None \<and> k_worker r \<noteq> None \<and> k_expires r \<noteq> None"

definition unleased :: "row \<Rightarrow> bool" where
  "unleased r \<longleftrightarrow> k_token r = None \<and> k_worker r = None \<and> k_expires r = None"

definition same_key :: "row \<Rightarrow> row \<Rightarrow> bool" where
  "same_key x y \<longleftrightarrow> k_id y = k_id x \<and> k_run y = k_run x \<and> k_key y = k_key x \<and>
     k_stage y = k_stage x \<and> k_created y = k_created x"

definition upstream_done :: "row list \<Rightarrow> row \<Rightarrow> bool" where
  "upstream_done rs x = (case prev_stage (k_stage x) of
      None \<Rightarrow> True
    | Some p \<Rightarrow> \<exists>t \<in> set rs. k_run t = k_run x \<and> k_key t = k_key x \<and> k_stage t = p \<and>
        k_status t = Succeeded)"

definition has_diagnosis :: "row list \<Rightarrow> string \<Rightarrow> bool" where
  "has_diagnosis rs i \<longleftrightarrow> (\<exists>d \<in> set rs. k_id d = diagnosis_task_id i \<and> k_stage d = Diagnosis)"

text \<open>A pipeline row is named after its run, key and stage, a diagnosis row after its source.\<close>

definition id_shape :: "row \<Rightarrow> bool" where
  "id_shape r \<longleftrightarrow>
     (if k_stage r = Diagnosis
      then \<exists>s. k_id r = diagnosis_task_id s \<and> k_key r = ''diagnosis:'' @ s
      else k_id r = stage_task_id (k_run r) (k_key r) (k_stage r))"

section \<open>Steps\<close>

inductive row_step :: "row list \<Rightarrow> row \<Rightarrow> row \<Rightarrow> bool" for rs where
  Claim: "same_key x y \<Longrightarrow> k_status x = Pending \<Longrightarrow> upstream_done rs x \<Longrightarrow> k_status y = Running \<Longrightarrow>
     leased y \<Longrightarrow> k_attempt y = k_attempt x + 1 \<Longrightarrow> row_step rs x y"
| Hold: "same_key x y \<Longrightarrow> k_status x = Running \<Longrightarrow> leased x \<Longrightarrow> k_status y = Running \<Longrightarrow> leased y \<Longrightarrow>
     k_attempt y = k_attempt x \<Longrightarrow> k_output y = k_output x \<Longrightarrow> row_step rs x y"
| Succeed: "same_key x y \<Longrightarrow> k_status x = Running \<Longrightarrow> leased x \<Longrightarrow> k_status y = Succeeded \<Longrightarrow> unleased y \<Longrightarrow>
     k_attempt y = k_attempt x \<Longrightarrow> k_input y = k_input x \<Longrightarrow> row_step rs x y"
| Release: "same_key x y \<Longrightarrow> k_status x = Running \<Longrightarrow> k_status y = Pending \<Longrightarrow> unleased y \<Longrightarrow>
     k_attempt y = k_attempt x \<Longrightarrow> k_input y = k_input x \<Longrightarrow> k_output y = k_output x \<Longrightarrow> row_step rs x y"
| Retry: "same_key x y \<Longrightarrow> k_status x = Failed \<Longrightarrow> k_stage x \<noteq> Diagnosis \<Longrightarrow> k_status y = Pending \<Longrightarrow>
     unleased y \<Longrightarrow> k_attempt y = k_attempt x \<Longrightarrow> k_output y = [] \<Longrightarrow> row_step rs x y"
| Reopen: "same_key x y \<Longrightarrow> k_stage x = Diagnosis \<Longrightarrow> k_status y = Pending \<Longrightarrow> unleased y \<Longrightarrow>
     k_attempt y = k_attempt x \<Longrightarrow> k_output y = [] \<Longrightarrow> row_step rs x y"

inductive_cases row_step_cases: "row_step rs x y"

definition rows_move :: "row list \<Rightarrow> row list \<Rightarrow> bool" where
  "rows_move rs rs' \<longleftrightarrow> list_all2 (\<lambda>x y. y = x \<or> row_step rs x y) rs rs'"

definition insertable :: "row list \<Rightarrow> row \<Rightarrow> bool" where
  "insertable rs r \<longleftrightarrow> \<not> list_ex (conflicts r) rs \<and> id_shape r \<and> k_status r = Pending \<and>
     unleased r \<and> k_attempt r = 0 \<and> upstream_done rs r \<and>
     (k_stage r = Diagnosis \<longrightarrow>
        (\<exists>s \<in> set rs. k_status s = Failed \<and> k_id r = diagnosis_task_id (k_id s)))"

inductive table_step :: "row list \<Rightarrow> row list \<Rightarrow> bool" where
  Move: "rows_move rs rs' \<Longrightarrow> table_step rs rs'"
| Add: "insertable rs r \<Longrightarrow> table_step rs (rs @ [r])"

definition fail_row :: "row \<Rightarrow> row \<Rightarrow> bool" where
  "fail_row x y \<longleftrightarrow> same_key x y \<and> k_status x = Running \<and> leased x \<and> k_status y = Failed \<and>
     unleased y \<and> k_attempt y = k_attempt x \<and> k_input y = k_input x"

definition replace_row :: "row \<Rightarrow> row list \<Rightarrow> row list" where
  "replace_row y rs = map (\<lambda>z. if k_id z = k_id y then y else z) rs"

inductive task_step :: "row list \<Rightarrow> row list \<Rightarrow> bool" where
  Table: "table_step rs rs' \<Longrightarrow> task_step rs rs'"
| Fail: "x \<in> set rs \<Longrightarrow> fail_row x y \<Longrightarrow> table_step (replace_row y rs) rs' \<Longrightarrow>
     (k_stage x \<noteq> Diagnosis \<Longrightarrow> has_diagnosis rs' (k_id x)) \<Longrightarrow> task_step rs rs'"

lemma rows_move_refl [simp]: "rows_move rs rs"
  by (simp add: rows_move_def list_all2_same)

lemma row_step_same_key: "row_step rs x y \<Longrightarrow> same_key x y"
  by (erule row_step_cases) simp_all

lemma same_key_refl [simp]: "same_key x x"
  by (simp add: same_key_def)

lemma row_step_attempt: "row_step rs x y \<Longrightarrow> k_attempt x \<le> k_attempt y"
  by (erule row_step_cases) simp_all

lemma row_step_Failed: "row_step rs x y \<Longrightarrow> k_status y \<noteq> Failed"
  by (erule row_step_cases) simp_all

lemma row_step_Succeeded:
  "row_step rs x y \<Longrightarrow> k_stage x \<noteq> Diagnosis \<Longrightarrow> k_status x \<noteq> Succeeded"
  by (erule row_step_cases) simp_all

section \<open>The invariant\<close>

definition row_ok :: "row \<Rightarrow> bool" where
  "row_ok r \<longleftrightarrow> id_shape r \<and> 0 \<le> k_attempt r \<and>
     (if k_status r = Running then leased r else unleased r) \<and>
     (k_status r \<noteq> Pending \<longrightarrow> 1 \<le> k_attempt r)"

definition table_ok :: "row list \<Rightarrow> bool" where
  "table_ok rs \<longleftrightarrow> rows_distinct rs \<and> (\<forall>r \<in> set rs. row_ok r \<and> upstream_done rs r) \<and>
     (\<forall>r \<in> set rs. k_status r = Failed \<and> k_stage r \<noteq> Diagnosis \<longrightarrow> has_diagnosis rs (k_id r))"

text \<open>The part that a failing row breaks until its diagnosis exists.\<close>

definition table_shape :: "row list \<Rightarrow> bool" where
  "table_shape rs \<longleftrightarrow> rows_distinct rs \<and> (\<forall>r \<in> set rs. row_ok r \<and> upstream_done rs r)"

definition diagnosed :: "row list \<Rightarrow> string set \<Rightarrow> bool" where
  "diagnosed rs X \<longleftrightarrow> (\<forall>r \<in> set rs.
     k_status r = Failed \<and> k_stage r \<noteq> Diagnosis \<and> k_id r \<notin> X \<longrightarrow> has_diagnosis rs (k_id r))"

lemma table_ok_split: "table_ok rs \<longleftrightarrow> table_shape rs \<and> diagnosed rs {}"
  by (auto simp: table_ok_def table_shape_def diagnosed_def)

lemma table_ok_Nil [simp]: "table_ok []"
  by (simp add: table_ok_def rows_distinct_def)

lemma row_step_ok: "row_step rs x y \<Longrightarrow> row_ok x \<Longrightarrow> row_ok y"
  by (erule row_step_cases) (auto simp: row_ok_def same_key_def id_shape_def unleased_def)

lemma fail_row_ok: "fail_row x y \<Longrightarrow> row_ok x \<Longrightarrow> row_ok y"
  by (auto simp: row_ok_def fail_row_def same_key_def id_shape_def unleased_def)

lemma same_keys_distinct:
  assumes "list_all2 same_key rs rs'" "rows_distinct rs"
  shows "rows_distinct rs'"
proof -
  have "map k_id rs' = map k_id rs"
    using assms(1) by (induction rule: list_all2_induct) (auto simp: same_key_def)
  moreover have "map (\<lambda>r. (k_run r, k_key r, k_stage r)) rs' = map (\<lambda>r. (k_run r, k_key r, k_stage r)) rs"
    using assms(1) by (induction rule: list_all2_induct) (auto simp: same_key_def)
  ultimately show ?thesis using assms(2) by (simp add: rows_distinct_def)
qed

text \<open>What one part of a table keeps for the rows that look at it: a row with the same name, and
  a pipeline row that has succeeded stays succeeded.\<close>

definition persists :: "row list \<Rightarrow> row list \<Rightarrow> bool" where
  "persists rs rs' \<longleftrightarrow> (\<forall>x \<in> set rs. \<exists>y \<in> set rs'. same_key x y \<and> k_attempt x \<le> k_attempt y \<and>
     (k_status x = Succeeded \<and> k_stage x \<noteq> Diagnosis \<longrightarrow> y = x))"

lemma persists_refl [simp]: "persists rs rs"
  by (auto simp: persists_def intro!: bexI)

lemma same_key_trans: "same_key x y \<Longrightarrow> same_key y z \<Longrightarrow> same_key x z"
  by (auto simp: same_key_def)

lemma persists_trans:
  assumes "persists a b" "persists b c"
  shows "persists a c"
  unfolding persists_def
proof
  fix x assume "x \<in> set a"
  then obtain y where y: "y \<in> set b" "same_key x y" "k_attempt x \<le> k_attempt y"
      "k_status x = Succeeded \<and> k_stage x \<noteq> Diagnosis \<longrightarrow> y = x"
    using assms(1) unfolding persists_def by blast
  then obtain z where z: "z \<in> set c" "same_key y z" "k_attempt y \<le> k_attempt z"
      "k_status y = Succeeded \<and> k_stage y \<noteq> Diagnosis \<longrightarrow> z = y"
    using assms(2) unfolding persists_def by blast
  show "\<exists>y\<in>set c. same_key x y \<and> k_attempt x \<le> k_attempt y \<and>
          (k_status x = Succeeded \<and> k_stage x \<noteq> Diagnosis \<longrightarrow> y = x)"
    using y z same_key_trans[OF y(2) z(2)] by (intro bexI[of _ z]) auto
qed

lemma rows_move_persists: "rows_move rs rs' \<Longrightarrow> persists rs rs'"
  unfolding rows_move_def persists_def list_all2_conv_all_nth
  by (metis in_set_conv_nth row_step_Succeeded row_step_attempt row_step_same_key same_key_refl
      order_refl)

lemma persists_append [simp]: "persists rs (rs @ ss)"
  by (auto simp: persists_def intro!: bexI)

lemma upstream_done_persists:
  assumes "persists rs rs'" "upstream_done rs x" "same_key x y"
  shows "upstream_done rs' y"
proof (cases "prev_stage (k_stage x)")
  case None
  then show ?thesis using assms(3) by (simp add: upstream_done_def same_key_def)
next
  case (Some p)
  then obtain t where t: "t \<in> set rs" "k_run t = k_run x" "k_key t = k_key x" "k_stage t = p"
      "k_status t = Succeeded"
    using assms(2) by (auto simp: upstream_done_def)
  have "p \<noteq> Diagnosis" using Some by (cases "k_stage x") auto
  then have "t \<in> set rs'" using assms(1) t by (auto simp: persists_def)
  then show ?thesis using t Some assms(3) by (auto simp: upstream_done_def same_key_def)
qed

lemma has_diagnosis_persists: "persists rs rs' \<Longrightarrow> has_diagnosis rs i \<Longrightarrow> has_diagnosis rs' i"
  unfolding persists_def has_diagnosis_def same_key_def by metis

lemma rows_move_elem:
  "rows_move rs rs' \<Longrightarrow> y \<in> set rs' \<Longrightarrow> \<exists>x \<in> set rs. y = x \<or> row_step rs x y"
  unfolding rows_move_def list_all2_conv_all_nth by (metis in_set_conv_nth)

lemma rows_move_keys: "rows_move rs rs' \<Longrightarrow> list_all2 same_key rs rs'"
  unfolding rows_move_def by (erule list_all2_mono) (auto dest: row_step_same_key)

lemma rows_move_shape:
  assumes "rows_move rs rs'" "table_shape rs"
  shows "table_shape rs'"
  unfolding table_shape_def
proof (intro conjI ballI)
  show "rows_distinct rs'"
    using same_keys_distinct[OF rows_move_keys[OF assms(1)]] assms(2) by (simp add: table_shape_def)
next
  fix y assume "y \<in> set rs'"
  then obtain x where x: "x \<in> set rs" "y = x \<or> row_step rs x y"
    using rows_move_elem[OF assms(1)] by blast
  have ok: "row_ok x" "upstream_done rs x" using assms(2) x(1) by (auto simp: table_shape_def)
  show "row_ok y" using x(2) ok(1) row_step_ok by blast
  have "same_key x y" using x(2) row_step_same_key by auto
  then show "upstream_done rs' y"
    using upstream_done_persists[OF rows_move_persists[OF assms(1)] ok(2)] by simp
qed

lemma rows_move_diagnosed:
  assumes "rows_move rs rs'" "diagnosed rs X"
  shows "diagnosed rs' X"
  unfolding diagnosed_def
proof (intro ballI impI)
  fix y assume y: "y \<in> set rs'" "k_status y = Failed \<and> k_stage y \<noteq> Diagnosis \<and> k_id y \<notin> X"
  then obtain x where x: "x \<in> set rs" "y = x \<or> row_step rs x y"
    using rows_move_elem[OF assms(1)] by blast
  have "y = x" using x(2) y(2) row_step_Failed by auto
  then have "has_diagnosis rs (k_id y)" using assms(2) x(1) y(2) by (auto simp: diagnosed_def)
  then show "has_diagnosis rs' (k_id y)"
    using has_diagnosis_persists[OF rows_move_persists[OF assms(1)]] by simp
qed

lemma insertable_ok: "insertable rs r \<Longrightarrow> row_ok r"
  by (auto simp: insertable_def row_ok_def)

lemma add_shape:
  assumes "insertable rs r" "table_shape rs"
  shows "table_shape (rs @ [r])"
proof -
  have "upstream_done (rs @ [r]) x" if "x \<in> set (rs @ [r])" for x
    using that assms upstream_done_persists[OF persists_append, of rs x x "[r]"]
    by (auto simp: table_shape_def insertable_def)
  moreover have "rows_distinct (rs @ [r])"
    using assms by (intro rows_distinct_append) (auto simp: insertable_def table_shape_def)
  ultimately show ?thesis using assms insertable_ok[OF assms(1)] by (auto simp: table_shape_def)
qed

lemma add_diagnosed:
  assumes "insertable rs r" "diagnosed rs X"
  shows "diagnosed (rs @ [r]) X"
  using assms by (auto simp: diagnosed_def insertable_def has_diagnosis_def)

lemma table_step_persists: "table_step rs rs' \<Longrightarrow> persists rs rs'"
  by (induction rule: table_step.induct) (auto intro: rows_move_persists)

lemma table_step_shape: "table_step rs rs' \<Longrightarrow> table_shape rs \<Longrightarrow> table_shape rs'"
  by (induction rule: table_step.induct) (auto intro: rows_move_shape add_shape)

lemma table_step_diagnosed: "table_step rs rs' \<Longrightarrow> diagnosed rs X \<Longrightarrow> diagnosed rs' X"
  by (induction rule: table_step.induct) (auto intro: rows_move_diagnosed add_diagnosed)

section \<open>Failure\<close>

lemma replace_row_keys:
  assumes "x \<in> set rs" "same_key x y" "rows_distinct rs"
  shows "list_all2 same_key rs (replace_row y rs)"
proof -
  have "same_key z (if k_id z = k_id y then y else z)" if "z \<in> set rs" for z
    using that assms distinct_map_inj[of k_id rs z x] by (auto simp: rows_distinct_def same_key_def)
  then show ?thesis by (simp add: replace_row_def list_all2_conv_all_nth)
qed

lemma replace_row_set:
  assumes "x \<in> set rs" "k_id x = k_id y" "distinct (map k_id rs)"
  shows "set (replace_row y rs) = insert y (set rs - {x})"
  using assms distinct_map_inj[OF assms(3)] by (auto simp: replace_row_def image_iff)

lemma fail_persists:
  assumes "x \<in> set rs" "fail_row x y" "rows_distinct rs"
  shows "persists rs (replace_row y rs)"
proof -
  have s: "set (replace_row y rs) = insert y (set rs - {x})"
    using assms by (intro replace_row_set) (auto simp: fail_row_def same_key_def rows_distinct_def)
  have "\<exists>z \<in> insert y (set rs - {x}). same_key v z \<and> k_attempt v \<le> k_attempt z \<and>
      (k_status v = Succeeded \<and> k_stage v \<noteq> Diagnosis \<longrightarrow> z = v)" if "v \<in> set rs" for v
  proof (cases "v = x")
    case True
    then show ?thesis using assms(2) by (auto simp: fail_row_def)
  next
    case False
    then show ?thesis using that by (intro bexI[of _ v]) auto
  qed
  then show ?thesis by (simp add: persists_def s)
qed

lemma fail_shape:
  assumes "x \<in> set rs" "fail_row x y" "table_shape rs"
  shows "table_shape (replace_row y rs)"
proof -
  have d: "rows_distinct rs" using assms(3) by (simp add: table_shape_def)
  have s: "set (replace_row y rs) = insert y (set rs - {x})"
    using assms d by (intro replace_row_set) (auto simp: fail_row_def same_key_def rows_distinct_def)
  have k: "same_key x y" using assms(2) by (simp add: fail_row_def)
  have p: "persists rs (replace_row y rs)" by (rule fail_persists[OF assms(1,2) d])
  have "upstream_done (replace_row y rs) z" if "z \<in> set (replace_row y rs)" for z
    using that assms(1,3) k upstream_done_persists[OF p, of z z] upstream_done_persists[OF p, of x y]
    by (auto simp: s table_shape_def)
  then show ?thesis
    using assms fail_row_ok same_keys_distinct[OF replace_row_keys[OF assms(1) k d] d]
    by (auto simp: s table_shape_def)
qed

lemma fail_diagnosed:
  assumes "x \<in> set rs" "fail_row x y" "rows_distinct rs" "diagnosed rs {}"
  shows "diagnosed (replace_row y rs) {k_id x}"
proof -
  have s: "set (replace_row y rs) = insert y (set rs - {x})"
    using assms by (intro replace_row_set) (auto simp: fail_row_def same_key_def rows_distinct_def)
  show ?thesis
    using assms has_diagnosis_persists[OF fail_persists[OF assms(1-3)]]
    by (auto simp: diagnosed_def s fail_row_def same_key_def)
qed

lemma diagnosed_close:
  assumes "diagnosed rs {i}" "\<And>r. r \<in> set rs \<Longrightarrow> k_id r = i \<Longrightarrow> k_stage r \<noteq> Diagnosis \<Longrightarrow> has_diagnosis rs i"
  shows "diagnosed rs {}"
  using assms by (auto simp: diagnosed_def)

lemma task_step_persists: "task_step rs rs' \<Longrightarrow> rows_distinct rs \<Longrightarrow> persists rs rs'"
  by (induction rule: task_step.induct)
    (blast intro: persists_trans table_step_persists fail_persists)+

lemma task_step_ok:
  assumes "task_step rs rs'" "table_ok rs"
  shows "table_ok rs'"
  using assms
proof (cases rule: task_step.cases)
  case Table
  then show ?thesis
    using assms(2) table_step_shape table_step_diagnosed by (auto simp: table_ok_split)
next
  case (Fail x y)
  have ok: "table_shape rs" "diagnosed rs {}" "rows_distinct rs"
    using assms(2) by (auto simp: table_ok_split table_shape_def)
  have shape: "table_shape rs'"
    using fail_shape[OF Fail(1,2) ok(1)] table_step_shape[OF Fail(3)] by simp
  have "diagnosed rs' {k_id x}"
    using fail_diagnosed[OF Fail(1,2) ok(3,2)] table_step_diagnosed[OF Fail(3)] by simp
  moreover have "has_diagnosis rs' (k_id x)"
    if r: "r \<in> set rs'" "k_id r = k_id x" "k_stage r \<noteq> Diagnosis" for r
  proof -
    obtain z where z: "z \<in> set rs'" "same_key x z"
      using task_step_persists[OF assms(1) ok(3)] Fail(1) by (auto simp: persists_def)
    have "z = r"
      using z r shape distinct_map_inj[of k_id rs' z r]
      by (auto simp: same_key_def table_shape_def rows_distinct_def)
    then show ?thesis using Fail(4) z(2) r(3) by (auto simp: same_key_def)
  qed
  ultimately show ?thesis using shape diagnosed_close by (auto simp: table_ok_split)
qed

lemma task_steps_ok: "task_step\<^sup>*\<^sup>* rs rs' \<Longrightarrow> table_ok rs \<Longrightarrow> table_ok rs'"
  by (induction rule: rtranclp_induct) (auto intro: task_step_ok)

lemma task_steps_persists: "task_step\<^sup>*\<^sup>* rs rs' \<Longrightarrow> table_ok rs \<Longrightarrow> persists rs rs'"
proof (induction rule: rtranclp_induct)
  case base
  then show ?case by simp
next
  case (step y z)
  then have "rows_distinct y" using task_steps_ok[of rs y] by (simp add: table_ok_def)
  then show ?case using step task_step_persists persists_trans by blast
qed

section \<open>The interface\<close>

locale task_machine =
  fixes init :: "'s \<Rightarrow> bool"
    and step :: "'s \<Rightarrow> 's \<Rightarrow> bool"
    and rows :: "'s \<Rightarrow> row list"
  assumes init_empty: "init s \<Longrightarrow> rows s = []"
    and step_refines: "step s s' \<Longrightarrow> table_ok (rows s) \<Longrightarrow> task_step\<^sup>*\<^sup>* (rows s) (rows s')"
begin

lemma steps_refine: "step\<^sup>*\<^sup>* s s' \<Longrightarrow> table_ok (rows s) \<Longrightarrow> task_step\<^sup>*\<^sup>* (rows s) (rows s')"
proof (induction rule: rtranclp_induct)
  case base
  then show ?case by simp
next
  case (step y z)
  then have "task_step\<^sup>*\<^sup>* (rows s) (rows y)" by simp
  moreover have "task_step\<^sup>*\<^sup>* (rows y) (rows z)"
    using step_refines[OF step.hyps(2)] task_steps_ok[OF calculation step.prems] by simp
  ultimately show ?case by (rule rtranclp_trans)
qed

lemma reachable_ok: "init s \<Longrightarrow> step\<^sup>*\<^sup>* s s' \<Longrightarrow> table_ok (rows s')"
  using steps_refine[of s s'] task_steps_ok[of "rows s" "rows s'"] init_empty by simp

lemma rows_persist: "table_ok (rows s) \<Longrightarrow> step\<^sup>*\<^sup>* s s' \<Longrightarrow> persists (rows s) (rows s')"
  using steps_refine task_steps_persists by blast

end

end
