(* ===== verification/Frames.thy ===== *)
theory Frames
  imports Lifecycle
begin

text \<open>
  What a handler leaves alone. \<open>stable R m\<close>: every outcome of \<open>m\<close>, an exception
  included, leaves a world related to the one it started in. The locales are the interfaces a
  relation may offer: \<open>frame\<close> ignores everything outside the database, \<open>table_frame\<close> also
  permits appended events and changes of the runs and operators tables, \<open>open_frame\<close> permits
  any change of the tasks table as well. The handlers are shown stable once in the weakest
  interface they need; \<open>same_tasks\<close> and \<open>log_grows\<close> are the two instances used.
\<close>

definition stable :: "(world \<Rightarrow> world \<Rightarrow> bool) \<Rightarrow> 'a exec \<Rightarrow> bool" where
  "stable R m \<longleftrightarrow> (\<forall>w. R w (snd (m w)))"

definition same_tasks :: "world \<Rightarrow> world \<Rightarrow> bool" where
  "same_tasks w w' \<longleftrightarrow> tasks (db w') = tasks (db w)"

definition log_grows :: "world \<Rightarrow> world \<Rightarrow> bool" where
  "log_grows w w' \<longleftrightarrow> prefix (events (db w)) (events (db w')) \<and>
     (distinct (map ev_id (events (db w))) \<longrightarrow> distinct (map ev_id (events (db w'))))"

locale frame =
  fixes R :: "world \<Rightarrow> world \<Rightarrow> bool"
  assumes same_db: "db w' = db w \<Longrightarrow> R w w'"
    and R_trans: "R w w' \<Longrightarrow> R w' w'' \<Longrightarrow> R w w''"
begin

lemma stable_ret: "stable R (actret x)"
  by (simp add: stable_def actret_def same_db)

lemma stable_raise: "stable R (actraise e)"
  by (simp add: stable_def actraise_def same_db)

lemma stable_lift: "stable R (actlift r)"
  by (simp add: stable_def actlift_def same_db)

lemma stable_read: "stable R (actread g)"
  by (simp add: stable_def actread_def same_db)

lemma stable_readR: "stable R (actreadR g)"
  by (simp add: stable_def actreadR_def same_db)

lemma stable_guard: "stable R (actguard b e)"
  by (simp add: stable_def actguard_def same_db)

lemma stable_now: "stable R (now L)"
  by (simp add: stable_def now_def same_db)

lemma stable_draw_uuid: "stable R (draw_uuid L)"
  by (simp add: stable_def draw_uuid_def same_db)

lemma stable_draw_token: "stable R (draw_token L)"
  by (simp add: stable_def draw_token_def same_db)

lemma stable_fsop: "stable R (fsop g)"
  by (simp add: stable_def fsop_def same_db split: sum.splits)

lemma stable_bind:
  assumes "stable R m" "\<And>x. stable R (f x)"
  shows "stable R (actbind m f)"
  unfolding stable_def
proof
  fix w
  obtain r w' where m: "m w = (r, w')" by (cases "m w")
  have "R w w'" using assms(1) m by (auto simp: stable_def dest: spec[of _ w])
  moreover have "R w' (snd (f x w'))" for x using assms(2)[of x] by (simp add: stable_def)
  ultimately show "R w (snd (actbind m f w))"
    using R_trans by (auto simp: actbind_def m split: sum.splits)
qed

lemma stable_catch:
  assumes "stable R m" "\<And>e k. h e = Some k \<Longrightarrow> stable R k"
  shows "stable R (actcatch m h)"
  unfolding stable_def
proof
  fix w
  obtain r w' where m: "m w = (r, w')" by (cases "m w")
  have "R w w'" using assms(1) m by (auto simp: stable_def dest: spec[of _ w])
  moreover have "R w' (snd (k w'))" if "h e = Some k" for e k
    using assms(2)[OF that] by (simp add: stable_def)
  ultimately show "R w (snd (actcatch m h w))"
    using R_trans by (auto simp: actcatch_def m split: sum.splits option.splits)
qed

lemma stable_when: "(b \<Longrightarrow> stable R m) \<Longrightarrow> stable R (actwhen b m)"
  by (simp add: actwhen_def stable_ret)

lemma stable_if: "(b \<Longrightarrow> stable R m) \<Longrightarrow> (\<not> b \<Longrightarrow> stable R n) \<Longrightarrow> stable R (if b then m else n)"
  by simp

lemma stable_option:
  "stable R m \<Longrightarrow> (\<And>x. stable R (n x)) \<Longrightarrow> stable R (case v of None \<Rightarrow> m | Some x \<Rightarrow> n x)"
  by (cases v) simp_all

lemma stable_sum:
  "(\<And>x. stable R (m x)) \<Longrightarrow> (\<And>x. stable R (n x)) \<Longrightarrow>
     stable R (case v of Inl x \<Rightarrow> m x | Inr x \<Rightarrow> n x)"
  by (cases v) simp_all

lemma stable_prod: "(\<And>x y. stable R (m x y)) \<Longrightarrow> stable R (case p of (x, y) \<Rightarrow> m x y)"
  by (cases p) simp_all

lemma stable_for: "(\<And>x. stable R (f x)) \<Longrightarrow> stable R (actfor f xs)"
  by (induction xs) (simp_all add: stable_ret stable_bind)

lemma stable_dbwrite: "(\<And>w. R w (w\<lparr>db := g (db w)\<rparr>)) \<Longrightarrow> stable R (dbwrite g)"
  by (simp add: stable_def dbwrite_def actwrite_def)

lemma stable_atomic:
  assumes "stable R m"
  shows "stable R (atomic m)"
  unfolding stable_def
proof
  fix w
  obtain r w' where m: "m w = (r, w')" by (cases "m w")
  have "R w w'" using assms m by (auto simp: stable_def dest: spec[of _ w])
  moreover have "R w (w'\<lparr>db := db w\<rparr>)" by (simp add: same_db)
  ultimately show "R w (snd (atomic m w))" by (simp add: atomic_def m split: sum.splits)
qed

lemmas stable_intros = stable_ret stable_raise stable_lift stable_read stable_readR stable_guard
  stable_now stable_draw_uuid stable_draw_token stable_fsop stable_bind stable_catch stable_when
  stable_if stable_option stable_sum stable_prod stable_for

lemma stable_run_initialize: "stable R (run_initialize L rp)"
  unfolding run_initialize_def Let_def by (intro stable_intros)

lemma stable_make_attempt_dirs: "stable R (make_attempt_dirs L a)"
  unfolding make_attempt_dirs_def by (intro stable_intros)

lemma stable_allocate_attempt: "stable R (allocate_attempt L rp i)"
  unfolding allocate_attempt_def Let_def
  by (intro stable_intros stable_run_initialize stable_make_attempt_dirs)

lemma stable_store_write_json: "stable R (store_write_json L dir rel v b)"
  unfolding store_write_json_def store_write_text_def by (intro stable_intros)

lemma stable_register: "stable R (register L dir ident outcome req incl name)"
  unfolding register_def by (intro stable_intros)

lemma stable_get_run: "stable R (get_run i)"
  unfolding get_run_def by (intro stable_intros)

lemma stable_expect_run: "stable R (expect_run i)"
  unfolding expect_run_def by (intro stable_intros)

lemma stable_get_row: "stable R (get_row i)"
  unfolding get_row_def by (intro stable_intros)

lemma stable_owned_lease: "stable R (owned_lease L tid worker tok)"
  unfolding owned_lease_def Let_def by (intro stable_intros stable_get_row)

lemma stable_record_attempt: "stable R (record_attempt L t out oc)"
  unfolding record_attempt_def Let_def
  by (intro stable_intros stable_store_write_json stable_register)

lemma stable_record_failure: "stable R (record_failure L t b)"
  unfolding record_failure_def Let_def
  by (intro stable_intros stable_record_attempt) (auto split: if_splits intro: stable_ret)

lemma stable_failure_report: "stable R (failure_report L t e)"
  unfolding failure_report_def Let_def by (intro stable_intros)

lemma stable_diagnosis_row: "stable R (diagnosis_row i)"
  unfolding diagnosis_row_def by (intro stable_intros)

lemma stable_source_row: "stable R (source_row i)"
  unfolding source_row_def by (intro stable_intros)

lemmas stable_reads = stable_get_run stable_expect_run stable_get_row stable_owned_lease
  stable_record_attempt stable_record_failure stable_failure_report stable_diagnosis_row
  stable_source_row stable_allocate_attempt stable_store_write_json stable_register

end

section \<open>Events, runs and operators\<close>

locale table_frame = frame +
  assumes R_append: "ev_id e \<notin> set (map ev_id (events (db w))) \<Longrightarrow>
      R w (w\<lparr>db := (db w)\<lparr>events := events (db w) @ [e]\<rparr>\<rparr>)"
    and R_tables: "tasks d = tasks (db w) \<Longrightarrow> events d = events (db w) \<Longrightarrow> R w (w\<lparr>db := d\<rparr>)"
begin

lemma stable_append_event: "stable R (append_event e)"
  using R_append[of e]
  by (auto simp: stable_def append_event_def actbind_def actread_def actraise_def dbwrite_def
      actwrite_def intro: same_db)

lemma stable_emit: "stable R (emit L rid ty payload tid)"
  unfolding emit_def by (intro stable_intros stable_append_event)

lemma stable_save_run: "stable R (save_run L r)"
  unfolding save_run_def by (intro stable_intros stable_dbwrite R_tables) simp_all

lemma stable_update_run: "stable R (update_run L r)"
  unfolding update_run_def Let_def by (intro stable_intros stable_dbwrite R_tables) simp_all

lemma stable_put_operator: "stable R (put_operator L i s)"
  unfolding put_operator_def by (intro stable_intros stable_dbwrite R_tables) simp_all

lemmas stable_tables = stable_emit stable_save_run stable_update_run stable_put_operator

lemma stable_create_run: "stable R (create_run L r)"
  unfolding create_run_def Let_def by (intro stable_intros stable_tables)

lemma stable_bind_environment: "stable R (bind_environment L rid proof ar)"
  unfolding bind_environment_def Let_def by (intro stable_intros stable_tables stable_get_run)

lemma stable_record_environment_failure: "stable R (record_environment_failure L rid proof error)"
  unfolding record_environment_failure_def Let_def
  by (intro stable_intros stable_tables stable_get_run)

lemma stable_record_graph_transition: "stable R (record_graph_transition L rid key payload)"
  unfolding record_graph_transition_def Let_def
  by (intro stable_intros stable_tables stable_get_run)

lemma stable_bind_workspace: "stable R (bind_workspace L r)"
  unfolding bind_workspace_def Let_def by (intro stable_intros stable_tables)

lemma stable_emit_claim: "stable R (emit_claim L worker v)"
  unfolding emit_claim_def by (rule stable_emit)

lemmas stable_run_ops = stable_create_run stable_bind_environment
  stable_record_environment_failure stable_record_graph_transition

end

section \<open>Any change of the tasks\<close>

locale open_frame = table_frame +
  assumes R_tasks: "events d = events (db w) \<Longrightarrow> R w (w\<lparr>db := d\<rparr>)"
begin

lemma stable_tasks: "(\<And>d. events (g d) = events d) \<Longrightarrow> stable R (dbwrite g)"
  by (intro stable_dbwrite R_tasks)

lemma stable_change: "stable R (dbwrite (change_row i g))"
  by (intro stable_tasks) simp

lemma stable_insert_task: "stable R (insert_task L i rid key g inp)"
  unfolding insert_task_def Let_def by (intro stable_intros stable_tasks) simp

lemma stable_discover_operator: "stable R (discover_operator L rid spec)"
  unfolding discover_operator_def Let_def
  by (intro stable_intros stable_tables stable_get_run stable_insert_task)

lemma stable_prepare_workspace: "stable R (prepare_workspace L r t)"
  unfolding prepare_workspace_def Let_def by (intro stable_intros stable_reads stable_change)

lemma stable_claim_one: "stable R (claim_one L worker lease t0 t)"
  unfolding claim_one_def
  by (intro stable_intros stable_reads stable_change stable_bind_workspace stable_prepare_workspace)

lemma stable_claim_loop: "stable R (claim_loop L worker lease t0 limit claimed ts)"
  by (induction ts arbitrary: claimed) (auto intro!: stable_intros stable_claim_one)

lemma stable_claim_ready: "stable R (claim_ready L worker stage ls limit)"
proof -
  have e: "stable R (dbwrite (expire_leases t0))" for t0
    by (intro stable_tasks) (simp add: expire_leases_def)
  show ?thesis
    unfolding claim_ready_def
    by (auto split: pyfloat.splits option.splits
        intro!: stable_intros stable_claim_loop stable_emit_claim e)
qed

lemma stable_renew_lease: "stable R (renew_lease L tid worker tok ls)"
  unfolding renew_lease_def
  by (auto split: pyfloat.splits intro!: stable_intros stable_reads stable_change stable_emit)

lemma stable_ensure_diagnosis: "stable R (ensure_diagnosis L t b)"
  unfolding ensure_diagnosis_def Let_def
  by (intro stable_intros stable_emit stable_insert_task stable_change)

lemma stable_fail: "stable R (fail L tid worker e tok)"
  unfolding fail_def Let_def
  by (intro stable_intros stable_reads stable_change stable_emit stable_ensure_diagnosis)

lemma stable_ensure_next: "stable R (ensure_next L t out g)"
  unfolding ensure_next_def Let_def by (intro stable_intros stable_emit stable_insert_task)

lemma stable_finish_success: "stable R (finish_success L t worker tok out)"
  unfolding finish_success_def
  by (intro stable_intros stable_reads stable_change stable_emit stable_ensure_next)

lemma stable_complete: "stable R (complete L tid worker result tok)"
  unfolding complete_def Let_def
  by (auto split: pyval.splits option.splits if_splits
      intro!: stable_intros stable_reads stable_fail stable_finish_success)

lemma stable_apply_diagnosis: "stable R (apply_diagnosis L did)"
  unfolding apply_diagnosis_def Let_def
  by (intro stable_intros stable_reads stable_change stable_emit)

lemma stable_recover: "stable R (recover L force)"
  unfolding recover_def Let_def by (intro stable_intros stable_tasks) simp

lemma stable_reconcile_one: "stable R (reconcile_one L r t acc)"
  unfolding reconcile_one_def Let_def
  by (intro stable_intros stable_ensure_diagnosis stable_ensure_next)

lemma stable_reconcile_loop: "stable R (reconcile_loop L r ts acc)"
  by (induction ts arbitrary: acc) (auto intro!: stable_intros stable_reconcile_one)

lemma stable_reconcile: "stable R (reconcile L rid)"
  unfolding reconcile_def by (intro stable_intros stable_emit stable_get_run stable_reconcile_loop)

lemmas stable_queue_ops = stable_discover_operator stable_claim_ready stable_renew_lease
  stable_complete stable_fail stable_apply_diagnosis stable_recover stable_reconcile

end

section \<open>Instances\<close>

interpretation tasks_fixed: table_frame same_tasks
  by unfold_locales (auto simp: same_tasks_def)

interpretation log_kept: open_frame log_grows
  by unfold_locales (auto simp: log_grows_def intro: prefix_order.trans)

end
