(* ===== verification/SchedulerSteps.thy ===== *)
theory SchedulerSteps
  imports Frames
begin

text \<open>
  The scheduler as a step relation and its refinement of the abstract queue. A step is one
  transaction (a decorated method run from outside), or a change of the files, clock and
  identifiers by another process. Each method is shown to move the tasks table along
  \<open>task_step\<close>; the interpretation of \<open>task_machine\<close> then gives the invariant of every
  reachable database.
\<close>

section \<open>Rules for the proofs\<close>

abbreviation any_exc :: "exc \<Rightarrow> world \<Rightarrow> bool" where
  "any_exc \<equiv> \<lambda>_ _. True"

lemma wp_fixed:
  assumes "stable same_tasks m" "\<And>x w'. tasks (db w') = tasks (db w) \<Longrightarrow> Q x w'"
  shows "wp m Q any_exc w"
proof (rule wpI)
  fix x w' assume "m w = (Inr x, w')"
  then have "tasks (db w') = tasks (db w)"
    using assms(1) by (auto simp: stable_def same_tasks_def dest: spec[of _ w])
  then show "Q x w'" by (rule assms(2))
qed simp

lemma wp_fixed_bind:
  assumes "stable same_tasks m"
    "\<And>x w'. tasks (db w') = tasks (db w) \<Longrightarrow> wp (f x) Q any_exc w'"
  shows "wp (actbind m f) Q any_exc w"
  unfolding wp_bind by (rule wp_fixed[OF assms])

lemma wp_owned_lease:
  assumes "\<And>t w'. tasks (db w') = tasks (db w) \<Longrightarrow> row_of (db w) tid = Some t \<Longrightarrow>
     k_status t = Running \<Longrightarrow> k_token t \<noteq> None \<Longrightarrow> k_expires t \<noteq> None \<Longrightarrow> Q t w'"
  shows "wp (owned_lease L tid worker tok) Q any_exc w"
  using assms
  by (auto simp: owned_lease_def get_row_def wp_rules lease_matches_def Let_def
      split: option.splits prod.splits)

lemma row_of_cong: "tasks d = tasks d' \<Longrightarrow> row_of d i = row_of d' i"
  by (simp add: row_of_def)

lemma table_okD:
  assumes "table_ok (tasks d)" "row_of d i = Some x"
  shows "x \<in> set (tasks d)" "k_id x = i" "row_ok x" "upstream_done (tasks d) x"
    "\<And>z. z \<in> set (tasks d) \<Longrightarrow> k_id z = i \<Longrightarrow> z = x"
proof -
  show x: "x \<in> set (tasks d)" and i: "k_id x = i" using row_of_Some[OF assms(2)] by auto
  show "row_ok x" "upstream_done (tasks d) x" using assms(1) x by (auto simp: table_ok_def)
  show "\<And>z. z \<in> set (tasks d) \<Longrightarrow> k_id z = i \<Longrightarrow> z = x"
    using assms(1) x i distinct_map_inj[of k_id "tasks d"]
    by (auto simp: table_ok_def rows_distinct_def)
qed

lemma move_change_row:
  assumes "\<And>x. x \<in> set (tasks d) \<Longrightarrow> k_id x = i \<Longrightarrow> g x = x \<or> row_step (tasks d) x (g x)"
  shows "rows_move (tasks d) (tasks (change_row i g d))"
  using assms by (auto simp: rows_move_def change_row_def list_all2_conv_all_nth)

lemma moves: "rows_move rs rs' \<Longrightarrow> task_step\<^sup>*\<^sup>* rs rs'"
  by (blast intro: task_step.Table table_step.Move)

lemma adds: "insertable rs r \<Longrightarrow> task_step\<^sup>*\<^sup>* rs (rs @ [r])"
  by (blast intro: task_step.Table table_step.Add)

section \<open>Leasing\<close>

lemma expire_moves: "table_ok (tasks d) \<Longrightarrow> rows_move (tasks d) (tasks (expire_leases t0 d))"
  by (auto simp: rows_move_def expire_leases_def list_all2_conv_all_nth lease_expired_def
      requeue_def clear_lease_def same_key_def unleased_def intro!: row_step.Release)

lemma deps_upstream:
  assumes "deps_succeeded d (k_run t) (k_key t) (k_stage t) = Inr True"
  shows "upstream_done (tasks d) t"
  using assms
  by (cases "k_stage t")
    (auto simp: deps_succeeded_def upstream_done_def rbind_eq_Inr split: option.splits if_splits)

lemma bind_workspace_fixed: "stable same_tasks (bind_workspace L r)"
  by (rule tasks_fixed.stable_bind_workspace)

text \<open>A claimed row's input is rewritten while its lease is held.\<close>

lemma wp_prepare_workspace:
  assumes "\<And>x. x \<in> set (tasks (db w)) \<Longrightarrow> k_id x = k_id t \<Longrightarrow> k_status x = Running \<and> leased x"
  shows "wp (prepare_workspace L r t) (\<lambda>_ w'. rows_move (tasks (db w)) (tasks (db w'))) any_exc w"
proof -
  have m: "rows_move (tasks (db w)) (tasks (change_row (k_id t) (\<lambda>x. x\<lparr>k_input := p\<rparr>) d))"
    if "tasks d = tasks (db w)" for p d
    unfolding that[symmetric] using assms that
    by (intro move_change_row disjI2 row_step.Hold) (auto simp: same_key_def leased_def)
  show ?thesis
    unfolding prepare_workspace_def Let_def
    apply (simp only: wp_if wp_ret rows_move_refl if_cancel)
    apply (clarsimp)
    apply (intro wp_fixed_bind tasks_fixed.stable_intros tasks_fixed.stable_reads)
    apply (simp add: wp_dbwrite m)
    done
qed

lemma wp_claim_one:
  assumes ok: "table_ok (tasks (db w))"
    and t: "\<And>x. x \<in> set (tasks (db w)) \<Longrightarrow> k_id x = k_id t \<Longrightarrow> upstream_done (tasks (db w)) x"
  shows "wp (claim_one L worker lease t0 t)
     (\<lambda>_ w'. task_step\<^sup>*\<^sup>* (tasks (db w)) (tasks (db w'))) any_exc w"
proof -
  have claim: "rows_move (tasks d) (tasks (change_row (k_id t) (take_lease tok worker (t0 + lease) t0) d))"
    if "tasks d = tasks (db w)" "still_pending d (k_id t)" for tok d
  proof (rule move_change_row)
    fix x assume x: "x \<in> set (tasks d)" "k_id x = k_id t"
    have "table_ok (tasks d)" using ok that(1) by simp
    then have "k_status x = Pending"
      using that(2) table_okD(5)[of d "k_id t"] x by (auto simp: still_pending_def split: option.splits)
    then show "take_lease tok worker (t0 + lease) t0 x = x \<or>
        row_step (tasks d) x (take_lease tok worker (t0 + lease) t0 x)"
      using t[of x] x that(1)
      by (intro disjI2 row_step.Claim) (auto simp: take_lease_def same_key_def leased_def)
  qed
  have run: "k_status x = Running \<and> leased x"
    if "x \<in> set (tasks (change_row (k_id t) (take_lease tok worker e t0) d))" "k_id x = k_id t" for x tok e d
    using that by (auto simp: set_change_row take_lease_def leased_def split: if_splits)
  have final: "task_step\<^sup>*\<^sup>* (tasks (db w)) rs'"
    if "tasks d = tasks (db w)" "still_pending d (k_id t)"
      "rows_move (tasks (change_row (k_id t) (take_lease tok worker (t0 + lease) t0) d)) rs'"
    for d tok rs'
    using rtranclp_trans[OF moves[OF claim[OF that(1,2)]] moves[OF that(3)]] that(1) by simp
  show ?thesis
    unfolding claim_one_def
    apply (rule wp_fixed_bind[OF tasks_fixed.stable_draw_token])
    apply (simp only: wp_bind wp_read wp_if wp_ret)
    apply (split if_split, intro conjI impI, simp)
    apply (simp only: wp_dbwrite)
    apply (rule wp_fixed_bind[OF tasks_fixed.stable_expect_run])
    apply (rule wp_fixed_bind[OF bind_workspace_fixed])
    apply (subst wp_bind)
    apply (rule wp_mono[OF wp_prepare_workspace])
      apply (simp, rule run, assumption, assumption)
     apply (rule wp_fixed_bind[OF tasks_fixed.stable_get_row])
     apply (simp only: wp_ret)
     apply (simp, erule (2) final)
    apply simp
    done
qed

text \<open>Chaining two parts of a handler that each move the table.\<close>

definition moving :: "row list \<Rightarrow> world \<Rightarrow> bool" where
  "moving rs w \<longleftrightarrow> task_step\<^sup>*\<^sup>* rs (tasks (db w))"

lemma moving_refl [simp]: "moving (tasks (db w)) w"
  by (simp add: moving_def)

lemma moving_cong: "tasks (db w') = tasks (db w) \<Longrightarrow> moving rs w' = moving rs w"
  by (simp add: moving_def)

lemma moving_trans: "moving rs w \<Longrightarrow> moving (tasks (db w)) w' \<Longrightarrow> moving rs w'"
  by (auto simp: moving_def)

lemma moving_ok: "moving rs w \<Longrightarrow> table_ok rs \<Longrightarrow> table_ok (tasks (db w))"
  by (simp add: moving_def task_steps_ok)

lemma wp_chain:
  assumes "wp m (\<lambda>_. moving rs) any_exc w"
    "\<And>x w'. moving rs w' \<Longrightarrow> wp (f x) Q any_exc w'"
  shows "wp (actbind m f) Q any_exc w"
  unfolding wp_bind by (rule wp_mono[OF assms(1)]) (simp_all add: assms(2))

lemma wp_fixed_moving:
  "stable same_tasks m \<Longrightarrow> moving rs w \<Longrightarrow> wp m (\<lambda>_. moving rs) any_exc w"
  by (erule wp_fixed) (simp add: moving_def)

text \<open>The candidates of a claim stay rows of the table while the claim goes on.\<close>

definition candidates_in :: "row list \<Rightarrow> row list \<Rightarrow> bool" where
  "candidates_in rs ts \<longleftrightarrow> (\<forall>t \<in> set ts. \<exists>x \<in> set rs. same_key t x)"

lemma candidates_moving:
  "candidates_in rs ts \<Longrightarrow> table_ok rs \<Longrightarrow> moving rs w \<Longrightarrow> candidates_in (tasks (db w)) ts"
  using task_steps_persists[of rs "tasks (db w)"] same_key_trans
  unfolding candidates_in_def moving_def persists_def by meson

lemma candidate_upstream:
  assumes "table_ok rs" "candidates_in rs (t # ts)" "upstream_done rs t" "x \<in> set rs" "k_id x = k_id t"
  shows "upstream_done rs x"
proof -
  obtain y where y: "y \<in> set rs" "same_key t y" using assms(2) by (auto simp: candidates_in_def)
  have "y = x" using y assms distinct_map_inj[of k_id rs y x]
    by (auto simp: table_ok_def rows_distinct_def same_key_def)
  then show ?thesis using upstream_done_persists[OF persists_refl assms(3) y(2)] by simp
qed

lemma wp_claim_loop:
  assumes "table_ok (tasks (db w))" "candidates_in (tasks (db w)) ts"
  shows "wp (claim_loop L worker lease t0 limit claimed ts)
     (\<lambda>_. moving (tasks (db w))) any_exc w"
  using assms
proof (induction ts arbitrary: claimed w)
  case Nil
  then show ?case by (simp add: wp_ret)
next
  case (Cons t ts)
  let ?rs = "tasks (db w)"
  have tl: "candidates_in ?rs ts" using Cons.prems(2) by (simp add: candidates_in_def)
  have rest: "wp (claim_loop L worker lease t0 limit c ts) (\<lambda>_. moving ?rs) any_exc w'"
    if "moving ?rs w'" for c w'
    by (rule wp_mono[OF Cons.IH])
      (use that Cons.prems(1) tl moving_ok candidates_moving moving_trans in blast)+
  have "wp (claim_one L worker lease t0 t) (\<lambda>_. moving ?rs) any_exc w"
    if "deps_succeeded (db w) (k_run t) (k_key t) (k_stage t) = Inr True"
    unfolding moving_def
    by (rule wp_claim_one[OF Cons.prems(1)])
      (use candidate_upstream[OF Cons.prems] deps_upstream[OF that] in blast)
  note one = wp_chain[OF this]
  show ?case
    using rest by (auto simp: wp_bind[of "actreadR _"] wp_readR split: sum.splits option.splits
        intro!: one)
qed

lemma claim_candidates_in: "candidates_in (tasks d) (claim_candidates d g)"
  by (auto simp: candidates_in_def claim_candidates_def intro!: bexI)

lemma wp_claim_ready:
  assumes "table_ok (tasks (db w))"
  shows "wp (claim_ready L worker stage ls limit) (\<lambda>_. moving (tasks (db w))) any_exc w"
proof -
  let ?rs = "tasks (db w)"
  have loop: "wp (actbind (actread (\<lambda>w. claim_candidates (db w) g)) (\<lambda>candidates.
      actbind (claim_loop L worker lease t0 limit [] candidates) (\<lambda>claimed.
      actbind (actfor (emit_claim L worker) claimed) (\<lambda>_. actret claimed))))
      (\<lambda>_. moving ?rs) any_exc w'"
    if "moving ?rs w'" for g lease t0 w'
  proof -
    have ok: "table_ok (tasks (db w'))" using that assms moving_ok by blast
    have "wp (claim_loop L worker lease t0 limit [] (claim_candidates (db w') g))
        (\<lambda>_. moving ?rs) any_exc w'"
      by (rule wp_mono[OF wp_claim_loop[OF ok claim_candidates_in]])
        (use that moving_trans in blast)+
    then show ?thesis
      unfolding wp_bind[of "actread _"] wp_read
      by (rule wp_chain) (intro wp_fixed_moving tasks_fixed.stable_intros
          tasks_fixed.stable_emit_claim)
  qed
  have step: "wp (actbind (now L) (\<lambda>t0. actbind (dbwrite (expire_leases t0)) (\<lambda>_.
      actbind (actread (\<lambda>w. claim_candidates (db w) g)) (\<lambda>candidates.
      actbind (claim_loop L worker lease t0 limit [] candidates) (\<lambda>claimed.
      actbind (actfor (emit_claim L worker) claimed) (\<lambda>_. actret claimed))))))
      (\<lambda>_. moving ?rs) any_exc w" for g lease
    unfolding wp_bind[of "now L"] wp_now wp_bind[of "dbwrite _"] wp_dbwrite
    by (rule loop) (simp add: moving_def moves expire_moves assms)
  show ?thesis
    unfolding claim_ready_def
    using step by (auto simp: wp_raise split: pyfloat.splits option.splits)
qed

section \<open>Insertion and renewal\<close>

lemma wp_insert_task:
  assumes "\<And>w' t. tasks (db w') = tasks (db w) @ [new_row i rid key g inp t] \<Longrightarrow>
      \<not> list_ex (conflicts (new_row i rid key g inp t)) (tasks (db w)) \<Longrightarrow> Q True w'"
    and "\<And>w' t. tasks (db w') = tasks (db w) \<Longrightarrow>
      list_ex (conflicts (new_row i rid key g inp t)) (tasks (db w)) \<Longrightarrow> Q False w'"
  shows "wp (insert_task L i rid key g inp) Q any_exc w"
  using assms(1)[where t = "clk L (clock_reads w)"] assms(2)[where t = "clk L (clock_reads w)"]
  by (auto simp: insert_task_def Let_def wp_rules)

lemma new_row_simps [simp]:
  "k_id (new_row i rid key g inp t) = i" "k_run (new_row i rid key g inp t) = rid"
  "k_key (new_row i rid key g inp t) = key" "k_stage (new_row i rid key g inp t) = g"
  "k_status (new_row i rid key g inp t) = Pending" "k_attempt (new_row i rid key g inp t) = 0"
  "k_input (new_row i rid key g inp t) = inp" "unleased (new_row i rid key g inp t)"
  by (simp_all add: new_row_def unleased_def)

lemma insertable_stage:
  assumes "g \<noteq> Diagnosis" "\<not> list_ex (conflicts (new_row (stage_task_id rid key g) rid key g inp t)) rs"
    "\<And>p. prev_stage g = Some p \<Longrightarrow>
      \<exists>x \<in> set rs. k_run x = rid \<and> k_key x = key \<and> k_stage x = p \<and> k_status x = Succeeded"
  shows "insertable rs (new_row (stage_task_id rid key g) rid key g inp t)"
  using assms by (auto simp: insertable_def id_shape_def upstream_done_def split: option.splits)

lemma wp_discover_operator:
  "wp (discover_operator L rid spec) (\<lambda>_. moving (tasks (db w))) any_exc w"
proof -
  have ins: "wp (actbind (insert_task L (stage_task_id rid key Torch) rid key Torch inp) f)
      (\<lambda>_. moving (tasks (db w))) any_exc w'"
    if "tasks (db w') = tasks (db w)" "\<And>b. stable same_tasks (f b)"
    for key inp f w'
    unfolding wp_bind
    by (rule wp_insert_task; rule wp_fixed_moving[OF that(2)])
      (auto simp: moving_def that(1) intro!: adds insertable_stage)
  show ?thesis
    unfolding discover_operator_def Let_def
    apply (rule wp_fixed_bind, intro tasks_fixed.stable_reads)
    apply (rule wp_fixed_bind, intro tasks_fixed.stable_intros)
    apply (rule wp_fixed_bind, intro tasks_fixed.stable_intros)
    apply (rule wp_fixed_bind, intro tasks_fixed.stable_tables)
    apply (rule wp_fixed_bind, intro tasks_fixed.stable_intros)
    apply (split option.split, intro conjI impI allI)
     apply (rule ins, simp, intro tasks_fixed.stable_intros tasks_fixed.stable_tables)
    apply (simp add: wp_ret moving_def)
    done
qed

lemma wp_renew_lease:
  assumes "table_ok (tasks (db w))"
  shows "wp (renew_lease L tid worker tok ls) (\<lambda>_. moving (tasks (db w))) any_exc w"
proof -
  have m: "rows_move (tasks (db w)) (tasks (change_row tid
      (\<lambda>x. if k_token x = Some tok then x\<lparr>k_expires := Some e, k_updated := u\<rparr> else x) d))"
    if "tasks d = tasks (db w)" "row_of (db w) tid = Some t" "k_status t = Running" for d t e u
    unfolding that(1)[symmetric]
  proof (rule move_change_row)
    fix x assume x: "x \<in> set (tasks d)" "k_id x = tid"
    have "x = t" using table_okD(5)[OF assms that(2)] x that(1) by simp
    moreover have "row_ok t" using table_okD(3)[OF assms that(2)] .
    ultimately show "(if k_token x = Some tok then x\<lparr>k_expires := Some e, k_updated := u\<rparr> else x) = x \<or>
        row_step (tasks d) x (if k_token x = Some tok then x\<lparr>k_expires := Some e, k_updated := u\<rparr> else x)"
      using that(3) by (auto simp: row_ok_def same_key_def leased_def intro!: row_step.Hold)
  qed
  show ?thesis
    unfolding renew_lease_def
    apply (cases ls; simp add: wp_raise wp_if)
    apply (intro impI)
    apply (subst wp_bind, rule wp_owned_lease)
    apply (rule wp_fixed_bind[OF tasks_fixed.stable_now])
    apply (rule wp_fixed_bind[OF tasks_fixed.stable_now])
    apply (subst wp_bind, subst wp_dbwrite)
    apply (rule wp_fixed_moving)
     apply (intro tasks_fixed.stable_intros tasks_fixed.stable_tables tasks_fixed.stable_reads)
    apply (simp add: moving_def, rule moves, rule m, simp_all)
    done
qed

section \<open>Failure\<close>

text \<open>The identifiers of pipeline rows and of diagnosis rows are disjoint.\<close>

lemma diagnosis_id_stage: "stage_task_id r k g = diagnosis_task_id s \<Longrightarrow> g = Diagnosis"
  by (drule arg_cong[where f = last])
    (cases g; simp add: stage_task_id_def diagnosis_task_id_def)

lemma diagnosis_id_inj [simp]: "diagnosis_task_id s = diagnosis_task_id s' \<longleftrightarrow> s = s'"
  by (simp add: diagnosis_task_id_def)

lemma diagnosis_conflict:
  assumes "table_shape rs" "list_ex (conflicts (new_row (diagnosis_task_id i) rid
      (''diagnosis:'' @ i) Diagnosis inp t)) rs"
  shows "has_diagnosis rs i"
proof -
  obtain c where c: "c \<in> set rs" "k_id c = diagnosis_task_id i \<or>
      (k_key c = ''diagnosis:'' @ i \<and> k_stage c = Diagnosis)"
    using assms(2) by (auto simp: list_ex_iff conflicts_def)
  have "id_shape c" using assms(1) c(1) by (auto simp: table_shape_def row_ok_def)
  then have "k_id c = diagnosis_task_id i \<and> k_stage c = Diagnosis"
    using c(2) by (auto simp: id_shape_def split: if_splits dest: diagnosis_id_stage)
  then show ?thesis using c(1) by (auto simp: has_diagnosis_def)
qed

text \<open>What \<open>ensure_diagnosis\<close> does to the table: one abstract step, after which the source
  has its diagnosis row and the pipeline rows are as they were.\<close>

definition diagnosis_left :: "row list \<Rightarrow> string \<Rightarrow> row list \<Rightarrow> bool" where
  "diagnosis_left rs i rs' \<longleftrightarrow> table_step rs rs' \<and> has_diagnosis rs' i \<and>
     (\<forall>x \<in> set rs. k_stage x \<noteq> Diagnosis \<longrightarrow> x \<in> set rs')"

lemma diagnosis_left_add:
  assumes "s \<in> set rs" "k_status s = Failed"
    "\<not> list_ex (conflicts (new_row (diagnosis_task_id (k_id s)) rid
       (''diagnosis:'' @ k_id s) Diagnosis inp t)) rs"
  shows "diagnosis_left rs (k_id s) (rs @ [new_row (diagnosis_task_id (k_id s)) rid
       (''diagnosis:'' @ k_id s) Diagnosis inp t])"
  using assms
  by (auto simp: diagnosis_left_def has_diagnosis_def insertable_def id_shape_def upstream_done_def
      intro!: table_step.Add)

lemma diagnosis_left_same:
  "has_diagnosis rs i \<Longrightarrow> diagnosis_left rs i rs"
  by (auto simp: diagnosis_left_def intro: table_step.Move)

lemma diagnosis_left_reopen:
  assumes "table_shape (tasks d)" "has_diagnosis (tasks d) i"
  shows "diagnosis_left (tasks d) i (tasks (change_row (diagnosis_task_id i) (reopen inp t) d))"
proof -
  have g: "k_stage x = Diagnosis" if "x \<in> set (tasks d)" "k_id x = diagnosis_task_id i" for x
    using that assms(1) diagnosis_id_stage
    by (fastforce simp: table_shape_def row_ok_def id_shape_def split: if_splits)
  have "rows_move (tasks d) (tasks (change_row (diagnosis_task_id i) (reopen inp t) d))"
    using g by (intro move_change_row disjI2 row_step.Reopen)
      (auto simp: reopen_def requeue_def clear_lease_def same_key_def unleased_def)
  moreover from this have "has_diagnosis (tasks (change_row (diagnosis_task_id i) (reopen inp t) d)) i"
    using assms(2) has_diagnosis_persists rows_move_persists by blast
  ultimately show ?thesis
    using g by (auto simp: diagnosis_left_def set_change_row intro: table_step.Move)
qed

lemma wp_ensure_diagnosis:
  assumes shape: "table_shape (tasks (db w))"
    and s: "s \<in> set (tasks (db w))" "k_status s = Failed" "k_id s = t_id t"
  shows "wp (ensure_diagnosis L t b)
     (\<lambda>_ w'. diagnosis_left (tasks (db w)) (t_id t) (tasks (db w'))) any_exc w"
proof -
  let ?Q = "\<lambda>_ w'. diagnosis_left (tasks (db w)) (t_id t) (tasks (db w'))"
  have fixed: "wp m ?Q any_exc w'"
    if "stable same_tasks m" "?Q x w'" for m :: "'b exec" and x :: unit and w'
    using that by (intro wp_fixed) auto
  have reopen: "diagnosis_left (tasks (db w)) (t_id t)
      (tasks (change_row (diagnosis_task_id (t_id t)) (reopen inp u) d))"
    if "tasks d = tasks (db w)" "has_diagnosis (tasks (db w)) (t_id t)" for d inp u
    using diagnosis_left_reopen[of d "t_id t" inp u] shape that by simp
  show ?thesis
    unfolding ensure_diagnosis_def Let_def
    apply (subst wp_bind, rule wp_insert_task)
     apply (simp only: if_True)
     apply (rule fixed, intro tasks_fixed.stable_intros tasks_fixed.stable_tables)
     apply (simp only:, rule diagnosis_left_add[of s, unfolded s(3)])
       apply (rule s(1))
      apply (rule s(2))
     apply assumption
    apply (drule diagnosis_conflict[OF shape])
    apply (simp only: if_False)
    apply (subst wp_bind)
    apply (rule wp_mono[where Q = ?Q and E = any_exc])
      apply (intro wp_fixed_bind tasks_fixed.stable_intros)
      apply (subst wp_when, split if_split, intro conjI impI)
       apply (rule wp_fixed_bind[OF tasks_fixed.stable_now])
       apply (subst wp_bind, subst wp_dbwrite)
       apply (rule fixed, intro tasks_fixed.stable_tables)
       apply (simp add: reopen)
      apply (simp add: diagnosis_left_same)
     apply (rule fixed, intro tasks_fixed.stable_intros)
     apply simp_all
    done
qed

lemma view_simps [simp]:
  "t_id (view x) = k_id x" "t_run (view x) = k_run x" "t_stage (view x) = k_stage x"
  "t_status (view x) = k_status x" "t_attempt (view x) = k_attempt x" "t_input (view x) = k_input x"
  "t_output (view x) = k_output x" "k_stage x \<noteq> Diagnosis \<Longrightarrow> t_key (view x) = k_key x"
  by (simp_all add: view_def)

lemma wp_get_row:
  "(\<And>x. row_of (db w) i = Some x \<Longrightarrow> Q x w) \<Longrightarrow> wp (get_row i) Q any_exc w"
  by (auto simp: get_row_def wp_rules split: option.splits)

lemma finish_fails:
  assumes "row_ok x" "k_status x = Running"
  shows "fail_row x (finish_row Failed out u x)"
  using assms
  by (auto simp: fail_row_def finish_row_def clear_lease_def same_key_def unleased_def row_ok_def)

lemma finish_replaces:
  assumes "table_ok (tasks d)" "row_of d i = Some x"
  shows "tasks (change_row i (finish_row st out u) d) = replace_row (finish_row st out u x) (tasks d)"
proof -
  have i: "k_id (finish_row st out u x) = i"
    using table_okD(2)[OF assms] by (simp add: finish_row_def clear_lease_def)
  have "(if k_id z = i then finish_row st out u z else z) =
      (if k_id z = i then finish_row st out u x else z)" if "z \<in> set (tasks d)" for z
    using table_okD(5)[OF assms that] by auto
  then show ?thesis by (simp add: change_row_def replace_row_def i)
qed

text \<open>The failing write together with the diagnosis it requires.\<close>

lemma fail_moves:
  assumes ok: "table_ok (tasks d)" and x: "row_of d i = Some x" "k_status x = Running"
    and left: "if k_stage x \<noteq> Diagnosis
      then diagnosis_left (tasks (change_row i (finish_row Failed out u) d)) i rs'
      else rs' = tasks (change_row i (finish_row Failed out u) d)"
  shows "task_step (tasks d) rs'"
proof (rule task_step.Fail)
  note xD = table_okD[OF ok x(1)]
  show "x \<in> set (tasks d)" by (rule xD(1))
  show "fail_row x (finish_row Failed out u x)" by (rule finish_fails[OF xD(3) x(2)])
  show "table_step (replace_row (finish_row Failed out u x) (tasks d)) rs'"
    using left finish_replaces[OF ok x(1)]
    by (auto simp: diagnosis_left_def intro: table_step.Move split: if_splits)
  show "k_stage x \<noteq> Diagnosis \<Longrightarrow> has_diagnosis rs' (k_id x)"
    using left xD(2) by (simp add: diagnosis_left_def)
qed

lemma failed_table:
  assumes ok: "table_ok (tasks d)" and x: "row_of d i = Some x" "k_status x = Running"
  shows "table_shape (tasks (change_row i (finish_row Failed out u) d))"
    "finish_row Failed out u x \<in> set (tasks (change_row i (finish_row Failed out u) d))"
    "k_status (finish_row Failed out u x) = Failed" "k_id (finish_row Failed out u x) = i"
proof -
  note xD = table_okD[OF ok x(1)]
  show "table_shape (tasks (change_row i (finish_row Failed out u) d))"
    using fail_shape[OF xD(1) finish_fails[OF xD(3) x(2)]] ok finish_replaces[OF ok x(1)]
    by (simp add: table_ok_split)
  show "finish_row Failed out u x \<in> set (tasks (change_row i (finish_row Failed out u) d))"
    using xD(1,2) by (auto simp: set_change_row image_iff intro!: bexI[of _ x])
  show "k_status (finish_row Failed out u x) = Failed" "k_id (finish_row Failed out u x) = i"
    using xD(2) by (simp_all add: finish_row_def clear_lease_def)
qed

lemma wp_fail_tail:
  assumes ok: "table_ok (tasks (db w))" and x: "row_of (db w) tid = Some x" "k_status x = Running"
    and f: "\<And>u. stable same_tasks (f u)"
  shows "wp (actbind (dbwrite (change_row tid (finish_row Failed out u))) (\<lambda>_.
      actbind (actwhen (k_stage x \<noteq> Diagnosis) (actbind (ensure_diagnosis L (view x) b) (\<lambda>_. actret ()))) f))
      (\<lambda>_. moving (tasks (db w))) any_exc w"
proof -
  let ?w = "w\<lparr>db := change_row tid (finish_row Failed out u) (db w)\<rparr>"
  have i: "k_id x = tid" using table_okD(2)[OF ok x(1)] .
  have "wp (actwhen (k_stage x \<noteq> Diagnosis) (actbind (ensure_diagnosis L (view x) b) (\<lambda>_. actret ())))
      (\<lambda>_. moving (tasks (db w))) any_exc ?w"
  proof (cases "k_stage x = Diagnosis")
    case True
    then show ?thesis using fail_moves[OF ok x] by (auto simp: wp_when moving_def)
  next
    case False
    have "wp (ensure_diagnosis L (view x) b)
        (\<lambda>_ w'. diagnosis_left (tasks (db ?w)) tid (tasks (db w'))) any_exc ?w"
      using wp_ensure_diagnosis[of ?w "finish_row Failed out u x" "view x"] failed_table[OF ok x] i
      by simp
    then have "wp (ensure_diagnosis L (view x) b) (\<lambda>_. moving (tasks (db w))) any_exc ?w"
      by (rule wp_mono)
        (use False fail_moves[OF ok x] in \<open>auto simp: moving_def intro: r_into_rtranclp\<close>)
    then show ?thesis using False by (simp add: wp_when wp_bind wp_ret[abs_def])
  qed
  then show ?thesis
    unfolding wp_bind[of "dbwrite _"] wp_dbwrite
    by (rule wp_chain) (intro wp_fixed_moving f)
qed

lemma wp_fail:
  assumes "table_ok (tasks (db w))"
  shows "wp (fail L tid worker e tok) (\<lambda>_. moving (tasks (db w))) any_exc w"
proof -
  have final: "wp (actbind (dbwrite (change_row tid (finish_row Failed out u))) (\<lambda>_.
      actbind (actwhen (t_stage (view x) \<noteq> Diagnosis)
        (actbind (ensure_diagnosis L (view x) b) (\<lambda>_. actret ()))) f))
      (\<lambda>_. moving (tasks (db w))) any_exc w'"
    if "tasks (db w') = tasks (db w)" "row_of (db w) tid = Some x" "k_status x = Running"
      "\<And>u. stable same_tasks (f u)" for x out u b f w'
    using wp_fail_tail[of w' tid x f out u L b] that assms row_of_cong[of "db w'" "db w" tid]
    by simp
  show ?thesis
    unfolding fail_def Let_def
    apply (subst wp_bind, rule wp_get_row)
    apply (rule wp_fixed_bind[OF tasks_fixed.stable_owned_lease])
    apply (rule wp_fixed_bind[OF tasks_fixed.stable_failure_report])
    apply (rule wp_fixed_bind[OF tasks_fixed.stable_record_failure])
    apply (split prod.split, intro allI impI)
    apply (subst wp_bind, rule wp_owned_lease)
    apply (rule wp_fixed_bind[OF tasks_fixed.stable_now])
    apply (rule final)
       apply (simp; fail)
      apply (simp; fail)
     apply (simp add: row_of_def; fail)
    apply (intro tasks_fixed.stable_intros tasks_fixed.stable_tables tasks_fixed.stable_reads)
    done
qed

section \<open>Success\<close>

lemma wp_ensure_next:
  assumes y: "y \<in> set (tasks (db w))" "k_status y = Succeeded" "k_run y = t_run t"
      "k_key y = t_key t" "k_stage y = t_stage t" and g: "next_stage (t_stage t) = Some g"
  shows "wp (ensure_next L t out g) (\<lambda>_ w'. moving (tasks (db w)) w' \<and>
     set (tasks (db w)) \<subseteq> set (tasks (db w'))) any_exc w"
proof -
  have g': "g \<noteq> Diagnosis" "prev_stage g = Some (t_stage t)"
    using g by (cases "t_stage t"; auto)+
  have ins: "insertable (tasks (db w)) (new_row (stage_task_id (t_run t) (t_key t) g)
      (t_run t) (t_key t) g inp u)"
    if "\<not> list_ex (conflicts (new_row (stage_task_id (t_run t) (t_key t) g)
      (t_run t) (t_key t) g inp u)) (tasks (db w))" for inp u
    using that y g' by (intro insertable_stage) auto
  show ?thesis
    unfolding ensure_next_def Let_def
    apply (rule wp_fixed_bind, intro tasks_fixed.stable_intros)
    apply (subst wp_bind, rule wp_insert_task;
        rule wp_fixed, intro tasks_fixed.stable_intros tasks_fixed.stable_tables)
     apply (auto simp: moving_def adds ins)
    done
qed

lemma success_moves:
  assumes ok: "table_ok (tasks d)" and x: "row_of d i = Some x" "k_status x = Running"
  shows "rows_move (tasks d) (tasks (change_row i (finish_row Succeeded out u) d))"
    "finish_row Succeeded out u x \<in> set (tasks (change_row i (finish_row Succeeded out u) d))"
proof -
  note xD = table_okD[OF ok x(1)]
  show "rows_move (tasks d) (tasks (change_row i (finish_row Succeeded out u) d))"
  proof (rule move_change_row)
    fix z assume "z \<in> set (tasks d)" "k_id z = i"
    then have "z = x" using xD(5) by simp
    then show "finish_row Succeeded out u z = z \<or> row_step (tasks d) z (finish_row Succeeded out u z)"
      using x(2) xD(3)
      by (intro disjI2 row_step.Succeed)
        (auto simp: row_ok_def finish_row_def clear_lease_def same_key_def unleased_def)
  qed
  show "finish_row Succeeded out u x \<in> set (tasks (change_row i (finish_row Succeeded out u) d))"
    using xD(1,2) by (auto simp: set_change_row image_iff intro!: bexI[of _ x])
qed

lemma finish_row_simps [simp]:
  "k_id (finish_row st out u x) = k_id x" "k_run (finish_row st out u x) = k_run x"
  "k_key (finish_row st out u x) = k_key x" "k_stage (finish_row st out u x) = k_stage x"
  "k_status (finish_row st out u x) = st" "k_output (finish_row st out u x) = out"
  "k_attempt (finish_row st out u x) = k_attempt x"
  by (simp_all add: finish_row_def clear_lease_def)

lemma wp_finish_success:
  assumes ok: "table_ok (tasks (db w))" and x: "row_of (db w) (k_id x) = Some x"
  shows "wp (finish_success L (view x) worker tok out) (\<lambda>_. moving (tasks (db w))) any_exc w"
proof -
  let ?rs = "tasks (db w)"
  have next_ok: "wp (if k_stage x = Diagnosis then emit L rid ty payload tid
      else (case next_stage (k_stage x) of None \<Rightarrow> actret () | Some g \<Rightarrow> ensure_next L (view x) out g))
      (\<lambda>_. moving ?rs) any_exc w'"
    if w': "tasks (db w') = tasks (change_row (k_id x) (finish_row Succeeded out u) d)"
      and d: "tasks d = ?rs" and run: "k_status x = Running" for w' d u rid ty payload tid
  proof -
    have okd: "table_ok (tasks d)" "row_of d (k_id x) = Some x"
      using ok x d row_of_cong[of d "db w"] by simp_all
    note sm = success_moves[OF okd run, of out u]
    have mv: "moving ?rs w'" using sm(1) by (simp add: moving_def w' d[symmetric] moves)
    show ?thesis
    proof (cases "next_stage (k_stage x)")
      case None
      then show ?thesis using mv
        by (auto intro!: wp_fixed_moving tasks_fixed.stable_intros tasks_fixed.stable_tables)
    next
      case (Some g)
      then have s: "k_stage x \<noteq> Diagnosis" by auto
      have "wp (ensure_next L (view x) out g) (\<lambda>_ v. moving (tasks (db w')) v \<and>
          set (tasks (db w')) \<subseteq> set (tasks (db v))) any_exc w'"
        by (rule wp_ensure_next[of "finish_row Succeeded out u x"])
          (use sm(2) Some s in \<open>simp_all add: w'\<close>)
      then have "wp (ensure_next L (view x) out g) (\<lambda>_. moving ?rs) any_exc w'"
        by (rule wp_mono) (use mv moving_trans in blast)+
      then show ?thesis using Some s by simp
    qed
  qed
  show ?thesis
    unfolding finish_success_def
    apply (subst wp_bind, rule wp_owned_lease)
    apply (rule wp_fixed_bind[OF tasks_fixed.stable_now])
    apply (subst wp_bind, subst wp_dbwrite)
    apply (rule wp_fixed_bind, intro tasks_fixed.stable_tables)
    apply (rule wp_chain[where rs = ?rs])
     apply (simp only: view_simps)
     apply (rule next_ok, simp, simp)
     apply (simp add: x)
    apply (intro wp_fixed_moving tasks_fixed.stable_intros tasks_fixed.stable_reads)
    apply assumption
    done
qed

lemma wp_complete:
  assumes ok: "table_ok (tasks (db w))"
  shows "wp (complete L tid worker result tok) (\<lambda>_. moving (tasks (db w))) any_exc w"
proof -
  let ?rs = "tasks (db w)"
  have fails: "wp (fail L tid wk e tk) (\<lambda>_. moving ?rs) any_exc w'"
    if "tasks (db w') = ?rs" for wk e tk w'
    using wp_fail[of w' L tid wk e tk] that ok by simp
  have success: "wp (finish_success L (view x) wk tk out) (\<lambda>_. moving ?rs) any_exc w'"
    if "tasks (db w') = ?rs" "row_of (db w) tid = Some x" for x wk tk out w'
    using wp_finish_success[of w' x L wk tk out] that ok row_of_cong[of "db w'" "db w"]
      table_okD(2)[OF ok that(2)] by simp
  have body: "wp (case v of JDict output \<Rightarrow>
         actbind (expect_run (t_run (view x))) (\<lambda>r.
         actbind (actreadR (\<lambda>w. validate_result L (files w) (view x) r output wname)) (\<lambda>errors.
         if errors \<noteq> [] then fail L tid wk (rejection output errors) tk
         else
           actbind (owned_lease L tid wk tk) (\<lambda>_.
           actbind (actcatch
               (actbind (record_attempt L (view x) (dset output ''_submission'' (submission wname (t_attempt (view x)))) ''PASS'') (\<lambda>o'. actret (Inr o')))
               (\<lambda>e. if storage_failure e then Some (actret (Inl e)) else None)) (\<lambda>recorded.
           case recorded of
             Inl e \<Rightarrow> fail L tid wk (unregistered L e) tk
           | Inr output2 \<Rightarrow> finish_success L (view x) wk tk output2))))
     | _ \<Rightarrow> actraise (ValueError (Msg ''result must be a mapping'' [])))
     (\<lambda>_. moving ?rs) any_exc w'"
    if "tasks (db w') = ?rs" "row_of (db w) tid = Some x" for x v wk tk wname w'
  proof (cases v)
    case (JDict out)
    show ?thesis
      unfolding JDict pyval.case
      apply (rule wp_fixed_bind, intro tasks_fixed.stable_reads)
      apply (rule wp_fixed_bind, intro tasks_fixed.stable_intros)
      apply (subst wp_if, split if_split, intro conjI impI)
       apply (rule fails, simp add: that)
      apply (rule wp_fixed_bind, intro tasks_fixed.stable_reads)
      apply (rule wp_fixed_bind)
       apply (intro tasks_fixed.stable_intros tasks_fixed.stable_reads)
       apply (auto split: if_splits intro: tasks_fixed.stable_ret)[1]
      apply (split sum.split, intro conjI impI allI)
       apply (rule fails, simp add: that)
      apply (rule success, simp add: that)
      apply (rule that(2))
      done
  qed (simp_all add: wp_raise)
  show ?thesis
    unfolding complete_def Let_def
    apply (subst wp_bind, rule wp_get_row)
    apply (rule wp_fixed_bind, intro tasks_fixed.stable_reads)
    apply (rule body)
     apply assumption+
    done
qed

section \<open>Diagnosis, recovery and reconciliation\<close>

lemma is_diagnostic_view [simp]: "is_diagnostic (view x) \<longleftrightarrow> k_stage x = Diagnosis"
  by (simp add: is_diagnostic_def view_def)

lemma wp_source_row:
  "(\<And>x. row_of (db w) i = Some x \<Longrightarrow> k_stage x \<noteq> Diagnosis \<Longrightarrow> Q (view x) w) \<Longrightarrow>
     wp (source_row i) Q any_exc w"
  by (auto simp: source_row_def wp_rules split: option.splits if_splits)

lemma retry_moves:
  assumes ok: "table_ok (tasks d)" and x: "row_of d i = Some x" "k_status x = Failed" "k_stage x \<noteq> Diagnosis"
  shows "rows_move (tasks d) (tasks (change_row i (reopen inp u) d))"
proof (rule move_change_row)
  fix z assume "z \<in> set (tasks d)" "k_id z = i"
  then have "z = x" using table_okD(5)[OF ok x(1)] by simp
  then show "reopen inp u z = z \<or> row_step (tasks d) z (reopen inp u z)"
    using x by (intro disjI2 row_step.Retry)
      (auto simp: reopen_def requeue_def clear_lease_def same_key_def unleased_def)
qed

lemma wp_apply_diagnosis:
  assumes ok: "table_ok (tasks (db w))"
  shows "wp (apply_diagnosis L did) (\<lambda>_. moving (tasks (db w))) any_exc w"
proof -
  let ?rs = "tasks (db w)"
  have retry: "wp (actwhen (action = JStr ''RETRY'')
      (actbind (actguard (t_status (view x) = Failed) e) (\<lambda>_. actbind (now L) (\<lambda>t0.
       dbwrite (change_row (t_id (view x)) (reopen inp t0))))))
      (\<lambda>_. moving ?rs) any_exc w'"
    if "tasks (db w') = ?rs" "row_of (db v) i = Some x" "tasks (db v) = ?rs" "k_stage x \<noteq> Diagnosis"
    for action x e inp w' v i
  proof -
    have row: "row_of (db w') (k_id x) = Some x"
      using that row_of_Some row_of_cong[of "db w'" "db v"] by metis
    have "task_step\<^sup>*\<^sup>* ?rs (tasks (change_row (k_id x) (reopen inp u) (db w')))"
      if "k_status x = Failed" for u
      using retry_moves[of "db w'" "k_id x" x inp u] row \<open>k_stage x \<noteq> Diagnosis\<close> that ok
        \<open>tasks (db w') = ?rs\<close> moves by simp
    then show ?thesis using that(1) by (simp add: wp_rules moving_def)
  qed
  show ?thesis
    unfolding apply_diagnosis_def Let_def
    apply (rule wp_fixed_bind, intro tasks_fixed.stable_reads)
    apply (rule wp_fixed_bind, intro tasks_fixed.stable_intros)
    apply (subst wp_bind, rule wp_source_row)
    apply (rule wp_fixed_bind, intro tasks_fixed.stable_intros)
    apply (rule wp_fixed_bind, intro tasks_fixed.stable_intros)
    apply (rule wp_fixed_bind, intro tasks_fixed.stable_intros)
    apply (rule wp_fixed_bind, intro tasks_fixed.stable_intros)
    apply (subst wp_if, split if_split, intro conjI impI)
     apply (simp add: wp_ret moving_def)
    apply (rule wp_chain[where rs = ?rs])
     apply (rule retry, simp, assumption, simp, assumption)
    apply (intro wp_fixed_moving tasks_fixed.stable_intros tasks_fixed.stable_tables
        tasks_fixed.stable_reads)
    apply assumption
    done
qed

lemma wp_recover: "wp (recover L force) (\<lambda>_. moving (tasks (db w))) any_exc w"
proof -
  have m: "task_step\<^sup>*\<^sup>* rs (map (\<lambda>x. if hit x then requeue t1 x else x) rs)"
    if "\<And>x. hit x \<Longrightarrow> k_status x = Running" for hit t1 rs
    using that by (intro moves)
      (auto simp: rows_move_def list_all2_conv_all_nth requeue_def
        clear_lease_def same_key_def unleased_def intro!: row_step.Release)
  show ?thesis
    by (cases force)
      (auto simp: recover_def Let_def wp_rules moving_def lease_expired_def intro!: m)
qed

text \<open>Reconciliation only adds rows or reopens diagnoses, so the rows it read stay as they were.\<close>

definition reconciling :: "row list \<Rightarrow> world \<Rightarrow> bool" where
  "reconciling rs w \<longleftrightarrow> moving rs w \<and>
     (\<forall>x \<in> set rs. k_stage x \<noteq> Diagnosis \<longrightarrow> x \<in> set (tasks (db w)))"

lemma reconciling_cong: "tasks (db w') = tasks (db w) \<Longrightarrow> reconciling rs w' = reconciling rs w"
  by (simp add: reconciling_def moving_def)

lemma wp_fixed_reconciling:
  "stable same_tasks m \<Longrightarrow> reconciling rs w \<Longrightarrow> wp m (\<lambda>_. reconciling rs) any_exc w"
  by (erule wp_fixed) (simp add: reconciling_def moving_def)

lemma wp_reconcile_one:
  assumes rec: "reconciling rs w" and ok: "table_ok rs" and x: "x \<in> set rs"
  shows "wp (reconcile_one L r (view x) acc) (\<lambda>_. reconciling rs) any_exc w"
proof -
  have okw: "table_ok (tasks (db w))" using rec ok moving_ok by (auto simp: reconciling_def)
  have diag: "wp (actbind (ensure_diagnosis L (view x) b) f) (\<lambda>_. reconciling rs) any_exc w'"
    if "tasks (db w') = tasks (db w)" "k_status x = Failed" "k_stage x \<noteq> Diagnosis"
      "\<And>d. stable same_tasks (f d)" for b f w'
  proof -
    have "x \<in> set (tasks (db w'))" using rec x that by (simp add: reconciling_def)
    then have d: "wp (ensure_diagnosis L (view x) b)
        (\<lambda>_ v. diagnosis_left (tasks (db w')) (k_id x) (tasks (db v))) any_exc w'"
      using wp_ensure_diagnosis[of w' x "view x"] okw that by (simp add: table_ok_split)
    have r: "reconciling rs v" if "diagnosis_left (tasks (db w')) (k_id x) (tasks (db v))" for v
      using rec that \<open>tasks (db w') = tasks (db w)\<close>
      by (auto simp: diagnosis_left_def reconciling_def moving_def
          intro: rtranclp.rtrancl_into_rtrancl task_step.Table)
    show ?thesis
      unfolding wp_bind by (rule wp_mono[OF d]) (use that(4) r in \<open>auto intro: wp_fixed_reconciling\<close>)
  qed
  have next_ok: "wp (actbind (ensure_next L (view x) out g) f) (\<lambda>_. reconciling rs) any_exc w'"
    if "tasks (db w') = tasks (db w)" "k_status x = Succeeded" "k_stage x \<noteq> Diagnosis"
      "next_stage (k_stage x) = Some g" "\<And>d. stable same_tasks (f d)" for out g f w'
  proof -
    have "x \<in> set (tasks (db w'))" using rec x that by (simp add: reconciling_def)
    then have d: "wp (ensure_next L (view x) out g) (\<lambda>_ v. moving (tasks (db w')) v \<and>
        set (tasks (db w')) \<subseteq> set (tasks (db v))) any_exc w'"
      using that by (intro wp_ensure_next[of x]) simp_all
    have r: "reconciling rs v"
      if "moving (tasks (db w')) v \<and> set (tasks (db w')) \<subseteq> set (tasks (db v))" for v
      using rec that \<open>tasks (db w') = tasks (db w)\<close> moving_trans[of rs w v]
      by (auto simp: reconciling_def)
    show ?thesis
      unfolding wp_bind by (rule wp_mono[OF d]) (use that(5) r in \<open>auto intro: wp_fixed_reconciling\<close>)
  qed
  have same: "reconciling rs w'" if "tasks (db w') = tasks (db w)" for w'
    using rec that reconciling_cong by blast
  show ?thesis
    unfolding reconcile_one_def Let_def
    apply (subst wp_if, split if_split, intro conjI impI)
     apply (simp add: wp_ret rec)
    apply (rule wp_fixed_bind, intro tasks_fixed.stable_intros)
    apply (subst wp_if, split if_split, intro conjI impI)
     apply (rule wp_fixed_bind, intro tasks_fixed.stable_intros)
     apply (rule wp_fixed_bind, intro tasks_fixed.stable_intros)
     apply (rule diag, simp, simp, simp, intro tasks_fixed.stable_intros)
    apply (split option.split, intro conjI impI allI)
     apply (simp add: wp_ret same)
    apply (subst wp_if, split if_split, intro conjI impI)
     apply (simp add: wp_ret same)
    apply (rule wp_fixed_bind, intro tasks_fixed.stable_intros)
    apply (subst wp_if, split if_split, intro conjI impI)
     apply (simp add: wp_ret same)
    apply (rule wp_fixed_bind, intro tasks_fixed.stable_intros)
    apply (rule wp_fixed_bind, intro tasks_fixed.stable_intros)
    apply (subst wp_if, split if_split, intro conjI impI)
     apply (simp add: wp_ret same)
    apply (rule next_ok, simp, simp, simp, simp, intro tasks_fixed.stable_intros)
    done
qed

lemma wp_reconcile_loop:
  assumes "reconciling rs w" "table_ok rs" "set xs \<subseteq> set rs"
  shows "wp (reconcile_loop L r (map view xs) acc) (\<lambda>_. reconciling rs) any_exc w"
  using assms
proof (induction xs arbitrary: acc w)
  case Nil
  then show ?case by (simp add: wp_ret)
next
  case (Cons x xs)
  have "wp (reconcile_one L r (view x) acc) (\<lambda>_. reconciling rs) any_exc w"
    using Cons.prems by (intro wp_reconcile_one) auto
  then have "wp (reconcile_one L r (view x) acc)
      (\<lambda>acc'. wp (reconcile_loop L r (map view xs) acc') (\<lambda>_. reconciling rs) any_exc) any_exc w"
    by (rule wp_mono) (use Cons in auto)
  then show ?case by (simp add: wp_bind)
qed

lemma wp_reconcile:
  assumes "table_ok (tasks (db w))"
  shows "wp (reconcile L rid) (\<lambda>_. moving (tasks (db w))) any_exc w"
proof -
  let ?rs = "tasks (db w)"
  have "wp (actbind (reconcile_loop L r (map view (tasks_of (db w') (Some rid))) acc) f)
      (\<lambda>_. moving ?rs) any_exc w'"
    if "tasks (db w') = ?rs" "\<And>x. stable same_tasks (f x)" for r w' acc f
  proof -
    have "set (tasks_of (db w') (Some rid)) \<subseteq> set ?rs"
      using that(1) by (auto simp: tasks_of_set)
    then have "wp (reconcile_loop L r (map view (tasks_of (db w') (Some rid))) acc)
        (\<lambda>_. moving ?rs) any_exc w'"
      using that(1) by (intro wp_mono[OF wp_reconcile_loop[of ?rs]])
        (auto simp: assms reconciling_def moving_def)
    then show ?thesis by (rule wp_chain) (intro wp_fixed_moving that(2))
  qed
  note loop = this
  show ?thesis
    unfolding reconcile_def
    apply (rule wp_fixed_bind, intro tasks_fixed.stable_reads)
    apply (subst wp_bind, subst wp_read)
    apply (rule loop, simp, intro tasks_fixed.stable_intros tasks_fixed.stable_tables)
    done
qed

end
