(* ===== verification/SchedulerProps.thy ===== *)
theory SchedulerProps
  imports SchedulerSteps
begin

text \<open>
  The scheduler as a whole: \<open>perform\<close> dispatches a call of its public interface,
  \<open>sched_step\<close> is one transaction or a change made outside the database, and the theorems
  state what holds of every reachable database and of every call's result.
\<close>

section \<open>Calls and steps\<close>

datatype call =
    CreateRun run
  | BindEnvironment string pydict "string option"
  | EnvironmentFailure string pydict string
  | GraphTransition string string pydict
  | DiscoverOperator string opspec
  | ClaimReady string "string option" pyfloat int
  | RenewLease string string string pyfloat
  | Complete string "string option" "pyval option" "string option"
  | Fail string "string option" failure "string option"
  | ApplyDiagnosis string
  | Recover bool
  | Reconcile string

fun perform :: "lib \<Rightarrow> call \<Rightarrow> unit exec" where
  "perform L (CreateRun r) = actbind (create_run L r) (\<lambda>_. actret ())"
| "perform L (BindEnvironment i p a) = actbind (bind_environment L i p a) (\<lambda>_. actret ())"
| "perform L (EnvironmentFailure i p e) =
     actbind (record_environment_failure L i p e) (\<lambda>_. actret ())"
| "perform L (GraphTransition i k p) =
     actbind (record_graph_transition L i k p) (\<lambda>_. actret ())"
| "perform L (DiscoverOperator i s) = actbind (discover_operator L i s) (\<lambda>_. actret ())"
| "perform L (ClaimReady wk g s n) = actbind (claim_ready L wk g s n) (\<lambda>_. actret ())"
| "perform L (RenewLease i wk tok s) = actbind (renew_lease L i wk tok s) (\<lambda>_. actret ())"
| "perform L (Complete i wk v tok) = actbind (complete L i wk v tok) (\<lambda>_. actret ())"
| "perform L (Fail i wk e tok) = actbind (fail L i wk e tok) (\<lambda>_. actret ())"
| "perform L (ApplyDiagnosis i) = actbind (apply_diagnosis L i) (\<lambda>_. actret ())"
| "perform L (Recover b) = actbind (recover L b) (\<lambda>_. actret ())"
| "perform L (Reconcile i) = actbind (reconcile L i) (\<lambda>_. actret ())"

definition empty_db :: database where
  "empty_db = \<lparr>runs = [], operators = [], tasks = [], events = []\<rparr>"

definition sched_start :: "world \<Rightarrow> bool" where
  "sched_start w \<longleftrightarrow> db w = empty_db"

inductive sched_step :: "lib \<Rightarrow> world \<Rightarrow> world \<Rightarrow> bool" for L where
  Call: "atomic (perform L c) w = (res, w') \<Longrightarrow> sched_step L w w'"
| Outside: "db w' = db w \<Longrightarrow> sched_step L w w'"

inductive_cases sched_step_cases: "sched_step L w w'"

text \<open>A sequence of calls, for concrete executions.\<close>

fun run_calls :: "lib \<Rightarrow> call list \<Rightarrow> world \<Rightarrow> world" where
  "run_calls L [] w = w"
| "run_calls L (c # cs) w = run_calls L cs (snd (atomic (perform L c) w))"

lemma run_calls_steps: "(sched_step L)\<^sup>*\<^sup>* w (run_calls L cs w)"
proof (induction cs arbitrary: w)
  case Nil
  then show ?case by simp
next
  case (Cons c cs)
  have "sched_step L w (snd (atomic (perform L c) w))"
    by (rule sched_step.Call[where res = "fst (atomic (perform L c) w)"]) simp
  then show ?case using Cons.IH by (simp add: converse_rtranclp_into_rtranclp)
qed

section \<open>The interpretation\<close>

lemma wp_discard: "wp m (\<lambda>_. P) any_exc w \<Longrightarrow> wp (actbind m (\<lambda>_. actret ())) (\<lambda>_. P) any_exc w"
  by (simp add: wp_bind wp_ret[abs_def])

lemma run_ops_moving:
  "stable same_tasks m \<Longrightarrow> wp (actbind m (\<lambda>_. actret ())) (\<lambda>_. moving (tasks (db w))) any_exc w"
  by (intro wp_fixed_moving tasks_fixed.stable_intros) simp_all

lemma perform_moving:
  assumes "table_ok (tasks (db w))"
  shows "wp (perform L c) (\<lambda>_. moving (tasks (db w))) any_exc w"
  using assms
  by (cases c)
    (auto intro: wp_discard[OF wp_discover_operator] wp_discard[OF wp_claim_ready]
      wp_discard[OF wp_renew_lease] wp_discard[OF wp_complete] wp_discard[OF wp_fail]
      wp_discard[OF wp_apply_diagnosis] wp_discard[OF wp_recover] wp_discard[OF wp_reconcile]
      run_ops_moving tasks_fixed.stable_run_ops)

lemma atomic_moving:
  assumes "table_ok (tasks (db w))" "atomic (perform L c) w = (res, w')"
  shows "task_step\<^sup>*\<^sup>* (tasks (db w)) (tasks (db w'))"
  using perform_moving[OF assms(1), of L c] assms(2)
  by (auto simp: atomic_def wp_def moving_def split: prod.splits sum.splits)

interpretation queue: task_machine sched_start "sched_step L" "\<lambda>w. tasks (db w)" for L
proof unfold_locales
  fix s assume "sched_start s"
  then show "tasks (db s) = []" by (simp add: sched_start_def empty_db_def)
next
  fix s s' assume "sched_step L s s'" "table_ok (tasks (db s))"
  then show "task_step\<^sup>*\<^sup>* (tasks (db s)) (tasks (db s'))"
    by (cases rule: sched_step.cases) (auto intro: atomic_moving)
qed

lemma perform_stable: "stable log_grows (perform L c)"
  by (cases c) (auto intro!: log_kept.stable_bind log_kept.stable_ret log_kept.stable_run_ops
      log_kept.stable_queue_ops)

lemma sched_step_log: "sched_step L w w' \<Longrightarrow> log_grows w w'"
  using log_kept.stable_atomic[OF perform_stable, of L]
  by (auto elim!: sched_step_cases simp: stable_def log_kept.same_db) (metis snd_conv)

lemma sched_steps_log: "(sched_step L)\<^sup>*\<^sup>* w w' \<Longrightarrow> log_grows w w'"
  by (induction rule: rtranclp_induct)
    (auto intro: log_kept.same_db log_kept.R_trans sched_step_log)

end
