(* ===== verification/SampleLib.thy ===== *)
theory SampleLib
  imports Storage
begin

text \<open>
  A concrete interpreter for the witnesses: the clock counts, identifiers are numbered, the hash
  keeps the letters and digits of its argument padded to 64, and \<open>json.loads\<close> knows the documents
  it is given.
\<close>

definition sample_hash :: "string \<Rightarrow> string" where
  "sample_hash s = take 64 (filter is_alnum s @ replicate 64 (CHR ''0''))"

definition sample_lib :: "(string \<times> pyval) list \<Rightarrow> lib" where
  "sample_lib docs =
     \<lparr>sha256 = sample_hash, json_dumps = (\<lambda>_. ''doc''), json_as = (\<lambda>_ _. ''doc''), json_text = (\<lambda>_. ''doc''),
      json_loads = map_of docs, yaml_loads = (\<lambda>_. Inl (ValueError (Msg ''no document'' []))), repr_of = (\<lambda>_. ''repr''), exc_text = (\<lambda>_. ''error''), float_of_str = (\<lambda>_. None),
      int_of_str = (\<lambda>_. None), clk = of_nat, uuid = (\<lambda>n. replicate n (CHR ''u'')),
      token = (\<lambda>n. CHR ''t'' # replicate n (CHR ''t'')), cwd = [''work''], home = [''home'', ''user''],
      repo_root = [''repo''], state_root_env = None, xdg_state_env = None, user_id_env = None,
      cluster_profile = Inl (OSError (Msg ''absent'' []))\<rparr>"

lemma sample_lib_simps [simp]:
  "sha256 (sample_lib d) = sample_hash" "json_dumps (sample_lib d) v = ''doc''"
  "json_as (sample_lib d) = (\<lambda>_ _. ''doc'')" "exc_text (sample_lib d) = (\<lambda>_. ''error'')"
  "json_text (sample_lib d) v = ''doc''" "json_loads (sample_lib d) = map_of d"
  "clk (sample_lib d) = of_nat" "uuid (sample_lib d) n = replicate n (CHR ''u'')"
  "token (sample_lib d) n = CHR ''t'' # replicate n (CHR ''t'')" "cwd (sample_lib d) = [''work'']"
  "home (sample_lib d) = [''home'', ''user'']" "repo_root (sample_lib d) = [''repo'']"
  "state_root_env (sample_lib d) = None" "xdg_state_env (sample_lib d) = None"
  "user_id_env (sample_lib d) = None"
  by (simp_all add: sample_lib_def)

lemma sample_hex_hash: "hex_hash (sample_lib d)"
  by (auto simp: hex_hash_def sample_hash_def list_all_iff is_alnum_def dest!: in_set_takeD)

definition demo_lib :: lib where "demo_lib = sample_lib []"

text \<open>The call returned and its value satisfies \<open>P\<close>.\<close>

definition returned :: "('a \<Rightarrow> bool) \<Rightarrow> (exc + 'a) \<times> 'w \<Rightarrow> bool" where
  "returned P x = (case fst x of Inl _ \<Rightarrow> False | Inr v \<Rightarrow> P v)"

lemma returnedE:
  assumes "returned P x"
  obtains v w where "x = (Inr v, w)" "P v"
  using assms by (cases x; cases "fst x") (auto simp: returned_def)

end
