(* ===== verification/Sample.thy ===== *)
theory Sample
  imports SchedulerProps SampleLib
begin

text \<open>
  A concrete run, operator and queue, on which the witnesses evaluate the theorems.
\<close>

definition sample_iospec :: iospec where
  "sample_iospec = \<lparr>io_name = JStr ''x'', io_dtype = JStr ''f32'', io_shape = JStr ''n'',
     io_layout = JStr ''row''\<rparr>"

definition sample_spec :: opspec where
  "sample_spec = \<lparr>os_operator_id = JStr ''op'', os_model_id = JStr ''m'',
     os_model_revision = JStr ''1'', os_plugin_revision = JStr ''1'', os_backend = JStr ''b'',
     os_inputs = [sample_iospec], os_outputs = [sample_iospec], os_semantics = JStr ''add'',
     os_evidence = JDict [], os_environment = JDict [], os_schema_version = JInt 1\<rparr>"

definition sample_run :: run where
  "sample_run = \<lparr>r_id = ''run'', r_model = ''m'', r_model_revision = ''1'',
     r_plugin_revision = ''1'', r_backend = ''b'', r_status = ''CREATED'', r_environment = [],
     r_metadata = [(''evidence_mode'', JStr ''simulation'')], r_created = 0, r_updated = 0\<rparr>"

definition sample_world :: world where
  "sample_world = \<lparr>files = [], clock_reads = 0, ids_drawn = 0, db = empty_db, db_path = None\<rparr>"

section \<open>A small queue\<close>

text \<open>One torch row, leased by \<open>alice\<close> until time 100.\<close>

definition demo_row :: row where
  "demo_row = \<lparr>k_id = ''run:k:torch'', k_run = ''run'', k_key = ''k'', k_stage = Torch,
     k_status = Running, k_attempt = 1, k_input = [], k_output = [], k_token = Some ''t'',
     k_worker = Some ''alice'', k_expires = Some 100, k_created = 0, k_updated = 0\<rparr>"

definition demo_db :: "row list \<Rightarrow> database" where
  "demo_db rs = \<lparr>runs = [sample_run], operators = [(''run'', ''k'', sample_spec)], tasks = rs, events = []\<rparr>"

definition demo_world :: "row list \<Rightarrow> world" where
  "demo_world rs = sample_world\<lparr>db := demo_db rs\<rparr>"

lemma demo_table: "table_ok [demo_row]"
  by (simp add: table_ok_def rows_distinct_def row_ok_def id_shape_def leased_def unleased_def
      upstream_done_def demo_row_def stage_task_id_def)

text \<open>A failed row and its completed diagnosis, which asks for a retry.\<close>

definition failed_row :: row where
  "failed_row = demo_row\<lparr>k_status := Failed, k_token := None, k_worker := None, k_expires := None\<rparr>"

definition diagnosis_rows :: "row list" where
  "diagnosis_rows = [failed_row, \<lparr>k_id = ''run:k:torch:diagnosis'', k_run = ''run'',
     k_key = ''diagnosis:run:k:torch'', k_stage = Diagnosis, k_status = Succeeded, k_attempt = 1,
     k_input = [(''source_task_id'', JStr ''run:k:torch''), (''operator_key'', JStr ''k''),
       (''source_attempt'', JInt 1)],
     k_output = [(''next_action'', JStr ''RETRY''), (''repair_conclusion'', JStr ''fixed'')],
     k_token = None, k_worker = None, k_expires = None, k_created = 1, k_updated = 1\<rparr>]"

lemma demo_world_table: "table_ok (tasks (db (demo_world [demo_row])))"
  by (simp add: demo_world_def demo_db_def demo_table)

lemma demo_row_found: "row_of (db (demo_world [demo_row])) ''run:k:torch'' = Some demo_row"
  by code_simp

end
