(* ===== verification/GateProps.thy ===== *)
theory GateProps
  imports Sample
begin

text \<open>
  The properties of the evidence gate and of the completions it guards.
\<close>

section \<open>The gate\<close>

definition gate_spec :: "lib \<Rightarrow> fs \<Rightarrow> task \<Rightarrow> run \<Rightarrow> pydict \<Rightarrow> string \<Rightarrow> bool" where
  "gate_spec L f t r result worker \<longleftrightarrow>
     bears_identity t r result \<and> py_eq (dget result ''schema_version'') (JInt 1) \<and>
     (\<exists>k \<in> {''status'', ''verdict''}. dhas result k) \<and>
     (\<forall>k \<in> {''status'', ''verdict''}. dhas result k \<longrightarrow> says_pass (dget result k)) \<and>
     (run_mode r = JStr ''real'' \<longrightarrow>
        (\<exists>fp. run_fingerprint r = Inr fp \<and> truthy fp) \<and>
        (t_stage t \<noteq> Diagnosis \<longrightarrow> r_status r = ''ENVIRONMENT_READY'')) \<and>
     (\<exists>ev hashes. dget result ''evidence'' = JDict ev \<and> dget result ''evidence_sha256'' = JDict hashes \<and>
        (\<forall>k \<in> set (stage_evidence (t_stage t)). dhas ev k) \<and>
        (\<forall>k v. map_of ev k = Some v \<longrightarrow> (\<exists>c. evidence_holds L f t r hashes k v c)) \<and>
        (\<exists>v c report. map_of ev (report_key (t_stage t)) = Some v \<and>
           evidence_holds L f t r hashes (report_key (t_stage t)) v c \<and>
           json_loads L c = Some (JDict report) \<and> accepted_report L f t r result worker report))"

lemma concat_map_err_Nil: "concat (map (\<lambda>k. err_if (b k) (m k)) ks) = [] \<longleftrightarrow> (\<forall>k \<in> set ks. \<not> b k)"
  by (auto simp: concat_eq_Nil_conv)

lemma header_errors_clean:
  assumes "header_errors t r fp result = []"
  shows "py_eq (dget result ''schema_version'') (JInt 1) \<and>
     (\<exists>k \<in> {''status'', ''verdict''}. dhas result k) \<and>
     (\<forall>k \<in> {''status'', ''verdict''}. dhas result k \<longrightarrow> says_pass (dget result k)) \<and>
     (run_mode r = JStr ''real'' \<longrightarrow> truthy fp \<and>
        (t_stage t \<noteq> Diagnosis \<longrightarrow> r_status r = ''ENVIRONMENT_READY''))"
  using assms by (auto simp: header_errors_def Let_def list_ex_iff filter_empty_conv split: if_splits)

lemma gate_passes:
  assumes "validate_result L f t r result worker = Inr []"
  shows "gate_spec L f t r result worker"
proof -
  obtain fp identity where fp: "run_fingerprint r = Inr fp" and
    id: "result_identity t r = Inr identity"
    using assms by (auto simp: validate_result_def rbind_eq_Inr)
  have "\<exists>ev hs. dget result ''evidence'' = JDict ev \<and> dget result ''evidence_sha256'' = JDict hs"
    using assms
    by (cases "dget result ''evidence''"; cases "dget result ''evidence_sha256''")
      (simp_all add: validate_result_def rbind_eq_Inr Let_def)
  then obtain ev hs where ev: "dget result ''evidence'' = JDict ev" "dget result ''evidence_sha256'' = JDict hs"
    by blast
  obtain errs cs where scan: "scan_evidence L f t r hs ev = Inr (errs, cs)"
    using assms by (auto simp: validate_result_def rbind_eq_Inr Let_def ev)
  let ?rk = "report_key (t_stage t)"
  obtain c where c: "map_of cs ?rk = Some c"
    using assms by (auto simp: validate_result_def rbind_eq_Inr Let_def ev scan split: option.splits)
  have "\<exists>report. json_loads L c = Some (JDict report)"
  proof (cases "json_loads L c")
    case None
    then show ?thesis using assms by (simp add: validate_result_def fp id Let_def ev scan c)
  next
    case (Some j)
    then show ?thesis
      using assms by (cases j) (simp_all add: validate_result_def fp id Let_def ev scan c)
  qed
  then obtain report where rep: "json_loads L c = Some (JDict report)" by blast
  have clean: "header_errors t r fp result = []"
      "identity_errors ''result does not match the claimed task/run'' identity result = []"
      "type_is_int (dget result ''attempt'')" "errs = []"
      "\<forall>k \<in> set (stage_evidence (t_stage t)). dhas ev k"
      "report_errors t identity result ev hs report worker = Inr []"
    using assms
    by (auto simp: validate_result_def fp id Let_def ev scan c rep rbind_eq_Inr concat_map_err_Nil)
  have "k \<in> fst ` set cs \<Longrightarrow> k \<in> fst ` set ev" for k
    using scan_evidence_clean[of L f t r hs ev cs] scan clean(4) by (metis list.set_map)
  moreover have "?rk \<in> fst ` set cs" using c by (force dest: map_of_SomeD)
  ultimately obtain v where v: "map_of ev ?rk = Some v"
    by (meson map_of_eq_None_iff not_None_eq)
  have look: "\<exists>c. map_of cs k = Some c \<and> evidence_holds L f t r hs k v c" if "map_of ev k = Some v" for k v
    using scan_lookup[of L f t r hs ev cs k v] scan clean(4) that by simp
  from look[OF v] c have "evidence_holds L f t r hs ?rk v c" by simp
  moreover have "accepted_report L f t r result worker report"
    by (rule report_errors_clean[OF clean(6) id ev])
  ultimately have "\<exists>v c report. map_of ev ?rk = Some v \<and> evidence_holds L f t r hs ?rk v c \<and>
      json_loads L c = Some (JDict report) \<and> accepted_report L f t r result worker report"
    using v rep by blast
  then show ?thesis
    unfolding gate_spec_def
    using identity_errors_clean[OF id clean(2,3)] header_errors_clean[OF clean(1)] ev clean(5) look fp
    by blast
qed

text \<open>A torch result with its three evidence files, accepted.\<close>

definition gate_task :: task where
  "gate_task = \<lparr>t_id = ''run:k:torch'', t_run = ''run'', t_key = ''k'', t_stage = Torch,
     t_status = Running, t_attempt = 1, t_input = [], t_output = [], t_token = Some ''t'',
     t_expires = Some 9, t_source = None\<rparr>"

definition gate_identity :: pydict where
  "gate_identity = [(''task_id'', JStr ''run:k:torch''), (''operator_key'', JStr ''k''),
     (''stage'', JStr ''torch''), (''attempt'', JInt 1), (''environment_fingerprint'', JNone),
     (''evidence_mode'', JStr ''simulation'')]"

definition gate_files :: fs where
  "gate_files = [([''ev''], Dir), ([''ev'', ''ref''], File ''ref''), ([''ev'', ''tests''], File ''tests''),
     ([''ev'', ''report''], File ''report'')]"

definition gate_report :: pydict where
  "gate_report = gate_identity @ [(''verdict'', JStr ''pass''), (''validator'', JStr ''bob''),
     (''checks'', JList [JDict [(''name'', JStr ''c''), (''passed'', JBool True)]]),
     (''evidence_sha256'', JDict [(''reference_artifact'', JStr (sample_hash ''ref'')),
        (''focused_tests'', JStr (sample_hash ''tests''))])]"

definition gate_result :: pydict where
  "gate_result = gate_identity @ [(''schema_version'', JInt 1), (''status'', JStr ''PASS''),
     (''evidence'', JDict [(''reference_artifact'', JStr ''/ev/ref''),
        (''focused_tests'', JStr ''/ev/tests''), (''independent_validation'', JStr ''/ev/report'')]),
     (''evidence_sha256'', JDict [(''reference_artifact'', JStr (sample_hash ''ref'')),
        (''focused_tests'', JStr (sample_hash ''tests'')),
        (''independent_validation'', JStr (sample_hash ''report''))])]"

definition gate_lib :: lib where
  "gate_lib = sample_lib [(''report'', JDict gate_report)]"

lemma gate_accepts: "validate_result gate_lib gate_files gate_task sample_run gate_result ''alice'' = Inr []"
  by code_simp

text \<open>C4: A result that the gate accepts satisfies the acceptance specification: it and its report
  bear the identity of the claimed attempt, every required evidence entry names a readable regular
  file of the attempt whose nonempty content has the declared hash, and the report was made by an
  independent validator (or is a complete diagnosis).\<close>

theorem gate_sound:
  assumes "validate_result L f t r result worker = Inr []"
  shows "gate_spec L f t r result worker"
  by (rule gate_passes[OF assms])

lemma gate_sound_witness:
  "validate_result gate_lib gate_files gate_task sample_run gate_result ''alice'' = Inr [] \<and>
   gate_spec gate_lib gate_files gate_task sample_run gate_result ''alice''"
  using gate_accepts gate_sound by blast

text \<open>The producer itself as validator is refused.\<close>

lemma gate_self_validation:
  "validate_result gate_lib gate_files gate_task sample_run gate_result ''bob'' =
     Inr [Msg ''validation requires a recorded validator distinct from the producer'' []]"
  by code_simp

end
