(* ===== verification/QueueProps.thy ===== *)
theory QueueProps
  imports GateProps
begin

text \<open>
  Properties of the scheduler's calls: what a returning call guarantees, and what a rejected one
  leaves behind.
\<close>

section \<open>Leases\<close>

definition holds_lease :: "row \<Rightarrow> string option \<Rightarrow> string option \<Rightarrow> bool" where
  "holds_lease x worker tok \<longleftrightarrow> k_status x = Running \<and>
     (case k_token x of None \<Rightarrow> False
      | Some s \<Rightarrow> s \<noteq> [] \<and>
          ((tok = Some s \<and> (worker = None \<or> worker = k_worker x)) \<or>
           ((tok = None \<or> tok = Some []) \<and> worker = Some s)))"

fun lease_call :: "call \<Rightarrow> (string \<times> string option \<times> string option) option" where
  "lease_call (RenewLease i wk tok s) = Some (i, Some wk, Some tok)"
| "lease_call (Complete i wk v tok) = Some (i, wk, tok)"
| "lease_call (Fail i wk e tok) = Some (i, wk, tok)"
| "lease_call _ = None"

lemma lease_matches_holds:
  "lease_matches x (fst (lease_args x wk tok)) (snd (lease_args x wk tok)) \<longleftrightarrow>
     holds_lease x wk tok \<and> k_expires x \<noteq> None"
  by (auto simp: lease_matches_def lease_args_def holds_lease_def split: option.splits)

lemma owned_lease_returns:
  "owned_lease L i wk tok w = (Inr x, w') \<longleftrightarrow>
     row_of (db w) i = Some x \<and> holds_lease x wk tok \<and>
     (\<exists>e. k_expires x = Some e \<and> clk L (clock_reads w) < e) \<and>
     w' = w\<lparr>clock_reads := Suc (clock_reads w)\<rparr>"
  using lease_matches_holds[of x wk tok]
  by (auto simp: owned_lease_def res_elims get_row_def now_def Let_def actraise_def
      split: option.splits if_splits prod.splits)

lemma owned_lease_rejects:
  assumes "row_of (db w) i = Some x" "\<not> holds_lease x wk tok"
  shows "owned_lease L i wk tok w = (Inl lease_error, w)"
  using assms lease_matches_holds[of x wk tok]
  by (auto simp: owned_lease_def actbind_def get_row_def actreadR_def actraise_def Let_def
      split: prod.splits)

definition leased_now :: "lib \<Rightarrow> world \<Rightarrow> string \<Rightarrow> string option \<Rightarrow> string option \<Rightarrow> bool" where
  "leased_now L w i wk tok \<longleftrightarrow> (\<exists>x e. row_of (db w) i = Some x \<and> holds_lease x wk tok \<and>
     k_expires x = Some e \<and> clk L (clock_reads w) < e)"

lemma renew_leased: "renew_lease L i wk tok ls w = (Inr v, w') \<Longrightarrow> leased_now L w i (Some wk) (Some tok)"
  by (cases ls) (auto simp: renew_lease_def res_elims owned_lease_returns leased_now_def
      split: if_splits)

lemma get_row_returns: "get_row i w = (Inr x, w') \<longleftrightarrow> row_of (db w) i = Some x \<and> w' = w"
  by (auto simp: get_row_def res_elims split: option.splits)

lemma complete_leased: "complete L i wk v tok w = (Inr u, w') \<Longrightarrow> leased_now L w i wk tok"
  by (auto simp: complete_def res_elims owned_lease_returns get_row_returns leased_now_def Let_def)

lemma fail_leased: "fail L i wk e tok w = (Inr u, w') \<Longrightarrow> leased_now L w i wk tok"
  by (auto simp: fail_def res_elims owned_lease_returns get_row_returns leased_now_def Let_def)

text \<open>Renewing, completing and failing a task require its current lease: when one of these
  calls returns, the task was running, the caller named its token (and worker), and the lease had
  not expired at the first clock reading.\<close>

theorem lease_required:
  assumes "lease_call c = Some (i, wk, tok)" "atomic (perform L c) w = (Inr (), w')"
  shows "leased_now L w i wk tok"
  using assms
  by (cases c) (auto simp: atomic_returns res_elims dest: renew_leased complete_leased fail_leased)

definition demo_fail :: call where
  "demo_fail = Fail ''run:k:torch'' (Some ''alice'') (FValue (JDict [])) (Some ''t'')"

lemma demo_fail_returns: "fst (atomic (perform demo_lib demo_fail) (demo_world [demo_row])) = Inr ()"
  by code_simp

lemma lease_required_witness:
  "leased_now demo_lib (demo_world [demo_row]) ''run:k:torch'' (Some ''alice'') (Some ''t'')"
  using lease_required[of demo_fail _ _ _ demo_lib "demo_world [demo_row]"
    "snd (atomic (perform demo_lib demo_fail) (demo_world [demo_row]))"] demo_fail_returns
  by (simp add: prod_eq_iff demo_fail_def)

text \<open>C13: A caller without the lease is refused with a \<open>ValueError\<close>, and neither the database
  nor the files change.\<close>

theorem stale_lease_rejected:
  assumes "lease_call c = Some (i, wk, tok)" "row_of (db w) i = Some x" "\<not> holds_lease x wk tok"
  shows "\<exists>e. atomic (perform L c) w = (Inl (ValueError e), w)"
  using assms owned_lease_rejects[OF assms(2)]
  by (cases c; auto simp: atomic_def actbind_def complete_def fail_def renew_lease_def get_row_def
      actreadR_def Let_def lease_error_def actraise_def split: pyfloat.splits)

lemma stale_lease_rejected_witness:
  "\<exists>e. atomic (perform demo_lib (Fail ''run:k:torch'' (Some ''mallory'') (FValue (JDict [])) (Some ''t'')))
     (demo_world [demo_row]) = (Inl (ValueError e), demo_world [demo_row])"
  by (rule stale_lease_rejected[OF lease_call.simps(3) demo_row_found])
    (simp add: holds_lease_def demo_row_def)

section \<open>Failure and completion\<close>

text \<open>What a diagnosis leaves of the rows: the source's own row.\<close>

lemma row_of_append: "row_of d i = Some x \<Longrightarrow> tasks d' = tasks d @ rs \<Longrightarrow> row_of d' i = Some x"
proof -
  have "find p xs = Some x \<Longrightarrow> find p (xs @ rs) = Some x" for p and xs :: "row list"
    by (induction xs) (auto split: if_splits)
  then show "row_of d i = Some x \<Longrightarrow> tasks d' = tasks d @ rs \<Longrightarrow> ?thesis"
    by (simp add: row_of_def)
qed

lemma reopen_id [simp]: "k_id (reopen inp t x) = k_id x"
  by (simp add: reopen_def requeue_def clear_lease_def)

lemma row_of_other:
  assumes "\<And>r. k_id (g r) = k_id r" "i \<noteq> j"
  shows "row_of (change_row j g d) i = row_of d i"
proof -
  have "row_of (change_row j g d) i = map_option (\<lambda>r. if k_id r = j then g r else r) (row_of d i)"
    by (rule row_of_change) (rule assms(1))
  also have "\<dots> = row_of d i"
    using assms(2) by (cases "row_of d i") (auto dest: row_of_Some)
  finally show ?thesis .
qed

lemma diagnosis_id_other [simp]: "i \<noteq> diagnosis_task_id i"
  by (simp add: diagnosis_task_id_def)

lemma wp_row_fixed:
  assumes "stable same_tasks m" "row_of (db w) i = Some y"
  shows "wp m (\<lambda>_ w'. row_of (db w') i = Some y) any_exc w"
  by (rule wp_fixed[OF assms(1)]) (simp add: assms(2) row_of_cong[of _ "db w"])

lemma wp_ensure_diagnosis_row:
  assumes y: "row_of (db w) (t_id t) = Some y"
  shows "wp (ensure_diagnosis L t b) (\<lambda>_ w'. row_of (db w') (t_id t) = Some y) any_exc w"
  unfolding ensure_diagnosis_def Let_def
  apply (subst wp_bind, rule wp_insert_task)
   apply (simp only: if_True)
   apply (rule wp_row_fixed, intro tasks_fixed.stable_intros tasks_fixed.stable_tables)
   apply (erule row_of_append[OF y])
  apply (simp only: if_False)
  apply (subst wp_bind)
  apply (rule wp_mono[where Q = "\<lambda>_ w'. row_of (db w') (t_id t) = Some y" and E = any_exc])
    apply (intro wp_fixed_bind tasks_fixed.stable_intros)
    apply (subst wp_when, split if_split, intro conjI impI)
     apply (rule wp_fixed_bind[OF tasks_fixed.stable_now])
     apply (subst wp_bind, subst wp_dbwrite)
     apply (rule wp_row_fixed, intro tasks_fixed.stable_tables)
     apply (simp add: row_of_other y row_of_cong[of _ "db w"])
    apply (simp add: y row_of_cong[of _ "db w"])
   apply (rule wp_row_fixed, intro tasks_fixed.stable_intros)
   apply simp_all
  done

definition failed_view :: "row \<Rightarrow> task \<Rightarrow> bool" where
  "failed_view x v \<longleftrightarrow> t_id v = k_id x \<and> t_run v = k_run x \<and> t_stage v = k_stage x \<and>
     t_status v = Failed \<and> t_attempt v = k_attempt x \<and> t_token v = None \<and> t_expires v = None \<and>
     dhas (t_output v) ''error''"

lemma record_attempt_keeps:
  "record_attempt L t out oc w = (Inr out', w') \<Longrightarrow> dhas out k \<Longrightarrow> dhas out' k"
  by (auto simp: record_attempt_def res_elims Let_def split: if_splits)

lemma record_failure_error:
  "record_failure L t b w = (Inr (b', out), w') \<Longrightarrow> dhas out ''error''"
  by (auto simp: record_failure_def actcatch_def res_elims dhas_def[of "[(''error'', _)]"]
      actbind_def actret_def Let_def split: prod.splits sum.splits option.splits if_splits
      dest!: record_attempt_keeps[where k = "''error''"])

lemma wp_fail_result:
  assumes x: "row_of (db w) tid = Some x"
  shows "wp (fail L tid wk e tok) (\<lambda>v w'. failed_view x v \<and>
     (\<exists>y. row_of (db w') tid = Some y \<and> view y = v)) any_exc w"
proof -
  let ?Q = "\<lambda>v w'. failed_view x v \<and> (\<exists>y. row_of (db w') tid = Some y \<and> view y = v)"
  have final: "wp (actbind (dbwrite (change_row tid (finish_row Failed out u))) (\<lambda>_.
      actbind (actwhen (t_stage (view x) \<noteq> Diagnosis)
        (actbind (ensure_diagnosis L (view x) b) (\<lambda>_. actret ()))) (\<lambda>_.
      actbind m (\<lambda>_. actbind (get_row tid) (\<lambda>y. actret (view y)))))) ?Q any_exc w'"
    if w': "tasks (db w') = tasks (db w)" and out: "dhas out ''error''" and m: "stable same_tasks m"
    for out u b m w'
  proof -
    let ?w = "w'\<lparr>db := change_row tid (finish_row Failed out u) (db w')\<rparr>" and
      ?y = "finish_row Failed out u x"
    have i: "k_id x = tid" using row_of_Some[OF x] by simp
    have y: "row_of (db ?w) tid = Some ?y"
      using x i by (simp add: row_of_change row_of_cong[OF w'])
    have v: "failed_view x (view ?y)"
      using out by (simp add: failed_view_def view_def) (simp add: finish_row_def clear_lease_def)
    have tail: "wp (actbind m (\<lambda>_. actbind (get_row tid) (\<lambda>y. actret (view y)))) ?Q any_exc w2"
      if "row_of (db w2) tid = Some ?y" for w2
      apply (subst wp_bind)
      apply (rule wp_mono[OF wp_row_fixed[OF m that]])
      using v by (auto simp: wp_rules get_row_def)
    have d: "wp (actwhen (k_stage x \<noteq> Diagnosis) (actbind (ensure_diagnosis L (view x) b) (\<lambda>_. actret ())))
        (\<lambda>_ w2. row_of (db w2) tid = Some ?y) any_exc ?w"
      using wp_ensure_diagnosis_row[of ?w "view x" ?y L b] y i
      by (simp add: wp_when wp_bind wp_ret[abs_def])
    show ?thesis
      unfolding wp_bind[of "dbwrite _"] wp_dbwrite wp_bind[of "actwhen _ _"] view_simps
      by (rule wp_mono[OF d]) (use tail in auto)
  qed
  have rec: "wp (record_failure L t b) (\<lambda>p w'. tasks (db w') = tasks (db w1) \<and> dhas (snd p) ''error'')
      any_exc w1" for t b w1
    using wp_fixed[OF tasks_fixed.stable_record_failure, of w1 "\<lambda>_ w'. tasks (db w') = tasks (db w1)" L t b]
      record_failure_error[of L t b w1]
    by (auto simp: wp_def split: prod.splits sum.splits)
  show ?thesis
    unfolding fail_def Let_def
    apply (subst wp_bind, rule wp_get_row)
    apply (simp only: x option.inject, hypsubst)
    apply (rule wp_fixed_bind[OF tasks_fixed.stable_owned_lease])
    apply (rule wp_fixed_bind[OF tasks_fixed.stable_failure_report])
    apply (subst wp_bind, rule wp_mono[OF rec])
     apply (split prod.split, intro allI impI)
     apply (rule wp_fixed_bind[OF tasks_fixed.stable_owned_lease])
     apply (rule wp_fixed_bind[OF tasks_fixed.stable_now])
     apply (rule final)
       apply simp
      apply simp
     apply (intro tasks_fixed.stable_tables)
    apply simp
    done
qed

lemma fail_result:
  assumes ok: "table_ok (tasks (db w))" and x: "row_of (db w) tid = Some x"
    and run: "atomic (fail L tid wk e tok) w = (Inr v, w')"
  shows "failed_view x v \<and> (\<exists>y. row_of (db w') tid = Some y \<and> view y = v) \<and>
    (k_stage x \<noteq> Diagnosis \<longrightarrow> has_diagnosis (tasks (db w')) tid)"
proof -
  have r: "fail L tid wk e tok w = (Inr v, w')" using run by (simp add: atomic_returns)
  have fv: "failed_view x v" and y: "\<exists>y. row_of (db w') tid = Some y \<and> view y = v"
    using wp_returns[OF wp_fail_result[OF x] r] by auto
  then obtain y where y': "row_of (db w') tid = Some y" "view y = v" by blast
  have ok': "table_ok (tasks (db w'))"
    using wp_returns[OF wp_fail[OF ok] r] ok moving_ok by blast
  note yD = table_okD[OF ok' y'(1)]
  have "k_status y = Failed" "k_stage y = k_stage x"
    using fv y'(2) by (auto simp: failed_view_def view_def)
  then have "k_stage x \<noteq> Diagnosis \<longrightarrow> has_diagnosis (tasks (db w')) tid"
    using ok' yD(1,2) by (auto simp: table_ok_def)
  then show ?thesis using fv y by blast
qed

text \<open>C15: A failure that returns leaves its row failed and released, returns the stored row, and a
  failed pipeline task has a diagnosis task.\<close>

theorem fail_outcome:
  assumes "table_ok (tasks (db w))" "row_of (db w) tid = Some x"
    "atomic (fail L tid wk e tok) w = (Inr v, w')"
  shows "failed_view x v \<and> (\<exists>y. row_of (db w') tid = Some y \<and> view y = v) \<and>
    (k_stage x \<noteq> Diagnosis \<longrightarrow> has_diagnosis (tasks (db w')) tid)"
  by (rule fail_result[OF assms])

definition demo_failed :: "(exc + task) \<times> world" where
  "demo_failed = atomic (fail demo_lib ''run:k:torch'' (Some ''alice'') (FValue (JDict [])) (Some ''t''))
     (demo_world [demo_row])"

lemma demo_failed_returns: "returned (\<lambda>_. True) demo_failed"
  by code_simp

lemma fail_outcome_witness:
  "\<exists>v w'. demo_failed = (Inr v, w') \<and> failed_view demo_row v \<and>
     has_diagnosis (tasks (db w')) ''run:k:torch''"
proof -
  obtain v w' where r: "demo_failed = (Inr v, w')" using demo_failed_returns by (rule returnedE)
  have "k_stage demo_row \<noteq> Diagnosis" by (simp add: demo_row_def)
  then show ?thesis
    using fail_outcome[OF demo_world_table demo_row_found r[unfolded demo_failed_def]] r by blast
qed

text \<open>The row and its successor after an accepted completion.\<close>

definition next_row :: "row \<Rightarrow> row list \<Rightarrow> bool" where
  "next_row x rs \<longleftrightarrow> (\<forall>g. next_stage (k_stage x) = Some g \<longrightarrow>
     (\<exists>r \<in> set rs. k_id r = stage_task_id (k_run x) (k_key x) g))"

definition succeeded_view :: "row \<Rightarrow> task \<Rightarrow> bool" where
  "succeeded_view x v \<longleftrightarrow> t_id v = k_id x \<and> t_status v = Succeeded \<and> t_stage v = k_stage x \<and>
     t_attempt v = k_attempt x \<and> t_token v = None \<and> t_expires v = None"

lemma stage_conflict:
  assumes "table_ok rs" "g \<noteq> Diagnosis"
    "list_ex (conflicts (new_row (stage_task_id rid key g) rid key g inp t)) rs"
  shows "\<exists>r \<in> set rs. k_id r = stage_task_id rid key g"
proof -
  obtain c where c: "c \<in> set rs" "k_id c = stage_task_id rid key g \<or>
      (k_run c = rid \<and> k_key c = key \<and> k_stage c = g)"
    using assms(3) by (auto simp: list_ex_iff conflicts_def)
  have "id_shape c" using assms(1) c(1) by (auto simp: table_ok_def row_ok_def)
  then show ?thesis using c assms(2) by (auto simp: id_shape_def)
qed

lemma wp_ensure_next_row:
  assumes ok: "table_ok (tasks (db w))" and y: "row_of (db w) i = Some y"
    and g: "next_stage (k_stage x) = Some g"
  shows "wp (ensure_next L (view x) out g) (\<lambda>_ w'. row_of (db w') i = Some y \<and>
     (\<exists>r \<in> set (tasks (db w')). k_id r = stage_task_id (k_run x) (k_key x) g)) any_exc w"
proof -
  have g': "g \<noteq> Diagnosis" "k_stage x \<noteq> Diagnosis" using g by (cases "k_stage x"; auto)+
  show ?thesis
    unfolding ensure_next_def Let_def
    apply (rule wp_fixed_bind, intro tasks_fixed.stable_intros)
    apply (subst wp_bind, rule wp_insert_task)
     apply (rule wp_fixed, intro tasks_fixed.stable_intros tasks_fixed.stable_tables)
     apply (simp add: g' row_of_append[OF y])
    apply (rule wp_fixed, intro tasks_fixed.stable_intros tasks_fixed.stable_tables)
    apply (drule stage_conflict[rotated 2])
      apply (simp add: ok)
     apply (rule g'(1))
    apply (simp add: g' row_of_cong[of _ "db w"] y)
    done
qed

lemma wp_finish_success_result:
  assumes ok: "table_ok (tasks (db w))" and x: "row_of (db w) (k_id x) = Some x"
  shows "wp (finish_success L (view x) wk tok out) (\<lambda>v w'. succeeded_view x v \<and>
     next_row x (tasks (db w')) \<and> (\<exists>y. row_of (db w') (k_id x) = Some y \<and> view y = v)) any_exc w"
proof -
  let ?Q = "\<lambda>v w'. succeeded_view x v \<and> next_row x (tasks (db w')) \<and>
    (\<exists>y. row_of (db w') (k_id x) = Some y \<and> view y = v)"
  have last: "wp (actbind (get_row (k_id x)) (\<lambda>y. actret (view y))) ?Q any_exc w'"
    if "row_of (db w') (k_id x) = Some (finish_row Succeeded out u x)" "next_row x (tasks (db w'))" for u w'
    using that by (simp add: wp_rules get_row_def succeeded_view_def)
      (simp add: view_def finish_row_def clear_lease_def)
  have body: "wp (actbind (if k_stage x = Diagnosis then emit L rid ty payload tid
      else (case next_stage (k_stage x) of None \<Rightarrow> actret () | Some g \<Rightarrow> ensure_next L (view x) out g))
      (\<lambda>_. actbind (get_row (k_id x)) (\<lambda>y. actret (view y)))) ?Q any_exc w'"
    if ok': "table_ok (tasks (db w'))" and y: "row_of (db w') (k_id x) = Some (finish_row Succeeded out u x)"
    for u w' rid ty payload tid
  proof (cases "next_stage (k_stage x)")
    case None
    have n: "next_row x rs" for rs using None by (simp add: next_row_def)
    have st: "stable same_tasks (if k_stage x = Diagnosis then emit L rid ty payload tid else actret ())"
      by (intro tasks_fixed.stable_intros tasks_fixed.stable_tables)
    show ?thesis
      unfolding None option.case wp_bind[of "if _ then _ else _"]
      by (rule wp_mono[OF wp_row_fixed[OF st y]]) (rule last, assumption, rule n, rule TrueI)
  next
    case (Some g)
    then have s: "k_stage x \<noteq> Diagnosis" by auto
    show ?thesis
      using Some s apply simp
      apply (subst wp_bind)
      apply (rule wp_mono[OF wp_ensure_next_row[OF ok' y Some]])
       apply (rule last, blast)
       apply (simp add: next_row_def Some)
      apply simp
      done
  qed
  show ?thesis
    unfolding finish_success_def view_simps
    apply (subst wp_bind, rule wp_owned_lease)
    apply (rule wp_fixed_bind[OF tasks_fixed.stable_now])
    apply (subst wp_bind, subst wp_dbwrite)
    apply (rule wp_fixed_bind, intro tasks_fixed.stable_tables)
    subgoal premises p for t w1 u w2 a w3
    proof (rule body)
      have d: "tasks (db w2) = tasks (db w)" using p(1,6) by simp
      have r: "row_of (db w2) (k_id x) = Some x" using x row_of_cong[OF d] by simp
      have t: "t = x" using p(2) x by simp
      have okd: "table_ok (tasks (db w2))" using ok d by simp
      show "table_ok (tasks (db w3))"
        using rows_move_shape success_moves(1)[OF okd r] p(3,7) t okd
          task_steps_ok[OF moves[OF success_moves(1)[OF okd r]]] by simp
      show "row_of (db w3) (k_id x) = Some (finish_row Succeeded out u x)"
        using p(7) r by (simp add: row_of_cong[of "db w3"] row_of_change)
    qed
    done
qed

definition submitted :: "pyval option \<Rightarrow> pydict option" where
  "submitted v = (case v of None \<Rightarrow> Some [] | Some (JDict d) \<Rightarrow> Some d | _ \<Rightarrow> None)"

lemma expect_run_returns: "expect_run i w = (Inr r, w') \<longleftrightarrow> run_of (db w) i = Some r \<and> w' = w"
  by (auto simp: expect_run_def res_elims split: option.splits)

lemma complete_cases:
  assumes run: "complete L tid wk v tok w = (Inr u, w')" and x: "row_of (db w) tid = Some x"
  obtains (rejected) w1 e a b where "tasks (db w1) = tasks (db w)" "fail L tid a e b w1 = (Inr u, w')"
  | (accepted) w1 a b r out out' where "tasks (db w1) = tasks (db w)"
      "finish_success L (view x) a b out' w1 = (Inr u, w')" "run_of (db w) (k_run x) = Some r"
      "submitted v = Some out"
      "validate_result L (files w) (view x) r out (case k_worker x of None \<Rightarrow> [] | Some s \<Rightarrow> s) = Inr []"
proof -
  let ?w = "w\<lparr>clock_reads := Suc (clock_reads w)\<rparr>" and
    ?wn = "case k_worker x of None \<Rightarrow> [] | Some s \<Rightarrow> s"
  obtain out where out: "submitted v = Some out" "(case v of None \<Rightarrow> JDict [] | Some j \<Rightarrow> j) = JDict out"
    using run
    by (cases "case v of None \<Rightarrow> JDict [] | Some j \<Rightarrow> j")
      (auto simp: complete_def res_elims get_row_returns owned_lease_returns x Let_def submitted_def
        split: option.splits)
  obtain r errors where r: "run_of (db w) (k_run x) = Some r"
      "validate_result L (files w) (view x) r out ?wn = Inr errors" and
    rest: "(if errors \<noteq> [] then fail L tid (k_worker x) (rejection out errors) (k_token x)
       else actbind (owned_lease L tid (k_worker x) (k_token x)) (\<lambda>_.
         actbind (actcatch
             (actbind (record_attempt L (view x) (dset out ''_submission''
                 (submission ?wn (t_attempt (view x)))) ''PASS'') (\<lambda>o'. actret (Inr o')))
             (\<lambda>e. if storage_failure e then Some (actret (Inl e)) else None)) (\<lambda>recorded.
         case recorded of
           Inl e \<Rightarrow> fail L tid (k_worker x) (unregistered L e) (k_token x)
         | Inr o2 \<Rightarrow> finish_success L (view x) (k_worker x) (k_token x) o2))) ?w = (Inr u, w')"
    using run unfolding complete_def Let_def
    by (auto simp: actbind_returns actreadR_returns get_row_returns owned_lease_returns x out(2)
        expect_run_returns)
  show thesis
  proof (cases "errors = []")
    case False
    show ?thesis by (rule rejected[of ?w]) (use rest False in auto)
  next
    case True
    obtain recorded w2 where w2: "actcatch
             (actbind (record_attempt L (view x) (dset out ''_submission''
                 (submission ?wn (t_attempt (view x)))) ''PASS'') (\<lambda>o'. actret (Inr o')))
             (\<lambda>e. if storage_failure e then Some (actret (Inl e)) else None)
             (?w\<lparr>clock_reads := Suc (clock_reads ?w)\<rparr>) = (Inr recorded, w2)" and
      tl: "(case recorded of
           Inl e \<Rightarrow> fail L tid (k_worker x) (unregistered L e) (k_token x)
         | Inr o2 \<Rightarrow> finish_success L (view x) (k_worker x) (k_token x) o2) w2 = (Inr u, w')"
      using rest True by (auto simp: actbind_returns owned_lease_returns)
    have "stable same_tasks (actcatch
             (actbind (record_attempt L (view x) (dset out ''_submission''
                 (submission ?wn (t_attempt (view x)))) ''PASS'') (\<lambda>o'. actret (Inr o')))
             (\<lambda>e. if storage_failure e then Some (actret (Inl e)) else None))"
      by (intro tasks_fixed.stable_intros tasks_fixed.stable_reads)
        (auto split: if_splits intro: tasks_fixed.stable_ret)
    then have t: "tasks (db w2) = tasks (db w)"
      using w2 by (auto simp: stable_def same_tasks_def dest!: spec[of _ "?w\<lparr>clock_reads := Suc (clock_reads ?w)\<rparr>"])
    show ?thesis
    proof (cases recorded)
      case (Inl e)
      then show ?thesis using rejected[OF t] tl by simp
    next
      case (Inr o2)
      then show ?thesis using accepted[OF t _ r(1) out(1)] tl r(2) True by simp
    qed
  qed
qed

text \<open>C2: A completion that returns has one of two outcomes: the task is failed and diagnosed, or it is
  succeeded, released and its successor stage exists, and then the submitted result satisfied the
  acceptance specification for the worker that holds the lease.\<close>

theorem complete_outcome:
  assumes ok: "table_ok (tasks (db w))" and x: "row_of (db w) tid = Some x"
    and run: "atomic (complete L tid wk v tok) w = (Inr u, w')"
  shows "(failed_view x u \<and> (k_stage x \<noteq> Diagnosis \<longrightarrow> has_diagnosis (tasks (db w')) tid)) \<or>
    (succeeded_view x u \<and> next_row x (tasks (db w')) \<and>
     (\<exists>r out. run_of (db w) (k_run x) = Some r \<and> submitted v = Some out \<and>
        gate_spec L (files w) (view x) r out (case k_worker x of None \<Rightarrow> [] | Some s \<Rightarrow> s)))"
proof -
  have i: "k_id x = tid" using row_of_Some[OF x] by simp
  have r: "complete L tid wk v tok w = (Inr u, w')" using run by (simp add: atomic_returns)
  from r x show ?thesis
  proof (cases rule: complete_cases)
    case (rejected w1 e a b)
    have "table_ok (tasks (db w1))" "row_of (db w1) tid = Some x"
      using ok x rejected(1) row_of_cong[OF rejected(1)] by simp_all
    from fail_result[OF this] rejected(2) show ?thesis by (simp add: atomic_returns)
  next
    case (accepted w1 a b r out out')
    have "table_ok (tasks (db w1))" "row_of (db w1) (k_id x) = Some x"
      using ok x i accepted(1) row_of_cong[OF accepted(1)] by simp_all
    from wp_returns[OF wp_finish_success_result[OF this] accepted(2)]
    have "succeeded_view x u \<and> next_row x (tasks (db w'))" by simp
    then show ?thesis using accepted(3,4) gate_passes[OF accepted(5)] by blast
  qed
qed

text \<open>The accepted torch result of \<open>GateProps\<close>, submitted.\<close>

definition demo_completed :: "(exc + task) \<times> world" where
  "demo_completed = atomic (complete gate_lib ''run:k:torch'' (Some ''alice'') (Some (JDict gate_result))
     (Some ''t'')) (demo_world [demo_row]\<lparr>files := gate_files\<rparr>)"

lemma demo_completed_returns: "returned (\<lambda>v. t_status v = Succeeded) demo_completed"
  by code_simp

lemma complete_outcome_witness:
  "\<exists>v w'. demo_completed = (Inr v, w') \<and> succeeded_view demo_row v \<and> next_row demo_row (tasks (db w'))"
proof -
  obtain v w' where r: "demo_completed = (Inr v, w')" "t_status v = Succeeded"
    using demo_completed_returns by (rule returnedE)
  moreover have "table_ok (tasks (db (demo_world [demo_row]\<lparr>files := gate_files\<rparr>)))"
    "row_of (db (demo_world [demo_row]\<lparr>files := gate_files\<rparr>)) ''run:k:torch'' = Some demo_row"
    using demo_world_table demo_row_found by simp_all
  ultimately show ?thesis
    using complete_outcome[OF _ _ r(1)[unfolded demo_completed_def]] r by (auto simp: failed_view_def)
qed

end
