(* ===== verification/ClaimProps.thy ===== *)
theory ClaimProps
  imports QueueProps
begin

text \<open>
  What \<open>claim_ready\<close> does: which rows it takes, under which conditions, and what it leaves
  alone.
\<close>

section \<open>The run's environment during a claim\<close>

text \<open>A claim may bind a workspace to a run; what decides readiness stays.\<close>

definition run_sig :: "run \<Rightarrow> string \<times> bool \<times> pydict" where
  "run_sig r = (r_status r, environment_required r, r_environment r)"

definition env_kept :: "world \<Rightarrow> world \<Rightarrow> bool" where
  "env_kept w w' \<longleftrightarrow> operators (db w') = operators (db w) \<and>
     (\<forall>i. map_option run_sig (run_of (db w') i) = map_option run_sig (run_of (db w) i))"

interpretation env: frame env_kept
  by unfold_locales (simp_all add: env_kept_def)

lemma env_tasks: "runs d = runs (db w) \<Longrightarrow> operators d = operators (db w) \<Longrightarrow> env_kept w (w\<lparr>db := d\<rparr>)"
  by (simp add: env_kept_def run_of_def)

lemma env_append_event: "stable env_kept (append_event e)"
  by (auto simp: append_event_def intro!: env.stable_intros env.stable_dbwrite env_tasks)

lemma env_emit: "stable env_kept (emit L rid ty payload tid)"
  unfolding emit_def by (intro env.stable_intros env_append_event)

lemma env_change: "stable env_kept (dbwrite (change_row i g))"
  by (intro env.stable_dbwrite env_tasks) simp_all

lemma find_update:
  "(\<And>x. p (g x) = p x) \<Longrightarrow> find p (map g xs) = map_option g (find p xs)"
  by (induction xs) auto

lemma env_update_run:
  assumes same: "\<And>x. run_of (db w) (r_id r) = Some x \<Longrightarrow> run_sig x = run_sig r"
  shows "wp (update_run L r) (\<lambda>_ w'. env_kept w w') any_exc w"
proof -
  have sg: "run_sig (r\<lparr>r_updated := t\<rparr>) = run_sig r" for t
    by (simp add: run_sig_def environment_required_def run_mode_def)
  have "map_option run_sig (find (\<lambda>x. r_id x = i)
      (map (\<lambda>x. if r_id x = r_id r then r\<lparr>r_updated := t\<rparr> else x) (runs (db w)))) =
      map_option run_sig (run_of (db w) i)" for i t
  proof (cases "run_of (db w) i")
    case None
    then show ?thesis by (subst find_update) (simp_all add: run_of_def)
  next
    case (Some a)
    then have "r_id a = i" by (auto simp: run_of_def dest: find_Some_D)
    then show ?thesis
      using Some same[of a] sg[of t] by (subst find_update) (auto simp: run_of_def)
  qed
  then show ?thesis by (simp add: update_run_def Let_def wp_rules env_kept_def run_of_def)
qed

lemma run_sig_root [simp]:
  "run_sig (r\<lparr>r_metadata := dset (r_metadata r) ''artifact_root'' v\<rparr>) = run_sig r"
  by (simp add: run_sig_def environment_required_def run_mode_def)

lemma env_bind_workspace:
  assumes "run_of (db w) i = Some r"
  shows "wp (bind_workspace L r) (\<lambda>_ w'. env_kept w w') any_exc w"
proof -
  have i: "r_id r = i" using assms by (auto simp: run_of_def dest: find_Some_D)
  have up: "wp (update_run L (r\<lparr>r_metadata := dset (r_metadata r) ''artifact_root'' (JStr b)\<rparr>))
      (\<lambda>_ w'. env_kept w w') any_exc w" for b
    by (rule env_update_run) (use assms i in simp)
  have em: "wp (actbind (emit L rid ty p t) (\<lambda>_. actret x)) (\<lambda>_ w2. env_kept w w2) any_exc w1"
    if "env_kept w w1" for rid ty p t x w1
  proof -
    have "stable env_kept (actbind (emit L rid ty p t) (\<lambda>_. actret x))"
      by (intro env.stable_intros env_emit)
    then have "env_kept w1 (snd (actbind (emit L rid ty p t) (\<lambda>_. actret x) w1))"
      by (simp add: stable_def)
    then show ?thesis using env.R_trans[OF that]
      by (auto simp: wp_def split: prod.splits sum.splits)
  qed
  have "wp (actbind (update_run L (r\<lparr>r_metadata := dset (r_metadata r) ''artifact_root'' (JStr b)\<rparr>))
      (\<lambda>r'. actbind (emit L (r_id r) ty p t) (\<lambda>_. actret r'))) (\<lambda>_ w'. env_kept w w') any_exc w" for b ty p t
    unfolding wp_bind[of "update_run _ _"] by (rule wp_mono[OF up]) (simp_all add: em)
  then show ?thesis
    unfolding bind_workspace_def Let_def
    by (auto simp: wp_ret wp_bind[of "actreadR _"] wp_readR env.same_db split: sum.splits)
qed

lemma env_prepare_workspace: "stable env_kept (prepare_workspace L r t)"
  unfolding prepare_workspace_def Let_def
  by (intro env.stable_intros env.stable_reads env_change)

lemma wp_env:
  assumes "stable env_kept m" "\<And>x w'. env_kept w w' \<Longrightarrow> Q x w'"
  shows "wp m Q any_exc w"
  using assms by (auto simp: wp_def stable_def split: prod.splits sum.splits) (metis snd_conv)

lemma env_claim_one: "wp (claim_one L worker lease t0 t) (\<lambda>_ w'. env_kept w w') any_exc w"
proof -
  have tail: "wp (actbind (prepare_workspace L r t) (\<lambda>_. actbind (get_row i) (\<lambda>x. actret (Some (view x)))))
      (\<lambda>_ w'. env_kept w w') any_exc w1" if "env_kept w w1" for r i w1
    by (rule wp_env[of _ w1], intro env.stable_intros env.stable_reads env_prepare_workspace)
      (rule env.R_trans[OF that])
  have "wp (actbind (expect_run i) (\<lambda>r. actbind (bind_workspace L r) (\<lambda>r'.
      actbind (prepare_workspace L r' t) (\<lambda>_. actbind (get_row j) (\<lambda>x. actret (Some (view x)))))))
      (\<lambda>_ w'. env_kept w w') any_exc w1" if "env_kept w w1" for i j w1
  proof -
    have "wp (actbind (bind_workspace L r) (\<lambda>r'.
      actbind (prepare_workspace L r' t) (\<lambda>_. actbind (get_row j) (\<lambda>x. actret (Some (view x))))))
      (\<lambda>_ w'. env_kept w w') any_exc w1" if "run_of (db w1) i = Some r" for r
      unfolding wp_bind[of "bind_workspace _ _"]
      by (rule wp_mono[OF env_bind_workspace[OF that]])
        (use \<open>env_kept w w1\<close> env.R_trans tail in blast)+
    then show ?thesis
      by (auto simp: expect_run_def wp_bind[of "actreadR _"] wp_readR split: option.splits)
  qed
  note rest = this
  have k: "env_kept w (w\<lparr>ids_drawn := n, db := change_row i g (db w)\<rparr>)" for n i g
    by (simp add: env_kept_def run_of_def)
  show ?thesis
    unfolding claim_one_def
    by (simp add: wp_bind[of "draw_token _"] wp_bind[of "actread _"] wp_bind[of "dbwrite _"]
        wp_draw_token wp_read wp_if wp_ret wp_dbwrite env.same_db)
      (intro impI rest k)
qed

section \<open>The rows of a claim\<close>

definition claimed_row :: "string \<Rightarrow> rat \<Rightarrow> rat \<Rightarrow> row \<Rightarrow> row \<Rightarrow> bool" where
  "claimed_row worker expires t0 x y \<longleftrightarrow> same_key x y \<and> k_status y = Running \<and>
     k_worker y = Some worker \<and> k_token y \<noteq> None \<and> k_expires y = Some expires \<and>
     k_attempt y = k_attempt x + 1 \<and> k_output y = k_output x \<and> k_updated y = t0"

text \<open>The effect of one claim on the table: the claimed row changes, no other does.\<close>

definition claims_row :: "string \<Rightarrow> rat \<Rightarrow> rat \<Rightarrow> database \<Rightarrow> string \<Rightarrow> task \<Rightarrow> database \<Rightarrow> bool" where
  "claims_row worker expires t0 d i v d' \<longleftrightarrow>
     (\<exists>x y. row_of d i = Some x \<and> k_status x = Pending \<and> claimed_row worker expires t0 x y \<and>
        row_of d' i = Some y \<and> v = view y) \<and>
     (\<forall>j. j \<noteq> i \<longrightarrow> row_of d' j = row_of d j)"

lemma take_lease_id [simp]: "k_id (take_lease tok wk e t0 x) = k_id x"
  by (simp add: take_lease_def)

lemma wp_claim_one_row:
  "wp (claim_one L worker lease t0 t) (\<lambda>r w'. case r of
      None \<Rightarrow> db w' = db w
    | Some v \<Rightarrow> claims_row worker (t0 + lease) t0 (db w) (k_id t) v (db w')) any_exc w"
proof -
  let ?i = "k_id t"
  let ?Q = "\<lambda>r w'. case r of None \<Rightarrow> db w' = db w
    | Some v \<Rightarrow> claims_row worker (t0 + lease) t0 (db w) ?i v (db w')"
  have last: "wp (actbind (get_row ?i) (\<lambda>x. actret (Some (view x)))) ?Q any_exc w2"
    if "row_of (db w) ?i = Some x" "k_status x = Pending" "claimed_row worker (t0 + lease) t0 x y"
      "row_of (db w2) ?i = Some y" "\<And>j. j \<noteq> ?i \<Longrightarrow> row_of (db w2) j = row_of (db w) j" for x y w2
    using that by (auto simp: wp_rules get_row_def claims_row_def)
  have tail: "wp (actbind (prepare_workspace L r t) (\<lambda>_. actbind (get_row ?i) (\<lambda>x. actret (Some (view x)))))
      ?Q any_exc w1"
    if x: "row_of (db w) ?i = Some x" "k_status x = Pending"
      and w1: "tasks (db w1) = tasks (change_row ?i (take_lease tok worker (t0 + lease) t0) (db w))"
    for r x w1 tok
  proof -
    let ?y = "take_lease tok worker (t0 + lease) t0 x"
    have y: "row_of d ?i = Some ?y" and o: "\<And>j. j \<noteq> ?i \<Longrightarrow> row_of d j = row_of (db w) j"
      if "tasks d = tasks (db w1)" for d
    proof -
      have d: "row_of d j = row_of (change_row ?i (take_lease tok worker (t0 + lease) t0) (db w)) j" for j
        using that w1 by (intro row_of_cong) simp
      show "row_of d ?i = Some ?y"
        using x row_of_Some[OF x(1)] by (simp add: d row_of_change)
      show "\<And>j. j \<noteq> ?i \<Longrightarrow> row_of d j = row_of (db w) j"
        by (simp add: d row_of_other)
    qed
    have cy: "claimed_row worker (t0 + lease) t0 x ?y"
      by (simp add: claimed_row_def take_lease_def same_key_def)
    have "wp (actbind (get_row ?i) (\<lambda>x. actret (Some (view x)))) ?Q any_exc w2"
      if "tasks (db w2) = tasks (db w1)" for w2
      by (rule last[OF x cy y[OF that] o[OF that]]) simp
    moreover have "wp (actbind (get_row ?i) (\<lambda>x. actret (Some (view x)))) ?Q any_exc
        (w2\<lparr>db := change_row ?i (\<lambda>x. x\<lparr>k_input := p\<rparr>) (db w2)\<rparr>)"
      if "tasks (db w2) = tasks (db w1)" for w2 p
    proof (rule last[OF x])
      show "claimed_row worker (t0 + lease) t0 x (?y\<lparr>k_input := p\<rparr>)"
        using cy by (simp add: claimed_row_def same_key_def)
      show "row_of (db (w2\<lparr>db := change_row ?i (\<lambda>x. x\<lparr>k_input := p\<rparr>) (db w2)\<rparr>)) ?i =
          Some (?y\<lparr>k_input := p\<rparr>)"
        using y[OF that] row_of_Some[OF x(1)] by (simp add: row_of_change)
      show "\<And>j. j \<noteq> ?i \<Longrightarrow>
          row_of (db (w2\<lparr>db := change_row ?i (\<lambda>x. x\<lparr>k_input := p\<rparr>) (db w2)\<rparr>)) j = row_of (db w) j"
        using o[OF that] by (simp add: row_of_other)
    qed
    ultimately show ?thesis
      unfolding prepare_workspace_def Let_def wp_bind[of "if _ then _ else _"] wp_if wp_ret
      apply (split if_split, intro conjI impI)
       apply simp
      apply (intro wp_fixed_bind tasks_fixed.stable_intros tasks_fixed.stable_reads)
      apply (simp add: wp_dbwrite)
      done
  qed
  have body: "wp (actbind (expect_run j) (\<lambda>r. actbind (bind_workspace L r) (\<lambda>r'.
      actbind (prepare_workspace L r' t) (\<lambda>_. actbind (get_row ?i) (\<lambda>x. actret (Some (view x)))))))
      ?Q any_exc (w\<lparr>ids_drawn := n, db := change_row ?i (take_lease tok worker (t0 + lease) t0) (db w)\<rparr>)"
    if sp: "still_pending (db w) ?i" for j n tok
  proof -
    obtain x where "row_of (db w) ?i = Some x" "k_status x = Pending"
      using sp by (auto simp: still_pending_def split: option.splits)
    then show ?thesis
      by (intro wp_fixed_bind tasks_fixed.stable_reads bind_workspace_fixed tail) simp_all
  qed
  show ?thesis
    unfolding claim_one_def
    by (simp add: wp_bind[of "draw_token _"] wp_bind[of "actread _"] wp_bind[of "dbwrite _"]
        wp_draw_token wp_read wp_if wp_ret wp_dbwrite)
      (intro impI body)
qed

section \<open>The loop\<close>

text \<open>The environment condition under which a pipeline row may be claimed.\<close>

definition env_ready :: "database \<Rightarrow> row \<Rightarrow> bool" where
  "env_ready d x \<longleftrightarrow> k_stage x = Diagnosis \<or>
     (\<exists>r. run_of d (k_run x) = Some r \<and>
        (environment_required r \<longrightarrow> r_status r = ''ENVIRONMENT_READY'' \<and>
          (\<exists>fp s v. run_fingerprint r = Inr fp \<and> truthy fp \<and>
             operator_of d (k_run x) (k_key x) = Some s \<and>
             vget (os_environment s) ''fingerprint'' = Inr v \<and> py_eq v fp)))"

lemma deps_env_ready:
  assumes "deps_succeeded d (k_run t) (k_key t) (k_stage t) = Inr True"
  shows "env_ready d t"
  using assms
  by (auto simp: deps_succeeded_def env_ready_def rbind_eq_Inr split: option.splits if_splits)

lemma env_ready_kept:
  assumes "env_kept w w'" "env_ready (db w') x"
  shows "env_ready (db w) x"
proof -
  have o: "operator_of (db w') i k = operator_of (db w) i k" for i k
    using assms(1) by (simp add: env_kept_def operator_of_def)
  have r: "\<exists>r. run_of (db w) i = Some r \<and> run_sig r = run_sig r'" if "run_of (db w') i = Some r'" for i r'
    using assms(1) that unfolding env_kept_def
    by (cases "run_of (db w) i") (auto dest!: spec[of _ i])
  show ?thesis
    using assms(2) r by (fastforce simp: env_ready_def o run_sig_def run_fingerprint_def)
qed

definition claim_inv ::
  "string \<Rightarrow> rat \<Rightarrow> rat \<Rightarrow> int \<Rightarrow> world \<Rightarrow> task list \<Rightarrow> world \<Rightarrow> bool" where
  "claim_inv worker expires t0 limit w0 claimed w \<longleftrightarrow>
     env_kept w0 w \<and> distinct (map t_id claimed) \<and> int (length claimed) \<le> limit \<and>
     (\<forall>v \<in> set claimed. \<exists>x y. row_of (db w0) (t_id v) = Some x \<and> k_status x = Pending \<and>
        claimed_row worker expires t0 x y \<and> row_of (db w) (t_id v) = Some y \<and> v = view y \<and>
        env_ready (db w0) x) \<and>
     (\<forall>j. j \<notin> t_id ` set claimed \<longrightarrow> row_of (db w) j = row_of (db w0) j)"

lemma claim_inv_step:
  assumes inv: "claim_inv worker expires t0 limit w0 claimed w"
    and room: "int (length claimed) < limit"
    and row: "claims_row worker expires t0 (db w) i v (db w')" and env: "env_kept w w'"
    and ready: "\<And>x. row_of (db w0) i = Some x \<Longrightarrow> env_ready (db w) x"
  shows "claim_inv worker expires t0 limit w0 (claimed @ [v]) w'"
proof -
  obtain x y where xy: "row_of (db w) i = Some x" "k_status x = Pending"
      "claimed_row worker expires t0 x y" "row_of (db w') i = Some y" "v = view y"
    and other: "\<And>j. j \<noteq> i \<Longrightarrow> row_of (db w') j = row_of (db w) j"
    using row by (auto simp: claims_row_def)
  have vi: "t_id v = i" using xy(1,3,5) row_of_Some[OF xy(1)]
    by (simp add: claimed_row_def same_key_def)
  have new: "i \<notin> t_id ` set claimed"
  proof
    assume "i \<in> t_id ` set claimed"
    then obtain y' x' where "row_of (db w) i = Some y'" "claimed_row worker expires t0 x' y'"
      using inv by (auto simp: claim_inv_def)
    then show False using xy(1,2) by (simp add: claimed_row_def)
  qed
  have x0: "row_of (db w0) i = Some x" using inv new xy(1) by (auto simp: claim_inv_def)
  have e0: "env_ready (db w0) x" using ready[OF x0] inv env_ready_kept by (auto simp: claim_inv_def)
  have old: "\<exists>x y. row_of (db w0) (t_id u) = Some x \<and> k_status x = Pending \<and>
        claimed_row worker expires t0 x y \<and> row_of (db w') (t_id u) = Some y \<and> u = view y \<and>
        env_ready (db w0) x" if "u \<in> set claimed" for u
  proof -
    have "t_id u \<noteq> i" using that new by auto
    then show ?thesis using inv that other by (auto simp: claim_inv_def)
  qed
  show ?thesis
    unfolding claim_inv_def
  proof (intro conjI ballI allI impI)
    show "env_kept w0 w'" using inv env env.R_trans by (auto simp: claim_inv_def)
    show "distinct (map t_id (claimed @ [v]))" using inv new vi by (auto simp: claim_inv_def)
    show "int (length (claimed @ [v])) \<le> limit" using room by simp
    fix u assume "u \<in> set (claimed @ [v])"
    then consider "u \<in> set claimed" | "u = v" by auto
    then show "\<exists>x y. row_of (db w0) (t_id u) = Some x \<and> k_status x = Pending \<and>
        claimed_row worker expires t0 x y \<and> row_of (db w') (t_id u) = Some y \<and> u = view y \<and>
        env_ready (db w0) x"
      using old x0 xy e0 vi by cases auto
  next
    fix j assume "j \<notin> t_id ` set (claimed @ [v])"
    then show "row_of (db w') j = row_of (db w0) j"
      using inv other vi by (auto simp: claim_inv_def)
  qed
qed

lemma wp_claim_loop_rows:
  assumes "claim_inv worker (t0 + lease) t0 limit w0 claimed w" "table_ok (tasks (db w0))"
    "candidates_in (tasks (db w0)) ts"
  shows "wp (claim_loop L worker lease t0 limit claimed ts)
     (\<lambda>r w'. claim_inv worker (t0 + lease) t0 limit w0 r w') any_exc w"
  using assms
proof (induction ts arbitrary: claimed w)
  case Nil
  then show ?case by (simp add: wp_ret)
next
  case (Cons t ts)
  let ?I = "claim_inv worker (t0 + lease) t0 limit w0"
  have tl: "candidates_in (tasks (db w0)) ts" using Cons.prems(3) by (simp add: candidates_in_def)
  have rest: "wp (claim_loop L worker lease t0 limit c ts) ?I any_exc w'" if "?I c w'" for c w'
    using Cons.IH[OF that Cons.prems(2) tl] .
  have same: "?I claimed w'" if "db w' = db w" for w'
    using Cons.prems(1) that by (simp add: claim_inv_def env_kept_def)
  have one: "wp (actbind (claim_one L worker lease t0 t) (\<lambda>v. case v of
              None \<Rightarrow> claim_loop L worker lease t0 limit claimed ts
            | Some x \<Rightarrow> claim_loop L worker lease t0 limit (claimed @ [x]) ts)) ?I any_exc w"
    if room: "\<not> limit \<le> int (length claimed)"
      and dep: "deps_succeeded (db w) (k_run t) (k_key t) (k_stage t) = Inr True"
  proof -
    have ready: "env_ready (db w) x" if "row_of (db w0) (k_id t) = Some x" for x
    proof -
      obtain z where "z \<in> set (tasks (db w0))" "same_key t z"
        using Cons.prems(3) by (auto simp: candidates_in_def)
      then have "same_key t x" using table_okD(5)[OF Cons.prems(2) that, of z]
        by (simp add: same_key_def)
      then show ?thesis using deps_env_ready[OF dep] by (simp add: env_ready_def same_key_def)
    qed
    have "wp (claim_one L worker lease t0 t) (\<lambda>r w'. (case r of None \<Rightarrow> db w' = db w
        | Some v \<Rightarrow> claims_row worker (t0 + lease) t0 (db w) (k_id t) v (db w')) \<and> env_kept w w') any_exc w"
      using wp_conj[OF wp_claim_one_row env_claim_one] by (rule wp_mono) simp_all
    then show ?thesis
      unfolding wp_bind
      by (rule wp_mono) (use rest same claim_inv_step[OF Cons.prems(1)] room ready in
          \<open>auto split: option.splits\<close>)
  qed
  show ?case
    using rest[OF Cons.prems(1)] one
    by (auto simp: wp_bind[of "actreadR _"] wp_readR split: sum.splits)
qed

section \<open>The call\<close>

lemma claim_inv_fixed:
  assumes "claim_inv worker e t0 limit w0 ts w" "tasks (db w') = tasks (db w)" "env_kept w w'"
  shows "claim_inv worker e t0 limit w0 ts w'"
  using assms(1,3) env.R_trans row_of_cong[OF assms(2)] by (auto simp: claim_inv_def)

lemma wp_emit_claims:
  assumes "claim_inv worker e t0 limit w0 ts w"
  shows "wp (actbind (actfor (emit_claim L wk) ts) (\<lambda>_. actret ts))
     (claim_inv worker e t0 limit w0) any_exc w"
proof -
  have t: "stable same_tasks (actfor (emit_claim L wk) ts)"
    by (intro tasks_fixed.stable_for tasks_fixed.stable_emit_claim)
  have e: "stable env_kept (actfor (emit_claim L wk) ts)"
    unfolding emit_claim_def by (intro env.stable_for env_emit)
  have "wp (actfor (emit_claim L wk) ts) (\<lambda>_ w'. tasks (db w') = tasks (db w) \<and> env_kept w w') any_exc w"
    using wp_conj[OF wp_fixed[OF t] wp_env[OF e], of w "\<lambda>_ w'. tasks (db w') = tasks (db w)" "\<lambda>_ w'. env_kept w w'"]
    by (rule wp_mono) simp_all
  then show ?thesis
    unfolding wp_bind wp_ret by (rule wp_mono) (use claim_inv_fixed[OF assms] in auto)
qed

lemma wp_claim_ready_rows:
  assumes ok: "table_ok (tasks (db w))"
  shows "wp (claim_ready L worker stage ls limit) (\<lambda>ts w'. \<exists>lease. ls = Fin lease \<and> 0 < lease \<and>
     worker \<noteq> [] \<and> 0 < limit \<and>
     claim_inv worker (clk L (clock_reads w) + lease) (clk L (clock_reads w)) limit
       (w\<lparr>db := expire_leases (clk L (clock_reads w)) (db w)\<rparr>) ts w') any_exc w"
proof -
  let ?t0 = "clk L (clock_reads w)"
  let ?w0 = "w\<lparr>db := expire_leases ?t0 (db w)\<rparr>"
  let ?w1 = "w\<lparr>clock_reads := Suc (clock_reads w), db := expire_leases ?t0 (db w)\<rparr>"
  have ok0: "table_ok (tasks (db ?w0))"
    using task_steps_ok[OF moves[OF expire_moves[OF ok]] ok] by simp
  have start: "claim_inv worker e ?t0 limit ?w0 [] ?w1" if "0 < limit" for e
    using that by (simp add: claim_inv_def env_kept_def)
  have loop: "wp (actbind (claim_loop L worker lease ?t0 limit [] (claim_candidates (expire_leases ?t0 (db w)) g))
      (\<lambda>claimed. actbind (actfor (emit_claim L worker) claimed) (\<lambda>_. actret claimed)))
      (claim_inv worker (?t0 + lease) ?t0 limit ?w0) any_exc ?w1" if "0 < limit" for lease g
    unfolding wp_bind[of "claim_loop _ _ _ _ _ _ _"]
    by (rule wp_mono[OF wp_claim_loop_rows[OF start[OF that]]])
      (use ok0 claim_candidates_in[of "expire_leases ?t0 (db w)" g] wp_emit_claims in simp_all)
  have steps: "wp (actbind (now L) (\<lambda>t0. actbind (dbwrite (expire_leases t0)) (\<lambda>_.
      actbind (actread (\<lambda>w. claim_candidates (db w) g)) (\<lambda>candidates.
      actbind (claim_loop L worker lease t0 limit [] candidates) (\<lambda>claimed.
      actbind (actfor (emit_claim L worker) claimed) (\<lambda>_. actret claimed))))))
      (claim_inv worker (?t0 + lease) ?t0 limit ?w0) any_exc w" if "0 < limit" for lease g
    using loop[OF that] by (simp add: wp_bind[of "now _"] wp_bind[of "dbwrite _"]
        wp_bind[of "actread _"] wp_now wp_dbwrite wp_read)
  show ?thesis
    unfolding claim_ready_def
    by (auto simp: wp_raise split: pyfloat.splits option.splits intro!: wp_mono[OF steps])
qed


definition demo_pending :: row where
  "demo_pending = demo_row\<lparr>k_status := Pending, k_attempt := 0, k_token := None, k_worker := None,
     k_expires := None\<rparr>"

definition demo_claimed :: "(exc + task list) \<times> world" where
  "demo_claimed = atomic (claim_ready demo_lib ''alice'' None (Fin 100) 3) (demo_world [demo_pending])"

lemma demo_claimed_returns: "returned (\<lambda>ts. map t_id ts = [''run:k:torch'']) demo_claimed"
  by code_simp


end
