(* ===== verification/RunProps.thy ===== *)
theory RunProps
  imports QueueProps
begin

text \<open>
  Properties of the calls on runs: discovery, the environment binding, recovery of leases, and
  the calls that may be repeated.
\<close>

section \<open>Recovery\<close>

lemma requeue_simps [simp]:
  "k_id (requeue t x) = k_id x" "k_status (requeue t x) = Pending" "unleased (requeue t x)"
  "k_attempt (requeue t x) = k_attempt x" "k_input (requeue t x) = k_input x"
  by (simp_all add: requeue_def clear_lease_def unleased_def)


definition demo_recovered :: "(exc + nat) \<times> world" where
  "demo_recovered = atomic (recover demo_lib True) (demo_world [demo_row])"

lemma demo_recovered_returns: "returned (\<lambda>n. n = 1) demo_recovered"
  by code_simp


section \<open>Discovery\<close>

lemma wp_skip: "(\<And>x w'. wp (f x) Q any_exc w') \<Longrightarrow> wp (actbind m f) Q any_exc w"
  by (auto simp: wp_bind wp_def[of m] split: prod.splits sum.splits)

text \<open>Discovery in a run that needs an environment succeeds only once the environment is bound
  and the specification names its fingerprint, model and backend; the task returned is the torch
  task of the specification's derived key.\<close>

theorem discovery_requires_environment:
  assumes "atomic (discover_operator L rid spec) w = (Inr t, w')"
  shows "\<exists>r. run_of (db w) rid = Some r \<and>
    (environment_required r \<longrightarrow> r_status r = ''ENVIRONMENT_READY'' \<and>
       (\<exists>fp v. run_fingerprint r = Inr fp \<and> truthy fp \<and>
          vget (os_environment spec) ''fingerprint'' = Inr v \<and> py_eq v fp) \<and>
       py_eq (os_model_id spec) (JStr (r_model r)) \<and> py_eq (os_backend spec) (JStr (r_backend r))) \<and>
    t_stage t = Torch \<and> t_key t = operator_key L spec \<and> t_run t = rid"
proof -
  obtain r where r: "run_of (db w) rid = Some r"
    "environment_required r \<longrightarrow> r_status r = ''ENVIRONMENT_READY'' \<and>
       fingerprint_mismatch r spec = Inr False \<and>
       py_eq (os_model_id spec) (JStr (r_model r)) \<and> py_eq (os_backend spec) (JStr (r_backend r))"
    using assms unfolding atomic_returns discover_operator_def
    by (auto simp: res_elims get_run_def actwhen_def split: option.splits if_splits)
  have "wp (discover_operator L rid spec) (\<lambda>t _. t_stage t = Torch \<and> t_key t = operator_key L spec \<and>
      t_run t = rid) any_exc w"
    unfolding discover_operator_def Let_def
    apply (rule wp_skip, rule wp_skip, rule wp_skip, rule wp_skip)
    apply (subst wp_bind, subst wp_read)
    apply (split option.split, intro conjI impI allI)
     apply (rule wp_skip, rule wp_skip, rule wp_skip)
     apply (simp add: wp_ret view_def)
    apply (drule find_Some_D)
    apply (auto simp: wp_ret tasks_of_set view_def)
    done
  from wp_returns[OF this] assms
  have t: "t_stage t = Torch \<and> t_key t = operator_key L spec \<and> t_run t = rid"
    by (simp add: atomic_returns)
  show ?thesis
    using r t by (auto simp: fingerprint_mismatch_def rbind_eq_Inr split: if_splits)
qed

definition demo_discovered :: "(exc + task) \<times> world" where
  "demo_discovered = atomic (discover_operator demo_lib ''run'' sample_spec) (demo_world [])"

lemma demo_discovered_returns: "returned (\<lambda>t. t_status t = Pending) demo_discovered"
  by code_simp

lemma discovery_requires_environment_witness:
  "\<exists>t w'. demo_discovered = (Inr t, w') \<and> t_key t = operator_key demo_lib sample_spec"
proof -
  obtain t w' where r: "demo_discovered = (Inr t, w')"
    using demo_discovered_returns by (rule returnedE)
  show ?thesis using discovery_requires_environment[OF r[unfolded demo_discovered_def]] r by blast
qed

section \<open>Applying a diagnosis\<close>

definition applied_event :: "row \<Rightarrow> row \<Rightarrow> event \<Rightarrow> bool" where
  "applied_event x z e \<longleftrightarrow> ev_type e = ''diagnosis_applied'' \<and> ev_task e = Some (k_id x) \<and>
     ev_run e = k_run x \<and>
     ev_payload e = [(''source_task_id'', JStr (k_id z)),
       (''source_attempt'', dget (k_input x) ''source_attempt''),
       (''diagnosis_attempt'', JInt (k_attempt x)), (''next_action'', dget (k_output x) ''next_action''),
       (''repair_conclusion'', dget (k_output x) ''repair_conclusion'')]"

text \<open>The diagnosis \<open>x\<close> and its source \<open>z\<close> as \<open>apply_diagnosis\<close> requires them.\<close>

definition applicable :: "database \<Rightarrow> string \<Rightarrow> row \<Rightarrow> row \<Rightarrow> bool" where
  "applicable d did x z \<longleftrightarrow> row_of d did = Some x \<and> k_stage x = Diagnosis \<and> k_status x = Succeeded \<and>
     row_of d (str_or (dget (k_input x) ''source_task_id'') []) = Some z \<and> k_stage z \<noteq> Diagnosis \<and>
     k_run z = k_run x \<and> k_key z = t_key (view x) \<and>
     in_strset (dget (k_output x) ''next_action'') [''RETRY'', ''BLOCKED''] = Inr True"

definition retried :: "row \<Rightarrow> row \<Rightarrow> rat \<Rightarrow> row \<Rightarrow> row" where
  "retried x z = reopen (dset (k_input z) ''recovery'' (JDict (recovery_dict (view x))))"

lemma emit_returns:
  "emit L rid ty p tid w = (Inr u, w') \<Longrightarrow> \<exists>e. ev_run e = rid \<and> ev_type e = ty \<and> ev_task e = tid \<and>
     ev_payload e = p \<and> db w' = (db w)\<lparr>events := events (db w) @ [e]\<rparr>"
  by (auto simp: emit_def append_event_def res_elims dbwrite_def actwrite_def draw_uuid_def now_def
      split: if_splits) force

lemma source_row_returns:
  "source_row i w = (Inr t, w') \<longleftrightarrow> (\<exists>z. row_of (db w) i = Some z \<and> k_stage z \<noteq> Diagnosis \<and> t = view z) \<and> w' = w"
  by (auto simp: source_row_def res_elims split: option.splits if_splits)

lemma diagnosis_row_returns:
  "diagnosis_row i w = (Inr t, w') \<longleftrightarrow> (\<exists>x. row_of (db w) i = Some x \<and> k_stage x = Diagnosis \<and> t = view x) \<and> w' = w"
  by (auto simp: diagnosis_row_def res_elims split: option.splits if_splits)

lemma view_source: "k_stage x = Diagnosis \<Longrightarrow> the (t_source (view x)) = str_or (dget (k_input x) ''source_task_id'') []"
  by (simp add: view_def)

lemma apply_head:
  assumes "applicable d did x z" "db w = d"
  shows "apply_diagnosis L did w =
    (if already_applied d (view x) then (Inr (view z), w)
     else actbind (actwhen (dget (k_output x) ''next_action'' = JStr ''RETRY'')
         (actbind (actguard (k_status z = Failed)
            (ValueError (Msg ''RETRY requires a failed source task'' []))) (\<lambda>_.
          actbind (now L) (\<lambda>t0. dbwrite (change_row (k_id z) (retried x z t0)))))) (\<lambda>_.
       actbind (emit L (k_run x) ''diagnosis_applied''
         [(''source_task_id'', JStr (k_id z)),
          (''source_attempt'', dget (k_input x) ''source_attempt''),
          (''diagnosis_attempt'', JInt (k_attempt x)), (''next_action'', dget (k_output x) ''next_action''),
          (''repair_conclusion'', dget (k_output x) ''repair_conclusion'')] (Some (k_id x)))
         (\<lambda>_. actbind (get_row (k_id z)) (\<lambda>y. actret (view y)))) w)"
  using assms
  by (simp add: applicable_def apply_diagnosis_def actbind_def diagnosis_row_def source_row_def
      actreadR_def actguard_def actlift_def actread_def actret_def view_source Let_def retried_def)

lemma apply_returns_applicable:
  assumes "apply_diagnosis L did w = (Inr v, w')"
  obtains x z where "applicable (db w) did x z"
proof -
  obtain x where x: "row_of (db w) did = Some x" "k_stage x = Diagnosis" "k_status x = Succeeded"
    using assms by (auto simp: apply_diagnosis_def res_elims diagnosis_row_returns)
  obtain z where z: "row_of (db w) (str_or (dget (k_input x) ''source_task_id'') []) = Some z"
      "k_stage z \<noteq> Diagnosis" "k_run z = k_run x" "k_key z = t_key (view x)"
      "in_strset (dget (k_output x) ''next_action'') [''RETRY'', ''BLOCKED''] = Inr True"
    using assms x
    by (auto simp: apply_diagnosis_def res_elims diagnosis_row_returns source_row_returns view_source Let_def)
  show thesis by (rule that[of x z]) (use x z in \<open>simp add: applicable_def\<close>)
qed

lemma apply_diagnosis_result:
  assumes run: "atomic (apply_diagnosis L did) w = (Inr v, w')"
  shows "\<exists>x z. applicable (db w) did x z \<and> (if already_applied (db w) (view x) then w' = w \<and> v = view z
     else \<exists>e. applied_event x z e \<and> events (db w') = events (db w) @ [e] \<and>
       (if dget (k_output x) ''next_action'' = JStr ''RETRY''
        then k_status z = Failed \<and> (\<exists>t0. tasks (db w') = tasks (change_row (k_id z) (retried x z t0) (db w)))
        else tasks (db w') = tasks (db w)))"
proof -
  have r: "apply_diagnosis L did w = (Inr v, w')" using run by (simp add: atomic_returns)
  obtain x z where xz: "applicable (db w) did x z" using apply_returns_applicable[OF r] .
  show ?thesis
  proof (cases "already_applied (db w) (view x)")
    case True
    then show ?thesis using r xz by (auto simp: apply_head[OF xz refl])
  next
    case False
    let ?retry = "dget (k_output x) ''next_action'' = JStr ''RETRY''"
    obtain w1 w2 where act: "actwhen ?retry
         (actbind (actguard (k_status z = Failed)
            (ValueError (Msg ''RETRY requires a failed source task'' []))) (\<lambda>_.
          actbind (now L) (\<lambda>t0. dbwrite (change_row (k_id z) (retried x z t0))))) w = (Inr (), w1)" and
      em: "emit L (k_run x) ''diagnosis_applied''
         [(''source_task_id'', JStr (k_id z)),
          (''source_attempt'', dget (k_input x) ''source_attempt''),
          (''diagnosis_attempt'', JInt (k_attempt x)), (''next_action'', dget (k_output x) ''next_action''),
          (''repair_conclusion'', dget (k_output x) ''repair_conclusion'')] (Some (k_id x)) w1 = (Inr (), w2)" and
      w2: "db w' = db w2"
      using r False
      by (auto simp: apply_head[OF xz refl] actbind_returns get_row_returns actret_returns)
    have w1: "if ?retry then k_status z = Failed \<and>
          (\<exists>t0. db w1 = change_row (k_id z) (retried x z t0) (db w)) else db w1 = db w"
      using act by (auto simp: res_elims actwhen_def now_def dbwrite_def split: if_splits)
    from em obtain e where e: "applied_event x z e" "db w' = (db w1)\<lparr>events := events (db w1) @ [e]\<rparr>"
      using emit_returns w2 by (fastforce simp: applied_event_def)
    have "events (db w1) = events (db w)" using w1 by (auto split: if_splits)
    then have "applied_event x z e \<and> events (db w') = events (db w) @ [e] \<and>
       (if ?retry then k_status z = Failed \<and>
          (\<exists>t0. tasks (db w') = tasks (change_row (k_id z) (retried x z t0) (db w)))
        else tasks (db w') = tasks (db w))"
      using e w1 by (cases ?retry) force+
    note body = this
    show ?thesis
      apply (rule exI[of _ x], rule exI[of _ z], rule conjI[OF xz])
      apply (simp only: False if_False)
      apply (rule exI[of _ e])
      apply (rule body)
      done
  qed
qed

text \<open>C16: Applying a diagnosis that returns needs a completed diagnosis of an existing source with
  the action RETRY or BLOCKED; unless it was applied before it logs one event, and RETRY reopens the
  failed source while BLOCKED leaves the queue alone.\<close>

theorem apply_diagnosis_outcome:
  assumes "atomic (apply_diagnosis L did) w = (Inr v, w')"
  shows "\<exists>x z. applicable (db w) did x z \<and> (if already_applied (db w) (view x) then w' = w \<and> v = view z
     else \<exists>e. applied_event x z e \<and> events (db w') = events (db w) @ [e] \<and>
       (if dget (k_output x) ''next_action'' = JStr ''RETRY''
        then k_status z = Failed \<and> (\<exists>t0. tasks (db w') = tasks (change_row (k_id z) (retried x z t0) (db w)))
        else tasks (db w') = tasks (db w)))"
  by (rule apply_diagnosis_result[OF assms])

definition demo_applied :: "(exc + task) \<times> world" where
  "demo_applied = atomic (apply_diagnosis demo_lib ''run:k:torch:diagnosis'') (demo_world diagnosis_rows)"

lemma demo_applied_returns: "returned (\<lambda>t. t_status t = Pending) demo_applied"
  by code_simp

lemma apply_diagnosis_outcome_witness:
  "\<exists>v w' x z. demo_applied = (Inr v, w') \<and>
     applicable (db (demo_world diagnosis_rows)) ''run:k:torch:diagnosis'' x z"
proof -
  obtain v w' where r: "demo_applied = (Inr v, w')" using demo_applied_returns by (rule returnedE)
  show ?thesis using apply_diagnosis_outcome[OF r[unfolded demo_applied_def]] r by blast
qed

text \<open>C17: A diagnosis is applied once: repeating the call changes nothing, not even the log.\<close>

theorem apply_diagnosis_once:
  assumes run: "atomic (apply_diagnosis L did) w = (Inr v, w')"
    and src: "row_of (db w) did = Some x" "dget (k_input x) ''source_attempt'' = JInt n"
  shows "\<exists>v'. atomic (apply_diagnosis L did) w' = (Inr v', w') \<and> t_id v' = t_id v"
proof -
  obtain z where xz: "applicable (db w) did x z" and
    o: "if already_applied (db w) (view x) then w' = w \<and> v = view z
     else \<exists>e. applied_event x z e \<and> events (db w') = events (db w) @ [e] \<and>
       (if dget (k_output x) ''next_action'' = JStr ''RETRY''
        then k_status z = Failed \<and> (\<exists>t0. tasks (db w') = tasks (change_row (k_id z) (retried x z t0) (db w)))
        else tasks (db w') = tasks (db w))"
    using apply_diagnosis_result[OF run] src(1) by (auto simp: applicable_def)
  show ?thesis
  proof (cases "already_applied (db w) (view x)")
    case True
    then show ?thesis using run o by auto
  next
    case False
    then obtain e where e: "applied_event x z e" "events (db w') = events (db w) @ [e]" and
      t: "\<exists>t0. tasks (db w') = tasks (change_row (k_id z) (retried x z t0) (db w)) \<or> tasks (db w') = tasks (db w)"
      using o by (auto split: if_splits)
    have kz: "k_id z = str_or (dget (k_input x) ''source_task_id'') []" "row_of (db w) (k_id z) = Some z"
    proof -
      have s: "row_of (db w) (str_or (dget (k_input x) ''source_task_id'') []) = Some z"
        using xz by (simp add: applicable_def)
      show "k_id z = str_or (dget (k_input x) ''source_task_id'') []" using row_of_Some[OF s] by simp
      then show "row_of (db w) (k_id z) = Some z" using s by simp
    qed
    obtain z' where z': "row_of (db w') (k_id z) = Some z'" "same_key z z'"
    proof -
      from t obtain t0 where "tasks (db w') = tasks (change_row (k_id z) (retried x z t0) (db w)) \<or>
          tasks (db w') = tasks (db w)" by blast
      then show thesis
      proof
        assume "tasks (db w') = tasks (change_row (k_id z) (retried x z t0) (db w))"
        from row_of_cong[OF this, of "k_id z"] kz(2) show thesis
          by (intro that[of "retried x z t0 z"])
            (auto simp: row_of_change retried_def same_key_def reopen_def requeue_def clear_lease_def)
      next
        assume "tasks (db w') = tasks (db w)"
        from row_of_cong[OF this, of "k_id z"] kz(2) show thesis by (intro that[of z]) auto
      qed
    qed
    have did: "did \<noteq> k_id z"
      using xz src(1) kz(2) by (auto simp: applicable_def)
    have x': "row_of (db w') did = Some x"
      using t
    proof (elim exE disjE)
      fix t0 assume "tasks (db w') = tasks (change_row (k_id z) (retried x z t0) (db w))"
      from row_of_cong[OF this, of did] show ?thesis using src(1) did by (simp add: row_of_other retried_def)
    next
      assume "tasks (db w') = tasks (db w)"
      from row_of_cong[OF this, of did] show ?thesis using src(1) by simp
    qed
    have xz': "applicable (db w') did x z'"
      using xz x' z' kz(1) by (simp add: applicable_def same_key_def)
    have "already_applied (db w') (view x)"
      using e src(2)
      by (auto simp: already_applied_def list_ex_iff events_of_def applied_event_def dget_def
          intro!: bexI[of _ e])
    then have "apply_diagnosis L did w' = (Inr (view z'), w')"
      by (simp add: apply_head[OF xz' refl])
    moreover have "t_id v = k_id z'"
    proof -
      have "apply_diagnosis L did w = (Inr v, w')" using run by (simp add: atomic_returns)
      then show ?thesis
        using False z'(2) by (auto simp: apply_head[OF xz refl] res_elims get_row_returns same_key_def
            dest: row_of_Some)
    qed
    ultimately show ?thesis by (simp add: atomic_returns)
  qed
qed

lemma apply_diagnosis_once_witness:
  "\<exists>v w' v'. demo_applied = (Inr v, w') \<and>
     atomic (apply_diagnosis demo_lib ''run:k:torch:diagnosis'') w' = (Inr v', w') \<and> t_id v' = t_id v"
proof -
  obtain v w' where r: "demo_applied = (Inr v, w')" using demo_applied_returns by (rule returnedE)
  have "row_of (db (demo_world diagnosis_rows)) ''run:k:torch:diagnosis'' = Some (diagnosis_rows ! 1)"
    "dget (k_input (diagnosis_rows ! 1)) ''source_attempt'' = JInt 1"
    by code_simp+
  from apply_diagnosis_once[OF r[unfolded demo_applied_def] this] r show ?thesis by blast
qed

section \<open>Binding an environment\<close>

lemma hash_evidence_ok:
  "hash_evidence L f dir n = Inr (k, v) \<Longrightarrow>
     k = n \<and> (\<exists>c. read_bytes f (dir @ [n]) = Inr c \<and> c \<noteq> [] \<and> v = JStr (sha256 L c))"
  by (auto simp: hash_evidence_def split: sum.splits if_splits)

lemma hash_all:
  assumes "rmapM (hash_evidence L f dir) ns = Inr hs" "n \<in> set ns"
  shows "\<exists>c. read_bytes f (dir @ [n]) = Inr c \<and> c \<noteq> [] \<and> dget hs n = JStr (sha256 L c)"
  using assms
proof (induction ns arbitrary: hs)
  case Nil
  then show ?case by simp
next
  case (Cons m ns)
  from Cons.prems(1) obtain k v hs' where h: "hash_evidence L f dir m = Inr (k, v)"
      "rmapM (hash_evidence L f dir) ns = Inr hs'" "hs = (k, v) # hs'"
    by (auto simp: rbind_eq_Inr)
  from hash_evidence_ok[OF h(1)] obtain c where
    c: "k = m" "read_bytes f (dir @ [m]) = Inr c" "c \<noteq> []" "v = JStr (sha256 L c)" by blast
  show ?case
  proof (cases "n = m")
    case True
    then show ?thesis using c h(3) by (simp add: dget_def)
  next
    case False
    then show ?thesis using Cons.IH[OF h(2)] Cons.prems(2) c(1) h(3) by (auto simp: dget_def)
  qed
qed

lemma bind_evidence_ok:
  assumes "bind_evidence L f dir = Inr hs"
  shows "validate_environment_identity L f dir = Inr [] \<and>
    (\<forall>n \<in> set bind_artifacts. \<exists>c. read_bytes f (dir @ [n]) = Inr c \<and> c \<noteq> [] \<and>
       dget hs n = JStr (sha256 L c))"
proof -
  obtain hs' where h: "validate_environment_identity L f dir = Inr []"
      "rmapM (hash_evidence L f dir) bind_artifacts = Inr hs'" and
    hs: "hs = hs' \<or> (\<exists>c. hs = dset hs' ''status.json'' c)"
    using assms by (auto simp: bind_evidence_def rbind_eq_Inr rguard_eq_Inr split: if_splits)
  have "dget hs n = dget hs' n" if "n \<in> set bind_artifacts" for n
    using hs that by (auto simp: bind_artifacts_def)
  then show ?thesis using h hash_all[OF h(2)] by simp
qed

definition proof_accepted :: "run \<Rightarrow> pydict \<Rightarrow> bool" where
  "proof_accepted r p \<longleftrightarrow> (\<exists>checks. py_or (dget p ''checks'') (JDict []) = JDict checks \<and>
     py_eq (dget p ''state'') (JStr ''ENVIRONMENT_READY'') \<and> truthy (dget p ''pod'') \<and>
     (\<forall>k \<in> set bind_required. is_True (dget checks k)) \<and> bind_check_ok checks \<and>
     validator_ok (dget p ''validator'') \<and> is_str (dget p ''user_id'')) \<and>
     (run_mode r = JStr ''real'' \<longrightarrow> py_eq (dget_or p ''evidence_mode'' (JStr ''real'')) (JStr ''real''))"

lemma bind_proof_checks_ok:
  assumes "bind_proof_checks L r p = Inr (checks, names, mode, owner)"
  shows "proof_accepted r p"
proof -
  obtain c where c: "py_or (dget p ''checks'') (JDict []) = JDict c"
    using assms by (cases "py_or (dget p ''checks'') (JDict [])")
      (auto simp: bind_proof_checks_def Let_def rbind_eq_Inr)
  have u: "is_str (dget p ''user_id'')"
    using assms by (cases "dget p ''user_id''")
      (auto simp: bind_proof_checks_def Let_def rbind_eq_Inr rguard_eq_Inr c)
  show ?thesis
    using assms u
    by (auto simp: bind_proof_checks_def Let_def rbind_eq_Inr rguard_eq_Inr c proof_accepted_def
        bind_missing_def filter_empty_conv split: if_splits)
qed

text \<open>C18: An environment is bound only on an accepted proof whose evidence files are all readable
  and nonempty and whose base model is the configured one; the run then carries the fingerprint that
  was hashed, and an existing fingerprint cannot change once tasks exist.\<close>

theorem bind_environment_outcome:
  assumes run: "atomic (bind_environment L rid p ar) w = (Inr r', w')"
  shows "\<exists>r dir hs. run_of (db w) rid = Some r \<and> proof_accepted r p \<and>
    r_status r' = ''ENVIRONMENT_READY'' \<and> validate_environment_identity L (files w) dir = Inr [] \<and>
    (\<forall>n \<in> set bind_artifacts. \<exists>c. read_bytes (files w) (dir @ [n]) = Inr c \<and> c \<noteq> [] \<and>
       dget hs n = JStr (sha256 L c)) \<and>
    run_fingerprint r' = Inr (dget hs ''environment_fingerprint.txt'') \<and>
    (\<forall>old. run_fingerprint r = Inr old \<and> truthy old \<and> tasks_of (db w) (Some rid) \<noteq> [] \<longrightarrow>
       py_eq old (dget hs ''environment_fingerprint.txt''))"
proof -
  have r: "bind_environment L rid p ar w = (Inr r', w')" using run by (simp add: atomic_returns)
  obtain r0 checks names mode owner s dir hs previous t where
    r0: "run_of (db w) rid = Some r0" and
    chk: "bind_proof_checks L r0 p = Inr (checks, names, mode, owner)" and
    hs: "bind_evidence L (files w) dir = Inr hs" and
    prev: "run_fingerprint r0 = Inr previous"
      "\<not> (truthy previous \<and> \<not> py_eq previous (dget hs ''environment_fingerprint.txt'') \<and>
          tasks_of (db w) (Some rid) \<noteq> [])" and
    r': "r' = r0\<lparr>r_status := ''ENVIRONMENT_READY'',
                r_environment := dset (r_environment r0) ''environment_proof''
                  (JDict (bound_proof p checks names mode owner hs dir)), r_updated := t\<rparr>"
    using r
    by (auto simp: bind_environment_def Let_def res_elims get_run_def update_run_def now_def
        dbwrite_def split: option.splits)
  have fp: "run_fingerprint r' = Inr (dget hs ''environment_fingerprint.txt'')"
    by (simp add: r' run_fingerprint_def vget_def bound_proof_def dget_or_JNone) (simp add: dget_def)
  show ?thesis
    using r0 bind_proof_checks_ok[OF chk] bind_evidence_ok[OF hs] prev fp
    by (intro exI[of _ r0] exI[of _ dir] exI[of _ hs]) (auto simp: r')
qed

definition ready_env :: "(string \<times> string) list" where
  "ready_env = map (\<lambda>n. (n, ''evidence'')) (filter (\<lambda>n. n \<noteq> ''base_model_identity.json'') bind_artifacts) @
     [(''base_model_identity.json'', ''identity'')]"

definition ready_files :: fs where
  "ready_files = ([''env''], Dir) # map (\<lambda>(n, c). ([''env'', n], File c)) ready_env"

definition base_model :: pydict where
  "base_model = [(''name'', JStr ''base''), (''path'', JStr ''/m''), (''served_model_name'', JStr ''base'')]"

definition ready_lib :: lib where
  "ready_lib = (sample_lib [(''identity'', JDict base_model)])\<lparr>cluster_profile :=
     Inr (JDict [(''validation'', JDict [(''base_model'', JDict base_model)])])\<rparr>"

definition ready_proof :: pydict where
  "ready_proof = [(''state'', JStr ''ENVIRONMENT_READY''), (''evidence_mode'', JStr ''simulation''),
     (''pod'', JStr ''p''), (''user_id'', JStr ''alice''), (''artifact_root'', JStr ''/env''),
     (''artifacts'', JList (map JStr bind_artifacts)),
     (''checks'', JDict (map (\<lambda>k. (k, JBool True)) bind_required @
        [(''base_health_check'', JInt 200), (''base_chat_completion'', JStr ''non_empty''),
         (''unexpected_fallback'', JBool False)]))]"

definition demo_bound :: "(exc + run) \<times> world" where
  "demo_bound = atomic (bind_environment ready_lib ''run'' ready_proof None)
     (demo_world []\<lparr>files := ready_files\<rparr>)"

lemma demo_bound_returns: "returned (\<lambda>r. r_status r = ''ENVIRONMENT_READY'') demo_bound"
  by code_simp

lemma bind_environment_outcome_witness:
  "\<exists>r' w' fp. demo_bound = (Inr r', w') \<and> r_status r' = ''ENVIRONMENT_READY'' \<and> run_fingerprint r' = Inr fp"
proof -
  obtain r' w' where r: "demo_bound = (Inr r', w')" using demo_bound_returns by (rule returnedE)
  show ?thesis using bind_environment_outcome[OF r[unfolded demo_bound_def]] r by blast
qed

section \<open>Creating a run\<close>

lemma default_run_root_text: "default_run_root L rid w = Inr s \<Longrightarrow>
    \<exists>p q. ensure_external_path L (files w) q = Inr p \<and> s = path_str p"
  by (auto simp: default_run_root_def rbind_eq_Inr)

lemma external_root_text: "external_root L v w = Inr s \<Longrightarrow>
    \<exists>p q. ensure_external_path L (files w) q = Inr p \<and> s = path_str p"
  by (auto simp: external_root_def ensure_external_def rbind_eq_Inr)

text \<open>A new real run waits for its environment and owns an external root; a known identifier
  returns the stored run and changes nothing.\<close>

theorem create_run_outcome:
  assumes run: "atomic (create_run L r) w = (Inr x, w')"
  shows "case run_of (db w) (r_id r) of
      Some y \<Rightarrow> x = y \<and> w' = w
    | None \<Rightarrow> run_of (db w') (r_id r) = Some x \<and> in_strs (run_mode r) [''real'', ''simulation''] \<and>
        (run_mode r = JStr ''real'' \<longrightarrow> environment_required x \<and>
           r_status x = ''WAITING_FOR_ENVIRONMENT'' \<and>
           (\<exists>p q. ensure_external_path L (files w) q = Inr p \<and>
              dget (r_metadata x) ''artifact_root'' = JStr (path_str p)))"
proof -
  have c: "create_run L r w = (Inr x, w')" using run by (simp add: atomic_returns)
  show ?thesis
  proof (cases "run_of (db w) (r_id r)")
    case (Some y)
    then show ?thesis using c by (auto simp: create_run_def res_elims)
  next
    case None
    have save: "run_of (db w') (r_id r) = Some x \<and> x = r'"
      if "save_run L r' w1 = (Inr x, w2)" "r_id r' = r_id r" "db w1 = db w"
        "emit L rid ty p t w2 = (Inr u, w')" for r' w1 w2 rid ty p t u
    proof -
      have "find p (xs @ [r']) = Some r'" if "find p xs = None" "p r'" for p xs
        using that by (induction xs) (auto split: if_splits)
      then show ?thesis
        using that emit_returns[OF that(4)] None
        by (auto simp: save_run_def res_elims now_def dbwrite_def run_of_def)
    qed
    show ?thesis
    proof (cases "py_eq (run_mode r) (JStr ''real'')")
      case True
      then have m: "run_mode r = JStr ''real''" by simp
      obtain base w1 w2 where
        base: "(if truthy (dget (r_metadata r) ''artifact_root'')
            then external_root L (dget (r_metadata r) ''artifact_root'') w
            else default_run_root L (r_id r) w) = Inr base" and
        sv: "save_run L (r\<lparr>r_status := ''WAITING_FOR_ENVIRONMENT'',
                r_metadata := dset (dset (r_metadata r) ''environment_required'' (JBool True))
                  ''artifact_root'' (JStr base)\<rparr>) w = (Inr x, w2)" and
        em: "emit L (r_id x) ''run_created'' [(''model_id'', JStr (r_model x))] None w2 = (Inr (), w')"
        using c None True by (auto simp: create_run_def res_elims Let_def)
      have x: "run_of (db w') (r_id r) = Some x \<and> x = r\<lparr>r_status := ''WAITING_FOR_ENVIRONMENT'',
                r_metadata := dset (dset (r_metadata r) ''environment_required'' (JBool True))
                  ''artifact_root'' (JStr base)\<rparr>"
        using save[OF sv _ refl em] by simp
      have "\<exists>p q. ensure_external_path L (files w) q = Inr p \<and> base = path_str p"
        using base external_root_text default_run_root_text by (auto split: if_splits)
      then show ?thesis
        using x None m by (auto simp: environment_required_def in_strs_def)
    next
      case False
      then have m: "run_mode r \<noteq> JStr ''real''" by auto
      have k: "in_strs (run_mode r) [''real'', ''simulation'']"
        using c None by (auto simp: create_run_def res_elims Let_def)
      have "run_of (db w') (r_id r) = Some x"
        using c None False save by (auto simp: create_run_def res_elims Let_def split: if_splits)
      then show ?thesis using None m k by simp
    qed
  qed
qed

definition demo_created :: "(exc + run) \<times> world" where
  "demo_created = atomic (create_run demo_lib (sample_run\<lparr>r_metadata := []\<rparr>))
     sample_world"

lemma demo_created_returns: "returned (\<lambda>r. r_status r = ''WAITING_FOR_ENVIRONMENT'') demo_created"
  by code_simp

lemma create_run_outcome_witness:
  "\<exists>x w'. demo_created = (Inr x, w') \<and> run_of (db w') ''run'' = Some x \<and> environment_required x"
proof -
  obtain x w' where r: "demo_created = (Inr x, w')" using demo_created_returns by (rule returnedE)
  have "run_of (db sample_world) ''run'' = None"
    "r_id (sample_run\<lparr>r_metadata := []\<rparr>) = ''run''" "run_mode (sample_run\<lparr>r_metadata := []\<rparr>) = JStr ''real''"
    by code_simp+
  then show ?thesis using create_run_outcome[OF r[unfolded demo_created_def]] r by auto
qed

end
