(* ===== verification/FileGrowth.thy ===== *)
theory FileGrowth
  imports Artifacts
begin

text \<open>
  What the writing operations leave of the file table: nothing disappears and no link comes or goes
  (\<open>grows\<close>), every entry stays as it was (\<open>extends\<close>), and what that means for resolving and
  reading paths.
\<close>

section \<open>Growing tables\<close>

text \<open>Nothing disappears, directories stay, and no link comes or goes.\<close>

definition is_link :: "node option \<Rightarrow> bool" where
  "is_link x = (case x of Some (Link _ _) \<Rightarrow> True | _ \<Rightarrow> False)"

definition grows :: "fs \<Rightarrow> fs \<Rightarrow> bool" where
  "grows f f' \<longleftrightarrow> (\<forall>p. (node_at f p \<noteq> None \<longrightarrow> node_at f' p \<noteq> None) \<and>
     (node_at f p = Some Dir \<longrightarrow> node_at f' p = Some Dir) \<and>
     (is_link (node_at f p) \<or> is_link (node_at f' p) \<longrightarrow> node_at f' p = node_at f p))"

lemma grows_refl [simp]: "grows f f"
  by (simp add: grows_def)

lemma growsD:
  assumes "grows f f'"
  shows "node_at f p \<noteq> None \<Longrightarrow> node_at f' p \<noteq> None"
    "node_at f p = Some Dir \<Longrightarrow> node_at f' p = Some Dir"
    "is_link (node_at f p) \<Longrightarrow> node_at f' p = node_at f p"
    "is_link (node_at f' p) \<Longrightarrow> node_at f' p = node_at f p"
  using assms unfolding grows_def by blast+

lemma grows_trans: "grows f g \<Longrightarrow> grows g h \<Longrightarrow> grows f h"
  unfolding grows_def by metis

lemma resolve_from_grows:
  "grows f f' \<Longrightarrow> resolve_from n f' d r = resolve_from n f d r"
proof (induction n f d r rule: resolve_from.induct)
  case (1 n f d)
  then show ?case by simp
next
  case (2 n f d c cs)
  let ?p = "d @ [c]"
  show ?case
  proof (cases "c = ''..''")
    case True
    then show ?thesis using "2.IH"(1) "2.prems" by simp
  next
    case False
    show ?thesis
    proof (cases "is_link (node_at f ?p)")
      case True
      then obtain ab t where l: "node_at f ?p = Some (Link ab t)"
        by (auto simp: is_link_def split: option.splits node.splits)
      then have "node_at f' ?p = Some (Link ab t)" using growsD(3)[OF "2.prems" True] by simp
      then show ?thesis using "2.IH"(5)[OF False l] "2.prems" l False by (simp add: is_link_def)
    next
      case noln: False
      have "\<not> is_link (node_at f' ?p)" using growsD(4)[OF "2.prems"] noln by metis
      then have "resolve_from n f' d (c # cs) = resolve_from n f' ?p cs"
        "resolve_from n f d (c # cs) = resolve_from n f ?p cs"
        using False noln by (auto simp: is_link_def split: option.splits node.splits)
      moreover have "resolve_from n f' ?p cs = resolve_from n f ?p cs"
        using noln False "2.IH"(2-4) "2.prems" by (cases "node_at f ?p") (auto simp: is_link_def split: node.splits)
      ultimately show ?thesis by simp
    qed
  qed
qed

lemma full_grows: "grows f f' \<Longrightarrow> full f' p = full f p"
  by (simp add: full_def resolve_from_grows)

lemma lpath_grows: "grows f f' \<Longrightarrow> lpath f' p = lpath f p"
  using full_grows[of f f'] by (simp add: lpath_def)

lemma lstat_grows:
  assumes "grows f f'" "lstat f p \<noteq> None"
  shows "lstat f' p \<noteq> None"
  using assms lpath_grows[OF assms(1), of p]
  by (cases "lpath f p") (use growsD(1)[OF assms(1)] in \<open>auto simp: lstat_def\<close>)

lemma stat_Dir_grows:
  assumes "grows f f'" "stat f p = Some Dir"
  shows "stat f' p = Some Dir"
  using assms full_grows[OF assms(1), of p]
  by (cases "full f p") (auto simp: stat_def growsD(2)[OF assms(1)])

lemma grows_set_node:
  assumes "p \<noteq> []" "\<not> is_link (node_at f p)" "\<not> is_link (Some x)" "node_at f p = Some Dir \<Longrightarrow> x = Dir"
  shows "grows f (set_node f p x)"
  using assms by (auto simp: grows_def)

lemma mkdir_effect:
  assumes "mkdir p f = Inr f'"
  shows "lstat f p = None \<and> (\<exists>q. lpath f p = Some q \<and> node_at f q = None \<and> q \<noteq> [] \<and>
     node_at f (butlast q) = Some Dir \<and> f' = set_node f q Dir)"
  using assms by (auto simp: mkdir_def lstat_def parent_is_dir_def split: option.splits if_splits)

lemma mkdir_grows: "mkdir p f = Inr f' \<Longrightarrow> grows f f'"
  using mkdir_effect[of p f f'] by (auto intro!: grows_set_node simp: is_link_def)

lemma mkdirs_grows: "mkdirs ps f = Inr f' \<Longrightarrow> grows f f'"
  by (induction ps f rule: mkdirs.induct)
    (auto simp: rbind_eq_Inr split: if_splits dest: mkdir_grows intro: grows_trans)

lemma put_effect:
  assumes "put_file p c b f = Inr f'"
  shows "\<exists>q. lpath f p = Some q \<and> q \<noteq> [] \<and> node_at f (butlast q) = Some Dir \<and>
     node_at f q \<noteq> Some Dir \<and> (\<not> b \<longrightarrow> node_at f q = None) \<and> f' = set_node f q (File c)"
  using assms by (auto simp: put_file_def parent_is_dir_def split: option.splits if_splits)

lemma put_new_grows: "put_file p c False f = Inr f' \<Longrightarrow> grows f f'"
  using put_effect[of p c False f f'] by (auto intro!: grows_set_node simp: is_link_def)

section \<open>Paths with a plain last component\<close>

lemma resolve_snoc:
  "c \<noteq> ''..'' \<Longrightarrow> (\<And>q. resolve_from n f d r = Some q \<Longrightarrow> \<not> is_link (node_at f (q @ [c]))) \<Longrightarrow>
     resolve_from n f d (r @ [c]) = map_option (\<lambda>q. q @ [c]) (resolve_from n f d r)"
proof (induction n f d r rule: resolve_from.induct)
  case (1 n f d)
  then show ?case by (auto simp: is_link_def split: option.splits node.splits)
next
  case (2 n f d e cs)
  show ?case
  proof (cases "e = ''..''")
    case True
    then show ?thesis using "2.IH"(1) "2.prems" by simp
  next
    case False
    show ?thesis
    proof (cases "node_at f (d @ [e])")
      case None
      then show ?thesis using False "2.IH"(2) "2.prems" by simp
    next
      case (Some x)
      then show ?thesis using False "2.IH"(3-5) "2.prems" by (cases x) auto
    qed
  qed
qed

lemma full_snoc:
  "full f p = Some q \<Longrightarrow> c \<noteq> ''..'' \<Longrightarrow> \<not> is_link (node_at f (q @ [c])) \<Longrightarrow> full f (p @ [c]) = Some (q @ [c])"
  unfolding full_def by (subst resolve_snoc) auto

lemma lpath_snoc: "c \<noteq> ''..'' \<Longrightarrow> lpath f (p @ [c]) = map_option (\<lambda>q. q @ [c]) (full f p)"
  by (simp add: lpath_def)

text \<open>A directory made by \<open>mkdir\<close> is seen as one.\<close>

lemma mkdir_snoc:
  assumes "mkdir (p @ [c]) f = Inr f'" "c \<noteq> ''..''"
  obtains q where "full f p = Some q" "node_at f (q @ [c]) = None" "f' = set_node f (q @ [c]) Dir"
    "full f' p = Some q" "full f' (p @ [c]) = Some (q @ [c])"
proof -
  obtain q where q: "full f p = Some q" "node_at f (q @ [c]) = None" "f' = set_node f (q @ [c]) Dir"
    using mkdir_effect[OF assms(1)] assms(2) by (auto simp: lpath_snoc)
  have "full f' p = Some q" using full_grows[OF mkdir_grows[OF assms(1)]] q(1) by simp
  moreover from this have "full f' (p @ [c]) = Some (q @ [c])"
    using assms(2) q(3) by (intro full_snoc) (auto simp: is_link_def)
  ultimately show thesis using that q by blast
qed

lemma mkdir_snoc_stat:
  "mkdir (p @ [c]) f = Inr f' \<Longrightarrow> c \<noteq> ''..'' \<Longrightarrow> stat f' (p @ [c]) = Some Dir"
  by (erule mkdir_snoc) (auto simp: stat_def)

section \<open>Extended tables\<close>

text \<open>Every entry of the first table is in the second as it was.\<close>

definition extends :: "fs \<Rightarrow> fs \<Rightarrow> bool" where
  "extends f f' \<longleftrightarrow> grows f f' \<and> (\<forall>p. node_at f p \<noteq> None \<longrightarrow> node_at f' p = node_at f p) \<and>
     (fs_ok f \<longrightarrow> fs_ok f')"

lemma extends_refl [simp]: "extends f f"
  by (simp add: extends_def)

lemma extends_trans: "extends f g \<Longrightarrow> extends g h \<Longrightarrow> extends f h"
  unfolding extends_def using grows_trans by metis

lemma extends_new:
  assumes "q \<noteq> []" "node_at f q = None" "node_at f (butlast q) = Some Dir" "\<not> is_link (Some x)"
  shows "extends f (set_node f q x)"
  using assms fs_ok_set_node[of f q x]
  by (auto simp: extends_def parent_is_dir_def is_link_def intro!: grows_set_node)

lemma mkdir_extends: "mkdir p f = Inr f' \<Longrightarrow> extends f f'"
  using mkdir_effect[of p f f'] by (auto intro!: extends_new simp: is_link_def)

lemma mkdirs_extends: "mkdirs ps f = Inr f' \<Longrightarrow> extends f f'"
  by (induction ps f rule: mkdirs.induct)
    (auto simp: rbind_eq_Inr split: if_splits dest: mkdir_extends intro: extends_trans)

lemma put_new_extends: "put_file p c False f = Inr f' \<Longrightarrow> extends f f'"
  using put_effect[of p c False f f'] by (auto intro!: extends_new simp: is_link_def)

lemma stat_extends:
  assumes "extends f f'" "stat f p = Some x"
  shows "stat f' p = Some x"
  using assms full_grows[of f f' p] by (cases "full f p") (auto simp: stat_def extends_def)

lemma read_extends: "extends f f' \<Longrightarrow> read_bytes f p = Inr c \<Longrightarrow> read_bytes f' p = Inr c"
  using stat_extends[of f f' p] by (auto simp: read_bytes_def split: option.splits node.splits)

lemma put_snoc_stat:
  assumes "put_file (p @ [m]) c b f = Inr f'" "m \<noteq> ''..''" "extends f f'"
  shows "stat f' (p @ [m]) = Some (File c) \<and> \<not> is_symlink f' (p @ [m])"
proof -
  obtain q where q: "full f p = Some q" "f' = set_node f (q @ [m]) (File c)"
    using put_effect[OF assms(1)] assms(2) by (auto simp: lpath_snoc)
  have "full f' p = Some q" using full_grows[of f f' p] assms(3) q(1) by (simp add: extends_def)
  moreover from this have "full f' (p @ [m]) = Some (q @ [m])"
    using assms(2) q(2) by (intro full_snoc) (auto simp: is_link_def)
  ultimately show ?thesis
    using q(2) assms(2) by (simp add: stat_def is_symlink_def lstat_def lpath_snoc)
qed

lemma is_symlink_extends:
  assumes "extends f f'" "lstat f p \<noteq> None" "\<not> is_symlink f p"
  shows "\<not> is_symlink f' p"
proof -
  obtain q where "lpath f p = Some q" "node_at f q \<noteq> None"
    using assms(2) by (cases "lpath f p") (auto simp: lstat_def)
  then have "lstat f' p = lstat f p"
    using assms(1) lpath_grows[of f f' p] by (simp add: lstat_def extends_def)
  then show ?thesis using assms(3) by (simp add: is_symlink_def)
qed

section \<open>Appending to a file\<close>

text \<open>\<open>open(path, "a")\<close> and one \<open>write\<close>: a missing file is created.\<close>

definition append_file :: "path \<Rightarrow> string \<Rightarrow> fs \<Rightarrow> exc + fs" where
  "append_file p s f = (case full f p of
      None \<Rightarrow> Inl (OSError (Msg ''Too many levels of symbolic links'' []))
    | Some q \<Rightarrow>
        if \<not> parent_is_dir f q then Inl NoParentError
        else (case node_at f q of
            None \<Rightarrow> Inr (set_node f q (File s))
          | Some (File c) \<Rightarrow> Inr (set_node f q (File (c @ s)))
          | Some _ \<Rightarrow> Inl (OSError (Msg ''Is a directory'' []))))"

lemma append_read:
  assumes "append_file p s f = Inr f'"
  shows "read_bytes f' p = Inr ((case read_bytes f p of Inl _ \<Rightarrow> [] | Inr c \<Rightarrow> c) @ s)"
proof -
  obtain q x where q: "full f p = Some q" "q \<noteq> []" "f' = set_node f q (File x)"
      "x = (case read_bytes f p of Inl _ \<Rightarrow> [] | Inr c \<Rightarrow> c) @ s" "\<not> is_link (node_at f q)" "node_at f q \<noteq> Some Dir"
    using assms
    by (auto simp: append_file_def read_bytes_def stat_def parent_is_dir_def is_link_def
        split: option.splits if_splits node.splits)
  have "grows f f'" using q by (auto simp: is_link_def intro!: grows_set_node)
  then have "full f' p = Some q" using full_grows q(1) by metis
  then show ?thesis using q by (simp add: read_bytes_def stat_def)
qed

text \<open>Making directories creates no file and changes none.\<close>

lemma mkdirs_new_Dir:
  "mkdirs ps f = Inr f' \<Longrightarrow> node_at f' q = node_at f q \<or> (node_at f q = None \<and> node_at f' q = Some Dir)"
proof (induction ps f rule: mkdirs.induct)
  case (1 f)
  then show ?case by simp
next
  case (2 p ps f)
  show ?case
  proof (cases "stat f p = Some Dir")
    case True
    then show ?thesis using 2 by simp
  next
    case False
    then obtain g where g: "mkdir p f = Inr g" "mkdirs ps g = Inr f'" using "2.prems" by (auto simp: rbind_eq_Inr)
    then show ?thesis using mkdir_effect[OF g(1)] "2.IH"(2)[OF False g] by (auto split: if_splits)
  qed
qed

lemma mkdirs_read: "mkdirs ps f = Inr f' \<Longrightarrow> read_bytes f' p = Inr c \<longleftrightarrow> read_bytes f p = Inr c"
  using full_grows[OF mkdirs_grows, of ps f f' p] mkdirs_new_Dir[of ps f f' "the (full f p)"]
  by (cases "full f p") (auto simp: read_bytes_def stat_def split: option.splits node.splits)

end
