(* ===== verification/StorageProps.thy ===== *)
theory StorageProps
  imports QueueProps FileGrowth
begin

text \<open>
  Properties of the artifact storage: attempts are fresh directories inside their run, an
  attempt is found again from any path below it, and a manifest lists what it hashed.
\<close>

section \<open>Attempts\<close>

lemma initialize_grows:
  "run_initialize L rp w = (Inr x, w') \<Longrightarrow> grows (files w) (files w')"
  by (auto simp: run_initialize_def mkdir_parents_def res_elims Let_def draw_uuid_def
      split: if_splits sum.splits option.splits dest!: mkdirs_grows put_new_grows intro: grows_trans)

lemma make_attempt_dirs_effect:
  assumes run: "make_attempt_dirs L a w = (Inr u, w')" and root: "a_root a = p @ [c]" "c \<noteq> ''..''"
  shows "lstat (files w) (a_root a) = None \<and>
    (\<exists>f. grows (files w) f \<and> (\<forall>d \<in> {a_root a, a_input a, a_scratch a, a_output a, a_logs a}. stat f d = Some Dir) \<and>
       put_file (a_root a @ [''.attempt.json''])
         (json_text L (JDict ((''schema_version'', JInt 1) # attempt_identity a))) True f = Inr (files w'))"
proof -
  obtain f1 f2 f3 f4 f5 where
    m: "mkdir (a_root a) (files w) = Inr f1" "mkdir (a_input a) f1 = Inr f2"
      "mkdir (a_scratch a) f2 = Inr f3" "mkdir (a_output a) f3 = Inr f4" "mkdir (a_logs a) f4 = Inr f5"
    and put: "put_file (a_root a @ [''.attempt.json''])
         (json_text L (JDict ((''schema_version'', JInt 1) # attempt_identity a))) True f5 = Inr (files w')"
    using run by (auto simp: make_attempt_dirs_def res_elims)
  note g = mkdir_grows[OF m(1)] mkdir_grows[OF m(2)] mkdir_grows[OF m(3)] mkdir_grows[OF m(4)] mkdir_grows[OF m(5)]
  have s: "stat f1 (a_root a) = Some Dir" "stat f2 (a_input a) = Some Dir" "stat f3 (a_scratch a) = Some Dir"
    "stat f4 (a_output a) = Some Dir" "stat f5 (a_logs a) = Some Dir"
    using mkdir_snoc_stat[of p c] mkdir_snoc_stat[of "a_root a"] m root(2)
    unfolding a_input_def a_scratch_def a_output_def a_logs_def by (simp_all add: root(1)[symmetric])
  have "stat f5 d = Some Dir" if "d \<in> {a_root a, a_input a, a_scratch a, a_output a, a_logs a}" for d
    using that s stat_Dir_grows[OF g(2)] stat_Dir_grows[OF g(3)] stat_Dir_grows[OF g(4)] stat_Dir_grows[OF g(5)]
    by auto
  moreover have "grows (files w) f5"
    using g grows_trans by blast
  ultimately show ?thesis using put mkdir_effect[OF m(1)] by blast
qed

text \<open>An allocated attempt is a new directory of its task: nothing was there before, and its path
  is the run root, the safe name of the task and a padded number.\<close>

theorem allocate_attempt_fresh:
  assumes run: "allocate_attempt L rp tid w = (Inr a, w')"
  shows "\<exists>c n. safe_component L tid = Inr c \<and> 1 \<le> n \<and> a_task a = tid \<and> a_number a = pad6 n \<and>
    a_root a = rp_root rp @ [''tasks'', c, ''attempts'', pad6 n] \<and> lstat (files w) (a_root a) = None"
proof -
  obtain run1 c w1 f1 n where
    init: "run_initialize L rp w = (Inr run1, w1)" and c: "safe_component L tid = Inr c" and
    mk: "mkdir_parents (rp_root rp @ [''tasks'', c, ''attempts'']) (files w1) = Inr f1" and
    n: "free_number (Suc (length f1)) f1 (rp_root rp @ [''tasks'', c, ''attempts'']) 1 = Some n" and
    a: "a = \<lparr>a_root = (rp_root rp @ [''tasks'', c, ''attempts'']) @ [pad6 n], a_run = run1, a_task = tid,
           a_number = pad6 n\<rparr>"
    using run by (auto simp: allocate_attempt_def Let_def res_elims simp del: free_number.simps
        split: if_splits option.splits)
  have g: "grows (files w) f1"
    using grows_trans[OF initialize_grows[OF init] mkdirs_grows[OF mk[unfolded mkdir_parents_def]]] .
  have free: "lstat f1 (a_root a) = None" "1 \<le> n" using free_number_unused[OF n] a by auto
  have "lstat (files w) (a_root a) = None" using lstat_grows[OF g] free(1) by blast
  then show ?thesis using c free a by auto
qed

section \<open>Finding an attempt again\<close>

text \<open>What the two writers of markers need of \<open>json\<close>: what they wrote is read back.\<close>

definition json_reads_back :: "lib \<Rightarrow> bool" where
  "json_reads_back L \<longleftrightarrow> (\<forall>r t n. json_loads L (json_dumps L (JDict [(''schema_version'', JInt 1), (''run_id'', JStr r)])) =
       Some (JDict [(''schema_version'', JInt 1), (''run_id'', JStr r)]) \<and>
     json_loads L (json_text L (JDict [(''schema_version'', JInt 1), (''run_id'', JStr r),
         (''task_id'', JStr t), (''attempt_id'', JStr n)])) =
       Some (JDict [(''schema_version'', JInt 1), (''run_id'', JStr r), (''task_id'', JStr t),
         (''attempt_id'', JStr n)]))"

definition run_marked :: "lib \<Rightarrow> fs \<Rightarrow> path \<Rightarrow> string \<Rightarrow> bool" where
  "run_marked L f dir x \<longleftrightarrow> \<not> is_symlink f (dir @ [''run.json'']) \<and>
     (\<exists>c d. read_bytes f (dir @ [''run.json'']) = Inr c \<and> json_loads L c = Some (JDict d) \<and>
        py_eq (dget d ''schema_version'') (JInt 1) \<and> dget d ''run_id'' = JStr x)"

lemma marker_run_ok:
  "marker_run L wanted c = Inr x \<Longrightarrow> \<exists>d. json_loads L c = Some (JDict d) \<and>
     py_eq (dget d ''schema_version'') (JInt 1) \<and> dget d ''run_id'' = JStr x"
  by (auto simp: marker_run_def split: option.splits pyval.splits if_splits)

lemma initialize_effect:
  assumes run: "run_initialize L rp w = (Inr x, w')" and json: "json_reads_back L"
  shows "extends (files w) (files w') \<and> run_marked L (files w') (rp_root rp) x"
proof -
  let ?m = "rp_root rp @ [''run.json'']"
  obtain f1 where f1: "mkdir_parents (rp_root rp) (files w) = Inr f1" "\<not> is_symlink f1 ?m" and
    alt: "(\<exists>c. read_bytes f1 ?m = Inr c \<and> marker_run L (rp_run rp) c = Inr x \<and> files w' = f1) \<or>
      put_file ?m (json_dumps L (JDict [(''schema_version'', JInt 1), (''run_id'', JStr x)])) False f1
        = Inr (files w')"
    using run by (auto simp: run_initialize_def Let_def res_elims draw_uuid_def
        split: if_splits sum.splits option.splits)
  have e1: "extends (files w) f1" using f1(1) mkdirs_extends by (simp add: mkdir_parents_def)
  from alt show ?thesis
  proof (elim disjE exE conjE)
    fix c assume "read_bytes f1 ?m = Inr c" "marker_run L (rp_run rp) c = Inr x" "files w' = f1"
    then show ?thesis using e1 f1(2) marker_run_ok by (fastforce simp: run_marked_def)
  next
    assume p: "put_file ?m (json_dumps L (JDict [(''schema_version'', JInt 1), (''run_id'', JStr x)])) False f1
        = Inr (files w')"
    have e2: "extends f1 (files w')" using put_new_extends[OF p] .
    have "read_bytes (files w') ?m = Inr (json_dumps L (JDict [(''schema_version'', JInt 1), (''run_id'', JStr x)]))"
      "\<not> is_symlink (files w') ?m"
      using put_snoc_stat[OF p _ e2] by (simp_all add: read_bytes_def)
    then show ?thesis
      using extends_trans[OF e1 e2] json by (simp add: run_marked_def json_reads_back_def dget_def)
  qed
qed

lemma run_marked_extends:
  assumes "extends f f'" "run_marked L f dir x"
  shows "run_marked L f' dir x"
proof -
  obtain c where c: "read_bytes f (dir @ [''run.json'']) = Inr c" "\<not> is_symlink f (dir @ [''run.json''])"
    using assms(2) by (auto simp: run_marked_def)
  have "lstat f (dir @ [''run.json'']) \<noteq> None"
  proof -
    obtain q where q: "full f (dir @ [''run.json'']) = Some q" "node_at f q \<noteq> None"
      using c(1) by (cases "full f (dir @ [''run.json''])")
        (auto simp: read_bytes_def stat_def split: option.splits node.splits)
    show ?thesis
    proof (cases "full f dir")
      case None
      then have "resolve_from link_fuel f [] (dir @ [''run.json'']) = None"
        by (subst resolve_snoc) (auto simp: full_def)
      then show ?thesis using q(1) by (simp add: full_def)
    next
      case (Some r)
      then show ?thesis
        using q full_snoc[OF Some, of "''run.json''"]
        by (cases "is_link (node_at f (r @ [''run.json'']))")
          (auto simp: lstat_def lpath_snoc is_link_def split: option.splits)
    qed
  qed
  then show ?thesis
    using assms is_symlink_extends[OF assms(1)] read_extends[OF assms(1)]
    by (fastforce simp: run_marked_def)
qed

lemma make_attempt_dirs_marker:
  assumes run: "make_attempt_dirs L a w = (Inr u, w')" and ok: "fs_ok (files w)"
    and root: "a_root a = p @ [c]" "c \<noteq> ''..''"
  shows "extends (files w) (files w') \<and> \<not> is_symlink (files w') (a_root a @ [''.attempt.json'']) \<and>
    read_bytes (files w') (a_root a @ [''.attempt.json'']) =
      Inr (json_text L (JDict ((''schema_version'', JInt 1) # attempt_identity a)))"
proof -
  let ?m = "''.attempt.json''" and ?c = "json_text L (JDict ((''schema_version'', JInt 1) # attempt_identity a))"
  obtain f1 f2 f3 f4 f5 where
    m: "mkdir (p @ [c]) (files w) = Inr f1" "mkdir (a_root a @ [''input'']) f1 = Inr f2"
      "mkdir (a_root a @ [''scratch'']) f2 = Inr f3" "mkdir (a_root a @ [''output'']) f3 = Inr f4"
      "mkdir (a_root a @ [''logs'']) f4 = Inr f5"
    and put: "put_file (a_root a @ [?m]) ?c True f5 = Inr (files w')"
    using run
    by (auto simp: make_attempt_dirs_def res_elims a_input_def a_scratch_def a_output_def a_logs_def root(1))
  have e: "extends (files w) f1" "extends f1 f2" "extends f2 f3" "extends f3 f4" "extends f4 f5"
    using m mkdir_extends by blast+
  have g: "grows f1 f2" "grows f2 f3" "grows f3 f4" "grows f4 f5" using e by (auto simp: extends_def)
  obtain q where q: "node_at (files w) (q @ [c]) = None" "f1 = set_node (files w) (q @ [c]) Dir"
      "full f1 (a_root a) = Some (q @ [c])"
    using mkdir_snoc[OF m(1) root(2)] root(1) by metis
  let ?q = "q @ [c]"
  have fr: "full f2 (a_root a) = Some ?q" "full f3 (a_root a) = Some ?q" "full f4 (a_root a) = Some ?q"
    "full f5 (a_root a) = Some ?q"
    using q(3) full_grows[OF g(1)] full_grows[OF g(2)] full_grows[OF g(3)] full_grows[OF g(4)] by simp_all
  have none0: "node_at (files w) (?q @ [?m]) = None"
  proof (rule ccontr)
    assume "node_at (files w) (?q @ [?m]) \<noteq> None"
    then obtain x where "map_of (files w) (?q @ [?m]) = Some x" by (auto simp: node_at_def)
    then have "node_at (files w) (butlast (?q @ [?m])) = Some Dir"
      using ok unfolding fs_ok_def by blast
    then have "node_at (files w) ?q = Some Dir" by (simp only: butlast_snoc)
    then show False using q(1) by simp
  qed
  have step: "node_at f' (?q @ [?m]) = node_at f (?q @ [?m])"
    if "mkdir (a_root a @ [n]) f = Inr f'" "full f (a_root a) = Some ?q" "n \<noteq> ''..''" "n \<noteq> ?m" for f f' n
    using mkdir_snoc[OF that(1,3)] that(2,4) by fastforce
  have none5: "node_at f5 (?q @ [?m]) = None"
    using step[OF m(2) q(3)] step[OF m(3) fr(1)] step[OF m(4) fr(2)] step[OF m(5) fr(3)] none0 q(2)
    by simp
  have put': "put_file (a_root a @ [?m]) ?c False f5 = Inr (files w')"
    using put none5 fr(4) by (simp add: put_file_def lpath_snoc split: if_splits)
  have e5: "extends f5 (files w')" by (rule put_new_extends[OF put'])
  show ?thesis
    using put_snoc_stat[OF put _ e5] extends_trans[OF e(1) extends_trans[OF e(2) extends_trans[OF e(3)
      extends_trans[OF e(4) extends_trans[OF e(5) e5]]]]]
    by (simp add: read_bytes_def)
qed

lemma locate_up_first:
  assumes "locate_at L f p = Inr (Some a)"
  shows "locate_up L f (rev (prefixes p)) = Inr (Some a)"
proof -
  have "rev (prefixes p) = p # tl (rev (prefixes p))"
    by (cases p rule: rev_cases) (simp_all add: prefixes_snoc)
  then show ?thesis using assms by (metis locate_up.simps(2) option.simps(5) rbind_Inr)
qed

text \<open>C22: The walk up from an allocated attempt finds that attempt, with its run, task and number.\<close>

theorem attempt_roundtrip:
  assumes run: "allocate_attempt L rp tid w = (Inr a, w')"
    and sound: "fs_ok (files w)" "json_reads_back L" "a_run a \<noteq> []"
    and ext: "ensure_external_path L (files w') (a_root a) = Inr (a_root a)"
  shows "locate_attempt L (files w') (a_root a) = Inr (Some a)"
proof -
  obtain run1 c w1 f2 n where
    init: "run_initialize L rp w = (Inr run1, w1)" and c: "safe_component L tid = Inr c" and
    mk: "mkdir_parents (rp_root rp @ [''tasks'', c, ''attempts'']) (files w1) = Inr f2" and
    a: "a = \<lparr>a_root = (rp_root rp @ [''tasks'', c, ''attempts'']) @ [pad6 n], a_run = run1, a_task = tid,
           a_number = pad6 n\<rparr>" and
    dirs: "make_attempt_dirs L a (w1\<lparr>files := f2\<rparr>) = (Inr (), w')"
    using run by (auto simp: allocate_attempt_def Let_def res_elims simp del: free_number.simps
        split: if_splits option.splits)
  have e: "extends (files w) (files w1)" "run_marked L (files w1) (rp_root rp) run1"
    "extends (files w1) f2"
    using initialize_effect[OF init sound(2)] mkdirs_extends mk by (auto simp: mkdir_parents_def)
  have ok2: "fs_ok f2" using e sound(1) by (auto simp: extends_def)
  have d: "extends f2 (files w')" "\<not> is_symlink (files w') (a_root a @ [''.attempt.json''])"
    "read_bytes (files w') (a_root a @ [''.attempt.json'']) =
      Inr (json_text L (JDict ((''schema_version'', JInt 1) # attempt_identity a)))"
    using make_attempt_dirs_marker[OF dirs, simplified, OF ok2, of "rp_root rp @ [''tasks'', c, ''attempts'']" "pad6 n"] a
      pad6_not_dotdot by auto
  have marked: "run_marked L (files w') (rp_root rp) run1"
    using run_marked_extends e d(1) by blast
  have tid: "tid \<noteq> []" using c by (auto simp: safe_component_def strip_def strip_chars_def split: if_splits)
  have num: "pad6 n \<noteq> []" by (cases "dec n") (simp_all add: pad6_def)
  have js: "json_loads L (json_text L (JDict ((''schema_version'', JInt 1) # attempt_identity a))) =
      Some (JDict ((''schema_version'', JInt 1) # attempt_identity a))"
    using sound(2) by (simp add: json_reads_back_def attempt_identity_def)
  obtain rc d where rc: "read_bytes (files w') (rp_root rp @ [''run.json'']) = Inr rc"
      "json_loads L rc = Some (JDict d)" "py_eq (dget d ''schema_version'') (JInt 1)"
      "dget d ''run_id'' = JStr run1" "\<not> is_symlink (files w') (rp_root rp @ [''run.json''])"
    using marked by (auto simp: run_marked_def)
  obtain t0 ts n0 ns r0 rs where ne: "tid = t0 # ts" "pad6 n = n0 # ns" "run1 = r0 # rs"
    using tid num sound(3) a by (cases tid; cases "pad6 n"; cases run1) auto
  have st: "stat (files w') (a_root a @ [''.attempt.json'']) =
      Some (File (json_text L (JDict ((''schema_version'', JInt 1) # attempt_identity a))))"
    using d(3) by (auto simp: read_bytes_def split: option.splits node.splits)
  have rj: "read_json L (files w') (rp_root rp @ [''run.json'']) = Some (JDict d)"
    using rc(1,2) by (simp add: read_json_def)
  have ra: "read_json L (files w') (a_root a @ [''.attempt.json'']) =
      Some (JDict ((''schema_version'', JInt 1) # attempt_identity a))"
    using d(3) js by (simp add: read_json_def)
  have root: "a_root a = rp_root rp @ [''tasks'', c, ''attempts'', pad6 n]" "a_run a = run1"
    "a_task a = tid" "a_number a = pad6 n" by (simp_all add: a)
  have id: "nonempty_str (dget ((''schema_version'', JInt 1) # attempt_identity a) ''run_id'') = Some run1"
    "nonempty_str (dget ((''schema_version'', JInt 1) # attempt_identity a) ''task_id'') = Some tid"
    "nonempty_str (dget ((''schema_version'', JInt 1) # attempt_identity a) ''attempt_id'') = Some (pad6 n)"
    "dget ((''schema_version'', JInt 1) # attempt_identity a) ''schema_version'' = JInt 1"
    by (simp_all add: attempt_identity_def dget_def nonempty_str_def root(2-4) ne)
  have "locate_at L (files w') (a_root a) = Inr (Some a)"
    unfolding locate_at_def Let_def path_exists_def is_file_def
    by (simp only: d(2) st ra id option.case pyval.case prod.case if_False if_True not_False_eq_True)
       (simp add: root nth_append c rj rc(3-5) ext[unfolded root] a)
  then show ?thesis
    by (simp add: locate_attempt_def ext locate_up_first)
qed

text \<open>A codec of the two marker documents, under which they read back.\<close>

definition enc :: "string \<Rightarrow> string" where
  "enc s = replicate (length s) (CHR ''1'') @ CHR ''0'' # s"

definition dec1 :: "string \<Rightarrow> string \<times> string" where
  "dec1 u = (let n = length (takeWhile (\<lambda>c. c = CHR ''1'') u); v = drop (Suc n) u in (take n v, drop n v))"

lemma dec1_enc [simp]: "dec1 (enc s @ u) = (s, u)"
proof -
  have "takeWhile (\<lambda>c. c = CHR ''1'') (replicate n (CHR ''1'') @ CHR ''0'' # v) = replicate n (CHR ''1'')" for n v
    by (induction n) simp_all
  then show ?thesis by (simp add: dec1_def enc_def)
qed

lemma dec1_enc_end [simp]: "dec1 (enc s) = (s, [])"
  using dec1_enc[of s "[]"] by simp

definition marker_text :: "pyval \<Rightarrow> string" where
  "marker_text v = (case v of
      JDict [_, (_, JStr r)] \<Rightarrow> CHR ''R'' # enc r
    | JDict [_, (_, JStr r), (_, JStr t), (_, JStr n)] \<Rightarrow> CHR ''A'' # enc r @ enc t @ enc n
    | _ \<Rightarrow> ''doc'')"

definition marker_loads :: "string \<Rightarrow> pyval option" where
  "marker_loads s = (case s of [] \<Rightarrow> None | c # u \<Rightarrow>
     (let (r, u1) = dec1 u; (t, u2) = dec1 u1; (n, _) = dec1 u2 in
      if c = CHR ''R'' then Some (JDict [(''schema_version'', JInt 1), (''run_id'', JStr r)])
      else if c = CHR ''A'' then Some (JDict [(''schema_version'', JInt 1), (''run_id'', JStr r),
        (''task_id'', JStr t), (''attempt_id'', JStr n)])
      else None))"

definition store_lib :: lib where
  "store_lib = (sample_lib [])\<lparr>json_text := marker_text, json_dumps := marker_text,
     json_loads := marker_loads\<rparr>"

lemma store_lib_reads_back: "json_reads_back store_lib"
  by (simp add: json_reads_back_def store_lib_def marker_text_def marker_loads_def)

definition demo_allocated :: "(exc + attempt) \<times> world" where
  "demo_allocated = allocate_attempt store_lib \<lparr>rp_root = [''data'', ''r''], rp_run = Some ''run''\<rparr> ''t''
     sample_world"

lemma demo_allocated_returns: "returned (\<lambda>a. a_run a = ''run'' \<and> a_number a = ''000001'' \<and>
     ensure_external_path store_lib (files (snd demo_allocated)) (a_root a) = Inr (a_root a)) demo_allocated"
  by code_simp

lemma allocate_attempt_fresh_witness:
  "\<exists>a w'. demo_allocated = (Inr a, w') \<and> lstat [] (a_root a) = None"
proof -
  obtain a w' where r: "demo_allocated = (Inr a, w')" using demo_allocated_returns by (rule returnedE)
  show ?thesis using allocate_attempt_fresh[OF r[unfolded demo_allocated_def]] r
    by (auto simp: sample_world_def)
qed

lemma attempt_roundtrip_witness:
  "\<exists>a w'. demo_allocated = (Inr a, w') \<and> locate_attempt store_lib (files w') (a_root a) = Inr (Some a)"
proof -
  obtain a w' where r: "demo_allocated = (Inr a, w')" "a_run a = ''run''"
      "ensure_external_path store_lib (files (snd demo_allocated)) (a_root a) = Inr (a_root a)"
    using demo_allocated_returns by (rule returnedE) blast
  have "fs_ok (files sample_world)" by (simp add: sample_world_def fs_ok_def)
  note ok = this
  have ext: "ensure_external_path store_lib (files w') (a_root a) = Inr (a_root a)"
    using r(3) by (simp only: r(1) snd_conv)
  have "a_run a \<noteq> []" using r(2) by simp
  from attempt_roundtrip[OF r(1)[unfolded demo_allocated_def] ok store_lib_reads_back this ext] r(1)
  show ?thesis by blast
qed

section \<open>Manifests\<close>

definition manifest_of :: "pydict \<Rightarrow> string \<Rightarrow> artifact list \<Rightarrow> pyval" where
  "manifest_of identity outcome arts = JDict [(''schema_version'', JInt 1), (''identity'', JDict identity),
     (''outcome'', JStr outcome), (''artifacts'', JList (map (\<lambda>a. JDict (artifact_dict a)) arts))]"

text \<open>A registered manifest lists regular files of the directory with the size and hash of their
  content, includes every required artifact and is itself inside the directory.\<close>

theorem register_inventory:
  assumes "register L dir identity outcome required incl name w = (Inr m, w')"
  shows "\<exists>f arts. mkdir_parents dir (files w) = Inr f \<and> strictly_under m dir \<and>
    put_file m (json_text L (manifest_of identity outcome arts)) True f = Inr (files w') \<and>
    (\<forall>r \<in> set required. r \<in> (posix \<circ> af_path) ` set arts) \<and>
    (\<forall>a \<in> set arts. \<not> is_symlink f (dir @ af_path a) \<and>
       (\<exists>c. read_bytes f (dir @ af_path a) = Inr c \<and> af_sha256 a = sha256 L c \<and> af_size a = length c))"
proof -
  obtain f sel arts where f: "mkdir_parents dir (files w) = Inr f" "store_path L f dir name = Inr m"
      "walk (Suc (length f)) L f dir m sel [] = Inr arts" "register_missing required sel arts = []"
      "put_file m (json_text L (manifest_of identity outcome arts)) True f = Inr (files w')"
    using assms
    by (auto simp: register_def res_elims json_file_text_def manifest_of_def simp del: walk.simps
        split: if_splits)
  have "r \<in> (posix \<circ> af_path) ` set arts" if "r \<in> set required" for r
    using f(4) that by (auto simp: register_missing_def Let_def filter_empty_conv)
  then show ?thesis
    using f(1,5) store_path_contained[OF f(2)] walk_hashes[OF f(3)] by blast
qed

definition store_files :: fs where
  "store_files = [([''data''], Dir), ([''data'', ''log.txt''], File ''content'')]"

definition demo_registered :: "(exc + path) \<times> world" where
  "demo_registered = register demo_lib [''data''] [] ''PASS'' [''log.txt''] None ''artifact_manifest.json''
     (sample_world\<lparr>files := store_files\<rparr>)"

lemma demo_registered_returns: "returned (\<lambda>m. m = [''data'', ''artifact_manifest.json'']) demo_registered"
  by code_simp

lemma register_inventory_witness:
  "\<exists>m w'. demo_registered = (Inr m, w') \<and> strictly_under m [''data'']"
proof -
  obtain m w' where r: "demo_registered = (Inr m, w')" using demo_registered_returns by (rule returnedE)
  show ?thesis using register_inventory[OF r[unfolded demo_registered_def]] r by blast
qed

end
