(* ===== verification/QueueClaims.thy ===== *)
theory QueueClaims
  imports ClaimProps RunProps StorageProps
begin

text \<open>
  What holds of the whole queue after any sequence of calls: the facts of the interpretation
  \<open>queue\<close> of \<open>task_machine\<close>, of the log, and of the data the queue stores.
\<close>

text \<open>C1: In every database that any sequence of calls, in any order and with any arguments and
  failures, makes from an empty one, the task table is well formed: identifiers and
  (run, key, stage) are unique, exactly the running rows hold a lease, every row's upstream stage
  has succeeded, and every failed pipeline task has a diagnosis.\<close>

theorem queue_invariant:
  assumes "sched_start w" "(sched_step L)\<^sup>*\<^sup>* w w'"
  shows "table_ok (tasks (db w'))"
  by (rule queue.reachable_ok[OF assms])

definition demo_calls :: "call list" where
  "demo_calls = [CreateRun sample_run, DiscoverOperator ''run'' sample_spec, ClaimReady ''alice'' None (Fin 100) 1]"

lemma queue_invariant_witness:
  "table_ok (tasks (db (run_calls demo_lib demo_calls sample_world))) \<and>
   map k_status (tasks (db (run_calls demo_lib demo_calls sample_world))) = [Running]"
proof
  have "sched_start sample_world" by (simp add: sched_start_def sample_world_def)
  then show "table_ok (tasks (db (run_calls demo_lib demo_calls sample_world)))"
    by (rule queue_invariant) (rule run_calls_steps)
  show "map k_status (tasks (db (run_calls demo_lib demo_calls sample_world))) = [Running]"
    by code_simp
qed

text \<open>C12: A pipeline stage that has succeeded is final: its row is never changed again, by any
  sequence of calls.\<close>

theorem succeeded_stage_final:
  assumes "table_ok (tasks (db w))" "(sched_step L)\<^sup>*\<^sup>* w w'"
    and "x \<in> set (tasks (db w))" "k_status x = Succeeded" "k_stage x \<noteq> Diagnosis"
  shows "x \<in> set (tasks (db w'))"
  using queue.rows_persist[OF assms(1,2)] assms(3-5) by (auto simp: persists_def)

definition done_row :: row where
  "done_row = failed_row\<lparr>k_status := Succeeded\<rparr>"

lemma succeeded_stage_final_witness:
  "done_row \<in> set (tasks (db (run_calls demo_lib [Recover True] (demo_world [done_row]))))"
proof (rule succeeded_stage_final[OF _ run_calls_steps])
  show "table_ok (tasks (db (demo_world [done_row])))"
    by (simp add: demo_world_def demo_db_def table_ok_def rows_distinct_def row_ok_def id_shape_def
        leased_def unleased_def upstream_done_def done_row_def failed_row_def demo_row_def stage_task_id_def)
qed (simp_all add: demo_world_def demo_db_def done_row_def failed_row_def demo_row_def)

text \<open>C21: The event log is append-only: every sequence of calls only adds events after the existing
  ones, and their identifiers stay distinct.\<close>

theorem events_append_only:
  assumes "(sched_step L)\<^sup>*\<^sup>* w w'"
  shows "prefix (events (db w)) (events (db w')) \<and>
    (distinct (map ev_id (events (db w))) \<longrightarrow> distinct (map ev_id (events (db w'))))"
  using sched_steps_log[OF assms] by (simp add: log_grows_def)

lemma events_append_only_witness:
  "prefix (events (db sample_world)) (events (db (run_calls demo_lib demo_calls sample_world))) \<and>
   length (events (db (run_calls demo_lib demo_calls sample_world))) = 4"
proof
  show "prefix (events (db sample_world)) (events (db (run_calls demo_lib demo_calls sample_world)))"
    using events_append_only[OF run_calls_steps] by blast
  show "length (events (db (run_calls demo_lib demo_calls sample_world))) = 4" by code_simp
qed

text \<open>C6: Each transaction refines the abstract task machine: whatever the call and whether it
  returns or raises, the committed change of the task table is a sequence of claims, holds,
  releases, completions, failures with their diagnosis, retries and insertions.\<close>

theorem transaction_refines:
  assumes "table_ok (tasks (db w))" "atomic (perform L c) w = (res, w')"
  shows "task_step\<^sup>*\<^sup>* (tasks (db w)) (tasks (db w'))"
  by (rule atomic_moving[OF assms])

lemma transaction_refines_witness:
  "\<exists>res w'. atomic (perform demo_lib demo_fail) (demo_world [demo_row]) = (res, w') \<and>
     task_step\<^sup>*\<^sup>* [demo_row] (tasks (db w'))"
proof -
  obtain res w' where r: "atomic (perform demo_lib demo_fail) (demo_world [demo_row]) = (res, w')"
    by (cases "atomic (perform demo_lib demo_fail) (demo_world [demo_row])")
  show ?thesis
    using transaction_refines[OF demo_world_table r] r by (auto simp: demo_world_def demo_db_def)
qed

text \<open>A specification survives its dictionary: \<open>from_dict(to_dict(s))\<close> is \<open>s\<close>, for every
  specification that the constructor accepts, and the derived key comes back with it.\<close>

theorem opspec_survives_dict:
  assumes "mk_opspec a = Inr s"
  shows "opspec_from_dict (dset (opspec_to_dict s) ''operator_key'' (JStr (operator_key L s))) = Inr s"
proof -
  have "AList.delete ''operator_key'' (dset (opspec_to_dict s) ''operator_key'' v) = opspec_to_dict s" for v
    by (simp add: opspec_to_dict_def dset_def)
  then have "opspec_from_dict (dset (opspec_to_dict s) ''operator_key'' v) = opspec_from_dict (opspec_to_dict s)" for v
    by (simp add: opspec_from_dict_def opspec_to_dict_def)
  then show ?thesis using opspec_roundtrip[OF mk_opspec_ok[OF assms]] by simp
qed

definition demo_opspec_args :: opspec_args where
  "demo_opspec_args = \<lparr>oa_operator_id = JStr ''op'', oa_model_id = JStr ''m'',
     oa_model_revision = JStr ''1'', oa_plugin_revision = JStr ''1'', oa_backend = JStr ''b'',
     oa_inputs = JList [JDict (iospec_to_dict sample_iospec)],
     oa_outputs = JList [JDict (iospec_to_dict sample_iospec)], oa_semantics = JStr ''add'',
     oa_evidence = JDict [], oa_environment = JDict [], oa_schema_version = JInt 1\<rparr>"

lemma opspec_survives_dict_witness:
  "opspec_from_dict (dset (opspec_to_dict sample_spec) ''operator_key''
     (JStr (operator_key demo_lib sample_spec))) = Inr sample_spec"
proof (rule opspec_survives_dict)
  show "mk_opspec demo_opspec_args = Inr sample_spec" by code_simp
qed

text \<open>C23: A safe component is one ordinary directory name of at most 96 letters, digits, dots, dashes
  and underscores, and never the current or the parent directory.\<close>

theorem safe_component_bounds:
  assumes "hex_hash L" "safe_component L v = Inr c"
  shows "list_all is_safe_char c \<and> c \<noteq> [] \<and> length c \<le> 96 \<and> name_ok c \<and> c \<noteq> ''..''"
  using safe_component_chars[OF assms] safe_component_name[OF assms] by simp

lemma safe_component_bounds_witness:
  "\<exists>c. safe_component demo_lib ''../run 1'' = Inr c \<and> length c \<le> 96 \<and> name_ok c \<and> c \<noteq> ''..''"
proof -
  have c: "safe_component demo_lib ''../run 1'' = Inr ''run-1-run100000000''" by code_simp
  show ?thesis
    using safe_component_bounds[OF sample_hex_hash c[unfolded demo_lib_def]] c by blast
qed

text \<open>The search for an unused attempt number ends: one more try than there are entries always
  finds one.\<close>

theorem attempt_number_found:
  "\<exists>m. free_number (Suc (length f)) f parent n = Some m \<and> n \<le> m \<and> lstat f (parent @ [pad6 m]) = None"
  using free_number_enough[of f parent n] free_number_unused by blast

end
