(* ===== verification/Brain.thy ===== *)
theory Brain
  imports ResultGate SampleLib
begin

text \<open>
  \<open>engine/brain.py\<close>: the contract of a recovery decision (\<open>Decision.from_dict\<close>), the
  deterministic \<open>RuleBrain\<close>, and \<open>AgentBrain\<close> (theory \<open>Agent\<close>), which asks a decider through
  files. The decider itself, the passing of time while the process sleeps and the two callbacks are
  parameters of \<open>Agent\<close>. The locale \<open>brain\<close> is the protocol \<open>Brain\<close> of the
  source: whatever is answered satisfies the contract. Both brains are instances.
\<close>

section \<open>Actions and decisions\<close>

definition next_actions :: "string list" where
  "next_actions = [''BLOCKED'', ''DISPATCH_OPERATOR_TASK'', ''PLACE_PATCH'', ''REDISCOVER'',
     ''RETRY'', ''RETRY_WITH_PARAMS'', ''ROLLBACK'', ''RUN_TRIAGE'']"

definition rerun_actions :: "string list" where
  "rerun_actions = [''RETRY'', ''RETRY_WITH_PARAMS'']"

record failure_evidence =
  fe_node :: string
  fe_state :: string
  fe_reason :: string
  fe_artifacts :: "string list"
  fe_environment :: pydict

definition failure_evidence_dict :: "failure_evidence \<Rightarrow> pydict" where
  "failure_evidence_dict e =
     [(''node'', JStr (fe_node e)), (''state'', JStr (fe_state e)), (''reason'', JStr (fe_reason e)),
      (''artifacts'', JList (map JStr (fe_artifacts e))), (''environment'', JDict (fe_environment e))]"

record decision_request =
  rq_model :: string
  rq_backend :: string
  rq_failure :: failure_evidence
  rq_history :: "pydict list"
  rq_actions :: "string list"
  rq_remaining :: int
  rq_context :: pydict
  rq_skill :: pydict

definition decision_request_dict :: "decision_request \<Rightarrow> pydict" where
  "decision_request_dict r =
     [(''model'', JStr (rq_model r)), (''backend'', JStr (rq_backend r)),
      (''failure'', JDict (failure_evidence_dict (rq_failure r))),
      (''history'', JList (map JDict (rq_history r))),
      (''available_actions'', JList (map JStr (rq_actions r))),
      (''attempts_remaining'', JInt (rq_remaining r)), (''context'', JDict (rq_context r)),
      (''skill'', JDict (rq_skill r))]"

record decision =
  de_action :: string
  de_diagnosis :: string
  de_facts :: "pyval list"
  de_hypotheses :: "pyval list"
  de_params :: pydict
  de_confidence :: pyfloat
  de_refs :: "pyval list"

definition blocked :: "string \<Rightarrow> decision" where
  "blocked reason = \<lparr>de_action = ''BLOCKED'', de_diagnosis = reason, de_facts = [],
     de_hypotheses = [], de_params = [], de_confidence = Fin 1, de_refs = []\<rparr>"

definition decision_dict :: "decision \<Rightarrow> pydict" where
  "decision_dict d =
     [(''next_action'', JStr (de_action d)), (''diagnosis'', JStr (de_diagnosis d)),
      (''facts'', JList (de_facts d)), (''hypotheses'', JList (de_hypotheses d)),
      (''params'', JDict (de_params d)), (''confidence'', JFloat (de_confidence d)),
      (''evidence_refs'', JList (de_refs d))]"

text \<open>\<open>Decision.from_dict\<close>: the checks in the source's order. The confidence test is
  \<open>isinstance(confidence, (int, float)) and 0.0 <= confidence <= 1.0\<close>, which a \<open>bool\<close>
  passes.\<close>

definition list_field :: "pydict \<Rightarrow> string \<Rightarrow> exc + pyval list" where
  "list_field d k = (case dget_or d k (JList []) of
      JList xs \<Rightarrow> Inr xs
    | _ \<Rightarrow> Inl (BrainError (Msg ''must be a list'' [JStr k])))"

definition decision_from_dict :: "pyval \<Rightarrow> exc + decision" where
  "decision_from_dict v = (case v of
      JDict d \<Rightarrow>
        if \<not> in_strs (dget d ''next_action'') next_actions
        then Inl (BrainError (Msg ''next_action is not one of'' [dget d ''next_action'']))
        else (case dget d ''diagnosis'' of
          JStr diag \<Rightarrow>
            if strip diag = [] then Inl (BrainError (Msg ''diagnosis must be a non-empty string'' []))
            else (case dget_or d ''params'' (JDict []) of
              JDict params \<Rightarrow>
                let c = dget_or d ''confidence'' (JFloat (Fin 0)) in
                if \<not> in_unit_interval c
                then Inl (BrainError (Msg ''confidence must be a number in [0, 1]'' []))
                else
                  rbind (list_field d ''facts'') (\<lambda>facts.
                  rbind (list_field d ''hypotheses'') (\<lambda>hyps.
                  rbind (list_field d ''evidence_refs'') (\<lambda>refs.
                  Inr \<lparr>de_action = str_or (dget d ''next_action'') [], de_diagnosis = diag,
                       de_facts = facts, de_hypotheses = hyps, de_params = params,
                       de_confidence = the (num_of c), de_refs = refs\<rparr>)))
            | _ \<Rightarrow> Inl (BrainError (Msg ''params must be an object'' [])))
        | _ \<Rightarrow> Inl (BrainError (Msg ''diagnosis must be a non-empty string'' [])))
    | _ \<Rightarrow> Inl (BrainError (Msg ''decision must be an object'' [])))"

definition decision_ok :: "decision \<Rightarrow> bool" where
  "decision_ok d \<longleftrightarrow> de_action d \<in> set next_actions \<and> strip (de_diagnosis d) \<noteq> [] \<and>
     (case de_confidence d of Fin q \<Rightarrow> 0 \<le> q \<and> q \<le> 1 | _ \<Rightarrow> False)"

lemma in_strs_iff: "in_strs v ss \<longleftrightarrow> (\<exists>s \<in> set ss. v = JStr s)"
  by (cases v) (auto simp: in_strs_def)

lemma in_unit_interval_iff: "in_unit_interval v \<longleftrightarrow> (\<exists>q. num_of v = Some (Fin q) \<and> 0 \<le> q \<and> q \<le> 1)"
  by (auto simp: in_unit_interval_def split: option.splits pyfloat.splits)

lemma decision_from_dict_ok:
  assumes "decision_from_dict v = Inr d"
  shows "decision_ok d"
  using assms
  by (auto simp: decision_from_dict_def decision_ok_def in_strs_iff str_or_def rbind_eq_Inr Let_def
      in_unit_interval_iff split: pyval.splits if_splits)

text \<open>A well-formed decision survives its dictionary.\<close>

lemma decision_from_dict_dict:
  assumes "decision_ok d"
  shows "decision_from_dict (JDict (decision_dict d)) = Inr d"
proof -
  obtain q where q: "de_confidence d = Fin q" "0 \<le> q" "q \<le> 1"
    using assms by (auto simp: decision_ok_def split: pyfloat.splits)
  show ?thesis
    using assms q
    by (simp add: decision_from_dict_def decision_dict_def decision_ok_def in_strs_iff dget_def
        dget_or_def list_field_def in_unit_interval_def str_or_def)
qed

section \<open>The protocol\<close>

locale brain =
  fixes decide :: "decision_request \<Rightarrow> ('w, exc, decision) act"
  assumes answers_ok: "decide rq w = (Inr d, w') \<Longrightarrow> decision_ok d"

text \<open>\<open>decide_with_budget\<close>\<close>

definition decide_with_budget ::
  "(decision_request \<Rightarrow> ('w, exc, decision) act) \<Rightarrow> decision_request \<Rightarrow> ('w, exc, decision) act" where
  "decide_with_budget decide rq =
     actbind (decide rq) (\<lambda>d.
     if rq_remaining rq \<le> 0 \<and> de_action d \<noteq> ''BLOCKED''
     then actret (blocked ''recovery budget exhausted before this decision'')
     else actret d)"

lemma dropWhile_nonempty: "c \<in> set s \<Longrightarrow> \<not> p c \<Longrightarrow> dropWhile p s \<noteq> []"
  by (induction s) auto

lemma strip_nonempty:
  assumes "c \<in> set s" "\<not> is_space c"
  shows "strip s \<noteq> []"
proof -
  have "c \<in> set (dropWhile is_space s)" if "c \<in> set s" for s
    using that assms(2) by (induction s) auto
  then show ?thesis
    using assms dropWhile_nonempty[of c _ is_space] by (simp add: strip_def strip_chars_def)
qed

lemma blocked_ok: "c \<in> set reason \<Longrightarrow> \<not> is_space c \<Longrightarrow> decision_ok (blocked reason)"
  by (auto simp: decision_ok_def blocked_def next_actions_def dest: strip_nonempty)

section \<open>RuleBrain\<close>

type_synonym rules = "(string list \<times> string \<times> pydict) list"

definition default_rules :: rules where
  "default_rules =
     [([''oom'', ''out of memory'', ''cuda oom'', ''xpu oom''], ''RETRY_WITH_PARAMS'',
         [(''gpu_memory_utilization'', JStr ''lower'')]),
      ([''readiness'', ''timed out'', ''timeout'', ''deadline''], ''RETRY'', []),
      ([''importerror'', ''modulenotfound'', ''attributeerror'', ''cannot import''], ''RUN_TRIAGE'', []),
      ([''not implemented'', ''capabilit'', ''operator'', ''kernel not found''],
         ''DISPATCH_OPERATOR_TASK'', []),
      ([''numerical'', ''mismatch'', ''cosine'', ''accuracy''], ''RUN_TRIAGE'', [])]"

text \<open>\<open>rules or _RULES\<close>; the confidence of a matched rule is the double 0.3.\<close>

definition rules_or_default :: "rules option \<Rightarrow> rules" where
  "rules_or_default r = (case r of Some (x # xs) \<Rightarrow> x # xs | _ \<Rightarrow> default_rules)"

definition rule_answer :: "lib \<Rightarrow> rules \<Rightarrow> decision_request \<Rightarrow> decision" where
  "rule_answer L rules rq =
     (let text = lower (fe_reason (rq_failure rq) @ '' '' @ fe_state (rq_failure rq)) in
      case find (\<lambda>(needles, _, _). list_ex (contains text) needles) rules of
        Some (needles, action, params) \<Rightarrow>
          \<lparr>de_action = action,
           de_diagnosis = ''rule matched on failure text: '' @ repr_of L (JStr (hd needles)),
           de_facts = [], de_hypotheses = [], de_params = params, de_confidence = Fin (5404319552844595 / 18014398509481984),
           de_refs = []\<rparr>
      | None \<Rightarrow> blocked ''no rule matched the failure text'')"

definition rule_decide :: "lib \<Rightarrow> rules \<Rightarrow> decision_request \<Rightarrow> ('w, exc, decision) act" where
  "rule_decide L rules rq = actret (rule_answer L rules rq)"

lemma rule_answer_ok:
  assumes "\<forall>(_, action, _) \<in> set rules. action \<in> set next_actions"
  shows "decision_ok (rule_answer L rules rq)"
proof (cases "find (\<lambda>(needles, _, _). list_ex (contains (lower (fe_reason (rq_failure rq) @ '' '' @
      fe_state (rq_failure rq)))) needles) rules")
  case None
  then show ?thesis
    by (simp add: rule_answer_def) (rule blocked_ok[of "CHR ''n''"], simp_all add: is_space_def)
next
  case (Some r)
  obtain ns a ps where r: "r = (ns, a, ps)" by (cases r)
  have "a \<in> set next_actions" using assms find_Some_D[OF Some] r by auto
  moreover have "strip (''rule matched on failure text: '' @ s) \<noteq> []" for s
    by (rule strip_nonempty[of "CHR ''r''"]) (simp_all add: is_space_def)
  ultimately show ?thesis
    using Some r by (simp add: rule_answer_def decision_ok_def del: append_Cons)
qed

interpretation rules: brain "rule_decide L default_rules" for L
proof unfold_locales
  fix rq :: decision_request and w w' :: 'a and d
  have "\<forall>(_, action, _) \<in> set default_rules. action \<in> set next_actions"
    by (simp add: default_rules_def next_actions_def)
  then have "decision_ok (rule_answer L default_rules rq)" by (rule rule_answer_ok)
  then show "rule_decide L default_rules rq w = (Inr d, w') \<Longrightarrow> decision_ok d"
    by (auto simp: rule_decide_def res_elims)
qed

text \<open>The guard of the budget never changes an answer while there is budget left.\<close>

lemma budget_left: "0 < rq_remaining rq \<Longrightarrow> decide_with_budget decide rq = decide rq"
  by (rule ext) (simp add: decide_with_budget_def actbind_def actret_def split: prod.splits sum.splits)

end
