(* ===== verification/Agent.thy ===== *)
theory Agent
  imports Brain
begin

text \<open>
  \<open>AgentBrain\<close> of \<open>engine/brain.py\<close>: the request is written into a fresh attempt, an external
  decider answers by a file, the answer is parsed and enforced, a rejected one is asked again once.

  What lies outside the process is the record \<open>outside\<close>: running a command (its result, or the
  exception \<open>subprocess.run\<close> raises, and what it does to the world), what others do to the world
  while the process sleeps, and the readings of \<open>time.monotonic()\<close>, which share the counter of the
  clock. Waiting in file mode may last for ever (an infinite timeout and no answer): the loop has
  fuel, and \<open>Diverges\<close> stands for a wait that outlives it; it is no Python exception and no
  handler of the source catches it. \<open>await_returns\<close> says when enough fuel exists.
\<close>

section \<open>Outside the process\<close>

record command_result =
  cr_returncode :: int
  cr_stdout :: string
  cr_stderr :: string

record 'w outside =
  ow_run :: "string list \<Rightarrow> (string \<times> string) list \<Rightarrow> 'w \<Rightarrow> (exc + command_result) \<times> 'w"
    \<comment> \<open>a command, and the variables added to its environment\<close>
  ow_sleep :: "'w \<Rightarrow> 'w"
  ow_mono :: "nat \<Rightarrow> rat"
  ow_fuel :: nat

record 'w agent =
  ag_workdir :: path
  ag_command :: "string list option"
  ag_timeout :: pyfloat
  ag_on_request :: "(path \<Rightarrow> path \<Rightarrow> ('w, exc, unit) act) option"
  ag_on_decision :: "(decision \<Rightarrow> ('w, exc, unit) act) option"

text \<open>The constructor: the working directory is resolved and checked.\<close>

definition agent_brain ::
  "lib \<Rightarrow> fs \<Rightarrow> path \<Rightarrow> string list option \<Rightarrow> pyfloat \<Rightarrow> (path \<Rightarrow> path \<Rightarrow> ('w, exc, unit) act) option \<Rightarrow>
     (decision \<Rightarrow> ('w, exc, unit) act) option \<Rightarrow> exc + 'w agent" where
  "agent_brain L f workdir command timeout on_request on_decision =
     rbind (ensure_external_path L f workdir) (\<lambda>p.
     Inr \<lparr>ag_workdir = p, ag_command = command, ag_timeout = timeout,
          ag_on_request = on_request, ag_on_decision = on_decision\<rparr>)"

section \<open>Waiting for the answer\<close>

text \<open>\<open>time.monotonic() + self.timeout_seconds\<close>\<close>

fun later :: "rat \<Rightarrow> pyfloat \<Rightarrow> pyfloat" where
  "later t (Fin s) = Fin (t + s)"
| "later t x = x"

definition mono_now :: "'a os_scheme outside \<Rightarrow> ('a os_scheme, exc, rat) act" where
  "mono_now env = (\<lambda>w. (Inr (ow_mono env (clock_reads w)), w\<lparr>clock_reads := Suc (clock_reads w)\<rparr>))"

fun await_until ::
  "'a os_scheme outside \<Rightarrow> nat \<Rightarrow> pyfloat \<Rightarrow> path \<Rightarrow> ('a os_scheme, exc, bool) act" where
  "await_until env 0 deadline p = actraise Diverges"
| "await_until env (Suc n) deadline p =
     actbind (mono_now env) (\<lambda>t.
     if \<not> float_less (Fin t) deadline then actret False
     else
       actbind (actread (\<lambda>w. path_exists (files w) p)) (\<lambda>there.
       if there then actret True
       else actbind (actwrite (ow_sleep env)) (\<lambda>_. await_until env n deadline p)))"

definition await_file ::
  "'a os_scheme outside \<Rightarrow> pyfloat \<Rightarrow> path \<Rightarrow> ('a os_scheme, exc, bool) act" where
  "await_file env timeout p =
     actbind (mono_now env) (\<lambda>t. await_until env (ow_fuel env) (later t timeout) p)"

section \<open>One question\<close>

datatype answer = Answered decision | Refused string

definition write_direct :: "path \<Rightarrow> string \<Rightarrow> ('a os_scheme, exc, unit) act" where
  "write_direct p s = fsop (put_file p s True)"

definition register_outcome ::
  "lib \<Rightarrow> path \<Rightarrow> attempt \<Rightarrow> string \<Rightarrow> ('a os_scheme, exc, unit) act" where
  "register_outcome L dir a outcome =
     actbind (register L dir (attempt_identity a) outcome [] None ''manifest.json'') (\<lambda>_. actret ())"

definition last_chars :: "nat \<Rightarrow> string \<Rightarrow> string" where
  "last_chars n s = drop (length s - n) s"

text \<open>\<open>response.read_text()\<close> parsed by \<open>json.loads\<close> and \<open>Decision.from_dict\<close>.\<close>

definition read_decision :: "lib \<Rightarrow> fs \<Rightarrow> path \<Rightarrow> exc + decision" where
  "read_decision L f p =
     rbind (read_bytes f p) (\<lambda>c.
     case json_loads L c of
       None \<Rightarrow> Inl (ValueError (Msg ''Expecting value'' []))
     | Some v \<Rightarrow> decision_from_dict v)"

definition rejected_answer :: "exc \<Rightarrow> bool" where
  "rejected_answer e \<longleftrightarrow> \<not> is_WritePolicyError e \<and>
     (is_OSError e \<or> is_ValueError e \<or> is_BrainError e)"

definition response_rel :: string where
  "response_rel = ''output/decision.json''"

text \<open>The \<open>try\<close> block that reads the answer.\<close>

definition take_answer ::
  "lib \<Rightarrow> 'a os_scheme agent \<Rightarrow> path \<Rightarrow> attempt \<Rightarrow> ('a os_scheme, exc, answer) act" where
  "take_answer L ag dir a =
     actcatch
       (actbind (actreadR (\<lambda>w. store_path L (files w) dir response_rel)) (\<lambda>_.
        actbind (actreadR (\<lambda>w. read_decision L (files w) (a_output a @ [''decision.json'']))) (\<lambda>d.
        actbind (register_outcome L dir a (de_action d)) (\<lambda>_.
        actbind (case ag_on_decision ag of None \<Rightarrow> actret () | Some h \<Rightarrow> h d) (\<lambda>_.
        actret (Answered d))))))
       (\<lambda>e. if rejected_answer e
          then Some (actbind (register_outcome L dir a ''BLOCKED'') (\<lambda>_.
            actret (Refused (''decider response rejected: '' @ exc_text L e))))
          else None)"

definition failed_run :: "exc \<Rightarrow> bool" where
  "failed_run e \<longleftrightarrow> is_OSError e \<or> e = TimeoutExpired"

text \<open>Command mode. The answer file is read afterwards in both modes.\<close>

definition ask_command ::
  "lib \<Rightarrow> 'a os_scheme outside \<Rightarrow> 'a os_scheme agent \<Rightarrow> string list \<Rightarrow> path \<Rightarrow> attempt \<Rightarrow>
     ('a os_scheme, exc, answer) act" where
  "ask_command L env ag command dir a =
     actbind
       (actcatch
         (actbind (ow_run env (command @ [path_str (a_input a @ [''decision_request.json'']),
              path_str (a_output a @ [''decision.json''])]) [(''PYTHONDONTWRITEBYTECODE'', ''1'')])
            (\<lambda>r. actret (Inr r)))
         (\<lambda>e. if failed_run e
            then Some (actbind (write_direct (a_logs a @ [''error.txt'']) (exc_text L e)) (\<lambda>_.
              actbind (register_outcome L dir a ''BLOCKED'') (\<lambda>_.
              actret (Inl (''decider command failed: '' @ exc_text L e)))))
            else None)) (\<lambda>res.
     case res of
       Inl why \<Rightarrow> actret (Refused why)
     | Inr r \<Rightarrow>
         actbind (write_direct (a_logs a @ [''stdout.log'']) (cr_stdout r)) (\<lambda>_.
         actbind (write_direct (a_logs a @ [''stderr.log'']) (cr_stderr r)) (\<lambda>_.
         if cr_returncode r \<noteq> 0
         then actbind (register_outcome L dir a ''BLOCKED'') (\<lambda>_.
           actret (Refused (''decider command failed: '' @ last_chars 300 (strip (cr_stderr r)))))
         else take_answer L ag dir a)))"

text \<open>File mode: an answer that does not appear in time blocks at once.\<close>

definition ask_file ::
  "lib \<Rightarrow> 'a os_scheme outside \<Rightarrow> 'a os_scheme agent \<Rightarrow> path \<Rightarrow> attempt \<Rightarrow>
     ('a os_scheme, exc, answer) act" where
  "ask_file L env ag dir a =
     actbind (await_file env (ag_timeout ag) (a_output a @ [''decision.json''])) (\<lambda>there.
     if there then take_answer L ag dir a
     else actbind (register_outcome L dir a ''BLOCKED'') (\<lambda>_.
       actret (Answered (blocked (''no decision.json appeared within '' @
         repr_of L (JFloat (ag_timeout ag)) @ ''s'')))))"

definition ask ::
  "lib \<Rightarrow> 'a os_scheme outside \<Rightarrow> 'a os_scheme agent \<Rightarrow> decision_request \<Rightarrow> attempt \<Rightarrow>
     ('a os_scheme, exc, answer) act" where
  "ask L env ag rq a =
     actbind (write_direct (a_input a @ [''decision_request.json''])
       (json_as L JsonIndented (JDict (decision_request_dict rq)))) (\<lambda>_.
     actbind (actreadR (\<lambda>w. ensure_external_path L (files w) (a_root a))) (\<lambda>dir.
     actbind (case ag_on_request ag of
         None \<Rightarrow> actret ()
       | Some h \<Rightarrow> h (a_input a @ [''decision_request.json'']) (a_output a @ [''decision.json'']))
       (\<lambda>_.
     case ag_command ag of
       Some (c # cs) \<Rightarrow> ask_command L env ag (c # cs) dir a
     | _ \<Rightarrow> ask_file L env ag dir a)))"

section \<open>decide\<close>

text \<open>\<open>for attempt in range(2)\<close>: a refusal is asked again while questions are left. The
  \<open>RunPaths\<close> object keeps the run identity that the first attempt found or made.\<close>

fun ask_times ::
  "lib \<Rightarrow> 'a os_scheme outside \<Rightarrow> 'a os_scheme agent \<Rightarrow> decision_request \<Rightarrow> run_paths \<Rightarrow> nat \<Rightarrow>
     ('a os_scheme, exc, decision) act" where
  "ask_times L env ag rq rp 0 = actret (blocked ''decider did not answer'')"
| "ask_times L env ag rq rp (Suc n) =
     actbind (allocate_attempt L rp ''decision'') (\<lambda>a.
     actbind (ask L env ag rq a) (\<lambda>ans.
     case ans of
       Answered d \<Rightarrow> actret d
     | Refused why \<Rightarrow>
         if n = 0 then actret (blocked why)
         else ask_times L env ag rq (rp\<lparr>rp_run := Some (a_run a)\<rparr>) n))"

definition agent_decide ::
  "lib \<Rightarrow> 'a os_scheme outside \<Rightarrow> 'a os_scheme agent \<Rightarrow> decision_request \<Rightarrow>
     ('a os_scheme, exc, decision) act" where
  "agent_decide L env ag rq =
     actbind (actreadR (\<lambda>w. mk_run_paths L (files w) (ag_workdir ag) None)) (\<lambda>rp.
     ask_times L env ag rq rp 2)"

section \<open>brain\_from\_config\<close>

datatype 'w brain_choice = UseRules rules | UseAgent "'w agent"

text \<open>\<open>s.split()\<close>\<close>

fun split_words :: "string \<Rightarrow> string \<Rightarrow> string list" where
  "split_words acc [] = (if acc = [] then [] else [rev acc])"
| "split_words acc (c # s) =
     (if is_space c then (if acc = [] then split_words [] s else rev acc # split_words [] s)
      else split_words (c # acc) s)"

definition words :: "string \<Rightarrow> string list" where
  "words s = split_words [] s"

text \<open>The command of the configuration: a string is split, a list of strings is taken as it is,
  and a falsy value means file mode. (A list with other elements would fail in
  \<open>subprocess.run\<close>.)\<close>

definition config_command :: "pyval \<Rightarrow> string list option" where
  "config_command v = (case v of
      JStr s \<Rightarrow> Some (words s)
    | JList xs \<Rightarrow> Some (map (\<lambda>x. str_or x []) xs)
    | _ \<Rightarrow> None)"

definition brain_from_config ::
  "lib \<Rightarrow> fs \<Rightarrow> pydict \<Rightarrow> path \<Rightarrow> (path \<Rightarrow> path \<Rightarrow> ('w, exc, unit) act) option \<Rightarrow>
     (decision \<Rightarrow> ('w, exc, unit) act) option \<Rightarrow> exc + 'w brain_choice" where
  "brain_from_config L f config workdir on_request on_decision =
     (let kind = dget_or config ''brain'' (JStr ''rule'') in
      if kind = JStr ''rule'' then Inr (UseRules (rules_or_default None))
      else if kind = JStr ''agent'' then
        rbind (py_float L (dget_or config ''decide_timeout'' (JInt 600))) (\<lambda>t.
        rbind (agent_brain L f workdir (config_command (dget config ''decide_command'')) t
          on_request on_decision) (\<lambda>ag. Inr (UseAgent ag)))
      else Inl (BrainError (Msg ''unknown brain type'' [kind])))"

section \<open>What is answered\<close>

lemma read_decision_ok: "read_decision L f p = Inr d \<Longrightarrow> decision_ok d"
  by (auto simp: read_decision_def rbind_eq_Inr decision_from_dict_ok split: option.splits)

text \<open>An answer comes from the response file of the attempt, or blocks.\<close>

definition answered_by :: "lib \<Rightarrow> attempt \<Rightarrow> decision \<Rightarrow> bool" where
  "answered_by L a d \<longleftrightarrow> decision_ok d \<and>
     (de_action d = ''BLOCKED'' \<or>
      (\<exists>f. read_decision L f (a_output a @ [''decision.json'']) = Inr d))"

lemma refusal_ok: "decision_ok (blocked (''decider command failed: '' @ s))"
    "decision_ok (blocked (''decider response rejected: '' @ s))"
    "decision_ok (blocked (''no decision.json appeared within '' @ s))"
    "decision_ok (blocked ''decider did not answer'')"
  by (rule blocked_ok[of "CHR ''d''"], simp_all add: is_space_def)+

definition plain_refusal :: "string \<Rightarrow> bool" where
  "plain_refusal why \<longleftrightarrow> decision_ok (blocked why)"

definition answer_ok :: "lib \<Rightarrow> attempt \<Rightarrow> answer \<Rightarrow> bool" where
  "answer_ok L a ans = (case ans of Answered d \<Rightarrow> answered_by L a d | Refused why \<Rightarrow> plain_refusal why)"

lemma answer_ok_simps [simp]:
  "answer_ok L a (Answered d) \<longleftrightarrow> answered_by L a d"
  "answer_ok L a (Refused why) \<longleftrightarrow> plain_refusal why"
  by (simp_all add: answer_ok_def)

lemma blocked_action [simp]: "de_action (blocked s) = ''BLOCKED''"
  by (simp add: blocked_def)

lemma actcatch_returns:
  "actcatch m h w = (Inr x, w') \<longleftrightarrow> m w = (Inr x, w') \<or>
     (\<exists>e w1 k. m w = (Inl e, w1) \<and> h e = Some k \<and> k w1 = (Inr x, w'))"
  by (auto simp: actcatch_def split: prod.splits sum.splits option.splits)

lemma take_answer_ok: "take_answer L ag dir a w = (Inr ans, w') \<Longrightarrow> answer_ok L a ans"
  unfolding take_answer_def actcatch_returns
  by (auto simp: res_elims answered_by_def plain_refusal_def refusal_ok read_decision_ok
      simp del: append_Cons split: if_splits)

lemma ask_command_ok: "ask_command L env ag cmd dir a w = (Inr ans, w') \<Longrightarrow> answer_ok L a ans"
  by (auto simp: ask_command_def actcatch_returns res_elims take_answer_ok plain_refusal_def
      refusal_ok simp del: append_Cons split: if_splits sum.splits)

lemma ask_file_ok: "ask_file L env ag dir a w = (Inr ans, w') \<Longrightarrow> answer_ok L a ans"
  by (auto simp: ask_file_def res_elims take_answer_ok answered_by_def
      refusal_ok simp del: append_Cons split: if_splits)

lemma ask_ok: "ask L env ag rq a w = (Inr ans, w') \<Longrightarrow> answer_ok L a ans"
  by (cases "ag_command ag"; cases "the (ag_command ag)")
    (auto simp: ask_def res_elims ask_file_ok ask_command_ok)

lemma allocate_owner:
  "allocate_attempt L rp tid w = (Inr a, w') \<Longrightarrow> a_task a = tid \<and> prefix (rp_root rp) (a_root a)"
  by (auto simp: allocate_attempt_def Let_def res_elims simp del: free_number.simps
      split: if_splits option.splits)

lemma ask_times_ok:
  assumes "ask_times L env ag rq rp n w = (Inr d, w')"
  shows "\<exists>a. answered_by L a d \<and> (de_action d \<noteq> ''BLOCKED'' \<longrightarrow> a_task a = ''decision'' \<and> prefix (rp_root rp) (a_root a))"
  using assms
proof (induction L env ag rq rp n arbitrary: w rule: ask_times.induct)
  case (1 L env ag rq rp)
  then show ?case by (auto simp: res_elims answered_by_def refusal_ok)
next
  case (2 L env ag rq rp n)
  from "2.prems" obtain a w1 ans w2 where a: "allocate_attempt L rp ''decision'' w = (Inr a, w1)"
      "ask L env ag rq a w1 = (Inr ans, w2)" and
    r: "(case ans of Answered d \<Rightarrow> actret d
       | Refused why \<Rightarrow> if n = 0 then actret (blocked why)
         else ask_times L env ag rq (rp\<lparr>rp_run := Some (a_run a)\<rparr>) n) w2 = (Inr d, w')"
    by (auto simp: res_elims)
  show ?case
  proof (cases ans)
    case (Answered x)
    then show ?thesis using r allocate_owner[OF a(1)] ask_ok[OF a(2)] by (auto simp: res_elims)
  next
    case (Refused why)
    show ?thesis
    proof (cases "n = 0")
      case True
      then show ?thesis using r Refused ask_ok[OF a(2)]
        by (auto simp: res_elims plain_refusal_def answered_by_def)
    next
      case False
      have "ask_times L env ag rq (rp\<lparr>rp_run := Some (a_run a)\<rparr>) n w2 = (Inr d, w')"
        using r Refused False by simp
      from "2.IH"[OF False this] show ?thesis by simp
    qed
  qed
qed

lemma agent_answers:
  assumes "agent_decide L env ag rq w = (Inr d, w')"
  shows "decision_ok d \<and> (de_action d \<noteq> ''BLOCKED'' \<longrightarrow>
    (\<exists>a f. a_task a = ''decision'' \<and> read_decision L f (a_output a @ [''decision.json'']) = Inr d))"
  using assms unfolding agent_decide_def
  by (auto simp: res_elims answered_by_def dest!: ask_times_ok)

interpretation agent: brain "agent_decide L env ag" for L env ag
  by unfold_locales (blast dest: agent_answers)

section \<open>Waiting ends\<close>

lemma await_until_returns:
  assumes "\<And>w. clock_reads (ow_sleep env w) = clock_reads w"
    and "k < n" "\<not> float_less (Fin (ow_mono env (clock_reads w + k))) deadline"
  shows "\<exists>b w'. await_until env n deadline p w = (Inr b, w')"
  using assms(2,3)
proof (induction n arbitrary: k w)
  case 0
  then show ?case by simp
next
  case (Suc n)
  show ?case
  proof (cases "float_less (Fin (ow_mono env (clock_reads w))) deadline")
    case False
    then show ?thesis by (simp add: actbind_def mono_now_def actret_def exI[of _ False])
  next
    case True
    then obtain j where j: "k = Suc j" using Suc.prems(2) by (cases k) auto
    let ?w = "ow_sleep env (w\<lparr>clock_reads := Suc (clock_reads w)\<rparr>)"
    have "\<exists>b w'. await_until env n deadline p ?w = (Inr b, w')"
      by (rule Suc.IH[of j]) (use Suc.prems j assms(1) in auto)
    then show ?thesis
      using True by (auto simp: actbind_def mono_now_def actret_def actread_def actwrite_def)
  qed
qed

text \<open>Waiting for a decider ends: when the monotonic clock passes the deadline within the fuel,
  whatever others do meanwhile, the wait returns, with or without an answer.\<close>

theorem await_returns:
  assumes "\<And>w. clock_reads (ow_sleep env w) = clock_reads w" "k < ow_fuel env"
    "ow_mono env (clock_reads w) + timeout \<le> ow_mono env (clock_reads w + Suc k)"
  shows "\<exists>b w'. await_file env (Fin timeout) p w = (Inr b, w')"
proof -
  let ?w = "w\<lparr>clock_reads := Suc (clock_reads w)\<rparr>"
  have "\<exists>b w'. await_until env (ow_fuel env) (later (ow_mono env (clock_reads w)) (Fin timeout)) p ?w = (Inr b, w')"
    by (rule await_until_returns[OF assms(1,2)]) (use assms(3) in simp)
  then show ?thesis by (simp add: await_file_def actbind_def mono_now_def)
qed

definition quiet_outside :: "os outside" where
  "quiet_outside = \<lparr>ow_run = (\<lambda>_ _ w. (Inl (OSError (Msg ''no such command'' [])), w)), ow_sleep = (\<lambda>w. w),
     ow_mono = of_nat, ow_fuel = 5\<rparr>"

definition quiet_world :: os where
  "quiet_world = \<lparr>files = [], clock_reads = 0, ids_drawn = 0\<rparr>"

lemma await_returns_witness:
  "\<exists>b w'. await_file quiet_outside (Fin 3) [''x''] quiet_world = (Inr b, w')"
  by (rule await_returns[of _ 3]) (simp_all add: quiet_outside_def quiet_world_def)

end
