(* ===== verification/Recovery.thy ===== *)
theory Recovery
  imports Agent
begin

text \<open>
  \<open>engine/recovery.py\<close>: the loop that asks a brain about a failed node, performs the action it
  chose or reruns the node, and stops when the node's own validator passes, the brain blocks, an
  action has no executor, or the budget is spent; and the executors of the self-contained actions.
  The rerun, the registry of actions and the brain are arguments, as they are of the controller.
\<close>

section \<open>Outcome\<close>

record outcome =
  ro_status :: string
  ro_attempts :: "pydict list"
  ro_final_state :: string
  ro_last :: "decision option"
  ro_final_artifacts :: string
  ro_recovery_artifacts :: string

definition outcome_dict :: "outcome \<Rightarrow> pydict" where
  "outcome_dict o' =
     [(''status'', JStr (ro_status o')), (''attempts'', JList (map JDict (ro_attempts o'))),
      (''final_state'', JStr (ro_final_state o')),
      (''final_artifacts'', JStr (ro_final_artifacts o')),
      (''recovery_artifacts'', JStr (ro_recovery_artifacts o')),
      (''last_decision'', case ro_last o' of None \<Rightarrow> JNone | Some d \<Rightarrow> JDict (decision_dict d))]"

definition fresh_outcome :: "string \<Rightarrow> outcome" where
  "fresh_outcome st = \<lparr>ro_status = ''BLOCKED'', ro_attempts = [], ro_final_state = st, ro_last = None,
     ro_final_artifacts = [], ro_recovery_artifacts = []\<rparr>"

text \<open>\<open>history.append({"decision": ..., "outcome": ..., **extra})\<close>\<close>

definition note_attempt :: "decision \<Rightarrow> string \<Rightarrow> pydict \<Rightarrow> outcome \<Rightarrow> outcome" where
  "note_attempt d what extra o' = o'\<lparr>ro_last := Some d,
     ro_attempts := ro_attempts o' @
       [[(''decision'', JDict (decision_dict d)), (''outcome'', JStr what)] @ extra]\<rparr>"

section \<open>The loop\<close>

type_synonym 'w decider = "decision_request \<Rightarrow> ('w, exc, decision) act"
type_synonym 'w rerun = "decision \<Rightarrow> ('w, exc, bool \<times> string) act"
type_synonym 'w executors = "string \<Rightarrow> (decision \<Rightarrow> ('w, exc, pyval) act) option"

text \<open>The request of one round: the history so far, what is left of the budget, and the default
  list of actions.\<close>

definition round_request :: "decision_request \<Rightarrow> outcome \<Rightarrow> nat \<Rightarrow> decision_request" where
  "round_request rq o' remaining =
     rq\<lparr>rq_history := ro_attempts o', rq_actions := next_actions, rq_remaining := int remaining\<rparr>"

text \<open>\<open>executor(decision)\<close> under \<open>except Exception\<close>.\<close>

definition try_executor ::
  "lib \<Rightarrow> (decision \<Rightarrow> ('w, exc, pyval) act) \<Rightarrow> decision \<Rightarrow> ('w, exc, string + pyval) act" where
  "try_executor L ex d =
     actcatch (actbind (ex d) (\<lambda>r. actret (Inr r)))
       (\<lambda>e. if e = Diverges then None else Some (actret (Inl (exc_text L e))))"

fun recover_loop ::
  "lib \<Rightarrow> 'w decider \<Rightarrow> 'w rerun \<Rightarrow> 'w executors \<Rightarrow> decision_request \<Rightarrow> nat \<Rightarrow> outcome \<Rightarrow>
     ('w, exc, outcome) act" where
  "recover_loop L decide rerun actions rq 0 o' = actret o'"
| "recover_loop L decide rerun actions rq (Suc n) o' =
     actbind (decide_with_budget decide (round_request rq o' (Suc n))) (\<lambda>d.
     if de_action d = ''BLOCKED'' then actret (note_attempt d ''blocked'' [] o')
     else if de_action d \<in> set rerun_actions then
       actbind (rerun d) (\<lambda>(passed, st).
       let o1 = o'\<lparr>ro_final_state := st\<rparr> in
       if passed
       then actret (note_attempt d ''node_passed'' [(''state'', JStr st)] (o1\<lparr>ro_status := ''RECOVERED''\<rparr>))
       else recover_loop L decide rerun actions rq n
         (note_attempt d ''node_still_failing'' [(''state'', JStr st)] o1))
     else (case actions (de_action d) of
         None \<Rightarrow> actret (note_attempt d ''no_executor_registered'' [] o')
       | Some ex \<Rightarrow>
           actbind (try_executor L ex d) (\<lambda>res.
           recover_loop L decide rerun actions rq n
             (case res of
                Inr r \<Rightarrow> note_attempt d ''action_complete'' [(''result'', r)] o'
              | Inl e \<Rightarrow> note_attempt d ''action_failed'' [(''error'', JStr e)] o'))))"

text \<open>The constructor's check and \<open>recover\<close>.\<close>

definition recover_node ::
  "lib \<Rightarrow> 'w decider \<Rightarrow> 'w rerun \<Rightarrow> 'w executors \<Rightarrow> int \<Rightarrow> decision_request \<Rightarrow>
     ('w, exc, outcome) act" where
  "recover_node L decide rerun actions budget rq =
     (if budget < 1
      then actraise (ValueError (Msg ''recovery budget must be at least 1'' []))
      else recover_loop L decide rerun actions rq (nat budget)
        (fresh_outcome (fe_state (rq_failure rq))))"

section \<open>The executors of default\_actions\<close>

text \<open>\<open>_run\<close>. (The \<open>RunPaths\<close> object remembers the run identity between the actions of one
  process; here each action reads it from the marker.)\<close>

definition run_action ::
  "lib \<Rightarrow> 'a os_scheme outside \<Rightarrow> run_paths \<Rightarrow> pydict option \<Rightarrow> string list \<Rightarrow> string \<Rightarrow>
     ('a os_scheme, exc, pyval) act" where
  "run_action L env rp skill command0 action =
     actbind (allocate_attempt L rp action) (\<lambda>a.
     let command = command0 @ [''--out'', path_str (a_output a)];
         skill_path = a_input a @ [''skill.json''];
         extra = (''PYTHONDONTWRITEBYTECODE'', ''1'') #
           (if skill = None then [] else [(''INFER_FORGE_SKILL_CONTRACT'', path_str skill_path)]) in
     actbind (write_direct (a_input a @ [''command.json''])
       (json_dumps L (JList (map JStr command)))) (\<lambda>_.
     actbind (case skill of
         None \<Rightarrow> actret ()
       | Some s \<Rightarrow> write_direct skill_path (json_as L JsonIndented (JDict s) @ [CHR 0x0A])) (\<lambda>_.
     actbind
       (actcatch (ow_run env command extra)
         (\<lambda>e. if is_OSError e
            then Some (actbind (write_direct (a_logs a @ [''error.txt'']) (exc_text L e)) (\<lambda>_.
              actbind (actreadR (\<lambda>w. ensure_external_path L (files w) (a_root a))) (\<lambda>dir.
              actbind (register_outcome L dir a ''BLOCKED'') (\<lambda>_. actraise e))))
            else None)) (\<lambda>r.
     actbind (write_direct (a_logs a @ [''stdout.log'']) (cr_stdout r)) (\<lambda>_.
     actbind (write_direct (a_logs a @ [''stderr.log'']) (cr_stderr r)) (\<lambda>_.
     actbind (actreadR (\<lambda>w. ensure_external_path L (files w) (a_root a))) (\<lambda>dir.
     actbind (register_outcome L dir a (if cr_returncode r = 0 then ''EXECUTED'' else ''REWORK'')) (\<lambda>_.
     actret (JDict [(''returncode'', JInt (cr_returncode r)),
       (''artifacts'', JStr (path_str (a_output a))),
       (''stdout_tail'', JStr (last_chars 500 (strip (cr_stdout r)))),
       (''stderr_tail'', JStr (last_chars 500 (strip (cr_stderr r))))])))))))))"

definition pod_option :: "(string \<times> string) list \<Rightarrow> string list" where
  "pod_option context = (case map_of context ''pod'' of Some (c # s) \<Rightarrow> [''--pod'', c # s] | _ \<Rightarrow> [])"

definition action_command :: "(string \<times> string) list \<Rightarrow> string \<Rightarrow> (string list \<times> string) option" where
  "action_command context action =
     (if action = ''RUN_TRIAGE''
      then Some ([''python3'', ''cli/operators/triage.py''] @ pod_option context, ''triage'')
      else if action = ''PLACE_PATCH''
      then Some ([''python3'', ''cli/operators/place_patch.py''] @ pod_option context, ''patch'')
      else if action = ''DISPATCH_OPERATOR_TASK''
      then Some ([''python3'', ''cli/operators/operator_lifecycle.py'', ''dispatch'', ''--subject'',
             (case map_of context ''subject'' of None \<Rightarrow> [] | Some s \<Rightarrow> s)], ''operator_dispatch'')
      else if action = ''REDISCOVER''
      then Some ([''python3'', ''cli/discovery/scan_model_support.py''], ''rediscover'')
      else None)"

text \<open>The registry itself; its paths are made when it is built.\<close>

definition default_actions ::
  "lib \<Rightarrow> 'a os_scheme outside \<Rightarrow> fs \<Rightarrow> (string \<times> string) list \<Rightarrow> path \<Rightarrow> pydict option \<Rightarrow>
     exc + 'a os_scheme executors" where
  "default_actions L env f context run_dir skill =
     rbind (ensure_external_path L f run_dir) (\<lambda>p.
     rbind (mk_run_paths L f (p @ [''actions'']) None) (\<lambda>rp.
     Inr (\<lambda>action. map_option (\<lambda>(command, name) _. run_action L env rp skill command name)
       (action_command context action))))"

section \<open>What the loop guarantees\<close>

definition ends_well :: "'w rerun \<Rightarrow> outcome \<Rightarrow> 'w \<Rightarrow> bool" where
  "ends_well rerun o' w' \<longleftrightarrow>
     (if ro_status o' = ''RECOVERED''
      then \<exists>d w1. de_action d \<in> set rerun_actions \<and> ro_last o' = Some d \<and>
        rerun d w1 = (Inr (True, ro_final_state o'), w')
      else ro_status o' = ''BLOCKED'')"

lemma note_attempt_simps [simp]:
  "ro_status (note_attempt d what x o') = ro_status o'"
  "ro_final_state (note_attempt d what x o') = ro_final_state o'"
  "ro_last (note_attempt d what x o') = Some d"
  "length (ro_attempts (note_attempt d what x o')) = Suc (length (ro_attempts o'))"
  by (simp_all add: note_attempt_def)

lemma round_request_remaining [simp]: "rq_remaining (round_request rq o' n) = int n"
  by (simp add: round_request_def)

lemma recover_loop_sound:
  assumes "recover_loop L decide rerun actions rq n o1 w = (Inr o', w')" "ro_status o1 = ''BLOCKED''"
  shows "length (ro_attempts o') \<le> length (ro_attempts o1) + n \<and>
    length (ro_attempts o1) + min n 1 \<le> length (ro_attempts o') \<and> ends_well rerun o' w'"
  using assms
proof (induction L decide rerun actions rq n o1 arbitrary: w rule: recover_loop.induct)
  case (1 L decide rerun actions rq o1)
  then show ?case by (auto simp: res_elims ends_well_def)
next
  case (2 L decide rerun actions rq n o1)
  from "2.prems"(1) obtain d w1 where d: "decide_with_budget decide (round_request rq o1 (Suc n)) w = (Inr d, w1)"
    and rest: "(if de_action d = ''BLOCKED'' then actret (note_attempt d ''blocked'' [] o1)
     else if de_action d \<in> set rerun_actions then
       actbind (rerun d) (\<lambda>(passed, st).
       let o1 = o1\<lparr>ro_final_state := st\<rparr> in
       if passed
       then actret (note_attempt d ''node_passed'' [(''state'', JStr st)] (o1\<lparr>ro_status := ''RECOVERED''\<rparr>))
       else recover_loop L decide rerun actions rq n
         (note_attempt d ''node_still_failing'' [(''state'', JStr st)] o1))
     else (case actions (de_action d) of
         None \<Rightarrow> actret (note_attempt d ''no_executor_registered'' [] o1)
       | Some ex \<Rightarrow>
           actbind (try_executor L ex d) (\<lambda>res.
           recover_loop L decide rerun actions rq n
             (case res of
                Inr r \<Rightarrow> note_attempt d ''action_complete'' [(''result'', r)] o1
              | Inl e \<Rightarrow> note_attempt d ''action_failed'' [(''error'', JStr e)] o1)))) w1 = (Inr o', w')"
    by (auto simp: actbind_returns)
  consider (blocked) "de_action d = ''BLOCKED''" | (rerun) "de_action d \<noteq> ''BLOCKED''" "de_action d \<in> set rerun_actions"
    | (act) "de_action d \<noteq> ''BLOCKED''" "de_action d \<notin> set rerun_actions" by blast
  then show ?case
  proof cases
    case blocked
    then show ?thesis using rest "2.prems"(2) by (auto simp: res_elims ends_well_def)
  next
    case rerun
    then obtain passed st w2 where r: "rerun d w1 = (Inr (passed, st), w2)" and
      k: "(if passed
       then actret (note_attempt d ''node_passed'' [(''state'', JStr st)] (o1\<lparr>ro_final_state := st, ro_status := ''RECOVERED''\<rparr>))
       else recover_loop L decide rerun actions rq n
         (note_attempt d ''node_still_failing'' [(''state'', JStr st)] (o1\<lparr>ro_final_state := st\<rparr>))) w2 = (Inr o', w')"
      using rest by (auto simp: actbind_returns Let_def)
    show ?thesis
    proof (cases passed)
      case True
      then show ?thesis using k r rerun(2) by (auto simp: res_elims ends_well_def)
    next
      case False
      then have "recover_loop L decide rerun actions rq n
         (note_attempt d ''node_still_failing'' [(''state'', JStr st)] (o1\<lparr>ro_final_state := st\<rparr>)) w2 = (Inr o', w')"
        using k by simp
      from "2.IH"(1)[OF rerun refl False this] "2.prems"(2) show ?thesis by auto
    qed
  next
    case act
    show ?thesis
    proof (cases "actions (de_action d)")
      case None
      then show ?thesis using rest act "2.prems"(2) by (auto simp: res_elims ends_well_def)
    next
      case (Some ex)
      then obtain res w2 where k: "recover_loop L decide rerun actions rq n
             (case res of
                Inr r \<Rightarrow> note_attempt d ''action_complete'' [(''result'', r)] o1
              | Inl e \<Rightarrow> note_attempt d ''action_failed'' [(''error'', JStr e)] o1) w2 = (Inr o', w')"
        using rest act by (auto simp: actbind_returns)
      from "2.IH"(2)[OF act Some k] "2.prems"(2) show ?thesis by (cases res) auto
    qed
  qed
qed


definition oom_request :: decision_request where
  "oom_request = \<lparr>rq_model = ''m'', rq_backend = ''b'',
     rq_failure = \<lparr>fe_node = ''serve'', fe_state = ''FAILED'', fe_reason = ''CUDA OOM'', fe_artifacts = [],
       fe_environment = []\<rparr>,
     rq_history = [], rq_actions = next_actions, rq_remaining = 2, rq_context = [], rq_skill = []\<rparr>"

text \<open>A node that passes on its second rerun.\<close>

definition second_time :: "nat rerun" where
  "second_time d = (\<lambda>n. (Inr (1 \<le> n, if 1 \<le> n then ''PASS'' else ''FAILED''), Suc n))"

definition demo_recovery :: "(exc + outcome) \<times> nat" where
  "demo_recovery = recover_node demo_lib (rule_decide demo_lib default_rules) second_time (\<lambda>_. None) 3
     oom_request 0"

definition recovered_at :: "nat \<Rightarrow> (exc + outcome) \<times> nat \<Rightarrow> bool" where
  "recovered_at n x = (case x of
      (Inr o', k) \<Rightarrow> ro_status o' = ''RECOVERED'' \<and> length (ro_attempts o') = n
    | _ \<Rightarrow> False)"

lemma demo_recovery_at: "recovered_at 2 demo_recovery"
  by code_simp




text \<open>What every brain guarantees of a recovery: the decisions it recorded satisfy the contract.\<close>

definition attempts_ok :: "outcome \<Rightarrow> bool" where
  "attempts_ok o' \<longleftrightarrow> (\<forall>a \<in> set (ro_attempts o').
     \<exists>d. decision_ok d \<and> dget a ''decision'' = JDict (decision_dict d))"

lemma attempts_ok_note: "attempts_ok o' \<Longrightarrow> decision_ok d \<Longrightarrow> attempts_ok (note_attempt d what x o')"
  by (auto simp: attempts_ok_def note_attempt_def dget_def)

lemma attempts_ok_cong: "ro_attempts o2 = ro_attempts o1 \<Longrightarrow> attempts_ok o2 = attempts_ok o1"
  by (simp add: attempts_ok_def)

text \<open>One round notes one decision, and either ends or goes on.\<close>

lemma recover_round:
  assumes "recover_loop L decide rerun actions rq (Suc n) o1 w = (Inr o', w')"
  shows "\<exists>d w1 what x o2 w2. decide_with_budget decide (round_request rq o1 (Suc n)) w = (Inr d, w1) \<and>
    ro_attempts o2 = ro_attempts o1 \<and> (o' = note_attempt d what x o2 \<or>
      recover_loop L decide rerun actions rq n (note_attempt d what x o2) w2 = (Inr o', w'))"
proof -
  from assms obtain d w1 where d: "decide_with_budget decide (round_request rq o1 (Suc n)) w = (Inr d, w1)"
    by (auto simp: actbind_returns)
  have "\<exists>what x o2 w2. ro_attempts o2 = ro_attempts o1 \<and> (o' = note_attempt d what x o2 \<or>
      recover_loop L decide rerun actions rq n (note_attempt d what x o2) w2 = (Inr o', w'))"
  proof (cases "de_action d = ''BLOCKED''")
    case True
    then have "o' = note_attempt d ''blocked'' [] o1" using assms d by (auto simp: res_elims)
    then show ?thesis by blast
  next
    case B: False
    show ?thesis
    proof (cases "de_action d \<in> set rerun_actions")
      case True
      then obtain passed st w2 where "(if passed
         then actret (note_attempt d ''node_passed'' [(''state'', JStr st)] (o1\<lparr>ro_final_state := st, ro_status := ''RECOVERED''\<rparr>))
         else recover_loop L decide rerun actions rq n
           (note_attempt d ''node_still_failing'' [(''state'', JStr st)] (o1\<lparr>ro_final_state := st\<rparr>))) w2 = (Inr o', w')"
        using assms d B by (auto simp: actbind_returns Let_def)
      moreover have "ro_attempts (o1\<lparr>ro_final_state := st, ro_status := ''RECOVERED''\<rparr>) = ro_attempts o1"
        "ro_attempts (o1\<lparr>ro_final_state := st\<rparr>) = ro_attempts o1" by simp_all
      ultimately show ?thesis by (cases passed) (simp only: if_True if_False actret_returns, metis)+
    next
      case R: False
      show ?thesis
      proof (cases "actions (de_action d)")
        case None
        then have "o' = note_attempt d ''no_executor_registered'' [] o1" using assms d B R by (auto simp: res_elims)
        then show ?thesis by blast
      next
        case (Some ex)
        then obtain res w2 where "recover_loop L decide rerun actions rq n
             (case res of
                Inr r \<Rightarrow> note_attempt d ''action_complete'' [(''result'', r)] o1
              | Inl e \<Rightarrow> note_attempt d ''action_failed'' [(''error'', JStr e)] o1) w2 = (Inr o', w')"
          using assms d B R by (auto simp: actbind_returns)
        then show ?thesis by (cases res) (simp, blast)+
      qed
    qed
  qed
  then show ?thesis using d by blast
qed

context brain
begin

lemma recover_loop_decisions:
  "recover_loop L decide rerun actions rq n o1 w = (Inr o', w') \<Longrightarrow> attempts_ok o1 \<Longrightarrow> attempts_ok o'"
proof (induction n arbitrary: o1 w)
  case 0
  then show ?case by (simp add: res_elims)
next
  case (Suc n)
  from recover_round[OF Suc.prems(1)] obtain d w1 what x o2 w2 where
    d: "decide (round_request rq o1 (Suc n)) w = (Inr d, w1)" and o2: "ro_attempts o2 = ro_attempts o1" and
    k: "o' = note_attempt d what x o2 \<or>
      recover_loop L decide rerun actions rq n (note_attempt d what x o2) w2 = (Inr o', w')"
    by (simp add: budget_left) blast
  have "attempts_ok (note_attempt d what x o2)"
    using attempts_ok_note answers_ok[OF d] Suc.prems(2) attempts_ok_cong[OF o2] by blast
  then show ?case using k Suc.IH by blast
qed

lemma recover_decisions:
  "recover_node L decide rerun actions budget rq w = (Inr o', w') \<Longrightarrow> attempts_ok o'"
  using recover_loop_decisions
  by (fastforce simp: recover_node_def res_elims fresh_outcome_def attempts_ok_def split: if_splits)

end

end
