(* ===== verification/RecoveryClaims.thy ===== *)
theory RecoveryClaims
  imports Recovery
begin

text \<open>
  Properties of the agent brain and of recoveries driven by it, with a concrete decider that answers
  RETRY through its response file.
\<close>


definition answer_lib :: lib where
  "answer_lib = sample_lib [(''ans'', JDict [(''next_action'', JStr ''RETRY''), (''diagnosis'', JStr ''flaky''),
     (''confidence'', JBool True)])]"

definition answering_outside :: "os outside" where
  "answering_outside = quiet_outside\<lparr>ow_run := (\<lambda>command _ w. (Inr \<lparr>cr_returncode = 0, cr_stdout = [], cr_stderr = []\<rparr>,
     w\<lparr>files := set_node (files w) (path_parts (last command)) (File ''ans'')\<rparr>))\<rparr>"

definition answering_agent :: "os agent" where
  "answering_agent = \<lparr>ag_workdir = [''data'', ''wd''], ag_command = Some [''decide''], ag_timeout = Fin 600,
     ag_on_request = None, ag_on_decision = None\<rparr>"

definition demo_answer :: "(exc + decision) \<times> os" where
  "demo_answer = agent_decide answer_lib answering_outside answering_agent oom_request quiet_world"

lemma demo_answer_retry: "returned (\<lambda>d. de_action d = ''RETRY'') demo_answer"
  by code_simp



definition passing_rerun :: "os rerun" where
  "passing_rerun d = (\<lambda>w. (Inr (True, ''PASS''), w))"


end
