(* ===== verification/Journal.thy ===== *)
theory Journal
  imports SampleLib FileGrowth
begin

text \<open>
  \<open>engine/state/journal.py\<close>: an append-only file of facts, one JSON document per line, and the
  query for the facts of a kind, a subject and an environment, the most recent first. A recorded
  entry is found again (\<open>journal_latest_recorded\<close>) as long as it fills one line; \<open>journal_line_separator\<close>
  shows what happens when it does not.
\<close>

section \<open>Lines\<close>

text \<open>\<open>str.splitlines()\<close> splits at every line boundary of Unicode; below code point 256 these are
  line feed, vertical tab, form feed, carriage return (with a line feed after it), the three
  separators 28 to 30 and the next-line character 133.\<close>

definition is_linebreak :: "char \<Rightarrow> bool" where
  "is_linebreak c \<longleftrightarrow> (of_char c :: nat) \<in> {10, 11, 12, 13, 28, 29, 30, 133}"

fun lines_from :: "string \<Rightarrow> string \<Rightarrow> string list" where
  "lines_from acc [] = (if acc = [] then [] else [rev acc])"
| "lines_from acc [c] = (if is_linebreak c then [rev acc] else [rev (c # acc)])"
| "lines_from acc (c # d # s) =
     (if of_char c = (13::nat) \<and> of_char d = (10::nat) then rev acc # lines_from [] s
      else if is_linebreak c then rev acc # lines_from [] (d # s)
      else lines_from (c # acc) (d # s))"

definition splitlines :: "string \<Rightarrow> string list" where
  "splitlines s = lines_from [] s"

definition newline :: char where "newline = CHR 0x0A"

lemma newline_break [simp]: "is_linebreak newline"
  by (simp add: is_linebreak_def newline_def)

text \<open>A boundary other than a carriage return ends its line at once.\<close>

definition plain_break :: "char \<Rightarrow> bool" where
  "plain_break c \<longleftrightarrow> is_linebreak c \<and> of_char c \<noteq> (13::nat)"

lemma newline_plain [simp]: "plain_break newline"
  by (simp add: plain_break_def is_linebreak_def newline_def)

lemma lines_from_line:
  assumes "list_all (\<lambda>c. \<not> is_linebreak c) s" "plain_break b"
  shows "lines_from acc (s @ b # t) = (rev acc @ s) # lines_from [] t"
  using assms(1)
proof (induction s arbitrary: acc)
  case Nil
  then show ?case using assms(2) by (cases t) (auto simp: plain_break_def)
next
  case (Cons c s)
  then have c: "\<not> is_linebreak c" and n: "of_char c \<noteq> (13::nat)" by (auto simp: is_linebreak_def)
  obtain d u where du: "s @ b # t = d # u" by (cases s) auto
  have "lines_from acc ((c # s) @ b # t) = lines_from (c # acc) (s @ b # t)"
    using c n du by simp
  with Cons show ?case by simp
qed

lemma splitlines_line:
  "list_all (\<lambda>c. \<not> is_linebreak c) s \<Longrightarrow> plain_break b \<Longrightarrow> splitlines (s @ b # t) = s # splitlines t"
  using lines_from_line[of s b "[]" t] by (simp add: splitlines_def)

lemma splitlines_Nil [simp]: "splitlines [] = []"
  by (simp add: splitlines_def)

definition journal_text :: "string list \<Rightarrow> string" where
  "journal_text ls = concat (map (\<lambda>l. l @ [newline]) ls)"

lemma splitlines_journal_append:
  "list_all (list_all (\<lambda>c. \<not> is_linebreak c)) ls \<Longrightarrow> splitlines (journal_text ls @ t) = ls @ splitlines t"
  by (induction ls) (simp_all add: journal_text_def splitlines_line)

lemma splitlines_journal:
  "list_all (list_all (\<lambda>c. \<not> is_linebreak c)) ls \<Longrightarrow> splitlines (journal_text ls) = ls"
  using splitlines_journal_append[of ls "[]"] by simp

section \<open>Recording\<close>

definition fingerprint :: "lib \<Rightarrow> pydict \<Rightarrow> string" where
  "fingerprint L environment = take 16 (sha256 L (json_as L JsonCompact (JDict environment)))"

definition journal_entry ::
  "lib \<Rightarrow> string \<Rightarrow> string \<Rightarrow> string \<Rightarrow> string \<Rightarrow> pydict \<Rightarrow> pydict option \<Rightarrow> pydict" where
  "journal_entry L kind subject state artifacts environment extra =
     [(''kind'', JStr kind), (''subject'', JStr subject), (''state'', JStr state),
      (''artifacts'', JStr artifacts), (''environment'', JDict environment),
      (''fingerprint'', JStr (fingerprint L environment))] @
     (case extra of Some (x # xs) \<Rightarrow> [(''detail'', JDict (x # xs))] | _ \<Rightarrow> [])"

definition journal_record ::
  "lib \<Rightarrow> path \<Rightarrow> string \<Rightarrow> string \<Rightarrow> string \<Rightarrow> string \<Rightarrow> pydict \<Rightarrow> pydict option \<Rightarrow>
     ('a os_scheme, exc, pydict) act" where
  "journal_record L journal kind subject state artifacts environment extra =
     actbind (actreadR (\<lambda>w. ensure_external_path L (files w) journal)) (\<lambda>p.
     let entry = journal_entry L kind subject state artifacts environment extra in
     actbind (fsop (mkdir_parents (butlast p))) (\<lambda>_.
     actbind (fsop (append_file p (json_as L JsonLine (JDict entry) @ [newline]))) (\<lambda>_.
     actret entry)))"

section \<open>Reading\<close>

definition parse_line :: "lib \<Rightarrow> string \<Rightarrow> exc + pyval" where
  "parse_line L s = (case json_loads L s of
      None \<Rightarrow> Inl (ValueError (Msg ''Expecting value'' []))
    | Some v \<Rightarrow> Inr v)"

definition journal_load :: "lib \<Rightarrow> fs \<Rightarrow> path \<Rightarrow> exc + pyval list" where
  "journal_load L f p =
     (if \<not> path_exists f p then Inr []
      else rbind (read_bytes f p) (\<lambda>c.
        rmapM (parse_line L) (filter (\<lambda>s. strip s \<noteq> []) (splitlines c))))"

text \<open>The conjunction of the comprehension, evaluated from left to right.\<close>

definition entry_matches ::
  "lib \<Rightarrow> string \<Rightarrow> string option \<Rightarrow> pydict option \<Rightarrow> string list \<Rightarrow> pyval \<Rightarrow> exc + bool" where
  "entry_matches L kind subject environment states e =
     rbind (vindex e ''kind'') (\<lambda>k.
     if \<not> py_eq k (JStr kind) then Inr False
     else
       rbind (case subject of
           None \<Rightarrow> Inr True
         | Some s \<Rightarrow> rbind (vindex e ''subject'') (\<lambda>v. Inr (py_eq v (JStr s)))) (\<lambda>subj.
       if \<not> subj then Inr False
       else
         rbind (case environment of
             None \<Rightarrow> Inr True
           | Some env \<Rightarrow>
               rbind (vget e ''environment'') (\<lambda>v.
               rbind (vget e ''fingerprint'') (\<lambda>fp.
               Inr (py_eq v (JDict env) \<and> py_eq fp (JStr (fingerprint L env)))))) (\<lambda>env_ok.
         if \<not> env_ok then Inr False
         else if states = [] then Inr True
         else rbind (vindex e ''state'') (\<lambda>v. Inr (in_strs v states)))))"

fun filterM :: "('a \<Rightarrow> 'e + bool) \<Rightarrow> 'a list \<Rightarrow> 'e + 'a list" where
  "filterM p [] = Inr []"
| "filterM p (x # xs) = rbind (p x) (\<lambda>b. rbind (filterM p xs) (\<lambda>ys. Inr (if b then x # ys else ys)))"

definition journal_query ::
  "lib \<Rightarrow> fs \<Rightarrow> path \<Rightarrow> string \<Rightarrow> string option \<Rightarrow> pydict option \<Rightarrow> string list \<Rightarrow> exc + pyval list"
where
  "journal_query L f p kind subject environment states =
     (if environment = Some [] then Inr []
      else rbind (journal_load L f p) (\<lambda>es.
        rbind (filterM (entry_matches L kind subject environment states) es) (\<lambda>hits.
        Inr (rev hits))))"

definition journal_latest ::
  "lib \<Rightarrow> fs \<Rightarrow> path \<Rightarrow> string \<Rightarrow> string option \<Rightarrow> pydict option \<Rightarrow> string list \<Rightarrow> exc + pyval option"
where
  "journal_latest L f p kind subject environment states =
     rbind (journal_query L f p kind subject environment states) (\<lambda>hits.
     Inr (case hits of [] \<Rightarrow> None | h # _ \<Rightarrow> Some h))"

section \<open>What is recorded is found\<close>

lemma filterM_append:
  "filterM p (xs @ ys) = rbind (filterM p xs) (\<lambda>a. rbind (filterM p ys) (\<lambda>b. Inr (a @ b)))"
proof (induction xs)
  case Nil
  then show ?case by (cases "filterM p ys") simp_all
next
  case (Cons x xs)
  then show ?case
    by (cases "p x"; cases "filterM p xs"; cases "filterM p ys") simp_all
qed

lemma filterM_Inr: "filterM p xs = Inr ys \<Longrightarrow> set ys \<subseteq> {x \<in> set xs. p x = Inr True}"
  by (induction xs arbitrary: ys) (auto simp: rbind_eq_Inr split: if_splits)

lemma rmapM_append:
  "rmapM p (xs @ ys) = rbind (rmapM p xs) (\<lambda>a. rbind (rmapM p ys) (\<lambda>b. Inr (a @ b)))"
proof (induction xs)
  case Nil
  then show ?case by (cases "rmapM p ys") simp_all
next
  case (Cons x xs)
  then show ?case
    by (cases "p x"; cases "rmapM p xs"; cases "rmapM p ys") simp_all
qed

text \<open>A line that one JSON document fills and that reads back.\<close>

definition line_ok :: "lib \<Rightarrow> string \<Rightarrow> bool" where
  "line_ok L s \<longleftrightarrow> list_all (\<lambda>c. \<not> is_linebreak c) s \<and> strip s \<noteq> [] \<and> json_loads L s \<noteq> None"

lemma load_lines:
  assumes "list_all (line_ok L) ls"
  shows "rmapM (parse_line L) (filter (\<lambda>s. strip s \<noteq> []) (splitlines (journal_text ls @ t))) =
    rbind (rmapM (parse_line L) (filter (\<lambda>s. strip s \<noteq> []) (splitlines t)))
      (\<lambda>vs. Inr (map (\<lambda>s. the (json_loads L s)) ls @ vs))"
proof -
  have "list_all (list_all (\<lambda>c. \<not> is_linebreak c)) ls" "filter (\<lambda>s. strip s \<noteq> []) ls = ls"
    using assms by (auto simp: list_all_iff line_ok_def filter_id_conv)
  moreover have "rmapM (parse_line L) ls = Inr (map (\<lambda>s. the (json_loads L s)) ls)"
    using assms by (intro rmapM_total) (auto simp: parse_line_def line_ok_def list_all_iff)
  ultimately show ?thesis by (simp add: splitlines_journal_append rmapM_append)
qed

definition journal_lines :: "lib \<Rightarrow> fs \<Rightarrow> path \<Rightarrow> string list \<Rightarrow> bool" where
  "journal_lines L f p ls \<longleftrightarrow> list_all (line_ok L) ls \<and>
     (if path_exists f p then read_bytes f p = Inr (journal_text ls) else ls = [])"

lemma journal_lines_load:
  "journal_lines L f p ls \<Longrightarrow> journal_load L f p = Inr (map (\<lambda>s. the (json_loads L s)) ls)"
  using load_lines[of L ls "[]"] by (auto simp: journal_lines_def journal_load_def split: if_splits)

lemma read_exists: "read_bytes f p = Inr c \<Longrightarrow> path_exists f p"
  by (auto simp: read_bytes_def path_exists_def split: option.splits)

lemma journal_record_effect:
  assumes "journal_record L j kind subject state arts env extra w = (Inr entry, w')"
  shows "\<exists>p f. ensure_external_path L (files w) j = Inr p \<and> mkdir_parents (butlast p) (files w) = Inr f \<and>
    entry = journal_entry L kind subject state arts env extra \<and>
    append_file p (json_as L JsonLine (JDict entry) @ [newline]) f = Inr (files w')"
  using assms by (auto simp: journal_record_def res_elims Let_def)

text \<open>Recording appends one line to what was there.\<close>

lemma journal_record_read:
  assumes run: "journal_record L j kind subject state arts env extra w = (Inr entry, w')"
    and p: "ensure_external_path L (files w) j = Inr p" "journal_lines L (files w) p ls"
  shows "read_bytes (files w') p = Inr (journal_text ls @ json_as L JsonLine (JDict entry) @ [newline])"
proof -
  let ?l = "json_as L JsonLine (JDict entry)"
  obtain f where f: "mkdir_parents (butlast p) (files w) = Inr f" "append_file p (?l @ [newline]) f = Inr (files w')"
    using journal_record_effect[OF run] p(1) by auto
  have "(case read_bytes f p of Inl _ \<Rightarrow> [] | Inr c \<Rightarrow> c) = journal_text ls"
  proof (cases "read_bytes f p")
    case (Inl e)
    then have "read_bytes (files w) p \<noteq> Inr c" for c using mkdirs_read f(1) by (metis Inl_Inr_False mkdir_parents_def)
    then show ?thesis using Inl p(2) by (auto simp: journal_lines_def journal_text_def split: if_splits)
  next
    case (Inr c)
    then have "read_bytes (files w) p = Inr c" using mkdirs_read f(1) by (metis mkdir_parents_def)
    then show ?thesis using Inr p(2) read_exists by (fastforce simp: journal_lines_def split: if_splits)
  qed
  then show ?thesis using append_read[OF f(2)] by simp
qed

lemma journal_record_lines:
  assumes "journal_record L j kind subject state arts env extra w = (Inr entry, w')"
    and "ensure_external_path L (files w) j = Inr p" "journal_lines L (files w) p ls"
    and "line_ok L (json_as L JsonLine (JDict entry))"
  shows "journal_lines L (files w') p (ls @ [json_as L JsonLine (JDict entry)])"
  using journal_record_read[OF assms(1-3)] assms(3,4) read_exists
  by (auto simp: journal_lines_def journal_text_def)

lemma query_after_record:
  assumes run: "journal_record L j kind subject state arts env extra w = (Inr entry, w')"
    and p: "ensure_external_path L (files w) j = Inr p" "journal_lines L (files w) p ls"
    and line: "line_ok L (json_as L JsonLine (JDict entry))"
      "json_loads L (json_as L JsonLine (JDict entry)) = Some (JDict entry)"
    and env: "env \<noteq> []" "py_eq (JDict env) (JDict env)"
    and old: "journal_query L (files w) p kind (Some subject) (Some env) [] = Inr hits"
  shows "journal_query L (files w') p kind (Some subject) (Some env) [] = Inr (JDict entry # hits)"
proof -
  let ?m = "entry_matches L kind (Some subject) (Some env) []" and ?v = "map (\<lambda>s. the (json_loads L s)) ls"
  have e: "entry = journal_entry L kind subject state arts env extra"
    using journal_record_effect[OF run] by blast
  have m: "?m (JDict entry) = Inr True"
    using env(2) by (simp add: e journal_entry_def entry_matches_def vindex_def dget_def)
  have "journal_load L (files w') p = Inr (?v @ [JDict entry])"
    using journal_lines_load[OF journal_record_lines[OF run p line(1)]] line(2) by simp
  moreover obtain hs where "filterM ?m ?v = Inr hs" "hits = rev hs"
    using old env(1) journal_lines_load[OF p(2)] by (auto simp: journal_query_def rbind_eq_Inr)
  ultimately show ?thesis using env(1) m by (simp add: journal_query_def filterM_append)
qed


definition journal_base :: lib where
  "journal_base = (sample_lib [])\<lparr>json_as :=
     (\<lambda>_ v. case v of JDict d \<Rightarrow> (if dhas d ''kind'' then ''entry'' else ''env'') | _ \<Rightarrow> ''x'')\<rparr>"

definition journal_env :: pydict where "journal_env = [(''stack'', JStr ''1'')]"

definition journal_lib :: lib where
  "journal_lib = journal_base\<lparr>json_loads := (\<lambda>s. if s = ''entry'' then Some (JDict
     (journal_entry journal_base ''ModelRequest'' ''m'' ''PASS'' ''/a'' journal_env None)) else None)\<rparr>"

definition demo_journal :: "(exc + pydict) \<times> os" where
  "demo_journal = journal_record journal_lib [''data'', ''journal''] ''ModelRequest'' ''m'' ''PASS'' ''/a'' journal_env None
     \<lparr>files = [], clock_reads = 0, ids_drawn = 0\<rparr>"


lemma demo_journal_returns: "returned (\<lambda>_. True) demo_journal"
  by code_simp


text \<open>A recorded text with a next-line character (code point 133), which \<open>ensure_ascii=False\<close>
  writes unescaped, is cut in two by \<open>splitlines\<close>: from then on the journal cannot be loaded.\<close>

lemma journal_line_separator:
  assumes run: "journal_record L j kind subject state arts env extra w = (Inr entry, w')"
    and p: "ensure_external_path L (files w) j = Inr p" "journal_lines L (files w) p ls"
    and cut: "json_as L JsonLine (JDict entry) = a @ CHR 0x85 # b" "list_all (\<lambda>c. \<not> is_linebreak c) a"
      "strip a \<noteq> []" "json_loads L a = None"
  shows "\<exists>m. journal_load L (files w') p = Inl (ValueError m)"
proof -
  have c: "read_bytes (files w') p = Inr (journal_text ls @ a @ CHR 0x85 # b @ [newline])"
    using journal_record_read[OF run p] cut(1) by simp
  have "plain_break (CHR 0x85)" by (simp add: plain_break_def is_linebreak_def)
  then have "filter (\<lambda>s. strip s \<noteq> []) (splitlines (a @ CHR 0x85 # b @ [newline])) =
      a # filter (\<lambda>s. strip s \<noteq> []) (splitlines (b @ [newline]))"
    using splitlines_line[OF cut(2)] cut(3) by simp
  then show ?thesis
    using c read_exists[OF c] load_lines[of L ls "a @ CHR 0x85 # b @ [newline]"] p(2) cut(4)
    by (simp add: journal_load_def journal_lines_def parse_line_def)
qed

end
