(* ===== verification/TaskMemory.thy ===== *)
theory TaskMemory
  imports SampleLib FileGrowth
begin

text \<open>
  \<open>engine/state/task_memory.py\<close>: the coordination state of a task loop, a dictionary that the
  functions of the module change in place. It is the field \<open>mem\<close> of the state here, so that the
  changes made before an exception stay, as they do in Python.
\<close>

record mem_world = os +
  mem :: pydict

type_synonym 'a memexec = "(mem_world, exc, 'a) act"

section \<open>Creating, loading, saving\<close>

definition empty_memory :: "string \<Rightarrow> string \<Rightarrow> pydict" where
  "empty_memory task_id subject =
     [(''version'', JInt 1), (''task_id'', JStr task_id), (''subject'', JStr subject),
      (''status'', JStr ''IN_PROGRESS''), (''current_loop_block'', JNone),
      (''completed_loop_blocks'', JList []), (''next_loop_block'', JNone),
      (''execution_records'', JList []), (''claims'', JList []), (''environment'', JDict [])]"

definition memory_defaults :: "pydict \<Rightarrow> pydict" where
  "memory_defaults m =
     dsetdefault (dsetdefault (dsetdefault (dsetdefault (dsetdefault (dsetdefault m
       ''completed_loop_blocks'' (JList [])) ''execution_records'' (JList []))
       ''next_loop_block'' JNone) ''current_loop_block'' JNone) ''claims'' (JList []))
       ''environment'' (JDict [])"

definition load_memory :: "lib \<Rightarrow> fs \<Rightarrow> path \<Rightarrow> string \<Rightarrow> string \<Rightarrow> exc + pydict" where
  "load_memory L f p task_id subject =
     (if \<not> path_exists f p then Inr (empty_memory task_id subject)
      else rbind (read_bytes f p) (\<lambda>c.
        case json_loads L c of
          None \<Rightarrow> Inl (ValueError (Msg ''Expecting value'' []))
        | Some (JDict m) \<Rightarrow>
            if \<not> py_eq (dget m ''task_id'') (JStr task_id) \<or> \<not> py_eq (dget m ''subject'') (JStr subject)
            then Inl (ValueError (Msg ''task memory belongs to another task'' []))
            else Inr (memory_defaults m)
        | Some _ \<Rightarrow> Inl AttributeError))"

definition save_memory :: "lib \<Rightarrow> path \<Rightarrow> unit memexec" where
  "save_memory L p =
     actbind (actreadR (\<lambda>w. ensure_external_path L (files w) p)) (\<lambda>q.
     actbind (fsop (mkdir_parents (butlast q))) (\<lambda>_.
     actbind (actread mem) (\<lambda>m.
     fsop (put_file q (json_as L JsonIndented (JDict m) @ [CHR 0x0A]) True))))"

section \<open>Blocks\<close>

definition mem_set :: "string \<Rightarrow> pyval \<Rightarrow> unit memexec" where
  "mem_set k v = actwrite (\<lambda>w. w\<lparr>mem := dset (mem w) k v\<rparr>)"

text \<open>\<open>memory[k].append(v)\<close>\<close>

definition mem_append :: "string \<Rightarrow> pyval \<Rightarrow> unit memexec" where
  "mem_append k v =
     actbind (actreadR (\<lambda>w. vindex (JDict (mem w)) k)) (\<lambda>old.
     case old of
       JList xs \<Rightarrow> mem_set k (JList (xs @ [v]))
     | _ \<Rightarrow> actraise AttributeError)"

definition start_block ::
  "lib \<Rightarrow> string \<Rightarrow> string \<Rightarrow> pydict \<Rightarrow> pydict option \<Rightarrow> pydict memexec" where
  "start_block L block_id sub_target exit_condition routing =
     actbind (now L) (\<lambda>t.
     let block = [(''block_id'', JStr block_id), (''sub_target'', JStr sub_target),
           (''exit_condition'', JDict exit_condition),
           (''routing'', JDict (case routing of None \<Rightarrow> [] | Some r \<Rightarrow> r)),
           (''started_at'', JFloat (Fin t))] in
     actbind (mem_set ''current_loop_block'' (JDict block)) (\<lambda>_.
     actbind (mem_set ''next_loop_block'' JNone) (\<lambda>_. actret block)))"

text \<open>\<open>{**current, ...}\<close> of a value that is no mapping raises \<open>TypeError\<close>.\<close>

definition finish_block ::
  "lib \<Rightarrow> string \<Rightarrow> string list option \<Rightarrow> pydict option \<Rightarrow> pydict memexec" where
  "finish_block L state artifacts next_block =
     actbind (actread (\<lambda>w. dget (mem w) ''current_loop_block'')) (\<lambda>current.
     if \<not> truthy current
     then actraise (ValueError (Msg ''cannot finish a Task Loop without a current block'' []))
     else (case current of
         JDict cur \<Rightarrow>
           actbind (now L) (\<lambda>t.
           let arts = JList (map JStr (case artifacts of None \<Rightarrow> [] | Some a \<Rightarrow> a));
               rec = dmerge cur [(''state'', JStr state), (''artifacts'', arts),
                  (''finished_at'', JFloat (Fin t))] in
           actbind (mem_append ''completed_loop_blocks'' (JDict rec)) (\<lambda>_.
           actbind (actlift (vindex (JDict rec) ''block_id'')) (\<lambda>i.
           actbind (mem_append ''execution_records'' (JDict [(''block_id'', i),
             (''state'', JStr state), (''artifacts'', arts)])) (\<lambda>_.
           actbind (mem_set ''current_loop_block'' JNone) (\<lambda>_.
           actbind (mem_set ''next_loop_block'' (case next_block of None \<Rightarrow> JNone | Some b \<Rightarrow> JDict b)) (\<lambda>_.
           actbind (actwhen (next_block = None \<and> state \<in> {''DELIVERED'', ''TASK_COMPLETE''})
             (mem_set ''status'' (JStr ''COMPLETED''))) (\<lambda>_.
           actret rec)))))))
       | _ \<Rightarrow> actraise TypeError))"

definition set_next_block :: "pydict \<Rightarrow> unit memexec" where
  "set_next_block b = mem_set ''next_loop_block'' (JDict b)"

section \<open>Claims\<close>

text \<open>\<open>extra\<close> are the fields that \<open>record_observed_issue\<close> adds to the entry after it was
  appended: the list holds the same object.\<close>

definition record_claim_with ::
  "pydict \<Rightarrow> string \<Rightarrow> string \<Rightarrow> string list \<Rightarrow> pydict \<Rightarrow> string option \<Rightarrow> pydict memexec" where
  "record_claim_with extra claim status evidence environment supersedes =
     (let entry = [(''claim'', JStr claim), (''status'', JStr status),
          (''evidence'', JList (map JStr evidence)), (''environment'', JDict environment)] @
          (case supersedes of Some (c # s) \<Rightarrow> [(''supersedes'', JStr (c # s))] | _ \<Rightarrow> []);
          entry' = dmerge entry extra in
      actbind (mem_append ''claims'' (JDict entry')) (\<lambda>_.
      actbind (mem_set ''environment'' (JDict environment)) (\<lambda>_. actret entry')))"

definition record_claim ::
  "string \<Rightarrow> string \<Rightarrow> string list \<Rightarrow> pydict \<Rightarrow> string option \<Rightarrow> pydict memexec" where
  "record_claim = record_claim_with []"

definition record_observed_issue ::
  "string \<Rightarrow> string list \<Rightarrow> pydict \<Rightarrow> string \<Rightarrow> pydict memexec" where
  "record_observed_issue issue evidence environment source =
     record_claim_with [(''observed_issue'', JStr issue), (''source'', JStr source)]
       issue ''OBSERVED'' evidence environment None"

section \<open>What a block leaves\<close>

text \<open>A memory as \<open>empty_memory\<close> and \<open>load\<close> make it: the three logs are lists.\<close>

definition is_log :: "pydict \<Rightarrow> string \<Rightarrow> bool" where
  "is_log m k \<longleftrightarrow> (\<exists>xs. map_of m k = Some (JList xs))"

definition memory_ok :: "pydict \<Rightarrow> bool" where
  "memory_ok m \<longleftrightarrow> is_log m ''completed_loop_blocks'' \<and> is_log m ''execution_records'' \<and> is_log m ''claims''"

definition log_of :: "pydict \<Rightarrow> string \<Rightarrow> pyval list" where
  "log_of m k = (case dget m k of JList xs \<Rightarrow> xs | _ \<Rightarrow> [])"

lemma empty_memory_ok: "memory_ok (empty_memory t s)"
  by (simp add: memory_ok_def is_log_def empty_memory_def)

lemma log_of_dset [simp]: "log_of (dset m k v) k' = (if k = k' then (case v of JList xs \<Rightarrow> xs | _ \<Rightarrow> []) else log_of m k')"
  by (simp add: log_of_def)

lemma is_log_dset [simp]: "is_log (dset m k v) k' \<longleftrightarrow> (if k = k' then is_list v else is_log m k')"
  by (cases v) (auto simp: is_log_def)

lemma is_log_log_of: "is_log m k \<Longrightarrow> map_of m k = Some (JList (log_of m k))"
  by (auto simp: is_log_def log_of_def dget_def)

lemma mem_append_returns:
  assumes "is_log (mem w) k"
  shows "mem_append k v w = (Inr (), w\<lparr>mem := dset (mem w) k (JList (log_of (mem w) k @ [v]))\<rparr>)"
  using is_log_log_of[OF assms]
  by (simp add: mem_append_def actbind_def actreadR_def vindex_def mem_set_def actwrite_def)

text \<open>What each of the two calls does to the memory, as one equation.\<close>

definition opened :: "string \<Rightarrow> string \<Rightarrow> pydict \<Rightarrow> pydict option \<Rightarrow> rat \<Rightarrow> pydict" where
  "opened bid target cond routing t =
     [(''block_id'', JStr bid), (''sub_target'', JStr target), (''exit_condition'', JDict cond),
      (''routing'', JDict (case routing of None \<Rightarrow> [] | Some r \<Rightarrow> r)), (''started_at'', JFloat (Fin t))]"

lemma start_block_effect:
  "\<exists>t w1. start_block L bid target cond routing w = (Inr (opened bid target cond routing t), w1) \<and>
     mem w1 = dset (dset (mem w) ''current_loop_block'' (JDict (opened bid target cond routing t)))
       ''next_loop_block'' JNone"
  by (simp add: start_block_def opened_def actbind_def now_def mem_set_def actwrite_def actret_def Let_def)

definition closed_record :: "pydict \<Rightarrow> string \<Rightarrow> string list option \<Rightarrow> rat \<Rightarrow> pydict" where
  "closed_record cur state arts t =
     dmerge cur [(''state'', JStr state), (''artifacts'', JList (map JStr (case arts of None \<Rightarrow> [] | Some a \<Rightarrow> a))),
       (''finished_at'', JFloat (Fin t))]"

definition terminal :: "string \<Rightarrow> pydict option \<Rightarrow> bool" where
  "terminal state nxt \<longleftrightarrow> nxt = None \<and> state \<in> {''DELIVERED'', ''TASK_COMPLETE''}"

definition finished_memory ::
  "pydict \<Rightarrow> pydict \<Rightarrow> pyval \<Rightarrow> string \<Rightarrow> string list option \<Rightarrow> pydict option \<Rightarrow> pydict" where
  "finished_memory m0 rec i state arts nxt =
     (let m = dset (dset (dset (dset m0
        ''completed_loop_blocks'' (JList (log_of m0 ''completed_loop_blocks'' @ [JDict rec])))
        ''execution_records'' (JList (log_of m0 ''execution_records'' @ [JDict [(''block_id'', i),
          (''state'', JStr state), (''artifacts'', JList (map JStr (case arts of None \<Rightarrow> [] | Some a \<Rightarrow> a)))]])))
        ''current_loop_block'' JNone) ''next_loop_block'' (case nxt of None \<Rightarrow> JNone | Some b \<Rightarrow> JDict b)
      in if terminal state nxt then dset m ''status'' (JStr ''COMPLETED'') else m)"

lemma finish_block_effect:
  assumes ok: "memory_ok (mem w)" and cur: "dget (mem w) ''current_loop_block'' = JDict cur" and "cur \<noteq> []"
    and bid: "map_of cur ''block_id'' = Some i"
  shows "\<exists>t w1. finish_block L state arts nxt w = (Inr (closed_record cur state arts t), w1) \<and>
    mem w1 = finished_memory (mem w) (closed_record cur state arts t) i state arts nxt"
proof -
  have logs: "is_log (mem w) ''completed_loop_blocks''" "is_log (mem w) ''execution_records''"
    using ok by (auto simp: memory_ok_def)
  obtain t w0 where t: "now L w = (Inr t, w0)" "mem w0 = mem w"
    by (simp add: now_def)
  let ?r = "closed_record cur state arts t"
  have i: "vindex (JDict ?r) ''block_id'' = Inr i"
    using bid by (simp add: vindex_def closed_record_def map_of_dmerge)
  obtain w1 where w1: "mem_append ''completed_loop_blocks'' (JDict ?r) w0 = (Inr (), w1)"
    "mem w1 = dset (mem w) ''completed_loop_blocks'' (JList (log_of (mem w) ''completed_loop_blocks'' @ [JDict ?r]))"
    using logs(1) t(2) by (simp add: mem_append_returns)
  have "is_log (mem w1) ''execution_records''"
    using logs(2) w1(2) by simp
  note a2 = mem_append_returns[OF this]
  show ?thesis
    using cur \<open>cur \<noteq> []\<close>
    by (intro exI[of _ t])
       (simp add: finish_block_def actbind_def actread_def t(1) closed_record_def[symmetric] Let_def w1(1) i
          actlift_def a2 w1(2) finished_memory_def mem_set_def actwrite_def actwhen_def actret_def terminal_def)
qed

text \<open>C30: Starting a block and finishing it leaves no open block, appends exactly one record of it, with
  its identifier and its end state, to each of the two logs, marks the task COMPLETED only at a terminal
  state with nothing to follow, and touches no claim.\<close>

theorem block_recorded_once:
  assumes ok: "memory_ok (mem w)"
  shows "\<exists>rec w'. actbind (start_block L bid target cond routing) (\<lambda>_. finish_block L state arts nxt) w = (Inr rec, w') \<and>
    memory_ok (mem w') \<and> dget (mem w') ''current_loop_block'' = JNone \<and>
    log_of (mem w') ''completed_loop_blocks'' = log_of (mem w) ''completed_loop_blocks'' @ [JDict rec] \<and>
    dget rec ''block_id'' = JStr bid \<and> dget rec ''state'' = JStr state \<and>
    (\<exists>e. log_of (mem w') ''execution_records'' = log_of (mem w) ''execution_records'' @ [JDict e] \<and>
       dget e ''block_id'' = JStr bid \<and> dget e ''state'' = JStr state) \<and>
    log_of (mem w') ''claims'' = log_of (mem w) ''claims'' \<and>
    dget (mem w') ''status'' = (if nxt = None \<and> state \<in> {''DELIVERED'', ''TASK_COMPLETE''}
      then JStr ''COMPLETED'' else dget (mem w) ''status'')"
proof -
  let ?cur = "''current_loop_block''" and ?b = "opened bid target cond routing"
  obtain t w1 where w1: "start_block L bid target cond routing w = (Inr (?b t), w1)"
      "mem w1 = dset (dset (mem w) ?cur (JDict (?b t))) ''next_loop_block'' JNone"
    using start_block_effect by blast
  have "memory_ok (mem w1)" "dget (mem w1) ?cur = JDict (?b t)" "?b t \<noteq> []"
      "map_of (?b t) ''block_id'' = Some (JStr bid)"
    using ok by (simp_all add: memory_ok_def w1(2) opened_def)
  from finish_block_effect[OF this, of L state arts nxt]
  obtain u w' where f: "finish_block L state arts nxt w1 = (Inr (closed_record (?b t) state arts u), w')"
    and m: "mem w' = finished_memory (mem w1) (closed_record (?b t) state arts u) (JStr bid) state arts nxt"
    by blast
  define rec where "rec = closed_record (?b t) state arts u"
  have "actbind (start_block L bid target cond routing) (\<lambda>_. finish_block L state arts nxt) w = (Inr rec, w')"
    by (simp add: actbind_def w1(1) f rec_def)
  moreover have "dget rec ''block_id'' = JStr bid" "dget rec ''state'' = JStr state"
    by (simp_all add: rec_def closed_record_def dget_def map_of_dmerge opened_def)
  moreover have "dget (mem w') ''status'' = (if terminal state nxt then JStr ''COMPLETED'' else dget (mem w) ''status'')"
    by (simp add: m finished_memory_def Let_def w1(2))
  moreover have "log_of (mem w') ''execution_records'' = log_of (mem w) ''execution_records'' @
      [JDict [(''block_id'', JStr bid), (''state'', JStr state),
        (''artifacts'', JList (map JStr (case arts of None \<Rightarrow> [] | Some a \<Rightarrow> a)))]]"
    "log_of (mem w') ''completed_loop_blocks'' = log_of (mem w) ''completed_loop_blocks'' @ [JDict rec]"
    "memory_ok (mem w')" "dget (mem w') ?cur = JNone" "log_of (mem w') ''claims'' = log_of (mem w) ''claims''"
    using ok by (simp_all add: m finished_memory_def Let_def w1(2) memory_ok_def rec_def)
  ultimately show ?thesis
    by (intro exI[of _ rec] exI[of _ w']) (simp add: terminal_def dget_def)
qed

definition demo_memory :: mem_world where
  "demo_memory = \<lparr>files = [], clock_reads = 0, ids_drawn = 0, mem = empty_memory ''t'' ''s''\<rparr>"

theorem block_recorded_once_witness:
  "\<exists>rec w'. actbind (start_block demo_lib ''b'' ''x'' [] None) (\<lambda>_. finish_block demo_lib ''DELIVERED'' None None) demo_memory = (Inr rec, w') \<and>
    log_of (mem w') ''completed_loop_blocks'' = [JDict rec] \<and> dget (mem w') ''status'' = JStr ''COMPLETED''"
proof -
  have "memory_ok (mem demo_memory)" by (simp add: demo_memory_def empty_memory_ok)
  moreover have "log_of (mem demo_memory) ''completed_loop_blocks'' = []"
    by (simp add: demo_memory_def empty_memory_def log_of_def dget_def)
  ultimately show ?thesis
    using block_recorded_once[of demo_memory demo_lib "''b''" "''x''" "[]" None "''DELIVERED''" None None] by fastforce
qed

end
