(* ===== verification/Checks.thy ===== *)
theory Checks
  imports ResultGate SampleLib
begin

text \<open>
  The vocabulary of the acceptance checks of \<open>validators/*.py\<close>. A validator appends messages to a
  list and returns it; a report of an unexpected shape makes it raise. It is a value of \<open>errs\<close>:
  \<open>Inl\<close> the exception, \<open>Inr\<close> the messages in the order in which they were appended.
  \<open>all_checks\<close> is a sequence of statements (the first exception ends it), \<open>each\<close> a loop,
  \<open>flag c m\<close> is \<open>if c: errors.append(m)\<close> and \<open>need v m\<close> is
  \<open>if not v: errors.append(m)\<close>. The collection \<open>accepts\<close> turns "the validator accepts" into
  the conditions it checks.
\<close>

named_theorems accepts "when a check leaves no message"

type_synonym errs = "exc + msg list"

section \<open>Statements\<close>

definition flag :: "bool \<Rightarrow> msg \<Rightarrow> errs" where
  "flag c m = Inr (err_if c m)"

definition flagM :: "exc + bool \<Rightarrow> msg \<Rightarrow> errs" where
  "flagM c m = rbind c (\<lambda>b. flag b m)"

definition need :: "exc + pyval \<Rightarrow> msg \<Rightarrow> errs" where
  "need r m = rbind r (\<lambda>v. flag (\<not> truthy v) m)"

definition skip :: errs where
  "skip = Inr []"

definition whenE :: "bool \<Rightarrow> errs \<Rightarrow> errs" where
  "whenE b c = (if b then c else skip)"

definition rnot :: "exc + bool \<Rightarrow> exc + bool" where
  "rnot c = rbind c (\<lambda>b. Inr (\<not> b))"

fun all_checks :: "errs list \<Rightarrow> errs" where
  "all_checks [] = Inr []"
| "all_checks (c # cs) = rbind c (\<lambda>x. rbind (all_checks cs) (\<lambda>y. Inr (x @ y)))"

definition each :: "('a \<Rightarrow> errs) \<Rightarrow> 'a list \<Rightarrow> errs" where
  "each f xs = all_checks (map f xs)"

text \<open>\<open>for i, x in enumerate(xs)\<close>.\<close>

definition each_indexed :: "(nat \<Rightarrow> 'a \<Rightarrow> errs) \<Rightarrow> 'a list \<Rightarrow> errs" where
  "each_indexed f xs = all_checks (map (\<lambda>(i, x). f i x) (enumerate 0 xs))"

lemma flag_accepts [accepts]: "flag c m = Inr [] \<longleftrightarrow> \<not> c"
  by (simp add: flag_def)

lemma flagM_accepts [accepts]: "flagM c m = Inr [] \<longleftrightarrow> c = Inr False"
  by (cases c) (simp_all add: flagM_def flag_accepts)

lemma need_accepts [accepts]: "need r m = Inr [] \<longleftrightarrow> (\<exists>v. r = Inr v \<and> truthy v)"
  by (cases r) (simp_all add: need_def flag_accepts)

lemma skip_accepts [accepts]: "skip = Inr [] \<longleftrightarrow> True"
  by (simp add: skip_def)

lemma whenE_accepts [accepts]: "whenE b c = Inr [] \<longleftrightarrow> (b \<longrightarrow> c = Inr [])"
  by (simp add: whenE_def skip_accepts)

lemma rnot_False [accepts]: "rnot c = Inr False \<longleftrightarrow> c = Inr True"
  by (cases c) (simp_all add: rnot_def)

lemma rnot_Inr [simp]: "rnot (Inr b) = Inr (\<not> b)" "rnot (Inl e) = Inl e"
  by (simp_all add: rnot_def)

lemma all_checks_accepts [accepts]: "all_checks cs = Inr [] \<longleftrightarrow> (\<forall>c \<in> set cs. c = Inr [])"
  by (induction cs) (auto simp: rbind_eq_Inr)

lemma each_accepts [accepts]: "each f xs = Inr [] \<longleftrightarrow> (\<forall>x \<in> set xs. f x = Inr [])"
  by (simp add: each_def all_checks_accepts)

lemma each_indexed_accepts [accepts]:
  "each_indexed f xs = Inr [] \<longleftrightarrow> (\<forall>i < length xs. f i (xs ! i) = Inr [])"
proof -
  have "set (enumerate 0 xs) = (\<lambda>i. (i, xs ! i)) ` {..<length xs}"
    by (auto simp: in_set_enumerate_eq)
  then show ?thesis
    by (simp add: each_indexed_def all_checks_accepts lessThan_def)
qed

lemmas accepts_bind = rbind_eq_Inr

declare all_checks.simps [simp del]

text \<open>Fields of a literal dictionary.\<close>

lemma dget_Cons [simp]: "dget ((k, v) # d) k' = (if k = k' then v else dget d k')"
  by (simp add: dget_def)

lemma dget_Nil [simp]: "dget [] k = JNone"
  by (simp add: dget_def)

section \<open>Reading a report\<close>

text \<open>\<open>v or {}\<close> and \<open>v or []\<close>; the elements of such a list.\<close>

definition or_dict :: "pyval \<Rightarrow> pyval" where "or_dict v = py_or v (JDict [])"
definition or_list :: "pyval \<Rightarrow> pyval" where "or_list v = py_or v (JList [])"

lemma or_dict_JDict [simp]: "or_dict (JDict d) = JDict d"
  by (simp add: or_dict_def py_or_def)

lemma or_dict_JNone [simp]: "or_dict JNone = JDict []"
  by (simp add: or_dict_def py_or_def)

lemma or_list_JList [simp]: "or_list (JList xs) = JList xs"
  by (simp add: or_list_def py_or_def)

lemma or_list_JNone [simp]: "or_list JNone = JList []"
  by (simp add: or_list_def py_or_def)

lemma viter_JList [simp]: "viter (JList xs) = Inr xs"
  by (simp add: viter_def)

text \<open>\<open>[f(x) for x in xs if ...]\<close> where test and element may raise.\<close>

fun rcollect :: "('a \<Rightarrow> 'e + 'b option) \<Rightarrow> 'a list \<Rightarrow> 'e + 'b list" where
  "rcollect f [] = Inr []"
| "rcollect f (x # xs) = rbind (f x) (\<lambda>y. rbind (rcollect f xs) (\<lambda>ys.
     Inr (case y of None \<Rightarrow> ys | Some z \<Rightarrow> z # ys)))"

lemma rcollect_total:
  "(\<And>x. x \<in> set xs \<Longrightarrow> f x = Inr (g x)) \<Longrightarrow> rcollect f xs = Inr (List.map_filter g xs)"
  by (induction xs) (auto simp: List.map_filter_def split: option.splits)

lemma rcollect_elem:
  "rcollect f xs = Inr ys \<Longrightarrow> y \<in> set ys \<longleftrightarrow> (\<exists>x \<in> set xs. f x = Inr (Some y))"
  by (induction xs arbitrary: ys) (auto simp: rbind_eq_Inr split: option.splits)

lemma rmapM_result: "rmapM f xs = Inr ys \<Longrightarrow> x \<in> set xs \<Longrightarrow> \<exists>y \<in> set ys. f x = Inr y"
  by (induction xs arbitrary: ys) (auto simp: rbind_eq_Inr)

text \<open>\<open>any(p(x) for x in xs)\<close> and \<open>all(p(x) for x in xs)\<close>: they stop at the first answer.\<close>

fun ranyM :: "('a \<Rightarrow> 'e + bool) \<Rightarrow> 'a list \<Rightarrow> 'e + bool" where
  "ranyM p [] = Inr False"
| "ranyM p (x # xs) = rbind (p x) (\<lambda>b. if b then Inr True else ranyM p xs)"

lemma ranyM_False [accepts]: "ranyM p xs = Inr False \<longleftrightarrow> (\<forall>x \<in> set xs. p x = Inr False)"
  by (induction xs) (auto simp: rbind_eq_Inr)

text \<open>Sets of values. Building one raises \<open>TypeError\<close> on an unhashable element; it is kept as a
  list, whose order and repetitions do not matter.\<close>

definition py_set :: "pyval list \<Rightarrow> exc + pyval list" where
  "py_set xs = (if list_all hashable xs then Inr xs else Inl TypeError)"

definition set_of :: "pyval \<Rightarrow> exc + pyval list" where
  "set_of v = rbind (viter v) py_set"

definition same_set :: "pyval list \<Rightarrow> pyval list \<Rightarrow> bool" where
  "same_set xs ys \<longleftrightarrow> list_all (\<lambda>x. in_list x ys) xs \<and> list_all (\<lambda>y. in_list y xs) ys"

lemma same_set_strings:
  "same_set (map JStr xs) (map JStr ys) \<longleftrightarrow> set xs = set ys"
  by (auto simp: same_set_def list_all_iff in_list_def list_ex_iff)

lemma strings_same_set: "list_all is_str xs \<Longrightarrow> same_set xs xs"
  by (auto simp: same_set_def in_list_def list_all_iff list_ex_iff elim!: is_str.elims)

lemma strings_set: "list_all is_str xs \<Longrightarrow> set_of (JList xs) = Inr xs"
  by (auto simp: set_of_def py_set_def list_all_iff elim!: is_str.elims)

text \<open>\<open>sorted(xs)\<close> raises \<open>TypeError\<close> unless its elements are comparable; the order of the
  result is only used in messages.\<close>

definition sortable :: "pyval list \<Rightarrow> bool" where
  "sortable xs \<longleftrightarrow> length xs \<le> 1 \<or> list_all is_str xs \<or> list_all isinstance_number xs"

text \<open>\<open>k in v\<close> for a string \<open>k\<close>.\<close>

definition vhas :: "pyval \<Rightarrow> string \<Rightarrow> exc + bool" where
  "vhas v k = (case v of
      JDict d \<Rightarrow> Inr (dhas d k)
    | JList xs \<Rightarrow> Inr (in_list (JStr k) xs)
    | JStr s \<Rightarrow> Inr (contains s k)
    | _ \<Rightarrow> Inl TypeError)"

text \<open>\<open>a > b\<close>; \<open>v.lower()\<close>; \<open>len(v)\<close>.\<close>

definition py_greater :: "pyval \<Rightarrow> pyval \<Rightarrow> exc + bool" where
  "py_greater a b = py_less b a"

definition vlower :: "pyval \<Rightarrow> exc + string" where
  "vlower v = (case v of JStr s \<Rightarrow> Inr (lower s) | _ \<Rightarrow> Inl AttributeError)"

definition vlen :: "pyval \<Rightarrow> exc + nat" where
  "vlen v = (case v of
      JStr s \<Rightarrow> Inr (length s) | JList xs \<Rightarrow> Inr (length xs) | JDict d \<Rightarrow> Inr (length d) | _ \<Rightarrow> Inl TypeError)"

text \<open>\<open>root / s\<close>.\<close>

definition below :: "path \<Rightarrow> string \<Rightarrow> path" where
  "below base s = (if is_absolute s then path_parts s else base @ path_parts s)"

text \<open>\<open>v in (True, False)\<close>, which compares by value: \<open>0\<close> and \<open>1\<close> are in it.\<close>

definition true_or_false :: "pyval \<Rightarrow> bool" where
  "true_or_false v \<longleftrightarrow> in_list v [JBool True, JBool False]"

text \<open>What a report must say in a field: equality with a string.\<close>

definition says :: "pydict \<Rightarrow> string \<Rightarrow> string \<Rightarrow> bool" where
  "says d k s \<longleftrightarrow> dget d k = JStr s"

definition state_is :: "pydict \<Rightarrow> string \<Rightarrow> errs" where
  "state_is d s = flag (\<not> says d ''state'' s) (Msg (''state is not '' @ s) [dget d ''state''])"

lemma state_is_accepts [accepts]: "state_is d s = Inr [] \<longleftrightarrow> dget d ''state'' = JStr s"
  by (simp add: state_is_def flag_accepts says_def)

definition needs :: "pydict \<Rightarrow> string \<Rightarrow> errs" where
  "needs d k = flag (\<not> truthy (dget d k)) (Msg ''required'' [JStr k])"

lemma needs_accepts [accepts]: "needs d k = Inr [] \<longleftrightarrow> truthy (dget d k)"
  by (simp add: needs_def flag_accepts)

lemma in_strset_Inr [accepts]:
  "in_strset v ss = Inr True \<longleftrightarrow> in_strs v ss"
  "in_strset v ss = Inr False \<longleftrightarrow> hashable v \<and> \<not> in_strs v ss"
  by (cases v; simp add: in_strset_def in_strs_def)+

end
