(* ===== verification/GapClassification.thy ===== *)
theory GapClassification
  imports Checks
begin

text \<open>
  The routing decision of MAT-004: \<open>operations/discovery/classify_gaps.py\<close> computes it from the
  model scan and the capability match, \<open>validators/gap_validator.py\<close> accepts or rejects it. The main
  theorem says that the two agree: what the classifier writes, the gate accepts.
\<close>

section \<open>The classifier\<close>

text \<open>\<open>SCAN_CLASSES\<close>: the class and the action of a scan verdict, \<open>None\<close> where there is no gap.\<close>

definition scan_classes :: "(string \<times> (string \<times> string) option) list" where
  "scan_classes =
     [(''ABSENT'', Some (''REGISTRATION_MISSING'', ''write a model implementation'')),
      (''PR_PENDING'', Some (''VERSION_LAG'', ''cherry-pick the open pull request or wait for merge'')),
      (''MAIN_ONLY'', Some (''VERSION_LAG'', ''upgrade the installed vLLM or cherry-pick from main'')),
      (''UNKNOWN_UPSTREAM'', Some (''UNVERIFIED'', ''reach upstream and re-run the scan before deciding'')),
      (''KUNLUN_OOT'', None),
      (''UPSTREAM_GENERIC'', None)]"

definition scan_class :: "pyval \<Rightarrow> exc + (string \<times> string) option" where
  "scan_class v =
     (if \<not> hashable v then Inl TypeError
      else Inr (case v of
          JStr s \<Rightarrow> (case map_of scan_classes s of
              None \<Rightarrow> Some (''UNVERIFIED'', ''re-run the scan'') | Some c \<Rightarrow> c)
        | _ \<Rightarrow> Some (''UNVERIFIED'', ''re-run the scan'')))"

definition gap_entry :: "string \<Rightarrow> pyval \<Rightarrow> string \<Rightarrow> string \<Rightarrow> string \<Rightarrow> pydict" where
  "gap_entry cls axis detail action evidence =
     [(''class'', JStr cls), (''axis'', axis), (''detail'', JStr detail), (''next_action'', JStr action),
      (''owner'', JStr ''us''), (''evidence'', JStr evidence)]"

definition scan_gap :: "lib \<Rightarrow> pyval \<Rightarrow> exc + pydict option" where
  "scan_gap L entry =
     rbind (vget entry ''verdict'') (\<lambda>verdict.
     rbind (scan_class verdict) (\<lambda>c.
     case c of
       None \<Rightarrow> Inr None
     | Some (cls, action) \<Rightarrow>
         rbind (vget entry ''architecture'') (\<lambda>arch.
         Inr (Some (gap_entry cls (JStr ''networking'') (py_str L arch @ '' is '' @ py_str L verdict) action
           ''mat-002 model_support.json'')))))"

definition axis_gap :: "lib \<Rightarrow> pyval \<Rightarrow> exc + pydict option" where
  "axis_gap L axis =
     rbind (vget axis ''verdict'') (\<lambda>verdict.
     if verdict = JStr ''NOT_PROVIDED''
     then rbind (vindex axis ''axis'') (\<lambda>name.
          rbind (vget axis ''required'') (\<lambda>required.
          Inr (Some (gap_entry ''CAPABILITY_MISSING'' name
            (py_str L name @ '' requires '' @ py_str L required @ '' and the installation does not provide it'')
            (''implement or route around the '' @ py_str L name @ '' path'') ''mat-003 capability_match.json''))))
     else if verdict = JStr ''UNKNOWN''
     then rbind (vindex axis ''axis'') (\<lambda>name.
          Inr (Some (gap_entry ''UNVERIFIED'' name (py_str L name @ '' was not introspected'')
            (''introspect the '' @ py_str L name @ '' surface before relying on it'')
            ''mat-003 capability_match.json'')))
     else Inr None)"

definition blocking_class :: "pydict \<Rightarrow> bool" where
  "blocking_class gap \<longleftrightarrow> in_strs (dget gap ''class'') [''REGISTRATION_MISSING'', ''CAPABILITY_MISSING'']"

text \<open>The class and the action of the decision, from the gaps in order.\<close>

definition decide_class :: "pydict list \<Rightarrow> pyval \<times> pyval" where
  "decide_class gaps =
     (case (gaps, filter blocking_class gaps) of
        ([], _) \<Rightarrow> (JStr ''NO_STATIC_GAP'',
          JStr ''attempt a deployment; a failure then belongs to MAT-006 triage, not to networking'')
      | (_, g # _) \<Rightarrow> (dget g ''class'', dget g ''next_action'')
      | (g # _, []) \<Rightarrow> (dget g ''class'', dget g ''next_action''))"

definition find_gaps :: "lib \<Rightarrow> pydict \<Rightarrow> pydict \<Rightarrow> exc + pydict list" where
  "find_gaps L support match =
     rbind (rbind (viter (dget_or support ''results'' (JList []))) (rcollect (scan_gap L))) (\<lambda>scan.
     rbind (rbind (viter (dget_or match ''axes'' (JList []))) (rcollect (axis_gap L))) (\<lambda>axes.
     Inr (scan @ axes)))"

definition classification_report :: "pydict \<Rightarrow> pydict \<Rightarrow> pydict list \<Rightarrow> pydict" where
  "classification_report support match gaps =
     [(''state'', JStr ''CLASSIFICATION_READY''), (''runtime_verified'', JBool False),
      (''classification'', fst (decide_class gaps)), (''next_action'', snd (decide_class gaps)),
      (''gaps'', JList (map JDict gaps)),
      (''blocking'', JList (map (\<lambda>g. dget g ''axis'') (filter blocking_class gaps))),
      (''inputs'', JDict
        [(''scan_state'', dget support ''state''), (''match_verdict'', dget match ''verdict''),
         (''scanned_in'', dget support ''scanned_in''), (''matched_in'', dget match ''matched_in'')])]"

definition classify :: "lib \<Rightarrow> pydict \<Rightarrow> pydict \<Rightarrow> exc + pydict" where
  "classify L support match =
     rbind (find_gaps L support match) (\<lambda>gaps. Inr (classification_report support match gaps))"

section \<open>The gate\<close>

definition gap_classes :: "string list" where
  "gap_classes = [''NO_STATIC_GAP'', ''REGISTRATION_MISSING'', ''VERSION_LAG'', ''CAPABILITY_MISSING'', ''UNVERIFIED'']"

definition required_action :: "(string \<times> string) list" where
  "required_action =
     [(''REGISTRATION_MISSING'', ''model implementation''), (''VERSION_LAG'', ''cherry-pick''),
      (''NO_STATIC_GAP'', ''triage'')]"

definition check_gap :: "pyval \<Rightarrow> errs" where
  "check_gap gap =
     all_checks
      ([rbind (vget gap ''class'') (\<lambda>c. flagM (rnot (in_strset c gap_classes)) (Msg ''gap has unknown class'' [c]))] @
       map (\<lambda>k. need (vget gap k) (Msg ''gap is missing'' [JStr k]))
         [''axis'', ''detail'', ''next_action'', ''evidence''])"

definition blocking_axis :: "pyval \<Rightarrow> exc + pyval option" where
  "blocking_axis gap =
     rbind (vget gap ''class'') (\<lambda>c.
     if in_strs c [''REGISTRATION_MISSING'', ''CAPABILITY_MISSING'']
     then rbind (vindex gap ''axis'') (\<lambda>a. if hashable a then Inr (Some a) else Inl TypeError)
     else Inr None)"

definition check_gaps :: "pydict \<Rightarrow> pyval \<Rightarrow> errs" where
  "check_gaps report gaps =
     (let classification = dget report ''classification'' in
      rbind (viter gaps) (\<lambda>gs.
      all_checks
       [each check_gap gs,
        rbind (rcollect blocking_axis gs) (\<lambda>blocking.
        rbind (set_of (or_list (dget report ''blocking''))) (\<lambda>declared.
          flag (\<not> same_set declared blocking) (Msg ''blocking disagrees with the per-gap classes'' []))),
        flag (\<not> truthy gaps \<and> classification \<noteq> JStr ''NO_STATIC_GAP'')
          (Msg ''no gap was found but the classification is'' [classification]),
        flag (truthy gaps \<and> classification = JStr ''NO_STATIC_GAP'')
          (Msg ''gaps were found, so NO_STATIC_GAP would hide them'' [])]))"

definition check_inputs :: "pyval \<Rightarrow> errs" where
  "check_inputs inputs =
     all_checks
      (map (\<lambda>k. need (vget inputs k) (Msg ''inputs must record what this was derived from'' [JStr k]))
         [''scan_state'', ''match_verdict''] @
       [rbind (vget inputs ''scanned_in'') (\<lambda>s.
          if truthy s then skip
          else need (vget inputs ''matched_in'')
            (Msg ''inputs must name the pod whose installation the findings came from'' []))])"

definition validate_gap_classification :: "lib \<Rightarrow> pydict \<Rightarrow> pydict \<Rightarrow> errs" where
  "validate_gap_classification L report contract =
     (let acceptance = or_dict (dget contract ''acceptance'');
          classification = dget report ''classification'';
          action = py_str L (py_or (dget report ''next_action'') (JStr []));
          gaps = dget report ''gaps''
      in all_checks
       [state_is report ''CLASSIFICATION_READY'',
        flag (\<not> is_False (dget report ''runtime_verified'')) (Msg ''runtime_verified must be false'' []),
        flagM (rnot (in_strset classification gap_classes)) (Msg ''unknown classification'' [classification]),
        flag (action = []) (Msg ''next_action is required'' []),
        (case map_of required_action (py_str L classification) of
           None \<Rightarrow> skip
         | Some expected \<Rightarrow> flag (\<not> contains action expected)
             (Msg ''the classification must lead to an action mentioning'' [classification, JStr expected])),
        (if gaps = JNone then flag True (Msg ''gaps must be present, even when empty'' [])
         else check_gaps report gaps),
        rbind (vget acceptance ''require_input_provenance'') (\<lambda>r.
          whenE (truthy r) (check_inputs (or_dict (dget report ''inputs''))))])"


section \<open>The classifier meets the gate\<close>

text \<open>A class, the action it leads to: what the gate requires of the pair.\<close>

definition routed :: "string \<Rightarrow> string \<Rightarrow> bool" where
  "routed c act \<longleftrightarrow> c \<in> {''REGISTRATION_MISSING'', ''VERSION_LAG'', ''CAPABILITY_MISSING'', ''UNVERIFIED''} \<and>
     act \<noteq> [] \<and> (case map_of required_action c of None \<Rightarrow> True | Some e \<Rightarrow> contains act e)"

definition good_gap :: "pydict \<Rightarrow> bool" where
  "good_gap g \<longleftrightarrow> (\<exists>c a d act ev. g = gap_entry c (JStr a) d act ev \<and> routed c act \<and> a \<noteq> [] \<and> d \<noteq> [] \<and> ev \<noteq> [])"

text \<open>Every axis the match reports has a name, a non-empty string.\<close>

definition named_axes :: "pyval \<Rightarrow> bool" where
  "named_axes axes \<longleftrightarrow> (case axes of
      JList xs \<Rightarrow> list_all (\<lambda>x. case x of JDict d \<Rightarrow> is_str (dget d ''axis'') \<and> truthy (dget d ''axis'') | _ \<Rightarrow> False) xs
    | _ \<Rightarrow> False)"

lemma gap_entry_simps [simp]:
  "dget (gap_entry c a d act ev) ''class'' = JStr c" "dget (gap_entry c a d act ev) ''axis'' = a"
  "dget (gap_entry c a d act ev) ''detail'' = JStr d" "dget (gap_entry c a d act ev) ''next_action'' = JStr act"
  "dget (gap_entry c a d act ev) ''evidence'' = JStr ev"
  "vindex (JDict (gap_entry c a d act ev)) ''axis'' = Inr a"
  by (simp_all add: gap_entry_def vindex_def)

lemma scan_classes_routed: "list_all (\<lambda>(_, p). case p of None \<Rightarrow> True | Some (c, act) \<Rightarrow> routed c act) scan_classes"
  by code_simp

lemma rescan_routed: "routed ''UNVERIFIED'' ''re-run the scan''"
  by code_simp

lemma scan_class_routed:
  assumes "scan_class v = Inr (Some (c, act))"
  shows "routed c act"
proof (cases "\<exists>s p. v = JStr s \<and> map_of scan_classes s = Some p")
  case True
  then obtain s p where "v = JStr s" "map_of scan_classes s = Some p" by blast
  with assms have "(s, Some (c, act)) \<in> set scan_classes"
    by (auto simp: scan_class_def dest: map_of_SomeD split: if_splits)
  with scan_classes_routed show ?thesis by (auto simp: list_all_iff)
next
  case False
  with assms have "c = ''UNVERIFIED'' \<and> act = ''re-run the scan''"
    by (auto simp: scan_class_def split: if_splits pyval.splits option.splits)
  with rescan_routed show ?thesis by simp
qed

lemma good_gapI:
  "routed c act \<Longrightarrow> a \<noteq> [] \<Longrightarrow> d \<noteq> [] \<Longrightarrow> ev \<noteq> [] \<Longrightarrow> good_gap (gap_entry c (JStr a) d act ev)"
  unfolding good_gap_def by blast

lemma scan_gap_good: "scan_gap L e = Inr (Some g) \<Longrightarrow> good_gap g"
  by (auto simp: scan_gap_def rbind_eq_Inr split: option.splits intro!: good_gapI dest: scan_class_routed)

lemma axis_routed: "routed ''CAPABILITY_MISSING'' (''implement or route around the '' @ n)"
  "routed ''UNVERIFIED'' (''introspect the '' @ n)"
  by (simp_all add: routed_def required_action_def)

lemma axis_gap_good:
  assumes "axis_gap L x = Inr (Some g)"
    and "case x of JDict d \<Rightarrow> is_str (dget d ''axis'') \<and> truthy (dget d ''axis'') | _ \<Rightarrow> False"
  shows "good_gap g"
proof -
  obtain d where x: "x = JDict d" using assms(2) by (cases x) auto
  obtain a where a: "dget d ''axis'' = JStr a" "a \<noteq> []"
    using assms(2) x by (cases "dget d ''axis''") auto
  have n: "name = JStr a" if "vindex x ''axis'' = Inr name" for name
    using that a x by (auto simp: vindex_def dget_def split: option.splits)
  show ?thesis
    using assms(1) a(2)
    by (auto simp: axis_gap_def rbind_eq_Inr simp del: append_Cons append_Nil dest!: n
        split: if_splits intro!: good_gapI axis_routed) 
qed


lemma find_gaps_good:
  assumes "find_gaps L support match = Inr gaps" and "named_axes (dget_or match ''axes'' (JList []))"
    and g: "g \<in> set gaps"
  shows "good_gap g"
proof -
  obtain xs where xs: "dget_or match ''axes'' (JList []) = JList xs"
    and named: "\<And>x. x \<in> set xs \<Longrightarrow> case x of JDict d \<Rightarrow> is_str (dget d ''axis'') \<and> truthy (dget d ''axis'') | _ \<Rightarrow> False"
    using assms(2) by (auto simp: named_axes_def list_all_iff split: pyval.splits)
  obtain ss scan axes where r: "rcollect (scan_gap L) ss = Inr scan" "rcollect (axis_gap L) xs = Inr axes" "gaps = scan @ axes"
    using assms(1) by (auto simp: find_gaps_def rbind_eq_Inr xs)
  from g r(3) consider "g \<in> set scan" | "g \<in> set axes" by auto
  then show ?thesis
  proof cases
    case 1
    then show ?thesis using rcollect_elem[OF r(1)] scan_gap_good by blast
  next
    case 2
    then obtain x where "x \<in> set xs" "axis_gap L x = Inr (Some g)" using rcollect_elem[OF r(2)] by blast
    with named show ?thesis by (blast intro: axis_gap_good)
  qed
qed

lemma good_gap_checked: "good_gap g \<Longrightarrow> check_gap (JDict g) = Inr []"
  by (auto simp: good_gap_def check_gap_def accepts accepts_bind gap_classes_def in_strs_def routed_def)

lemma good_gap_axis:
  assumes "good_gap g"
  shows "blocking_axis (JDict g) = Inr (if blocking_class g then Some (dget g ''axis'') else None)"
  using assms by (auto simp: good_gap_def blocking_axis_def blocking_class_def)

lemma blocking_collected:
  assumes "\<And>g. g \<in> set gaps \<Longrightarrow> good_gap g"
  shows "rcollect blocking_axis (map JDict gaps) = Inr (map (\<lambda>g. dget g ''axis'') (filter blocking_class gaps))"
  using assms by (induction gaps) (simp_all add: good_gap_axis)

lemma decide_class_routed:
  assumes "\<And>g. g \<in> set gaps \<Longrightarrow> good_gap g"
  obtains "gaps = []" "decide_class gaps = (JStr ''NO_STATIC_GAP'', JStr ''attempt a deployment; a failure then belongs to MAT-006 triage, not to networking'')"
  | c act where "gaps \<noteq> []" "decide_class gaps = (JStr c, JStr act)" "routed c act"
proof (cases gaps)
  case Nil
  then show ?thesis using that(1) by (simp add: decide_class_def)
next
  case (Cons g gs)
  define h where "h = (case filter blocking_class gaps of [] \<Rightarrow> g | h # _ \<Rightarrow> h)"
  have "h \<in> set gaps"
  proof (cases "filter blocking_class gaps")
    case Nil
    then show ?thesis by (simp add: h_def Cons)
  next
    case (Cons a list)
    then have "a \<in> set gaps" by (metis filter_is_subset list.set_intros(1) subsetD)
    with Cons show ?thesis by (simp add: h_def)
  qed
  then have "good_gap h" by (rule assms)
  then obtain c act where "dget h ''class'' = JStr c" "dget h ''next_action'' = JStr act" "routed c act"
    by (auto simp: good_gap_def)
  moreover have "decide_class gaps = (dget h ''class'', dget h ''next_action'')"
    by (simp add: decide_class_def h_def Cons split: list.splits)
  ultimately show ?thesis using that(2) Cons by simp
qed

text \<open>The facts of a report the classifier writes.\<close>

lemma classification_report_simps:
  "dget (classification_report s m gs) ''state'' = JStr ''CLASSIFICATION_READY''"
  "dget (classification_report s m gs) ''runtime_verified'' = JBool False"
  "dget (classification_report s m gs) ''classification'' = fst (decide_class gs)"
  "dget (classification_report s m gs) ''next_action'' = snd (decide_class gs)"
  "dget (classification_report s m gs) ''gaps'' = JList (map JDict gs)"
  "dget (classification_report s m gs) ''blocking'' = JList (map (\<lambda>g. dget g ''axis'') (filter blocking_class gs))"
  "dget (classification_report s m gs) ''inputs'' = JDict
     [(''scan_state'', dget s ''state''), (''match_verdict'', dget m ''verdict''),
      (''scanned_in'', dget s ''scanned_in''), (''matched_in'', dget m ''matched_in'')]"
  by (simp_all add: classification_report_def)

lemma report_gaps_checked:
  assumes good: "\<And>g. g \<in> set gaps \<Longrightarrow> good_gap g"
  shows "check_gaps (classification_report s m gaps) (JList (map JDict gaps)) = Inr []"
proof -
  have strs: "list_all is_str (map (\<lambda>g. dget g ''axis'') (filter blocking_class gaps))"
    using good by (auto simp: list_all_iff good_gap_def dest!: good)
  have cls: "fst (decide_class gaps) = JStr ''NO_STATIC_GAP'' \<longleftrightarrow> gaps = []"
    using good by (rule decide_class_routed) (auto simp: routed_def)
  show ?thesis
    using cls good
    by (auto simp: check_gaps_def classification_report_simps accepts blocking_collected strings_set[OF strs]
        strings_same_set[OF strs] good_gap_checked)
qed

text \<open>C31: What the classifier writes, the gate accepts: when the two findings name the pod, their state and
  verdict, and every axis of the match has a name, the report of \<open>classify\<close> passes
  \<open>validate_gap_classification\<close> whatever the contract requires of its inputs.\<close>

theorem classify_accepted:
  assumes run: "classify L support match = Inr report"
    and named: "named_axes (dget_or match ''axes'' (JList []))"
    and prov: "truthy (dget support ''state'')" "truthy (dget match ''verdict'')"
      "truthy (dget support ''scanned_in'') \<or> truthy (dget match ''matched_in'')"
    and contract: "is_dict (or_dict (dget contract ''acceptance''))"
  shows "validate_gap_classification L report contract = Inr []"
proof -
  obtain gaps where gaps: "find_gaps L support match = Inr gaps"
    and report: "report = classification_report support match gaps"
    using run by (auto simp: classify_def rbind_eq_Inr)
  have good: "\<And>g. g \<in> set gaps \<Longrightarrow> good_gap g"
    using find_gaps_good[OF gaps named] .
  obtain c act where d: "decide_class gaps = (JStr c, JStr act)" "c \<in> set gap_classes" "act \<noteq> []"
      "case map_of required_action c of None \<Rightarrow> True | Some e \<Rightarrow> contains act e"
    using good
  proof (rule decide_class_routed)
    assume "decide_class gaps = (JStr ''NO_STATIC_GAP'', JStr ''attempt a deployment; a failure then belongs to MAT-006 triage, not to networking'')"
    then show thesis by (rule that) (simp_all add: gap_classes_def required_action_def)
  next
    fix c act
    assume "decide_class gaps = (JStr c, JStr act)" "routed c act"
    then show thesis by (intro that) (auto simp: routed_def gap_classes_def)
  qed
  obtain acc where acc: "or_dict (dget contract ''acceptance'') = JDict acc"
    using contract by (auto elim: is_dict.elims)
  have inputs: "check_inputs (JDict [(''scan_state'', dget support ''state''), (''match_verdict'', dget match ''verdict''),
      (''scanned_in'', dget support ''scanned_in''), (''matched_in'', dget match ''matched_in'')]) = Inr []"
    using prov by (auto simp: check_inputs_def accepts)
  show ?thesis
    using d(2-4)
    by (auto simp: validate_gap_classification_def report classification_report_simps d(1) acc accepts Let_def is_False_def
        in_strs_def py_or_def report_gaps_checked[OF good] inputs split: option.splits)
qed


definition demo_support :: pydict where
  "demo_support = [(''state'', JStr ''SCAN_READY''), (''scanned_in'', JStr ''pod-1''),
     (''results'', JList [JDict [(''architecture'', JStr ''NewForCausalLM''), (''verdict'', JStr ''ABSENT'')]])]"

definition demo_match :: pydict where
  "demo_match = [(''verdict'', JStr ''MATCHED_WITH_UNKNOWNS''),
     (''axes'', JList [JDict [(''axis'', JStr ''moe''), (''verdict'', JStr ''UNKNOWN'')]])]"

theorem classify_accepted_witness:
  "\<exists>report. classify demo_lib demo_support demo_match = Inr report \<and>
     dget report ''classification'' = JStr ''REGISTRATION_MISSING'' \<and>
     validate_gap_classification demo_lib report
       [(''acceptance'', JDict [(''require_input_provenance'', JBool True)])] = Inr []"
proof -
  have "returned (\<lambda>r. dget r ''classification'' = JStr ''REGISTRATION_MISSING'') (classify demo_lib demo_support demo_match, ())"
    by code_simp
  then obtain report where r: "classify demo_lib demo_support demo_match = Inr report"
      "dget report ''classification'' = JStr ''REGISTRATION_MISSING''"
    by (auto elim: returnedE)
  have "validate_gap_classification demo_lib report
      [(''acceptance'', JDict [(''require_input_provenance'', JBool True)])] = Inr []"
    by (rule classify_accepted[OF r(1)]) (simp_all add: demo_support_def demo_match_def named_axes_def dget_or_def)
  with r show ?thesis by blast
qed

text \<open>A verdict of the scan that the classifier does not know, the vendored variant, is answered with
  another scan, although the scan is conclusive.\<close>

lemma vendored_variant_rescanned:
  "scan_gap L (JDict [(''architecture'', JStr a), (''verdict'', JStr ''UPSTREAM_VENDORED_VARIANT'')]) =
     Inr (Some (gap_entry ''UNVERIFIED'' (JStr ''networking'') (a @ '' is UPSTREAM_VENDORED_VARIANT'')
       ''re-run the scan'' ''mat-002 model_support.json''))"
  by (simp add: scan_gap_def scan_class_def scan_classes_def)

end
