(* ===== verification/CapabilityMatch.thy ===== *)
theory CapabilityMatch
  imports Checks
begin

text \<open>
  The capability match of MAT-003 and the evaluation it selects: the probe that compares what a model's
  configuration demands with what the installation provides (\<open>tools/probe/capability_match_probe.py\<close>),
  the gate on its report (\<open>validators/capability_validator.py\<close>), and the choice and the fan-in of
  the dimensions to exercise (\<open>operations/discovery/evaluate_capability.py\<close>).

  The installed package is not part of the repository: \<open>installed\<close> says which of its files exist,
  \<open>methods\<close> is its registry of quantization methods or the exception that importing it raises.
\<close>

section \<open>The probe\<close>

definition attention_variant :: "lib \<Rightarrow> pydict \<Rightarrow> exc + string" where
  "attention_variant L config =
     (let text = json_dumps L (JDict config) in
      if truthy (dget config ''kv_lora_rank'') then Inr ''mla''
      else if contains text ''linear_attn'' \<or> contains text ''mamba'' \<or> truthy (dget config ''layer_types'')
      then Inr ''hybrid_linear''
      else if truthy (dget config ''sliding_window'') then Inr ''sliding_window''
      else if truthy (dget config ''num_key_value_heads'') \<and> truthy (dget config ''num_attention_heads'')
      then rbind (py_less (dget config ''num_key_value_heads'') (dget config ''num_attention_heads''))
        (\<lambda>b. Inr (if b then ''gqa'' else ''mha''))
      else Inr ''unknown'')"

definition required_capabilities :: "lib \<Rightarrow> pydict \<Rightarrow> exc + pydict" where
  "required_capabilities L config =
     rbind (vget (or_dict (dget config ''quantization_config'')) ''quant_method'') (\<lambda>quant.
     let experts = py_or (py_or (dget config ''num_experts'') (dget config ''n_routed_experts''))
           (dget config ''num_local_experts'') in
     rbind (attention_variant L config) (\<lambda>attention.
     Inr [(''attention_variant'', JStr attention), (''quantization'', quant), (''moe_experts'', experts),
          (''multimodal'', JBool (truthy (py_or (dget config ''vision_config'') (dget config ''audio_config'')))),
          (''speculative_layers'', dget config ''num_nextn_predict_layers'')]))"

definition if_exists :: "(string list \<Rightarrow> bool) \<Rightarrow> string list \<Rightarrow> pyval" where
  "if_exists installed parts = JStr (if installed parts then ''MODULE'' else ''ABSENT'')"

definition attention_backends :: "(string list \<Rightarrow> bool) \<Rightarrow> pydict" where
  "attention_backends installed =
     (let backend = \<lambda>f. if_exists installed [''v1'', ''attention'', ''backends'', f] in
      [(''gqa'', backend ''kunlun_attn.py''), (''mha'', backend ''kunlun_attn.py''), (''sliding_window'', backend ''kunlun_attn.py''),
       (''mla'', backend ''mla''), (''hybrid_linear'', backend ''gdn_attn.py'')])"

definition provided_capabilities :: "lib \<Rightarrow> (string list \<Rightarrow> bool) \<Rightarrow> exc + string list \<Rightarrow> pydict" where
  "provided_capabilities L installed methods =
     [(''attention_backends'', JDict (attention_backends installed)),
      (''quantization_methods'', JList (case methods of Inl _ \<Rightarrow> [] | Inr ms \<Rightarrow> map JStr (sort ms))),
      (''quantization_evidence'', JStr (case methods of Inl e \<Rightarrow> ''UNKNOWN: '' @ exc_text L e | Inr _ \<Rightarrow> ''REGISTRY'')),
      (''moe'', if_exists installed [''quantization'', ''moe_wna16.py'']),
      (''lora'', if_exists installed [''lora'', ''punica_wrapper'']),
      (''reasoning_parsers'', if_exists installed [''reasoning'', ''__init__.py'']),
      (''tool_parsers'', if_exists installed [''tool_parsers'', ''__init__.py'']),
      (''pd_disaggregation'', JStr ''ABSENT'')]"

definition axis_entry :: "string \<Rightarrow> pyval \<Rightarrow> pyval \<Rightarrow> string \<Rightarrow> pydict" where
  "axis_entry axis required evidence verdict =
     [(''axis'', JStr axis), (''required'', required), (''evidence'', evidence), (''verdict'', JStr verdict)]"

text \<open>\<open>match\<close>: \<open>required\<close> and \<open>provided\<close> are the two dictionaries above, of the probe's own making.\<close>

definition match_axes :: "pydict \<Rightarrow> pydict \<Rightarrow> pydict list" where
  "match_axes required provided =
     (let variant = dget required ''attention_variant'';
          attention = (case dget provided ''attention_backends'' of
              JDict d \<Rightarrow> dget_or d (str_or variant []) (JStr ''ABSENT'') | _ \<Rightarrow> JStr ''ABSENT'');
          quant = dget required ''quantization'';
          known = (case dget provided ''quantization_methods'' of JList ms \<Rightarrow> in_list quant ms | _ \<Rightarrow> False);
          experts = dget required ''moe_experts'';
          moe = dget provided ''moe'';
          multimodal = dget required ''multimodal'';
          layers = dget required ''speculative_layers''
      in [axis_entry ''attention'' variant attention
            (if attention = JStr ''MODULE'' then ''PROVIDED_MODULE_ONLY'' else ''NOT_PROVIDED''),
          (if \<not> truthy quant then axis_entry ''quantization'' JNone (JStr ''N/A'') ''NOT_REQUIRED''
           else axis_entry ''quantization'' quant
             (if known then dget provided ''quantization_evidence'' else JStr ''ABSENT'')
             (if known then ''PROVIDED'' else ''NOT_PROVIDED'')),
          axis_entry ''moe'' experts (if truthy experts then moe else JStr ''N/A'')
            (if \<not> truthy experts then ''NOT_REQUIRED''
             else if moe = JStr ''MODULE'' then ''PROVIDED_MODULE_ONLY'' else ''NOT_PROVIDED''),
          axis_entry ''multimodal'' multimodal (JStr ''N/A'')
            (if \<not> truthy multimodal then ''NOT_REQUIRED'' else ''UNKNOWN''),
          axis_entry ''speculative_decode'' layers (JStr ''N/A'')
            (if \<not> truthy layers then ''NOT_REQUIRED'' else ''UNKNOWN'')])"

definition axes_with :: "string \<Rightarrow> pydict list \<Rightarrow> pydict list" where
  "axes_with verdict axes = filter (\<lambda>a. dget a ''verdict'' = JStr verdict) axes"

definition axis_names :: "pydict list \<Rightarrow> pyval list" where
  "axis_names axes = map (\<lambda>a. dget a ''axis'') axes"

definition match_payload :: "string \<Rightarrow> pydict \<Rightarrow> pydict \<Rightarrow> pydict" where
  "match_payload model_path required provided =
     (let axes = match_axes required provided;
          blocking = axes_with ''NOT_PROVIDED'' axes;
          unknown = axes_with ''UNKNOWN'' axes
      in [(''state'', JStr ''MATCH_READY''), (''runtime_verified'', JBool False), (''model_path'', JStr model_path),
          (''required'', JDict required), (''provided'', JDict provided), (''axes'', JList (map JDict axes)),
          (''verdict'', JStr (if blocking \<noteq> [] then ''MISMATCH''
             else if unknown \<noteq> [] then ''MATCHED_WITH_UNKNOWNS'' else ''MATCHED'')),
          (''blocking_axes'', JList (axis_names blocking)), (''unknown_axes'', JList (axis_names unknown))])"

text \<open>\<open>main\<close>: whatever raises is reported as a failed match; \<open>config\<close> is the outcome of reading
  the model's configuration, \<open>describe\<close> prints the class and the text of an exception.\<close>

definition match_probe ::
  "lib \<Rightarrow> (exc \<Rightarrow> string) \<Rightarrow> exc + pydict \<Rightarrow> (string list \<Rightarrow> bool) \<Rightarrow> exc + string list \<Rightarrow> string \<Rightarrow> pydict" where
  "match_probe L describe config installed methods model_path =
     (case rbind config (required_capabilities L) of
        Inl e \<Rightarrow> [(''state'', JStr ''MATCH_FAILED''), (''reason'', JStr (describe e))]
      | Inr required \<Rightarrow> match_payload model_path required (provided_capabilities L installed methods))"

section \<open>The gate\<close>

definition axis_verdicts :: "string list" where
  "axis_verdicts = [''PROVIDED'', ''PROVIDED_MODULE_ONLY'', ''NOT_PROVIDED'', ''NOT_REQUIRED'', ''UNKNOWN'']"
definition overall_verdicts :: "string list" where
  "overall_verdicts = [''MATCHED'', ''MATCHED_WITH_UNKNOWNS'', ''MISMATCH'']"
definition evidence_grades :: "string list" where
  "evidence_grades = [''REGISTRY'', ''MODULE'', ''ABSENT'', ''N/A'']"
definition banned_claims :: "string list" where
  "banned_claims = [''supported'', ''works'', ''verified'', ''ready'']"

definition check_axis :: "pyval \<Rightarrow> errs" where
  "check_axis axis =
     rbind (vget_or axis ''axis'' (JStr ''?'')) (\<lambda>name.
     rbind (vget axis ''verdict'') (\<lambda>verdict.
     rbind (vget axis ''evidence'') (\<lambda>evidence.
     all_checks
      [flagM (rnot (in_strset verdict axis_verdicts)) (Msg ''unknown verdict'' [name, verdict]),
       flagM (rnot (in_strset evidence evidence_grades)) (Msg ''evidence must be graded'' [name, evidence]),
       flag (verdict = JStr ''PROVIDED'' \<and> evidence \<noteq> JStr ''REGISTRY'')
         (Msg ''PROVIDED requires registry evidence'' [name]),
       flag (verdict = JStr ''NOT_PROVIDED'' \<and> evidence \<noteq> JStr ''ABSENT'')
         (Msg ''NOT_PROVIDED must be backed by absent evidence'' [name])])))"

text \<open>\<open>{axis["axis"] for axis in axes if axis.get("verdict") == v}\<close>.\<close>

definition named_with :: "string \<Rightarrow> pyval \<Rightarrow> exc + pyval option" where
  "named_with v axis =
     rbind (vget axis ''verdict'') (\<lambda>x.
     if x = JStr v then rbind (vindex axis ''axis'') (\<lambda>a. if hashable a then Inr (Some a) else Inl TypeError)
     else Inr None)"

definition ungraded :: "pyval \<Rightarrow> exc + bool" where
  "ungraded axis =
     rbind (vget axis ''evidence'') (\<lambda>e.
     if e \<noteq> JStr ''N/A'' then Inr False
     else rbind (vget axis ''verdict'') (\<lambda>v. Inr (\<not> in_strs v [''NOT_REQUIRED'', ''UNKNOWN''])))"

definition validate_capability_match :: "lib \<Rightarrow> pydict \<Rightarrow> pydict \<Rightarrow> errs" where
  "validate_capability_match L match contract =
     (let checks = or_dict (dget contract ''checks'');
          acceptance = or_dict (dget contract ''acceptance'');
          verdict = dget match ''verdict'';
          axes = or_list (dget match ''axes'') in
      all_checks
       [state_is match ''MATCH_READY'',
        flag (\<not> is_False (dget match ''runtime_verified'')) (Msg ''runtime_verified must be present and false'' []),
        flag (\<not> truthy (dget match ''matched_in'')) (Msg ''matched_in must record the pod'' []),
        flagM (rnot (in_strset verdict overall_verdicts)) (Msg ''unknown overall verdict'' [verdict]),
        flag (list_ex (contains (lower (py_str L verdict))) banned_claims)
          (Msg ''verdict reads as a support claim'' [verdict]),
        flag (\<not> truthy axes) (Msg ''no capability axis was matched'' []),
        rbind (viter axes) (\<lambda>as. all_checks
         [each check_axis as,
          rbind (rcollect (named_with ''NOT_PROVIDED'') as) (\<lambda>blocking.
          rbind (rcollect (named_with ''UNKNOWN'') as) (\<lambda>unknown.
          all_checks
           [rbind (set_of (or_list (dget match ''blocking_axes''))) (\<lambda>s.
              flag (\<not> same_set s blocking) (Msg ''blocking_axes disagrees with the per-axis verdicts'' [])),
            rbind (set_of (or_list (dget match ''unknown_axes''))) (\<lambda>s.
              flag (\<not> same_set s unknown) (Msg ''unknown_axes disagrees with the per-axis verdicts'' [])),
            (if blocking \<noteq> [] \<and> verdict \<noteq> JStr ''MISMATCH''
             then rbind (rguard (sortable blocking) TypeError) (\<lambda>_.
                flag True (Msg ''axes are NOT_PROVIDED but the overall verdict is another'' [verdict]))
             else skip),
            (if blocking = [] \<and> unknown \<noteq> [] \<and> verdict \<noteq> JStr ''MATCHED_WITH_UNKNOWNS''
             then rbind (rguard (sortable unknown) TypeError) (\<lambda>_.
                flag True (Msg ''axes were not introspected, so MATCHED would hide an open question'' []))
             else skip)])),
          rbind (vget checks ''require_graded_evidence'') (\<lambda>r.
            whenE (truthy r) (flagM (ranyM ungraded as) (Msg ''an axis claims a result without evidence'' [])))]),
        rbind (vget acceptance ''evidence_required'') (\<lambda>r.
          flag (truthy r \<and> \<not> truthy (dget match ''provided''))
            (Msg ''the inventory of provided capabilities must be recorded'' []))])"

section \<open>The dimensions to exercise, and their fan-in\<close>

definition dimension_from_axis :: "(string \<times> string) list" where
  "dimension_from_axis = [(''quantization'', ''quantization''), (''moe'', ''moe''), (''multimodal'', ''multimodal'')]"

fun select_dimensions :: "string list \<Rightarrow> pyval list \<Rightarrow> exc + string list" where
  "select_dimensions sel [] = Inr sel"
| "select_dimensions sel (axis # axes) =
     rbind (vget axis ''verdict'') (\<lambda>verdict.
     if verdict = JStr ''NOT_REQUIRED'' then select_dimensions sel axes
     else rbind (vget axis ''axis'') (\<lambda>name.
       if \<not> hashable name then Inl TypeError
       else rbind (vget axis ''required'') (\<lambda>required.
         let sel1 = (case map_of dimension_from_axis (str_or name []) of
               None \<Rightarrow> sel | Some d \<Rightarrow> if d \<in> set sel then sel else sel @ [d]);
             sel2 = (if name = JStr ''attention'' \<and> required = JStr ''sliding_window'' then sel1 @ [''swa''] else sel1);
             sel3 = (if name = JStr ''attention'' \<and> required = JStr ''block_sparse''
               then sel2 @ [''block_sparse'', ''fused_qknorm_rope_insert''] else sel2)
         in select_dimensions sel3 axes)))"

definition dimensions_for :: "pydict \<Rightarrow> exc + string list" where
  "dimensions_for match = rbind (viter (dget_or match ''axes'' (JList []))) (select_dimensions [])"

definition state_order :: "string list" where
  "state_order = [''EVALUATION_ERROR'', ''EXERCISED_FAIL'', ''EVALUATION_INCONCLUSIVE'',
     ''EVALUATION_UNIMPLEMENTED'', ''EXERCISED_PASS'']"

fun position :: "'a \<Rightarrow> 'a list \<Rightarrow> nat" where
  "position _ [] = 0"
| "position x (y # ys) = (if x = y then 0 else Suc (position x ys))"

definition state_rank :: "pyval \<Rightarrow> nat" where
  "state_rank v = (case v of JStr s \<Rightarrow> if s \<in> set state_order then position s state_order else 0 | _ \<Rightarrow> 0)"

text \<open>\<open>min(states, key=..., default=...)\<close>: the first of the smallest.\<close>

fun worst_state :: "pyval list \<Rightarrow> pyval" where
  "worst_state [] = JStr ''EVALUATION_ERROR''"
| "worst_state [s] = s"
| "worst_state (s # t # ts) = worst_state ((if state_rank t < state_rank s then t else s) # ts)"

text \<open>The row of one child directory: its name, its path and the outcome of reading its report, \<open>None\<close>
  where the file is absent.\<close>

definition dimension_row :: "string \<Rightarrow> string \<Rightarrow> string \<Rightarrow> pydict option \<Rightarrow> pydict" where
  "dimension_row name report_path dir report =
     (case report of
        None \<Rightarrow> [(''dimension'', JStr name), (''state'', JStr ''EVALUATION_ERROR''),
                 (''reason'', JStr (report_path @ '' is missing''))]
      | Some r \<Rightarrow> [(''dimension'', dget_or r ''dimension'' (JStr name)),
                   (''state'', dget_or r ''state'' (JStr ''UNKNOWN'')), (''artifacts'', JStr dir)])"

definition summarize :: "pydict list \<Rightarrow> exc + pydict" where
  "summarize rows =
     (let worst = worst_state (map (\<lambda>r. dget r ''state'') rows) in
      if \<not> hashable worst then Inl TypeError
      else Inr [(''state'', JStr (if worst = JStr ''EXERCISED_PASS'' then ''EVALUATION_PASS''
                  else if worst = JStr ''EVALUATION_UNIMPLEMENTED'' then ''EVALUATION_PARTIAL'' else ''EVALUATION_FAIL'')),
                (''worst_dimension_state'', worst), (''dimensions'', JList (map JDict rows))])"

definition report_file :: "path \<Rightarrow> path" where
  "report_file child = child @ [''capability_evaluation.json'']"

definition child_report :: "lib \<Rightarrow> fs \<Rightarrow> path \<Rightarrow> exc + pydict option" where
  "child_report L f child =
     (if \<not> path_exists f (report_file child) then Inr None
      else rbind (read_bytes f (report_file child)) (\<lambda>c. case json_loads L c of
          None \<Rightarrow> Inl (ValueError (Msg ''Expecting value'' []))
        | Some (JDict r) \<Rightarrow> Inr (Some r)
        | Some _ \<Rightarrow> Inl AttributeError))"

definition child_row :: "path \<Rightarrow> pydict option \<Rightarrow> pydict" where
  "child_row child report =
     dimension_row (if child = [] then [] else last child) (path_str (report_file child)) (path_str child) report"

text \<open>\<open>aggregate\<close>: the reports of the child directories, in order.\<close>

definition dimension_rows :: "lib \<Rightarrow> fs \<Rightarrow> path list \<Rightarrow> exc + pydict list" where
  "dimension_rows L f = rmapM (\<lambda>child. rbind (child_report L f child) (\<lambda>report. Inr (child_row child report)))"

definition aggregate :: "lib \<Rightarrow> fs \<Rightarrow> path list \<Rightarrow> exc + pydict" where
  "aggregate L f dirs = rbind (dimension_rows L f dirs) summarize"


section \<open>The probe meets the gate\<close>

lemma provided_simps [simp]:
  "dget (provided_capabilities L installed methods) ''attention_backends'' = JDict (attention_backends installed)"
  "dget (provided_capabilities L installed methods) ''quantization_methods'' =
     JList (case methods of Inl _ \<Rightarrow> [] | Inr ms \<Rightarrow> map JStr (sort ms))"
  "dget (provided_capabilities L installed methods) ''quantization_evidence'' =
     JStr (case methods of Inl e \<Rightarrow> ''UNKNOWN: '' @ exc_text L e | Inr _ \<Rightarrow> ''REGISTRY'')"
  "dget (provided_capabilities L installed methods) ''moe'' = if_exists installed [''quantization'', ''moe_wna16.py'']"
  by (simp_all add: provided_capabilities_def)

lemma axis_entry_simps [simp]:
  "dget (axis_entry a r e v) ''axis'' = JStr a" "dget (axis_entry a r e v) ''evidence'' = e"
  "dget (axis_entry a r e v) ''required'' = r" "dget (axis_entry a r e v) ''verdict'' = JStr v"
  "vget_or (JDict (axis_entry a r e v)) ''axis'' x = Inr (JStr a)" "vindex (JDict (axis_entry a r e v)) ''axis'' = Inr (JStr a)"
  by (simp_all add: axis_entry_def vindex_def dget_or_def)

text \<open>An axis as the probe writes it: its evidence backs its verdict.\<close>

definition backed :: "pyval \<Rightarrow> string \<Rightarrow> bool" where
  "backed evidence verdict \<longleftrightarrow>
     (evidence, verdict) \<in> {(JStr ''MODULE'', ''PROVIDED_MODULE_ONLY''), (JStr ''REGISTRY'', ''PROVIDED''),
       (JStr ''ABSENT'', ''NOT_PROVIDED''), (JStr ''N/A'', ''NOT_REQUIRED''), (JStr ''N/A'', ''UNKNOWN'')}"

lemma backend_grade:
  "dget_or (attention_backends installed) v (JStr ''ABSENT'') \<in> {JStr ''MODULE'', JStr ''ABSENT''}"
  by (auto simp: attention_backends_def if_exists_def dget_or_def Let_def)

definition backed_axis :: "pydict \<Rightarrow> bool" where
  "backed_axis a \<longleftrightarrow> (\<exists>n r e v. a = axis_entry n r e v \<and> backed e v)"

lemma backed_axisI: "backed e v \<Longrightarrow> backed_axis (axis_entry n r e v)"
  unfolding backed_axis_def by blast

lemma backed_simps:
  "backed (JStr ''MODULE'') ''PROVIDED_MODULE_ONLY''" "backed (JStr ''REGISTRY'') ''PROVIDED''"
  "backed (JStr ''ABSENT'') ''NOT_PROVIDED''" "backed (JStr ''N/A'') ''NOT_REQUIRED''"
  "backed (JStr ''N/A'') ''UNKNOWN''"
  by (simp_all add: backed_def)

lemma module_backed:
  "x \<in> {JStr ''MODULE'', JStr ''ABSENT''} \<Longrightarrow>
     backed x (if x = JStr ''MODULE'' then ''PROVIDED_MODULE_ONLY'' else ''NOT_PROVIDED'')"
  by (auto simp: backed_simps)

lemma registry_known:
  "in_list quant (case methods of Inl _ \<Rightarrow> [] | Inr ms \<Rightarrow> map JStr (sort ms)) \<Longrightarrow>
     (case methods of Inl e \<Rightarrow> ''UNKNOWN: '' @ exc_text L e | Inr _ \<Rightarrow> ''REGISTRY'') = ''REGISTRY''"
  by (cases methods) (simp_all add: in_list_def)

lemma if_exists_grade: "if_exists installed ps \<in> {JStr ''MODULE'', JStr ''ABSENT''}"
  by (simp add: if_exists_def)

lemma module_axis:
  "x \<in> {JStr ''MODULE'', JStr ''ABSENT''} \<Longrightarrow>
     backed_axis (axis_entry n r x (if x = JStr ''MODULE'' then ''PROVIDED_MODULE_ONLY'' else ''NOT_PROVIDED''))"
  by (rule backed_axisI) (rule module_backed)

lemma quantization_axis:
  assumes "known \<Longrightarrow> ev = ''REGISTRY''"
  shows "backed_axis (if \<not> q then axis_entry n JNone (JStr ''N/A'') ''NOT_REQUIRED''
    else axis_entry n r (if known then JStr ev else JStr ''ABSENT'') (if known then ''PROVIDED'' else ''NOT_PROVIDED''))"
  using assms by (cases q; cases known) (simp_all add: backed_axisI backed_simps)

lemma moe_axis:
  assumes "m \<in> {JStr ''MODULE'', JStr ''ABSENT''}"
  shows "backed_axis (axis_entry n r (if q then m else JStr ''N/A'')
    (if \<not> q then ''NOT_REQUIRED'' else if m = JStr ''MODULE'' then ''PROVIDED_MODULE_ONLY'' else ''NOT_PROVIDED''))"
  using module_backed[OF assms] by (cases q) (simp_all add: backed_axisI backed_simps)

lemma open_axis: "backed_axis (axis_entry n r (JStr ''N/A'') (if \<not> q then ''NOT_REQUIRED'' else ''UNKNOWN''))"
  by (cases q) (simp_all add: backed_axisI backed_simps)

lemma match_axes_backed: "list_all backed_axis (match_axes required (provided_capabilities L installed methods))"
  unfolding match_axes_def Let_def provided_simps pyval.case
  by (intro iffD2[OF list.pred_inject(2)] conjI module_axis backend_grade quantization_axis registry_known moe_axis
      if_exists_grade open_axis; simp)

lemma backed_axis_checked: "backed_axis a \<Longrightarrow> check_axis (JDict a) = Inr []"
  by (auto simp: backed_axis_def check_axis_def accepts backed_def axis_verdicts_def evidence_grades_def in_strs_def)

lemma backed_graded: "backed_axis a \<Longrightarrow> ungraded (JDict a) = Inr False"
  by (auto simp: backed_axis_def ungraded_def backed_def in_strs_def)

lemma named_with_entry:
  "named_with v (JDict (axis_entry n r e w)) = Inr (if w = v then Some (JStr n) else None)"
  by (simp add: named_with_def)

lemma named_with_axes:
  assumes "list_all backed_axis axes"
  shows "rcollect (named_with v) (map JDict axes) = Inr (axis_names (axes_with v axes))"
  using assms
proof (induction axes)
  case (Cons a axes)
  then obtain n r e w where "a = axis_entry n r e w" by (auto simp: backed_axis_def)
  with Cons show ?case by (auto simp: named_with_entry axis_names_def axes_with_def)
qed (simp add: axis_names_def axes_with_def)

lemma axis_names_strings:
  assumes "list_all backed_axis axes"
  shows "list_all is_str (axis_names (axes_with v axes))"
  using assms by (fastforce simp: list_all_iff axis_names_def axes_with_def backed_axis_def)


lemma json_dict_of:
  assumes "is_dict v"
  obtains d where "v = JDict d"
  using assms by (cases v) auto

definition overall :: "pydict list \<Rightarrow> string" where
  "overall axes = (if axes_with ''NOT_PROVIDED'' axes \<noteq> [] then ''MISMATCH''
     else if axes_with ''UNKNOWN'' axes \<noteq> [] then ''MATCHED_WITH_UNKNOWNS'' else ''MATCHED'')"

lemma overall_verdict: "overall axes \<in> set overall_verdicts"
  by (simp add: overall_def overall_verdicts_def)

lemma overall_verdict_plain: "list_all (\<lambda>v. \<not> list_ex (contains (lower v)) banned_claims) overall_verdicts"
  by code_simp

lemma overall_iff:
  "overall axes = ''MISMATCH'' \<longleftrightarrow> axes_with ''NOT_PROVIDED'' axes \<noteq> []"
  "overall axes = ''MATCHED_WITH_UNKNOWNS'' \<longleftrightarrow> axes_with ''NOT_PROVIDED'' axes = [] \<and> axes_with ''UNKNOWN'' axes \<noteq> []"
  by (simp_all add: overall_def)

lemma match_payload_simps:
  fixes required provided path
  defines "axes \<equiv> match_axes required provided" and "d \<equiv> match_payload path required provided"
  shows "dget d ''state'' = JStr ''MATCH_READY''" "dget d ''runtime_verified'' = JBool False"
    "dget d ''verdict'' = JStr (overall axes)" "dget d ''axes'' = JList (map JDict axes)" "dget d ''provided'' = JDict provided"
    "dget d ''blocking_axes'' = JList (axis_names (axes_with ''NOT_PROVIDED'' axes))"
    "dget d ''unknown_axes'' = JList (axis_names (axes_with ''UNKNOWN'' axes))"
  by (simp_all add: match_payload_def Let_def axes_def d_def overall_def)

lemma backed_axes_checked:
  assumes backed: "list_all backed_axis axes"
  shows "each check_axis (map JDict axes) = Inr []" "ranyM ungraded (map JDict axes) = Inr False"
  using assms by (auto simp: each_accepts ranyM_False list_all_iff backed_axis_checked backed_graded)

text \<open>C37: What the probe reports, the gate accepts: a match that did not fail, with the pod it ran in recorded,
  passes \<open>validate_capability_match\<close>, whatever the model demands and the installation provides.\<close>

theorem match_accepted:
  assumes ready: "says (match_probe L describe config installed methods path) ''state'' ''MATCH_READY''"
    and pod: "pod \<noteq> []"
    and contract: "is_dict (or_dict (dget contract ''checks''))" "is_dict (or_dict (dget contract ''acceptance''))"
  shows "validate_capability_match L
    (dset (match_probe L describe config installed methods path) ''matched_in'' (JStr pod)) contract = Inr []"
proof -
  obtain required where p: "match_probe L describe config installed methods path =
      match_payload path required (provided_capabilities L installed methods)"
    using ready by (auto simp: match_probe_def says_def split: sum.splits)
  define axes where "axes = match_axes required (provided_capabilities L installed methods)"
  have backed: "list_all backed_axis axes"
    by (simp add: axes_def match_axes_backed)
  note names = named_with_axes[OF backed] axis_names_strings[OF backed]
  have nonempty: "axes \<noteq> []" by (simp add: axes_def match_axes_def Let_def)
  obtain cs acc where c: "or_dict (dget contract ''checks'') = JDict cs" "or_dict (dget contract ''acceptance'') = JDict acc"
    using contract by (metis json_dict_of)
  have blank: "axis_names (axes_with v axes) = [] \<longleftrightarrow> axes_with v axes = []" for v
    by (simp add: axis_names_def)
  have plain: "\<not> list_ex (contains (lower (overall axes))) banned_claims"
    using overall_verdict_plain overall_verdict by (auto simp: list_all_iff)
  have provided: "truthy (JDict (provided_capabilities L installed methods))"
    by (simp add: provided_capabilities_def)
  show ?thesis
    unfolding validate_capability_match_def p Let_def c dget_dset match_payload_simps state_is_def says_def
    using nonempty pod plain provided overall_verdict[of axes]
    by (auto simp: axes_def[symmetric] accepts c is_False_def in_strs_def overall_iff
        names strings_set strings_same_set blank backed_axes_checked[OF backed])
qed


definition demo_config :: pydict where
  "demo_config = [(''num_key_value_heads'', JInt 8), (''num_attention_heads'', JInt 64), (''num_experts'', JInt 128)]"

theorem match_accepted_witness:
  "dget (match_probe demo_lib (\<lambda>_. ''error'') (Inr demo_config) (\<lambda>_. True) (Inr [''fp8'']) ''/models/m'') ''verdict'' = JStr ''MATCHED'' \<and>
   validate_capability_match demo_lib
     (dset (match_probe demo_lib (\<lambda>_. ''error'') (Inr demo_config) (\<lambda>_. True) (Inr [''fp8'']) ''/models/m'') ''matched_in'' (JStr ''pod-1''))
     [(''checks'', JDict [(''require_graded_evidence'', JBool True)])] = Inr []"
proof
  show "dget (match_probe demo_lib (\<lambda>_. ''error'') (Inr demo_config) (\<lambda>_. True) (Inr [''fp8'']) ''/models/m'') ''verdict'' = JStr ''MATCHED''"
    by code_simp
  show "validate_capability_match demo_lib
     (dset (match_probe demo_lib (\<lambda>_. ''error'') (Inr demo_config) (\<lambda>_. True) (Inr [''fp8'']) ''/models/m'') ''matched_in'' (JStr ''pod-1''))
     [(''checks'', JDict [(''require_graded_evidence'', JBool True)])] = Inr []"
  proof (rule match_accepted)
    show "says (match_probe demo_lib (\<lambda>_. ''error'') (Inr demo_config) (\<lambda>_. True) (Inr [''fp8'']) ''/models/m'') ''state'' ''MATCH_READY''"
      by code_simp
  qed simp_all
qed

section \<open>The fan-in is as good as its weakest dimension\<close>

lemma worst_state_mem: "xs \<noteq> [] \<Longrightarrow> worst_state xs \<in> set xs"
  by (induction xs rule: worst_state.induct) (auto split: if_splits)

lemma worst_state_rank: "s \<in> set xs \<Longrightarrow> state_rank (worst_state xs) \<le> state_rank s"
proof (induction xs arbitrary: s rule: worst_state.induct)
  case (3 a b ts)
  let ?h = "if state_rank b < state_rank a then b else a"
  have "state_rank (worst_state (a # b # ts)) \<le> state_rank ?h"
    using "3.IH"[of ?h] by simp
  moreover have "s \<in> set ts \<Longrightarrow> state_rank (worst_state (a # b # ts)) \<le> state_rank s"
    using "3.IH"[of s] by simp
  ultimately show ?case using "3.prems" by (auto split: if_splits)
qed simp_all

lemma state_rank_pass: "4 \<le> state_rank v \<longleftrightarrow> v = JStr ''EXERCISED_PASS''"
proof
  assume "4 \<le> state_rank v"
  then show "v = JStr ''EXERCISED_PASS''"
    by (cases v) (auto simp: state_rank_def state_order_def split: if_splits)
next
  assume "v = JStr ''EXERCISED_PASS''"
  then show "4 \<le> state_rank v" by (simp add: state_rank_def state_order_def)
qed

lemma worst_state_pass:
  "worst_state xs = JStr ''EXERCISED_PASS'' \<longleftrightarrow> xs \<noteq> [] \<and> (\<forall>x \<in> set xs. x = JStr ''EXERCISED_PASS'')"
  (is "?l \<longleftrightarrow> ?r")
proof
  assume l: ?l
  then have "xs \<noteq> []" by auto
  moreover have "x = JStr ''EXERCISED_PASS''" if "x \<in> set xs" for x
  proof -
    have "4 \<le> state_rank (worst_state xs)" by (simp only: state_rank_pass l)
    with worst_state_rank[OF that] have "4 \<le> state_rank x" by simp
    then show ?thesis by (simp only: state_rank_pass)
  qed
  ultimately show ?r by blast
next
  assume ?r
  then show ?l using worst_state_mem[of xs] by blast
qed

text \<open>The report of a child directory says that its dimension passed.\<close>

definition child_passed :: "lib \<Rightarrow> fs \<Rightarrow> path \<Rightarrow> bool" where
  "child_passed L f child \<longleftrightarrow> (\<exists>text r. read_bytes f (report_file child) = Inr text \<and>
     json_loads L text = Some (JDict r) \<and> dget r ''state'' = JStr ''EXERCISED_PASS'')"

lemma read_bytes_exists: "read_bytes f p = Inr c \<Longrightarrow> path_exists f p"
  by (auto simp: read_bytes_def path_exists_def split: option.splits node.splits)

lemma child_report_Some:
  assumes "child_report L f c = Inr (Some r)"
  shows "\<exists>t. read_bytes f (report_file c) = Inr t \<and> json_loads L t = Some (JDict r)"
proof -
  obtain t where t: "read_bytes f (report_file c) = Inr t"
      "(case json_loads L t of None \<Rightarrow> Inl (ValueError (Msg ''Expecting value'' []))
        | Some (JDict r) \<Rightarrow> Inr (Some r) | Some _ \<Rightarrow> Inl AttributeError) = Inr (Some r)"
    using assms by (auto simp: child_report_def rbind_eq_Inr split: if_splits)
  then show ?thesis by (auto split: option.splits pyval.splits)
qed

lemma child_report_None:
  assumes "child_report L f c = Inr None"
  shows "\<not> path_exists f (report_file c)"
proof
  assume "path_exists f (report_file c)"
  then obtain t where "(case json_loads L t of None \<Rightarrow> Inl (ValueError (Msg ''Expecting value'' []))
        | Some (JDict r) \<Rightarrow> Inr (Some r) | Some _ \<Rightarrow> Inl AttributeError) = Inr None"
    using assms by (auto simp: child_report_def rbind_eq_Inr)
  then show False by (auto split: option.splits pyval.splits)
qed

lemma child_row_passed:
  assumes "child_report L f c = Inr report"
  shows "dget (child_row c report) ''state'' = JStr ''EXERCISED_PASS'' \<longleftrightarrow> child_passed L f c"
proof (cases report)
  case None
  then show ?thesis
    using child_report_None[of L f c] assms
    by (auto simp: child_row_def dimension_row_def child_passed_def dest: read_bytes_exists)
next
  case (Some r)
  then obtain t where "read_bytes f (report_file c) = Inr t" "json_loads L t = Some (JDict r)"
    using child_report_Some assms by blast
  then show ?thesis
    by (auto simp: Some child_row_def dimension_row_def child_passed_def dget_or_def dget_def split: option.splits)
qed

lemma dimension_rows_passed:
  assumes "dimension_rows L f dirs = Inr rows"
  shows "((\<forall>r \<in> set rows. dget r ''state'' = JStr ''EXERCISED_PASS'') \<longleftrightarrow> (\<forall>c \<in> set dirs. child_passed L f c)) \<and>
    (rows = [] \<longleftrightarrow> dirs = [])"
  using assms unfolding dimension_rows_def
proof (induction dirs arbitrary: rows)
  case (Cons c dirs)
  then show ?case by (auto simp: rbind_eq_Inr child_row_passed)
qed simp

text \<open>C38: The evaluation node passes exactly when there is a child and the report of every child exists, parses
  and says that its dimension was exercised and passed.\<close>

theorem aggregate_weakest:
  assumes "aggregate L f dirs = Inr summary"
  shows "dget summary ''state'' = JStr ''EVALUATION_PASS'' \<longleftrightarrow> dirs \<noteq> [] \<and> (\<forall>c \<in> set dirs. child_passed L f c)"
proof -
  obtain rows where rows: "dimension_rows L f dirs = Inr rows" and s: "summarize rows = Inr summary"
    using assms by (auto simp: aggregate_def rbind_eq_Inr)
  have "dget summary ''state'' = JStr ''EVALUATION_PASS'' \<longleftrightarrow> worst_state (map (\<lambda>r. dget r ''state'') rows) = JStr ''EXERCISED_PASS''"
    using s by (auto simp: summarize_def Let_def split: if_splits)
  then show ?thesis
    using dimension_rows_passed[OF rows] by (simp add: worst_state_pass)
qed

text \<open>The dimension \<open>block_sparse\<close> is selected by no match of the probe: it never demands that variant.\<close>

lemma block_sparse_never_demanded:
  assumes "required_capabilities L config = Inr required"
  shows "dget required ''attention_variant'' \<noteq> JStr ''block_sparse''"
  using assms
  by (auto simp: required_capabilities_def attention_variant_def rbind_eq_Inr Let_def split: if_splits)


definition demo_reports :: fs where
  "demo_reports = [([''a''], Dir), ([''a'', ''capability_evaluation.json''], File ''pass''),
     ([''b''], Dir), ([''b'', ''capability_evaluation.json''], File ''pass'')]"

definition reports_lib :: lib where
  "reports_lib = sample_lib [(''pass'', JDict [(''dimension'', JStr ''moe''), (''state'', JStr ''EXERCISED_PASS'')])]"

theorem aggregate_weakest_witness:
  "\<exists>summary. aggregate reports_lib demo_reports [[''a''], [''b'']] = Inr summary \<and>
     dget summary ''state'' = JStr ''EVALUATION_PASS'' \<and> child_passed reports_lib demo_reports [''b'']"
proof -
  have "returned (\<lambda>s. dget s ''state'' = JStr ''EVALUATION_PASS'') (aggregate reports_lib demo_reports [[''a''], [''b'']], ())"
    by code_simp
  then obtain summary where s: "aggregate reports_lib demo_reports [[''a''], [''b'']] = Inr summary"
      "dget summary ''state'' = JStr ''EVALUATION_PASS''"
    by (auto elim: returnedE)
  with aggregate_weakest[OF s(1)] show ?thesis by auto
qed

end
