(* ===== verification/Rounding.thy ===== *)
theory Rounding
  imports Lib
begin

text \<open>
  \<open>round\<close> and the two number formats that reports use. Rounding is to the nearest integer, halves to the
  even one; floats are exact rationals here, so \<open>round(x, 1)\<close> is the nearest multiple of 1/10.
\<close>

definition py_round :: "rat \<Rightarrow> int" where
  "py_round r = (let n = floor r; d = r - of_int n in
     if d < 1/2 \<or> (d = 1/2 \<and> even n) then n else n + 1)"

definition py_round1 :: "rat \<Rightarrow> rat" where
  "py_round1 r = of_int (py_round (r * 10)) / 10"

text \<open>\<open>format(x, '.0f')\<close>.\<close>

definition fmt0 :: "rat \<Rightarrow> string" where
  "fmt0 r = (if r < 0 then CHR ''-'' # dec (nat (- py_round r)) else dec (nat (py_round r)))"

lemma py_round_near: "\<bar>of_int (py_round r) - r\<bar> \<le> 1/2"
proof -
  have "of_int (floor r) \<le> r" "r < of_int (floor r) + 1"
    using floor_correct[of r] by simp_all
  then show ?thesis by (auto simp: py_round_def Let_def abs_le_iff)
qed

lemma py_round_of_int [simp]: "py_round (of_int n) = n"
  by (simp add: py_round_def)

lemma py_round_mono:
  assumes "r \<le> s"
  shows "py_round r \<le> py_round s"
proof (cases "floor r = floor s")
  case True
  then show ?thesis using assms by (auto simp: py_round_def Let_def)
next
  case False
  then have "floor r + 1 \<le> floor s" using assms floor_mono[of r s] by linarith
  then show ?thesis by (auto simp: py_round_def Let_def)
qed

lemma dec_nonempty [simp]: "dec n \<noteq> []"
  by (subst dec.simps) simp

lemma fmt0_nonempty [simp]: "fmt0 r \<noteq> []"
  by (simp add: fmt0_def)

lemma dec_int_nonempty [simp]: "dec_int i \<noteq> []"
  by (simp add: dec_int_def)

end
