(* ===== verification/DeploymentPlan.thy ===== *)
theory DeploymentPlan
  imports Checks Rounding
begin

text \<open>
  The launch parameters of MAT-005: \<open>operations/deployment/plan_deployment.py\<close> derives them from the
  checkpoint, the device and the placed patch, \<open>validators/plan_validator.py\<close> checks them. Sizes are exact
  rationals (the source computes them as floats); the constants 0.55, 0.9 and 0.5 are the decimal numbers.
\<close>

section \<open>The context length that fits\<close>

text \<open>\<open>int(v or n)\<close> of a field.\<close>

definition int_or :: "lib \<Rightarrow> pyval \<Rightarrow> string \<Rightarrow> int \<Rightarrow> exc + int" where
  "int_or L v k n = rbind (vget v k) (\<lambda>x. py_int L (py_or x (JInt n)))"

definition per_token_elements :: "lib \<Rightarrow> pyval \<Rightarrow> exc + int" where
  "per_token_elements L identity =
     rbind (vget identity ''kv_lora_rank'') (\<lambda>rank.
     if truthy rank
     then rbind (py_int L rank) (\<lambda>r. rbind (int_or L identity ''qk_rope_head_dim'' 0) (\<lambda>d. Inr (r + d)))
     else rbind (int_or L identity ''num_key_value_heads'' 1) (\<lambda>heads.
          rbind (vget identity ''head_dim'') (\<lambda>head. rbind (vget identity ''qk_nope_head_dim'') (\<lambda>nope.
          rbind (py_int L (py_or (py_or head nope) (JInt 128))) (\<lambda>d. Inr (2 * heads * d))))))"

definition kv_floor_mib :: "lib \<Rightarrow> pyval \<Rightarrow> int \<Rightarrow> exc + rat" where
  "kv_floor_mib L identity len =
     rbind (int_or L identity ''num_hidden_layers'' 1) (\<lambda>layers.
     rbind (per_token_elements L identity) (\<lambda>per_token.
     Inr (of_int (per_token * layers * len * 2) / 1048576)))"

function halve_until_fits :: "lib \<Rightarrow> pyval \<Rightarrow> rat \<Rightarrow> int \<Rightarrow> exc + int" where
  "halve_until_fits L identity room n =
     (if n \<le> 1024 then Inr n
      else rbind (kv_floor_mib L identity n) (\<lambda>need.
        if room < need then halve_until_fits L identity room (n div 2) else Inr n))"
  by pat_completeness auto
termination
  by (relation "measure (\<lambda>(L, identity, room, n). nat n)") auto

declare halve_until_fits.simps [simp del]

definition identity_limit :: string where
  "identity_limit = ''mat-001 identity.max_position_embeddings''"

text \<open>Half of what the weights leave of the budget of a card.\<close>

definition kv_room :: "rat \<Rightarrow> int \<Rightarrow> int \<Rightarrow> rat \<Rightarrow> rat" where
  "kv_room weight_mib hbm_mib tp utilization = (of_int hbm_mib * utilization - weight_mib / of_int tp) * (1/2)"

definition cap_source :: "rat \<Rightarrow> rat \<Rightarrow> rat \<Rightarrow> int \<Rightarrow> int \<Rightarrow> string" where
  "cap_source per_card budget required limit n =
     ''pre-flight budget cap: '' @ fmt0 per_card @ '' MiB/card of weights against a '' @ fmt0 budget @
     '' MiB/card budget leaves '' @ fmt0 (budget - per_card) @ '' MiB for KV and runtime, but one '' @
     dec_int limit @ ''-token sequence needs '' @ fmt0 required @ '' MiB (conservative bf16 estimate); capped to '' @
     dec_int n @ ''. MEM-001 measures the real budget and the length can be revisited.''"

definition cap_model_len_to_budget ::
  "lib \<Rightarrow> pyval \<Rightarrow> int \<Rightarrow> rat \<Rightarrow> int \<Rightarrow> int \<Rightarrow> rat \<Rightarrow> exc + int \<times> string" where
  "cap_model_len_to_budget L identity limit weight_mib hbm_mib tp utilization =
     (if tp = 0 then Inl ZeroDivisionError
      else let room = kv_room weight_mib hbm_mib tp utilization in
        rbind (kv_floor_mib L identity limit) (\<lambda>required.
        if required \<le> room then Inr (limit, identity_limit)
        else rbind (halve_until_fits L identity room limit) (\<lambda>n.
          if n = limit then Inr (limit, identity_limit)
          else Inr (n, cap_source (weight_mib / of_int tp) (of_int hbm_mib * utilization) required limit n))))"

lemma sources_nonempty: "identity_limit \<noteq> []" "cap_source a b c d e \<noteq> []"
  by (simp_all add: identity_limit_def cap_source_def)

section \<open>The plan\<close>

definition parameter :: "string \<Rightarrow> pyval \<Rightarrow> string \<Rightarrow> bool \<Rightarrow> pydict" where
  "parameter name v source assumption =
     [(''parameter'', JStr name), (''value'', v), (''source'', JStr source), (''assumption'', JBool assumption)]"

definition smallest_tp :: "rat \<Rightarrow> int \<Rightarrow> int \<Rightarrow> exc + int" where
  "smallest_tp weight_mib hbm_mib heads =
     (if hbm_mib = 0 then Inl ZeroDivisionError
      else let minimum = max 1 (ceiling (weight_mib / (of_int hbm_mib * (55/100))));
               candidates = filter (\<lambda>s. minimum \<le> s \<and> heads mod s = 0) [1, 2, 4, 8]
           in Inr (case candidates of [] \<Rightarrow> 8 | s # _ \<Rightarrow> s))"

text \<open>\<open>next((text for text in limitations if "eager" in text.lower()), None)\<close>.\<close>

fun eager_limitation :: "pyval list \<Rightarrow> exc + string option" where
  "eager_limitation [] = Inr None"
| "eager_limitation (t # ts) =
     rbind (vlower t) (\<lambda>low. if contains low ''eager'' then Inr (Some (str_or t [])) else eager_limitation ts)"

definition plan_parameters ::
  "lib \<Rightarrow> pyval \<Rightarrow> pyval \<Rightarrow> int \<Rightarrow> rat \<Rightarrow> pydict option \<Rightarrow> exc + pydict list" where
  "plan_parameters L identity model hbm_mib weight_mib patch =
     rbind (int_or L identity ''num_attention_heads'' 1) (\<lambda>heads.
     rbind (smallest_tp weight_mib hbm_mib heads) (\<lambda>tp.
     rbind (vget identity ''kv_lora_rank'') (\<lambda>rank.
     let attention = (if truthy rank then ''mla'' else ''default'') in
     rbind (int_or L identity ''max_position_embeddings'' 32768) (\<lambda>limit.
     rbind (cap_model_len_to_budget L identity limit weight_mib hbm_mib tp (9/10)) (\<lambda>(model_len, source).
     rbind (vget identity ''torch_dtype'') (\<lambda>dtype.
     rbind (vget model ''trust_remote_code_required'') (\<lambda>trust.
     rbind (viter (or_list (dget (case patch of None \<Rightarrow> [] | Some p \<Rightarrow> p) ''limitations''))) (\<lambda>limitations.
     rbind (eager_limitation limitations) (\<lambda>eager.
     Inr [parameter ''dtype'' dtype ''mat-001 identity.torch_dtype'' False,
          parameter ''tensor_parallel_size'' (JInt tp)
            (fmt0 weight_mib @ '' MiB of weights against '' @ dec_int hbm_mib @
             '' MiB per card with 55% left for KV and runtime; heads '' @ dec_int heads @ '' divisible'') False,
          parameter ''max_model_len'' (JInt model_len) source False,
          parameter ''block_size'' (JInt (if attention = ''mla'' then 64 else 16))
            (''vLLM-Kunlun default for '' @ attention @ '' attention (openwiki/vllm-kunlun/platform-contract.md)'') False,
          parameter ''trust_remote_code'' (JBool (truthy trust)) ''mat-001 model.trust_remote_code_required'' False,
          parameter ''gpu_memory_utilization'' (JFloat (Fin (9/10)))
            ''no measurement supports a specific fraction yet; MEM-001 can refine it'' True,
          parameter ''enforce_eager'' (JBool (eager \<noteq> None))
            (case eager of Some t \<Rightarrow> ''mat-007 patch limitation: '' @ t
             | None \<Rightarrow> ''no placed patch requires eager execution'') False])))))))))"

definition plan_report :: "pyval \<Rightarrow> pyval \<Rightarrow> pydict \<Rightarrow> int \<Rightarrow> pydict list \<Rightarrow> exc + pydict" where
  "plan_report model target classification hbm_mib parameters =
     rbind (vget model ''id'') (\<lambda>subject.
     rbind (vget model ''revision'') (\<lambda>revision.
     rbind (vget target ''hardware'') (\<lambda>hardware.
     rbind (vget target ''vllm_kunlun_commit'') (\<lambda>commit.
     Inr [(''state'', JStr ''PLAN_READY''), (''subject'', subject), (''revision'', revision),
          (''hardware'', hardware), (''stack_commit'', commit),
          (''classification'', dget classification ''classification''),
          (''parameters'', JList (map JDict parameters)),
          (''device'', JDict [(''id'', JStr ''p800''), (''hbm_mib'', JInt hbm_mib)]),
          (''assumptions'', JList (map (\<lambda>p. dget p ''parameter'') (filter (\<lambda>p. truthy (dget p ''assumption'')) parameters)))]))))"

definition plan :: "lib \<Rightarrow> pydict \<Rightarrow> pydict \<Rightarrow> pydict \<Rightarrow> pydict option \<Rightarrow> exc + pydict" where
  "plan L request classification spec patch =
     (let identity = or_dict (dget request ''identity'');
          model = or_dict (dget request ''model'') in
      rbind (rbind (vindex (JDict spec) ''hbm_mib'') (py_int L)) (\<lambda>hbm_mib.
      rbind (rbind (vget_or model ''total_weight_bytes'' (JInt 0)) (py_int L)) (\<lambda>bytes.
      rbind (plan_parameters L identity model hbm_mib (of_int bytes / 1048576) patch) (\<lambda>parameters.
      plan_report model (or_dict (dget request ''target'')) classification hbm_mib parameters))))"

section \<open>The gate\<close>

text \<open>A dictionary whose keys are values: \<open>{item["parameter"]: item for item in ...}\<close>.\<close>

type_synonym keyed = "(pyval \<times> pyval) list"

fun kset :: "keyed \<Rightarrow> pyval \<Rightarrow> pyval \<Rightarrow> keyed" where
  "kset [] k v = [(k, v)]"
| "kset ((a, b) # d) k v = (if py_eq a k then (a, v) # d else (a, b) # kset d k v)"

fun kget :: "keyed \<Rightarrow> string \<Rightarrow> pyval option" where
  "kget [] k = None"
| "kget ((a, b) # d) k = (if a = JStr k then Some b else kget d k)"

fun keyed_by :: "string \<Rightarrow> keyed \<Rightarrow> pyval list \<Rightarrow> exc + keyed" where
  "keyed_by k d [] = Inr d"
| "keyed_by k d (item # items) =
     rbind (vindex item k) (\<lambda>key. if hashable key then keyed_by k (kset d key item) items else Inl TypeError)"

definition required_parameters :: "string list" where
  "required_parameters = [''dtype'', ''tensor_parallel_size'', ''max_model_len'', ''block_size'',
     ''trust_remote_code'', ''gpu_memory_utilization'', ''enforce_eager'']"

text \<open>\<open>parameters.get(name, {}).get("value")\<close>.\<close>

definition parameter_value :: "keyed \<Rightarrow> string \<Rightarrow> exc + pyval" where
  "parameter_value ps name = (case kget ps name of None \<Rightarrow> Inr JNone | Some item \<Rightarrow> vget item ''value'')"

definition check_parameter :: "pyval \<times> pyval \<Rightarrow> errs" where
  "check_parameter kv =
     all_checks
      [need (vget (snd kv) ''source'') (Msg ''has no source: an unsourced parameter is a guess in disguise'' [fst kv]),
       rbind (vget (snd kv) ''value'') (\<lambda>v. flag (v = JNone) (Msg ''has no value'' [fst kv]))]"

definition assumed :: "pyval \<times> pyval \<Rightarrow> exc + pyval option" where
  "assumed kv = rbind (vget (snd kv) ''assumption'') (\<lambda>a. Inr (if truthy a then Some (fst kv) else None))"

definition check_identity :: "lib \<Rightarrow> keyed \<Rightarrow> pyval \<Rightarrow> errs" where
  "check_identity L ps identity =
     all_checks
      [rbind (parameter_value ps ''dtype'') (\<lambda>dtype.
       rbind (vget identity ''torch_dtype'') (\<lambda>own.
         flag (truthy dtype \<and> truthy own \<and> \<not> py_eq dtype own) (Msg ''dtype contradicts the checkpoint's own'' [dtype, own]))),
       rbind (vget identity ''max_position_embeddings'') (\<lambda>limit.
       rbind (parameter_value ps ''max_model_len'') (\<lambda>len.
         if truthy limit \<and> truthy len
         then rbind (py_int L len) (\<lambda>n. rbind (py_int L limit) (\<lambda>m.
           flag (m < n) (Msg ''max_model_len exceeds the checkpoint's limit'' [len, limit])))
         else skip)),
       rbind (vget identity ''num_attention_heads'') (\<lambda>heads.
       rbind (parameter_value ps ''tensor_parallel_size'') (\<lambda>tp.
         if \<not> hashable tp then Inl TypeError
         else if \<not> in_list tp [JInt 1, JInt 2, JInt 4, JInt 8]
         then flag True (Msg ''tensor_parallel_size is not one of'' [tp])
         else if truthy heads
         then rbind (py_int L heads) (\<lambda>h. rbind (py_int L tp) (\<lambda>t.
           flag (h mod t \<noteq> 0) (Msg ''tensor_parallel_size does not divide the heads'' [tp, heads])))
         else skip))]"

definition check_memory :: "lib \<Rightarrow> keyed \<Rightarrow> pyval \<Rightarrow> pyval \<Rightarrow> errs" where
  "check_memory L ps model device =
     rbind (vget model ''total_weight_bytes'') (\<lambda>w.
     rbind (py_int L (py_or w (JInt 0))) (\<lambda>bytes.
     rbind (parameter_value ps ''tensor_parallel_size'') (\<lambda>v.
     let tp = py_or v (JInt 1) in
     rbind (vget device ''hbm_mib'') (\<lambda>hbm.
     if truthy hbm \<and> bytes \<noteq> 0
     then rbind (py_int L tp) (\<lambda>t.
       if t = 0 then Inl ZeroDivisionError
       else rbind (py_int L hbm) (\<lambda>h.
         flag (of_int h < (of_int bytes / 1048576 / of_int t :: rat))
           (Msg ''weights per card do not fit'' [hbm, tp])))
     else skip))))"

definition validate_deployment_plan :: "lib \<Rightarrow> pydict \<Rightarrow> pydict \<Rightarrow> pydict option \<Rightarrow> errs" where
  "validate_deployment_plan L report contract request =
     (let acceptance = or_dict (dget contract ''acceptance'');
          checks = or_dict (dget contract ''checks'');
          req = (case request of None \<Rightarrow> [] | Some r \<Rightarrow> r);
          identity = or_dict (dget req ''identity'');
          model = or_dict (dget req ''model'')
      in all_checks
       [state_is report ''PLAN_READY'',
        rbind (rbind (viter (or_list (dget report ''parameters''))) (keyed_by ''parameter'' [])) (\<lambda>ps.
        all_checks
         [flag (list_ex (\<lambda>k. kget ps k = None) required_parameters)
            (Msg ''the plan does not decide'' (map JStr (filter (\<lambda>k. kget ps k = None) required_parameters))),
          each check_parameter ps,
          rbind (set_of (or_list (dget report ''assumptions''))) (\<lambda>declared.
          rbind (rcollect assumed ps) (\<lambda>actual.
            flag (\<not> same_set declared actual) (Msg ''assumptions disagree with the per-parameter flags'' []))),
          rbind (vget acceptance ''require_stack_pin'') (\<lambda>r.
            flag (truthy r \<and> \<not> truthy (dget report ''stack_commit'')) (Msg ''stack_commit must be recorded'' [])),
          rbind (vget acceptance ''require_revision'') (\<lambda>r.
            flag (truthy r \<and> \<not> truthy (dget report ''revision'')) (Msg ''revision must be recorded'' [])),
          whenE (truthy identity) (check_identity L ps identity),
          whenE (truthy model)
            (rbind (parameter_value ps ''trust_remote_code'') (\<lambda>trust.
             rbind (vget model ''trust_remote_code_required'') (\<lambda>r.
               flag (truthy r \<and> \<not> truthy trust) (Msg ''trust_remote_code must be true'' [])))),
          rbind (vget checks ''memory_arithmetic_required'') (\<lambda>r.
            whenE (truthy r) (check_memory L ps model (or_dict (dget report ''device''))))])])"

section \<open>The context length\<close>

lemma halve_result:
  assumes "halve_until_fits L identity room n = Inr m"
  shows "\<exists>k. m = n div 2 ^ k \<and> (1024 < m \<longrightarrow> (\<exists>need. kv_floor_mib L identity m = Inr need \<and> need \<le> room)) \<and>
    (\<forall>j<k. 1024 < n div 2 ^ j \<and> (\<exists>need. kv_floor_mib L identity (n div 2 ^ j) = Inr need \<and> room < need))"
  using assms
proof (induction L identity room n rule: halve_until_fits.induct)
  case (1 L identity room n)
  show ?case
  proof (cases "n \<le> 1024")
    case True
    then show ?thesis using "1.prems" by (intro exI[of _ 0]) (simp add: halve_until_fits.simps)
  next
    case False
    then obtain need where need: "kv_floor_mib L identity n = Inr need"
      using "1.prems" by (subst (asm) halve_until_fits.simps) (auto simp: rbind_eq_Inr)
    show ?thesis
    proof (cases "room < need")
      case True
      then have "halve_until_fits L identity room (n div 2) = Inr m"
        using "1.prems" False need by (subst (asm) halve_until_fits.simps) simp
      from "1.IH"[OF False need True this] obtain k where
        k: "m = n div 2 div 2 ^ k" "1024 < m \<longrightarrow> (\<exists>need. kv_floor_mib L identity m = Inr need \<and> need \<le> room)"
          "\<forall>j<k. 1024 < n div 2 div 2 ^ j \<and> (\<exists>need. kv_floor_mib L identity (n div 2 div 2 ^ j) = Inr need \<and> room < need)"
        by blast
      have d: "n div 2 div 2 ^ j = n div 2 ^ Suc j" for j
        by (simp add: div_mult2_eq[symmetric] zdiv_zmult2_eq)
      have "1024 < n div 2 ^ j \<and> (\<exists>need. kv_floor_mib L identity (n div 2 ^ j) = Inr need \<and> room < need)" if "j < Suc k" for j
        using that k(3) False need True by (cases j) (auto simp: d)
      with k(1,2) show ?thesis by (intro exI[of _ "Suc k"]) (simp add: d)
    next
      case False
      then show ?thesis
        using "1.prems" \<open>\<not> n \<le> 1024\<close> need
        by (intro exI[of _ 0]) (subst (asm) halve_until_fits.simps, simp)
    qed
  qed
qed

text \<open>One sequence of that length fits into the room.\<close>

definition kv_fits :: "lib \<Rightarrow> pyval \<Rightarrow> rat \<Rightarrow> int \<Rightarrow> bool" where
  "kv_fits L identity room n = (case kv_floor_mib L identity n of Inl _ \<Rightarrow> False | Inr x \<Rightarrow> x \<le> room)"

lemma div_le_self_int: "0 \<le> (a :: int) \<Longrightarrow> 0 < b \<Longrightarrow> a div b \<le> a"
  by (metis div_by_1 int_one_le_iff_zero_less zdiv_mono2 zero_less_one)

lemma cap_result:
  assumes "cap_model_len_to_budget L identity limit weight hbm tp util = Inr (n, source)"
  shows "\<exists>k. n = limit div 2 ^ k \<and> (n \<le> 1024 \<or> kv_fits L identity (kv_room weight hbm tp util) n) \<and>
    (\<forall>j<k. \<not> kv_fits L identity (kv_room weight hbm tp util) (limit div 2 ^ j)) \<and> source \<noteq> [] \<and> n \<le> limit"
proof -
  let ?room = "kv_room weight hbm tp util"
  obtain x where x: "kv_floor_mib L identity limit = Inr x"
    using assms by (auto simp: cap_model_len_to_budget_def Let_def rbind_eq_Inr split: if_splits)
  show ?thesis
  proof (cases "x \<le> ?room")
    case True
    then have "n = limit \<and> source = identity_limit"
      using assms x by (auto simp: cap_model_len_to_budget_def Let_def split: if_splits)
    then show ?thesis using True x by (intro exI[of _ 0]) (simp add: kv_fits_def sources_nonempty)
  next
    case False
    then have h: "halve_until_fits L identity ?room limit = Inr n" and src: "source \<noteq> []"
      using assms x
      by (auto simp: cap_model_len_to_budget_def Let_def rbind_eq_Inr sources_nonempty split: if_splits)
    from halve_result[OF h] obtain k where k: "n = limit div 2 ^ k"
        "1024 < n \<longrightarrow> (\<exists>y. kv_floor_mib L identity n = Inr y \<and> y \<le> ?room)"
        "\<forall>j<k. \<exists>y. kv_floor_mib L identity (limit div 2 ^ j) = Inr y \<and> ?room < y"
        and k4: "\<forall>j<k. 1024 < limit div 2 ^ j"
      by blast
    have "\<forall>j<k. \<not> kv_fits L identity ?room (limit div 2 ^ j)"
      using k(3) by (fastforce simp: kv_fits_def)
    moreover have "n \<le> 1024 \<or> kv_fits L identity ?room n"
      using k(2) by (auto simp: kv_fits_def)
    moreover have "n \<le> limit"
    proof (cases k)
      case (Suc j)
      then have "1024 < limit" using k4[rule_format, of 0] by simp
      then show ?thesis using k(1) div_le_self_int[of limit "2 ^ k"] by simp
    qed (simp add: k(1))
    ultimately show ?thesis using k(1) src by blast
  qed
qed

text \<open>The capped context is the first of the limit, its half, its quarter, ... whose conservative estimate
  fits into half of what the weights leave, or the first that is at most 1024; none before it fits.\<close>

theorem cap_model_len_first_fit:
  assumes "cap_model_len_to_budget L identity limit weight hbm tp util = Inr (n, source)"
  shows "\<exists>k. n = limit div 2 ^ k \<and> (n \<le> 1024 \<or> kv_fits L identity (kv_room weight hbm tp util) n) \<and>
    (\<forall>j<k. \<not> kv_fits L identity (kv_room weight hbm tp util) (limit div 2 ^ j))"
  using cap_result[OF assms] by blast

definition demo_mla :: pyval where
  "demo_mla = JDict [(''num_hidden_layers'', JInt 78), (''kv_lora_rank'', JInt 512), (''qk_rope_head_dim'', JInt 64),
     (''num_attention_heads'', JInt 64), (''max_position_embeddings'', JInt 1048576), (''torch_dtype'', JStr ''bfloat16'')]"

lemma demo_kv_floor: "kv_floor_mib L demo_mla n = Inr (of_int (576 * 78 * n * 2) / 1048576)"
  by (simp add: kv_floor_mib_def demo_mla_def int_or_def per_token_elements_def py_or_def)

lemma demo_room: "kv_room 651264 98304 8 (9/10) = 3532.8"
  by (simp add: kv_room_def)

lemma demo_cap: "\<exists>source. cap_model_len_to_budget demo_lib demo_mla 1048576 651264 98304 8 (9/10) = Inr (32768, source)"
  by (simp add: cap_model_len_to_budget_def demo_kv_floor demo_room Let_def halve_until_fits.simps)

theorem cap_model_len_first_fit_witness:
  "\<exists>n source k. cap_model_len_to_budget demo_lib demo_mla 1048576 651264 98304 8 (9/10) = Inr (n, source) \<and>
     n = 1048576 div 2 ^ k \<and> n < 1048576 \<and> kv_fits demo_lib demo_mla (kv_room 651264 98304 8 (9/10)) n"
proof -
  obtain source where r: "cap_model_len_to_budget demo_lib demo_mla 1048576 651264 98304 8 (9/10) = Inr (32768, source)"
    using demo_cap by blast
  from cap_model_len_first_fit[OF r] r show ?thesis by auto
qed

section \<open>The plan meets the gate\<close>

lemma parameter_simps [simp]:
  "dget (parameter n v s a) ''parameter'' = JStr n" "dget (parameter n v s a) ''value'' = v"
  "dget (parameter n v s a) ''source'' = JStr s" "dget (parameter n v s a) ''assumption'' = JBool a"
  "vindex (JDict (parameter n v s a)) ''parameter'' = Inr (JStr n)"
  by (simp_all add: parameter_def vindex_def)

text \<open>The parameters in the order of the plan.\<close>

definition planned :: "pyval \<Rightarrow> int \<Rightarrow> int \<Rightarrow> int \<Rightarrow> bool \<Rightarrow> bool \<Rightarrow> string list \<Rightarrow> pydict list" where
  "planned dtype tp len block trust eager src =
     [parameter ''dtype'' dtype (src ! 0) False, parameter ''tensor_parallel_size'' (JInt tp) (src ! 1) False,
      parameter ''max_model_len'' (JInt len) (src ! 2) False, parameter ''block_size'' (JInt block) (src ! 3) False,
      parameter ''trust_remote_code'' (JBool trust) (src ! 4) False,
      parameter ''gpu_memory_utilization'' (JFloat (Fin (9/10))) (src ! 5) True,
      parameter ''enforce_eager'' (JBool eager) (src ! 6) False]"

definition sourced :: "string list \<Rightarrow> bool" where
  "sourced src \<longleftrightarrow> length src = 7 \<and> list_all (\<lambda>s. s \<noteq> []) src"

lemma plan_parameters_planned:
  assumes "plan_parameters L identity model hbm weight patch = Inr ps"
  obtains dtype tp len block trust eager src heads limit r where
    "ps = planned dtype tp len block (truthy trust) eager src" "sourced src"
    "vget identity ''torch_dtype'' = Inr dtype" "vget model ''trust_remote_code_required'' = Inr trust"
    "int_or L identity ''num_attention_heads'' 1 = Inr heads" "smallest_tp weight hbm heads = Inr tp"
    "int_or L identity ''max_position_embeddings'' 32768 = Inr limit" "len \<le> limit"
proof -
  obtain heads tp rank limit len source dtype trust limitations eager where
    r: "int_or L identity ''num_attention_heads'' 1 = Inr heads" "smallest_tp weight hbm heads = Inr tp"
      "vget identity ''kv_lora_rank'' = Inr rank" "int_or L identity ''max_position_embeddings'' 32768 = Inr limit"
      "cap_model_len_to_budget L identity limit weight hbm tp (9/10) = Inr (len, source)"
      "vget identity ''torch_dtype'' = Inr dtype" "vget model ''trust_remote_code_required'' = Inr trust"
      "viter (or_list (dget (case patch of None \<Rightarrow> [] | Some p \<Rightarrow> p) ''limitations'')) = Inr limitations"
      "eager_limitation limitations = Inr eager"
    using assms by (auto simp: plan_parameters_def rbind_eq_Inr Let_def)
  define attention where "attention = (if truthy rank then ''mla'' else ''default'')"
  define src where "src = [''mat-001 identity.torch_dtype'',
      fmt0 weight @ '' MiB of weights against '' @ dec_int hbm @
        '' MiB per card with 55% left for KV and runtime; heads '' @ dec_int heads @ '' divisible'',
      source, ''vLLM-Kunlun default for '' @ attention @ '' attention (openwiki/vllm-kunlun/platform-contract.md)'',
      ''mat-001 model.trust_remote_code_required'',
      ''no measurement supports a specific fraction yet; MEM-001 can refine it'',
      (case eager of Some t \<Rightarrow> ''mat-007 patch limitation: '' @ t | None \<Rightarrow> ''no placed patch requires eager execution'')]"
  have len: "len \<le> limit" "source \<noteq> []" using cap_result[OF r(5)] by blast+
  then have "sourced src" by (simp add: sourced_def src_def split: option.splits)
  moreover have "ps = planned dtype tp len (if attention = ''mla'' then 64 else 16) (truthy trust) (eager \<noteq> None) src"
    using assms r
    by (simp add: plan_parameters_def Let_def planned_def src_def attention_def numeral_eq_Suc del: append_Cons)
  ultimately show ?thesis using that r len by blast
qed


lemma planned_keyed:
  "keyed_by ''parameter'' [] (map JDict (planned dtype tp len block trust eager src)) =
     Inr (map (\<lambda>p. (dget p ''parameter'', JDict p)) (planned dtype tp len block trust eager src))"
  by (simp add: planned_def)

lemma planned_parameters:
  assumes "sourced src" and "dtype \<noteq> JNone"
  shows "each check_parameter (map (\<lambda>p. (dget p ''parameter'', JDict p)) (planned dtype tp len block trust eager src)) = Inr []"
  using assms by (auto simp: accepts check_parameter_def planned_def sourced_def list_all_length numeral_eq_Suc)

lemma planned_assumed:
  "rcollect assumed (map (\<lambda>p. (dget p ''parameter'', JDict p)) (planned dtype tp len block trust eager src)) =
     Inr [JStr ''gpu_memory_utilization'']"
  by (simp add: planned_def assumed_def)

lemma planned_values:
  fixes dtype tp len block trust eager src
  defines "ps \<equiv> map (\<lambda>p. (dget p ''parameter'', JDict p)) (planned dtype tp len block trust eager src)"
  shows "list_ex (\<lambda>k. kget ps k = None) required_parameters = False"
    "parameter_value ps ''dtype'' = Inr dtype" "parameter_value ps ''tensor_parallel_size'' = Inr (JInt tp)"
    "parameter_value ps ''max_model_len'' = Inr (JInt len)" "parameter_value ps ''trust_remote_code'' = Inr (JBool trust)"
  by (simp_all add: ps_def planned_def required_parameters_def parameter_value_def)

text \<open>Some size in 1, 2, 4, 8 divides the heads and leaves the headroom for the weights.\<close>

definition tp_found :: "rat \<Rightarrow> int \<Rightarrow> int \<Rightarrow> bool" where
  "tp_found weight hbm heads \<longleftrightarrow>
     list_ex (\<lambda>s. max 1 (ceiling (weight / (of_int hbm * (55/100)))) \<le> s \<and> heads mod s = 0) [1, 2, 4, 8]"

lemma smallest_tp_found:
  assumes "smallest_tp weight hbm heads = Inr tp" and "tp_found weight hbm heads" and "0 < hbm"
  shows "tp \<in> {1, 2, 4, 8}" "heads mod tp = 0" "weight / of_int tp \<le> of_int hbm"
proof -
  let ?min = "max 1 (ceiling (weight / (of_int hbm * (55/100))))"
  let ?c = "filter (\<lambda>s. ?min \<le> s \<and> heads mod s = 0) [1, 2, 4, 8]"
  have "?c \<noteq> []"
    using assms(2) by (auto simp: tp_found_def filter_empty_conv list_ex_iff)
  then have "tp \<in> set ?c"
    using assms(1,3) by (cases ?c) (auto simp: smallest_tp_def Let_def simp del: filter.simps)
  then have tp: "tp \<in> {1, 2, 4, 8}" "?min \<le> tp" "heads mod tp = 0"
    unfolding set_filter mem_Collect_eq by (simp_all only: list.set conj_ac)
  then show "tp \<in> {1, 2, 4, 8}" "heads mod tp = 0" by blast+
  have "weight / (of_int hbm * (55/100)) \<le> of_int tp"
    using tp(2) by (simp add: ceiling_le_iff)
  then have "weight \<le> of_int tp * (of_int hbm * (55/100))"
    using assms(3) by (simp add: pos_divide_le_eq)
  also have "\<dots> \<le> of_int tp * of_int hbm"
    using tp(1) assms(3) by (intro mult_left_mono) auto
  finally show "weight / of_int tp \<le> of_int hbm"
    using tp(1) by (auto simp: pos_divide_le_eq mult.commute)
qed


lemma plan_report_simps:
  assumes "plan_report model target classification hbm parameters = Inr report"
  shows "dget report ''state'' = JStr ''PLAN_READY''" "dget report ''parameters'' = JList (map JDict parameters)"
    "dget report ''device'' = JDict [(''id'', JStr ''p800''), (''hbm_mib'', JInt hbm)]"
    "dget report ''assumptions'' = JList (map (\<lambda>p. dget p ''parameter'') (filter (\<lambda>p. truthy (dget p ''assumption'')) parameters))"
  using assms by (auto simp: plan_report_def rbind_eq_Inr)

lemma int_or_value: "int_or L v k n = Inr i \<Longrightarrow> \<exists>x. vget v k = Inr x \<and> (truthy x \<longrightarrow> py_int L x = Inr i)"
  by (auto simp: int_or_def rbind_eq_Inr py_or_def split: if_splits)

lemma planned_identity:
  fixes dtype tp len block trust eager src
  defines "ps \<equiv> map (\<lambda>p. (dget p ''parameter'', JDict p)) (planned (JStr dtype) tp len block trust eager src)"
  assumes own: "vget identity ''torch_dtype'' = Inr (JStr dtype)"
    and heads: "int_or L identity ''num_attention_heads'' 1 = Inr heads" "heads mod tp = 0" "tp \<in> {1, 2, 4, 8}"
    and limit: "int_or L identity ''max_position_embeddings'' 32768 = Inr limit" "len \<le> limit"
  shows "check_identity L ps identity = Inr []"
proof -
  obtain h where h: "vget identity ''num_attention_heads'' = Inr h" "truthy h \<longrightarrow> py_int L h = Inr heads"
    using int_or_value[OF heads(1)] by blast
  obtain m where m: "vget identity ''max_position_embeddings'' = Inr m" "truthy m \<longrightarrow> py_int L m = Inr limit"
    using int_or_value[OF limit(1)] by blast
  have "in_list (JInt tp) [JInt 1, JInt 2, JInt 4, JInt 8]"
    using heads(3) by (auto simp: in_list_def)
  then show ?thesis
    using heads(2) limit(2)
    by (simp add: check_identity_def accepts accepts_bind ps_def planned_values own h m)
qed

lemma planned_memory:
  fixes dtype tp len block trust eager src
  defines "ps \<equiv> map (\<lambda>p. (dget p ''parameter'', JDict p)) (planned dtype tp len block trust eager src)"
  assumes bytes: "rbind (vget_or model ''total_weight_bytes'' (JInt 0)) (py_int L) = Inr bytes"
    and tp: "tp \<in> {1, 2, 4, 8}" "of_int bytes / 1048576 / of_int tp \<le> (of_int hbm :: rat)"
  shows "check_memory L ps model (JDict [(''id'', JStr ''p800''), (''hbm_mib'', JInt hbm)]) = Inr []"
proof -
  obtain d where d: "model = JDict d" using bytes by (auto simp: rbind_eq_Inr vget_or_Inr)
  have b: "py_int L (py_or (dget d ''total_weight_bytes'') (JInt 0)) \<in> {Inr bytes, Inr 0}"
    using bytes by (auto simp: d py_or_def dget_or_def dget_def split: option.splits)
  have "tp \<noteq> 0" using tp(1) by auto
  then show ?thesis
    using b tp(2)
    by (auto simp: check_memory_def d ps_def planned_values py_or_def Let_def accepts)
qed



definition demo_request :: pydict where
  "demo_request = [(''identity'', demo_mla),
     (''model'', JDict [(''id'', JStr ''m''), (''revision'', JStr ''r1''), (''total_weight_bytes'', JInt 1048576000)]),
     (''target'', JDict [(''hardware'', JStr ''p800''), (''vllm_kunlun_commit'', JStr ''c1'')])]"

lemma demo_plan:
  "\<exists>report. plan demo_lib demo_request [] [(''hbm_mib'', JInt 98304)] None = Inr report \<and>
     truthy (dget report ''stack_commit'') \<and> truthy (dget report ''revision'')"
proof -
  have "\<exists>n source. cap_model_len_to_budget demo_lib demo_mla 1048576 1000 98304 1 (9/10) = Inr (n, source)"
    by (simp add: cap_model_len_to_budget_def demo_kv_floor kv_room_def Let_def halve_until_fits.simps)
  then show ?thesis
    by (auto simp: plan_def demo_request_def vindex_def dget_or_def plan_parameters_def int_or_def py_or_def
        smallest_tp_def Let_def demo_mla_def plan_report_def)
qed


end
