(* ===== verification/TaskContract.thy ===== *)
theory TaskContract
  imports Checks
begin

text \<open>
  \<open>validators/contract_validator.py\<close>: the shape of a task contract, what it must hold before it may be
  executed, and the search for unresolved placeholders \<open>${...}\<close>.
\<close>

section \<open>The shape of a contract\<close>

definition contract_fields :: "string list" where
  "contract_fields = [''api_version'', ''kind'', ''metadata'', ''context'', ''actions'', ''acceptance'']"

definition validate_task_contract :: "pyval \<Rightarrow> errs" where
  "validate_task_contract contract =
     (case contract of
        JDict c \<Rightarrow>
          (let metadata = dget_or c ''metadata'' (JDict []);
               md = (case metadata of JDict d \<Rightarrow> d | _ \<Rightarrow> []) in
           all_checks
            (map (\<lambda>k. flag (\<not> dhas c k) (Msg ''missing required field'' [JStr k])) contract_fields @
             [flag (dget c ''kind'' \<noteq> JStr ''Task'') (Msg ''kind must be Task'' []),
              flag (\<not> is_dict metadata) (Msg ''metadata must be an object'' [])] @
             map (\<lambda>k. flag (case dget md k of JStr s \<Rightarrow> strip s = [] | _ \<Rightarrow> True) (Msg ''metadata field is required'' [JStr k]))
               [''name'', ''task_type''] @
             [flag (\<not> is_list (dget c ''actions'') \<or> \<not> truthy (dget c ''actions'')) (Msg ''actions must be a non-empty list'' [])] @
             map (\<lambda>k. flag (dhas c k \<and> \<not> is_dict (dget c k)) (Msg ''must be an object'' [JStr k]))
               [''context'', ''acceptance'', ''execution'', ''checks'']))
      | _ \<Rightarrow> Inr [Msg ''task contract must be an object'' []])"

text \<open>A contract that is no object reports so and then raises on \<open>contract.get\<close>.\<close>

definition check_execution :: "pyval \<Rightarrow> errs" where
  "check_execution execution =
     (case execution of
        JDict e \<Rightarrow> all_checks
          (map (\<lambda>k. flag (\<not> truthy (dget e k)) (Msg ''execution field is required'' [JStr k]))
             [''mode'', ''namespace'', ''resource_name''] @
           [flag (dget e ''mode'' \<notin> {JNone, JStr ''plan_only'', JStr ''execute''})
              (Msg ''execution.mode must be plan_only or execute'' [])])
      | _ \<Rightarrow> flag True (Msg ''execution is required to run a task'' []))"

definition check_checks :: "pyval \<Rightarrow> errs" where
  "check_checks checks =
     (case checks of
        JDict c \<Rightarrow>
          (let health = or_dict (dget c ''health'') in
           all_checks
            [rbind (vget health ''path'') (\<lambda>p.
               if \<not> truthy p then flag True (Msg ''checks.health needs path and expected_status'' [])
               else need (vget health ''expected_status'') (Msg ''checks.health needs path and expected_status'' [])),
             need (vget (or_dict (dget c ''chat'')) ''path'') (Msg ''checks.chat.path is required'' [])])
      | _ \<Rightarrow> flag True (Msg ''checks is required to run a task'' []))"

definition validate_executable :: "pyval \<Rightarrow> errs" where
  "validate_executable contract =
     all_checks
      [validate_task_contract contract,
       rbind (vget contract ''execution'') check_execution,
       rbind (vget contract ''checks'') check_checks]"

section \<open>Placeholders\<close>

text \<open>The regular expression \<open>\$\{[^}]+\}\<close>, at the start of a text and anywhere in it.\<close>

definition named_brace :: "string \<Rightarrow> bool" where
  "named_brace rest = (let n = takeWhile (\<lambda>c. c \<noteq> CHR ''}'') rest in n \<noteq> [] \<and> n \<noteq> rest)"

fun placeholder_here :: "string \<Rightarrow> bool" where
  "placeholder_here (a # b # rest) = (a = CHR ''$'' \<and> b = CHR ''{'' \<and> named_brace rest)"
| "placeholder_here _ = False"

fun_cases placeholder_hereE: "placeholder_here s"

fun has_placeholder :: "string \<Rightarrow> bool" where
  "has_placeholder [] = False"
| "has_placeholder (c # s) = (placeholder_here (c # s) \<or> has_placeholder s)"

text \<open>The places of a value that hold a string with a placeholder.\<close>

function find_placeholders :: "pyval \<Rightarrow> string \<Rightarrow> string list" where
  "find_placeholders (JStr s) p = (if has_placeholder s then [p] else [])"
| "find_placeholders (JDict d) p =
     concat (map (\<lambda>(k, v). find_placeholders v (p @ ''.'' @ k)) d)"
| "find_placeholders (JList xs) p =
     concat (map (\<lambda>(i, v). find_placeholders v (p @ ''['' @ dec i @ '']'')) (enumerate 0 xs))"
| "find_placeholders JNone p = []"
| "find_placeholders (JBool b) p = []"
| "find_placeholders (JInt i) p = []"
| "find_placeholders (JFloat x) p = []"
  by pat_completeness auto
termination
  by (relation "measure (\<lambda>(v, p). size v)")
     (auto simp: in_set_enumerate_eq dest: size_in_JDict intro!: size_in_JList[simplified])

text \<open>The strings of a value.\<close>

fun strings_in :: "pyval \<Rightarrow> string set" where
  "strings_in (JStr s) = {s}"
| "strings_in (JDict d) = (\<Union>(k, v) \<in> set d. strings_in v)"
| "strings_in (JList xs) = (\<Union>v \<in> set xs. strings_in v)"
| "strings_in _ = {}"

lemma named_brace_iff: "named_brace r \<longleftrightarrow> (\<exists>n w. r = n @ ''}'' @ w \<and> n \<noteq> [] \<and> CHR ''}'' \<notin> set n)"
proof
  let ?n = "takeWhile (\<lambda>c. c \<noteq> CHR ''}'') r" and ?r = "dropWhile (\<lambda>c. c \<noteq> CHR ''}'') r"
  assume "named_brace r"
  then have n: "?n \<noteq> []" "?n \<noteq> r" by (simp_all add: named_brace_def Let_def)
  have "?r \<noteq> []" using n(2) by (metis append_Nil2 takeWhile_dropWhile_id)
  then obtain c w where "?r = c # w" by (cases ?r) auto
  then have "r = ?n @ c # w \<and> c = CHR ''}''" by (simp only: dropWhile_eq_Cons_conv) simp
  then have "r = ?n @ ''}'' @ w" by (metis append_Cons append_Nil)
  moreover have "CHR ''}'' \<notin> set ?n" by (metis (mono_tags, lifting) set_takeWhileD)
  ultimately show "\<exists>n w. r = n @ ''}'' @ w \<and> n \<noteq> [] \<and> CHR ''}'' \<notin> set n" using n(1) by blast
next
  assume "\<exists>n w. r = n @ ''}'' @ w \<and> n \<noteq> [] \<and> CHR ''}'' \<notin> set n"
  then obtain n w where r: "r = n @ ''}'' @ w" "n \<noteq> []" "CHR ''}'' \<notin> set n" by blast
  have "takeWhile (\<lambda>c. c \<noteq> CHR ''}'') (n @ ''}'' @ w) = n"
    using r(3) by (subst takeWhile_append2) auto
  then show "named_brace r" unfolding named_brace_def Let_def r(1) using r(2) by simp
qed

lemma placeholder_here_iff:
  "placeholder_here s \<longleftrightarrow> (\<exists>n w. s = ''${'' @ n @ ''}'' @ w \<and> n \<noteq> [] \<and> CHR ''}'' \<notin> set n)"
proof
  assume "placeholder_here s"
  then obtain r where "s = ''${'' @ r" "named_brace r" by (elim placeholder_hereE conjE) auto
  then show "\<exists>n w. s = ''${'' @ n @ ''}'' @ w \<and> n \<noteq> [] \<and> CHR ''}'' \<notin> set n"
    unfolding named_brace_iff by blast
next
  assume "\<exists>n w. s = ''${'' @ n @ ''}'' @ w \<and> n \<noteq> [] \<and> CHR ''}'' \<notin> set n"
  then obtain n w where s: "s = ''${'' @ n @ ''}'' @ w" and n: "n \<noteq> []" "CHR ''}'' \<notin> set n" by blast
  have "named_brace (n @ ''}'' @ w)" unfolding named_brace_iff using n by blast
  then show "placeholder_here s" by (simp add: s)
qed

lemma has_placeholder_iff:
  "has_placeholder s \<longleftrightarrow> (\<exists>u n w. s = u @ ''${'' @ n @ ''}'' @ w \<and> n \<noteq> [] \<and> CHR ''}'' \<notin> set n)"
proof -
  have "has_placeholder s \<longleftrightarrow> (\<exists>u v. s = u @ v \<and> placeholder_here v)"
  proof (induction s)
    case Nil
    then show ?case by simp
  next
    case (Cons c s)
    have "(\<exists>u v. c # s = u @ v \<and> placeholder_here v) \<longleftrightarrow>
        placeholder_here (c # s) \<or> (\<exists>u v. s = u @ v \<and> placeholder_here v)"
      by (metis append_Cons append_Nil list.sel(3) neq_Nil_conv)
    with Cons show ?case by simp
  qed
  then show ?thesis unfolding placeholder_here_iff by blast
qed

lemma find_placeholders_empty:
  "find_placeholders v p = [] \<longleftrightarrow> (\<forall>s \<in> strings_in v. \<not> has_placeholder s)"
proof (induction v p rule: find_placeholders.induct)
  case (2 d p)
  then show ?case by (fastforce split: prod.splits)
next
  case (3 xs p)
  have elems: "set xs = snd ` set (enumerate 0 xs)"
    by (metis map_snd_enumerate set_map)
  have "find_placeholders (JList xs) p = [] \<longleftrightarrow>
      (\<forall>(i, v) \<in> set (enumerate 0 xs). find_placeholders v (p @ ''['' @ dec i @ '']'') = [])"
    by auto
  also have "\<dots> \<longleftrightarrow> (\<forall>(i, v) \<in> set (enumerate 0 xs). \<forall>s \<in> strings_in v. \<not> has_placeholder s)"
    using "3.IH" by (intro ball_cong) auto
  also have "\<dots> \<longleftrightarrow> (\<forall>s \<in> strings_in (JList xs). \<not> has_placeholder s)"
    by (auto simp: elems)
  finally show ?case .
qed simp_all

text \<open>A value is reported free of placeholders exactly when none of its strings, at any depth, contains a
  \<open>${...}\<close> with a name of at least one character.\<close>

theorem placeholders_found:
  "find_placeholders v p = [] \<longleftrightarrow>
     \<not> (\<exists>u n w. u @ ''${'' @ n @ ''}'' @ w \<in> strings_in v \<and> n \<noteq> [] \<and> CHR ''}'' \<notin> set n)"
  unfolding find_placeholders_empty has_placeholder_iff by blast

end
