(* ===== verification/DeploymentInstance.thy ===== *)
theory DeploymentInstance
  imports DeploymentPlan TaskContract Identity
begin

text \<open>
  \<open>render_instance\<close> of \<open>operations/deployment/plan_deployment.py\<close>: the executable task contract made
  from a plan, before it is written as YAML. Its serve command is quoted with \<open>shlex.join\<close>, which is
  written out here; \<open>shell_words\<close> is how a shell splits a line made of plain characters and the two kinds
  of quotes, so that quoting can be proved to keep every argument in one word.
\<close>

section \<open>Shell quoting\<close>

definition shell_safe :: "char \<Rightarrow> bool" where
  "shell_safe c \<longleftrightarrow> is_alnum c \<or> c \<in> set ''_@%+=:,./-''"

definition shlex_quote :: "string \<Rightarrow> string" where
  "shlex_quote s =
     (if s = [] then [CHR 0x27, CHR 0x27]
      else if list_all shell_safe s then s
      else [CHR 0x27] @ concat (map (\<lambda>c. if c = CHR 0x27 then [CHR 0x27, CHR 0x22, CHR 0x27, CHR 0x22, CHR 0x27] else [c]) s) @
        [CHR 0x27])"

fun joined_with :: "char \<Rightarrow> string list \<Rightarrow> string" where
  "joined_with c [] = []"
| "joined_with c [s] = s"
| "joined_with c (s # t # ts) = s @ [c] @ joined_with c (t # ts)"

definition shlex_join :: "string list \<Rightarrow> string" where
  "shlex_join args = joined_with (CHR '' '') (map shlex_quote args)"

text \<open>Reading: \<open>w\<close> is the word begun, if any; \<open>q\<close> the quote that is open, if any.\<close>

fun shell_read :: "string list \<Rightarrow> string option \<Rightarrow> char option \<Rightarrow> string \<Rightarrow> string list option" where
  "shell_read acc w None [] = Some (acc @ (case w of None \<Rightarrow> [] | Some x \<Rightarrow> [x]))"
| "shell_read acc w (Some q) [] = None"
| "shell_read acc w (Some q) (c # s) =
     (if c = q then shell_read acc w None s
      else shell_read acc (Some ((case w of None \<Rightarrow> [] | Some x \<Rightarrow> x) @ [c])) (Some q) s)"
| "shell_read acc w None (c # s) =
     (if c = CHR '' '' then shell_read (acc @ (case w of None \<Rightarrow> [] | Some x \<Rightarrow> [x])) None None s
      else if c = CHR 0x27 \<or> c = CHR 0x22 then shell_read acc (Some (case w of None \<Rightarrow> [] | Some x \<Rightarrow> x)) (Some c) s
      else if shell_safe c then shell_read acc (Some ((case w of None \<Rightarrow> [] | Some x \<Rightarrow> x) @ [c])) None s
      else None)"

definition shell_words :: "string \<Rightarrow> string list option" where
  "shell_words s = shell_read [] None None s"

lemma shell_safe_plain: "shell_safe c \<Longrightarrow> c \<noteq> CHR '' '' \<and> c \<noteq> CHR 0x27 \<and> c \<noteq> CHR 0x22"
  by (auto simp: shell_safe_def is_alnum_def)

lemma read_safe:
  assumes "list_all shell_safe s"
  shows "shell_read acc (Some w) None (s @ t) = shell_read acc (Some (w @ s)) None t"
  using assms
proof (induction s arbitrary: w)
  case (Cons c s)
  then show ?case using shell_safe_plain[of c] by simp
qed simp

lemma read_quoted:
  "shell_read acc (Some w) (Some (CHR 0x27))
     (concat (map (\<lambda>c. if c = CHR 0x27 then [CHR 0x27, CHR 0x22, CHR 0x27, CHR 0x22, CHR 0x27] else [c]) s) @ t) =
   shell_read acc (Some (w @ s)) (Some (CHR 0x27)) t"
  by (induction s arbitrary: w) auto

lemma read_quote: "shell_read acc None None (shlex_quote s @ t) = shell_read acc (Some s) None t"
proof -
  consider "s = []" | c r where "s = c # r" "list_all shell_safe s" | "s \<noteq> []" "\<not> list_all shell_safe s"
    by (cases s) auto
  then show ?thesis
  proof cases
    case (2 c r)
    then show ?thesis
      using read_safe[of r acc "[c]" t] shell_safe_plain[of c] by (simp add: shlex_quote_def)
  next
    case 3
    then show ?thesis
      using read_quoted[of acc "[]" s "CHR 0x27 # t"] by (simp add: shlex_quote_def)
  qed (simp add: shlex_quote_def)
qed

lemma read_join: "shell_read acc None None (shlex_join args) = Some (acc @ args)"
proof (induction args arbitrary: acc rule: induct_list012)
  case (2 s)
  then show ?case using read_quote[of acc s "[]"] by (simp add: shlex_join_def)
next
  case (3 s t ts)
  then show ?case
    using read_quote[of acc s "CHR '' '' # shlex_join (t # ts)"] by (simp add: shlex_join_def)
qed (simp add: shlex_join_def)

lemma shell_words_join: "shell_words (shlex_join args) = Some args"
  by (simp add: shell_words_def read_join)


section \<open>The instance\<close>

text \<open>\<open>{item["parameter"]: item[field] for item in items}\<close>; parameter names are strings (any other key
  raises \<open>TypeError\<close> here).\<close>

fun fields_by :: "string \<Rightarrow> pydict \<Rightarrow> pyval list \<Rightarrow> exc + pydict" where
  "fields_by field d [] = Inr d"
| "fields_by field d (item # items) =
     rbind (vindex item ''parameter'') (\<lambda>key. rbind (vindex item field) (\<lambda>v.
     case key of JStr k \<Rightarrow> fields_by field (dset d k v) items | _ \<Rightarrow> Inl TypeError))"

definition cluster_settings :: "lib \<Rightarrow> exc + pyval \<times> pyval" where
  "cluster_settings L =
     rbind (cluster_profile L) (\<lambda>p.
     let profile = or_dict p in
     rbind (vget profile ''cluster'') (\<lambda>cluster.
     rbind (vget_or (or_dict cluster) ''namespace'' (JStr ''pd-test'')) (\<lambda>namespace.
     rbind (vget profile ''runtime'') (\<lambda>runtime.
     rbind (vget_or (or_dict runtime) ''common_setup'' (JList [])) (\<lambda>setup.
     Inr (namespace, setup))))))"

definition artifact_directory :: "lib \<Rightarrow> fs \<Rightarrow> string option \<Rightarrow> string \<Rightarrow> exc + path" where
  "artifact_directory L f given subject =
     (case given of
        Some r \<Rightarrow> ensure_external L f r
      | None \<Rightarrow>
          rbind (default_state_root L f) (\<lambda>base.
          rbind (safe_component L (''kdp-001-'' @ lower subject)) (\<lambda>c.
          ensure_external_path L f (base @ [''runs'', c]))))"

definition serve_command :: "lib \<Rightarrow> pydict \<Rightarrow> pyval \<Rightarrow> string \<Rightarrow> exc + string list" where
  "serve_command L values model_source subject =
     (let arg = (\<lambda>k. rbind (vindex (JDict values) k) (\<lambda>v. Inr (py_str L v))) in
      rbind (arg ''max_model_len'') (\<lambda>len.
      rbind (arg ''tensor_parallel_size'') (\<lambda>tp.
      rbind (arg ''dtype'') (\<lambda>dtype.
      rbind (arg ''block_size'') (\<lambda>block.
      rbind (arg ''gpu_memory_utilization'') (\<lambda>util.
      Inr ([''python'', ''-m'', ''vllm.entrypoints.openai.api_server'', ''--host'', ''0.0.0.0'', ''--port'', ''8356'',
             ''--model'', py_str L model_source] @
           (if truthy (dget values ''trust_remote_code'') then [''--trust-remote-code''] else []) @
           [''--max-model-len'', len, ''--tensor-parallel-size'', tp, ''--dtype'', dtype,
            ''--served-model-name'', subject, ''--block-size'', block, ''--gpu-memory-utilization'', util] @
           (if truthy (dget values ''enforce_eager'') then [''--enforce-eager''] else []))))))))"

definition instance_context ::
  "pydict \<Rightarrow> pydict \<Rightarrow> pydict \<Rightarrow> string \<Rightarrow> exc + pydict" where
  "instance_context report values model subject =
     rbind (vindex (JDict report) ''hardware'') (\<lambda>hardware.
     rbind (vindex (JDict values) ''tensor_parallel_size'') (\<lambda>tp.
     rbind (rmapM (\<lambda>k. rbind (vindex (JDict values) k) (\<lambda>v. Inr (k, v)))
       [''dtype'', ''max_model_len'', ''block_size'', ''gpu_memory_utilization'']) (\<lambda>launch.
     Inr [(''runtime'', JDict [(''engine'', JStr ''vllm''), (''backend'', JStr ''kunlun''), (''plugin'', JStr ''vllm-kunlun''),
            (''revisions'', JDict (if truthy (dget report ''stack_commit'')
               then [(''plugin'', dget report ''stack_commit'')] else []))]),
          (''model'', JDict [(''name'', dget report ''subject''), (''path'', dget model ''source''),
            (''pvc'', dget model ''pvc''), (''revision'', dget model ''revision'')]),
          (''target'', JDict [(''hardware'', hardware), (''device_count'', tp)]),
          (''server'', JDict (dmerge [(''host'', JStr ''0.0.0.0''), (''port'', JInt 8356),
            (''served_model_name'', JStr subject), (''tensor_parallel_size'', tp)] launch))])))"

definition instance_checks :: "string \<Rightarrow> pydict" where
  "instance_checks subject =
     [(''health'', JDict [(''path'', JStr ''/health''), (''expected_status'', JInt 200)]),
      (''chat'', JDict [(''path'', JStr ''/v1/chat/completions''), (''method'', JStr ''POST''),
         (''expected_non_empty_text'', JBool True),
         (''payload'', JDict [(''model'', JStr subject),
            (''messages'', JList [JDict [(''role'', JStr ''user''), (''content'', JStr ''Say hello in one short sentence.'')]]),
            (''max_tokens'', JInt 32)])]),
      (''backend'', JDict [(''expected'', JStr ''kunlun''), (''reject_unexpected_fallback'', JBool True)])]"

definition instance_exit_states :: pydict where
  "instance_exit_states =
     [(''pass'', JStr ''DEPLOYMENT_READY''), (''startup_failed'', JStr ''SERVER_START_FAILED''),
      (''health_timeout'', JStr ''READINESS_TIMEOUT''), (''api_failed'', JStr ''API_SMOKE_FAILED''),
      (''fallback_detected'', JStr ''UNEXPECTED_FALLBACK''), (''invalid'', JStr ''CONTRACT_INVALID''),
      (''needs_human'', JStr ''NEEDS_HUMAN'')]"

text \<open>Weight-proportional patience: five seconds for every GiB, at least 900.\<close>

definition startup_timeout :: "int \<Rightarrow> int" where
  "startup_timeout weight_bytes = max 900 (weight_bytes div 1073741824 * 5)"

definition resource_name :: "string \<Rightarrow> string \<Rightarrow> string" where
  "resource_name user resource = (if user \<noteq> [] then user @ ''-kdp001-'' @ resource else ''kdp001-'' @ resource)"

definition instance_execution ::
  "string \<Rightarrow> string \<Rightarrow> pyval \<times> pyval \<Rightarrow> int \<Rightarrow> string list \<Rightarrow> pydict" where
  "instance_execution user resource settings timeout serve =
     (if user \<noteq> [] then [(''user_id'', JStr user)] else []) @
     [(''mode'', JStr ''execute''), (''namespace'', fst settings), (''resource_name'', JStr (resource_name user resource)),
      (''startup_timeout_seconds'', JInt timeout), (''health_interval_seconds'', JInt 15),
      (''health_successes_required'', JInt 3), (''retain_on_failure'', JBool True),
      (''server_log'', JStr (''/workspace/server_'' @ resource @ ''.log'')),
      (''commands'', JDict [(''setup'', snd settings), (''serve'', JList [JStr (shlex_join serve)])])]"

definition instance_document ::
  "string \<Rightarrow> pydict \<Rightarrow> pydict \<Rightarrow> int \<Rightarrow> pydict \<Rightarrow> pydict \<Rightarrow> path \<Rightarrow> pydict" where
  "instance_document resource ctx sources timeout execution checks directory =
     [(''api_version'', JStr ''infer.kunlun/v1alpha1''), (''kind'', JStr ''Task''),
      (''metadata'', JDict [(''name'', JStr (''kdp-001-'' @ resource)), (''task_type'', JStr ''service_proof''),
         (''version'', JStr ''0.1.0''), (''generated_by'', JStr ''mat-005-deployment-plan'')]),
      (''context'', JDict ctx), (''plan_sources'', JDict sources),
      (''actions'', JList (map JStr [''toy_bringup_before_load'', ''start_server'', ''poll_health'', ''run_chat_smoke'',
         ''verify_backend'', ''collect_artifacts''])),
      (''acceptance'', JDict [(''pod_ready'', JBool True), (''health_check'', JInt 200),
         (''chat_completion'', JStr ''non_empty''), (''expected_backend'', JStr ''kunlun''),
         (''unexpected_fallback'', JBool False), (''startup_timeout_seconds'', JInt timeout)]),
      (''execution'', JDict execution), (''checks'', JDict checks),
      (''artifacts'', JDict [(''directory'', JStr (path_str directory)),
         (''collect'', JList (map JStr [''deployment_manifest'', ''task_contract'', ''pod_spec'', ''server_log'',
            ''health_result'', ''chat_result'', ''reproduce_command'']))]),
      (''exit_states'', JDict instance_exit_states)]"

definition as_dict :: "pyval \<Rightarrow> exc + pydict" where
  "as_dict v = (case v of JDict d \<Rightarrow> Inr d | _ \<Rightarrow> Inl AttributeError)"

definition plan_instance ::
  "lib \<Rightarrow> fs \<Rightarrow> pydict \<Rightarrow> pydict \<Rightarrow> string option \<Rightarrow> pyval \<Rightarrow> exc + pydict" where
  "plan_instance L f report request artifact_root user_id =
     rbind (rbind (vindex (JDict report) ''parameters'') viter) (\<lambda>items.
     rbind (fields_by ''value'' [] items) (\<lambda>values.
     let model = or_dict (dget request ''model'') in
     rbind (cluster_settings L) (\<lambda>settings.
     rbind (resolve_user_id L user_id JNone) (\<lambda>user.
     rbind (vindex (JDict report) ''subject'') (\<lambda>subj.
     let subject = py_str L subj in
     rbind (safe_component L (lower subject)) (\<lambda>component.
     let resource = map (\<lambda>c. if c = CHR ''_'' then CHR ''-'' else c) component in
     rbind (artifact_directory L f artifact_root subject) (\<lambda>directory.
     rbind (rbind (vget_or model ''total_weight_bytes'' (JInt 0)) (py_int L)) (\<lambda>bytes.
     let timeout = startup_timeout bytes in
     rbind (as_dict model) (\<lambda>md.
     rbind (serve_command L values (dget md ''source'') subject) (\<lambda>serve.
     rbind (instance_context report values md subject) (\<lambda>ctx.
     rbind (fields_by ''source'' [] items) (\<lambda>sources.
     Inr (instance_document resource ctx sources timeout
       (instance_execution user resource settings timeout serve) (instance_checks subject) directory)))))))))))))"

section \<open>The instance may be executed\<close>

lemma plan_instance_document:
  assumes "plan_instance L f report request artifact_root user_id = Inr inst"
  obtains settings user resource timeout serve ctx sources directory subject md vals where
    "cluster_settings L = Inr settings" "as_dict (or_dict (dget request ''model'')) = Inr md"
    "serve_command L vals (dget md ''source'') subject = Inr serve"
    "inst = instance_document resource ctx sources timeout
       (instance_execution user resource settings timeout serve) (instance_checks subject) directory"
  using assms by (auto simp: plan_instance_def rbind_eq_Inr Let_def)

lemma instance_execution_checked:
  assumes "truthy (fst settings)"
  shows "check_execution (JDict (instance_execution user resource settings timeout serve)) = Inr []"
  using assms by (auto simp: check_execution_def accepts instance_execution_def resource_name_def)

lemma instance_checks_checked: "check_checks (JDict (instance_checks subject)) = Inr []"
  by (simp add: check_checks_def instance_checks_def accepts)

lemma instance_document_checked:
  "validate_task_contract (JDict (instance_document resource ctx sources timeout execution checks directory)) = Inr []"
  by (simp add: validate_task_contract_def instance_document_def accepts contract_fields_def dhas_def dget_or_def
      strip_def strip_chars_def is_space_def)


text \<open>C34: An instance made from a plan is an executable contract: where the cluster profile names a namespace,
  \<open>validate_executable\<close> finds nothing missing in it.\<close>

theorem instance_executable:
  assumes run: "plan_instance L f report request artifact_root user_id = Inr inst"
    and settings: "cluster_settings L = Inr settings" "truthy (fst settings)"
  shows "validate_executable (JDict inst) = Inr []"
proof -
  obtain user resource timeout serve ctx sources directory subject where
    "inst = instance_document resource ctx sources timeout
       (instance_execution user resource settings timeout serve) (instance_checks subject) directory"
    using run settings(1) by (elim plan_instance_document) auto
  then show ?thesis
    by (simp add: validate_executable_def accepts instance_document_checked instance_execution_checked[OF settings(2)]
        instance_checks_checked) (simp add: instance_document_def instance_execution_checked[OF settings(2)] instance_checks_checked)
qed


definition instance_lib :: lib where
  "instance_lib = demo_lib\<lparr>cluster_profile := Inr (JDict [(''cluster'', JDict [(''namespace'', JStr ''ns'')])])\<rparr>"

definition demo_plan_report :: pydict where
  "demo_plan_report =
     [(''parameters'', JList (map JDict (planned (JStr ''bfloat16'') 8 32768 64 True False (replicate 7 ''measured'')))),
      (''subject'', JStr ''Qwen3''), (''hardware'', JStr ''p800''), (''stack_commit'', JStr ''c1'')]"

definition demo_instance :: "exc + pydict" where
  "demo_instance = plan_instance instance_lib [] demo_plan_report [(''model'', JDict [(''source'', JStr ''/models/it's here'')])]
     (Some ''/data/run'') (JStr ''alice'')"

lemma demo_parts:
  "resolve_user_id instance_lib (JStr ''alice'') JNone = Inr ''alice''"
  "safe_component instance_lib (lower ''Qwen3'') = Inr ''qwen3''"
  "artifact_directory instance_lib [] (Some ''/data/run'') ''Qwen3'' = Inr [''data'', ''run'']"
  by code_simp+

lemma demo_instance_returns: "\<exists>inst. demo_instance = Inr inst"
  by (simp add: demo_instance_def plan_instance_def demo_plan_report_def vindex_def planned_def parameter_def numeral_eq_Suc
      cluster_settings_def instance_lib_def[THEN arg_cong[where f = cluster_profile]] demo_parts as_dict_def serve_command_def
      instance_context_def dget_or_def Let_def)

theorem instance_executable_witness:
  "\<exists>inst. demo_instance = Inr inst \<and> validate_executable (JDict inst) = Inr []"
proof -
  obtain inst where i: "demo_instance = Inr inst"
    using demo_instance_returns by blast
  have "validate_executable (JDict inst) = Inr []"
    by (rule instance_executable[OF i[unfolded demo_instance_def], of "(JStr ''ns'', JList [])"])
       (simp_all add: cluster_settings_def instance_lib_def dget_or_def)
  with i show ?thesis by blast
qed


end
