(* ===== verification/MemoryBudget.thy ===== *)
theory MemoryBudget
  imports Checks Rounding
begin

text \<open>
  The memory budget of MEM-001: \<open>operations/deployment/memory_budget.py\<close> reconciles the analyzer's report
  of a startup log with the counters of the cards, for each active card and for the deployment;
  \<open>validators/memory_validator.py\<close> is the gate. The parser of the device counters and the analyzer are
  outside; a card is the record of the four integers they yield.
\<close>

section \<open>Cards and ranks\<close>

record card =
  cd_index :: int
  cd_used :: int
  cd_free :: int
  cd_total :: int

record scope =
  sc_ranks :: "card list"
  sc_tp :: "int option"
  sc_warnings :: "string list"

text \<open>\<open>re.search(pattern + "(\\d+)", text)\<close> for a pattern that is plain text: the digits after the first
  occurrence that a digit follows. \<open>pat\<close> is a list of alternatives for each character.\<close>

definition is_dec_digit :: "char \<Rightarrow> bool" where
  "is_dec_digit c \<longleftrightarrow> CHR ''0'' \<le> c \<and> c \<le> CHR ''9''"

fun after_prefix :: "string list \<Rightarrow> string \<Rightarrow> string option" where
  "after_prefix [] s = Some s"
| "after_prefix (alts # ps) [] = None"
| "after_prefix (alts # ps) (c # s) = (if c \<in> set alts then after_prefix ps s else None)"

definition digits_here :: "string list \<Rightarrow> string \<Rightarrow> string option" where
  "digits_here pat s = (case after_prefix pat s of
      None \<Rightarrow> None
    | Some r \<Rightarrow> (let ds = takeWhile is_dec_digit r in if ds = [] then None else Some ds))"

fun search_digits :: "string list \<Rightarrow> string \<Rightarrow> string option" where
  "search_digits pat [] = digits_here pat []"
| "search_digits pat (c # s) = (case digits_here pat (c # s) of Some d \<Rightarrow> Some d | None \<Rightarrow> search_digits pat s)"

definition tp_patterns :: "string list list" where
  "tp_patterns =
     [map (\<lambda>c. [c]) ''tensor_parallel_size='', map (\<lambda>c. [c]) ''--tensor-parallel-size'' @ ['' ='' ],
      map (\<lambda>c. [c]) ''tp_size='']"

definition declared_tp :: "string \<Rightarrow> int option" where
  "declared_tp output =
     (case map (\<lambda>p. search_digits p output) tp_patterns of
        rs \<Rightarrow> (case filter (\<lambda>r. r \<noteq> None) rs of Some d # _ \<Rightarrow> Some (int (undec 0 d)) | _ \<Rightarrow> None))"

definition detect_active_ranks :: "card list \<Rightarrow> string \<Rightarrow> int \<Rightarrow> exc + scope" where
  "detect_active_ranks cards output threshold =
     (let active = filter (\<lambda>c. threshold < cd_used c) cards; tp = declared_tp output in
      if active = [] then Inl (BudgetError (Msg ''no card above the usage threshold'' [JInt threshold]))
      else Inr \<lparr>sc_ranks = active, sc_tp = tp,
        sc_warnings = (case tp of
            None \<Rightarrow> []
          | Some n \<Rightarrow> if int (length active) \<noteq> n
              then [dec (length active) @ '' cards above the idle threshold but the log declares tensor_parallel_size='' @
                    dec_int n @ '': a co-tenant process or a stale log may be in scope'']
              else [])\<rparr>)"

definition renumber_cards :: "card list \<Rightarrow> card list" where
  "renumber_cards cards = map (\<lambda>(i, c). c\<lparr>cd_index := int i\<rparr>) (enumerate 0 cards)"

section \<open>One rank against the log\<close>

text \<open>\<open>float(breakdown.get(key, 0.0) or 0.0)\<close>. A category that is infinite or no number makes
  \<open>round\<close> raise.\<close>

definition gib :: "lib \<Rightarrow> pyval \<Rightarrow> string \<Rightarrow> exc + pyfloat" where
  "gib L breakdown k = rbind (vget_or breakdown k (JFloat (Fin 0))) (\<lambda>v. py_float L (py_or v (JFloat (Fin 0))))"

definition round_mib :: "pyfloat \<Rightarrow> exc + int" where
  "round_mib x = (case x of
      Fin r \<Rightarrow> Inr (py_round (r * 1024))
    | NaN \<Rightarrow> Inl (ValueError (Msg ''cannot convert float NaN to integer'' []))
    | _ \<Rightarrow> Inl OverflowError)"

fun float_add :: "pyfloat \<Rightarrow> pyfloat \<Rightarrow> pyfloat" where
  "float_add (Fin a) (Fin b) = Fin (a + b)"
| "float_add NaN _ = NaN"
| "float_add _ NaN = NaN"
| "float_add PosInf NegInf = NaN"
| "float_add NegInf PosInf = NaN"
| "float_add PosInf _ = PosInf"
| "float_add NegInf _ = NegInf"
| "float_add (Fin _) y = y"

definition log_categories :: "string list" where
  "log_categories = [''model_weights_gib'', ''kv_pool_gib'', ''cuda_graph_gib'', ''framework_overhead_gib'']"

record rank_budget =
  rb_device :: pyval
  rb_rank :: int
  rb_hbm_total :: int
  rb_total_matches :: bool
  rb_used :: int
  rb_free :: int
  rb_utilization :: rat
  rb_attributed :: int
  rb_unattributed :: int
  rb_other :: int
  rb_reconciled :: bool
  rb_cards :: nat
  rb_spread :: int
  rb_categories :: "(string \<times> int) list"
  rb_kv_tokens :: pyval
  rb_max_model_len :: pyval
  rb_concurrency :: pyval

definition attributed_mib :: "lib \<Rightarrow> pyval \<Rightarrow> exc + int" where
  "attributed_mib L breakdown =
     rbind (rmapM (gib L breakdown) log_categories) (\<lambda>xs. round_mib (foldl float_add (Fin 0) xs))"

definition category_mib :: "lib \<Rightarrow> pyval \<Rightarrow> string \<Rightarrow> exc + int" where
  "category_mib L breakdown k = rbind (gib L breakdown k) round_mib"

definition spread :: "card list \<Rightarrow> int" where
  "spread cards = Max (set (map cd_used cards)) - Min (set (map cd_used cards))"

definition rounding_slack :: int where "rounding_slack = 32"

definition reconcile_rank :: "lib \<Rightarrow> pydict \<Rightarrow> card list \<Rightarrow> pydict \<Rightarrow> int \<Rightarrow> exc + rank_budget" where
  "reconcile_rank L report cards spec rank =
     (case find (\<lambda>c. cd_index c = rank) cards of
        None \<Rightarrow> Inl (BudgetError (Msg ''xpu_smi has no card at the rank'' [JInt rank]))
      | Some own \<Rightarrow>
          let breakdown = dget_or report ''memory_breakdown'' (JDict []);
              engine = or_dict (dget report ''vllm'') in
          rbind (attributed_mib L breakdown) (\<lambda>attributed.
          rbind (category_mib L breakdown ''other_gib'') (\<lambda>other.
          rbind (rbind (vindex (JDict spec) ''hbm_mib'') (py_int L)) (\<lambda>total.
          if total = 0 then Inl ZeroDivisionError
          else rbind (rmapM (\<lambda>(n, k). rbind (category_mib L breakdown k) (\<lambda>m. Inr (n, m)))
              [(''model_weights'', ''model_weights_gib''), (''kv_pool'', ''kv_pool_gib''),
               (''graph_capture'', ''cuda_graph_gib''), (''framework'', ''framework_overhead_gib'')]) (\<lambda>categories.
          rbind (vget engine ''gpu_kv_cache_tokens'') (\<lambda>tokens.
          rbind (vget engine ''max_model_len'') (\<lambda>len.
          rbind (vget engine ''maximum_concurrency'') (\<lambda>concurrency.
          let unattributed = cd_used own - attributed in
          Inr \<lparr>rb_device = dget spec ''display_name'', rb_rank = rank, rb_hbm_total = total,
               rb_total_matches = list_all (\<lambda>c. cd_total c = total) cards,
               rb_used = cd_used own, rb_free = cd_free own,
               rb_utilization = py_round1 (of_int (cd_used own) / of_int total * 100),
               rb_attributed = attributed, rb_unattributed = unattributed, rb_other = other,
               rb_reconciled = (\<bar>unattributed - other\<bar> \<le> rounding_slack),
               rb_cards = length cards, rb_spread = spread cards, rb_categories = categories,
               rb_kv_tokens = tokens, rb_max_model_len = len, rb_concurrency = concurrency\<rparr>))))))))"


definition rank_dict :: "rank_budget \<Rightarrow> pydict" where
  "rank_dict b =
     [(''device'', rb_device b), (''rank'', JInt (rb_rank b)), (''hbm_total_mib'', JInt (rb_hbm_total b)),
      (''hbm_total_matches_device'', JBool (rb_total_matches b)), (''measured_used_mib'', JInt (rb_used b)),
      (''measured_free_mib'', JInt (rb_free b)), (''utilization_pct'', JFloat (Fin (rb_utilization b))),
      (''log_attributed_mib'', JInt (rb_attributed b)), (''unattributed_mib'', JInt (rb_unattributed b)),
      (''analyzer_other_mib'', JInt (rb_other b)), (''reconciled'', JBool (rb_reconciled b)),
      (''cards'', JInt (int (rb_cards b))), (''card_spread_mib'', JInt (rb_spread b)),
      (''categories_mib'', JDict (map (\<lambda>(k, n). (k, JInt n)) (rb_categories b))),
      (''kv_cache_tokens'', rb_kv_tokens b), (''max_model_len'', rb_max_model_len b),
      (''reported_concurrency'', rb_concurrency b)]"

section \<open>The deployment: the worst rank\<close>

definition rank_summary :: "rank_budget \<Rightarrow> pyval" where
  "rank_summary b = JDict
     [(''rank'', JInt (rb_rank b)), (''used_mib'', JInt (rb_used b)), (''free_mib'', JInt (rb_free b)),
      (''utilization_pct'', JFloat (Fin (rb_utilization b))), (''unattributed_mib'', JInt (rb_unattributed b)),
      (''reconciled'', JBool (rb_reconciled b))]"

definition worst_budget :: "rank_budget list \<Rightarrow> card list \<Rightarrow> scope \<Rightarrow> pydict" where
  "worst_budget per_rank cards scope =
     (let head = hd per_rank; active = sc_ranks scope in
      [(''device'', rb_device head), (''rank'', JInt (cd_index (hd active))),
       (''ranks'', JList (map (\<lambda>c. JInt (cd_index c)) active)), (''active_cards'', JInt (int (length active))),
       (''tp_size_declared'', (case sc_tp scope of None \<Rightarrow> JNone | Some n \<Rightarrow> JInt n)),
       (''scope_warnings'', JList (map JStr (sc_warnings scope))), (''hbm_total_mib'', JInt (rb_hbm_total head)),
       (''hbm_total_matches_device'', JBool (list_all rb_total_matches per_rank)),
       (''measured_used_mib'', JInt (Max (set (map rb_used per_rank)))),
       (''measured_free_mib'', JInt (Min (set (map rb_free per_rank)))),
       (''utilization_pct'', JFloat (Fin (Max (set (map rb_utilization per_rank))))),
       (''log_attributed_mib'', JInt (rb_attributed head)),
       (''unattributed_mib'', JInt (Min (set (map rb_unattributed per_rank)))),
       (''analyzer_other_mib'', JInt (rb_other head)), (''reconciled'', JBool (list_all rb_reconciled per_rank)),
       (''cards'', JInt (int (length cards))), (''card_spread_mib'', JInt (spread active)),
       (''categories_mib'', JDict (map (\<lambda>(k, n). (k, JInt n)) (rb_categories head))),
       (''kv_cache_tokens'', rb_kv_tokens head), (''max_model_len'', rb_max_model_len head),
       (''reported_concurrency'', rb_concurrency head), (''per_rank'', JList (map rank_summary per_rank))])"

definition reconcile_deployment :: "lib \<Rightarrow> pydict \<Rightarrow> card list \<Rightarrow> pydict \<Rightarrow> scope \<Rightarrow> exc + pydict" where
  "reconcile_deployment L report cards spec scope =
     rbind (rmapM (\<lambda>c. reconcile_rank L report (sc_ranks scope) spec (cd_index c)) (sc_ranks scope)) (\<lambda>per_rank.
     if per_rank = [] then Inl IndexError else Inr (worst_budget per_rank cards scope))"

section \<open>The gate\<close>

definition min_unattributed :: int where "min_unattributed = 64"

text \<open>\<open>if key in thresholds and ...\<close>: \<open>outside\<close> compares the value with the threshold.\<close>

definition check_threshold :: "pydict \<Rightarrow> string \<Rightarrow> (pyval \<Rightarrow> errs) \<Rightarrow> errs" where
  "check_threshold thresholds k check = (case map_of thresholds k of None \<Rightarrow> skip | Some t \<Rightarrow> check t)"

definition validate_memory_budget :: "pydict \<Rightarrow> pydict option \<Rightarrow> errs" where
  "validate_memory_budget budget thresholds =
     (let ts = (case thresholds of None \<Rightarrow> [] | Some t \<Rightarrow> t);
          unattributed = dget budget ''unattributed_mib'' in
      all_checks
       [flag (\<not> truthy (dget budget ''hbm_total_matches_device'')) (Msg ''xpu_smi total HBM disagrees with the device spec'' []),
        flag (\<not> truthy (dget budget ''reconciled''))
          (Msg ''log-derived memory does not reconcile'' [unattributed, dget budget ''analyzer_other_mib'']),
        (if \<not> isinstance_int unattributed
         then flag True (Msg ''unattributed_mib is missing: the snapshot was not applied'' [])
         else flagM (py_less unattributed (JInt min_unattributed))
           (Msg ''unattributed memory is below the minimum'' [unattributed])),
        need (vget (or_dict (dget budget ''evidence'')) ''xpu_smi'') (Msg ''evidence.xpu_smi must record the device snapshot path'' []),
        check_threshold ts ''min_free_mib'' (\<lambda>t. flagM (py_less (dget_or budget ''measured_free_mib'' (JInt 0)) t)
          (Msg ''free memory is below the required headroom'' [t])),
        check_threshold ts ''max_utilization_pct'' (\<lambda>t. flagM (py_greater (dget_or budget ''utilization_pct'' (JInt 100)) t)
          (Msg ''utilization exceeds'' [t])),
        check_threshold ts ''min_kv_cache_tokens'' (\<lambda>t.
          let tokens = dget budget ''kv_cache_tokens'' in
          if \<not> isinstance_int tokens then flag True (Msg ''kv_cache_tokens is unknown'' [])
          else flagM (py_less tokens t) (Msg ''KV pool holds fewer tokens than required'' [tokens, t])),
        check_threshold ts ''max_card_spread_mib'' (\<lambda>t. flagM (py_greater (dget_or budget ''card_spread_mib'' (JInt 0)) t)
          (Msg ''per-card spread exceeds'' [t]))])"

section \<open>The gate on the worst rank is the gate on every rank\<close>

text \<open>A number that is not below a bound, or not above it, and one that is better.\<close>

lemma py_less_num: "num_of a = Some x \<Longrightarrow> py_less a t = Inr b \<longleftrightarrow> (\<exists>y. num_of t = Some y \<and> b = float_less x y)"
  by (cases a; cases "num_of t") (auto simp: py_less_def)

lemma py_less_num_right: "num_of t = Some y \<Longrightarrow> py_less a t = Inr b \<longleftrightarrow> (\<exists>x. num_of a = Some x \<and> b = float_less x y)"
  by (cases t; cases "num_of a") (auto simp: py_less_def split: pyval.splits)

lemma not_below_mono:
  assumes "py_less (JInt a) t = Inr False" and "a \<le> b"
  shows "py_less (JInt b) t = Inr False"
proof -
  obtain y where "num_of t = Some y" "\<not> float_less (Fin (of_int a)) y"
    using assms(1) by (auto simp: py_less_num)
  then show ?thesis using assms(2) by (cases y) (auto simp: py_less_num)
qed

lemma not_above_mono:
  assumes "py_greater (JFloat (Fin a)) t = Inr False" and "b \<le> a"
  shows "py_greater (JFloat (Fin b)) t = Inr False"
proof -
  obtain y where "num_of t = Some y" "\<not> float_less y (Fin a)"
    using assms(1) by (auto simp: py_greater_def py_less_num_right)
  then show ?thesis using assms(2) by (cases y) (auto simp: py_greater_def py_less_num_right)
qed

lemma reconcile_facts:
  assumes "reconcile_rank L report cards spec rank = Inr b"
  shows "rb_spread b = spread cards" "rb_kv_tokens b = (case or_dict (dget report ''vllm'') of
      JDict d \<Rightarrow> dget d ''gpu_kv_cache_tokens'' | _ \<Rightarrow> JNone)"
  using assms
  by (auto simp: reconcile_rank_def rbind_eq_Inr Let_def vget_Inr split: option.splits if_splits)


lemma per_rank_facts:
  assumes "rmapM (\<lambda>c. reconcile_rank L report active spec (cd_index c)) xs = Inr per_rank" and "b \<in> set per_rank"
  shows "rb_spread b = spread active" "rb_kv_tokens b = rb_kv_tokens (hd per_rank)"
proof -
  obtain r where r: "reconcile_rank L report active spec r = Inr b"
    using rmapM_elem[OF assms] by blast
  have "hd per_rank \<in> set per_rank" using assms(2) by (cases per_rank) auto
  then obtain r' where "reconcile_rank L report active spec r' = Inr (hd per_rank)"
    using rmapM_elem[OF assms(1)] by blast
  with r show "rb_spread b = spread active" "rb_kv_tokens b = rb_kv_tokens (hd per_rank)"
    by (simp_all add: reconcile_facts)
qed

lemma worst_budget_bounds:
  assumes "b \<in> set per_rank"
  shows "Min (set (map rb_unattributed per_rank)) \<le> rb_unattributed b" "Min (set (map rb_free per_rank)) \<le> rb_free b"
    "rb_utilization b \<le> Max (set (map rb_utilization per_rank))"
  using assms by auto

lemma worst_budget_simps:
  fixes per_rank cards scope evidence
  defines "d \<equiv> dset (worst_budget per_rank cards scope) ''evidence'' evidence"
  shows "dget d ''hbm_total_matches_device'' = JBool (list_all rb_total_matches per_rank)"
    "dget d ''reconciled'' = JBool (list_all rb_reconciled per_rank)"
    "dget d ''unattributed_mib'' = JInt (Min (set (map rb_unattributed per_rank)))"
    "dget d ''evidence'' = evidence" "dget d ''kv_cache_tokens'' = rb_kv_tokens (hd per_rank)"
    "dget_or d ''measured_free_mib'' x = JInt (Min (set (map rb_free per_rank)))"
    "dget_or d ''utilization_pct'' x = JFloat (Fin (Max (set (map rb_utilization per_rank))))"
    "dget_or d ''card_spread_mib'' x = JInt (spread (sc_ranks scope))"
  by (simp_all add: d_def worst_budget_def Let_def dget_or_def)

lemma rank_dict_simps:
  fixes b evidence
  defines "d \<equiv> dset (rank_dict b) ''evidence'' evidence"
  shows "dget d ''hbm_total_matches_device'' = JBool (rb_total_matches b)" "dget d ''reconciled'' = JBool (rb_reconciled b)"
    "dget d ''unattributed_mib'' = JInt (rb_unattributed b)" "dget d ''evidence'' = evidence"
    "dget d ''kv_cache_tokens'' = rb_kv_tokens b" "dget_or d ''measured_free_mib'' x = JInt (rb_free b)"
    "dget_or d ''utilization_pct'' x = JFloat (Fin (rb_utilization b))" "dget_or d ''card_spread_mib'' x = JInt (rb_spread b)"
  by (simp_all add: d_def rank_dict_def dget_or_def)

lemma threshold_mono:
  assumes "check_threshold ts k check = Inr []" and "\<And>t. check t = Inr [] \<Longrightarrow> check' t = Inr []"
  shows "check_threshold ts k check' = Inr []"
  using assms by (auto simp: check_threshold_def split: option.splits)

text \<open>C33: The gate on the deployment's budget is the gate on every rank: if the validator accepts the budget of
  the worst rank under some thresholds, it accepts under the same thresholds what each active card reports.\<close>

theorem gate_holds_for_every_rank:
  assumes run: "reconcile_deployment L report cards spec scope = Inr budget"
    and gate: "validate_memory_budget (dset budget ''evidence'' evidence) thresholds = Inr []"
    and c: "c \<in> set (sc_ranks scope)"
  shows "\<exists>b. reconcile_rank L report (sc_ranks scope) spec (cd_index c) = Inr b \<and>
    validate_memory_budget (dset (rank_dict b) ''evidence'' evidence) thresholds = Inr []"
proof -
  obtain per_rank where per_rank: "rmapM (\<lambda>c. reconcile_rank L report (sc_ranks scope) spec (cd_index c)) (sc_ranks scope) = Inr per_rank"
    and budget: "budget = worst_budget per_rank cards scope"
    using run by (auto simp: reconcile_deployment_def rbind_eq_Inr split: if_splits)
  obtain b where b: "reconcile_rank L report (sc_ranks scope) spec (cd_index c) = Inr b" "b \<in> set per_rank"
    using rmapM_result[OF per_rank c] by blast
  note facts = per_rank_facts[OF per_rank b(2)] and bounds = worst_budget_bounds[OF b(2), unfolded set_map]
  have "validate_memory_budget (dset (rank_dict b) ''evidence'' evidence) thresholds = Inr []"
    using gate b(2)
    unfolding budget validate_memory_budget_def Let_def worst_budget_simps rank_dict_simps all_checks_accepts facts
    apply (simp add: accepts list_all_iff)
    apply (elim conjE)
    apply (intro conjI)
      apply (erule not_below_mono[OF _ bounds(1)])
     apply (erule threshold_mono, simp add: accepts, erule not_below_mono[OF _ bounds(2)])
    apply (erule threshold_mono, simp add: accepts, erule not_above_mono[OF _ bounds(3)])
    done
  with b(1) show ?thesis by blast
qed


definition demo_cards :: "card list" where
  "demo_cards = [\<lparr>cd_index = 0, cd_used = 10, cd_free = 98294, cd_total = 98304\<rparr>,
     \<lparr>cd_index = 1, cd_used = 90112, cd_free = 8192, cd_total = 98304\<rparr>,
     \<lparr>cd_index = 2, cd_used = 90100, cd_free = 8204, cd_total = 98304\<rparr>]"

definition demo_log_report :: pydict where
  "demo_log_report =
     [(''memory_breakdown'', JDict [(''model_weights_gib'', JFloat (Fin 80)), (''kv_pool_gib'', JFloat (Fin 7)), (''other_gib'', JFloat (Fin 1))])]"

theorem gate_holds_for_every_rank_witness:
  "\<exists>scope budget b. detect_active_ranks demo_cards ''args: tensor_parallel_size=2'' 1024 = Inr scope \<and> sc_warnings scope = [] \<and>
     reconcile_deployment demo_lib demo_log_report demo_cards [(''hbm_mib'', JInt 98304)] scope = Inr budget \<and>
     reconcile_rank demo_lib demo_log_report (sc_ranks scope) [(''hbm_mib'', JInt 98304)] 2 = Inr b \<and>
     validate_memory_budget (dset (rank_dict b) ''evidence'' (JDict [(''xpu_smi'', JStr ''smi.csv'')]))
       (Some [(''min_free_mib'', JInt 8192)]) = Inr []"
proof -
  let ?scope = "\<lparr>sc_ranks = drop 1 demo_cards, sc_tp = Some 2, sc_warnings = []\<rparr>"
  have s: "detect_active_ranks demo_cards ''args: tensor_parallel_size=2'' 1024 = Inr ?scope"
    by code_simp
  have "returned (\<lambda>budget. validate_memory_budget (dset budget ''evidence'' (JDict [(''xpu_smi'', JStr ''smi.csv'')]))
      (Some [(''min_free_mib'', JInt 8192)]) = Inr [])
    (reconcile_deployment demo_lib demo_log_report demo_cards [(''hbm_mib'', JInt 98304)] ?scope, ())"
    by code_simp
  then obtain budget where b: "reconcile_deployment demo_lib demo_log_report demo_cards [(''hbm_mib'', JInt 98304)] ?scope = Inr budget"
    "validate_memory_budget (dset budget ''evidence'' (JDict [(''xpu_smi'', JStr ''smi.csv'')])) (Some [(''min_free_mib'', JInt 8192)]) = Inr []"
    by (auto elim: returnedE)
  have "\<lparr>cd_index = 2, cd_used = 90100, cd_free = 8204, cd_total = 98304\<rparr> \<in> set (sc_ranks ?scope)"
    by (simp add: demo_cards_def)
  from gate_holds_for_every_rank[OF b this] s b(1) show ?thesis by auto
qed

end
