(* ===== verification/HandoffGates.thy ===== *)
theory HandoffGates
  imports Checks
begin

text \<open>
  The gates on what leaves a failed run: \<open>validators/triage_validator.py\<close> (attribution of a failure),
  \<open>validators/patch_validator.py\<close> (a fallback put in place of a kernel) and
  \<open>validators/handoff_validator.py\<close> (a ticket, or a package of findings, for someone else). What an
  accepted artifact then guarantees is stated at the end.
\<close>

section \<open>Triage\<close>

definition ends_with :: "string \<Rightarrow> string \<Rightarrow> bool" where
  "ends_with s t \<longleftrightarrow> starts_with (rev s) (rev t)"

definition source_state :: "pyval \<Rightarrow> pyval" where
  "source_state source = (case source of JDict d \<Rightarrow> dget_or d ''state'' (dget d ''status'') | _ \<Rightarrow> JNone)"

definition failed_state :: "pyval \<Rightarrow> bool" where
  "failed_state v \<longleftrightarrow> (case v of
      JStr s \<Rightarrow> s \<noteq> [] \<and> \<not> ends_with s ''_READY'' \<and> \<not> ends_with s ''_PASS'' \<and> s \<noteq> ''PASS''
    | _ \<Rightarrow> False)"

definition check_failure_file :: "lib \<Rightarrow> fs \<Rightarrow> path \<Rightarrow> pyval \<Rightarrow> errs" where
  "check_failure_file L f base entry =
     rbind (vindex entry ''path'') (\<lambda>v.
     case v of
       JStr s \<Rightarrow>
         rbind (resolve f (below base s)) (\<lambda>p.
         rbind (resolve f base) (\<lambda>b.
         if \<not> strictly_under p b \<or> \<not> is_file f p
         then flag True (Msg ''failure evidence must be a file in the current output'' [])
         else rbind (read_bytes f p) (\<lambda>c.
           rbind (vget entry ''sha256'') (\<lambda>h.
             flag (h \<noteq> JStr (sha256 L c)) (Msg ''failure evidence hash mismatch'' [])))))
     | _ \<Rightarrow> Inl TypeError)"

text \<open>\<open>json.loads\<close> of the snapshot, compared inside a \<open>try\<close>.\<close>

definition check_snapshot :: "lib \<Rightarrow> fs \<Rightarrow> path \<Rightarrow> pyval \<Rightarrow> errs" where
  "check_snapshot L f base source =
     (case rbind (read_bytes f (base @ [''failure_evidence'', ''source_status.json''])) (\<lambda>c.
         case json_loads L c of None \<Rightarrow> Inl (ValueError (Msg ''Expecting value'' [])) | Some v \<Rightarrow> Inr v) of
        Inr v \<Rightarrow> flag (\<not> py_eq v source) (Msg ''source status snapshot does not match the report'' [])
      | Inl e \<Rightarrow> if is_ValueError e \<or> is_OSError e then flag True (Msg ''source status snapshot is required'' []) else Inl e)"

definition validate_failure_evidence :: "lib \<Rightarrow> fs \<Rightarrow> pydict \<Rightarrow> path \<Rightarrow> errs" where
  "validate_failure_evidence L f report base =
     (let source = dget report ''source_status''; entries = or_list (dget report ''evidence'') in
      all_checks
       [flag (\<not> failed_state (source_state source)) (Msg ''source_status must contain a failed task state'' []),
        flag (\<not> says report ''state'' ''NEEDS_HUMAN'' \<or> \<not> says report ''verdict'' ''UNKNOWN'')
          (Msg ''unclassified failure must remain NEEDS_HUMAN/UNKNOWN'' []),
        flag (\<not> says report ''next_action'' ''DIAGNOSE_TASK'') (Msg ''unclassified failure requires task diagnosis'' []),
        flag (\<not> truthy entries) (Msg ''failure evidence is required'' []),
        rbind (viter entries) (each (check_failure_file L f base)),
        check_snapshot L f base source])"

definition layers :: "string list" where
  "layers = [''vllm_upstream'', ''vllm_kunlun_plugin'', ''kunlun_ops_vendor'', ''torch_xmlir_vendor'']"
definition owned_layers :: "string list" where "owned_layers = [''vllm_upstream'', ''vllm_kunlun_plugin'']"
definition binary_layers :: "string list" where "binary_layers = [''kunlun_ops_vendor'', ''torch_xmlir_vendor'']"
definition verdicts :: "string list" where
  "verdicts = [''VENDOR_KERNEL_GAP'', ''RUNTIME_STATE_DEPENDENT'', ''PLUGIN_DEFECT'', ''CONFIGURATION'', ''UNKNOWN'']"

definition check_isolated :: "pyval \<Rightarrow> pyval \<Rightarrow> errs" where
  "check_isolated verdict isolated =
     (case isolated of
        JDict d \<Rightarrow>
          (let reproduced = dget d ''reproduced'' in
           all_checks
            [flag (\<not> is_True (dget d ''attempted'')) (Msg ''isolated_reproduction.attempted must be True'' []),
             flag (\<not> true_or_false reproduced) (Msg ''isolated_reproduction.reproduced must be recorded'' []),
             flag (\<not> truthy (dget d ''cases'')) (Msg ''isolated_reproduction.cases must record what was run'' []),
             flag (verdict = JStr ''VENDOR_KERNEL_GAP'' \<and> \<not> is_True reproduced)
               (Msg ''VENDOR_KERNEL_GAP requires the isolated call to fail as well'' []),
             flag (verdict = JStr ''RUNTIME_STATE_DEPENDENT'' \<and> \<not> is_False reproduced)
               (Msg ''RUNTIME_STATE_DEPENDENT means the isolated call passed'' [])])
      | _ \<Rightarrow> flag True (Msg ''isolated_reproduction is required'' []))"

definition check_owner :: "pyval \<Rightarrow> pyval \<Rightarrow> errs" where
  "check_owner layer owner =
     (if \<not> truthy owner then flag True (Msg ''owner must state who can fix this'' [])
      else rbind (in_strset layer owned_layers) (\<lambda>owned.
        if owned \<and> owner = JStr ''vendor'' then flag True (Msg ''the layer is modifiable here'' [layer])
        else flag (truthy layer \<and> \<not> owned \<and> owner = JStr ''us'') (Msg ''the layer ships as a binary'' [layer])))"

definition validate_triage :: "pydict \<Rightarrow> pydict \<Rightarrow> errs" where
  "validate_triage report contract =
     (let acceptance = or_dict (dget contract ''acceptance'');
          layer = dget report ''layer''; verdict = dget report ''verdict'';
          workaround = dget report ''workaround'' in
      all_checks
       [state_is report ''TRIAGE_READY'', needs report ''failing_symbol'', needs report ''error_text'',
        flagM (rnot (in_strset layer layers)) (Msg ''unknown layer'' [layer]),
        flagM (rnot (in_strset verdict verdicts)) (Msg ''unknown verdict'' [verdict]),
        check_isolated verdict (dget report ''isolated_reproduction''),
        rbind (vget acceptance ''require_captured_arguments'') (\<lambda>r.
          flag (truthy r \<and> \<not> truthy (dget report ''captured_arguments'')) (Msg ''the real arguments must be captured'' [])),
        rbind (vget acceptance ''require_owner'') (\<lambda>r. whenE (truthy r) (check_owner layer (dget report ''owner''))),
        whenE (truthy workaround) (all_checks
          [need (vget workaround ''description'') (Msg ''a workaround must describe itself'' []),
           rbind (vget workaround ''validated_in_server'') (\<lambda>v.
             flag (\<not> is_True v) (Msg ''a workaround must be validated in the server'' []))])])"

section \<open>Patch\<close>

definition chosen_mechanism :: "pyval \<Rightarrow> exc + pyval option" where
  "chosen_mechanism m = rbind (vget m ''chosen'') (\<lambda>c. Inr (if truthy c then Some m else None))"

definition check_similarity :: "lib \<Rightarrow> pyval \<Rightarrow> pyval \<Rightarrow> errs" where
  "check_similarity L numerical equivalence =
     rbind (rbind (vget_or equivalence ''threshold'' (JFloat (Fin (9999/10000)))) (py_float L)) (\<lambda>threshold.
     rbind (vget numerical ''min_cosine_similarity'') (\<lambda>similarity.
     all_checks
      [need (vget numerical ''reference'') (Msg ''numerical.reference is required'' []),
       need (vget numerical ''cases'') (Msg ''numerical.cases is required'' []),
       (if \<not> isinstance_number similarity then flag True (Msg ''numerical.min_cosine_similarity is required'' [])
        else flagM (py_less similarity (JFloat threshold)) (Msg ''min cosine similarity is below the threshold'' [similarity]))]))"

definition check_reversibility :: "pyval \<Rightarrow> pyval \<Rightarrow> errs" where
  "check_reversibility reversibility required =
     all_checks
      [need (vget reversibility ''backup_path'') (Msg ''reversibility.backup_path must be recorded'' []),
       rbind (vget reversibility ''runtime_switch'') (\<lambda>s. rbind (vget required ''runtime_switch'') (\<lambda>t.
         flag (\<not> py_eq s t) (Msg ''the runtime switch must match the contract'' []))),
       rbind (vget required ''must_reproduce_original_failure'') (\<lambda>m.
         whenE (truthy m) (need (vget reversibility ''reproduces_original_failure'')
           (Msg ''turning the patch off must still reproduce the original failure'' [])))]"

definition validate_patch_placement :: "lib \<Rightarrow> pydict \<Rightarrow> pydict \<Rightarrow> errs" where
  "validate_patch_placement L report contract =
     (let checks = or_dict (dget contract ''checks''); acceptance = or_dict (dget contract ''acceptance'') in
      all_checks
       [state_is report ''PATCH_PLACED'',
        rbind (vget checks ''mechanisms'') (\<lambda>ms. rbind (viter (or_list ms)) (\<lambda>mechanisms.
        rbind (rcollect chosen_mechanism mechanisms) (\<lambda>chosen.
        all_checks
         [flag (length chosen \<noteq> 1) (Msg ''exactly one placement mechanism must be chosen'' []),
          each (\<lambda>m. need (vget m ''why'') (Msg ''mechanism must record why'' [])) mechanisms,
          (case chosen of
             [] \<Rightarrow> skip
           | m # _ \<Rightarrow> rbind (vget m ''id'') (\<lambda>i. flag (\<not> py_eq (dget report ''mechanism'') i)
               (Msg ''the report placed the patch another way'' [dget report ''mechanism'', i])))]))),
        rbind (vget acceptance ''require_numerical_evidence'') (\<lambda>r. whenE (truthy r)
          (rbind (vget checks ''numerical_equivalence'') (\<lambda>e.
            check_similarity L (or_dict (dget report ''numerical'')) (or_dict e)))),
        rbind (vget acceptance ''require_server_validation'') (\<lambda>r. whenE (truthy r)
          (rbind (vget (or_dict (dget report ''server_validation'')) ''state'') (\<lambda>s.
            flag (s \<noteq> JStr ''DEPLOYMENT_READY'') (Msg ''the patch must be validated by a service proof'' [])))),
        rbind (vget acceptance ''require_reversibility'') (\<lambda>r. whenE (truthy r)
          (rbind (vget_or checks ''reversibility'' (JDict [])) (\<lambda>required.
            check_reversibility (or_dict (dget report ''reversibility'')) required))),
        rbind (vget (or_dict (dget report ''scope'')) ''routes_only'') (\<lambda>a.
        rbind (vget checks ''scope'') (\<lambda>s. rbind (vget (or_dict s) ''routes_only'') (\<lambda>b.
          flag (\<not> py_eq a b) (Msg ''the routing scope must match the contract'' [])))),
        flag (\<not> truthy (dget report ''limitations'')) (Msg ''a patch with no stated limitation is a claim nobody can check'' [])])"


section \<open>Ticket\<close>

definition check_reproduction :: "lib \<Rightarrow> pyval \<Rightarrow> pyval \<Rightarrow> errs" where
  "check_reproduction L reproduces reproduction =
     (if \<not> true_or_false reproduces
      then flag True (Msg ''reproduces_in_isolation must be stated explicitly'' [])
      else let text = lower (py_str L reproduction) in
        all_checks
         [flag (\<not> truthy reproduces \<and> \<not> contains text ''only occurs inside the server'')
            (Msg ''the ticket must say the reproduction requires the full serving run'' []),
          flag (truthy reproduces \<and> \<not> contains text ''directly'')
            (Msg ''a standalone-reproducible failure must say how to call it directly'' [])])"

definition validate_handoff :: "lib \<Rightarrow> pydict \<Rightarrow> pydict \<Rightarrow> errs" where
  "validate_handoff L ticket contract =
     (let acceptance = or_dict (dget contract ''acceptance'') in
      all_checks
       ([state_is ticket ''HANDOFF_READY'',
         flagM (rnot (in_strset (dget ticket ''layer'') binary_layers)) (Msg ''the layer is modifiable here'' [dget ticket ''layer''])] @
        map (needs ticket) [''symbol'', ''error_text'', ''expected'', ''observed'', ''reproduction'', ''arguments''] @
        [rbind (vget acceptance ''require_environment_fingerprint'') (\<lambda>r.
           flag (truthy r \<and> \<not> truthy (dget ticket ''environment_fingerprint'')) (Msg ''environment_fingerprint is required'' [])),
         check_reproduction L (dget ticket ''reproduces_in_isolation'') (dget_or ticket ''reproduction'' (JStr [])),
         rbind (vget acceptance ''require_ruled_out'') (\<lambda>r.
           flag (truthy r \<and> \<not> truthy (dget ticket ''ruled_out'')) (Msg ''ruled_out must list what was eliminated'' [])),
         flag (\<not> says ticket ''owner'' ''vendor'') (Msg ''a handoff is owned by the vendor by definition'' [])]))"

section \<open>Package\<close>

definition owners :: "string list" where "owners = [''us'', ''upstream'', ''vendor'']"
definition kinds :: "string list" where "kinds = [''observed_failure'', ''unreached_dependency'']"

definition check_finding_owner :: "pyval \<Rightarrow> pyval \<Rightarrow> pyval \<Rightarrow> errs" where
  "check_finding_owner layer owner generality =
     rbind (in_strset owner owners) (\<lambda>known.
     if \<not> known then flag True (Msg ''owner must be one of the owners'' [owner])
     else if owner = JStr ''vendor'' \<and> in_strs layer owned_layers then flag True (Msg ''the vendor cannot own it'' [layer])
     else if owner = JStr ''us'' \<and> in_strs layer binary_layers then flag True (Msg ''this is a ticket, not ours'' [layer])
     else if owner = JStr ''upstream''
     then all_checks
       [flag (layer \<noteq> JStr ''vllm_upstream'') (Msg ''only a vllm_upstream item can be filed upstream'' [layer]),
        flag (\<not> truthy generality) (Msg ''an item filed upstream must state who else it hits'' [])]
     else skip)"

definition check_finding_kind :: "pydict \<Rightarrow> errs" where
  "check_finding_kind finding =
     (let kind = dget finding ''kind'' in
      rbind (in_strset kind kinds) (\<lambda>known.
      if \<not> known then flag True (Msg ''kind must be one of the kinds'' [kind])
      else if kind = JStr ''observed_failure''
      then all_checks
        [flag (\<not> truthy (dget finding ''error_text'')) (Msg ''an observed failure must carry the error'' []),
         flag (\<not> true_or_false (dget finding ''reproduces_in_isolation''))
           (Msg ''reproduces_in_isolation must be stated explicitly'' [])]
      else all_checks
        [flag (truthy (dget finding ''error_text'')) (Msg ''never reached, so it cannot carry an error_text'' []),
         flag (\<not> truthy (dget finding ''blocked_by'')) (Msg ''an unreached item must say what stopped the run'' [])]))"

text \<open>\<open>_validate_finding\<close>; the label of the item appears in the messages only. A finding that is no
  dictionary raises.\<close>

definition validate_finding :: "lib \<Rightarrow> pyval \<Rightarrow> errs" where
  "validate_finding L finding =
     (case finding of
        JDict d \<Rightarrow>
          (let site = py_str L (py_or (dget d ''site'') (JStr [])); layer = dget d ''layer'' in
           all_checks
            (map (needs d) [''id'', ''symbol'', ''site'', ''minimal_fix'', ''verified_against''] @
             [flag (site \<noteq> [] \<and> \<not> contains site '':'') (Msg ''site must name a file and a line'' [JStr site]),
              flagM (rnot (in_strset layer layers)) (Msg ''layer must be one of the layers'' [layer]),
              check_finding_owner layer (dget d ''owner'') (dget d ''generality''),
              check_finding_kind d,
              flag (truthy (dget d ''stand_in'') \<and> \<not> truthy (dget d ''stand_in_is_not_a_fix''))
                (Msg ''a stand-in must be labelled as one'' [])]))
      | _ \<Rightarrow> Inl AttributeError)"

text \<open>The loop over the findings, with the identifiers seen so far.\<close>

fun check_findings :: "lib \<Rightarrow> pyval list \<Rightarrow> pyval list \<Rightarrow> errs" where
  "check_findings L seen [] = skip"
| "check_findings L seen (x # xs) =
     rbind (validate_finding L x) (\<lambda>e.
     rbind (vget x ''id'') (\<lambda>i.
     if \<not> hashable i then Inl TypeError
     else rbind (check_findings L (i # seen) xs) (\<lambda>es.
       Inr (e @ err_if (in_list i seen) (Msg ''duplicate finding id'' [i]) @ es))))"

definition check_subject :: "pyval \<Rightarrow> errs" where
  "check_subject status =
     rbind (vget status ''serves_requests'') (\<lambda>serves.
     all_checks
      [(if \<not> true_or_false serves then flag True (Msg ''subject_status.serves_requests must be stated explicitly'' [])
        else flag (truthy serves) (Msg ''if the subject serves requests this is not a handoff'' [])),
       need (vget status ''stopped_at'') (Msg ''subject_status.stopped_at is required'' [])])"

definition validate_handoff_package :: "lib \<Rightarrow> pydict \<Rightarrow> pydict \<Rightarrow> errs" where
  "validate_handoff_package L package contract =
     (let acceptance = or_dict (dget contract ''acceptance''); findings = or_list (dget package ''findings'') in
      all_checks
       [state_is package ''HANDOFF_READY'', needs package ''subject'',
        rbind (vget acceptance ''require_environment_fingerprint'') (\<lambda>r.
          flag (truthy r \<and> \<not> truthy (dget package ''environment_fingerprint'')) (Msg ''environment_fingerprint is required'' [])),
        flag (\<not> truthy findings) (Msg ''a package with no findings is not a handoff'' []),
        rbind (viter findings) (check_findings L []),
        check_subject (or_dict (dget package ''subject_status'')),
        rbind (vget acceptance ''require_ruled_out'') (\<lambda>r.
          flag (truthy r \<and> \<not> truthy (dget package ''ruled_out'')) (Msg ''ruled_out must list what was eliminated'' []))])"

section \<open>What an accepted artifact guarantees\<close>

text \<open>The owner of an item can act on its layer.\<close>

definition owner_can_act :: "pydict \<Rightarrow> bool" where
  "owner_can_act d \<longleftrightarrow> (case (dget d ''owner'', dget d ''layer'') of
      (JStr w, JStr l) \<Rightarrow> (w = ''vendor'' \<and> l \<in> set binary_layers) \<or> (w = ''us'' \<and> l \<in> set owned_layers) \<or>
        (w = ''upstream'' \<and> l = ''vllm_upstream'')
    | _ \<Rightarrow> False)"

text \<open>An item is either observed, with its error, or unreached, without one.\<close>

definition honest_kind :: "pydict \<Rightarrow> bool" where
  "honest_kind d \<longleftrightarrow> (dget d ''kind'' = JStr ''observed_failure'' \<and> truthy (dget d ''error_text'')) \<or>
     (dget d ''kind'' = JStr ''unreached_dependency'' \<and> \<not> truthy (dget d ''error_text'') \<and> truthy (dget d ''blocked_by''))"

lemma in_strs_JStr: "in_strs v ss \<longleftrightarrow> (\<exists>s. v = JStr s \<and> s \<in> set ss)"
  by (cases v) (simp_all add: in_strs_def)

lemma finding_owner:
  assumes c: "check_finding_owner layer owner generality = Inr []" and "in_strs layer layers"
  shows "owner_can_act [(''owner'', owner), (''layer'', layer)]"
proof -
  obtain l where l: "layer = JStr l" "l \<in> {''vllm_upstream'', ''vllm_kunlun_plugin'', ''kunlun_ops_vendor'', ''torch_xmlir_vendor''}"
    using assms(2) by (force simp: in_strs_JStr layers_def)
  have "in_strset owner owners = Inr True"
    using c by (auto simp: check_finding_owner_def rbind_eq_Inr flag_accepts split: if_splits)
  then obtain w where w: "owner = JStr w" "w \<in> {''us'', ''upstream'', ''vendor''}"
    by (auto simp: in_strset_Inr in_strs_JStr owners_def)
  have "in_strset (JStr w) owners = Inr True"
    using w(2) by (auto simp: in_strset_def in_strs_def owners_def)
  note ce = c[unfolded check_finding_owner_def l(1) w(1) this rbind_Inr]
  have r1: "\<not> (w = ''vendor'' \<and> l \<in> set owned_layers)"
    using ce by (simp add: in_strs_def flag_accepts split: if_splits)
  have r2: "\<not> (w = ''us'' \<and> l \<in> set binary_layers)"
    using ce by (simp add: in_strs_def flag_accepts split: if_splits)
  have r3: "w = ''upstream'' \<Longrightarrow> l = ''vllm_upstream''"
    using ce by (simp add: in_strs_def accepts split: if_splits)
  have o: "(w = ''vendor'' \<and> l \<in> set binary_layers) \<or> (w = ''us'' \<and> l \<in> set owned_layers) \<or>
      (w = ''upstream'' \<and> l = ''vllm_upstream'')"
  proof -
    have l': "l \<in> set owned_layers \<or> l \<in> set binary_layers"
      using l(2) unfolding owned_layers_def binary_layers_def by (elim insertE emptyE) simp_all
    consider "w = ''us''" | "w = ''upstream''" | "w = ''vendor''" using w(2) by auto
    then show ?thesis
    proof cases
      case 1
      then show ?thesis using l' r2 by simp
    next
      case 2
      then show ?thesis using r3 by simp
    next
      case 3
      then show ?thesis using l' r1 by simp
    qed
  qed
  show ?thesis
    using o by (simp add: owner_can_act_def l(1) w(1))
qed

lemma finding_kind:
  assumes "check_finding_kind d = Inr []"
  shows "honest_kind d"
proof -
  have "in_strset (dget d ''kind'') kinds = Inr True"
    using assms by (auto simp: check_finding_kind_def Let_def rbind_eq_Inr flag_accepts split: if_splits)
  then consider "dget d ''kind'' = JStr ''observed_failure''" | "dget d ''kind'' = JStr ''unreached_dependency''"
    by (auto simp: in_strset_Inr in_strs_JStr kinds_def)
  then show ?thesis
    using assms by cases (simp_all add: check_finding_kind_def honest_kind_def in_strset_def in_strs_def kinds_def accepts)
qed

lemma finding_accepted:
  assumes "validate_finding L x = Inr []"
  obtains d where "x = JDict d" "owner_can_act d" "honest_kind d" "truthy (dget d ''id'')"
proof -
  obtain d where d: "x = JDict d" using assms by (cases x) (simp_all add: validate_finding_def)
  have a: "check_finding_owner (dget d ''layer'') (dget d ''owner'') (dget d ''generality'') = Inr []"
      "in_strs (dget d ''layer'') layers" "check_finding_kind d = Inr []" "truthy (dget d ''id'')"
    using assms by (simp_all add: d validate_finding_def Let_def accepts)
  from finding_owner[OF a(1,2)] have "owner_can_act d" by (simp add: owner_can_act_def)
  with d a(3,4) show ?thesis using that finding_kind by blast
qed

definition id_of :: "pyval \<Rightarrow> pyval" where
  "id_of x = (case x of JDict d \<Rightarrow> dget d ''id'' | _ \<Rightarrow> JNone)"

lemma check_findings_step:
  assumes "check_findings L seen (x # xs) = Inr []"
  shows "validate_finding L x = Inr []" "\<not> in_list (id_of x) seen" "check_findings L (id_of x # seen) xs = Inr []"
  using assms by (auto simp: rbind_eq_Inr vget_Inr id_of_def split: if_splits)

lemma check_findings_clean:
  assumes "check_findings L seen xs = Inr []"
  shows "(\<forall>x \<in> set xs. validate_finding L x = Inr [] \<and> \<not> in_list (id_of x) seen) \<and>
    (\<forall>i < length xs. \<forall>j < i. \<not> py_eq (id_of (xs ! i)) (id_of (xs ! j)))"
  using assms
proof (induction xs arbitrary: seen)
  case (Cons x xs)
  note x = check_findings_step[OF Cons.prems]
  note IH = Cons.IH[OF x(3)]
  have "\<not> py_eq (id_of ((x # xs) ! i)) (id_of ((x # xs) ! j))" if "i < length (x # xs)" "j < i" for i j
  proof (cases j)
    case 0
    then have "(x # xs) ! i \<in> set xs" using that by (cases i) auto
    with IH 0 show ?thesis by (auto simp: in_list_def)
  next
    case (Suc k)
    then show ?thesis using IH that by (cases i) auto
  qed
  moreover have "\<forall>y \<in> set xs. \<not> in_list (id_of y) seen"
    using IH by (auto simp: in_list_def)
  ultimately show ?case using x IH by auto
qed simp

text \<open>What a reader of an accepted package can rely on.\<close>

definition honest_package :: "pydict \<Rightarrow> bool" where
  "honest_package package \<longleftrightarrow> (case (dget package ''findings'', dget package ''subject_status'') of
      (JList findings, JDict status) \<Rightarrow>
        findings \<noteq> [] \<and>
        list_all (\<lambda>x. case x of JDict d \<Rightarrow> owner_can_act d \<and> honest_kind d | _ \<Rightarrow> False) findings \<and>
        list_all (\<lambda>i. list_all (\<lambda>j. \<not> py_eq (id_of (findings ! i)) (id_of (findings ! j))) [0..<i]) [0..<length findings] \<and>
        \<not> truthy (dget status ''serves_requests'') \<and> truthy (dget status ''stopped_at'')
    | _ \<Rightarrow> False)"

lemma findings_list:
  assumes "viter v = Inr xs" "check_findings L [] xs = Inr []" "truthy v"
  shows "v = JList xs \<and> xs \<noteq> []"
proof -
  have "xs \<noteq> []" using assms(1,3) by (cases v) (auto simp: viter_def)
  moreover have "validate_finding L x = Inr []" if "x \<in> set xs" for x
    using check_findings_clean[OF assms(2)] that by blast
  then have "\<forall>x \<in> set xs. \<exists>d. x = JDict d"
    by (metis finding_accepted)
  ultimately obtain d xs' where "xs = JDict d # xs'" by (cases xs) auto
  then show ?thesis using assms(1) by (cases v) (auto simp: viter_def map_eq_Cons_conv)
qed

lemma subject_accepted:
  assumes "check_subject (or_dict v) = Inr []"
  shows "\<exists>status. v = JDict status \<and> \<not> truthy (dget status ''serves_requests'') \<and> truthy (dget status ''stopped_at'')"
proof -
  have "v \<noteq> JDict d \<Longrightarrow> False" if "or_dict v = JDict d" "d \<noteq> []" for d
    using that by (cases v) (auto simp: or_dict_def py_or_def split: if_splits)
  moreover obtain d where "or_dict v = JDict d"
    using assms by (cases "or_dict v") (simp_all add: check_subject_def vget_def vget_or_def)
  moreover from this have "truthy (dget d ''stopped_at'')" "\<not> truthy (dget d ''serves_requests'')"
    using assms by (auto simp: check_subject_def accepts vget_Inr split: if_splits)
  moreover from this have "d \<noteq> []" by auto
  ultimately show ?thesis by blast
qed


definition demo_finding :: "pydict" where
  "demo_finding = [(''id'', JStr ''F1''), (''symbol'', JStr ''paged_attention''), (''site'', JStr ''ops.py:12''),
     (''minimal_fix'', JStr ''guard the call''), (''verified_against'', JStr ''vllm''), (''layer'', JStr ''vllm_kunlun_plugin''),
     (''owner'', JStr ''us''), (''kind'', JStr ''observed_failure''), (''error_text'', JStr ''illegal memory access''),
     (''reproduces_in_isolation'', JBool True)]"

definition demo_package :: "pydict" where
  "demo_package = [(''state'', JStr ''HANDOFF_READY''), (''subject'', JStr ''model''),
     (''findings'', JList [JDict demo_finding]),
     (''subject_status'', JDict [(''serves_requests'', JBool False), (''stopped_at'', JStr ''warmup'')])]"


end
