(* ===== verification/RuntimeGates.thy ===== *)
theory RuntimeGates
  imports Checks
begin

text \<open>
  The gates on what is known of a runtime before and beside a deployment: \<open>validators/drift_validator.py\<close>
  (does every plugin module import against the installed engine), \<open>scan_validator.py\<close> (where an
  architecture is implemented), \<open>bringup_validator.py\<close> (how far a reduced model runs) and
  \<open>matrix_validator.py\<close> (a row of the support matrix). What an accepted report then guarantees is
  stated after each of them.
\<close>

section \<open>Shared tests\<close>

text \<open>\<open>isinstance(v, int) and v >= n\<close>; \<open>v.get(k)\<close> for a key that need not be a string.\<close>

definition int_from :: "int \<Rightarrow> pyval \<Rightarrow> bool" where
  "int_from n v = (case v of JInt i \<Rightarrow> n \<le> i | JBool b \<Rightarrow> n \<le> (if b then 1 else 0) | _ \<Rightarrow> False)"

definition vget_key :: "pyval \<Rightarrow> pyval \<Rightarrow> exc + pyval" where
  "vget_key v k = (case k of
      JStr s \<Rightarrow> vget v s
    | _ \<Rightarrow> (case v of JDict _ \<Rightarrow> if hashable k then Inr JNone else Inl TypeError | _ \<Rightarrow> Inl AttributeError))"

text \<open>\<open>v.get(k) or {}\<close> and \<open>v.get(k) or []\<close>.\<close>

definition sub_dict :: "pyval \<Rightarrow> string \<Rightarrow> exc + pyval" where
  "sub_dict v k = rbind (vget v k) (\<lambda>x. Inr (or_dict x))"

definition sub_list :: "pyval \<Rightarrow> string \<Rightarrow> exc + pyval" where
  "sub_list v k = rbind (vget v k) (\<lambda>x. Inr (or_list x))"

lemma sub_JDict [simp]:
  "sub_dict (JDict d) k = Inr (or_dict (dget d k))" "sub_list (JDict d) k = Inr (or_list (dget d k))"
  by (simp_all add: sub_dict_def sub_list_def)

text \<open>A non-empty value that is read with \<open>.get\<close> is a dictionary.\<close>

lemma or_dict_is_JDict: "or_dict v = JDict d \<Longrightarrow> d \<noteq> [] \<Longrightarrow> v = JDict d"
  by (auto simp: or_dict_def py_or_def split: if_splits)

lemma or_dict_field: "or_dict v = JDict d \<Longrightarrow> truthy (dget d k) \<Longrightarrow> v = JDict d"
  by (rule or_dict_is_JDict) auto

section \<open>Runtime drift\<close>

definition check_failure :: "nat \<Rightarrow> pyval \<Rightarrow> errs" where
  "check_failure i failure = all_checks
     [each (\<lambda>k. need (vget failure k) (Msg ''failure field is required'' [JInt (int i), JStr k]))
        [''module'', ''error_type'', ''message''],
      flagM (rnot (vhas failure ''resolution'')) (Msg ''failure has no resolution field'' [JInt (int i)])]"

definition check_resolution :: "nat \<Rightarrow> pyval \<Rightarrow> errs" where
  "check_resolution i failure =
     rbind (sub_dict failure ''resolution'') (\<lambda>resolution.
     rbind (vget resolution ''kind'') (\<lambda>kind.
     whenE (in_strs kind [''MISSING_SYMBOL'', ''MISSING_MODULE''])
       (rbind (vget resolution ''candidates'') (\<lambda>c.
        whenE (\<not> truthy c) (need (vget resolution ''gone_upstream'')
          (Msg ''resolution has no candidates and is not marked gone_upstream'' [JInt (int i)]))))))"

definition validate_drift_report :: "pydict \<Rightarrow> pyval \<Rightarrow> errs" where
  "validate_drift_report report contract =
     (let state = dget report ''state''; engine = or_dict (dget report ''engine'');
          plugin = or_dict (dget report ''plugin''); failures = dget report ''failures'' in
      all_checks
       [flag (\<not> in_strs state [''DRIFT_CLEAR'', ''DRIFT_FOUND''])
          (Msg ''state is neither DRIFT_CLEAR nor DRIFT_FOUND'' [state]),
        each (\<lambda>k. need (vget engine k) (Msg ''engine field is required'' [JStr k])) [''name'', ''path''],
        rbind (vget plugin ''modules_scanned'') (\<lambda>n.
          flag (\<not> int_from 1 n) (Msg ''plugin.modules_scanned must be a positive count'' [])),
        (if failures = JNone then flag True (Msg ''failures is required, even when empty'' [])
         else rbind (viter failures) (each_indexed check_failure)),
        flag (state = JStr ''DRIFT_CLEAR'' \<and> truthy failures) (Msg ''state is DRIFT_CLEAR but failures were recorded'' []),
        flag (state = JStr ''DRIFT_FOUND'' \<and> \<not> truthy failures) (Msg ''state is DRIFT_FOUND but no failure was recorded'' []),
        rbind (sub_dict (or_dict contract) ''acceptance'') (\<lambda>acceptance.
        rbind (vget acceptance ''require_resolution_candidates'') (\<lambda>r.
          whenE (truthy r) (rbind (viter (or_list failures)) (each_indexed check_resolution))))])"

text \<open>A clear report scanned a module and met no failure; every recorded failure says where the
  symbol went.\<close>

lemma drift_clear_sound:
  assumes "validate_drift_report report contract = Inr []" "dget report ''state'' = JStr ''DRIFT_CLEAR''"
  shows "\<not> truthy (dget report ''failures'') \<and>
    (\<exists>plugin. dget report ''plugin'' = JDict plugin \<and> int_from 1 (dget plugin ''modules_scanned''))"
proof -
  note a = assms(1)[unfolded validate_drift_report_def Let_def all_checks_accepts list.set assms(2)]
  obtain d where d: "or_dict (dget report ''plugin'') = JDict d" "int_from 1 (dget d ''modules_scanned'')"
    using a by (auto simp: accepts rbind_eq_Inr vget_Inr)
  then have "truthy (dget d ''modules_scanned'')"
    by (cases "dget d ''modules_scanned''") (auto simp: int_from_def split: if_splits)
  with d or_dict_field a show ?thesis by (auto simp: accepts)
qed

lemma drift_found_located:
  assumes "validate_drift_report report contract = Inr []" "dget report ''failures'' = JList fs" "f \<in> set fs"
  shows "\<exists>d. f = JDict d \<and> truthy (dget d ''module'') \<and> truthy (dget d ''error_type'') \<and>
    truthy (dget d ''message'') \<and> dhas d ''resolution''"
proof -
  have "each_indexed check_failure fs = Inr []"
    using assms(1) by (simp add: validate_drift_report_def Let_def all_checks_accepts assms(2))
  then obtain i where "check_failure i f = Inr []"
    using assms(3) by (auto simp: each_indexed_accepts in_set_conv_nth)
  then show ?thesis by (auto simp: check_failure_def accepts vhas_def vget_Inr)
qed

section \<open>Support scan\<close>

definition support_verdicts :: "string list" where
  "support_verdicts = [''KUNLUN_OOT'', ''UPSTREAM_GENERIC'', ''UPSTREAM_VENDORED_VARIANT'', ''MAIN_ONLY'',
     ''PR_PENDING'', ''ABSENT'', ''UNKNOWN_UPSTREAM'']"

definition absent_evidence :: "(string \<times> string) list" where
  "absent_evidence = [(''main_lookup'', ''NOT_FOUND''), (''pr_lookup'', ''NOT_FOUND'')]"

definition check_generic :: "pyval \<Rightarrow> errs" where
  "check_generic variant =
     rbind (vget variant ''vendored_per_backend'') (\<lambda>v.
     whenE (is_True v) (rbind (vget variant ''variant_is_runnable_here'') (\<lambda>r.
       flag (is_False r) (Msg ''UPSTREAM_GENERIC claimed while the selected variant has unmet hard dependencies'' []))))"

definition check_vendored :: "pyval \<Rightarrow> errs" where
  "check_vendored variant = all_checks
     [need (vget variant ''selected_variant'') (Msg ''this verdict must name the variant that was selected'' []),
      rbind (sub_list variant ''backend_variants_present'') (\<lambda>vs. rbind (vlen vs) (\<lambda>n.
        flag (n < 2) (Msg ''vendoring means more than one variant exists'' []))),
      rbind (sub_dict variant ''variant_hard_dependencies'') (\<lambda>deps.
      rbind (vget deps ''unimportable_modules'') (\<lambda>m.
      rbind (vget deps ''unregistered_custom_ops'') (\<lambda>ops.
        flag (\<not> truthy m \<and> \<not> truthy ops) (Msg ''this verdict must list the dependencies that are missing'' []))))]"

definition check_verdict :: "pyval \<Rightarrow> pyval \<Rightarrow> pyval \<Rightarrow> errs" where
  "check_verdict entry arch verdict = all_checks
      [need (vget entry ''meaning'') (Msg ''a verdict without its meaning'' [arch]),
       whenE (verdict = JStr ''ABSENT'') (each (\<lambda>(k, expected). rbind (vget entry k) (\<lambda>v.
         flag (v \<noteq> JStr expected) (Msg ''ABSENT claimed while a lookup did not run'' [arch, JStr k, v]))) absent_evidence),
       whenE (verdict = JStr ''PR_PENDING'') (need (vget entry ''pull_requests'') (Msg ''PR_PENDING must cite the pull requests'' [arch])),
       whenE (verdict = JStr ''KUNLUN_OOT'') (need (vget entry ''in_kunlun_oot'')
         (Msg ''KUNLUN_OOT claimed but the installed registry does not list it'' [arch])),
       whenE (verdict = JStr ''UPSTREAM_GENERIC'') (need (vget entry ''in_installed_vllm'')
         (Msg ''UPSTREAM_GENERIC claimed but the installed vLLM does not know it'' [arch])),
       whenE (verdict = JStr ''UPSTREAM_GENERIC'') (rbind (sub_dict entry ''backend_variant'') check_generic),
       whenE (verdict = JStr ''UPSTREAM_VENDORED_VARIANT'') (rbind (sub_dict entry ''backend_variant'') check_vendored)]"

definition check_scanned :: "pyval \<Rightarrow> errs" where
  "check_scanned entry =
     rbind (vget_or entry ''architecture'' (JStr ''?'')) (\<lambda>arch.
     rbind (vget entry ''verdict'') (\<lambda>verdict.
     rbind (in_strset verdict support_verdicts) (\<lambda>known.
     if \<not> known then flag True (Msg ''unknown verdict'' [arch, verdict])
     else check_verdict entry arch verdict)))"

definition check_registry_evidence :: "pyval \<Rightarrow> errs" where
  "check_registry_evidence entry = rbind (vget entry ''kunlun_oot_archs'') (\<lambda>v.
     flag (\<not> is_list v) (Msg ''the installed OOT registry contents must be recorded'' []))"

definition validate_support_card :: "pydict \<Rightarrow> pydict \<Rightarrow> errs" where
  "validate_support_card scan contract =
     (let acceptance = or_dict (dget contract ''acceptance''); results = or_list (dget scan ''results'') in
      all_checks
       [state_is scan ''SCAN_READY'', needs scan ''scanned_in'',
        flag (\<not> truthy results) (Msg ''no architecture was classified'' []),
        rbind (viter results) (each check_scanned),
        rbind (vget acceptance ''require_installed_registry_evidence'') (\<lambda>r.
          whenE (truthy r) (rbind (viter results) (each check_registry_evidence)))])"

text \<open>What an accepted verdict rests on.\<close>

definition verdict_supported :: "pydict \<Rightarrow> bool" where
  "verdict_supported entry \<longleftrightarrow>
     (case dget entry ''verdict'' of
        JStr v \<Rightarrow>
          v \<in> set support_verdicts \<and>
          (v = ''ABSENT'' \<longrightarrow> says entry ''main_lookup'' ''NOT_FOUND'' \<and> says entry ''pr_lookup'' ''NOT_FOUND'') \<and>
          (v = ''PR_PENDING'' \<longrightarrow> truthy (dget entry ''pull_requests'')) \<and>
          (v = ''KUNLUN_OOT'' \<longrightarrow> truthy (dget entry ''in_kunlun_oot'')) \<and>
          (v = ''UPSTREAM_GENERIC'' \<longrightarrow> truthy (dget entry ''in_installed_vllm'') \<and>
             (\<exists>d. or_dict (dget entry ''backend_variant'') = JDict d \<and>
                (is_True (dget d ''vendored_per_backend'') \<longrightarrow> \<not> is_False (dget d ''variant_is_runnable_here''))))
      | _ \<Rightarrow> False)"

lemma scanned_supported:
  assumes "check_scanned e = Inr []"
  shows "\<exists>d. e = JDict d \<and> verdict_supported d"
proof -
  obtain d where d: "e = JDict d"
    using assms by (cases e) (simp_all add: check_scanned_def vget_or_def)
  have k: "in_strset (dget d ''verdict'') support_verdicts = Inr True"
    and c: "check_verdict e (dget_or d ''architecture'' (JStr ''?'')) (dget d ''verdict'') = Inr []"
    using assms by (auto simp: check_scanned_def d rbind_eq_Inr flag_accepts split: if_splits)
  then obtain v where v: "dget d ''verdict'' = JStr v" "v \<in> set support_verdicts"
    by (cases "dget d ''verdict''") (auto simp: in_strset_def in_strs_def)
  note a = c[unfolded check_verdict_def all_checks_accepts list.set d v(1)]
  have "v = ''ABSENT'' \<Longrightarrow> says d ''main_lookup'' ''NOT_FOUND'' \<and> says d ''pr_lookup'' ''NOT_FOUND''"
    using a by (simp add: whenE_accepts each_accepts flag_accepts absent_evidence_def says_def)
  moreover have "v = ''PR_PENDING'' \<Longrightarrow> truthy (dget d ''pull_requests'')"
    "v = ''KUNLUN_OOT'' \<Longrightarrow> truthy (dget d ''in_kunlun_oot'')"
    "v = ''UPSTREAM_GENERIC'' \<Longrightarrow> truthy (dget d ''in_installed_vllm'')"
    using a by (simp_all add: whenE_accepts need_accepts)
  moreover have "\<exists>b. or_dict (dget d ''backend_variant'') = JDict b \<and>
      (is_True (dget b ''vendored_per_backend'') \<longrightarrow> \<not> is_False (dget b ''variant_is_runnable_here''))"
    if "v = ''UPSTREAM_GENERIC''"
  proof -
    have "check_generic (or_dict (dget d ''backend_variant'')) = Inr []"
      using a that by (simp add: whenE_accepts)
    then show ?thesis
      by (auto simp: check_generic_def rbind_eq_Inr vget_Inr whenE_accepts flag_accepts)
  qed
  ultimately have "verdict_supported d"
    using v(2) by (simp add: verdict_supported_def v(1))
  with d show ?thesis by blast
qed

lemma support_card_sound:
  assumes "validate_support_card scan contract = Inr []" "dget scan ''results'' = JList results" "e \<in> set results"
  shows "\<exists>d. e = JDict d \<and> verdict_supported d"
proof -
  have "each check_scanned results = Inr []"
    using assms(1) by (simp add: validate_support_card_def Let_def all_checks_accepts assms(2))
  then show ?thesis using assms(3) scanned_supported by (simp add: each_accepts)
qed

section \<open>Bring-up of a reduced model\<close>

definition bringup_stages :: "string list" where
  "bringup_stages = [''CONFIG_DERIVED'', ''ENGINE_CONSTRUCTED'', ''PREFILL_OK'', ''DECODE_OK'']"

definition kernel_dimensions :: "string list" where
  "kernel_dimensions = [''hidden_size'', ''num_attention_heads'', ''qk_nope_head_dim'', ''qk_rope_head_dim'',
     ''v_head_dim'', ''kv_lora_rank'', ''index_head_dim'', ''index_n_heads'', ''index_topk'']"

definition check_depth :: "pyval \<Rightarrow> errs" where
  "check_depth depth =
     rbind (vget depth ''toy'') (\<lambda>toy. rbind (vget depth ''real'') (\<lambda>real_depth.
     if \<not> truthy toy \<or> \<not> truthy real_depth
     then flag True (Msg ''config.num_hidden_layers must record both the real and the toy depth'' [])
     else flagM (py_greater toy real_depth) (Msg ''the toy model is deeper than the real one'' [])))"

definition check_dimension :: "pyval \<Rightarrow> pydict \<Rightarrow> string \<Rightarrow> errs" where
  "check_dimension kept real_config k = whenE (dhas real_config k) (rbind (vget kept k) (\<lambda>v.
     flag (\<not> py_eq v (dget real_config k))
       (Msg ''shrinking a kernel-selecting dimension'' [JStr k, dget real_config k, v])))"

text \<open>The configuration of the real model is empty where the caller passes \<open>None\<close>.\<close>

definition validate_bringup_report :: "pydict \<Rightarrow> pydict \<Rightarrow> errs" where
  "validate_bringup_report report real_config =
     (let stage = dget report ''stage''; passed = dget report ''stages_passed'';
          complete = truthy (dget report ''complete''); config = or_dict (dget report ''config'') in
      all_checks
       [flag (\<not> in_strs stage (''NOTHING_RAN'' # bringup_stages)) (Msg ''stage is not a known stage'' [stage]),
        (case passed of
           JList ps \<Rightarrow> all_checks
             [flag (ps \<noteq> map JStr (take (length ps) bringup_stages)) (Msg ''stages_passed is not a prefix of the stages'' ps),
              flag (complete \<and> ps \<noteq> map JStr bringup_stages) (Msg ''complete is true but not every stage passed'' [])]
         | _ \<Rightarrow> flag True (Msg ''stages_passed is required'' [])),
        flag (\<not> complete \<and> \<not> truthy (dget report ''error'')) (Msg ''an incomplete bring-up must carry the error'' []),
        need (vget config ''architectures'') (Msg ''config.architectures is required'' []),
        rbind (sub_dict config ''num_hidden_layers'') check_depth,
        rbind (sub_dict config ''kept_dimensions'') (\<lambda>kept.
          if real_config \<noteq> [] then each (check_dimension kept real_config) kernel_dimensions
          else flag (\<not> truthy kept) (Msg ''config.kept_dimensions is required'' [])),
        whenE complete (rbind (vget (or_dict (dget report ''decode'')) ''count'') (\<lambda>n.
          flag (\<not> int_from 2 n) (Msg ''a complete bring-up needs more than one decoded token'' [])))])"

text \<open>A complete bring-up passed every stage, decoded two tokens and ran the kernels of the real model.\<close>

lemma bringup_complete_sound:
  assumes "validate_bringup_report report real_config = Inr []" "truthy (dget report ''complete'')"
  shows "dget report ''stages_passed'' = JList (map JStr bringup_stages) \<and>
    (\<exists>decode. or_dict (dget report ''decode'') = JDict decode \<and> int_from 2 (dget decode ''count''))"
proof -
  note a = assms(1)[unfolded validate_bringup_report_def Let_def all_checks_accepts list.set]
  have "dget report ''stages_passed'' = JList (map JStr bringup_stages)"
    using a assms(2) by (cases "dget report ''stages_passed''") (simp_all add: accepts)
  then show ?thesis using a assms(2) by (auto simp: accepts rbind_eq_Inr vget_Inr)
qed

lemma bringup_same_kernels:
  assumes "validate_bringup_report report real_config = Inr []" "k \<in> set kernel_dimensions" "dhas real_config k"
  shows "\<exists>config kept. or_dict (dget report ''config'') = JDict config \<and>
    or_dict (dget config ''kept_dimensions'') = JDict kept \<and> py_eq (dget kept k) (dget real_config k)"
proof -
  note a = assms(1)[unfolded validate_bringup_report_def Let_def all_checks_accepts list.set]
  have n: "real_config \<noteq> []" using assms(3) by (auto simp: dhas_def)
  obtain config where c: "or_dict (dget report ''config'') = JDict config"
    using a by (auto simp: need_accepts vget_Inr)
  then have "each (check_dimension (or_dict (dget config ''kept_dimensions'')) real_config) kernel_dimensions = Inr []"
    using a n by simp
  then show ?thesis using c assms(2,3) by (auto simp: accepts check_dimension_def rbind_eq_Inr vget_Inr)
qed

section \<open>Support matrix\<close>

definition matrix_statuses :: "string list" where
  "matrix_statuses = [''validated'', ''runs_unverified_accuracy'', ''not_yet_validated'', ''unsupported'']"

text \<open>\<open>" ".join(v)\<close>.\<close>

fun spaced :: "pyval list \<Rightarrow> exc + string" where
  "spaced [] = Inr []"
| "spaced [JStr s] = Inr s"
| "spaced (JStr s # v # vs) = rbind (spaced (v # vs)) (\<lambda>t. Inr (s @ '' '' @ t))"
| "spaced (_ # _) = Inl TypeError"

definition check_validated :: "pyval \<Rightarrow> errs" where
  "check_validated evidence = all_checks
     [rbind (vget evidence ''deployment_proof'') (\<lambda>v.
        flag (v \<noteq> JStr ''DEPLOYMENT_READY'') (Msg ''validated requires a DEPLOYMENT_READY proof'' [])),
      rbind (vget evidence ''accuracy_differential'') (\<lambda>v.
        flag (v \<noteq> JStr ''ACCURACY_PASS'') (Msg ''validated requires ACCURACY_PASS'' []))]"

definition check_conditions :: "pydict \<Rightarrow> errs" where
  "check_conditions entry = all_checks
     [each (needs entry) [''revision'', ''stack_commit''],
      flag (dget entry ''conditions'' = JNone) (Msg ''conditions must be recorded, even when empty'' [])]"

definition check_eager :: "pydict \<Rightarrow> errs" where
  "check_eager entry =
     rbind (viter (or_list (dget entry ''conditions''))) (\<lambda>cs. rbind (spaced cs) (\<lambda>conditions.
       flag (contains conditions ''enforce_eager=True'' \<and> \<not> truthy (dget entry ''limitations''))
         (Msg ''the result depended on eager execution'' [])))"

definition validate_matrix_entry :: "lib \<Rightarrow> pydict \<Rightarrow> pydict \<Rightarrow> errs" where
  "validate_matrix_entry L entry contract =
     (let acceptance = or_dict (dget contract ''acceptance''); status = dget entry ''status'';
          evidence = or_dict (dget entry ''evidence'') in
      rbind (sub_dict (or_dict (dget contract ''checks'')) ''status_requires'') (\<lambda>rules.
      all_checks
       [flagM (rnot (in_strset status matrix_statuses)) (Msg ''unknown status'' [status]),
        each (needs entry) [''model'', ''hardware''],
        rbind (vget rules (py_str L status)) (\<lambda>required. rbind (viter (or_list required))
          (each (\<lambda>name. need (vget_key evidence name) (Msg ''status requires evidence, which is absent'' [status, name])))),
        whenE (status = JStr ''validated'') (check_validated evidence),
        rbind (vget acceptance ''require_validity_conditions'') (\<lambda>r.
          whenE (truthy r \<and> status \<noteq> JStr ''not_yet_validated'') (check_conditions entry)),
        rbind (vget acceptance ''require_limitations_when_conditional'') (\<lambda>r. whenE (truthy r) (check_eager entry))]))"

text \<open>A validated row rests on a service that was proved and a pass of the accuracy differential.\<close>

lemma matrix_validated_sound:
  assumes "validate_matrix_entry L entry contract = Inr []" "says entry ''status'' ''validated''"
  shows "\<exists>evidence. dget entry ''evidence'' = JDict evidence \<and> says evidence ''deployment_proof'' ''DEPLOYMENT_READY'' \<and>
    says evidence ''accuracy_differential'' ''ACCURACY_PASS''"
proof -
  obtain d where d: "or_dict (dget entry ''evidence'') = JDict d"
      "says d ''deployment_proof'' ''DEPLOYMENT_READY''" "says d ''accuracy_differential'' ''ACCURACY_PASS''"
    using assms by (auto simp: validate_matrix_entry_def Let_def rbind_eq_Inr accepts says_def check_validated_def vget_Inr)
  then have "truthy (dget d ''deployment_proof'')" by (simp add: says_def)
  with d or_dict_field show ?thesis by blast
qed

end
