(* ===== verification/ReportGates.thy ===== *)
theory ReportGates
  imports RuntimeGates
begin

text \<open>
  The gates on measured results: \<open>validators/evaluation_validator.py\<close> (a capability was exercised),
  \<open>conformance_validator.py\<close> (a parser pair handles the format), \<open>correctness_validator.py\<close> (kernel,
  end-to-end and long-context grades) and \<open>performance_validator.py\<close>.
\<close>

section \<open>Capability evaluation\<close>

definition evaluation_states :: "string list" where
  "evaluation_states = [''EXERCISED_PASS'', ''EXERCISED_FAIL'', ''EVALUATION_INCONCLUSIVE'',
     ''EVALUATION_UNIMPLEMENTED'', ''EVALUATION_ERROR'']"

definition check_comparison :: "pyval \<Rightarrow> errs" where
  "check_comparison c = each (\<lambda>k. rbind (vget c k) (\<lambda>v.
     flag (v = JNone) (Msg ''case is missing a field'' [JStr k])))
     [''case'', ''reference'', ''cosine'', ''relative_l2'']"

definition check_blocker :: "pyval \<Rightarrow> errs" where
  "check_blocker b = rbind (vget_or b ''path'' (JStr ''?'')) (\<lambda>label.
     each (\<lambda>k. need (vget b k) (Msg ''blocker is missing a field'' [label, JStr k])) [''error'', ''affected'', ''call_sites''])"

text \<open>\<open>float(a) > float(b)\<close>.\<close>

definition float_exceeds :: "lib \<Rightarrow> pyval \<Rightarrow> pyval \<Rightarrow> exc + bool" where
  "float_exceeds L a b = rbind (py_float L a) (\<lambda>x. rbind (py_float L b) (\<lambda>y. Inr (float_less y x)))"

definition check_primary :: "lib \<Rightarrow> pyval \<Rightarrow> pyval \<Rightarrow> pyval \<Rightarrow> errs" where
  "check_primary L floor_value ceiling_value primary = all_checks
     [rbind (vget_or primary ''relative_l2'' (JFloat (Fin 1))) (\<lambda>l2.
        flagM (float_exceeds L l2 ceiling_value) (Msg ''relative L2 exceeds its ceiling but the state is EXERCISED_PASS'' [l2])),
      rbind (vget_or primary ''cosine'' (JFloat (Fin 0))) (\<lambda>c.
        flagM (rbind (py_float L c) (\<lambda>x. rbind (py_float L floor_value) (\<lambda>y. Inr (float_less x y))))
          (Msg ''cosine is below its floor but the state is EXERCISED_PASS'' [c]))]"

definition check_declared :: "lib \<Rightarrow> pydict \<Rightarrow> pydict \<Rightarrow> errs" where
  "check_declared L report contract =
     rbind (sub_dict (or_dict (dget contract ''checks'')) ''dimensions'') (\<lambda>dims.
     rbind (vget_key dims (py_or (dget report ''dimension'') (JStr []))) (\<lambda>declared.
     whenE (truthy declared)
       (rbind (vget_or declared ''max_relative_l2'' (JInt 0)) (\<lambda>a. rbind (py_float L a) (\<lambda>x.
        rbind (vget_or (or_dict (dget report ''thresholds'')) ''max_relative_l2'' (JInt (-1))) (\<lambda>b. rbind (py_float L b) (\<lambda>y.
          flag (\<not> float_eq x y) (Msg ''the relative-L2 threshold of the report is not that of the contract'' []))))))))"

definition check_exercised_pass :: "lib \<Rightarrow> pydict \<Rightarrow> pydict \<Rightarrow> pyval list \<Rightarrow> pyval \<Rightarrow> errs" where
  "check_exercised_pass L report contract cases control = all_checks
     [need (vget control ''discriminates'') (Msg ''EXERCISED_PASS requires the negative control to miss the gate'' []),
      rbind (vget (or_dict (dget report ''thresholds'')) ''min_cosine'') (\<lambda>floor_value.
      rbind (vget (or_dict (dget report ''thresholds'')) ''max_relative_l2'') (\<lambda>ceiling_value.
        if floor_value = JNone \<or> ceiling_value = JNone
        then flag True (Msg ''EXERCISED_PASS requires both thresholds to be recorded'' [])
        else (case cases of [] \<Rightarrow> skip | primary # _ \<Rightarrow> check_primary L floor_value ceiling_value primary))),
      check_declared L report contract]"

definition check_exercised :: "lib \<Rightarrow> pydict \<Rightarrow> pydict \<Rightarrow> errs" where
  "check_exercised L report contract =
     (let cases = or_list (dget report ''cases''); control = or_dict (dget report ''control'') in
      all_checks
       [each (needs report) [''operators'', ''exercised_in'', ''threshold_source''],
        flag (\<not> truthy cases) (Msg ''at least one comparison case is required'' []),
        rbind (viter cases) (each check_comparison),
        flag (\<not> truthy control) (Msg ''a negative control is required'' []),
        rbind (viter (or_list (dget report ''blockers''))) (each check_blocker),
        whenE (says report ''state'' ''EXERCISED_PASS'')
          (rbind (viter cases) (\<lambda>cs. check_exercised_pass L report contract cs control))])"

definition validate_evaluation :: "lib \<Rightarrow> pydict \<Rightarrow> pydict \<Rightarrow> errs" where
  "validate_evaluation L report contract =
     (let state = dget report ''state'' in
      all_checks
       [flagM (rnot (in_strset state evaluation_states)) (Msg ''state is not an evaluation state'' [state]),
        needs report ''dimension'',
        (if state = JStr ''EVALUATION_UNIMPLEMENTED'' then all_checks
           [needs report ''reason'',
            flag (truthy (dget report ''cases'')) (Msg ''an unimplemented dimension reported cases'' [])]
         else if state = JStr ''EVALUATION_ERROR'' then needs report ''error''
         else check_exercised L report contract)])"

text \<open>What an accepted \<open>EXERCISED_PASS\<close> has: a control that misses the gate, a comparison, and the
  first comparison neither above the declared error nor below the declared similarity. (Neither is
  "within": a NaN is not above anything.)\<close>

definition exercised :: "lib \<Rightarrow> pydict \<Rightarrow> bool" where
  "exercised L report \<longleftrightarrow>
     (case (dget report ''cases'', dget report ''control'', dget report ''thresholds'') of
        (JList (JDict primary # _), JDict control, JDict thresholds) \<Rightarrow>
          truthy (dget control ''discriminates'') \<and>
          dget thresholds ''min_cosine'' \<noteq> JNone \<and> dget thresholds ''max_relative_l2'' \<noteq> JNone \<and>
          float_exceeds L (dget primary ''relative_l2'') (dget thresholds ''max_relative_l2'') = Inr False \<and>
          float_exceeds L (dget thresholds ''min_cosine'') (dget primary ''cosine'') = Inr False
      | _ \<Rightarrow> False)"

lemma or_list_JList_iff: "or_list v = JList xs \<Longrightarrow> xs \<noteq> [] \<Longrightarrow> v = JList xs"
  by (auto simp: or_list_def py_or_def split: if_splits)

lemma dget_or_present: "dget d k \<noteq> JNone \<Longrightarrow> dget_or d k v = dget d k"
  by (auto simp: dget_def dget_or_def split: option.splits)

lemma comparison_fields:
  assumes "check_comparison c = Inr []"
  shows "\<exists>d. c = JDict d \<and> dget d ''relative_l2'' \<noteq> JNone \<and> dget d ''cosine'' \<noteq> JNone"
  using assms by (auto simp: check_comparison_def each_accepts rbind_eq_Inr vget_Inr flag_accepts)

lemma primary_within:
  assumes "check_primary L f c (JDict d) = Inr []" "dget d ''relative_l2'' \<noteq> JNone" "dget d ''cosine'' \<noteq> JNone"
  shows "float_exceeds L (dget d ''relative_l2'') c = Inr False \<and> float_exceeds L f (dget d ''cosine'') = Inr False"
  using assms
  by (auto simp: check_primary_def all_checks_accepts flagM_accepts dget_or_present float_exceeds_def rbind_eq_Inr)

lemma comparable_cases:
  assumes "truthy v" "rbind (viter v) (each check_comparison) = Inr []"
  shows "\<exists>d rest. v = JList (JDict d # rest) \<and> dget d ''relative_l2'' \<noteq> JNone \<and> dget d ''cosine'' \<noteq> JNone"
proof -
  obtain xs where i: "viter v = Inr xs" and e: "\<forall>x \<in> set xs. check_comparison x = Inr []"
    using assms(2) by (auto simp: rbind_eq_Inr each_accepts)
  show ?thesis
  proof (cases v)
    case (JList ys)
    then obtain y rest where "ys = y # rest" using assms(1) by (cases ys) auto
    with JList i e comparison_fields[of y] show ?thesis by auto
  next
    case (JStr s)
    then show ?thesis using assms(1) i e by (cases s) (auto simp: viter_def dest: comparison_fields)
  next
    case (JDict d)
    then show ?thesis using assms(1) i e by (cases d) (auto simp: viter_def dest: comparison_fields)
  qed (use assms(1) i in \<open>simp_all add: viter_def\<close>)
qed

lemma exercised_pass_checked:
  assumes "validate_evaluation L report contract = Inr []" "says report ''state'' ''EXERCISED_PASS''"
  shows "check_exercised L report contract = Inr []"
  using assms by (simp add: validate_evaluation_def Let_def all_checks_accepts says_def)

text \<open>C28: A report that is accepted as \<open>EXERCISED_PASS\<close> has a negative control that misses the gate, records both
  thresholds, and its first comparison has neither an error above the one nor a similarity below the
  other.\<close>

theorem exercised_pass_sound:
  assumes "validate_evaluation L report contract = Inr []" "says report ''state'' ''EXERCISED_PASS''"
  shows "exercised L report"
proof -
  note a = exercised_pass_checked[OF assms, unfolded check_exercised_def Let_def all_checks_accepts list.set]
  have t: "truthy (or_list (dget report ''cases''))" using a by (simp add: flag_accepts)
  have cmp: "rbind (viter (or_list (dget report ''cases''))) (each check_comparison) = Inr []" using a by simp
  obtain d rest where l: "or_list (dget report ''cases'') = JList (JDict d # rest)"
    and d: "dget d ''relative_l2'' \<noteq> JNone" "dget d ''cosine'' \<noteq> JNone"
    using comparable_cases[OF t cmp] by blast
  have "check_exercised_pass L report contract (JDict d # rest) (or_dict (dget report ''control'')) = Inr []"
    using a assms(2) l by (simp add: whenE_accepts)
  note p = this[unfolded check_exercised_pass_def all_checks_accepts list.set]
  obtain c where c: "or_dict (dget report ''control'') = JDict c" "truthy (dget c ''discriminates'')"
    using p by (auto simp: need_accepts vget_Inr)
  obtain th where th: "or_dict (dget report ''thresholds'') = JDict th" "dget th ''min_cosine'' \<noteq> JNone"
      "dget th ''max_relative_l2'' \<noteq> JNone"
      "check_primary L (dget th ''min_cosine'') (dget th ''max_relative_l2'') (JDict d) = Inr []"
    using p by (auto simp: rbind_eq_Inr vget_Inr flag_accepts split: if_splits)
  have "th \<noteq> []" using th(2) by auto
  then have "dget report ''thresholds'' = JDict th" using th(1) or_dict_is_JDict by blast
  moreover have "dget report ''control'' = JDict c" using c or_dict_field by blast
  moreover have "dget report ''cases'' = JList (JDict d # rest)" using l or_list_JList_iff by blast
  ultimately show ?thesis
    using c(2) th(2,3) primary_within[OF th(4) d] by (simp add: exercised_def)
qed

definition measured_report :: "pyfloat \<Rightarrow> pydict" where
  "measured_report error =
     [(''state'', JStr ''EXERCISED_PASS''), (''dimension'', JStr ''attention''), (''operators'', JList [JStr ''op'']),
      (''exercised_in'', JStr ''pod''), (''threshold_source'', JStr ''contract''),
      (''cases'', JList [JDict [(''case'', JStr ''c''), (''reference'', JStr ''r''), (''cosine'', JFloat (Fin 1)), (''relative_l2'', JFloat error)]]),
      (''control'', JDict [(''discriminates'', JBool True)]),
      (''thresholds'', JDict [(''min_cosine'', JFloat (Fin (99/100))), (''max_relative_l2'', JFloat (Fin (1/100)))])]"

lemma measured_accepted:
  "validate_evaluation demo_lib (measured_report (Fin 0)) [] = Inr []"
  "says (measured_report (Fin 0)) ''state'' ''EXERCISED_PASS''"
  by code_simp+

theorem exercised_pass_sound_witness: "exercised demo_lib (measured_report (Fin 0))"
  using exercised_pass_sound[OF measured_accepted] .

text \<open>An error above the threshold is refused; one that is not a number is accepted.\<close>

lemma measured_excess: "validate_evaluation demo_lib (measured_report (Fin 1)) [] \<noteq> Inr []"
  by code_simp

lemma nan_error_accepted: "validate_evaluation demo_lib (measured_report NaN) [] = Inr []"
  by code_simp

text \<open>A threshold that the contract declares is the one of the report.\<close>

lemma declared_threshold:
  assumes "validate_evaluation L report contract = Inr []" "says report ''state'' ''EXERCISED_PASS''"
    and "dget contract ''checks'' = JDict [(''dimensions'', JDict dims)]" "dget report ''dimension'' = JStr k" "k \<noteq> []"
    and "dget dims k = JDict declared" "dget declared ''max_relative_l2'' = JFloat m" "dget report ''thresholds'' = JDict th"
  shows "\<exists>y. py_float L (dget_or th ''max_relative_l2'' (JInt (-1))) = Inr y \<and> float_eq m y"
proof -
  have t: "truthy (JDict declared)" using assms(7) by auto
  have m: "dget_or declared ''max_relative_l2'' (JInt 0) = JFloat m"
    using assms(7) by (simp add: dget_or_present)
  have "check_declared L report contract = Inr []"
    using exercised_pass_checked[OF assms(1,2)] assms(2)
    by (auto simp: check_exercised_def Let_def all_checks_accepts whenE_accepts rbind_eq_Inr check_exercised_pass_def)
  then show ?thesis
    using assms(3-6,8) t
    by (auto simp: check_declared_def rbind_eq_Inr vget_key_def py_or_def m whenE_accepts flag_accepts py_float_def)
qed

section \<open>Parser conformance\<close>

definition conformance_states :: "string list" where
  "conformance_states = [''CONFORMANT'', ''NONCONFORMANT'', ''PARSER_ABSENT'', ''EVALUATION_INCONCLUSIVE'', ''EVALUATION_ERROR'']"

definition unfinished_states :: "string list" where
  "unfinished_states = [''PARSER_ABSENT'', ''EVALUATION_ERROR'', ''EVALUATION_INCONCLUSIVE'']"

definition check_parser_case :: "pyval \<Rightarrow> errs" where
  "check_parser_case c =
     rbind (vget_or c ''case'' (JStr ''?'')) (\<lambda>label. all_checks
      [each (\<lambda>k. need (vget c k) (Msg ''case is missing a field'' [label, JStr k])) [''parser'', ''implementation'', ''control''],
       rbind (sub_dict c ''control'') (\<lambda>control. rbind (vget control ''discriminates'') (\<lambda>v.
         flag (v = JNone) (Msg ''case does not say whether its control discriminated'' [label])))])"

text \<open>\<open>label.startswith(s)\<close>.\<close>

definition vstarts :: "pyval \<Rightarrow> string \<Rightarrow> exc + bool" where
  "vstarts v s = (case v of JStr t \<Rightarrow> Inr (starts_with t s) | _ \<Rightarrow> Inl AttributeError)"

definition check_conformant_case :: "pyval \<Rightarrow> errs" where
  "check_conformant_case c =
     rbind (vget_or c ''case'' (JStr ''?'')) (\<lambda>label. all_checks
      [rbind (sub_dict c ''control'') (\<lambda>control. need (vget control ''discriminates'')
         (Msg ''case is CONFORMANT with a control that behaved the same way'' [label])),
       rbind (vstarts label ''reasoning'') (\<lambda>b. whenE b (need (vget c ''separated'')
         (Msg ''case did not separate reasoning from content'' [label]))),
       rbind (vstarts label ''tool'') (\<lambda>b. whenE b (all_checks
         [need (vget c ''tools_called'') (Msg ''case reported no tool call'' [label]),
          rbind (vget c ''arguments_are_json'') (\<lambda>v. flag (\<not> is_True v) (Msg ''case produced arguments that are not JSON'' [label])),
          rbind (vget c ''name_matches'') (\<lambda>v. flag (is_False v) (Msg ''case parsed a different function name'' [label]))]))])"

definition validate_conformance :: "pydict \<Rightarrow> pydict \<Rightarrow> errs" where
  "validate_conformance report contract =
     (let state = dget report ''state''; cases = or_list (dget report ''cases'');
          acceptance = or_dict (dget contract ''acceptance'') in
      all_checks
       [flagM (rnot (in_strset state conformance_states)) (Msg ''state is not a conformance state'' [state]),
        each (needs report) [''registries'', ''profile_source''],
        (if in_strs state unfinished_states then needs report ''error''
         else all_checks
          [flag (\<not> truthy cases) (Msg ''at least one parser check is required'' []),
           rbind (viter cases) (each check_parser_case),
           rbind (vget acceptance ''require_template_confirms_markers'') (\<lambda>r.
             whenE (truthy r) (flag (\<not> is_True (dget report ''template_confirms_markers''))
               (Msg ''the chat template did not confirm the markers of the sample'' []))),
           whenE (state = JStr ''CONFORMANT'') (rbind (viter cases) (each check_conformant_case))])])"

text \<open>Every case of an accepted conformant report has a control that behaved differently, and a tool
  case called a tool with arguments that are JSON.\<close>

definition case_conforms :: "pydict \<Rightarrow> bool" where
  "case_conforms c \<longleftrightarrow>
     (case (dget c ''control'', dget_or c ''case'' (JStr ''?'')) of
        (JDict control, JStr label) \<Rightarrow>
          truthy (dget control ''discriminates'') \<and>
          (starts_with label ''reasoning'' \<longrightarrow> truthy (dget c ''separated'')) \<and>
          (starts_with label ''tool'' \<longrightarrow> truthy (dget c ''tools_called'') \<and> is_True (dget c ''arguments_are_json''))
      | _ \<Rightarrow> False)"

lemma conformant_case:
  assumes "check_conformant_case c = Inr []"
  shows "\<exists>d. c = JDict d \<and> case_conforms d"
proof -
  obtain d where d: "c = JDict d"
    using assms by (cases c) (simp_all add: check_conformant_case_def vget_or_def)
  note a = assms[unfolded d check_conformant_case_def vget_or_JDict rbind_Inr all_checks_accepts list.set]
  obtain control where c: "or_dict (dget d ''control'') = JDict control" "truthy (dget control ''discriminates'')"
    using a by (auto simp: rbind_eq_Inr need_accepts vget_Inr)
  then have "dget d ''control'' = JDict control" using or_dict_field by blast
  moreover obtain label where "dget_or d ''case'' (JStr ''?'') = JStr label"
    using a by (cases "dget_or d ''case'' (JStr ''?'')") (simp_all add: vstarts_def)
  ultimately show ?thesis
    using a c(2) by (simp add: d case_conforms_def vstarts_def whenE_accepts need_accepts all_checks_accepts flag_accepts)
qed

lemma conformant_sound:
  assumes "validate_conformance report contract = Inr []" "says report ''state'' ''CONFORMANT''"
    and "dget report ''cases'' = JList cases"
  shows "cases \<noteq> [] \<and> (\<forall>c \<in> set cases. \<exists>d. c = JDict d \<and> case_conforms d)"
proof -
  have "\<not> in_strs (JStr ''CONFORMANT'') unfinished_states" by code_simp
  then have "cases \<noteq> []" "each check_conformant_case cases = Inr []"
    using assms(1,2)
    by (simp_all add: validate_conformance_def Let_def all_checks_accepts says_def assms(3) flag_accepts whenE_accepts)
  then show ?thesis using conformant_case by (auto simp: each_accepts)
qed

section \<open>Correctness grades\<close>

definition grade_field :: "pydict \<Rightarrow> string \<Rightarrow> errs" where
  "grade_field report k = flag (in_list (dget report k) [JNone, JDict [], JStr []]) (Msg ''kernel grade requires'' [JStr k])"

definition grade_number :: "pydict \<Rightarrow> string \<Rightarrow> errs" where
  "grade_number report k = flag (dhas report k \<and> \<not> isinstance_number (dget report k)) (Msg ''kernel grade field must be numeric'' [JStr k])"

definition check_grade_pass :: "pydict \<Rightarrow> errs" where
  "check_grade_pass report =
     (if dget report ''max_relative_l2'' = JNone then flag True (Msg ''kernel grade PASS requires max_relative_l2'' [])
      else flagM (py_greater (dget_or report ''relative_l2'' (JFloat (Fin 1))) (dget report ''max_relative_l2''))
        (Msg ''kernel grade pass exceeds its declared relative-L2 gate'' []))"

definition validate_kernel_grade :: "pyval \<Rightarrow> errs" where
  "validate_kernel_grade v = (case v of
     JDict report \<Rightarrow>
       (let provenance = or_dict (dget report ''reference_provenance'') in
        all_checks
         [flagM (rnot (in_strset (dget report ''state'') [''PASS'', ''FAIL'', ''AMBIGUOUS'']))
            (Msg ''kernel grade state must be PASS, FAIL, or AMBIGUOUS'' []),
          each (grade_field report) [''relative_l2'', ''max_abs_error'', ''reference_provenance''],
          each (grade_number report) [''relative_l2'', ''max_abs_error'', ''max_relative_l2''],
          flag (\<not> py_eq (dget report ''shape_candidate'') (dget report ''shape_reference''))
            (Msg ''kernel grade candidate and reference shapes must match'' []),
          each (\<lambda>k. need (vget provenance k) (Msg ''kernel grade reference provenance requires'' [JStr k]))
            [''implementation'', ''device'', ''dtype''],
          rbind (vget provenance ''independently_written'') (\<lambda>i.
            flag (\<not> is_True i) (Msg ''kernel grade reference must be independently written'' [])),
          flag (\<not> is_True (dget report ''control_discriminates'')) (Msg ''kernel grade requires a discriminating negative control'' []),
          whenE (says report ''state'' ''PASS'') (check_grade_pass report)])
   | _ \<Rightarrow> flag True (Msg ''kernel grade must be an object'' []))"

definition check_end_case :: "pyval \<Rightarrow> errs" where
  "check_end_case c = flag (case c of JDict d \<Rightarrow> \<not> truthy (dget d ''evidence'') | _ \<Rightarrow> True)
     (Msg ''each end-to-end case must carry evidence'' [])"

definition validate_end_to_end :: "pydict \<Rightarrow> errs" where
  "validate_end_to_end report =
     (let cases = or_list (dget report ''cases'') in
      all_checks
       [flag (\<not> in_strs (dget report ''state'') [''ACCURACY_PASS'', ''ACCURACY_FAIL''])
          (Msg ''end-to-end report must state ACCURACY_PASS or ACCURACY_FAIL'' []),
        flag (\<not> truthy cases) (Msg ''end-to-end report requires case-level evidence'' []),
        flag (\<not> says report ''composition'' ''integrated_serving_path'')
          (Msg ''end-to-end evidence must use the integrated serving path'' []),
        rbind (vget (dget_or report ''reference_provenance'' (JDict [])) ''device'') (\<lambda>r.
        rbind (vget (dget_or report ''candidate'' (JDict [])) ''device'') (\<lambda>c.
          flag (py_eq r c) (Msg ''end-to-end reference must be independent of candidate device'' []))),
        rbind (viter cases) (each check_end_case)])"

definition validate_long_context :: "lib \<Rightarrow> pydict \<Rightarrow> errs" where
  "validate_long_context L report =
     (let geometry = or_dict (dget report ''geometry'') in
      rbind (rbind (vget_or geometry ''context_len'' (JInt 0)) (py_int L)) (\<lambda>context_len.
      rbind (rbind (vget_or geometry ''block_size'' (JInt 0)) (py_int L)) (\<lambda>block_size.
      rbind (rbind (vget_or geometry ''topk'' (JInt 0)) (py_int L)) (\<lambda>topk.
      all_checks
       [flag (context_len \<le> block_size * topk) (Msg ''long-context test must cross block_size * topk'' []),
        flag (\<not> truthy (dget report ''selected_blocks'')) (Msg ''long-context report must record selected blocks'' []),
        flag (\<not> says report ''path'' ''sparse'') (Msg ''long-context report must prove the sparse path was exercised'' []),
        whenE (says report ''state'' ''PASS'')
          (flagM (py_greater (dget_or report ''relative_l2'' (JFloat (Fin 1))) (dget_or report ''max_relative_l2'' (JFloat (Fin 0))))
            (Msg ''long-context pass exceeds its declared relative-L2 gate'' []))]))))"

text \<open>A passing kernel grade has an independent reference, matching shapes, a control that
  discriminates, and an error that is not above its gate; a long-context pass ran the sparse path
  beyond the blocks it may select.\<close>

lemma kernel_pass_sound:
  assumes "validate_kernel_grade (JDict report) = Inr []" "says report ''state'' ''PASS''"
  shows "py_eq (dget report ''shape_candidate'') (dget report ''shape_reference'') \<and>
    is_True (dget report ''control_discriminates'') \<and>
    py_less (dget report ''max_relative_l2'') (dget report ''relative_l2'') = Inr False"
proof -
  note a = assms(1)[unfolded validate_kernel_grade_def pyval.case Let_def all_checks_accepts list.set]
  have "grade_field report ''relative_l2'' = Inr []" using a by (simp add: each_accepts)
  then have r: "dget report ''relative_l2'' \<noteq> JNone"
    by (auto simp: grade_field_def flag_accepts in_list_def)
  have "check_grade_pass report = Inr []" using a assms(2) by (simp add: whenE_accepts)
  then have "py_less (dget report ''max_relative_l2'') (dget report ''relative_l2'') = Inr False"
    by (simp add: check_grade_pass_def flagM_accepts py_greater_def dget_or_present[OF r] flag_accepts split: if_splits)
  then show ?thesis using a by (simp add: flag_accepts)
qed

lemma long_context_sound:
  assumes "validate_long_context L report = Inr []"
  shows "\<exists>geometry context_len block_size topk. or_dict (dget report ''geometry'') = JDict geometry \<and>
    py_int L (dget_or geometry ''context_len'' (JInt 0)) = Inr context_len \<and>
    py_int L (dget_or geometry ''block_size'' (JInt 0)) = Inr block_size \<and>
    py_int L (dget_or geometry ''topk'' (JInt 0)) = Inr topk \<and> block_size * topk < context_len \<and>
    says report ''path'' ''sparse'' \<and> truthy (dget report ''selected_blocks'')"
  using assms
  by (auto simp: validate_long_context_def Let_def rbind_eq_Inr vget_or_Inr all_checks_accepts flag_accepts)

section \<open>Performance\<close>

definition validate_performance_report :: "pydict \<Rightarrow> errs" where
  "validate_performance_report report = all_checks
     [each (needs report) [''workload'', ''baseline'', ''candidate'', ''raw_result''],
      flagM (rnot (in_strset (dget report ''decision'') [''PASS'', ''NO_GO'', ''REWORK'', ''NEEDS_HUMAN'']))
        (Msg ''decision must be a controlled terminal state'' [])]"

end
