(* ===== verification/IntakeGate.thy ===== *)
theory IntakeGate
  imports RuntimeGates
begin

text \<open>
  The gate on a model request, \<open>validators/intake_validator.py\<close>: the contract names the fields that must
  be there and those that must not, the digest and the commit are resolved, and the request agrees with the
  probe that produced it. What an accepted request guarantees is stated at the end.
\<close>

section \<open>Reading nested fields\<close>

text \<open>\<open>path.split(".")\<close>, \<open>_get\<close> and \<open>_keys\<close>.\<close>

fun split_dots :: "string \<Rightarrow> string \<Rightarrow> string list" where
  "split_dots acc [] = [rev acc]"
| "split_dots acc (c # cs) = (if c = CHR ''.'' then rev acc # split_dots [] cs else split_dots (c # acc) cs)"

fun get_parts :: "pyval \<Rightarrow> string list \<Rightarrow> pyval" where
  "get_parts v [] = v"
| "get_parts v (k # ks) = (case v of
      JDict d \<Rightarrow> (case map_of d k of None \<Rightarrow> JNone | Some x \<Rightarrow> get_parts x ks)
    | _ \<Rightarrow> JNone)"

definition get_path :: "pydict \<Rightarrow> string \<Rightarrow> pyval" where
  "get_path payload p = get_parts (JDict payload) (split_dots [] p)"

fun all_keys :: "pyval \<Rightarrow> string list" where
  "all_keys (JDict d) = concat (map (\<lambda>(k, v). k # all_keys v) d)"
| "all_keys (JList xs) = concat (map all_keys xs)"
| "all_keys _ = []"

text \<open>\<open>^[0-9a-f]{n}$\<close> with \<open>match\<close>: \<open>$\<close> also matches before a final newline.\<close>

definition is_hex :: "char \<Rightarrow> bool" where
  "is_hex c \<longleftrightarrow> c \<in> set ''0123456789abcdef''"

definition hex_match :: "nat \<Rightarrow> string \<Rightarrow> bool" where
  "hex_match n s \<longleftrightarrow> list_all is_hex (take n s) \<and> (length s = n \<or> length s = Suc n \<and> s ! n = CHR 0x0A)"

definition full_hash_claims :: "string list" where
  "full_hash_claims = [''full'', ''complete'', ''every byte'', ''whole file'']"

section \<open>The checks\<close>

definition check_required_field :: "pydict \<Rightarrow> pyval \<Rightarrow> errs" where
  "check_required_field request p = (case p of
      JStr s \<Rightarrow> flag (in_list (get_path request s) [JNone, JStr [], JList []]) (Msg ''required by the contract but empty'' [p])
    | _ \<Rightarrow> Inl AttributeError)"

definition check_forbidden_field :: "pydict \<Rightarrow> pyval \<Rightarrow> errs" where
  "check_forbidden_field request k = flagM (in_strset k (all_keys (JDict request)))
     (Msg ''must not appear in an intake artifact'' [k])"

definition check_method :: "pyval \<Rightarrow> pyval \<Rightarrow> errs" where
  "check_method checks revision_method =
     (let said = py_or revision_method (JStr []) in
      rbind (sub_dict checks ''revision'') (\<lambda>r. rbind (vget r ''reject_full_hash_claim'') (\<lambda>reject.
        whenE (truthy reject) (rbind (vlower said) (\<lambda>m.
          flag (list_ex (\<lambda>claim. contains m claim) full_hash_claims)
            (Msg ''model.revision_method claims full coverage but the digest is sampled'' [said]))))))"

definition check_probe :: "pyval \<Rightarrow> pyval \<Rightarrow> errs" where
  "check_probe revision probe =
     (if \<not> truthy probe then flag True (Msg ''the probe result must accompany the request'' [])
      else all_checks
       [rbind (vget probe ''state'') (\<lambda>v. flag (v \<noteq> JStr ''INTAKE_READY'') (Msg ''probe state is not INTAKE_READY'' [v])),
        need (vget probe ''probed_in'') (Msg ''probe must record where it ran'' []),
        rbind (vget probe ''revision'') (\<lambda>v. flag (\<not> py_eq v revision)
          (Msg ''model.revision does not match the digest of the probe'' []))])"

definition check_request_identity :: "pydict \<Rightarrow> errs" where
  "check_request_identity request =
     (let identity = or_dict (dget request ''identity'') in
      rbind (vget identity ''architectures'') (\<lambda>archs. all_checks
       [flag (\<not> is_list archs \<or> \<not> truthy archs) (Msg ''identity.architectures must list at least one architecture'' []),
        rbind (sub_list identity ''remote_code'') (\<lambda>code.
          flag (truthy code \<and> \<not> truthy (get_path request ''model.trust_remote_code_required''))
            (Msg ''identity.remote_code is non-empty but trust_remote_code_required is false'' []))]))"

definition validate_model_request :: "pydict \<Rightarrow> pydict \<Rightarrow> pyval \<Rightarrow> errs" where
  "validate_model_request request contract probe =
     (let acceptance = or_dict (dget contract ''acceptance''); checks = or_dict (dget contract ''checks'');
          revision = get_path request ''model.revision'';
          commit = get_path request ''target.vllm_kunlun_commit''; ref = get_path request ''target.vllm_kunlun_ref'' in
      all_checks
       [rbind (sub_list acceptance ''required_fields'') (\<lambda>fs. rbind (viter fs) (each (check_required_field request))),
        rbind (sub_list acceptance ''forbidden_fields'') (\<lambda>fs. rbind (viter fs) (each (check_forbidden_field request))),
        flag (case revision of JStr s \<Rightarrow> \<not> hex_match 64 s | _ \<Rightarrow> False) (Msg ''model.revision must be a sha256 hex digest'' []),
        check_method checks (get_path request ''model.revision_method''),
        flag (case commit of JStr s \<Rightarrow> \<not> hex_match 40 s | _ \<Rightarrow> True)
          (Msg ''target.vllm_kunlun_commit must be a resolved 40-char commit sha'' []),
        flag (truthy commit \<and> truthy ref \<and> py_eq commit ref) (Msg ''target.vllm_kunlun_commit still holds the ref'' []),
        check_request_identity request,
        rbind (vget acceptance ''evidence_required'') (\<lambda>e. whenE (truthy e) (check_probe revision probe))])"

section \<open>What acceptance means\<close>

lemma get_path_present:
  "\<not> in_list (get_path request p) [JNone, JStr [], JList []] \<Longrightarrow> get_path request p \<noteq> JNone \<and> get_path request p \<noteq> JStr []"
  by (auto simp: in_list_def)

text \<open>Every field the contract requires is there, no field it forbids occurs at any depth, the commit
  is one of 40 hexadecimal digits and not the name of the ref.\<close>

lemma request_sound:
  assumes "validate_model_request request contract probe = Inr []"
    and "dget contract ''acceptance'' = JDict acceptance"
  shows "(\<forall>required p. dget acceptance ''required_fields'' = JList required \<longrightarrow> JStr p \<in> set required \<longrightarrow>
        get_path request p \<noteq> JNone \<and> get_path request p \<noteq> JStr []) \<and>
    (\<forall>forbidden k. dget acceptance ''forbidden_fields'' = JList forbidden \<longrightarrow> JStr k \<in> set forbidden \<longrightarrow>
        k \<notin> set (all_keys (JDict request))) \<and>
    (\<exists>s. get_path request ''target.vllm_kunlun_commit'' = JStr s \<and> hex_match 40 s \<and>
        get_path request ''target.vllm_kunlun_ref'' \<noteq> JStr s)"
proof -
  note a = assms(1)[unfolded validate_model_request_def Let_def all_checks_accepts list.set assms(2)]
  have "get_path request p \<noteq> JNone \<and> get_path request p \<noteq> JStr []"
    if "dget acceptance ''required_fields'' = JList required" "JStr p \<in> set required" for required p
  proof -
    have "each (check_required_field request) required = Inr []" using a that(1) by simp
    then have "check_required_field request (JStr p) = Inr []" using that(2) by (simp add: each_accepts)
    then show ?thesis by (intro get_path_present) (simp add: check_required_field_def flag_accepts)
  qed
  moreover have "k \<notin> set (all_keys (JDict request))"
    if "dget acceptance ''forbidden_fields'' = JList forbidden" "JStr k \<in> set forbidden" for forbidden k
  proof -
    have "each (check_forbidden_field request) forbidden = Inr []" using a that(1) by simp
    then have "check_forbidden_field request (JStr k) = Inr []" using that(2) by (simp add: each_accepts)
    then show ?thesis
      by (simp add: check_forbidden_field_def flagM_accepts in_strset_def in_strs_def del: all_keys.simps)
  qed
  moreover obtain s where s: "get_path request ''target.vllm_kunlun_commit'' = JStr s" "hex_match 40 s"
    using a by (auto simp: flag_accepts split: pyval.splits)
  moreover have "s \<noteq> []" using s(2) by (auto simp: hex_match_def)
  then have "get_path request ''target.vllm_kunlun_ref'' \<noteq> JStr s"
    using a s(1) by (auto simp: flag_accepts)
  ultimately show ?thesis by blast
qed

lemma request_matches_probe:
  assumes "validate_model_request request contract probe = Inr []"
    and "dget contract ''acceptance'' = JDict acceptance" "truthy (dget acceptance ''evidence_required'')"
  shows "\<exists>d. probe = JDict d \<and> dget d ''state'' = JStr ''INTAKE_READY'' \<and> truthy (dget d ''probed_in'') \<and>
    py_eq (dget d ''revision'') (get_path request ''model.revision'')"
proof -
  have "or_dict (JDict acceptance) = JDict acceptance" using assms(3) by auto
  then have "check_probe (get_path request ''model.revision'') probe = Inr []"
    using assms(1,3)
    by (simp add: validate_model_request_def Let_def all_checks_accepts assms(2) whenE_accepts)
  then show ?thesis
    by (auto simp: check_probe_def all_checks_accepts flag_accepts need_accepts rbind_eq_Inr vget_Inr split: if_splits)
qed

text \<open>A digest that ends in a newline passes the pattern.\<close>

lemma hex_match_newline: "list_all is_hex s \<Longrightarrow> length s = n \<Longrightarrow> hex_match n (s @ [CHR 0x0A])"
  by (simp add: hex_match_def nth_append)

end
