(* ===== verification/NodeTable.thy ===== *)
theory NodeTable
  imports PyVal Lib
begin

text \<open>
  The table \<open>NODES\<close> of \<open>runners/graph_runner.py\<close>: how each kind of task is run, which recorded facts it
  consumes, which kind it produces and where it writes its state.
\<close>

record fan_out_spec =
  fo_var :: string
  fo_list :: "string list"
  fo_aggregate :: "string list"

record node_spec =
  ns_produces :: string
  ns_needs :: "(string \<times> string) list"
  ns_optional :: "(string \<times> string) list"
  ns_command :: "string list"
  ns_state_file :: string
  ns_fan_out :: "fan_out_spec option"

definition discovery_nodes :: "(string \<times> node_spec) list" where
  "discovery_nodes =
    [(''model_intake'', \<lparr>ns_produces = ''ModelRequest'',
       ns_needs = [(''--env-status'', ''fact:EnvironmentProof:status.json'')],
       ns_optional = [],
       ns_command =
        [''python3'', ''cli/intake/model_intake.py'', ''--model-id'', ''{subject}'', ''--model-path'',
         ''{model_path}'', ''--attempt-id'', ''{attempt}'', ''--out'', ''{artifacts}''],
       ns_state_file = ''intake_status.json'', ns_fan_out = None\<rparr>),
     (''environment_proof'', \<lparr>ns_produces = ''EnvironmentProof'',
       ns_needs = [],
       ns_optional = [],
       ns_command =
        [''python3'', ''cli/deployment/proof.py'', ''--execute'', ''--phase'', ''environment'',
         ''--artifact-dir'', ''{artifacts}''],
       ns_state_file = ''status.json'', ns_fan_out = None\<rparr>),
     (''model_scan'', \<lparr>ns_produces = ''ModelSupportCard'',
       ns_needs = [(''--model-request'', ''fact:ModelRequest:model_request.yaml''),
         (''--env-status'', ''fact:EnvironmentProof:status.json'')],
       ns_optional = [],
       ns_command =
        [''python3'', ''cli/discovery/scan_model_support.py'', ''--out'', ''{artifacts}''],
       ns_state_file = ''scan_status.json'', ns_fan_out = None\<rparr>),
     (''runtime_drift_scan'', \<lparr>ns_produces = ''RuntimeDriftReport'',
       ns_needs = [(''--env-status'', ''fact:EnvironmentProof:status.json'')],
       ns_optional = [],
       ns_command =
        [''python3'', ''cli/discovery/scan_runtime_drift.py'', ''--out'', ''{artifacts}''],
       ns_state_file = ''drift_status.json'', ns_fan_out = None\<rparr>),
     (''toy_bringup'', \<lparr>ns_produces = ''ToyBringupReport'',
       ns_needs = [(''--model-request'', ''fact:ModelRequest:model_request.yaml''),
         (''--env-status'', ''fact:EnvironmentProof:status.json'')],
       ns_optional = [],
       ns_command =
        [''python3'', ''cli/deployment/toy_bringup.py'', ''--out'', ''{artifacts}''],
       ns_state_file = ''bringup_status.json'', ns_fan_out = None\<rparr>),
     (''torch_shim_handoff'', \<lparr>ns_produces = ''TorchShimRegistry'',
       ns_needs = [(''--env-status'', ''fact:EnvironmentProof:status.json'')],
       ns_optional = [],
       ns_command =
        [''python3'', ''cli/discovery/scan_torch_shims.py'', ''--subject'', ''{subject}'', ''--out'',
         ''{artifacts}''],
       ns_state_file = ''shim_status.json'', ns_fan_out = None\<rparr>),
     (''capability_match'', \<lparr>ns_produces = ''CapabilityMatch'',
       ns_needs = [(''--model-request'', ''fact:ModelRequest:model_request.yaml''),
         (''--support-card'', ''fact:ModelSupportCard:model_support.json''),
         (''--env-status'', ''fact:EnvironmentProof:status.json'')],
       ns_optional = [],
       ns_command =
        [''python3'', ''cli/discovery/match_capabilities.py'', ''--out'', ''{artifacts}''],
       ns_state_file = ''match_status.json'', ns_fan_out = None\<rparr>),
     (''gap_classification'', \<lparr>ns_produces = ''GapClassification'',
       ns_needs = [(''--support-card'', ''fact:ModelSupportCard:model_support.json''),
         (''--capability-match'', ''fact:CapabilityMatch:capability_match.json'')],
       ns_optional = [],
       ns_command =
        [''python3'', ''cli/discovery/classify_gaps.py'', ''--out'', ''{artifacts}''],
       ns_state_file = ''classification_status.json'', ns_fan_out = None\<rparr>),
     (''operator_task_dispatch'', \<lparr>ns_produces = ''OperatorTaskDispatch'',
       ns_needs = [(''--gaps'', ''fact:GapClassification:gap_classification.json'')],
       ns_optional = [],
       ns_command =
        [''python3'', ''cli/operators/operator_lifecycle.py'', ''dispatch'', ''--subject'', ''{subject}'',
         ''--out'', ''{artifacts}''],
       ns_state_file = ''dispatch_status.json'', ns_fan_out = None\<rparr>)]"

definition serving_nodes :: "(string \<times> node_spec) list" where
  "serving_nodes =
    [(''deployment_plan'', \<lparr>ns_produces = ''DeploymentPlan'',
       ns_needs = [(''--model-request'', ''fact:ModelRequest:model_request.yaml''),
         (''--classification'', ''fact:GapClassification:gap_classification.json'')],
       ns_optional = [(''--placed-patch'', ''fact:PlacedPatch:placement_report.json'')],
       ns_command =
        [''python3'', ''cli/deployment/plan_deployment.py'', ''--out'', ''{artifacts}''],
       ns_state_file = ''plan_status.json'', ns_fan_out = None\<rparr>),
     (''service_proof'', \<lparr>ns_produces = ''DeploymentProof'',
       ns_needs = [],
       ns_optional = [],
       ns_command =
        [''python3'', ''cli/deployment/proof.py'', ''{contract_instance}'', ''--execute'', ''--phase'',
         ''service'', ''--attach-pod'', ''{pod}'', ''--artifact-dir'', ''{artifacts}''],
       ns_state_file = ''status.json'', ns_fan_out = None\<rparr>),
     (''memory_budget'', \<lparr>ns_produces = ''MemoryBudget'',
       ns_needs = [],
       ns_optional = [],
       ns_command =
        [''python3'', ''cli/deployment/memory_budget.py'', ''--pod'', ''{pod}'', ''--server-log'',
         ''{server_log}'', ''--out'', ''{artifacts}''],
       ns_state_file = ''budget_status.json'', ns_fan_out = None\<rparr>),
     (''accuracy_differential'', \<lparr>ns_produces = ''AccuracyDifferential'',
       ns_needs = [(''--model-request'', ''fact:ModelRequest:model_request.yaml'')],
       ns_optional = [],
       ns_command =
        [''python3'', ''cli/validation/accuracy_differential.py'', ''--pod'', ''{pod}'',
         ''--served-model-name'', ''{served_model_name}'', ''--port'', ''{port}'', ''--out'', ''{artifacts}''],
       ns_state_file = ''accuracy_status.json'', ns_fan_out = None\<rparr>),
     (''baseline_freeze'', \<lparr>ns_produces = ''ServingBaseline'',
       ns_needs = [(''--service'', ''fact:DeploymentProof:status.json''),
         (''--accuracy'', ''fact:AccuracyDifferential:accuracy_differential.json'')],
       ns_optional = [],
       ns_command =
        [''python3'', ''cli/operators/operator_lifecycle.py'', ''freeze-baseline'', ''--subject'',
         ''{subject}'', ''--out'', ''{artifacts}''],
       ns_state_file = ''baseline_status.json'', ns_fan_out = None\<rparr>),
     (''operator_candidate_integration'', \<lparr>ns_produces = ''OperatorIntegration'',
       ns_needs = [(''--baseline'', ''fact:ServingBaseline:baseline_manifest.json'')],
       ns_optional = [],
       ns_command =
        [''python3'', ''cli/operators/operator_lifecycle.py'', ''integrate'', ''--subject'', ''{subject}'',
         ''--out'', ''{artifacts}''],
       ns_state_file = ''integration_status.json'', ns_fan_out = None\<rparr>)]"

definition repair_nodes :: "(string \<times> node_spec) list" where
  "repair_nodes =
    [(''support_matrix'', \<lparr>ns_produces = ''SupportMatrixEntry'',
       ns_needs = [(''--accuracy'', ''fact:AccuracyDifferential:accuracy_differential.json'')],
       ns_optional = [(''--deployment-status'', ''fact:DeploymentProof:status.json''),
         (''--budget-status'', ''fact:MemoryBudget:budget_status.json''),
         (''--plan'', ''fact:DeploymentPlan:deployment_plan.json'')],
       ns_command =
        [''python3'', ''cli/validation/update_support_matrix.py'', ''--subject'', ''{subject}'', ''--out'',
         ''{artifacts}''],
       ns_state_file = ''matrix_status.json'', ns_fan_out = None\<rparr>),
     (''vendor_handoff'', \<lparr>ns_produces = ''VendorHandoff'',
       ns_needs = [(''--triage'', ''fact:FailureTriage:triage_report.json'')],
       ns_optional = [],
       ns_command =
        [''python3'', ''cli/operators/vendor_handoff.py'', ''--environment'', ''{environment_text}'',
         ''--out'', ''{artifacts}''],
       ns_state_file = ''handoff_status.json'', ns_fan_out = None\<rparr>),
     (''failure_triage'', \<lparr>ns_produces = ''FailureTriage'',
       ns_needs = [(''--env-status'', ''fact:EnvironmentProof:status.json'')],
       ns_optional = [],
       ns_command =
        [''python3'', ''cli/operators/triage.py'', ''--pod'', ''{pod}'', ''--contract-instance'',
         ''{contract_instance}'', ''--out'', ''{artifacts}''],
       ns_state_file = ''status.json'', ns_fan_out = None\<rparr>),
     (''patch_placement'', \<lparr>ns_produces = ''PlacedPatch'',
       ns_needs = [(''--triage'', ''fact:FailureTriage:triage_report.json'')],
       ns_optional = [],
       ns_command =
        [''python3'', ''cli/operators/place_patch.py'', ''--pod'', ''{pod}'', ''--contract-instance'',
         ''{contract_instance}'', ''--out'', ''{artifacts}''],
       ns_state_file = ''status.json'', ns_fan_out = None\<rparr>),
     (''platform_kernel_correctness'', \<lparr>ns_produces = ''PlatformKernelCorrectness'',
       ns_needs = [],
       ns_optional = [],
       ns_command =
        [''python3'', ''cli/validation/correctness.py'', ''kernel'', ''--pod'', ''{pod}'', ''--out'',
         ''{artifacts}''],
       ns_state_file = ''kernel_status.json'', ns_fan_out = None\<rparr>),
     (''end_to_end_accuracy'', \<lparr>ns_produces = ''EndToEndAccuracy'',
       ns_needs = [(''--model-request'', ''fact:ModelRequest:model_request.yaml'')],
       ns_optional = [],
       ns_command =
        [''python3'', ''cli/validation/correctness.py'', ''end-to-end'', ''--pod'', ''{pod}'',
         ''--served-model-name'', ''{served_model_name}'', ''--port'', ''{port}'', ''--out'', ''{artifacts}''],
       ns_state_file = ''accuracy_status.json'', ns_fan_out = None\<rparr>),
     (''long_context_sparse_correctness'', \<lparr>ns_produces = ''LongContextSparseCorrectness'',
       ns_needs = [],
       ns_optional = [],
       ns_command =
        [''python3'', ''cli/validation/correctness.py'', ''long-context'', ''--pod'', ''{pod}'', ''--out'',
         ''{artifacts}''],
       ns_state_file = ''long_context_status.json'', ns_fan_out = None\<rparr>),
     (''capability_evaluation'', \<lparr>ns_produces = ''CapabilityEvaluation'',
       ns_needs = [(''--capability-match'', ''fact:CapabilityMatch:capability_match.json'')],
       ns_optional = [],
       ns_command =
        [''python3'', ''cli/discovery/evaluate_capability.py'', ''--dimension'', ''{dimension}'',
         ''--subject'', ''{subject}'', ''--pod'', ''{pod}'', ''--model-path'', ''{weights}'', ''--out'',
         ''{artifacts}''],
       ns_state_file = ''evaluation_status.json'', ns_fan_out = Some \<lparr>fo_var = ''dimension'',
         fo_list = [''python3'', ''cli/discovery/evaluate_capability.py'', ''--list-dimensions''],
         fo_aggregate = [''python3'', ''cli/discovery/evaluate_capability.py'', ''--aggregate'', ''--out'', ''{artifacts}'']\<rparr>\<rparr>),
     (''api_conformance'', \<lparr>ns_produces = ''ApiConformance'',
       ns_needs = [(''--model-request'', ''fact:ModelRequest:model_request.yaml'')],
       ns_optional = [],
       ns_command =
        [''python3'', ''cli/validation/check_api_conformance.py'', ''--subject'', ''{subject}'', ''--pod'',
         ''{pod}'', ''--out'', ''{artifacts}''],
       ns_state_file = ''conformance_status.json'', ns_fan_out = None\<rparr>)]"

definition NODES :: "(string \<times> node_spec) list" where
  "NODES = discovery_nodes @ serving_nodes @ repair_nodes"

text \<open>\<open>next(item for item in NODES.values() if item["produces"] == kind)\<close>, with its name.\<close>

definition producer_of :: "string \<Rightarrow> (string \<times> node_spec) option" where
  "producer_of kind = find (\<lambda>(_, s). ns_produces s = kind) NODES"

text \<open>\<open>_, kind, filename = reference.split(":", 2)\<close>\<close>

definition reference_parts :: "string \<Rightarrow> string \<times> string" where
  "reference_parts s =
     (let colon = (\<lambda>c. c \<noteq> CHR '':''); rest = tl (dropWhile colon s) in
      (takeWhile colon rest, tl (dropWhile colon rest)))"

definition reference_kinds :: "(string \<times> string) list \<Rightarrow> string list" where
  "reference_kinds refs = map (\<lambda>(_, s). fst (reference_parts s)) refs"

definition contract_placeholder :: string where "contract_placeholder = ''{contract_instance}''"

definition needs_contract :: "string list \<Rightarrow> bool" where
  "needs_contract command \<longleftrightarrow> list_ex (\<lambda>part. contains part contract_placeholder) command"

text \<open>\<open>_input_kinds\<close>: the required and the optional kinds.\<close>

definition input_kinds :: "node_spec \<Rightarrow> string list \<times> string list" where
  "input_kinds s =
     (let required = reference_kinds (ns_needs s); optional = reference_kinds (ns_optional s) in
      if needs_contract (ns_command s)
      then if ns_produces s = ''FailureTriage'' then (required, ''DeploymentPlan'' # optional)
           else (''DeploymentPlan'' # required, optional)
      else (required, optional))"

section \<open>The table is closed\<close>

text \<open>Kinds are distinct, and every kind that a node consumes is produced by a node.\<close>

definition node_kinds :: "string list" where
  "node_kinds = map (ns_produces \<circ> snd) NODES"

lemma node_kinds_distinct: "distinct node_kinds"
  by code_simp

lemma inputs_produced:
  "list_all (\<lambda>(_, s). list_all (\<lambda>k. k \<in> set node_kinds) (fst (input_kinds s) @ snd (input_kinds s))) NODES"
  by code_simp

lemma producer_of_kind:
  assumes "producer_of kind = Some (name, s)"
  shows "ns_produces s = kind" "(name, s) \<in> set NODES"
  using find_Some_D[OF assms[unfolded producer_of_def]] by auto

lemma producer_exists: "producer_of kind = None \<longleftrightarrow> kind \<notin> set node_kinds"
  by (force simp: producer_of_def node_kinds_def find_None_iff)

end
