(* ===== verification/Discovery.thy ===== *)
theory Discovery
  imports Checks
begin

text \<open>
  \<open>engine/discovery.py\<close>: the boundary between a shim or gap report, which holds signals, and the
  scheduler, which takes tensor contracts. An operator specification is made from an entry only when
  the entry carries measured schemas and semantic evidence; what is made is read off the entry
  (\<open>spec_measured\<close>). The reports come from \<open>json.loads\<close>, so no entry holds an \<open>IOSpec\<close> object or a
  tuple; the context of a message is text only.
\<close>

section \<open>Fields\<close>

definition incomplete :: "string \<Rightarrow> pyval list \<Rightarrow> exc" where
  "incomplete s vs = IncompleteOperatorEvidence (Msg s vs)"

text \<open>\<open>_text\<close>\<close>

definition text_field :: "string \<Rightarrow> pyval \<Rightarrow> exc + string" where
  "text_field field v = (case v of
      JStr s \<Rightarrow> if strip s = [] then Inl (incomplete ''field is required'' [JStr field]) else Inr (strip s)
    | _ \<Rightarrow> Inl (incomplete ''field is required'' [JStr field]))"

definition is_type_or_value_error :: "exc \<Rightarrow> bool" where
  "is_type_or_value_error e \<longleftrightarrow> is_TypeError e \<or> is_ValueError e"

text \<open>One element of \<open>_io_specs\<close>.\<close>

definition io_spec :: "pyval \<Rightarrow> exc + iospec" where
  "io_spec item = (case item of
      JDict d \<Rightarrow>
        let missing = filter (\<lambda>k. \<not> dhas d k) [''name'', ''dtype'', ''shape'', ''layout''] in
        if missing \<noteq> [] then Inl (incomplete ''missing required fields'' (map JStr missing))
        else (case iospec_from_dict (JDict d) of
            Inr s \<Rightarrow> Inr s
          | Inl e \<Rightarrow> if is_type_or_value_error e then Inl (incomplete ''invalid tensor schema'' []) else Inl e)
    | _ \<Rightarrow> Inl (incomplete ''must be an object'' []))"

definition io_specs :: "string \<Rightarrow> pyval \<Rightarrow> exc + iospec list" where
  "io_specs field v = (case v of
      JList (x # xs) \<Rightarrow> rmapM io_spec (x # xs)
    | _ \<Rightarrow> Inl (incomplete ''must be a non-empty list with measured tensor schemas'' [JStr field]))"

text \<open>\<open>v not in (None, "", [], {})\<close>\<close>

definition given :: "pyval \<Rightarrow> bool" where
  "given v \<longleftrightarrow> \<not> in_list v [JNone, JStr [], JList [], JDict []]"

definition evidence_keys :: "string list" where
  "evidence_keys = [''reference'', ''reference_impl'', ''reference_implementation'', ''formula'',
     ''description'', ''basis'', ''semantics_basis'', ''evidence'']"

definition has_evidence :: "pydict \<Rightarrow> bool" where
  "has_evidence semantics \<longleftrightarrow> list_ex (\<lambda>k. dhas semantics k \<and> given (dget semantics k)) evidence_keys"

text \<open>\<open>_semantics\<close>\<close>

definition semantics_of :: "pydict \<Rightarrow> exc + pydict" where
  "semantics_of entry =
     (let raw = dget entry ''semantics''; basis = dget entry ''semantics_basis'' in
      if raw \<noteq> JNone \<and> \<not> is_dict raw then Inl (incomplete ''semantics must be an object'' [])
      else
        let sem = (case raw of JDict d \<Rightarrow> d | _ \<Rightarrow> []) in
        rbind (if basis = JNone then Inr sem
               else rbind (text_field ''semantics_basis'' basis) (\<lambda>b.
                 Inr (dsetdefault sem ''basis'' (JStr b)))) (\<lambda>semantics.
        if \<not> has_evidence semantics then Inl (incomplete ''semantic evidence is required'' [])
        else Inr semantics))"

section \<open>Entries\<close>

text \<open>\<open>_entries\<close>: the first of the three lists that is there, or the report itself when it names one
  operator.\<close>

definition report_list :: "pyval \<Rightarrow> pyval" where
  "report_list report = (case report of
      JDict d \<Rightarrow>
        (case filter (\<lambda>v. v \<noteq> JNone) (map (dget d) [''entries'', ''gaps'', ''findings'']) of
           v # _ \<Rightarrow> v
         | [] \<Rightarrow> if list_ex (dhas d) [''name'', ''operator_id'', ''symbol''] then JList [report] else JList [])
    | _ \<Rightarrow> report)"

definition report_entry :: "pyval \<Rightarrow> exc + pydict" where
  "report_entry v = (case v of JDict d \<Rightarrow> Inr d | _ \<Rightarrow> Inl (DiscoveryError (Msg ''entries must be objects'' [])))"

definition report_entries :: "pyval \<Rightarrow> exc + pydict list" where
  "report_entries report = (case report_list report of
      JList xs \<Rightarrow> rmapM report_entry xs
    | _ \<Rightarrow> Inl (DiscoveryError (Msg ''report entries/gaps must be a list'' [])))"

section \<open>Specifications\<close>

definition set_given :: "pydict \<Rightarrow> string \<Rightarrow> pydict \<Rightarrow> pydict" where
  "set_given d k acc = (if dhas d k \<and> given (dget d k) then dsetdefault acc k (dget d k) else acc)"

definition own_signal :: "string \<Rightarrow> pyval \<Rightarrow> bool" where
  "own_signal operator signal = (case signal of JDict s \<Rightarrow> dget s ''symbol'' = JStr operator | _ \<Rightarrow> False)"

text \<open>The evidence dictionary: what the entry says, then what the report around it says.\<close>

definition report_evidence :: "string \<Rightarrow> pydict \<Rightarrow> pydict \<Rightarrow> exc + pydict" where
  "report_evidence operator report evidence =
     rbind (viter (dget_or report ''signals'' (JList []))) (\<lambda>all.
     let signals = filter (own_signal operator) all;
         e = (if signals \<noteq> [] then dsetdefault evidence ''signals'' (JList signals) else evidence) in
     Inr (fold (\<lambda>k acc. if dget report k \<noteq> JNone \<and> dget report k \<noteq> JStr []
         then dsetdefault acc k (dget report k) else acc) [''plugin'', ''plugin_path'', ''scanned_in''] e))"

definition entry_evidence :: "string \<Rightarrow> pydict \<Rightarrow> pydict option \<Rightarrow> exc + pydict" where
  "entry_evidence operator entry report =
     rbind (py_dict (py_or (dget entry ''evidence'') (JDict []))) (\<lambda>own.
     let e = fold (set_given entry)
       [''location'', ''replaced_kernel'', ''call_frequency'', ''semantics_basis'', ''source'', ''class''] own in
     case report of
       Some (p # d) \<Rightarrow> report_evidence operator (p # d) e
     | _ \<Rightarrow> Inr e)"

text \<open>The specification is built from \<open>IOSpec\<close> objects, which its constructor keeps; their dictionaries
  read back as the same objects (\<open>io_list_to_dicts\<close>).\<close>

definition io_dicts :: "iospec list \<Rightarrow> pyval" where
  "io_dicts xs = JList (map (\<lambda>x. JDict (iospec_to_dict x)) xs)"

definition operator_spec_from_entry ::
  "string \<Rightarrow> string \<Rightarrow> string \<Rightarrow> pyval \<Rightarrow> pydict \<Rightarrow> pydict option \<Rightarrow> pydict \<Rightarrow> exc + opspec" where
  "operator_spec_from_entry model_id backend model_revision plugin_revision environment report entry =
     rbind (text_field ''operator id''
       (py_or (py_or (dget entry ''operator_id'') (dget entry ''name'')) (dget entry ''symbol''))) (\<lambda>operator.
     rbind (text_field ''model_id'' (JStr model_id)) (\<lambda>model.
     rbind (text_field ''backend'' (JStr backend)) (\<lambda>back.
     rbind (io_specs ''inputs'' (dget entry ''inputs'')) (\<lambda>ins.
     rbind (io_specs ''outputs'' (dget entry ''outputs'')) (\<lambda>outs.
     rbind (semantics_of entry) (\<lambda>semantics.
     rbind (if dget entry ''location'' = JNone then Inr []
            else text_field ''location'' (dget entry ''location'')) (\<lambda>_.
     rbind (entry_evidence operator entry report) (\<lambda>evidence.
     rbind (text_field ''model_revision'' (JStr model_revision)) (\<lambda>revision.
     rbind (text_field ''plugin_revision'' plugin_revision) (\<lambda>plugin.
     mk_opspec \<lparr>oa_operator_id = JStr operator, oa_model_id = JStr model, oa_model_revision = JStr revision,
       oa_plugin_revision = JStr plugin, oa_backend = JStr back, oa_inputs = io_dicts ins,
       oa_outputs = io_dicts outs, oa_semantics = JDict semantics, oa_evidence = JDict evidence,
       oa_environment = JDict environment, oa_schema_version = JInt 1\<rparr>))))))))))"

text \<open>The loop of \<open>operator_specs_from_report\<close>: waived entries are skipped unless asked for.\<close>

definition waived :: "pydict \<Rightarrow> bool" where
  "waived entry \<longleftrightarrow> dget entry ''status'' = JStr ''WAIVED''"

definition entry_spec :: "bool \<Rightarrow> (pydict \<Rightarrow> exc + opspec) \<Rightarrow> pydict \<Rightarrow> exc + opspec option" where
  "entry_spec include_waived build entry =
     (if waived entry \<and> \<not> include_waived then Inr None
      else if waived entry \<and> \<not> truthy (dget entry ''reason'')
      then Inl (DiscoveryError (Msg ''WAIVED without a reason'' []))
      else rbind (build entry) (\<lambda>s. Inr (Some s)))"

definition resolve_plugin_revision :: "pyval \<Rightarrow> pyval \<Rightarrow> pyval" where
  "resolve_plugin_revision given_revision report =
     py_or (case (given_revision, report) of
         (JNone, JDict (p # d)) \<Rightarrow> py_or (dget (p # d) ''plugin_revision'') (dget (p # d) ''version'')
       | _ \<Rightarrow> given_revision) (JStr ''unknown'')"

definition operator_specs_from_report ::
  "string \<Rightarrow> string \<Rightarrow> string \<Rightarrow> pyval \<Rightarrow> pydict \<Rightarrow> bool \<Rightarrow> pyval \<Rightarrow> exc + opspec list" where
  "operator_specs_from_report model_id backend model_revision plugin_revision environment include_waived report =
     (let whole = (case report of JDict d \<Rightarrow> Some d | _ \<Rightarrow> None) in
      if (case whole of Some d \<Rightarrow> truthy (dget d ''unmapped_signals'') | None \<Rightarrow> False)
      then Inl (DiscoveryError (Msg ''report contains unmapped shim signals'' []))
      else rbind (report_entries report) (\<lambda>entries.
        rcollect (entry_spec include_waived (operator_spec_from_entry model_id backend model_revision
          (resolve_plugin_revision plugin_revision report) environment whole)) entries))"

definition load_report :: "lib \<Rightarrow> fs \<Rightarrow> path \<Rightarrow> exc + pyval" where
  "load_report L f p =
     (case rbind (read_bytes f p) (\<lambda>c. case json_loads L c of
         None \<Rightarrow> Inl (ValueError (Msg ''Expecting value'' [])) | Some v \<Rightarrow> Inr v) of
        Inr v \<Rightarrow> Inr v
      | Inl e \<Rightarrow> if is_OSError e \<or> is_ValueError e
          then Inl (DiscoveryError (Msg ''cannot load discovery report'' [])) else Inl e)"

section \<open>Only what was measured\<close>

text \<open>The tensor schema is the entry's, field by field.\<close>

definition schema_of :: "pyval \<Rightarrow> iospec \<Rightarrow> bool" where
  "schema_of v s = (case v of
      JDict d \<Rightarrow> io_name s = dget d ''name'' \<and> io_dtype s = dget d ''dtype'' \<and> io_shape s = dget d ''shape'' \<and>
        io_layout s = dget d ''layout'' \<and> list_all (dhas d) [''name'', ''dtype'', ''shape'', ''layout'']
    | _ \<Rightarrow> False)"

definition schemas_of :: "pyval \<Rightarrow> iospec list \<Rightarrow> bool" where
  "schemas_of v ss = (case v of JList xs \<Rightarrow> xs \<noteq> [] \<and> list_all2 schema_of xs ss | _ \<Rightarrow> False)"

definition semantics_from :: "pydict \<Rightarrow> pyval \<Rightarrow> bool" where
  "semantics_from entry v = (case v of
      JDict sem \<Rightarrow> has_evidence sem \<and>
        (\<forall>k x. map_of sem k = Some x \<longrightarrow>
           (\<exists>d. dget entry ''semantics'' = JDict d \<and> map_of d k = Some x) \<or>
           (\<exists>b. dget entry ''semantics_basis'' = JStr b \<and> k = ''basis'' \<and> x = JStr (strip b)))
    | _ \<Rightarrow> False)"

definition spec_measured :: "pydict \<Rightarrow> opspec \<Rightarrow> bool" where
  "spec_measured entry s \<longleftrightarrow>
     schemas_of (dget entry ''inputs'') (os_inputs s) \<and> schemas_of (dget entry ''outputs'') (os_outputs s) \<and>
     semantics_from entry (os_semantics s)"

lemma io_spec_schema: "io_spec v = Inr s \<Longrightarrow> schema_of v s \<and> iospec_ok s"
  by (auto simp: io_spec_def schema_of_def iospec_from_dict_def Let_def filter_empty_conv mk_iospec_def is_None_def
      iospec_ok_def split: pyval.splits if_splits sum.splits)

lemma io_specs_schemas:
  assumes "io_specs field v = Inr ss"
  shows "schemas_of v ss \<and> list_all iospec_ok ss \<and> ss \<noteq> []"
proof -
  obtain x xs where v: "v = JList (x # xs)" and m: "rmapM io_spec (x # xs) = Inr ss"
    using assms by (auto simp: io_specs_def split: pyval.splits list.splits)
  from m have "list_all2 (\<lambda>a b. io_spec a = Inr b) (x # xs) ss"
    by (simp only: rmapM_Inr_iff)
  then have "list_all2 (\<lambda>a b. schema_of a b \<and> iospec_ok b) (x # xs) ss"
    by (rule list_all2_mono) (simp add: io_spec_schema)
  then show ?thesis
    by (auto simp: v schemas_of_def list_all_iff list_all2_conv_all_nth in_set_conv_nth Cons_nth_drop_Suc)
qed

lemma text_field_Inr: "text_field f v = Inr t \<longleftrightarrow> (\<exists>s. v = JStr s \<and> strip s \<noteq> [] \<and> t = strip s)"
  by (cases v) (auto simp: text_field_def)

lemma semantics_of_from:
  assumes "semantics_of entry = Inr sem"
  shows "semantics_from entry (JDict sem)"
proof -
  define raw where "raw = (case dget entry ''semantics'' of JDict d \<Rightarrow> d | _ \<Rightarrow> [])"
  have shape: "dget entry ''semantics'' = JNone \<or> dget entry ''semantics'' = JDict raw"
    using assms by (cases "dget entry ''semantics''") (simp_all add: semantics_of_def raw_def)
  then have raw: "(\<exists>d. dget entry ''semantics'' = JDict d \<and> map_of d k = Some x)" if "map_of raw k = Some x" for k x
    using that by (auto simp: raw_def)
  have e: "has_evidence sem" and m: "(if dget entry ''semantics_basis'' = JNone then Inr raw
      else rbind (text_field ''semantics_basis'' (dget entry ''semantics_basis'')) (\<lambda>b.
        Inr (dsetdefault raw ''basis'' (JStr b)))) = Inr sem"
    using assms by (auto simp: semantics_of_def Let_def rbind_eq_Inr raw_def[symmetric] split: if_splits)
  show ?thesis
  proof (cases "dget entry ''semantics_basis'' = JNone")
    case True
    with m have "sem = raw" by simp
    with e raw show ?thesis by (auto simp: semantics_from_def)
  next
    case False
    with m obtain b where b: "dget entry ''semantics_basis'' = JStr b" "sem = dsetdefault raw ''basis'' (JStr (strip b))"
      by (auto simp: rbind_eq_Inr text_field_Inr)
    have "map_of raw k = Some x \<or> (k = ''basis'' \<and> x = JStr (strip b))" if "map_of sem k = Some x" for k x
      using that unfolding b(2) dsetdefault_def by (simp add: dhas_def split: if_splits)
    with e raw b(1) show ?thesis by (fastforce simp: semantics_from_def)
  qed
qed

lemma io_list_dicts: "list_all iospec_ok xs \<Longrightarrow> io_list (io_dicts xs) = Inr xs"
  by (simp add: io_dicts_def io_list_to_dicts)

lemma operator_spec_measured:
  assumes "operator_spec_from_entry model backend mrev prev env report entry = Inr s"
  shows "spec_measured entry s \<and> opspec_ok s \<and> os_environment s = JDict env \<and> os_backend s = JStr (strip backend) \<and>
    os_model_id s = JStr (strip model)"
proof -
  obtain operator ins outs semantics evidence revision plugin where
    io: "io_specs ''inputs'' (dget entry ''inputs'') = Inr ins" "io_specs ''outputs'' (dget entry ''outputs'') = Inr outs"
    and sem: "semantics_of entry = Inr semantics"
    and s: "mk_opspec \<lparr>oa_operator_id = JStr operator, oa_model_id = JStr (strip model), oa_model_revision = JStr revision,
       oa_plugin_revision = JStr plugin, oa_backend = JStr (strip backend), oa_inputs = io_dicts ins,
       oa_outputs = io_dicts outs, oa_semantics = JDict semantics, oa_evidence = JDict evidence,
       oa_environment = JDict env, oa_schema_version = JInt 1\<rparr> = Inr s"
    using assms unfolding operator_spec_from_entry_def rbind_eq_Inr text_field_Inr by blast
  note i = io_specs_schemas[OF io(1)] and o = io_specs_schemas[OF io(2)]
  have f: "os_inputs s = ins" "os_outputs s = outs" "os_semantics s = JDict semantics"
      "os_environment s = JDict env" "os_backend s = JStr (strip backend)" "os_model_id s = JStr (strip model)"
    using s i o by (auto simp: mk_opspec_def io_list_dicts split: if_splits)
  show ?thesis
    using i o semantics_of_from[OF sem] mk_opspec_ok[OF s] by (simp add: spec_measured_def f)
qed

text \<open>C39: Discovery invents nothing: every specification made from a report comes from one of its entries,
  that is not waived unless waived entries were asked for; its tensor schemas are the entry's field
  by field, each field of its semantics is one that the entry states, there is evidence among them,
  and it carries the environment and the backend it was asked for.\<close>

theorem discovery_measured:
  assumes "operator_specs_from_report model backend mrev prev env incl report = Inr specs" and "s \<in> set specs"
  shows "\<exists>entries entry. report_entries report = Inr entries \<and> entry \<in> set entries \<and> (waived entry \<longrightarrow> incl) \<and>
    spec_measured entry s \<and> opspec_ok s \<and> os_environment s = JDict env \<and> os_backend s = JStr (strip backend)"
proof -
  obtain entries f where e: "report_entries report = Inr entries"
    and r: "rcollect (entry_spec incl (operator_spec_from_entry model backend mrev
      (resolve_plugin_revision prev report) env f)) entries = Inr specs"
    using assms(1) unfolding operator_specs_from_report_def Let_def by (auto simp: rbind_eq_Inr split: if_splits)
  from rcollect_elem[OF r] assms(2) obtain entry where x: "entry \<in> set entries"
      "entry_spec incl (operator_spec_from_entry model backend mrev (resolve_plugin_revision prev report) env f) entry =
        Inr (Some s)" by blast
  then have w: "waived entry \<longrightarrow> incl" and b: "operator_spec_from_entry model backend mrev
      (resolve_plugin_revision prev report) env f entry = Inr s"
    by (auto simp: entry_spec_def rbind_eq_Inr split: if_splits)
  from e x(1) w operator_spec_measured[OF b] show ?thesis by blast
qed

definition demo_tensor :: pyval where
  "demo_tensor = JDict [(''name'', JStr ''x''), (''dtype'', JStr ''bf16''), (''shape'', JList [JInt 4]), (''layout'', JStr ''row'')]"

definition demo_report :: pyval where
  "demo_report = JDict [(''gaps'', JList [JDict [(''name'', JStr '' mla ''), (''inputs'', JList [demo_tensor]),
     (''outputs'', JList [demo_tensor]), (''semantics_basis'', JStr ''paper'')]])]"

definition demo_specs :: "exc + opspec list" where
  "demo_specs = operator_specs_from_report ''glm'' ''kunlun'' ''r1'' (JStr ''p1'') [] False demo_report"

lemma demo_specs_one: "(case demo_specs of Inr [s] \<Rightarrow> os_operator_id s = JStr ''mla'' | _ \<Rightarrow> False)"
  by code_simp

lemma discovery_measured_witness:
  "\<exists>s entries entry. demo_specs = Inr [s] \<and> report_entries demo_report = Inr entries \<and> entry \<in> set entries \<and>
     spec_measured entry s"
proof -
  obtain s where s: "demo_specs = Inr [s]"
    using demo_specs_one by (auto split: sum.splits list.splits)
  show ?thesis using discovery_measured[OF s[unfolded demo_specs_def]] s by auto
qed

end
