(* ===== verification/EvidenceGates.thy ===== *)
theory EvidenceGates
  imports Checks
begin

text \<open>
  The gates that the graph bridge applies to a node's evidence before it becomes a graph fact:
  \<open>validators/deployment_validator.py\<close> (the environment and the service), \<open>accuracy_validator.py\<close>,
  \<open>shim_validator.py\<close>, and the parts of \<open>operator_lifecycle_validator.py\<close> that read the report only.
\<close>

section \<open>Environment and service\<close>

definition environment_artifacts :: "string list" where
  "environment_artifacts = [''environment_fingerprint.txt'', ''runtime_import.txt'', ''code_readiness.json'',
     ''device_readiness.json'', ''base_model_identity.json'', ''base_server_log.txt'',
     ''base_health_result.txt'', ''base_chat_result.json'']"

definition check_equals :: "pyval \<Rightarrow> string \<times> pyval \<Rightarrow> errs" where
  "check_equals checks kv = rbind (vget checks (fst kv)) (\<lambda>v.
     flag (\<not> py_eq v (snd kv)) (Msg ''checks must equal'' [JStr (fst kv), snd kv]))"

definition deployment_checks :: pydict where
  "deployment_checks = [(''pod_ready'', JBool True), (''health_check'', JInt 200),
     (''chat_completion'', JStr ''non_empty''), (''expected_backend'', JStr ''kunlun''),
     (''unexpected_fallback'', JBool False)]"

definition validate_deployment_status :: "pydict \<Rightarrow> errs" where
  "validate_deployment_status status =
     all_checks
       [flag (\<not> says status ''state'' ''DEPLOYMENT_READY'') (Msg ''state must be DEPLOYMENT_READY'' []),
        each (check_equals (dget_or status ''checks'' (JDict []))) deployment_checks,
        flag (\<not> truthy (dget status ''artifacts'')) (Msg ''artifacts must contain at least one evidence path'' [])]"

definition environment_flags :: "string list" where
  "environment_flags = [''pod_ready'', ''runtime_importable'', ''code_ready'', ''device_ready'',
     ''base_model_loaded'', ''base_prefill'', ''base_decode'']"

definition environment_checks :: pydict where
  "environment_checks = [(''base_health_check'', JInt 200), (''base_chat_completion'', JStr ''non_empty''),
     (''unexpected_fallback'', JBool False)]"

definition validate_environment_status :: "pydict \<Rightarrow> errs" where
  "validate_environment_status status =
     (let checks = dget_or status ''checks'' (JDict []); artifacts = or_list (dget status ''artifacts'') in
      all_checks
       [flag (\<not> says status ''state'' ''ENVIRONMENT_READY'') (Msg ''state must be ENVIRONMENT_READY'' []),
        each (\<lambda>k. rbind (vget checks k) (\<lambda>v. flag (\<not> is_True v) (Msg ''checks must be True'' [JStr k])))
          environment_flags,
        each (check_equals checks) environment_checks,
        flag (\<not> truthy (dget status ''pod'')) (Msg ''pod must be recorded so a later phase can import it'' []),
        each (\<lambda>k. flagM (rnot (vhas artifacts k)) (Msg ''must be part of the evidence bundle'' [JStr k]))
          environment_artifacts])"

section \<open>Accuracy\<close>

definition check_accuracy_case :: "pyval \<Rightarrow> errs" where
  "check_accuracy_case c =
     all_checks
       [each (\<lambda>k. rbind (vget c k) (\<lambda>v. flag (in_list v [JNone, JList []]) (Msg ''case is missing'' [JStr k])))
          [''top1_candidate'', ''top1_reference'', ''candidate_top5'', ''reference_top5''],
        rbind (vget c ''top1_match'') (\<lambda>v.
          flag (v = JNone) (Msg ''case does not state whether the top token matched'' []))]"

text \<open>\<open>[case.get("prompt") for case in cases if ...]\<close>: the case, when the test holds.\<close>

definition prompt_if :: "(pyval \<Rightarrow> exc + bool) \<Rightarrow> pyval \<Rightarrow> exc + pyval option" where
  "prompt_if p c = rbind (p c) (\<lambda>b. if b then rbind (vget c ''prompt'') (\<lambda>v. Inr (Some v)) else Inr None)"

definition weak_overlap :: "lib \<Rightarrow> pyval \<Rightarrow> pyval \<Rightarrow> exc + bool" where
  "weak_overlap L least c = rbind (vget_or c ''top5_overlap'' (JInt 0)) (\<lambda>v. rbind (py_int L v) (\<lambda>a.
     rbind (py_int L least) (\<lambda>b. Inr (a < b))))"

definition top1_mismatch :: "pyval \<Rightarrow> exc + bool" where
  "top1_mismatch c = rbind (vget c ''top1_match'') (\<lambda>v. Inr (\<not> truthy v))"

definition check_pass_earned :: "lib \<Rightarrow> pyval \<Rightarrow> pydict \<Rightarrow> errs" where
  "check_pass_earned L cases thresholds =
     rbind (viter cases) (\<lambda>cs.
     all_checks
       [whenE (truthy (dget thresholds ''require_top1_match_on_all_cases''))
          (rbind (rcollect (prompt_if top1_mismatch) cs) (\<lambda>failed.
            flag (failed \<noteq> []) (Msg ''top-1 disagreed but the status is ACCURACY_PASS'' failed))),
        whenE (dget thresholds ''min_top5_overlap'' \<noteq> JNone)
          (rbind (rcollect (prompt_if (weak_overlap L (dget thresholds ''min_top5_overlap''))) cs) (\<lambda>weak.
            flag (weak \<noteq> []) (Msg ''top-5 overlap is below the floor but the status is ACCURACY_PASS'' weak)))])"

definition check_reference :: "pyval \<Rightarrow> pyval \<Rightarrow> errs" where
  "check_reference reference candidate =
     all_checks
       [each (\<lambda>k. need (vget reference k) (Msg ''reference is required'' [JStr k])) [''implementation'', ''device''],
        rbind (vget reference ''device'') (\<lambda>d. whenE (truthy d)
          (rbind (vget candidate ''device'') (\<lambda>e.
            flag (py_eq d e) (Msg ''the reference shares the candidate device'' []))))]"

definition validate_accuracy_report :: "lib \<Rightarrow> pydict \<Rightarrow> pydict \<Rightarrow> errs" where
  "validate_accuracy_report L report thresholds =
     (let cases = dget report ''cases'' in
      all_checks
       [flag (\<not> in_strs (dget report ''status'') [''ACCURACY_PASS'', ''ACCURACY_FAIL''])
          (Msg ''status is neither a pass nor a fail'' [dget report ''status'']),
        flag (\<not> truthy cases) (Msg ''accuracy report must include case-level evidence'' []),
        flag (\<not> truthy (dget report ''threshold_source''))
          (Msg ''threshold_source is required: a report without it is an opinion'' []),
        check_reference (or_dict (dget report ''reference'')) (or_dict (dget report ''candidate'')),
        flag (\<not> truthy (dget report ''metric'')) (Msg ''metric is required'' []),
        rbind (viter (or_list cases)) (each check_accuracy_case),
        whenE (truthy cases \<and> says report ''status'' ''ACCURACY_PASS'') (check_pass_earned L cases thresholds)])"

section \<open>Torch shims\<close>

definition entry_statuses :: "string list" where
  "entry_statuses = [''REGISTERED'', ''DISPATCHED'', ''WAIVED'']"

definition required_entry_fields :: "string list" where
  "required_entry_fields = [''name'', ''location'', ''replaced_kernel'', ''call_frequency'', ''semantics_basis'']"

definition check_signal :: "pyval \<Rightarrow> errs" where
  "check_signal signal = each (\<lambda>k. rbind (vget signal k) (\<lambda>v.
     flag (\<not> truthy v \<and> \<not> py_eq v (JInt 0)) (Msg ''signal field is required'' [JStr k])))
     [''kind'', ''file'', ''symbol'', ''line'']"

definition check_shim_entry :: "pyval \<Rightarrow> errs" where
  "check_shim_entry entry =
     all_checks
       [each (\<lambda>k. need (vget entry k) (Msg ''entry field is required'' [JStr k])) required_entry_fields,
        rbind (vget entry ''status'') (\<lambda>status.
        all_checks
         [flagM (rnot (in_strset status entry_statuses)) (Msg ''status is not one of the statuses'' [status]),
          rbind (vget entry ''reason'') (\<lambda>v. flag (status = JStr ''WAIVED'' \<and> \<not> truthy v)
            (Msg ''WAIVED without a reason'' [])),
          rbind (vget entry ''request_id'') (\<lambda>v. flag (status = JStr ''DISPATCHED'' \<and> \<not> truthy v)
            (Msg ''DISPATCHED without a request_id'' []))])]"

definition still_registered :: "pyval \<Rightarrow> errs" where
  "still_registered entry = rbind (vget entry ''status'') (\<lambda>v.
     flag (v = JStr ''REGISTERED'') (Msg ''still REGISTERED in a HANDOFF_CLEAR report'' []))"

definition dispatched_now :: "pyval \<Rightarrow> exc + pyval option" where
  "dispatched_now entry = rbind (vget entry ''dispatched_this_run'') (\<lambda>v.
     Inr (if truthy v then Some entry else None))"

definition check_dispatch_record :: "pyval \<Rightarrow> nat \<Rightarrow> errs" where
  "check_dispatch_record dispatch n =
     (if \<not> truthy dispatch then flag True (Msg ''entries were dispatched but there is no dispatch record'' [])
      else rbind (vget dispatch ''request_count'') (\<lambda>c.
        flag (\<not> py_eq c (JInt (int n))) (Msg ''dispatch.request_count does not match the entries'' [c])))"

definition validate_shim_handoff :: "pydict \<Rightarrow> errs" where
  "validate_shim_handoff report =
     (let state = dget report ''state''; scanned = dget report ''files_scanned'';
          signals = dget report ''signals''; entries = dget report ''entries'';
          unmapped = dget report ''unmapped_signals'' in
      all_checks
       [flag (\<not> in_strs state [''HANDOFF_CLEAR'', ''HANDOFF_FOUND''])
          (Msg ''state is neither HANDOFF_CLEAR nor HANDOFF_FOUND'' [state]),
        flag (\<not> truthy (dget report ''plugin'')) (Msg ''plugin is required'' []),
        flag (\<not> isinstance_int scanned \<or> \<not> truthy scanned \<or> py_less scanned (JInt 0) = Inr True)
          (Msg ''files_scanned must be a positive count'' []),
        (if signals = JNone then flag True (Msg ''signals is required, even when empty'' [])
         else rbind (viter signals) (each check_signal)),
        (if entries = JNone then flag True (Msg ''entries is required, even when empty'' [])
         else rbind (viter entries) (each check_shim_entry)),
        (if unmapped = JNone then flag True (Msg ''unmapped_signals is required, even when empty'' [])
         else flag (truthy unmapped \<and> state = JStr ''HANDOFF_CLEAR'') (Msg ''signals exist that no entry explains'' [])),
        whenE (state = JStr ''HANDOFF_CLEAR'') (rbind (viter (or_list entries)) (each still_registered)),
        rbind (viter (or_list entries)) (\<lambda>es. rbind (rcollect dispatched_now es) (\<lambda>now_dispatched.
          whenE (now_dispatched \<noteq> []) (check_dispatch_record (dget report ''dispatch'') (length now_dispatched))))])"

section \<open>Operator lifecycle\<close>

definition validate_baseline :: "pydict \<Rightarrow> errs" where
  "validate_baseline report =
     all_checks
       [flag (\<not> says report ''state'' ''BASELINE_FROZEN'') (Msg ''baseline is not frozen'' []),
        flag (\<not> truthy (dget report ''baseline_id'')) (Msg ''baseline_id is required'' [])]"

definition ready_gates :: "(string \<times> string) list" where
  "ready_gates = [(''kernel_grade'', ''kernel_grade_report''), (''dispatch_report'', ''dispatch_report_path''),
     (''package_swap'', ''package_swap_report''), (''path_proof'', ''worker_path_log''),
     (''service_regression'', ''service_regression_report''),
     (''accuracy_regression'', ''accuracy_regression_report'')]"

text \<open>The legacy candidate states of \<open>validate_integration\<close>.\<close>

definition validate_candidate :: "pydict \<Rightarrow> errs" where
  "validate_candidate report =
     (let state = dget report ''state'' in
      if dhas report ''scheduler_state'' \<or> dhas report ''run_id''
      then flag True (Msg ''scheduled integration cannot use legacy candidate states'' [])
      else rbind (in_strset state [''WAITING_FOR_CANDIDATE'', ''READY_FOR_INTEGRATION'', ''CANDIDATE_REJECTED'']) (\<lambda>known.
        if \<not> known then flag True (Msg ''integration state is invalid'' [])
        else all_checks
          [whenE (state = JStr ''READY_FOR_INTEGRATION'')
             (each (\<lambda>(gate, evidence). flag (\<not> truthy (dget report evidence))
               (Msg ''READY_FOR_INTEGRATION claims a gate but records no evidence'' [JStr gate, JStr evidence])) ready_gates),
           flag (state = JStr ''CANDIDATE_REJECTED'' \<and> \<not> truthy (dget report ''failed_gates''))
             (Msg ''CANDIDATE_REJECTED must name the gates that failed'' [])]))"

section \<open>What acceptance means\<close>

text \<open>An accuracy pass is earned: every case agreed on its first token, and the reference ran elsewhere.\<close>

definition pass_earned :: "pydict \<Rightarrow> bool" where
  "pass_earned report \<longleftrightarrow>
     (case dget report ''cases'' of
        JList cases \<Rightarrow> cases \<noteq> [] \<and>
          list_all (\<lambda>c. case c of JDict d \<Rightarrow> truthy (dget d ''top1_match'') | _ \<Rightarrow> False) cases
      | _ \<Rightarrow> False) \<and>
     (case (dget report ''reference'', or_dict (dget report ''candidate'')) of
        (JDict r, JDict c) \<Rightarrow> truthy (dget r ''device'') \<and> \<not> py_eq (dget r ''device'') (dget c ''device'')
      | _ \<Rightarrow> False)"

lemma prompt_if_none: "prompt_if p c = Inr None \<longleftrightarrow> p c = Inr False"
  by (auto simp: prompt_if_def rbind_eq_Inr split: if_splits)

lemma rcollect_Nil: "rcollect f xs = Inr [] \<longleftrightarrow> (\<forall>x \<in> set xs. f x = Inr None)"
  by (induction xs) (auto simp: rbind_eq_Inr split: option.splits)

lemma accuracy_pass_earned:
  assumes "validate_accuracy_report L report [(''require_top1_match_on_all_cases'', JBool True)] = Inr []"
    and "says report ''status'' ''ACCURACY_PASS''" and "is_list (dget report ''cases'')"
  shows "pass_earned report"
proof -
  obtain cases where c: "dget report ''cases'' = JList cases"
    using assms(3) by (cases "dget report ''cases''") simp_all
  note a = assms(1)[unfolded validate_accuracy_report_def Let_def all_checks_accepts list.set]
  have n: "cases \<noteq> []" and p: "check_pass_earned L (JList cases) [(''require_top1_match_on_all_cases'', JBool True)] = Inr []"
    using a assms(2) by (simp_all add: c accepts)
  have r: "check_reference (or_dict (dget report ''reference'')) (or_dict (dget report ''candidate'')) = Inr []"
    using a by simp
  have t: "top1_mismatch x = Inr False" if "x \<in> set cases" for x
    using p that by (auto simp: check_pass_earned_def accepts rbind_eq_Inr rcollect_Nil prompt_if_none)
  have "case x of JDict d \<Rightarrow> truthy (dget d ''top1_match'') | _ \<Rightarrow> False" if "x \<in> set cases" for x
    using t[OF that] by (cases x) (simp_all add: top1_mismatch_def vget_def vget_or_def dget_or_JNone)
  moreover obtain rd cd where d: "or_dict (dget report ''reference'') = JDict rd" "or_dict (dget report ''candidate'') = JDict cd"
      "truthy (dget rd ''device'')" "\<not> py_eq (dget rd ''device'') (dget cd ''device'')"
    using r by (auto simp: check_reference_def accepts rbind_eq_Inr vget_Inr)
  moreover from this have "dget report ''reference'' = JDict rd"
    by (auto simp: or_dict_def py_or_def split: if_splits)
  ultimately show ?thesis using n by (auto simp: pass_earned_def c list_all_iff)
qed

text \<open>A clear shim registry leaves nothing open: no unexplained signal, no entry that is only registered.\<close>

definition shims_closed :: "pydict \<Rightarrow> bool" where
  "shims_closed report \<longleftrightarrow> \<not> truthy (dget report ''unmapped_signals'') \<and>
     (case dget report ''entries'' of
        JList entries \<Rightarrow> list_all (\<lambda>e. case e of
            JDict d \<Rightarrow> (dget d ''status'' = JStr ''WAIVED'' \<and> truthy (dget d ''reason'')) \<or>
              (dget d ''status'' = JStr ''DISPATCHED'' \<and> truthy (dget d ''request_id''))
          | _ \<Rightarrow> False) entries
      | _ \<Rightarrow> False)"

lemma shim_entry_closed:
  assumes "check_shim_entry e = Inr []" "still_registered e = Inr []"
  shows "\<exists>d. e = JDict d \<and> ((dget d ''status'' = JStr ''WAIVED'' \<and> truthy (dget d ''reason'')) \<or>
    (dget d ''status'' = JStr ''DISPATCHED'' \<and> truthy (dget d ''request_id'')))"
proof -
  obtain d where d: "e = JDict d"
    using assms(2) by (cases e) (simp_all add: still_registered_def vget_def vget_or_def)
  have s: "in_strs (dget d ''status'') entry_statuses" "dget d ''status'' \<noteq> JStr ''REGISTERED''"
      "dget d ''status'' = JStr ''WAIVED'' \<Longrightarrow> truthy (dget d ''reason'')"
      "dget d ''status'' = JStr ''DISPATCHED'' \<Longrightarrow> truthy (dget d ''request_id'')"
    using assms by (simp_all add: d check_shim_entry_def still_registered_def accepts)
  then have "dget d ''status'' = JStr ''WAIVED'' \<or> dget d ''status'' = JStr ''DISPATCHED''"
    by (cases "dget d ''status''") (auto simp: in_strs_def entry_statuses_def)
  with d s show ?thesis by blast
qed

lemma shims_closed_sound:
  assumes "validate_shim_handoff report = Inr []" "dget report ''state'' = JStr ''HANDOFF_CLEAR''"
    and "dget report ''entries'' = JList entries"
  shows "shims_closed report"
proof -
  note a = assms(1)[unfolded validate_shim_handoff_def Let_def all_checks_accepts list.set assms(2,3)]
  have e: "check_shim_entry x = Inr []" "still_registered x = Inr []" if "x \<in> set entries" for x
    using a that by (simp_all add: accepts)
  have "\<not> truthy (dget report ''unmapped_signals'')"
    using a by (auto simp: accepts split: if_splits)
  with e show ?thesis
    by (fastforce simp: shims_closed_def assms(3) list_all_iff dest: shim_entry_closed)
qed

end
