(* ===== verification/GraphEvidence.thy ===== *)
theory GraphEvidence
  imports Discovery EvidenceGates Scheduler
begin

text \<open>
  What \<open>engine/graph_bridge.py\<close> reads: an evidence file with its hash, the entries of a discovery report,
  and \<open>_check_identity\<close>, which compares every identity field a document carries, at the top, in its
  target and in its candidate, with the persisted run. \<open>canonical_hardware\<close> is the one of
  \<open>core/target.py\<close>.
\<close>

section \<open>Files\<close>

text \<open>\<open>_load\<close>, \<open>_file\<close>\<close>

definition parse_json :: "lib \<Rightarrow> string \<Rightarrow> exc + pyval" where
  "parse_json L c = (case json_loads L c of None \<Rightarrow> Inl (ValueError (Msg ''Expecting value'' [])) | Some v \<Rightarrow> Inr v)"

definition load_object :: "lib \<Rightarrow> fs \<Rightarrow> path \<Rightarrow> exc + pydict" where
  "load_object L f p = rbind (read_bytes f p) (\<lambda>c. rbind (parse_json L c) (\<lambda>v.
     case v of JDict d \<Rightarrow> Inr d | _ \<Rightarrow> Inl (ValueError (Msg ''expected JSON object'' []))))"

definition evidence_file :: "lib \<Rightarrow> fs \<Rightarrow> path \<Rightarrow> exc + pydict" where
  "evidence_file L f p =
     (if is_symlink f p \<or> \<not> is_file f p
      then Inl (ValueError (Msg ''evidence must be a regular non-symlink file'' []))
      else rbind (read_bytes f p) (\<lambda>c.
        if c = [] then Inl (ValueError (Msg ''empty evidence'' []))
        else rbind (resolve f p) (\<lambda>q. Inr [(''path'', JStr (path_str q)), (''sha256'', JStr (sha256 L c))])))"

text \<open>\<open>Path(v)\<close> of a recorded value.\<close>

definition value_path :: "lib \<Rightarrow> pyval \<Rightarrow> exc + path" where
  "value_path L v = rbind (text_path v) (\<lambda>s. Inr (locate L s))"

text \<open>A recorded file that must still have its hash: \<open>_file(Path(item["path"])) != item\<close>.\<close>

definition recheck_file :: "lib \<Rightarrow> fs \<Rightarrow> pyval \<Rightarrow> exc + unit" where
  "recheck_file L f item =
     rbind (vindex item ''path'') (\<lambda>v. rbind (value_path L v) (\<lambda>p. rbind (evidence_file L f p) (\<lambda>e.
       rguard (py_eq (JDict e) item) (ValueError (Msg ''accepted evidence changed'' [v])))))"

definition recheck_files :: "lib \<Rightarrow> fs \<Rightarrow> pyval \<Rightarrow> exc + unit" where
  "recheck_files L f items = rbind (viter items) (\<lambda>xs. rbind (rmapM (recheck_file L f) xs) (\<lambda>_. Inr ()))"

section \<open>Entries\<close>

text \<open>\<open>_identifier\<close> of an entry.\<close>

definition entry_identifier :: "pydict \<Rightarrow> pyval" where
  "entry_identifier e = py_or (py_or (py_or (py_or (dget e ''operator_id'') (dget e ''operator'')) (dget e ''symbol''))
     (dget e ''name'')) (if dget e ''class'' = JStr ''CAPABILITY_MISSING'' then dget e ''axis'' else JNone)"

definition first_key :: "pydict \<Rightarrow> string list \<Rightarrow> string option" where
  "first_key d ks = find (dhas d) ks"

definition discovery_entries :: "pyval \<Rightarrow> exc + pyval list" where
  "discovery_entries report =
     rbind (case report of
         JDict d \<Rightarrow>
           (case first_key d [''entries'', ''gaps'', ''findings''] of
              Some k \<Rightarrow> Inr (dget d k)
            | None \<Rightarrow> if truthy (entry_identifier d) then Inr (JList [report])
                else Inl (ValueError (Msg ''discovery report must contain entries, gaps, or findings'' [])))
       | _ \<Rightarrow> Inr report) (\<lambda>v. case v of
         JList xs \<Rightarrow> Inr xs
       | _ \<Rightarrow> Inl (ValueError (Msg ''discovery entries must be a list'' [])))"

section \<open>Gates\<close>

definition accuracy_errors :: "lib \<Rightarrow> pydict \<Rightarrow> errs" where
  "accuracy_errors L report =
     (if \<not> (case dget report ''cases'' of JList cs \<Rightarrow> list_all is_dict cs | _ \<Rightarrow> False) \<or>
         \<not> is_dict (dget report ''reference'') \<or> \<not> is_dict (dget report ''candidate'')
      then flag True (Msg ''accuracy evidence requires case objects and reference/candidate objects'' [])
      else validate_accuracy_report L report [(''require_top1_match_on_all_cases'', JBool True)])"

definition deployment_errors :: "pydict \<Rightarrow> errs" where
  "deployment_errors report =
     (if \<not> is_dict (dget report ''checks'') \<or> \<not> is_list (dget report ''artifacts'')
      then flag True (Msg ''deployment evidence requires checks and an artifact list'' [])
      else validate_deployment_status report)"

text \<open>\<open>if errors: raise ValueError("; ".join(errors))\<close>\<close>

definition no_errors :: "errs \<Rightarrow> exc + unit" where
  "no_errors c = rbind c (\<lambda>ms. rguard (ms = []) (ValueError (Msg ''; '' (map msg_text ms))))"

lemma no_errors_Inr [simp]: "no_errors c = Inr u \<longleftrightarrow> c = Inr []"
  by (cases c) (auto simp: no_errors_def rguard_eq_Inr)

section \<open>Identity\<close>

definition hardware_aliases :: "(string \<times> string) list" where
  "hardware_aliases = [(''Kunlunxin-3-P800'', ''kunlun/p800''), (''P800'', ''kunlun/p800''),
     (''p800'', ''kunlun/p800''), (''kunlun-p800'', ''kunlun/p800'')]"

definition canonical_hardware :: "pyval \<Rightarrow> exc + pyval" where
  "canonical_hardware v =
     (if \<not> hashable v then Inl TypeError
      else Inr (case v of
          JStr s \<Rightarrow> (case map_of hardware_aliases s of Some t \<Rightarrow> JStr t | None \<Rightarrow> v)
        | _ \<Rightarrow> v))"

definition dashed :: "string \<Rightarrow> string" where
  "dashed s = map (\<lambda>c. if c = CHR ''_'' then CHR ''-'' else c) s"

text \<open>The fields a document is compared on.\<close>

definition run_identity :: "run \<Rightarrow> pydict" where
  "run_identity r =
     [(''run_id'', JStr (r_id r)), (''subject'', JStr (r_model r)), (''model_id'', JStr (r_model r)),
      (''model'', JStr (r_model r)), (''backend'', JStr (r_backend r)),
      (''model_revision'', JStr (r_model_revision r)), (''plugin_revision'', JStr (r_plugin_revision r)),
      (''evidence_mode'', run_mode r)]"

definition scalar :: "pyval \<Rightarrow> bool" where
  "scalar v \<longleftrightarrow> is_str v \<or> isinstance_int v"

definition expected_identity :: "pydict \<Rightarrow> run \<Rightarrow> bool \<Rightarrow> bool \<Rightarrow> exc + pydict" where
  "expected_identity environment r environment_proof imported =
     (let own = run_identity r @ filter (\<lambda>(k, v). scalar v \<and> \<not> dhas (run_identity r) k) (r_environment r);
          merged = dmerge environment own;
          expected = (if imported then AList.delete ''run_id'' merged else merged) in
      rbind (run_fingerprint r) (\<lambda>fp.
      if \<not> truthy fp then Inr expected
      else let pinned = dset (dset expected ''environment_fingerprint'' fp) ''fingerprint'' fp in
        if environment_proof then Inr pinned
        else rbind (vindex (dget (r_environment r) ''environment_proof'') ''pod'') (\<lambda>pod.
          Inr (dset pinned ''pod'' pod))))"

definition identity_field :: "pydict \<Rightarrow> string \<times> pyval \<Rightarrow> exc + unit" where
  "identity_field d kv =
     (let k = fst kv in
      if \<not> dhas d k then Inr ()
      else
        rbind (if k = ''hardware''
               then rbind (canonical_hardware (dget d k)) (\<lambda>a. rbind (canonical_hardware (snd kv)) (\<lambda>b. Inr (a, b)))
               else Inr (case (k = ''plugin'', dget d k, snd kv) of
                   (True, JStr a, JStr b) \<Rightarrow> (JStr (dashed a), JStr (dashed b))
                 | _ \<Rightarrow> (dget d k, snd kv))) (\<lambda>(a, b).
        rguard (py_eq a b) (ValueError (Msg ''graph evidence does not match adaptation run'' [JStr k]))))"

definition flat_target :: "bool \<Rightarrow> pydict \<Rightarrow> exc + pydict" where
  "flat_target environment_proof target =
     (case dget_or target ''runtime'' (JDict []) of
        JDict runtime \<Rightarrow>
          let merged = AList.delete ''target'' (dmerge target runtime) in
          (case dget_or merged ''revisions'' (JDict []) of
             JDict revisions \<Rightarrow>
               let flat = dmerge (AList.delete ''revisions'' merged)
                 (map (\<lambda>(k, v). (k @ ''_revision'', v)) revisions) in
               Inr (if environment_proof then AList.delete ''model_revision'' (AList.delete ''model'' flat) else flat)
           | _ \<Rightarrow> Inl (ValueError (Msg ''evidence target revisions must be an object'' [])))
      | _ \<Rightarrow> Inl (ValueError (Msg ''evidence target runtime must be an object'' [])))"

definition workspace_owned :: "run \<Rightarrow> bool \<Rightarrow> pydict \<Rightarrow> bool" where
  "workspace_owned r imported d \<longleftrightarrow> (case dget d ''workspace_identity'' of
      JNone \<Rightarrow> True
    | JDict ws \<Rightarrow> imported \<or> py_eq (dget ws ''run_id'') (JStr (r_id r))
    | _ \<Rightarrow> imported)"

text \<open>The recursion goes into the flattened target, which has no target of its own, and into the
  candidate; both are less deeply nested than the document.\<close>

fun depth :: "pyval \<Rightarrow> nat" where
  "depth (JDict d) = Suc (foldr (\<lambda>(_, v) n. max (depth v) n) d 0)"
| "depth _ = 0"

lemma foldr_max_le: "foldr (\<lambda>(_, v) n. max (g v) n) d 0 \<le> (n :: nat) \<longleftrightarrow> (\<forall>(k, v) \<in> set d. g v \<le> n)"
  by (induction d) auto

lemma depth_dict_le: "depth (JDict d) \<le> Suc n \<longleftrightarrow> (\<forall>(k, v) \<in> set d. depth v \<le> n)"
  by (simp add: foldr_max_le)

lemma depth_pos: "0 < depth (JDict d)" "depth (JDict []) = 1"
  by simp_all

declare depth.simps(1) [simp del]

lemma depth_value: "(k, v) \<in> set d \<Longrightarrow> depth v < depth (JDict d)"
  using depth_dict_le[of d "depth (JDict d) - 1"] depth_pos(1)[of d] by fastforce

lemma depth_dget: "depth (dget d k) < depth (JDict d)"
  by (cases "map_of d k") (auto simp: dget_def depth_pos intro: depth_value dest: map_of_SomeD)

lemma set_dset: "set (dset d k v) \<subseteq> insert (k, v) (set d)"
  unfolding dset_def by (induction d) auto

lemma set_dmerge: "set (dmerge a b) \<subseteq> set a \<union> set b"
proof (induction b arbitrary: a)
  case (Cons p b)
  obtain k v where p: "p = (k, v)" by (cases p)
  have "set (dmerge a (p # b)) \<subseteq> set (dset a k v) \<union> set b"
    using Cons.IH[of "dset a k v"] by (simp add: dmerge_def p)
  then show ?case using set_dset[of a k v] by (auto simp: p)
qed (simp add: dmerge_def)

lemma set_delete: "set (AList.delete k d) \<subseteq> set d"
  by (induction d) auto

lemma depth_flat_target:
  assumes "flat_target proof t = Inr flat"
  shows "depth (JDict flat) \<le> depth (JDict t)"
proof -
  obtain runtime where rt: "dget_or t ''runtime'' (JDict []) = JDict runtime"
    using assms by (auto simp: flat_target_def split: pyval.splits)
  define merged where "merged = AList.delete ''target'' (dmerge t runtime)"
  obtain revisions where rv: "dget_or merged ''revisions'' (JDict []) = JDict revisions"
    using assms by (auto simp: flat_target_def rt merged_def Let_def split: pyval.splits)
  define n where "n = depth (JDict t) - 1"
  have n: "depth (JDict t) = Suc n" using depth_pos(1)[of t] by (simp add: n_def)
  have t: "depth v \<le> n" if "(k, v) \<in> set t" for k v
    using depth_value[OF that] n by simp
  have r: "depth v \<le> n" if "(k, v) \<in> set runtime" for k v
  proof (cases "map_of t ''runtime''")
    case (Some x)
    then have "depth (JDict runtime) \<le> n" using rt t map_of_SomeD[OF Some] by (simp add: dget_or_def)
    then show ?thesis using depth_value[OF that] by simp
  qed (use rt that in \<open>simp add: dget_or_def\<close>)
  have m: "depth v \<le> n" if "(k, v) \<in> set merged" for k v
    using that set_delete[of "''target''" "dmerge t runtime"] set_dmerge[of t runtime] t r by (auto simp: merged_def)
  have v: "depth v \<le> n" if "(k, v) \<in> set revisions" for k v
  proof (cases "map_of merged ''revisions''")
    case (Some x)
    then have "depth (JDict revisions) \<le> n" using rv m map_of_SomeD[OF Some] by (simp add: dget_or_def)
    then show ?thesis using depth_value[OF that] by simp
  qed (use rv that in \<open>simp add: dget_or_def\<close>)
  define renamed where "renamed = map (\<lambda>(k, v). (k @ ''_revision'', v)) revisions"
  define flat' where "flat' = dmerge (AList.delete ''revisions'' merged) renamed"
  have "depth v \<le> n" if "(k, v) \<in> set renamed" for k v
    using that v by (auto simp: renamed_def)
  then have f: "depth v \<le> n" if "(k, v) \<in> set flat'" for k v
    using that set_dmerge[of "AList.delete ''revisions'' merged" renamed] set_delete[of "''revisions''" merged] m
    unfolding flat'_def by blast
  have "flat = (if proof then AList.delete ''model_revision'' (AList.delete ''model'' flat') else flat')"
    using assms by (simp add: flat_target_def rt rv merged_def[symmetric] Let_def renamed_def[symmetric] flat'_def[symmetric])
  then have "set flat \<subseteq> set flat'"
    using set_delete[of "''model_revision''" "AList.delete ''model'' flat'"] set_delete[of "''model''" flat']
    by (auto split: if_splits)
  then have "depth (JDict flat) \<le> Suc n" unfolding depth_dict_le using f by auto
  then show ?thesis using n by simp
qed

function check_run_identity :: "pydict \<Rightarrow> run \<Rightarrow> bool \<Rightarrow> bool \<Rightarrow> pyval \<Rightarrow> exc + unit" where
  "check_run_identity environment r environment_proof imported v =
     (case v of
        JDict d \<Rightarrow>
          rbind (expected_identity environment r environment_proof imported) (\<lambda>expected.
          rbind (rmapM (identity_field d) expected) (\<lambda>_.
          rbind (case dget d ''target'' of
              JDict t \<Rightarrow> rbind (flat_target environment_proof t) (\<lambda>flat.
                check_run_identity environment r False False (JDict flat))
            | _ \<Rightarrow> Inr ()) (\<lambda>_.
          rbind (rguard (workspace_owned r imported d)
            (ValueError (Msg ''environment proof belongs to a different run'' []))) (\<lambda>_.
          case dget d ''candidate'' of
            JDict c \<Rightarrow> check_run_identity environment r False False (JDict c)
          | _ \<Rightarrow> Inr ()))))
      | _ \<Rightarrow> Inl (ValueError (Msg ''evidence identity must be an object'' [])))"
  by pat_completeness auto
termination
proof (relation "measure (\<lambda>(_, _, _, _, v). depth v)", goal_cases)
  case (2 e r p i v d x1 x2 t flat)
  have "depth (JDict t) < depth (JDict d)"
    using depth_dget[of d "''target''"] 2 by simp
  with depth_flat_target[of p t flat] 2 show ?case by simp
next
  case (3 e r p i v d x1 x2 x3 x4 c)
  then show ?case using depth_dget[of d "''candidate''"] by simp
qed simp

declare check_run_identity.simps [simp del]

section \<open>What an accepted identity means\<close>

text \<open>A document that passes names no other run, model, backend or revision.\<close>

lemma check_run_identity_field:
  assumes "check_run_identity environment r environment_proof imported (JDict d) = Inr u"
    and "expected_identity environment r environment_proof imported = Inr expected"
    and "map_of expected k = Some x" and "dhas d k" and "k \<noteq> ''hardware''" "k \<noteq> ''plugin''"
  shows "py_eq (dget d k) x"
proof -
  obtain us where "rmapM (identity_field d) expected = Inr us"
    using assms(1,2) by (auto simp: check_run_identity.simps rbind_eq_Inr)
  then have "identity_field d (k, x) = Inr ()"
    using rmapM_result[of "identity_field d" expected us "(k, x)"] map_of_SomeD[OF assms(3)] by auto
  then show ?thesis using assms(4-6) by (simp add: identity_field_def rguard_eq_Inr Let_def)
qed

end
