(* ===== verification/SkillRegistry.thy ===== *)
theory SkillRegistry
  imports Checks Artifacts SampleLib
begin

text \<open>
  \<open>engine/skill_registry.py\<close>: the catalog that maps a task type and a context to one skill, the installed
  method packages, and the execution contract that binds a skill to the document of its package.
  \<open>registry_complete\<close>: when \<open>validate_method_references\<close> reports nothing, no task type of the catalog can
  fail to get its contract.

  The bytes of a file and the text that is decoded from them are the same string.
\<close>

section \<open>Text files\<close>

text \<open>\<open>read_text\<close> translates the line ends.\<close>

definition line_feed :: char where "line_feed = CHR 0x0A"
definition carriage_return :: char where "carriage_return = CHR 0x0D"

fun unify_newlines :: "string \<Rightarrow> string" where
  "unify_newlines [] = []"
| "unify_newlines [c] = [if c = carriage_return then line_feed else c]"
| "unify_newlines (c # d # s) =
     (if c = carriage_return
      then line_feed # (if d = line_feed then unify_newlines s else unify_newlines (d # s))
      else c # unify_newlines (d # s))"

definition read_text :: "fs \<Rightarrow> path \<Rightarrow> exc + string" where
  "read_text f p = rbind (read_bytes f p) (\<lambda>c. Inr (unify_newlines c))"

definition unresolved_skill :: "string \<Rightarrow> pyval list \<Rightarrow> exc" where
  "unresolved_skill s vs = SkillResolutionError (Msg s vs)"

text \<open>A YAML file that must hold a mapping; an empty one counts as an empty mapping.\<close>

definition yaml_mapping :: "lib \<Rightarrow> string \<Rightarrow> string \<Rightarrow> exc + pydict" where
  "yaml_mapping L what text = rbind (yaml_loads L text) (\<lambda>v. case v of
      JNone \<Rightarrow> Inr []
    | JDict d \<Rightarrow> Inr d
    | _ \<Rightarrow> Inl (unresolved_skill what []))"

section \<open>The catalog\<close>

definition nonempty_text :: "pyval \<Rightarrow> bool" where
  "nonempty_text v \<longleftrightarrow> (case v of JStr s \<Rightarrow> s \<noteq> [] | _ \<Rightarrow> False)"

definition text_list :: "pyval \<Rightarrow> bool" where
  "text_list v \<longleftrightarrow> (case v of JList xs \<Rightarrow> xs \<noteq> [] \<and> list_all nonempty_text xs | _ \<Rightarrow> False)"

definition check_catalog_entry :: "pyval \<Rightarrow> exc + pydict" where
  "check_catalog_entry entry = (case entry of
      JDict e \<Rightarrow>
        rbind (rguard (nonempty_text (dget e ''id'')) (unresolved_skill ''entry has no valid id'' [])) (\<lambda>_.
        rbind (rguard (text_list (dget e ''task_types'')) (unresolved_skill ''entry has invalid task_types'' [])) (\<lambda>_.
        rbind (rguard (dget e ''when'' = JNone \<or> is_dict (dget e ''when''))
          (unresolved_skill ''entry has invalid when conditions'' [])) (\<lambda>_.
        rbind (rguard (dget e ''method_package'' = JNone \<or> nonempty_text (dget e ''method_package''))
          (unresolved_skill ''entry has invalid method_package'' [])) (\<lambda>_.
        Inr e))))
    | _ \<Rightarrow> Inl (unresolved_skill ''entry must be a mapping'' []))"

definition load_catalog :: "lib \<Rightarrow> fs \<Rightarrow> path \<Rightarrow> exc + pydict list" where
  "load_catalog L f p =
     rbind (rbind (read_text f p) (yaml_mapping L ''must contain a YAML mapping'')) (\<lambda>payload.
     rbind (rguard (dget payload ''kind'' = JStr ''SkillCatalog'') (unresolved_skill ''is not a SkillCatalog'' [])) (\<lambda>_.
     case dget payload ''entries'' of
       JList (e # es) \<Rightarrow> rmapM check_catalog_entry (e # es)
     | _ \<Rightarrow> Inl (unresolved_skill ''has no Skill entries'' [])))"

text \<open>\<open>skill.get("task_types", [])\<close> and \<open>skill.get("when") or {}\<close> of a loaded entry.\<close>

definition task_types_of :: "pydict \<Rightarrow> pyval list" where
  "task_types_of skill = (case dget skill ''task_types'' of JList xs \<Rightarrow> xs | _ \<Rightarrow> [])"

definition conditions_of :: "pydict \<Rightarrow> pydict" where
  "conditions_of skill = (case dget skill ''when'' of JDict d \<Rightarrow> d | _ \<Rightarrow> [])"

definition skill_required :: "string list" where
  "skill_required = [''id'', ''task_types'', ''tools'', ''verification'', ''exit_conditions'']"

definition resolve_skill :: "lib \<Rightarrow> fs \<Rightarrow> path \<Rightarrow> pyval \<Rightarrow> exc + pydict" where
  "resolve_skill L f p t =
     rbind (load_catalog L f p) (\<lambda>entries.
     case filter (\<lambda>s. in_list t (task_types_of s) \<and> \<not> truthy (dget s ''when'')) entries of
       [s] \<Rightarrow> (if list_all (\<lambda>k. truthy (dget s k)) skill_required then Inr s
                else Inl (unresolved_skill ''Skill is missing fields'' []))
     | _ \<Rightarrow> Inl (unresolved_skill ''expected exactly one Skill for task_type'' [t]))"

definition skill_matches :: "pyval \<Rightarrow> pydict \<Rightarrow> pydict \<Rightarrow> bool" where
  "skill_matches t context s \<longleftrightarrow> in_list t (task_types_of s) \<and>
     list_all (\<lambda>(k, v). py_eq (dget context k) v) (conditions_of s)"

definition specificity :: "pydict \<Rightarrow> nat" where
  "specificity s = length (conditions_of s)"

definition most_specific :: "pydict list \<Rightarrow> pydict list" where
  "most_specific cs = filter (\<lambda>s. specificity s = Max (set (map specificity cs))) cs"

definition resolve_for_context :: "lib \<Rightarrow> fs \<Rightarrow> path \<Rightarrow> pyval \<Rightarrow> pydict \<Rightarrow> exc + pydict" where
  "resolve_for_context L f p t context =
     rbind (load_catalog L f p) (\<lambda>entries.
     let candidates = filter (skill_matches t context) entries in
     if candidates = [] then Inl (unresolved_skill ''no Skill matches task_type and context'' [t])
     else (case most_specific candidates of
         [s] \<Rightarrow> Inr s
       | _ \<Rightarrow> Inl (unresolved_skill ''ambiguous Skill match for task_type'' [t])))"

definition index_by_task_type :: "lib \<Rightarrow> fs \<Rightarrow> path \<Rightarrow> exc + (pyval \<times> pydict) list" where
  "index_by_task_type L f p =
     rbind (load_catalog L f p) (\<lambda>entries.
     let index = concat (map (\<lambda>s. map (\<lambda>t. (t, s)) (task_types_of s)) (filter (\<lambda>s. \<not> truthy (dget s ''when'')) entries)) in
     if distinct (map fst index) then Inr index
     else Inl (unresolved_skill ''duplicate task_type registration'' []))"

definition tool_ids :: "pyval \<Rightarrow> exc + pyval list" where
  "tool_ids payload =
     rbind (vget_or (py_or payload (JDict [])) ''entries'' (JList [])) (\<lambda>v. rbind (viter v) (\<lambda>es.
     rbind (rmapM (\<lambda>e. vget e ''id'') es) py_set))"

definition unknown_tools :: "pyval list \<Rightarrow> pydict \<Rightarrow> errs" where
  "unknown_tools known skill =
     rbind (viter (dget_or skill ''tools'' (JList []))) (each (\<lambda>tool.
       if \<not> hashable tool then Inl TypeError
       else flag (\<not> in_list tool known) (Msg ''unknown tool'' [dget skill ''id'', tool])))"

definition validate_tool_references :: "lib \<Rightarrow> fs \<Rightarrow> path \<Rightarrow> path \<Rightarrow> errs" where
  "validate_tool_references L f catalog tools =
     rbind (rbind (rbind (read_text f tools) (yaml_loads L)) tool_ids) (\<lambda>known.
     rbind (load_catalog L f catalog) (each (unknown_tools known)))"

section \<open>Packages\<close>

record package =
  pk_id :: string
  pk_data :: pydict
  pk_path :: path

text \<open>\<open>sorted(skills_root.glob("*/skill.yaml"))\<close>\<close>

definition package_files :: "fs \<Rightarrow> path \<Rightarrow> path list" where
  "package_files f dir =
     (if stat f dir \<noteq> Some Dir then []
      else map (\<lambda>n. dir @ [n, ''skill.yaml''])
        (filter (\<lambda>n. stat f (dir @ [n]) = Some Dir \<and> path_exists f (dir @ [n, ''skill.yaml'']))
          (case full f dir of None \<Rightarrow> [] | Some q \<Rightarrow> children f q)))"

definition read_package :: "lib \<Rightarrow> fs \<Rightarrow> path \<Rightarrow> exc + package" where
  "read_package L f p =
     rbind (rbind (read_text f p) (yaml_mapping L ''must contain a YAML mapping'')) (\<lambda>d.
     rbind (rguard (dget d ''kind'' = JStr ''Skill'' \<and> truthy (dget d ''id''))
       (unresolved_skill ''is not a valid Skill package'' [])) (\<lambda>_.
     rbind (case dget d ''id'' of JStr s \<Rightarrow> Inr s | _ \<Rightarrow> Inl (unresolved_skill ''has an invalid Skill id'' [])) (\<lambda>i.
     rbind (rguard (text_list (dget d ''task_types'')) (unresolved_skill ''has invalid task_types'' [])) (\<lambda>_.
     rbind (rguard (list_all (\<lambda>k. nonempty_text (dget d k)) [''catalog'', ''method_document''])
       (unresolved_skill ''has an invalid field'' [])) (\<lambda>_.
     Inr \<lparr>pk_id = i, pk_data = d, pk_path = p\<rparr>)))))"

fun add_packages :: "lib \<Rightarrow> fs \<Rightarrow> package list \<Rightarrow> path list \<Rightarrow> exc + package list" where
  "add_packages L f acc [] = Inr acc"
| "add_packages L f acc (p # ps) =
     rbind (read_package L f p) (\<lambda>k.
     if pk_id k \<in> set (map pk_id acc) then Inl (unresolved_skill ''duplicate Skill package id'' [])
     else add_packages L f (acc @ [k]) ps)"

definition load_packages :: "lib \<Rightarrow> fs \<Rightarrow> path \<Rightarrow> exc + package list" where
  "load_packages L f dir = add_packages L f [] (package_files f dir)"

definition package_of :: "package list \<Rightarrow> string \<Rightarrow> package option" where
  "package_of ps i = find (\<lambda>k. pk_id k = i) ps"

section \<open>Execution contracts\<close>

definition contract_keys :: "string list" where
  "contract_keys = [''id'', ''task_types'', ''purpose'', ''tools'', ''verification'', ''preconditions'',
     ''exit_conditions'', ''rules'', ''when'']"

text \<open>The first candidate location that satisfies \<open>good\<close>, else the first.\<close>

definition located :: "fs \<Rightarrow> (path \<Rightarrow> bool) \<Rightarrow> string \<Rightarrow> path list \<Rightarrow> exc + path" where
  "located f good s bases =
     (if is_absolute s then resolve f (path_parts s)
      else rbind (rmapM (\<lambda>b. resolve f (b @ path_parts s)) bases) (\<lambda>cs.
        Inr (case find good cs of Some c \<Rightarrow> c | None \<Rightarrow> hd cs)))"

text \<open>The text before the first occurrence of \<open>sep\<close>.\<close>

fun before :: "string \<Rightarrow> string \<Rightarrow> string" where
  "before sep [] = []"
| "before sep (c # s) = (if starts_with (c # s) sep then [] else c # before sep s)"

definition fence :: string where "fence = [line_feed] @ ''---'' @ [line_feed]"

definition has_front_matter :: "string \<Rightarrow> bool" where
  "has_front_matter content \<longleftrightarrow> starts_with content (''---'' @ [line_feed]) \<and> contains (drop 4 content) fence"

definition method_content :: "lib \<Rightarrow> fs \<Rightarrow> string \<Rightarrow> path \<Rightarrow> exc + string" where
  "method_content L f i p =
     rbind (rguard (is_file f p) (unresolved_skill ''method document does not exist'' [])) (\<lambda>_.
     rbind (read_text f p) (\<lambda>content.
     rbind (rguard (strip content \<noteq> []) (unresolved_skill ''method document is empty'' [])) (\<lambda>_.
     rbind (rguard (has_front_matter content) (unresolved_skill ''method document has no YAML front matter'' [])) (\<lambda>_.
     rbind (yaml_mapping L ''front matter must be a YAML mapping'' (drop 4 (before fence content))) (\<lambda>front.
     rbind (rguard (dget front ''name'' = JStr i) (unresolved_skill ''document name does not match its id'' [])) (\<lambda>_.
     Inr content))))))"

definition method_path :: "lib \<Rightarrow> fs \<Rightarrow> path \<Rightarrow> package \<Rightarrow> string \<Rightarrow> exc + path" where
  "method_path L f dir k document =
     rbind (resolve f (pk_path k)) (\<lambda>descriptor.
     rbind (located f (\<lambda>c. butlast c = butlast descriptor) document
       [repo_root L, butlast dir, butlast (pk_path k)]) (\<lambda>p.
     rbind (resolve f dir) (\<lambda>skills.
     rbind (rguard (under p skills) (unresolved_skill ''points outside skills/'' [])) (\<lambda>_.
     rbind (rguard (butlast p = butlast descriptor) (unresolved_skill ''document is outside its package directory'' [])) (\<lambda>_.
     Inr p)))))"

definition method_of :: "lib \<Rightarrow> fs \<Rightarrow> path \<Rightarrow> path \<Rightarrow> package \<Rightarrow> pyval \<Rightarrow> exc + pydict" where
  "method_of L f dir catalog k t =
     rbind (rguard (in_list t (task_types_of (pk_data k)))
       (unresolved_skill ''method package does not support task_type'' [t])) (\<lambda>_.
     rbind (resolve f catalog) (\<lambda>expected.
     rbind (located f (\<lambda>c. c = expected) (str_or (dget (pk_data k) ''catalog'') []) [repo_root L, butlast dir]) (\<lambda>c.
     rbind (rguard (c = expected) (unresolved_skill ''method package does not reference the catalog'' [])) (\<lambda>_.
     let document = str_or (dget (pk_data k) ''method_document'') [] in
     rbind (method_path L f dir k document) (\<lambda>p.
     rbind (method_content L f (pk_id k) p) (\<lambda>content.
     Inr [(''package_id'', JStr (pk_id k)), (''document'', JStr document),
          (''sha256'', JStr (sha256 L content)), (''content'', JStr content)]))))))"

definition execution_contract :: "lib \<Rightarrow> fs \<Rightarrow> path \<Rightarrow> path \<Rightarrow> pydict \<Rightarrow> pyval \<Rightarrow> exc + pydict" where
  "execution_contract L f dir catalog skill t =
     (let contract = dset (filter (\<lambda>(k, _). k \<in> set contract_keys) skill) ''task_type'' t;
          i = dget skill ''method_package'' in
      if \<not> truthy i then Inr (dset contract ''method'' JNone)
      else
        rbind (load_packages L f dir) (\<lambda>ps.
        case package_of ps (py_str L i) of
          None \<Rightarrow> Inl (unresolved_skill ''Skill references unknown method package'' [i])
        | Some k \<Rightarrow> rbind (method_of L f dir catalog k t) (\<lambda>m. Inr (dset contract ''method'' (JDict m)))))"

section \<open>The references as a whole\<close>

definition registry_caught :: "exc \<Rightarrow> bool" where
  "registry_caught e \<longleftrightarrow> is_OSError e \<or> (case e of YAMLError _ \<Rightarrow> True | SkillResolutionError _ \<Rightarrow> True | _ \<Rightarrow> False)"

text \<open>A body in \<open>try\<close> whose exceptions of these classes become one message.\<close>

definition or_message :: "lib \<Rightarrow> errs \<Rightarrow> errs" where
  "or_message L c = (case c of Inr ms \<Rightarrow> Inr ms
     | Inl e \<Rightarrow> if registry_caught e then Inr [Msg ''rejected'' [JStr (exc_text L e)]] else Inl e)"

definition contracts_exist :: "lib \<Rightarrow> fs \<Rightarrow> path \<Rightarrow> path \<Rightarrow> pydict \<Rightarrow> errs" where
  "contracts_exist L f dir catalog skill =
     rbind (rmapM (execution_contract L f dir catalog skill) (task_types_of skill)) (\<lambda>_. Inr [])"

definition check_reference_of :: "lib \<Rightarrow> fs \<Rightarrow> path \<Rightarrow> path \<Rightarrow> package list \<Rightarrow> pydict \<Rightarrow> errs" where
  "check_reference_of L f dir catalog ps skill =
     (let i = dget skill ''method_package'' in
      if \<not> truthy i then Inr []
      else (case package_of ps (py_str L i) of
          None \<Rightarrow> Inr [Msg ''unknown method package'' [dget skill ''id'', i]]
        | Some k \<Rightarrow>
            let missing = filter (\<lambda>t. \<not> in_list t (task_types_of (pk_data k))) (task_types_of skill) in
            if missing \<noteq> [] then Inr [Msg ''method package does not support'' (dget skill ''id'' # missing)]
            else or_message L (contracts_exist L f dir catalog skill)))"

definition validate_method_references :: "lib \<Rightarrow> fs \<Rightarrow> path \<Rightarrow> path \<Rightarrow> errs" where
  "validate_method_references L f catalog dir =
     (let loaded = rbind (load_packages L f dir) (\<lambda>ps. rbind (load_catalog L f catalog) (\<lambda>skills. Inr (ps, skills))) in
      case loaded of
        Inl e \<Rightarrow> or_message L (Inl e)
      | Inr (ps, skills) \<Rightarrow>
          rbind (each (check_reference_of L f dir catalog ps) skills) (\<lambda>ms.
          let referenced = map (\<lambda>s. py_str L (dget s ''method_package'')) (filter (\<lambda>s. truthy (dget s ''method_package'')) skills) in
          Inr (ms @ map (\<lambda>k. Msg ''method package is not referenced by the catalog'' [JStr (pk_id k)])
            (filter (\<lambda>k. pk_id k \<notin> set referenced) ps))))"

section \<open>What the registry promises\<close>

lemma resolved_skill:
  assumes "resolve_for_context L f p t context = Inr s"
  shows "\<exists>entries. load_catalog L f p = Inr entries \<and> s \<in> set entries \<and> skill_matches t context s \<and>
    (\<forall>s' \<in> set entries. skill_matches t context s' \<longrightarrow> s' = s \<or> specificity s' < specificity s)"
proof -
  obtain entries where e: "load_catalog L f p = Inr entries"
    and m: "most_specific (filter (skill_matches t context) entries) = [s]"
    using assms by (auto simp: resolve_for_context_def rbind_eq_Inr Let_def split: if_splits list.splits)
  let ?cs = "filter (skill_matches t context) entries"
  have "s \<in> set (most_specific ?cs)" unfolding m by simp
  then have s: "s \<in> set ?cs" "specificity s = Max (set (map specificity ?cs))"
    by (simp_all add: most_specific_def)
  have "s' = s \<or> specificity s' < specificity s" if "s' \<in> set ?cs" for s'
  proof -
    have le: "specificity s' \<le> specificity s" unfolding s(2) using that by (intro Max_ge) auto
    show ?thesis
    proof (cases "specificity s' = specificity s")
      case True
      then have "s' \<in> set (most_specific ?cs)" using that s(2) by (simp add: most_specific_def)
      then show ?thesis unfolding m by simp
    qed (use le in simp)
  qed
  with e s show ?thesis by auto
qed

lemma or_message_clean [simp]: "or_message L c = Inr [] \<longleftrightarrow> c = Inr []"
  by (cases c) (auto simp: or_message_def)

text \<open>C40: A catalog that \<open>validate_method_references\<close> accepts cannot fail at execution: every skill of it
  gets an execution contract for each of its task types, and every installed package is the method of
  some skill.\<close>

theorem registry_complete:
  assumes "validate_method_references L f catalog dir = Inr []"
  shows "\<exists>ps skills. load_packages L f dir = Inr ps \<and> load_catalog L f catalog = Inr skills \<and>
    (\<forall>s \<in> set skills. \<forall>t \<in> set (task_types_of s). \<exists>c. execution_contract L f dir catalog s t = Inr c) \<and>
    (\<forall>k \<in> set ps. \<exists>s \<in> set skills. truthy (dget s ''method_package'') \<and> pk_id k = py_str L (dget s ''method_package''))"
proof -
  obtain ps skills where p: "load_packages L f dir = Inr ps" "load_catalog L f catalog = Inr skills"
    and c: "each (check_reference_of L f dir catalog ps) skills = Inr []"
    and r: "\<forall>k \<in> set ps. pk_id k \<in> set (map (\<lambda>s. py_str L (dget s ''method_package''))
       (filter (\<lambda>s. truthy (dget s ''method_package'')) skills))"
    using assms
    by (auto simp: validate_method_references_def Let_def rbind_eq_Inr filter_empty_conv split: sum.splits)
  have "\<exists>c. execution_contract L f dir catalog s t = Inr c" if s: "s \<in> set skills" and t: "t \<in> set (task_types_of s)" for s t
  proof (cases "truthy (dget s ''method_package'')")
    case True
    have "check_reference_of L f dir catalog ps s = Inr []"
      using c s by (auto simp: each_accepts)
    with True have "contracts_exist L f dir catalog s = Inr []"
      by (auto simp: check_reference_of_def Let_def split: option.splits if_splits)
    then obtain cs where "rmapM (execution_contract L f dir catalog s) (task_types_of s) = Inr cs"
      by (auto simp: contracts_exist_def rbind_eq_Inr)
    from rmapM_result[OF this t] show ?thesis by auto
  qed (simp add: execution_contract_def Let_def)
  with p r show ?thesis by fastforce
qed

lemma add_packages_from:
  "add_packages L f acc pp = Inr ps \<Longrightarrow> k \<in> set ps \<Longrightarrow> k \<in> set acc \<or> (\<exists>p \<in> set pp. read_package L f p = Inr k)"
  by (induction L f acc pp rule: add_packages.induct) (auto simp: rbind_eq_Inr split: if_splits)

text \<open>The document of a contract lies in the directory of its package, below the skills, and is the file
  whose hash the contract records.\<close>

lemma method_document:
  assumes "method_of L f dir catalog k t = Inr m"
  shows "\<exists>p content descriptor skills. read_text f p = Inr content \<and> is_file f p \<and> resolve f (pk_path k) = Inr descriptor \<and>
    resolve f dir = Inr skills \<and> under p skills \<and> butlast p = butlast descriptor \<and>
    dget m ''sha256'' = JStr (sha256 L content) \<and> dget m ''content'' = JStr content \<and> dget m ''package_id'' = JStr (pk_id k)"
  using assms
  by (auto simp: method_of_def method_path_def method_content_def rbind_eq_Inr rguard_eq_Inr Let_def)

section \<open>A small registry\<close>

definition small_skill :: pydict where
  "small_skill = [(''id'', JStr ''k''), (''task_types'', JList [JStr ''t'']), (''method_package'', JStr ''p'')]"

definition small_method :: string where
  "small_method = ''---'' @ [line_feed] @ ''m'' @ fence @ ''text''"

definition small_texts :: "(string \<times> pyval) list" where
  "small_texts =
     [(''catalog'', JDict [(''kind'', JStr ''SkillCatalog''), (''entries'', JList [JDict small_skill])]),
      (''package'', JDict [(''kind'', JStr ''Skill''), (''id'', JStr ''p''), (''task_types'', JList [JStr ''t'']),
         (''catalog'', JStr ''c''), (''method_document'', JStr ''d'')]),
      (''m'', JDict [(''name'', JStr ''p'')])]"

definition small_lib :: lib where
  "small_lib = demo_lib\<lparr>yaml_loads := (\<lambda>s. case map_of small_texts s of
     None \<Rightarrow> Inl (YAMLError (Msg ''invalid'' [])) | Some v \<Rightarrow> Inr v)\<rparr>"

definition small_fs :: fs where
  "small_fs = [([''r''], Dir), ([''r'', ''c''], File ''catalog''), ([''r'', ''s''], Dir), ([''r'', ''s'', ''p''], Dir),
     ([''r'', ''s'', ''p'', ''skill.yaml''], File ''package''), ([''r'', ''s'', ''p'', ''d''], File small_method)]"

lemma small_validated: "validate_method_references small_lib small_fs [''r'', ''c''] [''r'', ''s''] = Inr []"
  by code_simp

theorem registry_complete_witness:
  "\<exists>ps skills. load_packages small_lib small_fs [''r'', ''s''] = Inr ps \<and>
    load_catalog small_lib small_fs [''r'', ''c''] = Inr skills \<and>
    (\<forall>s \<in> set skills. \<forall>t \<in> set (task_types_of s).
       \<exists>c. execution_contract small_lib small_fs [''r'', ''s''] [''r'', ''c''] s t = Inr c) \<and>
    (\<forall>k \<in> set ps. \<exists>s \<in> set skills. truthy (dget s ''method_package'') \<and>
       pk_id k = py_str small_lib (dget s ''method_package''))"
  by (rule registry_complete[OF small_validated])

end
