(* ===== verification/GraphFacts.thy ===== *)
theory GraphFacts
  imports NodeTable Journal GraphEvidence SkillRegistry
begin

text \<open>
  The facts of the graph (\<open>runners/graph_runner.py\<close>): a node's recorded result may be used again only while
  its journal entry, its status file, its skill and its evidence still agree (\<open>reusable_fact\<close>), and only
  if the same holds of everything it was made from (\<open>reusable_inputs_current\<close>).
\<close>

section \<open>The state a node leaves\<close>

definition success_states :: "string list" where
  "success_states = [''INTAKE_READY'', ''ENVIRONMENT_READY'', ''SCAN_READY'', ''MATCH_READY'',
     ''CLASSIFICATION_READY'', ''EVALUATION_PASS'', ''PLAN_READY'', ''DEPLOYMENT_READY'', ''BUDGET_ACCEPTABLE'',
     ''CONFORMANT'', ''HANDOFF_READY'', ''TRIAGE_READY'', ''PATCH_PLACED'', ''KERNEL_PASS'', ''ACCURACY_PASS'',
     ''LONG_CONTEXT_PASS'', ''DISPATCHED'', ''DISPATCH_SKIPPED'', ''BASELINE_FROZEN'', ''WAITING_FOR_CANDIDATE'',
     ''READY_FOR_INTEGRATION'', ''DRIFT_CLEAR'', ''DRIFT_FOUND'', ''BRINGUP_PASS'', ''HANDOFF_CLEAR'',
     ''MATRIX_READY'', ''OPERATORS_READY'']"

definition read_status :: "lib \<Rightarrow> fs \<Rightarrow> path \<Rightarrow> node_spec \<Rightarrow> pydict" where
  "read_status L f dir s = (case load_object L f (dir @ [ns_state_file s]) of Inl _ \<Rightarrow> [] | Inr d \<Rightarrow> d)"

definition read_state :: "lib \<Rightarrow> fs \<Rightarrow> path \<Rightarrow> node_spec \<Rightarrow> string" where
  "read_state L f dir s = (case dget (read_status L f dir s) ''state'' of JStr x \<Rightarrow> x | _ \<Rightarrow> ''UNKNOWN'')"

text \<open>No validator, or one that passed without errors.\<close>

definition validator_passed :: "pydict \<Rightarrow> bool" where
  "validator_passed payload \<longleftrightarrow> (case dget payload ''validator'' of
      JNone \<Rightarrow> True
    | JDict v \<Rightarrow> is_True (dget v ''passed'') \<and> \<not> truthy (dget v ''errors'')
    | _ \<Rightarrow> False)"

definition node_passed :: "lib \<Rightarrow> fs \<Rightarrow> path \<Rightarrow> node_spec \<Rightarrow> pyval \<Rightarrow> bool" where
  "node_passed L f dir s returncode \<longleftrightarrow> py_eq returncode (JInt 0) \<and>
     read_state L f dir s \<in> set success_states \<and> validator_passed (read_status L f dir s)"

definition file_digest :: "lib \<Rightarrow> fs \<Rightarrow> path \<Rightarrow> pyval" where
  "file_digest L f p = (case read_bytes f p of Inl _ \<Rightarrow> JNone | Inr c \<Rightarrow> JStr (sha256 L c))"

definition proof_fingerprint :: "lib \<Rightarrow> fs \<Rightarrow> path \<Rightarrow> pyval" where
  "proof_fingerprint L f dir =
     (let p = dir @ [''environment_fingerprint.txt''] in
      case read_text f p of
        Inl _ \<Rightarrow> JNone
      | Inr s \<Rightarrow> if strip s = [] then JNone else file_digest L f p)"

section \<open>Reusing a recorded fact\<close>

definition fact_environment :: "pyval \<Rightarrow> pydict \<Rightarrow> pydict" where
  "fact_environment kind environment =
     (if in_strs kind [''ModelRequest'', ''EnvironmentProof'']
      then filter (\<lambda>(k, _). k \<notin> {''environment_fingerprint'', ''environment_pod''}) environment
      else environment)"

definition default_catalog :: "lib \<Rightarrow> path" where
  "default_catalog L = repo_root L @ [''catalog'', ''skill_catalog.yaml'']"

definition default_skills :: "lib \<Rightarrow> path" where
  "default_skills L = repo_root L @ [''skills'']"

definition skill_caught :: "exc \<Rightarrow> bool" where
  "skill_caught e \<longleftrightarrow> is_OSError e \<or> (case e of SkillResolutionError _ \<Rightarrow> True | _ \<Rightarrow> False)"

text \<open>The execution contract of a task type in a context; \<open>None\<close> where the \<open>except\<close> clause answers.\<close>

definition current_skill :: "lib \<Rightarrow> fs \<Rightarrow> pyval \<Rightarrow> pydict \<Rightarrow> exc + pydict option" where
  "current_skill L f t context =
     (case rbind (resolve_for_context L f (default_catalog L) t context)
         (\<lambda>s. execution_contract L f (default_skills L) (default_catalog L) s t) of
        Inr c \<Rightarrow> Inr (Some c)
      | Inl e \<Rightarrow> if skill_caught e then Inr None else Inl e)"

definition method_hash :: "pydict \<Rightarrow> exc + pyval" where
  "method_hash skill =
     (let m = dget skill ''method'' in if truthy m then vindex m ''sha256'' else Inr JNone)"

text \<open>A child of a fan-out was made with a contextual skill; it is resolved again.\<close>

definition child_skill_current :: "lib \<Rightarrow> fs \<Rightarrow> pydict \<Rightarrow> pydict \<Rightarrow> pyval \<Rightarrow> exc + bool" where
  "child_skill_current L f skill context child =
     (case child of
        JDict c \<Rightarrow>
          (case dget c ''context'' of
             JDict extra \<Rightarrow>
               if \<not> truthy (dget skill ''task_type'') then Inr False
               else rbind (current_skill L f (dget skill ''task_type'') (dmerge context extra)) (\<lambda>cur. case cur of
                   None \<Rightarrow> Inr False
                 | Some k \<Rightarrow>
                     rbind (vindex (JDict k) ''id'') (\<lambda>i.
                     if \<not> py_eq (dget c ''id'') i then Inr False
                     else rbind (method_hash k) (\<lambda>h. Inr (py_eq (dget c ''method_sha256'') h))))
           | _ \<Rightarrow> Inr False)
      | _ \<Rightarrow> Inr False)"

text \<open>Loops that stop at the first answer \<open>False\<close>.\<close>

fun rallM :: "('a \<Rightarrow> 'e + bool) \<Rightarrow> 'a list \<Rightarrow> 'e + bool" where
  "rallM p [] = Inr True"
| "rallM p (x # xs) = rbind (p x) (\<lambda>b. if b then rallM p xs else Inr False)"

lemma rallM_True: "rallM p xs = Inr True \<longleftrightarrow> (\<forall>x \<in> set xs. p x = Inr True)"
  by (induction xs) (auto simp: rbind_eq_Inr)

lemma rallM_cong [fundef_cong]:
  "xs = ys \<Longrightarrow> (\<And>x. x \<in> set ys \<Longrightarrow> p x = q x) \<Longrightarrow> rallM p xs = rallM q ys"
proof (induction ys arbitrary: xs)
  case (Cons a ys)
  have tail: "rallM p ys = rallM q ys" using Cons.IH[of ys] Cons.prems(2) by simp
  show ?case using Cons.prems by (cases "q a") (simp_all add: tail cong: if_cong)
qed simp

definition skill_current :: "lib \<Rightarrow> fs \<Rightarrow> pydict \<Rightarrow> pydict \<Rightarrow> pyval \<Rightarrow> exc + bool" where
  "skill_current L f skill context detail =
     rbind (vget detail ''skill'') (\<lambda>recorded.
     rbind (vindex (JDict skill) ''id'') (\<lambda>i. rbind (method_hash skill) (\<lambda>h. case recorded of
         JDict r \<Rightarrow>
           if \<not> (py_eq (dget r ''id'') i \<and> py_eq (dget r ''method_sha256'') h) then Inr False
           else rbind (viter (dget_or r ''children'' (JList []))) (rallM (child_skill_current L f skill context))
       | _ \<Rightarrow> Inr False)))"

definition plan_unchanged :: "lib \<Rightarrow> fs \<Rightarrow> path \<Rightarrow> node_spec \<Rightarrow> pydict \<Rightarrow> pyval \<Rightarrow> exc + bool" where
  "plan_unchanged L f dir s payload detail =
     (let digest = dget payload ''instance_sha256'' in
      if \<not> truthy digest \<or> \<not> py_eq digest (file_digest L f (dir @ [''kdp_instance.yaml''])) then Inr False
      else rbind (vget detail ''status_sha256'') (\<lambda>h. Inr (py_eq h (file_digest L f (dir @ [ns_state_file s])))))"

text \<open>The returncode and the hash of the status file, as they were recorded.\<close>

definition result_unchanged :: "lib \<Rightarrow> fs \<Rightarrow> path \<Rightarrow> node_spec \<Rightarrow> pyval \<Rightarrow> exc + bool" where
  "result_unchanged L f dir s detail =
     rbind (vget_or detail ''returncode'' (JInt 0)) (\<lambda>rc.
     if \<not> py_eq rc (JInt 0) then Inr False
     else rbind (vget detail ''status_sha256'') (\<lambda>h.
       Inr (truthy h \<longrightarrow> py_eq h (file_digest L f (dir @ [ns_state_file s])))))"

text \<open>The proofs are validated again, with all their artifacts; a document that the validator cannot read
  is not reused.\<close>

definition artifact_exists :: "fs \<Rightarrow> path \<Rightarrow> pyval \<Rightarrow> exc + bool" where
  "artifact_exists f dir name = rbind (text_path name) (\<lambda>s. Inr (path_exists f (below dir s)))"

definition proof_valid_body :: "lib \<Rightarrow> fs \<Rightarrow> path \<Rightarrow> bool \<Rightarrow> pydict \<Rightarrow> exc + bool" where
  "proof_valid_body L f dir environment_proof payload =
     rbind (if environment_proof then validate_environment_identity L f dir else Inr []) (\<lambda>es.
     if es \<noteq> [] then Inr False
     else rbind (if environment_proof then validate_environment_status payload else validate_deployment_status payload) (\<lambda>ms.
       if ms \<noteq> [] then Inr False
       else rbind (rbind (vindex (JDict payload) ''artifacts'') viter) (\<lambda>names.
         rbind (rallM (artifact_exists f dir) names) (\<lambda>b.
         Inr (b \<and> (environment_proof \<longrightarrow> list_all (\<lambda>n. is_file f (dir @ [n])) environment_artifacts))))))"

definition proof_valid :: "lib \<Rightarrow> fs \<Rightarrow> path \<Rightarrow> bool \<Rightarrow> pydict \<Rightarrow> exc + bool" where
  "proof_valid L f dir environment_proof payload =
     (case proof_valid_body L f dir environment_proof payload of
        Inl TypeError \<Rightarrow> Inr False
      | Inl AttributeError \<Rightarrow> Inr False
      | r \<Rightarrow> r)"

definition fingerprint_agrees :: "lib \<Rightarrow> fs \<Rightarrow> path \<Rightarrow> pydict \<Rightarrow> pyval \<Rightarrow> exc + bool" where
  "fingerprint_agrees L f dir environment detail =
     (let proven = proof_fingerprint L f dir in
      if \<not> truthy proven then Inr False
      else rbind (vget detail ''environment_fingerprint'') (\<lambda>h.
        if truthy h \<and> \<not> py_eq proven h then Inr False
        else Inr (in_list (dget environment ''environment_fingerprint'') [JNone, proven])))"

text \<open>The tests of \<open>reusable_fact\<close> on a hit of the journal, in their order.\<close>

definition and_then :: "exc + bool \<Rightarrow> exc + bool \<Rightarrow> exc + bool" where
  "and_then a b = rbind a (\<lambda>x. if x then b else Inr False)"

lemma and_then_True [simp]: "and_then a b = Inr True \<longleftrightarrow> a = Inr True \<and> b = Inr True"
  by (auto simp: and_then_def rbind_eq_Inr split: if_splits)

definition still_valid ::
  "lib \<Rightarrow> fs \<Rightarrow> node_spec \<Rightarrow> pydict \<Rightarrow> pydict option \<Rightarrow> pydict \<Rightarrow> pyval \<Rightarrow> path \<Rightarrow> exc + bool" where
  "still_valid L f s environment skill context hit dir =
     (let kind = ns_produces s; payload = read_status L f dir s in
      rbind (vindex hit ''state'') (\<lambda>state.
      if \<not> py_eq (dget payload ''state'') state \<or> \<not> validator_passed payload then Inr False
      else rbind (rbind (vget hit ''detail'') (\<lambda>d. Inr (py_or d (JDict [])))) (\<lambda>detail.
        and_then (if kind = ''DeploymentPlan'' then plan_unchanged L f dir s payload detail else Inr True)
        (and_then (case skill of None \<Rightarrow> Inr True | Some k \<Rightarrow> skill_current L f k context detail)
        (and_then (result_unchanged L f dir s detail)
        (and_then (if kind = ''EnvironmentProof'' \<or> kind = ''DeploymentProof''
                   then proof_valid L f dir (kind = ''EnvironmentProof'') payload else Inr True)
          (if kind = ''EnvironmentProof'' then fingerprint_agrees L f dir environment detail else Inr True)))))))"

definition reusable_fact ::
  "lib \<Rightarrow> fs \<Rightarrow> node_spec \<Rightarrow> string \<Rightarrow> path \<Rightarrow> pydict \<Rightarrow> pydict option \<Rightarrow> pydict \<Rightarrow> exc + pyval option" where
  "reusable_fact L f s subject journal environment skill context =
     (let kind = ns_produces s in
      if kind = [] \<or> environment = [] then Inr None
      else rbind (journal_latest L f journal kind (Some subject) (Some (fact_environment (JStr kind) environment)) []) (\<lambda>found.
        case found of
          None \<Rightarrow> Inr None
        | Some hit \<Rightarrow>
            rbind (rbind (vget hit ''state'') (\<lambda>x. in_strset x success_states)) (\<lambda>ok.
            if \<not> ok then Inr None
            else rbind (rbind (vindex hit ''artifacts'') (value_path L)) (\<lambda>dir.
              rbind (still_valid L f s environment skill context hit dir) (\<lambda>b.
              Inr (if b then Some hit else None))))))"

definition input_fact ::
  "lib \<Rightarrow> fs \<Rightarrow> path \<Rightarrow> string \<Rightarrow> string \<Rightarrow> pydict \<Rightarrow> pydict \<Rightarrow> bool \<Rightarrow> exc + pyval option" where
  "input_fact L f journal kind subject environment context verify_skill =
     (case producer_of kind of
        None \<Rightarrow> Inr None
      | Some (name, s) \<Rightarrow>
          let task_type = (case dget context ''_producer_task_types'' of JDict ts \<Rightarrow> dget ts kind | _ \<Rightarrow> JStr name) in
          if \<not> verify_skill then reusable_fact L f s subject journal environment None context
          else rbind (current_skill L f task_type context) (\<lambda>k. case k of
              None \<Rightarrow> Inr None
            | Some skill \<Rightarrow> reusable_fact L f s subject journal environment (Some skill) context))"

section \<open>Reusing what it was made from\<close>

text \<open>The position of an entry in the journal, the last equal one; \<open>-1\<close> where there is none.\<close>

definition last_index :: "pyval list \<Rightarrow> pyval \<Rightarrow> int" where
  "last_index es v = (case find (\<lambda>i. py_eq (es ! i) v) (rev [0..<length es]) of None \<Rightarrow> -1 | Some i \<Rightarrow> int i)"

definition fact_index :: "lib \<Rightarrow> fs \<Rightarrow> path \<Rightarrow> pyval \<Rightarrow> exc + int" where
  "fact_index L f journal entry = rbind (journal_load L f journal) (\<lambda>es. Inr (last_index es entry))"

text \<open>One consumed kind, up to the recursion into its producer: \<open>None\<close> where the answer is no, else the
  verified fact to go on with.\<close>

definition input_current ::
  "lib \<Rightarrow> fs \<Rightarrow> path \<Rightarrow> string \<Rightarrow> pydict \<Rightarrow> pydict \<Rightarrow> bool \<Rightarrow> string list \<times> string list \<Rightarrow> int \<Rightarrow> string \<Rightarrow>
     exc + pyval option option" where
  "input_current L f journal subject environment context require_order kinds current kind =
     rbind (input_fact L f journal kind subject environment context False) (\<lambda>raw.
     rbind (input_fact L f journal kind subject environment context True) (\<lambda>verified.
     if kind \<in> set (fst kinds) \<and> verified = None \<or> kind \<in> set (snd kinds) \<and> raw \<noteq> None \<and> verified = None
     then Inr None
     else (case verified of
         None \<Rightarrow> Inr (Some None)
       | Some v \<Rightarrow>
           if \<not> require_order then Inr (Some (Some v))
           else rbind (fact_index L f journal v) (\<lambda>i. Inr (if current \<le> i then None else Some (Some v))))))"

text \<open>The recursion goes from kind to kind without repetition.\<close>

definition kinds_left :: "node_spec \<Rightarrow> string list \<Rightarrow> nat" where
  "kinds_left s seen = card (insert (ns_produces s) (set node_kinds) - set seen) + (if ns_produces s = [] then 1 else 0)"

lemma kinds_left_less:
  assumes "producer_of kind = Some (name, p)" "ns_produces s \<noteq> [] \<longrightarrow> ns_produces s \<notin> set seen"
    "seen' = (if ns_produces s \<noteq> [] then ns_produces s # seen else seen)"
  shows "kinds_left p seen' < kinds_left s seen"
proof -
  have p: "ns_produces p \<in> set node_kinds" "ns_produces p \<noteq> []"
  proof -
    have m: "(name, p) \<in> set NODES" using producer_of_kind(2)[OF assms(1)] .
    then show "ns_produces p \<in> set node_kinds" by (force simp: node_kinds_def)
    have "[] \<notin> set node_kinds" by code_simp
    with \<open>ns_produces p \<in> set node_kinds\<close> show "ns_produces p \<noteq> []" by auto
  qed
  have i: "insert (ns_produces p) (set node_kinds) = set node_kinds" using p by auto
  show ?thesis
  proof (cases "ns_produces s = []")
    case True
    have "card (set node_kinds - set seen) \<le> card (insert [] (set node_kinds) - set seen)"
      by (intro card_mono) auto
    then show ?thesis using p assms(3) True by (simp add: kinds_left_def i)
  next
    case False
    then have n: "ns_produces s \<notin> set seen" using assms(2) by simp
    have "set node_kinds - set seen' \<subset> insert (ns_produces s) (set node_kinds) - set seen"
      using n assms(3) False by auto
    then have "card (set node_kinds - set seen') < card (insert (ns_produces s) (set node_kinds) - set seen)"
      by (intro psubset_card_mono) auto
    then show ?thesis using p by (simp add: kinds_left_def i)
  qed
qed

function reusable_inputs_current ::
  "lib \<Rightarrow> fs \<Rightarrow> path \<Rightarrow> string \<Rightarrow> pydict \<Rightarrow> pydict \<Rightarrow> bool \<Rightarrow> node_spec \<Rightarrow> pyval \<Rightarrow> string list \<Rightarrow> exc + bool" where
  "reusable_inputs_current L f journal subject environment context require_order s entry seen =
     (let produced = ns_produces s; kinds = input_kinds s in
      if produced \<noteq> [] \<and> produced \<in> set seen then Inr False
      else
        let seen' = (if produced \<noteq> [] then produced # seen else seen) in
        rbind (fact_index L f journal entry) (\<lambda>current.
        if current < 0 then Inr False
        else rallM (\<lambda>kind.
            rbind (input_current L f journal subject environment context require_order kinds current kind) (\<lambda>r. case r of
              None \<Rightarrow> Inr False
            | Some None \<Rightarrow> Inr True
            | Some (Some verified) \<Rightarrow>
                (case producer_of kind of
                   None \<Rightarrow> Inr True
                 | Some (_, maker) \<Rightarrow>
                     reusable_inputs_current L f journal subject environment context require_order maker verified seen')))
          (sort (remdups (fst kinds @ snd kinds)))))"
  by pat_completeness auto

termination
  by (relation "measure (\<lambda>(_, _, _, _, _, _, _, s, _, seen). kinds_left s seen)")
    (auto intro!: kinds_left_less split: if_splits)

declare reusable_inputs_current.simps [simp del]

section \<open>What a reused fact guarantees\<close>

abbreviation facts_current where
  "facts_current L f journal subject environment context order s entry seen \<equiv>
     reusable_inputs_current L f journal subject environment context order s entry seen = Inr True"

definition seen_with :: "node_spec \<Rightarrow> string list \<Rightarrow> string list" where
  "seen_with s seen = (if ns_produces s \<noteq> [] then ns_produces s # seen else seen)"

lemma current_fresh:
  assumes "facts_current L f journal subject environment context order s entry seen"
  shows "ns_produces s = [] \<or> ns_produces s \<notin> set seen"
    "\<exists>j. fact_index L f journal entry = Inr j \<and> 0 \<le> j"
  using assms by (subst (asm) reusable_inputs_current.simps; auto simp: Let_def rbind_eq_Inr split: if_splits)+

lemma input_current_answer:
  assumes "input_current L f journal subject environment context order kinds j kind = Inr (Some r)"
  shows "\<exists>raw. input_fact L f journal kind subject environment context False = Inr raw \<and>
    input_fact L f journal kind subject environment context True = Inr r \<and>
    (r = None \<longrightarrow> kind \<notin> set (fst kinds) \<and> (kind \<in> set (snd kinds) \<longrightarrow> raw = None)) \<and>
    (\<forall>v. r = Some v \<longrightarrow> order \<longrightarrow> (\<exists>i. fact_index L f journal v = Inr i \<and> i < j))"
  using assms
  by (auto simp: input_current_def rbind_eq_Inr split: if_splits option.splits)

lemma answered:
  assumes "rbind c (\<lambda>r. case r of None \<Rightarrow> Inr False | Some None \<Rightarrow> Inr True | Some (Some v) \<Rightarrow> g v) = Inr True"
  shows "\<exists>r. c = Inr (Some r) \<and> (\<forall>v. r = Some v \<longrightarrow> g v = Inr True)"
  using assms by (cases c) (auto split: option.splits)

lemma current_input:
  assumes c: "facts_current L f journal subject environment context order s entry seen"
    and k: "kind \<in> set (fst (input_kinds s)) \<union> set (snd (input_kinds s))"
  shows "\<exists>raw verified. input_fact L f journal kind subject environment context False = Inr raw \<and>
    input_fact L f journal kind subject environment context True = Inr verified \<and>
    (kind \<in> set (fst (input_kinds s)) \<or> raw \<noteq> None \<longrightarrow> verified \<noteq> None) \<and>
    (\<forall>v. verified = Some v \<longrightarrow>
       (order \<longrightarrow> (\<exists>i j. fact_index L f journal v = Inr i \<and> fact_index L f journal entry = Inr j \<and> i < j)) \<and>
       (\<forall>name p. producer_of kind = Some (name, p) \<longrightarrow>
          facts_current L f journal subject environment context order p v (seen_with s seen)))"
proof -
  let ?step = "\<lambda>j kind. rbind (input_current L f journal subject environment context order (input_kinds s) j kind)
    (\<lambda>r. case r of None \<Rightarrow> Inr False | Some None \<Rightarrow> Inr True
      | Some (Some v) \<Rightarrow> (case producer_of kind of None \<Rightarrow> Inr True
          | Some (_, p) \<Rightarrow> reusable_inputs_current L f journal subject environment context order p v (seen_with s seen)))"
  obtain j where j: "fact_index L f journal entry = Inr j" and all: "?step j kind = Inr True"
    using c k
    by (subst (asm) reusable_inputs_current.simps)
      (auto simp: Let_def rbind_eq_Inr rallM_True seen_with_def[symmetric] split: if_splits)
  obtain r where r: "input_current L f journal subject environment context order (input_kinds s) j kind = Inr (Some r)"
    and down: "\<forall>v. r = Some v \<longrightarrow> (case producer_of kind of None \<Rightarrow> Inr True
          | Some (_, p) \<Rightarrow> reusable_inputs_current L f journal subject environment context order p v (seen_with s seen))
        = Inr True"
    using answered[OF all] by blast
  have "\<forall>v. r = Some v \<longrightarrow> (\<forall>name p. producer_of kind = Some (name, p) \<longrightarrow>
      facts_current L f journal subject environment context order p v (seen_with s seen))"
    using down by auto
  with input_current_answer[OF r] k j show ?thesis by blast
qed

lemma success_strings: "in_strset v success_states = Inr True \<Longrightarrow> \<exists>st. v = JStr st \<and> st \<in> set success_states"
  by (auto simp: in_strset_def in_strs_def split: if_splits pyval.splits)

lemma hit_of_journal:
  assumes "journal_latest L f journal kind (Some subject) (Some env) [] = Inr (Some hit)"
  shows "\<exists>es. journal_load L f journal = Inr es \<and> hit \<in> set es \<and> entry_matches L kind (Some subject) (Some env) [] hit = Inr True"
proof -
  obtain hits where q: "journal_query L f journal kind (Some subject) (Some env) [] = Inr hits"
    and h: "(case hits of [] \<Rightarrow> None | h # _ \<Rightarrow> Some h) = Some hit"
    using assms by (auto simp: journal_latest_def rbind_eq_Inr)
  from h have m: "hit \<in> set hits" by (cases hits) auto
  obtain es ys where "journal_load L f journal = Inr es" "hits = rev ys"
    "filterM (entry_matches L kind (Some subject) (Some env) []) es = Inr ys"
    using q m by (auto simp: journal_query_def rbind_eq_Inr split: if_splits)
  with filterM_Inr[OF this(3)] m show ?thesis by auto
qed

definition hit_detail :: "pyval \<Rightarrow> exc + pyval" where
  "hit_detail hit = rbind (vget hit ''detail'') (\<lambda>d. Inr (py_or d (JDict [])))"

lemma reused:
  assumes "reusable_fact L f s subject journal environment skill context = Inr (Some hit)"
  shows "ns_produces s \<noteq> [] \<and> environment \<noteq> [] \<and>
    journal_latest L f journal (ns_produces s) (Some subject)
      (Some (fact_environment (JStr (ns_produces s)) environment)) [] = Inr (Some hit) \<and>
    (\<exists>st dir. vindex hit ''state'' = Inr (JStr st) \<and> st \<in> set success_states \<and>
      rbind (vindex hit ''artifacts'') (value_path L) = Inr dir \<and>
      still_valid L f s environment skill context hit dir = Inr True)"
proof -
  obtain v dir where *: "ns_produces s \<noteq> []" "environment \<noteq> []"
    "journal_latest L f journal (ns_produces s) (Some subject)
      (Some (fact_environment (JStr (ns_produces s)) environment)) [] = Inr (Some hit)"
    "vget hit ''state'' = Inr v" "in_strset v success_states = Inr True"
    "rbind (vindex hit ''artifacts'') (value_path L) = Inr dir"
    "still_valid L f s environment skill context hit dir = Inr True"
    using assms by (auto simp: reusable_fact_def Let_def rbind_eq_Inr split: if_splits option.splits)
  from success_strings[OF *(5)] obtain st where st: "v = JStr st" "st \<in> set success_states" by blast
  then have "vindex hit ''state'' = Inr (JStr st)"
    using *(7) *(4) by (auto simp: still_valid_def Let_def rbind_eq_Inr vget_Inr vindex_Inr dget_def)
  with * st show ?thesis by auto
qed

lemma matched_entry:
  assumes "entry_matches L kind (Some subject) (Some env) [] hit = Inr True"
  shows "vindex hit ''kind'' = Inr (JStr kind) \<and> vindex hit ''subject'' = Inr (JStr subject) \<and>
    (\<exists>e. vget hit ''environment'' = Inr e \<and> py_eq e (JDict env))"
  using assms by (auto simp: entry_matches_def rbind_eq_Inr split: if_splits)

lemma accepted_state:
  assumes "still_valid L f s environment skill context hit dir = Inr True" "vindex hit ''state'' = Inr (JStr st)"
  shows "read_state L f dir s = st \<and> validator_passed (read_status L f dir s)"
  using assms by (auto simp: still_valid_def Let_def rbind_eq_Inr read_state_def split: if_splits)

lemma accepted_detail:
  assumes "still_valid L f s environment skill context hit dir = Inr True"
  shows "\<exists>detail. hit_detail hit = Inr (JDict detail) \<and> py_eq (dget_or detail ''returncode'' (JInt 0)) (JInt 0) \<and>
    (truthy (dget detail ''status_sha256'') \<longrightarrow>
       py_eq (dget detail ''status_sha256'') (file_digest L f (dir @ [ns_state_file s]))) \<and>
    (\<forall>k. skill = Some k \<longrightarrow>
       (\<exists>r i. dget detail ''skill'' = JDict r \<and> vindex (JDict k) ''id'' = Inr i \<and> py_eq (dget r ''id'') i))"
proof -
  obtain detail where d: "hit_detail hit = Inr detail" "result_unchanged L f dir s detail = Inr True"
    and k: "(case skill of None \<Rightarrow> Inr True | Some k \<Rightarrow> skill_current L f k context detail) = Inr True"
    using assms by (auto simp: still_valid_def Let_def rbind_eq_Inr hit_detail_def split: if_splits)
  from d(2) obtain dd where dd: "detail = JDict dd" "py_eq (dget_or dd ''returncode'' (JInt 0)) (JInt 0)"
    "truthy (dget dd ''status_sha256'') \<longrightarrow> py_eq (dget dd ''status_sha256'') (file_digest L f (dir @ [ns_state_file s]))"
    by (auto simp: result_unchanged_def rbind_eq_Inr vget_or_Inr split: if_splits)
  have "\<exists>r i. dget dd ''skill'' = JDict r \<and> vindex (JDict q) ''id'' = Inr i \<and> py_eq (dget r ''id'') i" if "skill = Some q" for q
    using k that by (cases "dget dd ''skill''") (auto simp: dd(1) skill_current_def rbind_eq_Inr split: if_splits)
  with d dd show ?thesis by auto
qed

lemma accepted_proof:
  assumes "still_valid L f s environment skill context hit dir = Inr True"
  shows "(ns_produces s = ''EnvironmentProof'' \<longrightarrow> truthy (proof_fingerprint L f dir) \<and>
       validate_environment_identity L f dir = Inr [] \<and> validate_environment_status (read_status L f dir s) = Inr []) \<and>
    (ns_produces s = ''DeploymentProof'' \<longrightarrow> validate_deployment_status (read_status L f dir s) = Inr [])"
  using assms
  by (auto simp: still_valid_def Let_def rbind_eq_Inr fingerprint_agrees_def proof_valid_def proof_valid_body_def
    split: if_splits sum.splits exc.splits)

lemma reuse_facts:
  assumes "reusable_fact L f s subject journal environment skill context = Inr (Some hit)"
  shows "\<exists>dir rc. rbind (vindex hit ''artifacts'') (value_path L) = Inr dir \<and> node_passed L f dir s rc"
proof -
  obtain st dir where st: "vindex hit ''state'' = Inr (JStr st)" "st \<in> set success_states"
    and dir: "rbind (vindex hit ''artifacts'') (value_path L) = Inr dir"
    and ok: "still_valid L f s environment skill context hit dir = Inr True"
    using reused[OF assms] by blast
  have "node_passed L f dir s (JInt 0)"
    using accepted_state[OF ok st(1)] st(2) by (simp add: node_passed_def py_eq.simps)
  with dir show ?thesis by blast
qed

section \<open>What it was made from\<close>

text \<open>The kinds that a node rests on, through the producers of its required inputs.\<close>

inductive requires :: "node_spec \<Rightarrow> string \<Rightarrow> bool" where
  requires_input: "kind \<in> set (fst (input_kinds s)) \<Longrightarrow> requires s kind"
| requires_producer: "k \<in> set (fst (input_kinds s)) \<Longrightarrow> producer_of k = Some (name, p) \<Longrightarrow> requires p kind \<Longrightarrow>
     requires s kind"

lemma known_input:
  assumes "(name, s) \<in> set NODES" "kind \<in> set (fst (input_kinds s)) \<union> set (snd (input_kinds s))"
  shows "\<exists>n p. producer_of kind = Some (n, p) \<and> (n, p) \<in> set NODES"
proof -
  have "kind \<in> set node_kinds" using inputs_produced assms by (auto simp: list_all_iff)
  then have "producer_of kind \<noteq> None" using producer_exists by blast
  then show ?thesis using producer_of_kind(2) by fast
qed

section \<open>The plan and the placed patch\<close>

text \<open>The table is not free of cycles: the deployment plan takes the placed patch as an optional input, and a
  patch is placed for a deployment plan.\<close>

lemma plan_cycle:
  "list_all (\<lambda>(_, s). ns_produces s = ''DeploymentPlan'' \<longrightarrow> ''PlacedPatch'' \<in> set (snd (input_kinds s))) NODES"
  "list_all (\<lambda>(_, s). ns_produces s = ''PlacedPatch'' \<longrightarrow> ''DeploymentPlan'' \<in> set (fst (input_kinds s))) NODES"
  "list_all (\<lambda>(_, s). ns_produces s = ''DeploymentProof'' \<longrightarrow> ''DeploymentPlan'' \<in> set (fst (input_kinds s))) NODES"
  by code_simp+

lemma patched_plan_not_current:
  assumes "(name, s) \<in> set NODES" "ns_produces s = ''DeploymentPlan''"
    and patch: "input_fact L f journal ''PlacedPatch'' subject environment context True = Inr (Some patch)"
  shows "\<not> facts_current L f journal subject environment context order s entry seen"
proof
  assume c: "facts_current L f journal subject environment context order s entry seen"
  have k: "''PlacedPatch'' \<in> set (fst (input_kinds s)) \<union> set (snd (input_kinds s))"
    using plan_cycle(1) assms(1,2) by (auto simp: list_all_iff)
  obtain n p where p: "producer_of ''PlacedPatch'' = Some (n, p)" "(n, p) \<in> set NODES"
    using known_input[OF assms(1) k] by blast
  have c2: "facts_current L f journal subject environment context order p patch (seen_with s seen)"
    using current_input[OF c k] p(1) patch by auto
  have r2: "''DeploymentPlan'' \<in> set (fst (input_kinds p))"
    using plan_cycle(2) p(2) producer_of_kind(1)[OF p(1)] by (auto simp: list_all_iff)
  then have k2: "''DeploymentPlan'' \<in> set (fst (input_kinds p)) \<union> set (snd (input_kinds p))" by simp
  obtain m q where q: "producer_of ''DeploymentPlan'' = Some (m, q)" "(m, q) \<in> set NODES"
    using known_input[OF p(2) k2] by blast
  obtain v where "facts_current L f journal subject environment context order q v (seen_with p (seen_with s seen))"
    using current_input[OF c2 k2] r2 q(1) by auto
  from current_fresh(1)[OF this] show False
    using producer_of_kind(1)[OF q(1)] assms(2) by (auto simp: seen_with_def split: if_splits)
qed

end
