(* ===== verification/Target.thy ===== *)
theory Target
  imports GraphEvidence SkillRegistry
begin

text \<open>
  \<open>core/target.py\<close>: a target (model, hardware, engine, backend, plugin, revisions) read from YAML, the
  target that a task contract names, and the gate of the compatibility matrix. \<open>contract_target_agrees\<close>
  says what a contract that is accepted for a requested target agrees on.
\<close>

section \<open>Targets\<close>

record target_context =
  tc_model :: string
  tc_hardware :: string
  tc_engine :: string
  tc_backend :: string
  tc_plugin :: "string option"
  tc_revisions :: "(string \<times> string) list"

definition target_error :: "string \<Rightarrow> pyval list \<Rightarrow> exc" where
  "target_error s vs = ValueError (Msg s vs)"

text \<open>\<open>canonical_hardware\<close> of a string.\<close>

definition hardware_name :: "string \<Rightarrow> string" where
  "hardware_name s = (case map_of hardware_aliases s of Some t \<Rightarrow> t | None \<Rightarrow> s)"

definition normalize_revision :: "lib \<Rightarrow> string \<times> pyval \<Rightarrow> exc + string \<times> string" where
  "normalize_revision L kv =
     rbind (rguard (strip (fst kv) \<noteq> [] \<and> (case snd kv of JStr _ \<Rightarrow> True | JInt _ \<Rightarrow> True | _ \<Rightarrow> False) \<and>
         strip (py_str L (snd kv)) \<noteq> [])
       (target_error ''runtime.revisions requires nonempty names and values'' [])) (\<lambda>_.
     Inr (strip (fst kv), strip (py_str L (snd kv))))"

text \<open>Assignments of one dictionary after another.\<close>

definition merged :: "(string \<times> 'v) list \<Rightarrow> (string \<times> 'v) list \<Rightarrow> (string \<times> 'v) list" where
  "merged a b = foldl (\<lambda>d (k, v). AList.update k v d) a b"

definition normalize_revisions :: "lib \<Rightarrow> pyval \<Rightarrow> exc + (string \<times> string) list" where
  "normalize_revisions L v = (case v of
      JDict d \<Rightarrow> rbind (rmapM (normalize_revision L) d) (\<lambda>rs. Inr (merged [] rs))
    | _ \<Rightarrow> Inl (target_error ''runtime.revisions must be a mapping'' []))"

definition revisions_value :: "(string \<times> string) list \<Rightarrow> pyval" where
  "revisions_value rs = JDict (map (\<lambda>(k, v). (k, JStr v)) rs)"

definition required_text :: "string \<Rightarrow> pyval \<Rightarrow> exc + string" where
  "required_text name v = (case v of
      JStr s \<Rightarrow> if strip s \<noteq> [] then Inr s else Inl (target_error ''target field must be a nonempty string'' [JStr name])
    | _ \<Rightarrow> Inl (target_error ''target field must be a nonempty string'' [JStr name]))"

definition as_mapping :: "string \<Rightarrow> pyval \<Rightarrow> exc + pydict" where
  "as_mapping what v = (case v of JDict d \<Rightarrow> Inr d | _ \<Rightarrow> Inl (target_error what []))"

definition target_from_mapping :: "lib \<Rightarrow> pyval \<Rightarrow> exc + target_context" where
  "target_from_mapping L v =
     rbind (as_mapping ''target must be a mapping'' v) (\<lambda>data.
     rbind (as_mapping ''target must be a mapping'' (dget_or data ''target'' (JDict data))) (\<lambda>target.
     rbind (as_mapping ''target.runtime must be a mapping'' (dget_or target ''runtime'' (JDict []))) (\<lambda>runtime.
     rbind (required_text ''hardware'' (dget target ''hardware'')) (\<lambda>hardware.
     rbind (required_text ''runtime.engine'' (dget runtime ''engine'')) (\<lambda>engine.
     rbind (required_text ''runtime.backend'' (dget runtime ''backend'')) (\<lambda>backend.
     rbind (case dget runtime ''plugin'' of JNone \<Rightarrow> Inr None | JStr s \<Rightarrow> Inr (Some s)
       | _ \<Rightarrow> Inl (target_error ''target.runtime.plugin must be a string or null'' [])) (\<lambda>plugin.
     rbind (required_text ''model'' (dget_or target ''model'' (JStr ''<unspecified>''))) (\<lambda>model.
     rbind (normalize_revisions L (dget_or runtime ''revisions'' (JDict []))) (\<lambda>revisions.
     Inr \<lparr>tc_model = strip model, tc_hardware = hardware_name (strip hardware), tc_engine = strip engine,
          tc_backend = strip backend,
          tc_plugin = (case plugin of None \<Rightarrow> None | Some s \<Rightarrow> if strip s = [] then None else Some (strip s)),
          tc_revisions = revisions\<rparr>)))))))))"

definition unbound_models :: "string list" where "unbound_models = [''<unspecified>'', ''<model-id>'']"

definition bind_subject :: "lib \<Rightarrow> target_context \<Rightarrow> string \<Rightarrow> exc + target_context" where
  "bind_subject L t subject =
     rbind (rguard (tc_model t \<in> set (subject # unbound_models)) (target_error ''target model does not match subject'' [])) (\<lambda>_.
     rbind (normalize_revisions L (revisions_value (tc_revisions t))) (\<lambda>rs.
     Inr (t\<lparr>tc_model := subject, tc_revisions := rs\<rparr>)))"

definition plugin_text :: "target_context \<Rightarrow> string" where
  "plugin_text t = (case tc_plugin t of None \<Rightarrow> [] | Some s \<Rightarrow> s)"

definition target_environment :: "lib \<Rightarrow> target_context \<Rightarrow> exc + (string \<times> string) list" where
  "target_environment L t =
     rbind (normalize_revisions L (revisions_value (tc_revisions t))) (\<lambda>rs.
     Inr (merged [(''model'', tc_model t), (''hardware'', hardware_name (tc_hardware t)), (''engine'', tc_engine t),
        (''backend'', tc_backend t), (''plugin'', plugin_text t)]
       (merged [] (map (\<lambda>(k, v). (k @ ''_revision'', v)) rs))))"

text \<open>\<open>yaml.safe_load(stream) or {}\<close> with an error of the parser as \<open>ValueError\<close>: \<open>load_target\<close> and the
  \<open>load_yaml\<close> of \<open>runners/task_runner.py\<close>.\<close>

definition load_yaml :: "lib \<Rightarrow> fs \<Rightarrow> path \<Rightarrow> exc + pyval" where
  "load_yaml L f p =
     rbind (read_text f p) (\<lambda>s. case yaml_loads L s of
         Inl (YAMLError m) \<Rightarrow> Inl (ValueError m)
       | Inl e \<Rightarrow> Inl e
       | Inr v \<Rightarrow> Inr (py_or v (JDict [])))"

definition load_target :: "lib \<Rightarrow> fs \<Rightarrow> path \<Rightarrow> exc + target_context" where
  "load_target L f p = rbind (load_yaml L f p) (target_from_mapping L)"

section \<open>The compatibility matrix\<close>

definition plugin_value :: "target_context \<Rightarrow> pyval" where
  "plugin_value t = (case tc_plugin t of None \<Rightarrow> JNone | Some s \<Rightarrow> JStr s)"

definition matrix_path :: "lib \<Rightarrow> path" where
  "matrix_path L = repo_root L @ [''compatibility'', ''matrix.yaml'']"

text \<open>The conjunction of \<open>next(...)\<close>, evaluated from left to right, and the first entry it holds of.\<close>

definition matrix_entry :: "target_context \<Rightarrow> pyval \<Rightarrow> exc + bool" where
  "matrix_entry t entry =
     rbind (vget entry ''hardware'') (\<lambda>a. if a \<noteq> JStr (hardware_name (tc_hardware t)) then Inr False
     else rbind (vget entry ''engine'') (\<lambda>b. if b \<noteq> JStr (tc_engine t) then Inr False
     else rbind (vget entry ''backend'') (\<lambda>c. if c \<noteq> JStr (tc_backend t) then Inr False
     else rbind (vget entry ''plugin'') (\<lambda>d. Inr (py_eq d (plugin_value t))))))"

fun first_matching :: "('a \<Rightarrow> 'e + bool) \<Rightarrow> 'a list \<Rightarrow> 'e + 'a option" where
  "first_matching p [] = Inr None"
| "first_matching p (x # xs) = rbind (p x) (\<lambda>b. if b then Inr (Some x) else first_matching p xs)"

definition compatibility_status :: "lib \<Rightarrow> fs \<Rightarrow> target_context \<Rightarrow> exc + pydict" where
  "compatibility_status L f t =
     rbind (rbind (read_text f (matrix_path L)) (yaml_loads L)) (\<lambda>v.
     rbind (rbind (vget_or v ''entries'' (JList [])) viter) (\<lambda>entries.
     rbind (first_matching (matrix_entry t) entries) (\<lambda>m. case m of
       None \<Rightarrow> Inr [(''status'', JStr ''unknown''), (''reason'', JStr ''combination is not declared'')]
     | Some e \<Rightarrow>
         rbind (vindex e ''status'') (\<lambda>s. rbind (vget e ''id'') (\<lambda>i. rbind (vget_or e ''reason'' (JStr [])) (\<lambda>r.
         Inr [(''status'', s), (''id'', i), (''reason'', r)]))))))"

definition require_supported :: "lib \<Rightarrow> fs \<Rightarrow> target_context \<Rightarrow> exc + pydict" where
  "require_supported L f t =
     rbind (compatibility_status L f t) (\<lambda>r.
     rbind (rguard (dget r ''status'' = JStr ''supported'') (target_error ''target is not supported'' [dget r ''status''])) (\<lambda>_.
     Inr r))"

section \<open>The target of a contract\<close>

definition contract_revision :: "lib \<Rightarrow> bool \<Rightarrow> pydict \<Rightarrow> target_context \<Rightarrow> exc + target_context" where
  "contract_revision L environment_only model actual =
     (if environment_only \<or> dget model ''revision'' = JNone then Inr actual
      else rbind (normalize_revision L (''model'', dget model ''revision'')) (\<lambda>(_, revision).
        rbind (rguard (map_of (tc_revisions actual) ''model'' \<in> {None, Some revision})
          (target_error ''contract model revision conflicts with runtime.revisions.model'' [])) (\<lambda>_.
        Inr (actual\<lparr>tc_revisions := AList.update ''model'' revision (tc_revisions actual)\<rparr>))))"

definition same_platform :: "target_context \<Rightarrow> target_context \<Rightarrow> bool" where
  "same_platform actual requested \<longleftrightarrow> tc_hardware actual = hardware_name (tc_hardware requested) \<and>
     tc_engine actual = tc_engine requested \<and> tc_backend actual = tc_backend requested \<and>
     tc_plugin actual = tc_plugin requested"

definition agree_on_request ::
  "lib \<Rightarrow> fs \<Rightarrow> bool \<Rightarrow> target_context \<Rightarrow> target_context \<Rightarrow> exc + target_context" where
  "agree_on_request L f environment_only actual requested =
     rbind (require_supported L f requested) (\<lambda>_.
     rbind (rguard (same_platform actual requested) (target_error ''contract target does not match requested'' [])) (\<lambda>_.
     rbind (rguard (environment_only \<or> tc_model requested \<in> set unbound_models \<or> tc_model actual = tc_model requested)
       (target_error ''contract model does not match requested subject'' [])) (\<lambda>_.
     rbind (normalize_revisions L (revisions_value (tc_revisions requested))) (\<lambda>rs.
     rbind (rguard (list_all (\<lambda>(k, v). map_of (tc_revisions actual) k \<in> {None, Some v}) rs)
       (target_error ''contract revision does not match requested target'' [])) (\<lambda>_.
     Inr (actual\<lparr>tc_revisions := merged (tc_revisions requested) (tc_revisions actual)\<rparr>))))))"

definition contract_mappings :: "pyval \<Rightarrow> exc + pydict \<times> pydict \<times> pydict" where
  "contract_mappings contract =
     rbind (vget_or contract ''context'' (JDict [])) (\<lambda>c.
     rbind (as_mapping ''contract context and context.target must be mappings'' c) (\<lambda>context.
     rbind (as_mapping ''contract context and context.target must be mappings'' (dget_or context ''target'' (JDict []))) (\<lambda>target.
     case (dget_or context ''model'' (JDict []), dget_or context ''runtime'' (JDict [])) of
       (JDict model, JDict runtime) \<Rightarrow> Inr (target, model, runtime)
     | _ \<Rightarrow> Inl (target_error ''contract context.model and context.runtime must be mappings'' []))))"

definition contract_target :: "lib \<Rightarrow> fs \<Rightarrow> pyval \<Rightarrow> target_context option \<Rightarrow> exc + target_context" where
  "contract_target L f contract requested =
     rbind (contract_mappings contract) (\<lambda>(target, model, runtime).
     rbind (target_from_mapping L (JDict
         [(''model'', dget_or model ''name'' (JStr ''<unspecified>'')),
          (''hardware'', dget_or target ''hardware'' (JStr ''kunlun/p800'')),
          (''runtime'', JDict (dmerge [(''engine'', JStr ''vllm''), (''backend'', JStr ''kunlun''),
             (''plugin'', JStr ''vllm-kunlun'')] runtime))])) (\<lambda>declared.
     rbind (rbind (vget_or contract ''metadata'' (JDict [])) (\<lambda>m. vget m ''task_type'')) (\<lambda>tt.
     let environment_only = (tt = JStr ''environment_proof'') in
     rbind (contract_revision L environment_only model declared) (\<lambda>actual.
     case requested of None \<Rightarrow> Inr actual | Some r \<Rightarrow> agree_on_request L f environment_only actual r))))"

section \<open>What an accepted contract agrees on\<close>

lemma map_of_merged: "map_of (merged a b) = map_of a ++ map_of (rev b)"
proof (induction b arbitrary: a)
  case (Cons p b)
  obtain k v where p: "p = (k, v)" by (cases p)
  have "map_of (merged a (p # b)) = map_of (AList.update k v a) ++ map_of (rev b)"
    using Cons.IH[of "AList.update k v a"] by (simp add: merged_def p)
  also have "\<dots> = map_of a ++ map_of (rev (p # b))"
    by (auto simp: p update_conv' map_add_def fun_eq_iff split: option.splits)
  finally show ?case .
qed (simp add: merged_def)

lemma agreed_platform:
  assumes "agree_on_request L f e actual requested = Inr t"
  shows "same_platform t requested \<and> tc_model t = tc_model actual \<and>
    (e \<or> tc_model requested \<in> set unbound_models \<or> tc_model t = tc_model requested) \<and>
    (\<exists>r. require_supported L f requested = Inr r \<and> dget r ''status'' = JStr ''supported'')"
  using assms
  by (auto simp: agree_on_request_def rbind_eq_Inr rguard_eq_Inr same_platform_def require_supported_def)

text \<open>A contract that is accepted for a requested target runs on the requested platform, which the matrix
  supports, and, unless it only proves the environment, for the requested model.\<close>

lemma contract_target_agrees:
  assumes "contract_target L f contract (Some requested) = Inr t"
  shows "same_platform t requested \<and>
    (\<exists>r. require_supported L f requested = Inr r \<and> dget r ''status'' = JStr ''supported'')"
  using assms agreed_platform
  by (auto simp: contract_target_def rbind_eq_Inr Let_def split: prod.splits)

end
