(* ===== verification/GraphRun.thy ===== *)
theory GraphRun
  imports GraphFacts Target Identity
begin

text \<open>
  Around one node of the graph (\<open>runners/graph_runner.py\<close>): the check of an existing run directory, the
  environment that a proof binds, the command line of a node with its journal inputs (\<open>resolve\<close>), and the
  fact that is recorded when the command has ended.

  The values of a context that get into a command line are strings; any other value raises \<open>TypeError\<close> here,
  in the program where the command is started.
\<close>

section \<open>The run directory\<close>

definition validate_run_identity :: "lib \<Rightarrow> fs \<Rightarrow> path \<Rightarrow> string option \<Rightarrow> exc + unit" where
  "validate_run_identity L f dir run_id =
     (let marker = dir @ [''run.json''];
          conflict = Inl (wpe ''run identity conflicts with the marker'') in
      if is_symlink f marker then Inl (wpe ''run identity cannot be a symlink'')
      else if \<not> path_exists f marker then Inr ()
      else (case read_json L f marker of
          None \<Rightarrow> Inl (wpe ''cannot read run identity'')
        | Some (JDict identity) \<Rightarrow>
            (case dget identity ''run_id'' of
               JStr r \<Rightarrow>
                 if py_eq (dget identity ''schema_version'') (JInt 1) \<and> strip r \<noteq> [] \<and> run_id \<in> {None, Some r}
                 then Inr () else conflict
             | _ \<Rightarrow> conflict)
        | Some _ \<Rightarrow> conflict))"

section \<open>Paths and templates\<close>

text \<open>\<open>str(Path(a) / b)\<close>\<close>

definition relative_text :: "path \<Rightarrow> string" where
  "relative_text p = (if p = [] then ''.'' else tl (join_parts p))"

definition join_text :: "string \<Rightarrow> string \<Rightarrow> string" where
  "join_text a b =
     (if is_absolute b then path_str (path_parts b)
      else if is_absolute a then path_str (path_parts a @ path_parts b)
      else relative_text (path_parts a @ path_parts b))"

definition fact_file :: "pyval \<Rightarrow> string \<Rightarrow> exc + string" where
  "fact_file hit name = rbind (rbind (vindex hit ''artifacts'') text_path) (\<lambda>a. Inr (join_text a name))"

lemma tail_shorter [simp]: "length (dropWhile p s) - Suc 0 < Suc (length s)"
  using length_dropWhile_le[of p s] by (simp add: less_Suc_eq_le)

text \<open>\<open>template.format(**context)\<close> for templates whose fields are plain names; those of \<open>NODES\<close> are.\<close>

function format_part :: "lib \<Rightarrow> pydict \<Rightarrow> string \<Rightarrow> exc + string" where
  "format_part L context [] = Inr []"
| "format_part L context (c # s) =
     (if c = CHR ''{'' then
        if s \<noteq> [] \<and> hd s = CHR ''{'' then rbind (format_part L context (tl s)) (\<lambda>r. Inr (c # r))
        else if CHR ''}'' \<notin> set s then Inl (ValueError (Msg ''expected } before end of string'' []))
        else
          let name = takeWhile (\<lambda>d. d \<noteq> CHR ''}'') s in
          rbind (vindex (JDict context) name) (\<lambda>v.
          rbind (format_part L context (tl (dropWhile (\<lambda>d. d \<noteq> CHR ''}'') s))) (\<lambda>r. Inr (py_str L v @ r)))
      else if c = CHR ''}'' then
        if s \<noteq> [] \<and> hd s = CHR ''}'' then rbind (format_part L context (tl s)) (\<lambda>r. Inr (c # r))
        else Inl (ValueError (Msg ''Single } encountered in format string'' []))
      else rbind (format_part L context s) (\<lambda>r. Inr (c # r)))"
  by pat_completeness auto

termination
  by (relation "measure (\<lambda>(_, _, s). length s)") simp_all

text \<open>No template of the table has an escape or a nested field.\<close>

definition field_char :: "char \<Rightarrow> bool" where
  "field_char c \<longleftrightarrow> CHR ''a'' \<le> c \<and> c \<le> CHR ''z'' \<or> c = CHR ''_''"

fun plain_template :: "string \<Rightarrow> bool" where
  "plain_template (CHR ''{'' # s) =
     (case rev s of CHR ''}'' # n \<Rightarrow> n \<noteq> [] \<and> list_all field_char n | _ \<Rightarrow> False)"
| "plain_template s = list_all (\<lambda>c. c \<noteq> CHR ''{'' \<and> c \<noteq> CHR ''}'') s"

definition node_templates :: "node_spec \<Rightarrow> string list" where
  "node_templates s = ns_command s @ (case ns_fan_out s of None \<Rightarrow> [] | Some o1 \<Rightarrow> fo_list o1 @ fo_aggregate o1)"

lemma templates_plain: "list_all (\<lambda>(_, s). list_all plain_template (node_templates s)) NODES"
  by code_simp

section \<open>The failure to triage\<close>

definition unresolved :: "string \<Rightarrow> pyval list \<Rightarrow> exc" where
  "unresolved s vs = Unresolved (Msg s vs)"

definition other_fact :: "string \<Rightarrow> pydict \<Rightarrow> pyval \<Rightarrow> exc + (string \<times> node_spec) option" where
  "other_fact subject environment entry =
     rbind (vget entry ''kind'') (\<lambda>kind. rbind (vget entry ''subject'') (\<lambda>s. rbind (vget entry ''environment'') (\<lambda>e.
     Inr (if \<not> py_eq s (JStr subject) \<or> in_strs kind [''FailureTriage'', ''EnvironmentProof''] \<or>
             \<not> py_eq e (JDict (fact_environment kind environment)) then None
          else (case kind of JStr k \<Rightarrow> producer_of k | _ \<Rightarrow> None)))))"

definition failure_file :: "lib \<Rightarrow> fs \<Rightarrow> node_spec \<Rightarrow> pyval \<Rightarrow> exc + string option" where
  "failure_file L f s entry =
     rbind (rbind (vindex entry ''artifacts'') text_path) (\<lambda>a.
     rbind (vget_or entry ''detail'' (JDict [])) (\<lambda>detail.
     rbind (vget_or detail ''returncode'' (JInt 0)) (\<lambda>rc.
     if node_passed L f (locate L a) s rc then Inr None
     else
       rbind (vget detail ''failure_sha256'') (\<lambda>failed. rbind (vget detail ''status_sha256'') (\<lambda>status.
       let p = join_text a (if truthy failed then ''failure_record.json'' else ns_state_file s);
           expected = (if truthy failed then failed else status) in
       Inr (if truthy expected \<and> py_eq expected (file_digest L f (locate L p)) \<and> is_file f (locate L p)
            then Some p else None))))))"

fun failure_scan :: "lib \<Rightarrow> fs \<Rightarrow> string \<Rightarrow> pydict \<Rightarrow> pyval list \<Rightarrow> exc + string option" where
  "failure_scan L f subject environment [] = Inr None"
| "failure_scan L f subject environment (e # es) =
     rbind (other_fact subject environment e) (\<lambda>m. case m of
         None \<Rightarrow> failure_scan L f subject environment es
       | Some (_, s) \<Rightarrow> failure_file L f s e)"

definition latest_failure_status :: "lib \<Rightarrow> fs \<Rightarrow> path \<Rightarrow> string \<Rightarrow> pydict \<Rightarrow> exc + string option" where
  "latest_failure_status L f journal subject environment =
     rbind (journal_load L f journal) (\<lambda>es. failure_scan L f subject environment (rev es))"

section \<open>The environment that a proof binds\<close>

definition environment_node :: node_spec where
  "environment_node = (case map_of NODES ''environment_proof'' of Some s \<Rightarrow> s
     | None \<Rightarrow> \<lparr>ns_produces = [], ns_needs = [], ns_optional = [], ns_command = [], ns_state_file = [], ns_fan_out = None\<rparr>)"

definition context_text :: "pydict \<Rightarrow> string \<Rightarrow> exc + string" where
  "context_text context k = rbind (vindex (JDict context) k) text_path"

text \<open>The updates of the dictionaries that precede an exception are lost: the caller stops on it.\<close>

definition bind_to_proof :: "lib \<Rightarrow> fs \<Rightarrow> pydict \<Rightarrow> pydict \<Rightarrow> path \<Rightarrow> exc + pydict \<times> pydict" where
  "bind_to_proof L f context environment dir =
     (let status = read_status L f dir environment_node in
      rbind (case dget status ''user_id'' of
          JStr s \<Rightarrow> if strip s \<noteq> [] then Inr s else Inl (unresolved ''environment proof must record the supplied user_id'' [])
        | _ \<Rightarrow> Inl (unresolved ''environment proof must record the supplied user_id'' [])) (\<lambda>owner.
      rbind (resolve_user_id L (dget context ''user_id'') (JStr owner)) (\<lambda>u.
      rbind (rguard (u = owner) (unresolved ''user_id does not match the prepared environment owner'' [])) (\<lambda>_.
      rbind (resolve_user_id L JNone (JStr owner)) (\<lambda>u'.
      let proven = proof_fingerprint L f dir in
      rbind (rguard (in_list (dget environment ''environment_fingerprint'') [JNone, proven])
        (unresolved ''current environment proof fingerprint does not match --env'' [])) (\<lambda>_.
      rbind (vindex (JDict status) ''pod'') (\<lambda>pod.
      rbind (rguard (in_list (dget context ''pod'') [JNone, pod] \<or> py_eq (dget context ''pod'') (dget context ''_environment_pod''))
        (unresolved ''pod does not match the current environment proof'' [])) (\<lambda>_.
      Inr (dset (dset (dset context ''user_id'' (JStr u')) ''pod'' pod) ''_environment_pod'' pod,
           dset (dset environment ''environment_fingerprint'' proven) ''environment_pod'' pod)))))))))"

definition bind_proven_environment :: "lib \<Rightarrow> fs \<Rightarrow> path \<Rightarrow> pydict \<Rightarrow> pydict \<Rightarrow> exc + pydict \<times> pydict" where
  "bind_proven_environment L f journal context environment =
     rbind (context_text context ''subject'') (\<lambda>subject.
     rbind (reusable_fact L f environment_node subject journal (fact_environment (JStr ''EnvironmentProof'') environment) None [])
       (\<lambda>proof. case proof of
          None \<Rightarrow> Inr (context, environment)
        | Some hit \<Rightarrow> rbind (rbind (vindex hit ''artifacts'') (value_path L)) (bind_to_proof L f context environment)))"

section \<open>The command line of a node\<close>

definition triage_command :: "string \<Rightarrow> string list" where
  "triage_command p = [''python3'', ''cli/operators/triage.py'', ''--failure-status'', p, ''--out'', ''{artifacts}'']"

text \<open>The context with the instance that the plan rendered, or another command where there is no plan.\<close>

definition bind_contract ::
  "lib \<Rightarrow> fs \<Rightarrow> node_spec \<Rightarrow> pydict \<Rightarrow> path \<Rightarrow> pydict \<Rightarrow> string list \<Rightarrow> bool \<Rightarrow> exc + pydict \<times> string list" where
  "bind_contract L f s context journal environment command verify =
     rbind (context_text context ''subject'') (\<lambda>subject.
     rbind (input_fact L f journal ''DeploymentPlan'' subject environment context verify) (\<lambda>plan. case plan of
         Some hit \<Rightarrow>
           rbind (fact_file hit ''kdp_instance.yaml'') (\<lambda>p.
           rbind (rbind (rbind (load_yaml L f (locate L p)) (\<lambda>v. vget_or v ''execution'' (JDict []))) (\<lambda>x. vget x ''user_id'')) (\<lambda>owner.
           rbind (rguard (truthy (dget context ''user_id'') \<longrightarrow> py_eq owner (dget context ''user_id''))
             (unresolved ''DeploymentPlan user_id does not match the current resource owner'' [])) (\<lambda>_.
           Inr (dset context ''contract_instance'' (JStr p), command))))
       | None \<Rightarrow>
           if ns_produces s = ''FailureTriage'' then
             rbind (latest_failure_status L f journal subject environment) (\<lambda>failure. case failure of
                 None \<Rightarrow> Inl (unresolved ''triage requires a recorded failure when no DeploymentPlan exists'' [])
               | Some p \<Rightarrow> Inr (context, triage_command p))
           else Inl (unresolved ''DeploymentPlan is required'' [])))"

definition input_words ::
  "lib \<Rightarrow> fs \<Rightarrow> pydict \<Rightarrow> path \<Rightarrow> pydict \<Rightarrow> bool \<Rightarrow> bool \<Rightarrow> string \<times> string \<Rightarrow> exc + string list" where
  "input_words L f context journal environment verify needed ref =
     (let (kind, filename) = reference_parts (snd ref) in
      rbind (context_text context ''subject'') (\<lambda>subject.
      rbind (input_fact L f journal kind subject environment context verify) (\<lambda>hit. case hit of
          None \<Rightarrow> if needed then Inl (unresolved ''kind is not in the Journal for this environment'' [JStr kind]) else Inr []
        | Some h \<Rightarrow> rbind (fact_file h filename) (\<lambda>p. Inr [fst ref, p]))))"

definition requested_target :: "lib \<Rightarrow> fs \<Rightarrow> pydict \<Rightarrow> exc + target_context option" where
  "requested_target L f context =
     (if \<not> truthy (dget context ''target_file'') then Inr None
      else rbind (context_text context ''target_file'') (\<lambda>p.
        rbind (load_target L f (locate L p)) (\<lambda>t.
        rbind (context_text context ''subject'') (\<lambda>subject.
        rbind (bind_subject L t subject) (\<lambda>b. Inr (Some b))))))"

text \<open>The word that follows the first occurrence of another.\<close>

definition word_after :: "string \<Rightarrow> string list \<Rightarrow> exc + string" where
  "word_after x xs = (case dropWhile (\<lambda>y. y \<noteq> x) xs of _ # y # _ \<Rightarrow> Inr y | _ \<Rightarrow> Inl IndexError)"

definition proof_script :: string where "proof_script = ''cli/deployment/proof.py''"
definition plan_script :: string where "plan_script = ''cli/deployment/plan_deployment.py''"

definition supported_contract :: "lib \<Rightarrow> fs \<Rightarrow> string \<Rightarrow> target_context option \<Rightarrow> exc + unit" where
  "supported_contract L f p requested =
     rbind (load_yaml L f (locate L p)) (\<lambda>c.
     rbind (contract_target L f c requested) (\<lambda>t.
     rbind (require_supported L f t) (\<lambda>_. Inr ())))"

definition option_words :: "pydict \<Rightarrow> string \<Rightarrow> string \<Rightarrow> exc + string list" where
  "option_words context opt k = rbind (context_text context k) (\<lambda>v. Inr [opt, v])"

definition proof_words ::
  "lib \<Rightarrow> fs \<Rightarrow> pydict \<Rightarrow> pydict \<Rightarrow> target_context option \<Rightarrow> string list \<Rightarrow> exc + string list" where
  "proof_words L f context environment requested command =
     rbind (word_after proof_script command) (\<lambda>p.
     rbind (if \<not> starts_with p ''--'' then supported_contract L f p requested
            else (case requested of None \<Rightarrow> Inr () | Some t \<Rightarrow> rbind (require_supported L f t) (\<lambda>_. Inr ()))) (\<lambda>_.
     let simulated = (if dget environment ''evidence_mode'' = JStr ''simulation'' then [''--evidence-mode'', ''simulation''] else []);
         health = (if dhas context ''proof_health_interval''
           then [''--health-interval-seconds'', py_str L (dget context ''proof_health_interval'')] else []) in
     rbind (case requested of None \<Rightarrow> Inr []
       | Some _ \<Rightarrow> rbind (option_words context ''--target'' ''target_file'') (\<lambda>a.
           rbind (option_words context ''--subject'' ''subject'') (\<lambda>b. Inr (a @ b)))) (\<lambda>target.
     let so_far = command @ simulated @ health @ target in
     rbind (if truthy (dget context ''pod'') \<and> ''--attach-pod'' \<notin> set so_far
            then option_words context ''--attach-pod'' ''pod'' else Inr []) (\<lambda>pod.
     Inr (so_far @ pod)))))"

definition contract_gate :: "lib \<Rightarrow> fs \<Rightarrow> target_context option \<Rightarrow> string list \<Rightarrow> exc + string list" where
  "contract_gate L f requested command =
     rbind (word_after ''--contract-instance'' command) (\<lambda>p.
     rbind (supported_contract L f p requested) (\<lambda>_. Inr command))"

definition target_words ::
  "lib \<Rightarrow> fs \<Rightarrow> pydict \<Rightarrow> pydict \<Rightarrow> string list \<Rightarrow> exc + string list" where
  "target_words L f context environment command =
     rbind (requested_target L f context) (\<lambda>requested.
     rbind (if truthy (dget context ''user_id'') \<and> (proof_script \<in> set command \<or> plan_script \<in> set command)
            then option_words context ''--user-id'' ''user_id'' else Inr []) (\<lambda>user.
     let command' = command @ user in
     if proof_script \<in> set command' then proof_words L f context environment requested command'
     else if ''--contract-instance'' \<in> set command' then contract_gate L f requested command'
     else Inr command'))"

definition resolve_command ::
  "lib \<Rightarrow> fs \<Rightarrow> node_spec \<Rightarrow> pydict \<Rightarrow> path \<Rightarrow> pydict \<Rightarrow> string list option \<Rightarrow> bool \<Rightarrow> bool \<Rightarrow> exc + string list" where
  "resolve_command L f s context journal environment listing include_optional verify =
     rbind (rguard (ns_needs s = [] \<or> environment \<noteq> []) (unresolved ''a nonempty environment is required'' [])) (\<lambda>_.
     let template = (case listing of Some (c # cs) \<Rightarrow> c # cs | _ \<Rightarrow> ns_command s) in
     rbind (if needs_contract template then bind_contract L f s context journal environment template verify
            else Inr (context, template)) (\<lambda>(bound, template').
     rbind (rmapM (format_part L bound) template') (\<lambda>words.
     rbind (rmapM (input_words L f bound journal environment verify True) (ns_needs s)) (\<lambda>needed.
     rbind (if include_optional then rmapM (input_words L f bound journal environment verify False) (ns_optional s)
            else Inr []) (\<lambda>extra.
     rbind (if ns_produces s = ''TorchShimRegistry'' \<and> truthy (dget bound ''shim_registry'')
            then option_words bound ''--registry'' ''shim_registry'' else Inr []) (\<lambda>registry.
     target_words L f bound environment (words @ concat needed @ concat extra @ registry)))))))"

section \<open>What is recorded\<close>

definition child_skill_list :: "pydict list \<Rightarrow> pyval" where
  "child_skill_list cs = JList (map JDict cs)"

definition fact_detail ::
  "lib \<Rightarrow> fs \<Rightarrow> node_spec \<Rightarrow> path \<Rightarrow> int \<Rightarrow> pydict option \<Rightarrow> pydict list \<Rightarrow> exc + pydict" where
  "fact_detail L f s dir returncode skill child_skills =
     (let base = [(''status_sha256'', file_digest L f (dir @ [ns_state_file s])), (''returncode'', JInt returncode)] @
            (if is_file f (dir @ [''failure_record.json''])
             then [(''failure_sha256'', file_digest L f (dir @ [''failure_record.json'']))] else []);
          proven = (if ns_produces s = ''EnvironmentProof'' then [(''environment_fingerprint'', proof_fingerprint L f dir)] else []) in
      case skill of
        None \<Rightarrow> Inr (base @ proven)
      | Some k \<Rightarrow>
          rbind (vindex (JDict k) ''id'') (\<lambda>i. rbind (method_hash k) (\<lambda>h.
          Inr (base @ [(''skill'', JDict ([(''id'', i), (''method_sha256'', h)] @
            (if child_skills = [] then [] else [(''children'', child_skill_list child_skills)])))] @ proven))))"

definition record_fact ::
  "lib \<Rightarrow> path \<Rightarrow> node_spec \<Rightarrow> string \<Rightarrow> path \<Rightarrow> pydict \<Rightarrow> int \<Rightarrow> pydict option \<Rightarrow> pydict list \<Rightarrow>
     ('a os_scheme, exc, pydict) act" where
  "record_fact L journal s subject dir environment returncode skill child_skills =
     actbind (actreadR (\<lambda>w. fact_detail L (files w) s dir returncode skill child_skills)) (\<lambda>detail.
     actbind (actread (\<lambda>w. read_state L (files w) dir s)) (\<lambda>state.
     journal_record L journal (ns_produces s) subject state (path_str dir)
       (fact_environment (JStr (ns_produces s)) environment) (Some detail)))"

section \<open>Operator nodes and skills\<close>

definition scheduled_spec :: "node_spec \<Rightarrow> pydict \<Rightarrow> node_spec" where
  "scheduled_spec s context =
     (if \<not> truthy (dget context ''scheduler_state'') \<or>
         ns_produces s \<notin> {''OperatorTaskDispatch'', ''OperatorIntegration''} then s
      else s\<lparr>ns_command := ns_command s @ [''--scheduler-state'', ''{scheduler_state}'', ''--run-id'', ''{run_id}''] @
        (if ns_produces s = ''OperatorTaskDispatch'' \<and> truthy (dget context ''operator_report'')
         then [''--operator-report'', ''{operator_report}''] else [])\<rparr>)"

definition skill_routing :: "pydict \<Rightarrow> pydict \<Rightarrow> exc + pydict" where
  "skill_routing skill extra =
     rbind (vindex (JDict skill) ''id'') (\<lambda>i. rbind (vindex (JDict skill) ''verification'') (\<lambda>v.
     rbind (vindex (JDict skill) ''tools'') (\<lambda>t.
     let routing = [(''skill'', i), (''verification'', v), (''tools'', t)]; m = dget skill ''method'' in
     if \<not> truthy m then Inr (dmerge routing extra)
     else rbind (vindex m ''package_id'') (\<lambda>p. rbind (vindex m ''document'') (\<lambda>d. rbind (vindex m ''sha256'') (\<lambda>h.
       Inr (dmerge (routing @ [(''method_package'', p), (''method_document'', d), (''method_sha256'', h)]) extra)))))))"

definition failure_keys :: "string list" where
  "failure_keys = [''reason'', ''message'', ''error'', ''errors'', ''validation_errors'']"

definition failure_reason :: "lib \<Rightarrow> fs \<Rightarrow> path \<Rightarrow> node_spec \<Rightarrow> string \<Rightarrow> string" where
  "failure_reason L f dir s state =
     (let payload = read_status L f dir s;
          errors = (case dget payload ''validator'' of JDict v \<Rightarrow> dget v ''errors'' | _ \<Rightarrow> JNone) in
      case find (\<lambda>k. truthy (dget payload k)) failure_keys of
        Some k \<Rightarrow> py_str L (dget payload k)
      | None \<Rightarrow>
          if truthy errors then py_str L errors
          else if truthy (dget payload ''reason_code'') then py_str L (dget payload ''reason_code'')
          else ''node ended in state '' @ state)"

end
