(* ===== verification/CommandGate.thy ===== *)
theory CommandGate
  imports FactReuse
begin

text \<open>
  What \<open>resolve\<close> of \<open>runners/graph_runner.py\<close> guarantees of the command it builds: the inputs are files of
  nodes that passed, and where a target is requested, a proof is run for a platform that the compatibility
  matrix supports.
\<close>

lemma input_fact_passed:
  assumes "input_fact L f journal kind subject environment context verify = Inr (Some v)"
  shows "\<exists>q dir rc. producer_of kind = Some q \<and> rbind (vindex v ''artifacts'') (value_path L) = Inr dir \<and>
    node_passed L f dir (snd q) rc"
proof -
  obtain n p skill where p: "producer_of kind = Some (n, p)"
    and r: "reusable_fact L f p subject journal environment skill context = Inr (Some v)"
    using assms by (auto simp: input_fact_def Let_def rbind_eq_Inr split: option.splits if_splits prod.splits)
  from reuse_facts[OF r] p show ?thesis by auto
qed

lemma format_plain:
  "list_all (\<lambda>c. c \<noteq> CHR ''{'' \<and> c \<noteq> CHR ''}'') s \<Longrightarrow> format_part L context s = Inr s"
  by (induction s) simp_all

lemma target_of_bound:
  "requested_target L f (dset context ''contract_instance'' v) = requested_target L f context"
  by (simp add: requested_target_def context_text_def vindex_def)

text \<open>What a context may gain before a command is built.\<close>

definition bound_context :: "pydict \<Rightarrow> pydict \<Rightarrow> bool" where
  "bound_context context bound \<longleftrightarrow> bound = context \<or> (\<exists>v. bound = dset context ''contract_instance'' v)"

lemma bind_contract_bound:
  assumes "bind_contract L f s context journal environment command verify = Inr (bound, template)"
    and "ns_produces s \<noteq> ''FailureTriage''"
  shows "template = command \<and> bound_context context bound"
  using assms
  by (auto simp: bind_contract_def bound_context_def rbind_eq_Inr split: option.splits)

lemma resolved_parts:
  assumes r: "resolve_command L f s context journal environment None inc verify = Inr command"
    and n: "ns_produces s \<noteq> ''FailureTriage''"
  shows "\<exists>bound words needed rest. bound_context context bound \<and>
    rmapM (format_part L bound) (ns_command s) = Inr words \<and>
    rmapM (input_words L f bound journal environment verify True) (ns_needs s) = Inr needed \<and>
    target_words L f bound environment (words @ concat needed @ rest) = Inr command"
proof -
  obtain bound template words needed extra registry where
    b: "(if needs_contract (ns_command s) then bind_contract L f s context journal environment (ns_command s) verify
         else Inr (context, ns_command s)) = Inr (bound, template)"
    and w: "rmapM (format_part L bound) template = Inr words"
    and i: "rmapM (input_words L f bound journal environment verify True) (ns_needs s) = Inr needed"
    and t: "target_words L f bound environment (words @ concat needed @ concat extra @ registry) = Inr command"
    using r by (fastforce simp: resolve_command_def rbind_eq_Inr Let_def)
  have "template = ns_command s \<and> bound_context context bound"
    using b n bind_contract_bound
    by (auto simp: bound_context_def split: if_splits)
  with w i t show ?thesis by blast
qed

lemma proof_kept: "proof_words L f c e u command = Inr command' \<Longrightarrow> set command \<subseteq> set command'"
  unfolding proof_words_def rbind_eq_Inr Let_def by auto

lemma words_kept:
  assumes "target_words L f c e words = Inr command"
  shows "set words \<subseteq> set command"
proof -
  obtain u user where "(if proof_script \<in> set (words @ user) then proof_words L f c e u (words @ user)
     else if ''--contract-instance'' \<in> set (words @ user) then contract_gate L f u (words @ user)
     else Inr (words @ user)) = Inr command"
    using assms unfolding target_words_def rbind_eq_Inr Let_def by blast
  then have "set (words @ user) \<subseteq> set command"
    using proof_kept by (fastforce simp: contract_gate_def rbind_eq_Inr split: if_splits)
  then show ?thesis by simp
qed

lemma needed_words:
  assumes "rmapM (input_words L f bound journal environment verify True) refs = Inr needed" "(opt, ref) \<in> set refs"
  shows "\<exists>subject hit p. input_fact L f journal (fst (reference_parts ref)) subject environment bound verify = Inr (Some hit) \<and>
    fact_file hit (snd (reference_parts ref)) = Inr p \<and> {opt, p} \<subseteq> set (concat needed)"
proof -
  obtain ws where ws: "ws \<in> set needed" "input_words L f bound journal environment verify True (opt, ref) = Inr ws"
    using rmapM_result[OF assms] by blast
  obtain kind filename where k: "reference_parts ref = (kind, filename)" by fastforce
  obtain subject x where h: "input_fact L f journal kind subject environment bound verify = Inr x"
    and c: "(case x of None \<Rightarrow> Inl (unresolved ''kind is not in the Journal for this environment'' [JStr kind])
        | Some h \<Rightarrow> rbind (fact_file h filename) (\<lambda>p. Inr [opt, p])) = Inr ws"
    using ws(2) by (auto simp: input_words_def k rbind_eq_Inr)
  obtain hit where x: "x = Some hit" using c by (cases x) auto
  obtain p where "fact_file hit filename = Inr p" "ws = [opt, p]"
    using c by (auto simp: x rbind_eq_Inr)
  moreover from this ws(1) have "{opt, p} \<subseteq> set (concat needed)" by force
  ultimately show ?thesis using h x k by auto
qed

lemma proof_supported:
  assumes "proof_words L f context environment (Some t) command = Inr command'"
  shows "\<exists>r. require_supported L f t = Inr r \<and> dget r ''status'' = JStr ''supported''"
proof -
  obtain p u where "(if \<not> starts_with p ''--'' then supported_contract L f p (Some t)
      else (case Some t of None \<Rightarrow> Inr () | Some t \<Rightarrow> rbind (require_supported L f t) (\<lambda>_. Inr ()))) = Inr u"
    using assms unfolding proof_words_def rbind_eq_Inr by blast
  then show ?thesis
    using contract_target_agrees
    by (fastforce simp: supported_contract_def rbind_eq_Inr require_supported_def rguard_eq_Inr split: if_splits)
qed


definition gate_texts :: "(string \<times> pyval) list" where
  "gate_texts = [(''target'', JDict [(''hardware'', JStr ''kunlun/p800''),
       (''runtime'', JDict [(''engine'', JStr ''vllm''), (''backend'', JStr ''kunlun'')])]),
     (''matrix'', JDict [(''entries'', JList [JDict [(''id'', JStr ''x''), (''hardware'', JStr ''kunlun/p800''),
        (''engine'', JStr ''vllm''), (''backend'', JStr ''kunlun''), (''status'', JStr ''supported'')]])])]"

definition gate_words_lib :: lib where
  "gate_words_lib = drift_lib\<lparr>yaml_loads := (\<lambda>s. case map_of gate_texts s of
     None \<Rightarrow> Inl (YAMLError (Msg ''invalid'' [])) | Some v \<Rightarrow> Inr v)\<rparr>"

definition gate_words_fs :: fs where
  "gate_words_fs = drift_fs @ [([''repo'', ''compatibility''], Dir),
     ([''repo'', ''compatibility'', ''matrix.yaml''], File ''matrix''), ([''data'', ''target''], File ''target'')]"

definition gate_context :: pydict where
  "gate_context = [(''subject'', JStr ''m''), (''artifacts'', JStr ''/data''), (''target_file'', JStr ''/data/target'')]"

lemma proof_command:
  "resolve_command gate_words_lib gate_words_fs environment_node gate_context [''data'', ''journal''] journal_env None True False =
     Inr [''python3'', ''cli/deployment/proof.py'', ''--execute'', ''--phase'', ''environment'', ''--artifact-dir'', ''/data'',
       ''--target'', ''/data/target'', ''--subject'', ''m'']"
  by code_simp

lemma drift_command:
  "resolve_command gate_words_lib gate_words_fs drift_node gate_context [''data'', ''journal''] journal_env None True False =
     Inr [''python3'', ''cli/discovery/scan_runtime_drift.py'', ''--out'', ''/data'', ''--env-status'', ''/env/status.json'']"
  by code_simp

lemma gate_nodes:
  "proof_script \<in> set (ns_command environment_node) \<and> ns_produces environment_node \<noteq> ''FailureTriage''"
  "ns_produces drift_node \<noteq> ''FailureTriage'' \<and> (''--env-status'', ''fact:EnvironmentProof:status.json'') \<in> set (ns_needs drift_node)"
  "truthy (dget gate_context ''target_file'')"
  by code_simp+


end
