(* ===== verification/GraphBridge.thy ===== *)
theory GraphBridge
  imports GraphEvidence
begin

text \<open>
  The class \<open>GraphSchedulerBridge\<close> of \<open>engine/graph_bridge.py\<close> up to the operator gate: the environment
  proof is accepted and rechecked, discovery reports become tasks of the scheduler
  (\<open>graph_dispatch\<close>), and \<open>delivery_status\<close> says whether every operator of the run is done, from the
  queue's rows and the evidence files as they are now.

  Each call of the scheduler is a transaction of its own (\<open>atomic\<close>). Inside \<open>finalize\<close> they
  all run in the transaction that it opens; there an exception of one of them ends the whole, so
  rolling back the inner one first makes no difference.
\<close>

section \<open>The bridge\<close>

record bridge =
  br_state :: path
  br_root :: path
  br_run :: string
  br_subject :: string
  br_environment :: pydict
  br_execute :: bool

definition bridge_run :: "bridge \<Rightarrow> run exec" where
  "bridge_run b = actreadR (\<lambda>w. case run_of (db w) (br_run b) of
      None \<Rightarrow> Inl (ValueError (Msg ''unknown adaptation run'' [JStr (br_run b)]))
    | Some r \<Rightarrow> Inr r)"

definition require_execute :: "bridge \<Rightarrow> unit exec" where
  "require_execute b = actguard (br_execute b) (ValueError (Msg ''graph bridge is read-only in plan mode'' []))"

text \<open>\<open>except (OSError, ValueError, KeyError, TypeError)\<close> around a body: its exception becomes a value.\<close>

definition attempt_of :: "(exc \<Rightarrow> bool) \<Rightarrow> 'a exec \<Rightarrow> (exc + 'a) exec" where
  "attempt_of caught m = actcatch (actbind m (\<lambda>x. actret (Inr x)))
     (\<lambda>e. if caught e then Some (actret (Inl e)) else None)"

definition exc_msg :: "lib \<Rightarrow> exc \<Rightarrow> pyval" where
  "exc_msg L e = JStr (exc_text L e)"

section \<open>The environment\<close>

definition check_environment_proof :: "bridge \<Rightarrow> run \<Rightarrow> pyval \<Rightarrow> pydict \<Rightarrow> exc + unit" where
  "check_environment_proof b r imported proof =
     rbind (rguard (is_dict (dget proof ''checks''))
       (ValueError (Msg ''environment proof checks must be an object'' []))) (\<lambda>_.
     rbind (no_errors (validate_environment_status proof)) (\<lambda>_.
     rbind (check_run_identity (br_environment b) r True (truthy imported) (JDict proof)) (\<lambda>_.
     rguard (py_eq (dget_or proof ''evidence_mode'' (JStr ''real'')) (run_mode r))
       (ValueError (Msg ''environment evidence_mode does not match the run'' [])))))"

definition recheck_environment :: "lib \<Rightarrow> fs \<Rightarrow> bridge \<Rightarrow> run \<Rightarrow> pyval \<Rightarrow> exc + unit" where
  "recheck_environment L f b r accepted =
     rbind (vindex accepted ''files'') (\<lambda>items.
     rbind (recheck_files L f items) (\<lambda>_.
     rbind (vindex accepted ''status_path'') (\<lambda>v. rbind (value_path L v) (\<lambda>p.
     rbind (load_object L f p) (\<lambda>proof.
     rbind (vget_or accepted ''imported'' (JBool False)) (\<lambda>imported.
     check_environment_proof b r imported proof))))))"

text \<open>\<open>_environment_errors\<close>: with \<open>execute\<close>, evidence that fails the recheck demotes the run.\<close>

definition environment_errors :: "lib \<Rightarrow> bridge \<Rightarrow> pyval list exec" where
  "environment_errors L b =
     actbind (bridge_run b) (\<lambda>r.
     let accepted = dget (r_metadata r) ''graph_environment'' in
     if r_status r \<noteq> ''ENVIRONMENT_READY'' then actret [JStr ''environment is not ready'']
     else if \<not> truthy accepted then actret [JStr ''graph has not accepted a persisted environment proof'']
     else
       actbind (actread (\<lambda>w. recheck_environment L (files w) b r accepted)) (\<lambda>res. case res of
           Inr _ \<Rightarrow> actret []
         | Inl e \<Rightarrow>
             if \<not> caught_identity e then actraise e
             else actbind (actwhen (br_execute b) (actbind
                 (atomic (record_environment_failure L (br_run b) [] (exc_text L e))) (\<lambda>_. actret ()))) (\<lambda>_.
               actret [exc_msg L e])))"

section \<open>bind\_environment\<close>

text \<open>\<open>set(ENVIRONMENT_ARTIFACTS) <= set(hashes)\<close> and the hashes themselves.\<close>

definition binds_artifacts :: "pyval \<Rightarrow> exc + bool" where
  "binds_artifacts hashes = rbind (set_of hashes) (\<lambda>ks.
     Inr (list_all (\<lambda>k. in_list (JStr k) ks) environment_artifacts))"

definition previously_bound :: "lib \<Rightarrow> fs \<Rightarrow> path \<Rightarrow> pyval \<Rightarrow> exc + bool" where
  "previously_bound L f dir bound =
     rbind (vget bound ''artifact_root'') (\<lambda>a.
     if \<not> truthy a then Inr False
     else rbind (value_path L a) (\<lambda>p. rbind (resolve f p) (\<lambda>q.
       if q \<noteq> dir then Inr False
       else rbind (vget_or bound ''evidence_sha256'' (JDict [])) binds_artifacts)))"

definition recheck_bound :: "lib \<Rightarrow> fs \<Rightarrow> path \<Rightarrow> string \<times> pyval \<Rightarrow> exc + unit" where
  "recheck_bound L f dir kv =
     rbind (evidence_file L f (below dir (fst kv))) (\<lambda>e.
     rguard (py_eq (dget e ''sha256'') (snd kv)) (ValueError (Msg ''accepted environment evidence changed'' [])))"

definition recheck_bound_files :: "lib \<Rightarrow> fs \<Rightarrow> path \<Rightarrow> pyval \<Rightarrow> exc + unit" where
  "recheck_bound_files L f dir bound =
     rbind (vindex bound ''evidence_sha256'') (\<lambda>h. case h of
         JDict hashes \<Rightarrow> rbind (rmapM (recheck_bound L f dir) hashes) (\<lambda>_. Inr ())
       | _ \<Rightarrow> Inl AttributeError)"

definition owned_by_run :: "lib \<Rightarrow> fs \<Rightarrow> string \<Rightarrow> path \<Rightarrow> exc + bool" where
  "owned_by_run L f rid p = rbind (locate_attempt L f p) (\<lambda>a.
     Inr (case a of None \<Rightarrow> False | Some x \<Rightarrow> a_run x = rid))"

text \<open>What is decided before the proof is read: where it is, what was accepted, whether it is imported.\<close>

definition locate_proof :: "lib \<Rightarrow> fs \<Rightarrow> bridge \<Rightarrow> run \<Rightarrow> path \<Rightarrow> exc + path \<times> pyval \<times> pyval" where
  "locate_proof L f b r artifacts =
     rbind (ensure_external_path L f artifacts) (\<lambda>dir.
     let bound = dget_or (r_environment r) ''environment_proof'' (JDict []);
         accepted = dget (r_metadata r) ''graph_environment'' in
     rbind (previously_bound L f dir bound) (\<lambda>known.
     rbind (if known then recheck_bound_files L f dir bound else Inr ()) (\<lambda>_.
     rbind (rguard (under dir (br_root b) \<or> known)
       (ValueError (Msg ''external environment evidence requires an exact scheduler binding'' []))) (\<lambda>_.
     rbind (owned_by_run L f (br_run b) dir) (\<lambda>owned.
     rbind (if truthy accepted then vget accepted ''status_path'' else Inr JNone) (\<lambda>previous.
     rbind (if truthy accepted \<and> previous = JStr (path_str (dir @ [''status.json'']))
            then vget_or accepted ''imported'' (JBool False)
            else Inr (JBool (known \<and> (\<not> under dir (br_root b) \<or> \<not> owned)))) (\<lambda>imported.
     Inr (dir, accepted, imported))))))))"

text \<open>\<open>{item["path"]: item["sha256"] for item in accepted["files"]}\<close>, and no file of it may have changed.\<close>

definition accepted_hash :: "pyval \<Rightarrow> exc + pyval \<times> pyval" where
  "accepted_hash item = rbind (vindex item ''path'') (\<lambda>p. rbind (vindex item ''sha256'') (\<lambda>h.
     if hashable p then Inr (p, h) else Inl TypeError))"

definition unchanged_files :: "pyval \<Rightarrow> pydict list \<Rightarrow> exc + unit" where
  "unchanged_files accepted new_files =
     rbind (vindex accepted ''files'') (\<lambda>v. rbind (viter v) (\<lambda>items.
     rbind (rmapM accepted_hash items) (\<lambda>old.
     rguard (list_all (\<lambda>e. case find (\<lambda>(p, _). py_eq p (dget e ''path'')) (rev old) of
         None \<Rightarrow> True | Some (_, h) \<Rightarrow> py_eq h (dget e ''sha256'')) new_files)
       (ValueError (Msg ''accepted environment evidence changed'' [])))))"

definition proof_artifact :: "lib \<Rightarrow> fs \<Rightarrow> path \<Rightarrow> pyval \<Rightarrow> exc + pydict" where
  "proof_artifact L f dir name = rbind (text_path name) (\<lambda>s. rbind (store_path L f dir s) (evidence_file L f))"

definition proof_record :: "lib \<Rightarrow> fs \<Rightarrow> bridge \<Rightarrow> run \<Rightarrow> path \<Rightarrow> pyval \<Rightarrow> pyval \<Rightarrow> pydict \<Rightarrow> exc + pydict" where
  "proof_record L f b r dir accepted imported proof =
     rbind (check_environment_proof b r imported proof) (\<lambda>_.
     rbind (let a = dget proof ''artifact_root'' in
            if \<not> truthy a then Inr ()
            else rbind (value_path L a) (\<lambda>p. rbind (resolve f p) (\<lambda>q.
              rguard (q = dir) (ValueError (Msg ''artifact_root does not match its location'' []))))) (\<lambda>_.
     rbind (evidence_file L f (dir @ [''status.json''])) (\<lambda>status.
     rbind (rbind (vindex (JDict proof) ''artifacts'') viter) (\<lambda>names.
     rbind (rmapM (proof_artifact L f dir) names) (\<lambda>evidence.
     rbind (if truthy accepted then unchanged_files accepted (status # evidence) else Inr ()) (\<lambda>_.
     Inr [(''status_path'', JStr (path_str (dir @ [''status.json'']))),
          (''files'', JList (map JDict (status # evidence))), (''imported'', imported)]))))))"

definition reject_environment :: "lib \<Rightarrow> bridge \<Rightarrow> pydict \<Rightarrow> exc \<Rightarrow> pydict exec" where
  "reject_environment L b proof e =
     actbind (atomic (record_environment_failure L (br_run b) proof (exc_text L e))) (\<lambda>_.
     actraise (ValueError (Msg ''environment proof rejected'' [exc_msg L e])))"

definition graph_bind_environment :: "lib \<Rightarrow> bridge \<Rightarrow> path \<Rightarrow> pydict exec" where
  "graph_bind_environment L b artifacts =
     actbind (require_execute b) (\<lambda>_.
     actbind (attempt_of caught_identity (actbind (bridge_run b) (\<lambda>r.
       actbind (actreadR (\<lambda>w. locate_proof L (files w) b r artifacts)) (\<lambda>x. actret (r, x))))) (\<lambda>located.
     case located of Inl e \<Rightarrow> reject_environment L b [] e
     | Inr (r, dir, accepted, imported) \<Rightarrow>
       actbind (attempt_of caught_identity (actreadR (\<lambda>w. load_object L (files w) (dir @ [''status.json''])))) (\<lambda>loaded.
       case loaded of Inl e \<Rightarrow> reject_environment L b [] e
       | Inr proof \<Rightarrow>
         actbind (attempt_of caught_identity
           (actbind (actreadR (\<lambda>w. proof_record L (files w) b r dir accepted imported proof)) (\<lambda>record.
            if r_status r = ''ENVIRONMENT_READY'' \<and> py_eq accepted (JDict record) then actret record
            else
              actbind (atomic (bind_environment L (br_run b) proof (Some (path_str dir)))) (\<lambda>_.
              actbind (atomic (record_graph_transition L (br_run b) ''graph_environment'' record)) (\<lambda>_.
              actret record))))) (\<lambda>bound.
         case bound of Inl e \<Rightarrow> reject_environment L b proof e | Inr record \<Rightarrow> actret record))))"

section \<open>The operator gate\<close>

text \<open>One accepted discovery: its state, its status file and its source reports.\<close>

definition check_discovery_files :: "lib \<Rightarrow> fs \<Rightarrow> pyval \<Rightarrow> exc + unit" where
  "check_discovery_files L f accepted =
     rbind (rbind (vindex accepted ''status_path'') (value_path L)) (\<lambda>p.
     rbind (evidence_file L f p) (\<lambda>e.
     rbind (vindex accepted ''status_sha256'') (\<lambda>h.
     rbind (rguard (py_eq (dget e ''sha256'') h) (ValueError (Msg ''accepted dispatch status changed'' []))) (\<lambda>_.
     rbind (vindex accepted ''reports'') (recheck_files L f)))))"

definition discovery_errors :: "lib \<Rightarrow> fs \<Rightarrow> pyval \<Rightarrow> exc + pyval list" where
  "discovery_errors L f accepted =
     rbind (rbind (vget accepted ''state'') (\<lambda>s. in_strset s [''DISPATCHED'', ''DISPATCH_SKIPPED''])) (\<lambda>settled.
     rbind (if settled then Inr []
            else rbind (vget accepted ''errors'') (\<lambda>es.
              viter (py_or es (JList [JStr ''operator discovery is blocked''])))) (\<lambda>blocked.
     (case check_discovery_files L f accepted of
        Inr _ \<Rightarrow> Inr blocked
      | Inl e \<Rightarrow> if caught_identity e then Inr (blocked @ [exc_msg L e]) else Inl e)))"

text \<open>One task of the run: a succeeded one is validated again, with the producer that was recorded. A
  recorded producer that is no string equals no validator, as the empty string does.\<close>

definition task_error :: "task \<Rightarrow> string \<Rightarrow> pyval" where
  "task_error t s = JStr (t_id t @ '': '' @ s)"

definition task_errors :: "lib \<Rightarrow> fs \<Rightarrow> run \<Rightarrow> task \<Rightarrow> exc + pyval list" where
  "task_errors L f r t =
     (if t_status t = Failed then Inr [task_error t ''failed'']
      else if t_stage t = Diagnosis \<and> dget (t_output t) ''next_action'' = JStr ''BLOCKED''
      then Inr [task_error t ''diagnosis BLOCKED'']
      else if t_status t = Succeeded then
        let submitted = dget_or (t_output t) ''_submission'' (JDict []) in
        rbind (vget submitted ''worker'') (\<lambda>producer.
        rbind (vget submitted ''attempt'') (\<lambda>n.
        if \<not> truthy producer \<or> \<not> py_eq n (JInt (t_attempt t))
        then Inr [task_error t ''missing current producer submission'']
        else rbind (validate_result L f t r (t_output t) (str_or producer [])) (\<lambda>ms.
          Inr (map (\<lambda>m. task_error t (str_or (msg_text m) [])) ms))))
      else if t_stage t = Diagnosis then Inr [task_error t ''unresolved diagnosis'']
      else Inr [])"

definition lifecycle_stages :: "stage list" where
  "lifecycle_stages = [Torch, Xpu, Integration]"

definition stage_done :: "task list \<Rightarrow> string \<Rightarrow> stage \<Rightarrow> bool" where
  "stage_done ts key g \<longleftrightarrow> list_ex (\<lambda>t. t_key t = key \<and> t_stage t = g \<and> t_status t = Succeeded) ts"

definition operator_keys :: "task list \<Rightarrow> string list" where
  "operator_keys ts = sort (remdups (map t_key (filter (\<lambda>t. t_stage t \<noteq> Diagnosis) ts)))"

fun status_name :: "tstatus \<Rightarrow> string" where
  "status_name Pending = ''pending''"
| "status_name Running = ''running''"
| "status_name Succeeded = ''succeeded''"
| "status_name Failed = ''failed''"

definition task_result :: "task \<Rightarrow> pydict" where
  "task_result t =
     [(''task_id'', JStr (t_id t)), (''operator_key'', JStr (t_key t)),
      (''stage'', JStr (stage_name (t_stage t))), (''status'', JStr (status_name (t_status t))),
      (''attempt'', JInt (t_attempt t)), (''evidence_sha256'', dget_or (t_output t) ''evidence_sha256'' (JDict [])),
      (''submission'', dget_or (t_output t) ''_submission'' (JDict []))]"

definition gate_state :: "pyval list \<Rightarrow> bool \<Rightarrow> string" where
  "gate_state errors waiting =
     (if errors \<noteq> [] then ''OPERATORS_BLOCKED'' else if waiting then ''WAITING_FOR_OPERATORS'' else ''OPERATORS_READY'')"

definition snapshot_keys :: "string list" where
  "snapshot_keys = [''state'', ''run_id'', ''evidence_mode'', ''environment_fingerprint'',
     ''task_ids'', ''operator_keys'', ''task_results'']"

definition gate_status :: "bridge \<Rightarrow> run \<Rightarrow> pyval \<Rightarrow> task list \<Rightarrow> string \<Rightarrow> pyval list \<Rightarrow> pydict" where
  "gate_status b r fp ts state errors =
     [(''state'', JStr state), (''run_id'', JStr (br_run b)), (''subject'', JStr (br_subject b)),
      (''evidence_mode'', run_mode r), (''scheduler_state'', JStr (path_str (br_state b))),
      (''artifact_root'', JStr (path_str (br_root b))), (''environment_fingerprint'', fp),
      (''task_ids'', JList (map JStr (sort (map t_id ts)))),
      (''operator_keys'', JList (map JStr (operator_keys ts))),
      (''task_results'', JList (map (\<lambda>t. JDict (task_result t)) (sort_key t_id ts))),
      (''errors'', JList errors)]"

definition with_token :: "lib \<Rightarrow> pydict \<Rightarrow> pydict" where
  "with_token L status = status @ [(''snapshot_token'',
     JStr (sha256 L (json_as L JsonCompact (JDict (map (\<lambda>k. (k, dget status k)) snapshot_keys)))))]"

definition accepted_discoveries :: "run \<Rightarrow> pyval list" where
  "accepted_discoveries r = map (dget (r_metadata r))
     (filter (dhas (r_metadata r)) [''graph_discovery'', ''graph_shim_discovery''])"

definition operators_gate :: "lib \<Rightarrow> bridge \<Rightarrow> fs \<Rightarrow> run \<Rightarrow> task list \<Rightarrow> pyval list \<Rightarrow> exc + pydict" where
  "operators_gate L b f r ts environment =
     rbind (rmapM (discovery_errors L f) (accepted_discoveries r)) (\<lambda>discovered.
     rbind (rmapM (task_errors L f r) ts) (\<lambda>checked.
     rbind (run_fingerprint r) (\<lambda>fp.
     let errors = environment @ concat discovered @ concat checked;
         waiting = \<not> truthy (dget (r_metadata r) ''graph_discovery'') \<or>
           list_ex (\<lambda>key. list_ex (\<lambda>g. \<not> stage_done ts key g) lifecycle_stages) (operator_keys ts)
     in Inr (with_token L (gate_status b r fp ts (gate_state errors waiting) errors)))))"

definition delivery_status :: "lib \<Rightarrow> bridge \<Rightarrow> pydict exec" where
  "delivery_status L b =
     actbind (environment_errors L b) (\<lambda>environment.
     actbind (bridge_run b) (\<lambda>r.
     actreadR (\<lambda>w. operators_gate L b (files w) r (map view (tasks_of (db w) (Some (br_run b)))) environment)))"

section \<open>What a ready gate means\<close>

text \<open>The task list of a ready gate: every operator has a succeeded task at each stage of its lifecycle, no
  task failed, every diagnosis is resolved and none of them blocks, and every succeeded result passes
  the evidence gate again, on the files as they are.\<close>

definition task_settled :: "lib \<Rightarrow> fs \<Rightarrow> run \<Rightarrow> task \<Rightarrow> bool" where
  "task_settled L f r t \<longleftrightarrow> t_status t \<noteq> Failed \<and>
     (t_stage t = Diagnosis \<longrightarrow> t_status t = Succeeded \<and> dget (t_output t) ''next_action'' \<noteq> JStr ''BLOCKED'') \<and>
     (t_status t = Succeeded \<longrightarrow> (\<exists>worker. validate_result L f t r (t_output t) worker = Inr []))"

definition lifecycle_complete :: "task list \<Rightarrow> bool" where
  "lifecycle_complete ts \<longleftrightarrow> list_all (\<lambda>t. t_stage t = Diagnosis \<or>
     list_all (stage_done ts (t_key t)) lifecycle_stages) ts"

definition environment_holds :: "lib \<Rightarrow> fs \<Rightarrow> bridge \<Rightarrow> run \<Rightarrow> bool" where
  "environment_holds L f b r \<longleftrightarrow> r_status r = ''ENVIRONMENT_READY'' \<and>
     recheck_environment L f b r (dget (r_metadata r) ''graph_environment'') = Inr ()"

definition discovery_settled :: "lib \<Rightarrow> fs \<Rightarrow> pyval \<Rightarrow> bool" where
  "discovery_settled L f a \<longleftrightarrow> (case a of
      JDict d \<Rightarrow> in_strs (dget d ''state'') [''DISPATCHED'', ''DISPATCH_SKIPPED''] \<and> check_discovery_files L f a = Inr ()
    | _ \<Rightarrow> False)"

definition operators_delivered :: "lib \<Rightarrow> bridge \<Rightarrow> world \<Rightarrow> bool" where
  "operators_delivered L b w \<longleftrightarrow> (case run_of (db w) (br_run b) of
      None \<Rightarrow> False
    | Some r \<Rightarrow>
        let ts = map view (tasks_of (db w) (Some (br_run b))) in
        environment_holds L (files w) b r \<and> truthy (dget (r_metadata r) ''graph_discovery'') \<and>
        lifecycle_complete ts \<and> list_all (task_settled L (files w) r) ts \<and>
        list_all (discovery_settled L (files w)) (accepted_discoveries r))"

lemma task_errors_settled: "task_errors L f r t = Inr [] \<Longrightarrow> task_settled L f r t"
  by (auto simp: task_errors_def task_settled_def Let_def rbind_eq_Inr split: if_splits)

lemma viter_truthy: "truthy v \<Longrightarrow> viter v \<noteq> Inr []"
  by (cases v) (simp_all add: viter_def)

lemma truthy_py_or: "truthy b \<Longrightarrow> truthy (py_or a b)"
  by (simp add: py_or_def)

lemma discovery_errors_none:
  assumes "discovery_errors L f a = Inr []"
  shows "discovery_settled L f a"
proof -
  obtain s settled where s: "vget a ''state'' = Inr s" "in_strset s [''DISPATCHED'', ''DISPATCH_SKIPPED''] = Inr settled"
    using assms by (auto simp: discovery_errors_def rbind_eq_Inr)
  have c: "check_discovery_files L f a = Inr ()"
    using assms by (cases "check_discovery_files L f a") (auto simp: discovery_errors_def rbind_eq_Inr split: if_splits)
  have "\<exists>es. viter (py_or es (JList [JStr ''operator discovery is blocked''])) = Inr []" if "\<not> settled"
    using assms s that c by (auto simp: discovery_errors_def rbind_eq_Inr)
  then have settled
    using viter_truthy truthy_py_or by (metis list.distinct(1) truthy.simps(6))
  with s c show ?thesis by (auto simp: discovery_settled_def vget_Inr in_strset_Inr)
qed

lemma rmapM_concat_Nil:
  "rmapM g xs = Inr ys \<Longrightarrow> concat ys = [] \<Longrightarrow> x \<in> set xs \<Longrightarrow> g x = Inr []"
  using rmapM_result by fastforce

lemma operator_keys_set: "set (operator_keys ts) = t_key ` {t \<in> set ts. t_stage t \<noteq> Diagnosis}"
  by (auto simp: operator_keys_def)

lemma gate_ready:
  "gate_state errors waiting = ''OPERATORS_READY'' \<longleftrightarrow> errors = [] \<and> \<not> waiting"
  by (simp add: gate_state_def)

lemma gate_status_state: "dget (with_token L (gate_status b r fp ts state errors)) ''state'' = JStr state"
  by (simp add: with_token_def gate_status_def)

lemma operators_gate_ready:
  assumes g: "operators_gate L b f r ts environment = Inr st" and s: "dget st ''state'' = JStr ''OPERATORS_READY''"
  shows "environment = [] \<and> truthy (dget (r_metadata r) ''graph_discovery'') \<and> lifecycle_complete ts \<and>
    list_all (task_settled L f r) ts \<and> list_all (discovery_settled L f) (accepted_discoveries r)"
proof -
  define waiting where "waiting \<longleftrightarrow> \<not> truthy (dget (r_metadata r) ''graph_discovery'') \<or>
           list_ex (\<lambda>key. list_ex (\<lambda>g. \<not> stage_done ts key g) lifecycle_stages) (operator_keys ts)"
  obtain discovered checked fp where d: "rmapM (discovery_errors L f) (accepted_discoveries r) = Inr discovered"
    and c: "rmapM (task_errors L f r) ts = Inr checked"
    and st: "st = with_token L (gate_status b r fp ts (gate_state (environment @ concat discovered @ concat checked) waiting)
      (environment @ concat discovered @ concat checked))"
    using g by (auto simp: operators_gate_def rbind_eq_Inr Let_def waiting_def)
  from s have "gate_state (environment @ concat discovered @ concat checked) waiting = ''OPERATORS_READY''"
    unfolding st gate_status_state by simp
  then have n: "environment = []" "concat discovered = []" "concat checked = []" "\<not> waiting"
    unfolding gate_ready by auto
  have "lifecycle_complete ts"
    using n(4) by (auto simp: lifecycle_complete_def waiting_def list_all_iff list_ex_iff operator_keys_set)
  moreover have "list_all (task_settled L f r) ts"
    using rmapM_concat_Nil[OF c n(3)] task_errors_settled by (auto simp: list_all_iff)
  moreover have "list_all (discovery_settled L f) (accepted_discoveries r)"
    using rmapM_concat_Nil[OF d n(2)] discovery_errors_none by (auto simp: list_all_iff)
  ultimately show ?thesis using n(1,4) by (simp add: waiting_def)
qed

lemma environment_errors_none:
  assumes "environment_errors L b w = (Inr [], w')"
  shows "w' = w \<and> (\<exists>r. run_of (db w) (br_run b) = Some r \<and> environment_holds L (files w) b r)"
  using assms
  by (auto simp: environment_errors_def bridge_run_def Let_def actbind_returns actreadR_returns actread_returns
      actret_returns actraise_returns environment_holds_def split: if_splits option.splits sum.splits)

lemma delivery_ready:
  assumes d: "delivery_status L b w = (Inr st, w')" and s: "dget st ''state'' = JStr ''OPERATORS_READY''"
  shows "w' = w \<and> operators_delivered L b w"
proof -
  obtain environment w1 r where e: "environment_errors L b w = (Inr environment, w1)"
    and r: "run_of (db w1) (br_run b) = Some r"
    and g: "operators_gate L b (files w1) r (map view (tasks_of (db w1) (Some (br_run b)))) environment = Inr st"
    and w': "w' = w1"
    using d by (auto simp: delivery_status_def bridge_run_def actbind_returns actreadR_returns split: option.splits)
  note x = operators_gate_ready[OF g s]
  from x have "environment = []" by simp
  with e have "w1 = w" "\<exists>r. run_of (db w) (br_run b) = Some r \<and> environment_holds L (files w) b r"
    using environment_errors_none by auto
  with x r w' show ?thesis by (auto simp: operators_delivered_def Let_def)
qed

end
