(* ===== verification/GraphDispatch.thy ===== *)
theory GraphDispatch
  imports GraphBridge
begin

text \<open>
  \<open>dispatch\<close> and \<open>dispatch_shims\<close> of the graph bridge, and \<open>validate_dispatch\<close> of
  \<open>validators/operator_lifecycle_validator.py\<close>: the entries of a discovery report become operator tasks
  of the run, one transaction each; what could not be dispatched is listed, and the outcome is written
  and recorded in the run.
\<close>

section \<open>The queue read from a report\<close>

text \<open>\<open>EventStore(path, readonly=True)\<close>: the world holds one database, the one at \<open>db_path\<close>; there is none
  behind another path.\<close>

definition open_readonly :: "lib \<Rightarrow> world \<Rightarrow> pyval \<Rightarrow> exc + database" where
  "open_readonly L w v =
     rbind (text_path v) (\<lambda>s.
     if s = '':memory:'' then Inl (ValueError (Msg ''read-only scheduler requires an existing state database'' []))
     else rbind (ensure_external L (files w) s) (\<lambda>p.
       if db_path w = Some p then Inr (db w)
       else Inl (ValueError (Msg ''read-only scheduler requires an existing state database'' []))))"

text \<open>Statements inside a \<open>try\<close> whose handler appends to the same list: what was appended before the
  exception stays.\<close>

fun until_raise :: "errs list \<Rightarrow> msg list \<times> exc option" where
  "until_raise [] = ([], None)"
| "until_raise (c # cs) = (case c of
      Inl e \<Rightarrow> ([], Some e)
    | Inr ms \<Rightarrow> (let (ms', e) = until_raise cs in (ms @ ms', e)))"

definition guarded :: "errs list \<Rightarrow> msg \<Rightarrow> errs" where
  "guarded cs m = (case until_raise cs of
      (ms, None) \<Rightarrow> Inr ms
    | (ms, Some e) \<Rightarrow> if caught_identity e then Inr (ms @ [m]) else Inl e)"

lemma until_raise_clean: "until_raise cs = ([], None) \<longleftrightarrow> (\<forall>c \<in> set cs. c = Inr [])"
  by (induction cs) (auto split: sum.splits prod.splits)

lemma guarded_accepts [accepts]: "guarded cs m = Inr [] \<longleftrightarrow> (\<forall>c \<in> set cs. c = Inr [])"
  by (auto simp: guarded_def until_raise_clean[symmetric] split: prod.splits option.splits if_splits)

definition strs_of :: "pyval \<Rightarrow> string list option" where
  "strs_of v = (case v of
      JList xs \<Rightarrow> if list_all is_str xs then Some (map (\<lambda>x. str_or x []) xs) else None
    | _ \<Rightarrow> None)"

definition check_run_fields :: "pydict \<Rightarrow> run \<Rightarrow> errs list" where
  "check_run_fields report r =
     [rbind (run_fingerprint r) (\<lambda>fp. each (\<lambda>(k, v). flag (\<not> py_eq (dget report k) v)
        (Msg ''dispatch does not match the persisted run'' [JStr k]))
        [(''subject'', JStr (r_model r)), (''evidence_mode'', run_mode r), (''environment_fingerprint'', fp),
         (''artifact_root'', dget (r_metadata r) ''artifact_root'')]),
      flag (\<not> truthy (dget (r_metadata r) ''graph_environment_required''))
        (Msg ''dispatch requires an activated graph scheduler binding'' []),
      rbind (vindex (JDict report) ''state'') (\<lambda>s. flag (s \<noteq> JStr ''DISPATCH_BLOCKED'' \<and> r_status r \<noteq> ''ENVIRONMENT_READY'')
        (Msg ''dispatch requires a currently ready environment'' []))]"

definition check_source :: "lib \<Rightarrow> fs \<Rightarrow> pyval \<Rightarrow> errs" where
  "check_source L f source =
     rbind (rbind (vindex source ''path'') (value_path L)) (\<lambda>p.
     let changed = flag True (Msg ''dispatch source report evidence is missing or changed'' []) in
     if is_symlink f p \<or> \<not> is_file f p then changed
     else rbind (read_bytes f p) (\<lambda>c. rbind (vget source ''sha256'') (\<lambda>h.
       if JStr (sha256 L c) \<noteq> h then changed else skip)))"

definition check_dispatch_tasks :: "lib \<Rightarrow> fs \<Rightarrow> pydict \<Rightarrow> task list \<Rightarrow> string list \<Rightarrow> string list \<Rightarrow> errs list" where
  "check_dispatch_tasks L f report all task_ids keys =
     (let ts = filter (\<lambda>t. t_id t \<in> set task_ids) all; state = vindex (JDict report) ''state'' in
      [flag (sort (map t_id ts) \<noteq> sort task_ids) (Msg ''dispatch task ids do not identify tasks owned by this run'' []),
       flag (sort (remdups (map t_key ts)) \<noteq> sort keys) (Msg ''dispatch operator keys do not match persisted tasks'' []),
       flag (list_ex (\<lambda>t. t_stage t \<noteq> Torch) ts) (Msg ''dispatch must identify the initial torch task'' []),
       flag (\<not> py_eq (dget report ''requests'') (JList (map JStr task_ids)) \<or>
             \<not> py_eq (dget report ''request_count'') (JInt (int (length task_ids))))
         (Msg ''dispatch requests must match persistent task ids'' []),
       rbind state (\<lambda>s. flag (s = JStr ''DISPATCH_SKIPPED'' \<and> task_ids \<noteq> [])
         (Msg ''DISPATCH_SKIPPED cannot contain dispatched tasks'' []))] @
      (case dget report ''reports'' of
         JList sources \<Rightarrow>
           if sources = [] then [rbind state (\<lambda>s. flag (s \<noteq> JStr ''DISPATCH_BLOCKED'')
             (Msg ''dispatch requires hashed source report references'' []))]
           else map (check_source L f) sources
       | _ \<Rightarrow> [flag True (Msg ''dispatch requires hashed source report references'' [])]))"

text \<open>\<open>_scheduled_dispatch\<close>\<close>

definition scheduled_dispatch :: "lib \<Rightarrow> world \<Rightarrow> pydict \<Rightarrow> errs" where
  "scheduled_dispatch L w report =
     (let failed = Msg ''cannot validate scheduled dispatch'' [] in
      case rbind (rbind (vindex (JDict report) ''scheduler_state'') (open_readonly L w)) (\<lambda>d.
        rbind (vindex (JDict report) ''run_id'') (\<lambda>i. Inr (d, i))) of
        Inl e \<Rightarrow> guarded [Inl e] failed
      | Inr (d, i) \<Rightarrow>
          (case (case i of JStr s \<Rightarrow> run_of d s | _ \<Rightarrow> None) of
             None \<Rightarrow> flag True (Msg ''dispatch references an unknown adaptation run'' [])
           | Some r \<Rightarrow>
               guarded (check_run_fields report r @
                 (case (strs_of (dget report ''task_ids''), strs_of (dget report ''operator_keys'')) of
                    (Some task_ids, Some keys) \<Rightarrow>
                      check_dispatch_tasks L (files w) report (map view (tasks_of d (Some (r_id r)))) task_ids keys
                  | _ \<Rightarrow> [flag True (Msg ''dispatch requires task_ids and operator_keys lists'' [])])) failed))"

definition validate_dispatch :: "lib \<Rightarrow> world \<Rightarrow> pydict \<Rightarrow> errs" where
  "validate_dispatch L w report =
     (let scheduled = dhas report ''scheduler_state'' \<or> dhas report ''run_id'' \<or> says report ''state'' ''DISPATCH_BLOCKED'' in
      all_checks
       [flagM (rnot (in_strset (dget report ''state'')
          ([''DISPATCHED'', ''DISPATCH_SKIPPED''] @ (if scheduled then [''DISPATCH_BLOCKED''] else []))))
          (Msg ''dispatch state is invalid'' []),
        flag (says report ''state'' ''DISPATCHED'' \<and> \<not> truthy (dget report ''requests''))
          (Msg ''DISPATCHED requires request ids'' []),
        whenE scheduled (all_checks
         [scheduled_dispatch L w report,
          flag (says report ''state'' ''DISPATCH_BLOCKED'' \<and> \<not> truthy (dget report ''errors''))
            (Msg ''DISPATCH_BLOCKED must explain unresolved evidence'' []),
          flag (\<not> says report ''state'' ''DISPATCH_BLOCKED'' \<and> truthy (dget report ''errors''))
            (Msg ''successful dispatch cannot contain unresolved errors'' [])])])"

section \<open>The inputs\<close>

definition load_json :: "lib \<Rightarrow> fs \<Rightarrow> path \<Rightarrow> exc + pyval" where
  "load_json L f p = rbind (read_bytes f p) (parse_json L)"

definition check_if_object :: "bridge \<Rightarrow> run \<Rightarrow> pyval \<Rightarrow> exc + unit" where
  "check_if_object b r v = (if is_dict v then check_run_identity (br_environment b) r False False v else Inr ())"

text \<open>The first half of the \<open>try\<close> block: the two reports and their hashes. The result is the
  references and messages collected so far, and the gaps and entries, or the exception.\<close>

definition dispatch_inputs ::
  "lib \<Rightarrow> fs \<Rightarrow> bridge \<Rightarrow> run \<Rightarrow> path \<Rightarrow> path option \<Rightarrow>
     pydict list \<times> pyval list \<times> (exc + pyval list \<times> pyval list)" where
  "dispatch_inputs L f b r gaps_path operator_report =
     (case rbind (load_json L f gaps_path) (\<lambda>source. rbind (discovery_entries source) (\<lambda>gaps.
        rbind (evidence_file L f gaps_path) (\<lambda>e. Inr (source, gaps, e)))) of
        Inl e \<Rightarrow> ([], [], Inl e)
      | Inr (source, gaps, first) \<Rightarrow>
      (case rbind (load_json L f (case operator_report of None \<Rightarrow> gaps_path | Some p \<Rightarrow> p)) (\<lambda>report.
         rbind (case operator_report of None \<Rightarrow> Inr [] | Some p \<Rightarrow> rbind (evidence_file L f p) (\<lambda>e. Inr [e])) (\<lambda>extra.
         Inr (report, extra))) of
         Inl e \<Rightarrow> ([first], [], Inl e)
       | Inr (report, extra) \<Rightarrow>
       (case rbind (discovery_entries report) (\<lambda>entries. rbind (check_if_object b r report) (\<lambda>_. Inr entries)) of
          Inl e \<Rightarrow> (first # extra, [], Inl e)
        | Inr entries \<Rightarrow>
            let unmapped = (case report of JDict d \<Rightarrow> truthy (dget d ''unmapped_signals'') | _ \<Rightarrow> False) in
            (first # extra, if unmapped then [JStr ''operator report contains unmapped signals''] else [],
             rbind (check_if_object b r source) (\<lambda>_. Inr (gaps, entries))))))"

section \<open>The entries\<close>

record dispatched =
  dp_tasks :: "string list"
  dp_keys :: "string list"
  dp_resolved :: "pyval list"
  dp_errors :: "pyval list"

definition normalized :: "pydict \<Rightarrow> pydict" where
  "normalized entry =
     (if truthy (entry_identifier entry) then dsetdefault entry ''operator_id'' (entry_identifier entry) else entry)"

definition entry_specs :: "bridge \<Rightarrow> run \<Rightarrow> pyval \<Rightarrow> exc + opspec list" where
  "entry_specs b r entry = (case entry of
      JDict d \<Rightarrow>
        if waived d \<and> \<not> truthy (dget d ''reason'')
        then Inl (ValueError (Msg ''waived operator evidence requires a reason'' []))
        else rbind (check_run_identity (br_environment b) r False False entry) (\<lambda>_.
          rbind (rbind (vindex (JDict (r_environment r)) ''environment_proof'') (\<lambda>p. vindex p ''fingerprint'')) (\<lambda>fp.
          operator_specs_from_report (r_model r) (r_backend r) (r_model_revision r) (JStr (r_plugin_revision r))
            [(''fingerprint'', fp)] False (JDict [(''entries'', JList [JDict (normalized d)])])))
    | _ \<Rightarrow> Inl (ValueError (Msg ''operator entry must be an object'' [])))"

definition dispatch_spec :: "lib \<Rightarrow> bridge \<Rightarrow> opspec \<Rightarrow> task exec" where
  "dispatch_spec L b s =
     actbind (actread (\<lambda>w. operator_of (db w) (br_run b) (operator_key L s))) (\<lambda>existing.
     actbind (actguard (case existing of None \<Rightarrow> True | Some x \<Rightarrow> py_eq (os_operator_id x) (os_operator_id s))
       (ValueError (Msg ''operator contract aliases another operator'' []))) (\<lambda>_.
     atomic (discover_operator L (br_run b) s)))"

definition note_task :: "task \<Rightarrow> opspec \<Rightarrow> dispatched \<Rightarrow> dispatched" where
  "note_task t s acc = acc\<lparr>dp_tasks := dp_tasks acc @ [t_id t], dp_keys := dp_keys acc @ [t_key t],
     dp_resolved := dp_resolved acc @ [os_operator_id s]\<rparr>"

definition caught_entry :: "exc \<Rightarrow> bool" where
  "caught_entry e \<longleftrightarrow> is_ValueError e \<or> is_TypeError e \<or> is_KeyError e"

definition note_error :: "pyval \<Rightarrow> dispatched \<Rightarrow> dispatched" where
  "note_error m acc = acc\<lparr>dp_errors := dp_errors acc @ [m]\<rparr>"

text \<open>The specifications of one entry, until one is refused.\<close>

fun dispatch_specs :: "lib \<Rightarrow> bridge \<Rightarrow> opspec list \<Rightarrow> dispatched \<Rightarrow> dispatched exec" where
  "dispatch_specs L b [] acc = actret acc"
| "dispatch_specs L b (s # ss) acc =
     actbind (attempt_of caught_entry (dispatch_spec L b s)) (\<lambda>x. case x of
         Inl e \<Rightarrow> actret (note_error (exc_msg L e) acc)
       | Inr t \<Rightarrow> dispatch_specs L b ss (note_task t s acc))"

text \<open>An exception that the entry's handler does not name leaves the loop; it is the second component.\<close>

fun dispatch_entries :: "lib \<Rightarrow> bridge \<Rightarrow> pyval list \<Rightarrow> dispatched \<Rightarrow> (dispatched \<times> exc option) exec" where
  "dispatch_entries L b [] acc = actret (acc, None)"
| "dispatch_entries L b (entry # entries) acc =
     actbind (bridge_run b) (\<lambda>r.
     actbind (attempt_of is_OSError (case entry_specs b r entry of
         Inl e \<Rightarrow> if caught_entry e then actret (note_error (exc_msg L e) acc) else actraise e
       | Inr specs \<Rightarrow> dispatch_specs L b specs acc)) (\<lambda>x. case x of
         Inl e \<Rightarrow> actret (acc, Some e)
       | Inr acc' \<Rightarrow> dispatch_entries L b entries acc'))"

text \<open>The gaps that nothing resolved; a value that cannot be in a set ends the loop.\<close>

fun unresolved_gaps :: "pyval list \<Rightarrow> pyval list \<Rightarrow> pyval list \<times> exc option" where
  "unresolved_gaps resolved [] = ([], None)"
| "unresolved_gaps resolved (gap # gaps) =
     (let (es, e) = unresolved_gaps resolved gaps in
      case gap of
        JDict d \<Rightarrow>
          if waived d \<and> truthy (dget d ''reason'') then (es, e)
          else if \<not> truthy (entry_identifier d) then (JStr ''unresolved actionable gap'' # es, e)
          else if \<not> hashable (entry_identifier d) then ([], Some TypeError)
          else if \<not> in_list (entry_identifier d) resolved then (JStr ''unresolved actionable gap'' # es, e)
          else (es, e)
      | _ \<Rightarrow> (JStr ''gap must be an object'' # es, e))"

section \<open>dispatch\<close>

definition exc_msgs :: "lib \<Rightarrow> exc option \<Rightarrow> pyval list" where
  "exc_msgs L e = (case e of None \<Rightarrow> [] | Some x \<Rightarrow> [exc_msg L x])"

definition no_dispatch :: dispatched where
  "no_dispatch = \<lparr>dp_tasks = [], dp_keys = [], dp_resolved = [], dp_errors = []\<rparr>"

text \<open>The second half of the \<open>try\<close> block: the entries when the environment still holds, then the gaps.\<close>

definition start_entries ::
  "lib \<Rightarrow> bridge \<Rightarrow> pyval list \<Rightarrow> pyval list \<Rightarrow> exc + pyval list \<Rightarrow> (dispatched \<times> exc option) exec" where
  "start_entries L b errors entries environment =
     (let acc = no_dispatch\<lparr>dp_errors := errors\<rparr> in
      case environment of
        Inl x \<Rightarrow> actret (acc, Some x)
      | Inr es \<Rightarrow> if es = [] then dispatch_entries L b entries acc else actret (acc, None))"

definition finish_gaps :: "lib \<Rightarrow> pyval list \<Rightarrow> dispatched \<Rightarrow> exc option \<Rightarrow> dispatched" where
  "finish_gaps L gaps acc e = (case e of
      Some x \<Rightarrow> note_error (exc_msg L x) acc
    | None \<Rightarrow>
        let (es, e') = unresolved_gaps (dp_resolved acc) gaps in
        acc\<lparr>dp_errors := dp_errors acc @ es @ exc_msgs L e'\<rparr>)"

definition dispatch_loop :: "lib \<Rightarrow> bridge \<Rightarrow> pyval list \<Rightarrow> pyval list \<Rightarrow> pyval list \<Rightarrow> dispatched exec" where
  "dispatch_loop L b errors gaps entries =
     actbind (attempt_of caught_identity (environment_errors L b)) (\<lambda>environment.
     actbind (start_entries L b errors entries environment) (\<lambda>x.
     actret (finish_gaps L gaps (fst x) (snd x))))"

definition dispatch_state :: "pyval list \<Rightarrow> string list \<Rightarrow> string" where
  "dispatch_state errors ts =
     (if errors \<noteq> [] then ''DISPATCH_BLOCKED'' else if ts \<noteq> [] then ''DISPATCHED'' else ''DISPATCH_SKIPPED'')"

definition dispatch_payload :: "bridge \<Rightarrow> run \<Rightarrow> pyval \<Rightarrow> pydict list \<Rightarrow> dispatched \<Rightarrow> pydict" where
  "dispatch_payload b r fp reports acc =
     (let ids = sort (remdups (dp_tasks acc)) in
      [(''state'', JStr (dispatch_state (dp_errors acc) (dp_tasks acc))), (''run_id'', JStr (br_run b)),
       (''subject'', JStr (br_subject b)), (''scheduler_state'', JStr (path_str (br_state b))),
       (''artifact_root'', JStr (path_str (br_root b))), (''evidence_mode'', run_mode r),
       (''environment_fingerprint'', fp), (''task_ids'', JList (map JStr ids)),
       (''operator_keys'', JList (map JStr (sort (remdups (dp_keys acc))))),
       (''requests'', JList (map JStr ids)), (''request_count'', JInt (int (length ids))),
       (''reports'', JList (map JDict reports)), (''errors'', JList (dp_errors acc))])"

definition with_verdict :: "pydict \<Rightarrow> pyval list \<Rightarrow> msg list \<Rightarrow> pydict" where
  "with_verdict payload errors verdict =
     dset (if verdict = [] then payload
           else dset (dset payload ''state'' (JStr ''DISPATCH_BLOCKED'')) ''errors'' (JList (errors @ map msg_text verdict)))
       ''validator'' (JDict [(''passed'', JBool (verdict = [])), (''errors'', JList (map msg_text verdict))])"

definition collect_dispatch :: "lib \<Rightarrow> bridge \<Rightarrow> path \<Rightarrow> path option \<Rightarrow> (pydict list \<times> dispatched) exec" where
  "collect_dispatch L b gaps_path operator_report =
     actbind (environment_errors L b) (\<lambda>environment.
     actbind (bridge_run b) (\<lambda>r.
     actbind (actread (\<lambda>w. dispatch_inputs L (files w) b r gaps_path operator_report)) (\<lambda>(reports, errors, inputs).
     case inputs of
       Inl e \<Rightarrow> if caught_identity e
         then actret (reports, no_dispatch\<lparr>dp_errors := environment @ errors @ [exc_msg L e]\<rparr>) else actraise e
     | Inr (gaps, entries) \<Rightarrow>
         actbind (dispatch_loop L b (environment @ errors) gaps entries) (\<lambda>acc. actret (reports, acc)))))"

definition graph_dispatch :: "lib \<Rightarrow> bridge \<Rightarrow> path \<Rightarrow> path \<Rightarrow> path option \<Rightarrow> string \<Rightarrow> pydict exec" where
  "graph_dispatch L b gaps_path out operator_report channel =
     actbind (require_execute b) (\<lambda>_.
     actbind (actreadR (\<lambda>w. ensure_external_path L (files w) out)) (\<lambda>dir.
     actbind (actguard (under dir (br_root b))
       (ValueError (Msg ''dispatch output must belong to the run artifact root'' []))) (\<lambda>_.
     actbind (collect_dispatch L b gaps_path operator_report) (\<lambda>(reports, acc).
     actbind (bridge_run b) (\<lambda>r.
     actbind (actlift (run_fingerprint r)) (\<lambda>fp.
     let payload = dispatch_payload b r fp reports acc in
     actbind (actreadR (\<lambda>w. validate_dispatch L w payload)) (\<lambda>verdict.
     let final = with_verdict payload (dp_errors acc) verdict; status = dir @ [''dispatch_status.json''] in
     actbind (store_write_json L dir ''dispatch_status.json'' (JDict final) True) (\<lambda>_.
     actbind (actreadR (\<lambda>w. rbind (resolve (files w) status) (\<lambda>p.
       rbind (evidence_file L (files w) status) (\<lambda>e. Inr (p, e))))) (\<lambda>(p, e).
     actbind (atomic (record_graph_transition L (br_run b) channel
       (dset (dset final ''status_path'' (JStr (path_str p))) ''status_sha256'' (dget e ''sha256'')))) (\<lambda>_.
     actret final))))))))))"

definition dispatch_shims :: "lib \<Rightarrow> bridge \<Rightarrow> path \<Rightarrow> pydict exec" where
  "dispatch_shims L b artifacts =
     actbind (require_execute b) (\<lambda>_.
     actbind (actreadR (\<lambda>w. ensure_external_path L (files w) artifacts)) (\<lambda>dir.
     actbind (actguard (under dir (br_root b))
       (ValueError (Msg ''shim evidence must belong to the run artifact root'' []))) (\<lambda>_.
     actbind (actreadR (\<lambda>w. mk_run_paths L (files w) (br_root b) (Some (br_run b)))) (\<lambda>rp.
     actbind (allocate_attempt L rp ''graph-shim-discovery'') (\<lambda>a.
     graph_dispatch L b (dir @ [''torch_shim_registry.json'']) (a_output a) None ''graph_shim_discovery'')))))"

section \<open>A dispatch that is not blocked\<close>

text \<open>Every gap of the report is waived with a reason or names an operator that became a task.\<close>

definition gap_resolved :: "pyval list \<Rightarrow> pyval \<Rightarrow> bool" where
  "gap_resolved resolved gap \<longleftrightarrow> (case gap of
      JDict d \<Rightarrow> (waived d \<and> truthy (dget d ''reason'')) \<or>
        (truthy (entry_identifier d) \<and> in_list (entry_identifier d) resolved)
    | _ \<Rightarrow> False)"

lemma unresolved_gaps_none:
  "unresolved_gaps resolved gaps = ([], None) \<Longrightarrow> gap \<in> set gaps \<Longrightarrow> gap_resolved resolved gap"
proof (induction gaps)
  case (Cons g gaps)
  then have "unresolved_gaps resolved gaps = ([], None)"
    by (cases g; cases "unresolved_gaps resolved gaps") (auto split: if_splits)
  moreover from this Cons.prems(1) have "gap_resolved resolved g"
    by (cases g) (auto simp: gap_resolved_def split: if_splits)
  ultimately show ?case using Cons by auto
qed simp

text \<open>A loop that leaves no message had none at any point.\<close>

lemma attempt_of_returns:
  "attempt_of p m w = (Inr y, w') \<longleftrightarrow>
     (\<exists>x. y = Inr x \<and> m w = (Inr x, w')) \<or> (\<exists>e. y = Inl e \<and> p e \<and> m w = (Inl e, w'))"
  by (auto simp: attempt_of_def actcatch_def actbind_def actret_def split: prod.splits sum.splits if_splits)

lemma dispatch_specs_errors:
  "dispatch_specs L b ss acc w = (Inr acc', w') \<Longrightarrow> dp_errors acc' = [] \<Longrightarrow> dp_errors acc = []"
proof (induction ss arbitrary: acc w)
  case (Cons s ss)
  then obtain x w1 where "(case x of Inl e \<Rightarrow> actret (note_error (exc_msg L e) acc)
       | Inr t \<Rightarrow> dispatch_specs L b ss (note_task t s acc)) w1 = (Inr acc', w')"
    by (auto simp: actbind_returns)
  then show ?case
    using Cons.IH[of "note_task _ s acc" w1] Cons.prems(2)
    by (auto simp: actret_returns note_error_def note_task_def split: sum.splits)
qed (simp add: actret_returns)

lemma dispatch_entries_errors:
  "dispatch_entries L b entries acc w = (Inr x, w') \<Longrightarrow> dp_errors (fst x) = [] \<Longrightarrow> dp_errors acc = []"
proof (induction entries arbitrary: acc w)
  case (Cons entry entries)
  then obtain r y w1 w2 where y: "attempt_of is_OSError (case entry_specs b r entry of
         Inl e \<Rightarrow> if caught_entry e then actret (note_error (exc_msg L e) acc) else actraise e
       | Inr specs \<Rightarrow> dispatch_specs L b specs acc) w1 = (Inr y, w2)"
    and k: "(case y of Inl e \<Rightarrow> actret (acc, Some e) | Inr acc' \<Rightarrow> dispatch_entries L b entries acc') w2 = (Inr x, w')"
    by (auto simp: actbind_returns)
  show ?case
  proof (cases y)
    case (Inl e)
    with k Cons.prems(2) show ?thesis by (auto simp: actret_returns)
  next
    case (Inr acc')
    with k Cons have n: "dp_errors acc' = []" by simp
    have "(case entry_specs b r entry of
         Inl e \<Rightarrow> if caught_entry e then actret (note_error (exc_msg L e) acc) else actraise e
       | Inr specs \<Rightarrow> dispatch_specs L b specs acc) w1 = (Inr acc', w2)"
      using y Inr by (simp add: attempt_of_returns)
    with n show ?thesis
      by (auto simp: actret_returns actraise_returns note_error_def split: sum.splits if_splits dest: dispatch_specs_errors)
  qed
qed (auto simp: actret_returns)

lemma dispatch_loop_covers:
  assumes d: "dispatch_loop L b errors gaps entries w = (Inr acc, w')" and n: "dp_errors acc = []"
  shows "errors = [] \<and> (\<forall>gap \<in> set gaps. gap_resolved (dp_resolved acc) gap)"
proof -
  obtain environment w1 x where s: "start_entries L b errors entries environment w1 = (Inr x, w')"
    and acc: "acc = finish_gaps L gaps (fst x) (snd x)"
    using d by (auto simp: dispatch_loop_def actbind_returns actret_returns)
  obtain es e' where u: "unresolved_gaps (dp_resolved (fst x)) gaps = (es, e')" by fastforce
  have f: "snd x = None" "dp_errors (fst x) = []" "es = []" "e' = None" "dp_resolved acc = dp_resolved (fst x)"
    using n unfolding acc finish_gaps_def u by (auto simp: note_error_def exc_msgs_def split: option.splits)
  have "errors = []"
    using s f(2) dispatch_entries_errors[of L b entries "no_dispatch\<lparr>dp_errors := errors\<rparr>" w1 x w']
    by (auto simp: start_entries_def Let_def actret_returns split: sum.splits if_splits)
  with unresolved_gaps_none[of "dp_resolved (fst x)" gaps] u f show ?thesis by simp
qed

end
