(* ===== verification/GraphDelivery.thy ===== *)
theory GraphDelivery
  imports GraphDispatch
begin

text \<open>
  The delivery side of the graph bridge: the read-only bridge that \<open>validate_integration\<close> opens, the
  regression snapshots, \<open>validate_baseline\<close>, and \<open>finalize\<close>, the only place that writes
  \<open>FUNCTIONAL_READY\<close>. \<open>Delivered\<close> states what a receipt guarantees.
\<close>

section \<open>Opening a bridge\<close>

definition check_opened :: "lib \<Rightarrow> world \<Rightarrow> bridge \<Rightarrow> database \<Rightarrow> exc + unit" where
  "check_opened L w b d = (case run_of d (br_run b) of
      None \<Rightarrow> Inl (ValueError (Msg ''unknown adaptation run'' [JStr (br_run b)]))
    | Some r \<Rightarrow>
        rbind (rguard (r_model r = br_subject b)
          (ValueError (Msg ''graph subject does not match adaptation run model'' []))) (\<lambda>_.
        let a = dget (r_metadata r) ''artifact_root'';
            wrong = ValueError (Msg ''graph artifact root does not match adaptation run'' []) in
        if \<not> truthy a then Inl wrong
        else rbind (rbind (text_path a) (ensure_external L (files w))) (\<lambda>p.
          rbind (rguard (p = br_root b) wrong) (\<lambda>_.
          check_run_identity (br_environment b) r False False (JDict (br_environment b))))))"

definition open_bridge :: "lib \<Rightarrow> path \<Rightarrow> string \<Rightarrow> string \<Rightarrow> path \<Rightarrow> pydict \<Rightarrow> bool \<Rightarrow> bridge exec" where
  "open_bridge L state rid subject artifacts environment execute =
     actbind (actreadR (\<lambda>w. rbind (ensure_external_path L (files w) state) (\<lambda>s.
       rbind (ensure_external_path L (files w) artifacts) (\<lambda>a.
       let b = \<lparr>br_state = s, br_root = a, br_run = rid, br_subject = subject, br_environment = environment,
                br_execute = execute\<rparr> in
       rbind (open_readonly L w (JStr (path_str s))) (\<lambda>d. rbind (check_opened L w b d) (\<lambda>_. Inr b)))))) (\<lambda>b.
     if \<not> execute then actret b
     else
       actbind (atomic (record_graph_transition L rid ''graph_environment_required'' [])) (\<lambda>_.
       actbind (bridge_run b) (\<lambda>r.
       actbind (if truthy (dget (r_metadata r) ''graph_environment'') then environment_errors L b else actret []) (\<lambda>_.
       actret b))))"

section \<open>Snapshots\<close>

definition regression_keys :: "string list" where
  "regression_keys = [''run_id'', ''evidence_mode'', ''environment_fingerprint'', ''task_ids'',
     ''operator_keys'', ''task_results'', ''snapshot_token'']"

definition managed_attempt :: "lib \<Rightarrow> fs \<Rightarrow> bridge \<Rightarrow> path \<Rightarrow> string \<Rightarrow> exc + attempt" where
  "managed_attempt L f b p what = rbind (locate_attempt L f p) (\<lambda>a. case a of
      Some x \<Rightarrow> if a_run x = br_run b then Inr x else Inl (ValueError (Msg what []))
    | None \<Rightarrow> Inl (ValueError (Msg what [])))"

definition snapshot_path :: "attempt \<Rightarrow> path" where
  "snapshot_path a = a_input a @ [''scheduler_snapshot.json'']"

definition regression_snapshot :: "lib \<Rightarrow> fs \<Rightarrow> bridge \<Rightarrow> path \<Rightarrow> pydict \<Rightarrow> exc + pydict" where
  "regression_snapshot L f b dir gate =
     rbind (managed_attempt L f b dir ''final evidence must belong to a managed run attempt'') (\<lambda>a.
     rbind (evidence_file L f (snapshot_path a)) (\<lambda>evidence.
     rbind (load_object L f (snapshot_path a)) (\<lambda>snapshot.
     rbind (rguard (says snapshot ''state'' ''OPERATORS_READY'')
       (ValueError (Msg ''final evidence must start after the operator gate is OPERATORS_READY'' []))) (\<lambda>_.
     rbind (rguard (list_all (\<lambda>k. dhas snapshot k \<and> py_eq (dget snapshot k) (dget gate k)) regression_keys)
       (ValueError (Msg ''scheduler snapshot does not match current results'' []))) (\<lambda>_.
     Inr evidence)))))"

definition accuracy_snapshot :: "lib \<Rightarrow> fs \<Rightarrow> bridge \<Rightarrow> path \<Rightarrow> path \<Rightarrow> pydict \<Rightarrow> exc + pydict" where
  "accuracy_snapshot L f b accuracy_root service_root gate =
     rbind (regression_snapshot L f b accuracy_root gate) (\<lambda>evidence.
     rbind (rbind (value_path L (dget evidence ''path'')) (load_object L f)) (\<lambda>snapshot.
     rbind (evidence_file L f (service_root @ [''status.json''])) (\<lambda>proof.
     rbind (rguard (py_eq (dget snapshot ''service_proof'') (JDict proof))
       (ValueError (Msg ''final accuracy must reference the current service proof'' []))) (\<lambda>_.
     Inr evidence))))"

section \<open>The frozen baseline\<close>

definition artifacts_exist :: "lib \<Rightarrow> fs \<Rightarrow> path \<Rightarrow> pydict \<Rightarrow> exc + unit" where
  "artifacts_exist L f dir report =
     rbind (ensure_external_path L f dir) (\<lambda>owner.
     rbind (viter (dget_or report ''artifacts'' (JList []))) (\<lambda>names.
     rbind (rmapM (proof_artifact L f owner) names) (\<lambda>_. Inr ())))"

definition revision_agrees :: "run \<Rightarrow> pydict \<Rightarrow> bool" where
  "revision_agrees r report \<longleftrightarrow> in_list (dget report ''revision'') [JNone, JStr (r_model_revision r)]"

text \<open>The evidence that the baseline references for one field.\<close>

definition check_baseline_field ::
  "lib \<Rightarrow> fs \<Rightarrow> bridge \<Rightarrow> run \<Rightarrow> path \<Rightarrow> pydict \<Rightarrow> string \<times> string \<Rightarrow> exc + unit" where
  "check_baseline_field L f b r baseline_path baseline fe =
     (let field = fst fe; expected = snd fe; reference = dget_or baseline field (JDict []) in
      rbind (vget reference ''state'') (\<lambda>s. rbind (vget reference ''artifact'') (\<lambda>a.
      rbind (rguard (s = JStr expected \<and> truthy a) (ValueError (Msg ''baseline must reference passed evidence'' [JStr field]))) (\<lambda>_.
      rbind (rbind (text_path a) (\<lambda>x. Inr (below (butlast baseline_path) x))) (\<lambda>p.
      rbind (resolve f p) (\<lambda>q.
      rbind (rguard (under q (br_root b)) (ValueError (Msg ''baseline evidence belongs to another run'' [JStr field]))) (\<lambda>_.
      rbind (managed_attempt L f b p ''baseline evidence lacks managed run provenance'') (\<lambda>_.
      rbind (load_object L f p) (\<lambda>report.
      rbind (check_run_identity (br_environment b) r False False (JDict report)) (\<lambda>_.
      rbind (rguard (field = ''accuracy'' \<longrightarrow> revision_agrees r report)
        (ValueError (Msg ''baseline accuracy model revision does not match run'' []))) (\<lambda>_.
      rbind (rguard (dget_or report ''state'' (dget report ''status'') = JStr expected)
        (ValueError (Msg ''baseline evidence is not passing'' [JStr field]))) (\<lambda>_.
      rbind (vget reference ''sha256'') (\<lambda>h. rbind (evidence_file L f p) (\<lambda>e.
      rbind (rguard (py_eq h (dget e ''sha256'')) (ValueError (Msg ''baseline evidence hash changed'' [JStr field]))) (\<lambda>_.
      if field = ''service''
      then rbind (no_errors (deployment_errors report)) (\<lambda>_. artifacts_exist L f (butlast p) report)
      else no_errors (accuracy_errors L report))))))))))))))))"

definition baseline_fields :: "(string \<times> string) list" where
  "baseline_fields = [(''service'', ''DEPLOYMENT_READY''), (''accuracy'', ''ACCURACY_PASS'')]"

definition bridge_validate_baseline :: "lib \<Rightarrow> fs \<Rightarrow> bridge \<Rightarrow> run \<Rightarrow> path \<Rightarrow> exc + pydict" where
  "bridge_validate_baseline L f b r p =
     rbind (load_object L f p) (\<lambda>baseline.
     rbind (check_run_identity (br_environment b) r False False (JDict baseline)) (\<lambda>_.
     rbind (check_run_identity (br_environment b) r False False (dget_or baseline ''environment'' (JDict []))) (\<lambda>_.
     rbind (rguard (says baseline ''status'' ''FROZEN'' \<and> truthy (dget baseline ''baseline_id''))
       (ValueError (Msg ''serving baseline must be FROZEN'' []))) (\<lambda>_.
     rbind (rguard (says baseline ''subject'' (br_subject b))
       (ValueError (Msg ''serving baseline subject does not match run'' []))) (\<lambda>_.
     rbind (rmapM (check_baseline_field L f b r p baseline) baseline_fields) (\<lambda>_.
     Inr baseline))))))"

section \<open>validate\_integration\<close>

definition integration_keys :: "string list" where
  "integration_keys = [''state'', ''run_id'', ''evidence_mode'', ''environment_fingerprint'',
     ''task_ids'', ''operator_keys'', ''task_results'', ''snapshot_token'']"

text \<open>The baseline of a scheduled integration; a rejected one turns the live gate into a blocked one.\<close>

definition integration_baseline :: "lib \<Rightarrow> bridge \<Rightarrow> pydict \<Rightarrow> pydict \<Rightarrow> (pydict \<times> msg list) exec" where
  "integration_baseline L b report gate =
     actbind (attempt_of caught_identity (actbind (bridge_run b) (\<lambda>r.
       actreadR (\<lambda>w. rbind (rbind (vindex (JDict report) ''baseline_path'') (value_path L)) (\<lambda>p.
         rbind (bridge_validate_baseline L (files w) b r p) (\<lambda>baseline.
         rbind (vindex (JDict baseline) ''baseline_id'') (\<lambda>i. Inr i))))))) (\<lambda>x. case x of
       Inr i \<Rightarrow> actret (gate, err_if (\<not> py_eq (dget report ''baseline_id'') i)
         (Msg ''integration baseline id does not match frozen evidence'' []))
     | Inl e \<Rightarrow> actret (dset gate ''state'' (JStr ''OPERATORS_BLOCKED''),
         err_if (\<not> says report ''state'' ''OPERATORS_BLOCKED'') (Msg ''integration baseline evidence rejected'' [exc_msg L e])))"

definition integration_matches :: "pydict \<Rightarrow> pydict \<Rightarrow> msg list" where
  "integration_matches report gate =
     concat (map (\<lambda>k. err_if (\<not> py_eq (dget report k) (dget gate k))
       (Msg ''integration does not match the live scheduler gate'' [JStr k])) integration_keys) @
     err_if (says report ''state'' ''OPERATORS_BLOCKED'' \<and> \<not> truthy (dget report ''errors''))
       (Msg ''OPERATORS_BLOCKED must explain failed gates'' []) @
     err_if (says report ''state'' ''OPERATORS_READY'' \<and> truthy (dget report ''errors''))
       (Msg ''OPERATORS_READY cannot contain failed gates'' [])"

definition compare_live :: "lib \<Rightarrow> pydict \<Rightarrow> path \<Rightarrow> string \<Rightarrow> string \<Rightarrow> path \<Rightarrow> msg list exec" where
  "compare_live L report state rid subject artifacts =
     actbind (open_bridge L state rid subject artifacts [] False) (\<lambda>b.
     actbind (delivery_status L b) (\<lambda>gate.
     actbind (integration_baseline L b report gate) (\<lambda>(gate', ms).
     actret (ms @ integration_matches report gate'))))"

definition scheduled_integration :: "lib \<Rightarrow> pydict \<Rightarrow> msg list exec" where
  "scheduled_integration L report =
     actbind (attempt_of caught_identity (
       actbind (actlift (rbind (rbind (vindex (JDict report) ''scheduler_state'') (value_path L)) (\<lambda>s.
         rbind (rbind (vindex (JDict report) ''run_id'') text_path) (\<lambda>rid.
         rbind (rbind (vindex (JDict report) ''subject'') text_path) (\<lambda>subject.
         rbind (rbind (vindex (JDict report) ''artifact_root'') (value_path L)) (\<lambda>a. Inr (s, rid, subject, a))))))) (\<lambda>(s, rid, subject, a).
       compare_live L report s rid subject a))) (\<lambda>x. case x of
       Inr ms \<Rightarrow> actret ms
     | Inl e \<Rightarrow> actret [Msg ''cannot validate scheduled integration'' [exc_msg L e]])"

definition validate_integration :: "lib \<Rightarrow> pydict \<Rightarrow> msg list exec" where
  "validate_integration L report =
     actbind (actlift (in_strset (dget report ''state'') [''OPERATORS_READY'', ''WAITING_FOR_OPERATORS'', ''OPERATORS_BLOCKED''])) (\<lambda>s.
     if s then scheduled_integration L report else actlift (validate_candidate report))"

section \<open>finalize\<close>

definition fact_status :: "(string \<times> string) list" where
  "fact_status =
     [(''ModelRequest'', ''intake_status.json''), (''EnvironmentProof'', ''status.json''),
      (''ModelSupportCard'', ''scan_status.json''), (''CapabilityMatch'', ''match_status.json''),
      (''GapClassification'', ''classification_status.json''), (''CapabilityEvaluation'', ''evaluation_status.json''),
      (''DeploymentPlan'', ''plan_status.json''), (''ToyBringupReport'', ''bringup_status.json''),
      (''TorchShimRegistry'', ''shim_status.json''), (''DeploymentProof'', ''status.json''),
      (''AccuracyDifferential'', ''accuracy_status.json''), (''ServingBaseline'', ''baseline_status.json''),
      (''OperatorTaskDispatch'', ''dispatch_status.json''), (''OperatorIntegration'', ''integration_status.json''),
      (''SupportMatrixEntry'', ''matrix_status.json'')]"

type_synonym facts = "(string \<times> path) list"

definition fact_root :: "facts \<Rightarrow> string \<Rightarrow> exc + path" where
  "fact_root facts name = (case map_of facts name of None \<Rightarrow> Inl (KeyError (JStr name)) | Some p \<Rightarrow> Inr p)"

text \<open>Whether the environment fact is the accepted proof of another run: \<open>root / state_file\<close> equals the
  recorded path as written.\<close>

definition imported_fact :: "run \<Rightarrow> string \<Rightarrow> path \<Rightarrow> exc + pyval" where
  "imported_fact r name status =
     (if name \<noteq> ''EnvironmentProof'' then Inr (JBool False)
      else rbind (vindex (JDict (r_metadata r)) ''graph_environment'') (\<lambda>g.
        rbind (vget_or g ''imported'' (JBool False)) (\<lambda>i.
        if \<not> truthy i then Inr i
        else rbind (rbind (vindex g ''status_path'') text_path) (\<lambda>s.
          Inr (JBool (is_absolute s \<and> path_parts s = status))))))"

definition fact_files :: "lib \<Rightarrow> fs \<Rightarrow> path \<Rightarrow> exc + pyval" where
  "fact_files L f dir =
     rbind (rmapM (evidence_file L f) (filter (is_file f) (sort (remdups (filter (\<lambda>p. strictly_under p dir) (map fst f))))))
       (\<lambda>es. Inr (JList (map JDict es)))"

text \<open>One fact: its root, its status and its inventory entry.\<close>

definition collect_fact ::
  "lib \<Rightarrow> fs \<Rightarrow> bridge \<Rightarrow> run \<Rightarrow> facts \<Rightarrow> string \<times> string \<Rightarrow> exc + (string \<times> pydict) \<times> (string \<times> pydict)" where
  "collect_fact L f b r facts ns =
     (let name = fst ns in
      rbind (rbind (fact_root facts name) (ensure_external_path L f)) (\<lambda>dir.
      rbind (imported_fact r name (dir @ [snd ns])) (\<lambda>imported.
      rbind (rguard (under dir (br_root b) \<or> truthy imported)
        (ValueError (Msg ''fact is outside the run artifact root'' [JStr name]))) (\<lambda>_.
      rbind (owned_by_run L f (br_run b) dir) (\<lambda>owned.
      rbind (rguard (truthy imported \<or> owned) (ValueError (Msg ''fact is not owned by this managed run'' [JStr name]))) (\<lambda>_.
      rbind (load_object L f (dir @ [snd ns])) (\<lambda>status.
      rbind (check_run_identity (br_environment b) r (name = ''EnvironmentProof'') (truthy imported) (JDict status)) (\<lambda>_.
      rbind (rguard (case dget_or status ''validator'' (JDict []) of
          JDict v \<Rightarrow> \<not> is_False (dget v ''passed'') \<and> \<not> truthy (dget v ''errors'') | _ \<Rightarrow> False)
        (ValueError (Msg ''fact validator rejected evidence'' [JStr name]))) (\<lambda>_.
      rbind (if name = ''EnvironmentProof''
             then rbind (vindex (JDict (r_metadata r)) ''graph_environment'') (\<lambda>g. vindex g ''files'')
             else fact_files L f dir) (\<lambda>fs.
      Inr ((name, status), (name, [(''root'', JStr (path_str dir)), (''files'', fs)]))))))))))))"

definition required_states :: "(string \<times> string) list" where
  "required_states =
     [(''DeploymentProof'', ''DEPLOYMENT_READY''), (''AccuracyDifferential'', ''ACCURACY_PASS''),
      (''ServingBaseline'', ''BASELINE_FROZEN''), (''OperatorIntegration'', ''OPERATORS_READY''),
      (''TorchShimRegistry'', ''HANDOFF_CLEAR'')]"

definition status_of :: "(string \<times> pydict) list \<Rightarrow> string \<Rightarrow> pydict" where
  "status_of statuses name = (case map_of statuses name of None \<Rightarrow> [] | Some d \<Rightarrow> d)"

definition same_location :: "fs \<Rightarrow> path \<Rightarrow> path \<Rightarrow> exc + bool" where
  "same_location f p q = rbind (resolve f p) (\<lambda>a. rbind (resolve f q) (\<lambda>b. Inr (a = b)))"

definition require :: "exc + bool \<Rightarrow> string \<Rightarrow> exc + unit" where
  "require c s = rbind c (\<lambda>x. rguard x (ValueError (Msg s [])))"

lemma require_Inr [simp]: "require c s = Inr u \<longleftrightarrow> c = Inr True"
  by (cases c) (auto simp: require_def rguard_eq_Inr)

text \<open>The current regression of one field, and the source of the frozen one.\<close>

definition check_current_field ::
  "lib \<Rightarrow> fs \<Rightarrow> bridge \<Rightarrow> run \<Rightarrow> pydict \<Rightarrow> string \<times> path \<Rightarrow> exc + string \<times> pyval" where
  "check_current_field L f b r baseline fp =
     (let field = fst fp in
      rbind (load_object L f (snd fp)) (\<lambda>report.
      rbind (check_run_identity (br_environment b) r False False (JDict report)) (\<lambda>_.
      rbind (if field = ''service''
             then rbind (no_errors (deployment_errors report)) (\<lambda>_. artifacts_exist L f (butlast (snd fp)) report)
             else rbind (rguard (says report ''status'' ''ACCURACY_PASS'')
                 (ValueError (Msg ''current accuracy report must pass'' []))) (\<lambda>_.
               rbind (rguard (revision_agrees r report)
                 (ValueError (Msg ''current accuracy model revision does not match run'' []))) (\<lambda>_.
               no_errors (accuracy_errors L report)))) (\<lambda>_.
      rbind (rbind (rbind (vindex (JDict baseline) field) (\<lambda>x. vindex x ''artifact'')) (value_path L)) (\<lambda>p.
      rbind (evidence_file L f p) (\<lambda>e.
      Inr (field @ ''_source'', JDict e)))))))"

definition list_of_objects :: "pyval \<Rightarrow> bool" where
  "list_of_objects v = (case v of JList xs \<Rightarrow> list_all is_dict xs | _ \<Rightarrow> False)"

definition operator_name :: "database \<Rightarrow> string \<Rightarrow> pyval \<Rightarrow> exc + pyval" where
  "operator_name d rid key = (case operator_of d rid (str_or key []) of
      None \<Rightarrow> Inl AttributeError
    | Some s \<Rightarrow> if hashable (os_operator_id s) then Inr (os_operator_id s) else Inl TypeError)"

definition shim_integrated :: "pyval list \<Rightarrow> pyval \<Rightarrow> exc + unit" where
  "shim_integrated names entry = (case entry of
      JDict d \<Rightarrow>
        if waived d then Inr ()
        else if \<not> hashable (entry_identifier d) then Inl TypeError
        else rguard (in_list (entry_identifier d) names)
          (ValueError (Msg ''non-waived shim is not integrated by the scheduler'' []))
    | _ \<Rightarrow> Inl AttributeError)"

definition check_shims :: "lib \<Rightarrow> fs \<Rightarrow> bridge \<Rightarrow> database \<Rightarrow> pydict \<Rightarrow> path \<Rightarrow> exc + unit" where
  "check_shims L f b d gate dir =
     rbind (load_object L f (dir @ [''torch_shim_registry.json''])) (\<lambda>shim.
     rbind (require (Inr (list_all (\<lambda>k. list_of_objects (dget shim k)) [''signals'', ''entries'', ''unmapped_signals'']))
       ''shim registry fields must be lists of objects'') (\<lambda>_.
     rbind (no_errors (validate_shim_handoff shim)) (\<lambda>_.
     rbind (rbind (viter (dget gate ''operator_keys'')) (rmapM (operator_name d (br_run b)))) (\<lambda>names.
     rbind (viter (dget_or shim ''entries'' (JList []))) (\<lambda>entries.
     rbind (rmapM (shim_integrated names) entries) (\<lambda>_. Inr ()))))))"

text \<open>The checks that only read, before and after \<open>validate_integration\<close>.\<close>

definition check_facts ::
  "lib \<Rightarrow> fs \<Rightarrow> bridge \<Rightarrow> run \<Rightarrow> facts \<Rightarrow> pydict \<Rightarrow>
     exc + (string \<times> pydict) list \<times> (string \<times> pydict) list \<times> pydict \<times> pydict" where
  "check_facts L f b r facts gate =
     rbind (rmapM (collect_fact L f b r facts) fact_status) (\<lambda>collected.
     let statuses = map fst collected; inventory = map snd collected in
     rbind (rbind (fact_root facts ''EnvironmentProof'') (\<lambda>p.
       rbind (rbind (vindex (JDict (r_environment r)) ''environment_proof'') (\<lambda>x. vindex x ''artifact_root'')) (\<lambda>v.
       rbind (value_path L v) (\<lambda>q.
       require (same_location f p q) ''graph EnvironmentProof does not match bound proof'')))) (\<lambda>_.
     rbind (require (Inr (list_all (\<lambda>(n, s). dget (status_of statuses n) ''state'' = JStr s) required_states))
       ''a fact is not in its required state'') (\<lambda>_.
     rbind (fact_root facts ''DeploymentProof'') (\<lambda>service.
     rbind (fact_root facts ''AccuracyDifferential'') (\<lambda>accuracy.
     rbind (regression_snapshot L f b service gate) (\<lambda>s1.
     rbind (accuracy_snapshot L f b accuracy service gate) (\<lambda>s2.
     rbind (rbind (vindex (JDict (r_metadata r)) ''graph_discovery'') (\<lambda>g. vindex g ''status_path'')) (\<lambda>v.
     rbind (rbind (value_path L v) (load_object L f)) (\<lambda>dispatch.
     rbind (require (Inr (py_eq (JDict (status_of statuses ''OperatorTaskDispatch'')) (JDict dispatch)))
       ''graph dispatch does not match accepted scheduler discovery'') (\<lambda>_.
     Inr (statuses, inventory, s1, s2)))))))))))"

definition check_deliverables ::
  "lib \<Rightarrow> fs \<Rightarrow> bridge \<Rightarrow> run \<Rightarrow> database \<Rightarrow> facts \<Rightarrow> pydict \<Rightarrow> (string \<times> pydict) list \<Rightarrow> exc + pydict" where
  "check_deliverables L f b r d facts gate statuses =
     rbind (fact_root facts ''ServingBaseline'') (\<lambda>frozen.
     rbind (rbind (vindex (JDict (status_of statuses ''OperatorIntegration'')) ''baseline_path'') (value_path L)) (\<lambda>p.
     rbind (require (same_location f p (frozen @ [''baseline_manifest.json'']))
       ''integration does not reference the graph's frozen baseline'') (\<lambda>_.
     rbind (bridge_validate_baseline L f b r (frozen @ [''baseline_manifest.json''])) (\<lambda>baseline.
     rbind (fact_root facts ''DeploymentProof'') (\<lambda>service.
     rbind (fact_root facts ''AccuracyDifferential'') (\<lambda>accuracy.
     rbind (rmapM (check_current_field L f b r baseline)
       [(''service'', service @ [''status.json'']), (''accuracy'', accuracy @ [''accuracy_differential.json''])]) (\<lambda>sources.
     rbind (fact_root facts ''TorchShimRegistry'') (\<lambda>shims.
     rbind (check_shims L f b d gate shims) (\<lambda>_. Inr sources)))))))))"

text \<open>The gate read again, with the two snapshots of it.\<close>

definition recheck_gate :: "lib \<Rightarrow> bridge \<Rightarrow> facts \<Rightarrow> pydict \<Rightarrow> pydict \<Rightarrow> unit exec" where
  "recheck_gate L b facts s1 s2 =
     actbind (delivery_status L b) (\<lambda>gate.
     actbind (actguard (dget gate ''state'' = JStr ''OPERATORS_READY'')
       (ValueError (Msg ''operator evidence changed during delivery'' []))) (\<lambda>_.
     actreadR (\<lambda>w. rbind (fact_root facts ''DeploymentProof'') (\<lambda>service.
       rbind (fact_root facts ''AccuracyDifferential'') (\<lambda>accuracy.
       rbind (regression_snapshot L (files w) b service gate) (\<lambda>t1.
       rbind (require (Inr (py_eq (JDict t1) (JDict s1))) ''service scheduler snapshot changed during delivery'') (\<lambda>_.
       rbind (accuracy_snapshot L (files w) b accuracy service gate) (\<lambda>t2.
       require (Inr (py_eq (JDict t2) (JDict s2))) ''accuracy scheduler snapshot changed during delivery''))))))))"

definition inventory_value :: "(string \<times> pydict) list \<Rightarrow> pydict \<Rightarrow> pydict \<Rightarrow> pydict \<Rightarrow> pyval" where
  "inventory_value inventory s1 s2 sources =
     JDict (map (\<lambda>(n, d). (n, JDict (d @
       (if n = ''DeploymentProof'' then [(''scheduler_snapshot'', JDict s1)]
        else if n = ''AccuracyDifferential'' then [(''scheduler_snapshot'', JDict s2)]
        else if n = ''ServingBaseline'' then sources else [])))) inventory)"

text \<open>The \<open>try\<close> block of \<open>_finalize\<close>.\<close>

definition check_delivery :: "lib \<Rightarrow> bridge \<Rightarrow> facts \<Rightarrow> pydict \<Rightarrow> pyval exec" where
  "check_delivery L b facts gate =
     actbind (actguard (dget gate ''errors'' = JList [] \<and> dget gate ''state'' = JStr ''OPERATORS_READY'' \<and>
         list_all (\<lambda>(n, _). n \<in> set (map fst facts)) fact_status)
       (ValueError (Msg ''; '' []))) (\<lambda>_.
     actbind (bridge_run b) (\<lambda>r.
     actbind (actreadR (\<lambda>w. check_facts L (files w) b r facts gate)) (\<lambda>(statuses, inventory, s1, s2).
     actbind (validate_integration L (status_of statuses ''OperatorIntegration'')) (\<lambda>ms.
     actbind (actguard (ms = []) (ValueError (Msg ''; '' (map msg_text ms)))) (\<lambda>_.
     actbind (actreadR (\<lambda>w. check_deliverables L (files w) b r (db w) facts gate statuses)) (\<lambda>sources.
     actbind (recheck_gate L b facts s1 s2) (\<lambda>_.
     actret (inventory_value inventory s1 s2 sources))))))))"

definition delivery_verdict :: "run \<Rightarrow> string" where
  "delivery_verdict r = (if py_eq (run_mode r) (JStr ''simulation'') then ''SIMULATION_PASS'' else ''FUNCTIONAL_READY'')"

definition delivery_receipt :: "bridge \<Rightarrow> run \<Rightarrow> pyval \<Rightarrow> pydict \<Rightarrow> pyval \<Rightarrow> pydict" where
  "delivery_receipt b r fp gate inventory =
     [(''schema_version'', JInt 1), (''state'', JStr (delivery_verdict r)), (''verdict'', JStr (delivery_verdict r)),
      (''run_id'', JStr (br_run b)), (''subject'', JStr (br_subject b)), (''evidence_mode'', run_mode r),
      (''model_revision'', JStr (r_model_revision r)), (''plugin_revision'', JStr (r_plugin_revision r)),
      (''backend'', JStr (r_backend r)), (''environment_fingerprint'', fp),
      (''task_ids'', dget gate ''task_ids''), (''operator_keys'', dget gate ''operator_keys''),
      (''task_results'', dget gate ''task_results''), (''snapshot_token'', dget gate ''snapshot_token''),
      (''facts'', inventory)]"

definition write_receipt :: "lib \<Rightarrow> bridge \<Rightarrow> run \<Rightarrow> pydict \<Rightarrow> pyval \<Rightarrow> pydict exec" where
  "write_receipt L b r gate inventory =
     actbind (actreadR (\<lambda>w. mk_run_paths L (files w) (br_root b) (Some (br_run b)))) (\<lambda>rp.
     actbind (allocate_attempt L rp ''model-adaptation-delivery'') (\<lambda>a.
     actbind (actlift (rbind (vindex (JDict (r_environment r)) ''environment_proof'') (\<lambda>x. vindex x ''fingerprint''))) (\<lambda>fp.
     let receipt = delivery_receipt b r fp gate inventory in
     actbind (actreadR (\<lambda>w. ensure_external_path L (files w) (a_output a))) (\<lambda>out.
     actbind (store_write_json L out ''delivery_receipt.json'' (JDict receipt) False) (\<lambda>p.
     actbind (actreadR (\<lambda>w. ensure_external_path L (files w) (a_root a))) (\<lambda>top.
     actbind (register L top (attempt_identity a @ [(''evidence_mode'', run_mode r)]) (delivery_verdict r)
       [''output/delivery_receipt.json''] None ''manifest.json'') (\<lambda>manifest.
     actbind (actreadR (\<lambda>w. rbind (evidence_file L (files w) p) (\<lambda>e1.
       rbind (evidence_file L (files w) manifest) (\<lambda>e2. Inr (e1, e2))))) (\<lambda>(e1, e2).
     let result = receipt @ [(''receipt_path'', JStr (path_str p)), (''manifest_path'', JStr (path_str manifest)),
           (''receipt_sha256'', dget e1 ''sha256''), (''manifest_sha256'', dget e2 ''sha256'')] in
     actbind (record_graph_transition L (br_run b) ''graph_delivery'' result) (\<lambda>_.
     actret result)))))))))"

definition finalize_body :: "lib \<Rightarrow> bridge \<Rightarrow> facts \<Rightarrow> pydict exec" where
  "finalize_body L b facts =
     actbind (delivery_status L b) (\<lambda>gate.
     actbind (attempt_of caught_identity (check_delivery L b facts gate)) (\<lambda>x. case x of
         Inl e \<Rightarrow> actraise (ValueError (Msg ''model delivery blocked'' [exc_msg L e]))
       | Inr inventory \<Rightarrow>
           actbind (bridge_run b) (\<lambda>r. write_receipt L b r gate inventory)))"

definition finalize :: "lib \<Rightarrow> bridge \<Rightarrow> facts \<Rightarrow> pydict exec" where
  "finalize L b facts =
     actbind (require_execute b) (\<lambda>_.
     actbind (attempt_of caught_identity (atomic (finalize_body L b facts))) (\<lambda>x. case x of
         Inr result \<Rightarrow> actret result
       | Inl e \<Rightarrow>
           actbind (delivery_status L b) (\<lambda>gate.
           actbind (atomic (record_graph_transition L (br_run b) ''graph_delivery''
             (dset (dset gate ''state'' (JStr ''OPERATORS_BLOCKED'')) ''errors'' (JList [exc_msg L e])))) (\<lambda>_.
           actraise e))))"

end
