(* ===== verification/DeliveryClaims.thy ===== *)
theory DeliveryClaims
  imports GraphDelivery SampleLib
begin

text \<open>
  What a delivered model rests on: the receipt of \<open>finalize\<close> exists only when the operator gate is
  ready, every fact of the graph is there in its required state, the accuracy pass is earned and every
  torch shim is waived or integrated.
\<close>

section \<open>Reading leaves the world alone\<close>

named_theorems reads "actions that change nothing"

definition reads_only :: "'a exec \<Rightarrow> bool" where
  "reads_only m \<longleftrightarrow> (\<forall>w. snd (m w) = w)"

lemma reads_onlyD: "reads_only m \<Longrightarrow> m w = (x, w') \<Longrightarrow> w' = w"
  unfolding reads_only_def by (metis snd_conv)

lemma reads_only_basic [reads]:
  "reads_only (actret x)" "reads_only (actraise e)" "reads_only (actlift r)" "reads_only (actread g)"
  "reads_only (actreadR h)" "reads_only (actguard c e)"
  by (simp_all add: reads_only_def actret_def actraise_def actlift_def actread_def actreadR_def actguard_def)

lemma reads_only_bind_result:
  assumes "reads_only m" "\<And>x w w'. m w = (Inr x, w') \<Longrightarrow> reads_only (k x)"
  shows "reads_only (actbind m k)"
  unfolding reads_only_def
proof
  fix w
  show "snd (actbind m k w) = w"
    using assms reads_onlyD[OF assms(1), of w]
    by (cases "m w"; cases "fst (m w)") (auto simp: actbind_def reads_only_def)
qed

lemma reads_only_bind [reads]: "reads_only m \<Longrightarrow> (\<And>x. reads_only (k x)) \<Longrightarrow> reads_only (actbind m k)"
  by (rule reads_only_bind_result)

lemma reads_only_cases [reads]:
  "(\<And>e. reads_only (f e)) \<Longrightarrow> (\<And>x. reads_only (g x)) \<Longrightarrow> reads_only (case s of Inl e \<Rightarrow> f e | Inr x \<Rightarrow> g x)"
  "(c \<Longrightarrow> reads_only m) \<Longrightarrow> (\<not> c \<Longrightarrow> reads_only n) \<Longrightarrow> reads_only (if c then m else n)"
  "(\<And>x y. reads_only (h x y)) \<Longrightarrow> reads_only (case p of (x, y) \<Rightarrow> h x y)"
  "(c \<Longrightarrow> reads_only u) \<Longrightarrow> reads_only (actwhen c u)"
  by (auto simp: actwhen_def reads_only_basic split: sum.split prod.split)

lemma reads_only_attempt [reads]:
  assumes "reads_only m"
  shows "reads_only (attempt_of p m)"
  unfolding reads_only_def
proof
  fix w
  show "snd (attempt_of p m w) = w"
    using assms reads_onlyD[OF assms, of w]
    by (cases "m w"; cases "fst (m w)") (auto simp: attempt_of_def actcatch_def actbind_def actret_def)
qed

lemma reads_only_bridge_run [reads]: "reads_only (bridge_run b)"
  by (simp add: bridge_run_def reads)

lemma reads_only_environment: "\<not> br_execute b \<Longrightarrow> reads_only (environment_errors L b)"
  unfolding environment_errors_def Let_def by (intro reads) simp_all

lemma reads_only_delivery: "\<not> br_execute b \<Longrightarrow> reads_only (delivery_status L b)"
  unfolding delivery_status_def by (intro reads reads_only_environment)

lemma open_bridge_readonly:
  "reads_only (open_bridge L s i m a e False)"
  "open_bridge L s i m a e False w = (Inr b, w') \<Longrightarrow> \<not> br_execute b \<and> br_run b = i"
proof -
  show "reads_only (open_bridge L s i m a e False)"
    unfolding open_bridge_def if_False by (intro reads) simp_all
  show "open_bridge L s i m a e False w = (Inr b, w') \<Longrightarrow> \<not> br_execute b \<and> br_run b = i"
    by (auto simp: open_bridge_def actbind_returns actreadR_returns actret_returns rbind_eq_Inr Let_def)
qed

lemma reads_only_live [reads]: "reads_only (compare_live L report s i m a)"
  unfolding compare_live_def
  by (rule reads_only_bind_result[OF open_bridge_readonly(1)])
    (auto simp: integration_baseline_def dest: open_bridge_readonly(2) intro!: reads reads_only_delivery)

lemma reads_only_integration: "reads_only (validate_integration L report)"
  unfolding validate_integration_def scheduled_integration_def by (intro reads)

section \<open>What a receipt guarantees\<close>

text \<open>A document of a fact, as \<open>finalize\<close> reads it.\<close>

definition fact_document :: "lib \<Rightarrow> fs \<Rightarrow> facts \<Rightarrow> string \<Rightarrow> string \<Rightarrow> exc + pydict" where
  "fact_document L f facts name file =
     rbind (rbind (fact_root facts name) (ensure_external_path L f)) (\<lambda>dir. load_object L f (dir @ [file]))"

definition document_says :: "exc + pydict \<Rightarrow> (pydict \<Rightarrow> bool) \<Rightarrow> bool" where
  "document_says r p = (case r of Inl _ \<Rightarrow> False | Inr d \<Rightarrow> p d)"

definition raw_document :: "lib \<Rightarrow> fs \<Rightarrow> facts \<Rightarrow> string \<Rightarrow> string \<Rightarrow> exc + pydict" where
  "raw_document L f facts name file = rbind (fact_root facts name) (\<lambda>dir. load_object L f (dir @ [file]))"

definition fact_in_state :: "lib \<Rightarrow> fs \<Rightarrow> facts \<Rightarrow> string \<times> string \<Rightarrow> bool" where
  "fact_in_state L f facts ns \<longleftrightarrow> document_says (fact_document L f facts (fst ns) (snd ns))
     (\<lambda>d. case map_of required_states (fst ns) of None \<Rightarrow> True | Some s \<Rightarrow> dget d ''state'' = JStr s)"

definition shim_settled :: "database \<Rightarrow> string \<Rightarrow> pyval \<Rightarrow> bool" where
  "shim_settled d rid entry \<longleftrightarrow> (case entry of
      JDict e \<Rightarrow> waived e \<or> list_ex (\<lambda>(i, k, s). i = rid \<and> py_eq (entry_identifier e) (os_operator_id s)) (operators d)
    | _ \<Rightarrow> False)"

definition facts_delivered :: "lib \<Rightarrow> world \<Rightarrow> bridge \<Rightarrow> facts \<Rightarrow> bool" where
  "facts_delivered L w b facts \<longleftrightarrow>
     list_all (fact_in_state L (files w) facts) fact_status \<and>
     document_says (raw_document L (files w) facts ''DeploymentProof'' ''status.json'')
       (\<lambda>d. validate_deployment_status d = Inr []) \<and>
     document_says (raw_document L (files w) facts ''AccuracyDifferential'' ''accuracy_differential.json'') pass_earned \<and>
     document_says (raw_document L (files w) facts ''TorchShimRegistry'' ''torch_shim_registry.json'')
       (\<lambda>d. case dget d ''entries'' of JList es \<Rightarrow> list_all (shim_settled (db w) (br_run b)) es | _ \<Rightarrow> False)"

lemma collected_fact:
  assumes "collect_fact L f b r facts ns = Inr x"
  shows "\<exists>d. fact_document L f facts (fst ns) (snd ns) = Inr d \<and> fst x = (fst ns, d)"
  using assms by (auto simp: collect_fact_def Let_def rbind_eq_Inr fact_document_def)

lemma collected_statuses:
  assumes "rmapM (collect_fact L f b r facts) ns = Inr xs" and "(n, file) \<in> set ns" and "distinct (map fst ns)"
  shows "\<exists>d. fact_document L f facts n file = Inr d \<and> map_of (map fst xs) n = Some d"
  using assms
proof (induction ns arbitrary: xs)
  case (Cons m ns)
  then obtain y ys where y: "collect_fact L f b r facts m = Inr y" "rmapM (collect_fact L f b r facts) ns = Inr ys" "xs = y # ys"
    by (auto simp: rbind_eq_Inr)
  obtain d where d: "fact_document L f facts (fst m) (snd m) = Inr d" "fst y = (fst m, d)"
    using collected_fact[OF y(1)] by blast
  show ?case
  proof (cases "m = (n, file)")
    case True
    with d y(3) show ?thesis by (cases y) simp
  next
    case False
    with Cons.prems have "(n, file) \<in> set ns" "fst m \<noteq> n" by (auto simp: rev_image_eqI)
    with Cons.IH[OF y(2)] Cons.prems(3) d y(3) show ?thesis by (cases y) auto
  qed
qed simp

lemma facts_in_state:
  assumes "check_facts L f b r facts gate = Inr (statuses, inventory, s1, s2)"
  shows "list_all (fact_in_state L f facts) fact_status"
proof -
  obtain xs where xs: "rmapM (collect_fact L f b r facts) fact_status = Inr xs" "statuses = map fst xs"
    and st: "list_all (\<lambda>(n, s). dget (status_of statuses n) ''state'' = JStr s) required_states"
    using assms by (auto simp: check_facts_def rbind_eq_Inr Let_def)
  have dist: "distinct (map fst fact_status)" by code_simp
  have "fact_in_state L f facts (n, q)" if m: "(n, q) \<in> set fact_status" for n q
  proof -
    obtain d where d: "fact_document L f facts n q = Inr d" "map_of (map fst xs) n = Some d"
      using collected_statuses[OF xs(1) m dist] by blast
    have "dget d ''state'' = JStr s" if "map_of required_states n = Some s" for s
      using st map_of_SomeD[OF that] d(2) by (auto simp: list_all_iff status_of_def xs(2))
    with d(1) show ?thesis by (auto simp: fact_in_state_def document_says_def split: option.splits)
  qed
  then show ?thesis by (auto simp: list_all_iff)
qed

lemma current_service:
  assumes "check_current_field L f b r baseline (''service'', p) = Inr x"
  shows "document_says (load_object L f p) (\<lambda>d. validate_deployment_status d = Inr [])"
  using assms by (auto simp: check_current_field_def rbind_eq_Inr document_says_def deployment_errors_def flag_accepts split: if_splits)

lemma current_accuracy:
  assumes "check_current_field L f b r baseline (''accuracy'', p) = Inr x"
  shows "document_says (load_object L f p) pass_earned"
proof -
  obtain d where d: "load_object L f p = Inr d" "says d ''status'' ''ACCURACY_PASS''" "accuracy_errors L d = Inr []"
    using assms by (auto simp: check_current_field_def rbind_eq_Inr rguard_eq_Inr)
  then have "is_list (dget d ''cases'')" "validate_accuracy_report L d [(''require_top1_match_on_all_cases'', JBool True)] = Inr []"
    by (auto simp: accuracy_errors_def flag_accepts split: if_splits pyval.splits)
  with d accuracy_pass_earned show ?thesis by (simp add: document_says_def)
qed

lemma operator_named:
  assumes "operator_name d rid key = Inr x"
  shows "\<exists>k s. (rid, k, s) \<in> set (operators d) \<and> x = os_operator_id s"
proof -
  obtain s where "operator_of d rid (str_or key []) = Some s" "x = os_operator_id s"
    using assms by (auto simp: operator_name_def split: option.splits if_splits)
  moreover from this obtain k where "(rid, k, s) \<in> set (operators d)"
    by (auto simp: operator_of_def dest!: find_Some_D)
  ultimately show ?thesis by blast
qed

lemma shims_settled:
  assumes "check_shims L f b d gate dir = Inr u"
  shows "document_says (load_object L f (dir @ [''torch_shim_registry.json'']))
    (\<lambda>shim. case dget shim ''entries'' of JList es \<Rightarrow> list_all (shim_settled d (br_run b)) es | _ \<Rightarrow> False)"
proof -
  obtain shim names keys entries us where s: "load_object L f (dir @ [''torch_shim_registry.json'']) = Inr shim"
    and l: "list_of_objects (dget shim ''entries'')"
    and n: "rmapM (operator_name d (br_run b)) keys = Inr names"
    and e: "viter (dget_or shim ''entries'' (JList [])) = Inr entries" "rmapM (shim_integrated names) entries = Inr us"
    using assms by (auto simp: check_shims_def rbind_eq_Inr)
  obtain es where es: "dget shim ''entries'' = JList es"
    using l by (auto simp: list_of_objects_def split: pyval.splits)
  then have "entries = es"
    using e(1) by (auto simp: dget_def dget_or_def split: option.splits)
  have "shim_settled d (br_run b) x" if "x \<in> set es" for x
  proof -
    have i: "shim_integrated names x = Inr ()"
      using rmapM_result[OF e(2)] that \<open>entries = es\<close> by fastforce
    then obtain m where x: "x = JDict m"
      by (cases x) (simp_all add: shim_integrated_def)
    show ?thesis
    proof (cases "waived m")
      case False
      with i x obtain y where y: "y \<in> set names" "py_eq (entry_identifier m) y"
        by (auto simp: shim_integrated_def rguard_eq_Inr in_list_def list_ex_iff split: if_splits)
      obtain k where "operator_name d (br_run b) k = Inr y"
        using rmapM_elem[OF n y(1)] by blast
      from operator_named[OF this] y x show ?thesis
        by (auto simp: shim_settled_def list_ex_iff intro!: bexI)
    qed (simp add: x shim_settled_def)
  qed
  then show ?thesis by (simp add: document_says_def s es list_all_iff)
qed

lemma deliverables_delivered:
  assumes "check_facts L (files w) b r facts gate = Inr (statuses, inventory, s1, s2)"
    and "check_deliverables L (files w) b r (db w) facts gate statuses = Inr sources"
  shows "facts_delivered L w b facts"
proof -
  obtain baseline service accuracy shims xs where
    f: "fact_root facts ''DeploymentProof'' = Inr service" "fact_root facts ''AccuracyDifferential'' = Inr accuracy"
      "fact_root facts ''TorchShimRegistry'' = Inr shims"
    and x: "rmapM (check_current_field L (files w) b r baseline)
       [(''service'', service @ [''status.json'']), (''accuracy'', accuracy @ [''accuracy_differential.json''])] = Inr xs"
    and s: "check_shims L (files w) b (db w) gate shims = Inr ()"
    using assms(2) unfolding check_deliverables_def by (auto simp: rbind_eq_Inr simp del: rmapM.simps)
  show ?thesis
    using x current_service current_accuracy shims_settled[OF s] facts_in_state[OF assms(1)]
    by (auto simp: facts_delivered_def raw_document_def f rbind_eq_Inr)
qed

lemma check_delivery_sound:
  assumes d: "check_delivery L b facts gate w = (Inr inventory, w')"
  shows "w' = w \<and> operators_delivered L b w \<and> facts_delivered L w b facts"
proof -
  obtain r statuses inv s1 s2 ms sources w1 where
    f: "check_facts L (files w) b r facts gate = Inr (statuses, inv, s1, s2)"
    and i: "validate_integration L (status_of statuses ''OperatorIntegration'') w = (Inr ms, w1)"
    and s: "check_deliverables L (files w1) b r (db w1) facts gate statuses = Inr sources"
    and g: "recheck_gate L b facts s1 s2 w1 = (Inr (), w')"
    using d by (auto simp: check_delivery_def bridge_run_def actbind_returns actguard_returns actreadR_returns
        actret_returns split: option.splits)
  have w1: "w1 = w" using reads_onlyD[OF reads_only_integration i] .
  obtain gate' where "delivery_status L b w1 = (Inr gate', w')" "dget gate' ''state'' = JStr ''OPERATORS_READY''"
    using g by (auto simp: recheck_gate_def actbind_returns actguard_returns actreadR_returns)
  from delivery_ready[OF this] w1 deliverables_delivered[OF f] s show ?thesis by simp
qed

end
