(* ===== verification/DeliverySample.thy ===== *)
theory DeliverySample
  imports DeliveryClaims Sample
begin

text \<open>
  A run that is delivered: one attempt holds every fact, the dispatch found nothing to do, and the baseline
  is frozen. The theorems of the delivery side are evaluated on it. No link occurs in its file table, so a
  path is found by one lookup (\<open>ship_link_free\<close>), and each document is read, hashed and compared with the
  run's identity once.
\<close>

section \<open>The world\<close>

definition X_dir :: path where "X_dir = [''d'', ''tasks'', ''t'', ''attempts'', ''000001'']"
definition O_dir :: path where "O_dir = X_dir @ [''output'']"
definition E_dir :: path where "E_dir = X_dir @ [''env'']"

definition ship_run :: run where
  "ship_run = \<lparr>r_id = ''r'', r_model = ''m'', r_model_revision = ''1'', r_plugin_revision = ''1'', r_backend = ''b'',
     r_status = ''ENVIRONMENT_READY'',
     r_environment = [(''environment_proof'', JDict [(''artifact_root'', JStr (path_str E_dir)),
       (''fingerprint'', JStr ''fp''), (''pod'', JStr ''p'')])],
     r_metadata = [(''evidence_mode'', JStr ''real''), (''artifact_root'', JStr ''/d''),
       (''graph_environment_required'', JBool True),
       (''graph_environment'', JDict [(''status_path'', JStr (path_str (E_dir @ [''status.json'']))),
          (''files'', JList [JDict [(''path'', JStr (path_str (E_dir @ [''status.json'']))), (''sha256'', JStr (sample_hash ''env''))]]), (''imported'', JBool False)]),
       (''graph_discovery'', JDict [(''state'', JStr ''DISPATCH_SKIPPED''),
          (''status_path'', JStr (path_str (O_dir @ [''dispatch_status.json'']))),
          (''status_sha256'', JStr (sample_hash ''dispatch'')), (''reports'', JList [])])],
     r_created = 0, r_updated = 0\<rparr>"

definition ship_bridge :: bridge where
  "ship_bridge = \<lparr>br_state = [''d'', ''s''], br_root = [''d''], br_run = ''r'', br_subject = ''m'', br_environment = [],
     br_execute = True\<rparr>"

definition ship_token :: string where "ship_token = sample_hash ''doc''"

definition evidence_of :: "path \<Rightarrow> string \<Rightarrow> pydict" where
  "evidence_of p c = [(''path'', JStr (path_str p)), (''sha256'', JStr (sample_hash c))]"

text \<open>The fields that a snapshot and an integration report share with the gate.\<close>

definition gate_fields :: pydict where
  "gate_fields = [(''state'', JStr ''OPERATORS_READY''), (''run_id'', JStr ''r''), (''evidence_mode'', JStr ''real''),
     (''environment_fingerprint'', JStr ''fp''), (''task_ids'', JList []), (''operator_keys'', JList []),
     (''task_results'', JList []), (''snapshot_token'', JStr ship_token)]"

definition environment_doc :: pydict where
  "environment_doc = [(''state'', JStr ''ENVIRONMENT_READY''), (''pod'', JStr ''p''), (''evidence_mode'', JStr ''real''),
     (''checks'', JDict (map (\<lambda>k. (k, JBool True)) environment_flags @ environment_checks)),
     (''artifacts'', JList (map JStr environment_artifacts))]"

definition service_doc :: pydict where
  "service_doc = [(''state'', JStr ''DEPLOYMENT_READY''), (''checks'', JDict deployment_checks),
     (''artifacts'', JList [JStr ''status.json''])]"

definition accuracy_doc :: pydict where
  "accuracy_doc = [(''status'', JStr ''ACCURACY_PASS''), (''threshold_source'', JStr ''c''), (''metric'', JStr ''top1''),
     (''reference'', JDict [(''implementation'', JStr ''hf''), (''device'', JStr ''cpu'')]),
     (''candidate'', JDict [(''device'', JStr ''xpu'')]),
     (''cases'', JList [JDict [(''prompt'', JStr ''x''), (''top1_candidate'', JInt 1), (''top1_reference'', JInt 1),
        (''candidate_top5'', JList [JInt 1]), (''reference_top5'', JList [JInt 1]), (''top1_match'', JBool True)]])]"

definition baseline_doc :: pydict where
  "baseline_doc = [(''status'', JStr ''FROZEN''), (''baseline_id'', JStr ''b1''), (''subject'', JStr ''m''),
     (''service'', JDict [(''state'', JStr ''DEPLOYMENT_READY''),
        (''artifact'', JStr (path_str (O_dir @ [''status.json'']))), (''sha256'', JStr (sample_hash ''service''))]),
     (''accuracy'', JDict [(''state'', JStr ''ACCURACY_PASS''),
        (''artifact'', JStr (path_str (O_dir @ [''accuracy_differential.json'']))),
        (''sha256'', JStr (sample_hash ''accuracy''))])]"

definition integration_doc :: pydict where
  "integration_doc = gate_fields @ [(''subject'', JStr ''m''), (''scheduler_state'', JStr ''/d/s''),
     (''artifact_root'', JStr ''/d''), (''baseline_path'', JStr (path_str (O_dir @ [''baseline_manifest.json'']))),
     (''baseline_id'', JStr ''b1'')]"

definition shim_doc :: pydict where
  "shim_doc = [(''state'', JStr ''HANDOFF_CLEAR''), (''signals'', JList []), (''entries'', JList []),
     (''unmapped_signals'', JList []), (''plugin'', JStr ''vllm''), (''files_scanned'', JInt 1)]"

definition ship_docs :: "(string \<times> pydict) list" where
  "ship_docs = [(''marker'', [(''schema_version'', JInt 1), (''run_id'', JStr ''r'')]),
     (''attempt'', [(''schema_version'', JInt 1), (''run_id'', JStr ''r''), (''task_id'', JStr ''t''),
        (''attempt_id'', JStr ''000001'')]),
     (''snapshot'', gate_fields @ [(''service_proof'', JDict (evidence_of (O_dir @ [''status.json'']) ''service''))]),
     (''env'', environment_doc), (''service'', service_doc), (''accuracy'', accuracy_doc),
     (''pass'', [(''state'', JStr ''ACCURACY_PASS'')]), (''baseline'', baseline_doc),
     (''frozen'', [(''state'', JStr ''BASELINE_FROZEN'')]), (''integration'', integration_doc), (''shims'', shim_doc),
     (''dispatch'', [(''state'', JStr ''DISPATCH_SKIPPED'')]), (''clear'', [(''state'', JStr ''HANDOFF_CLEAR'')]), (''other'', [])]"

definition ship_lib :: lib where "ship_lib = sample_lib (map (\<lambda>(c, d). (c, JDict d)) ship_docs)"

definition output_files :: "(string \<times> string) list" where
  "output_files = [(''status.json'', ''service''), (''accuracy_status.json'', ''pass''),
     (''accuracy_differential.json'', ''accuracy''), (''shim_status.json'', ''clear''),
     (''torch_shim_registry.json'', ''shims''), (''baseline_status.json'', ''frozen''),
     (''baseline_manifest.json'', ''baseline''), (''dispatch_status.json'', ''dispatch''),
     (''integration_status.json'', ''integration''), (''intake_status.json'', ''other''), (''scan_status.json'', ''other''),
     (''match_status.json'', ''other''), (''classification_status.json'', ''other''),
     (''evaluation_status.json'', ''other''), (''plan_status.json'', ''other''), (''bringup_status.json'', ''other''),
     (''matrix_status.json'', ''other'')]"

definition ship_fs :: fs where
  "ship_fs =
     [([''d''], Dir), ([''d'', ''run.json''], File ''marker''), ([''d'', ''tasks''], Dir), ([''d'', ''tasks'', ''t''], Dir),
      ([''d'', ''tasks'', ''t'', ''attempts''], Dir), (X_dir, Dir), (X_dir @ [''.attempt.json''], File ''attempt''),
      (X_dir @ [''input''], Dir), (X_dir @ [''input'', ''scheduler_snapshot.json''], File ''snapshot''),
      (E_dir, Dir), (E_dir @ [''status.json''], File ''env''), (O_dir, Dir)] @
     map (\<lambda>(n, c). (O_dir @ [n], File c)) output_files"

definition ship_facts :: facts where
  "ship_facts = map (\<lambda>(n, _). (n, if n = ''EnvironmentProof'' then E_dir else O_dir)) fact_status"

definition ship_world :: world where
  "ship_world = \<lparr>files = ship_fs, clock_reads = 0, ids_drawn = 0,
     db = \<lparr>runs = [ship_run], operators = [], tasks = [], events = []\<rparr>, db_path = Some [''d'', ''s'']\<rparr>"

section \<open>Its files\<close>

definition plain :: "fs \<Rightarrow> bool" where
  "plain f \<longleftrightarrow> list_all (\<lambda>(p, x). case x of Link _ _ \<Rightarrow> False | _ \<Rightarrow> True) f"

lemma plain_link_free: "plain f \<Longrightarrow> ''..'' \<notin> set p \<Longrightarrow> link_free f p"
  by (auto simp: plain_def link_free_def node_at_def list_all_iff split: if_splits dest!: map_of_SomeD)

lemma ship_plain: "plain ship_fs" by code_simp
lemmas ship_link_free = plain_link_free[OF ship_plain]

lemma ship_dirs [simp]: "''..'' \<notin> set O_dir" "''..'' \<notin> set E_dir" "''..'' \<notin> set X_dir" by code_simp+

lemma ship_names: "list_all name_ok O_dir" "list_all name_ok E_dir" "list_all name_ok X_dir" by code_simp+

lemma ship_files_at:
  "list_all (\<lambda>(n, c). node_at ship_fs (O_dir @ [n]) = Some (File c) \<and> c \<noteq> [] \<and> n \<noteq> ''..'' \<and> name_ok n) output_files"
  by code_simp

lemma ship_lib_files:
  "node_at ship_fs (E_dir @ [''status.json'']) = Some (File ''env'')"
  "node_at ship_fs (X_dir @ [''input'', ''scheduler_snapshot.json'']) = Some (File ''snapshot'')"
  by code_simp+

lemma ship_identities:
  "list_all (\<lambda>(c, d). check_run_identity [] ship_run False False (JDict d) = Inr ()) ship_docs"
  by code_simp

lemma env_identity: "check_run_identity [] ship_run True False (JDict environment_doc) = Inr ()"
  by code_simp

lemma ship_located:
  "locate_attempt ship_lib ship_fs O_dir = Inr (Some \<lparr>a_root = X_dir, a_run = ''r'', a_task = ''t'', a_number = ''000001''\<rparr>)"
  by code_simp

lemma ship_full: "''..'' \<notin> set p \<Longrightarrow> full ship_fs p = Some p"
  by (rule full_link_free[OF ship_link_free])

lemma ship_read: "''..'' \<notin> set p \<Longrightarrow> node_at ship_fs p = Some (File c) \<Longrightarrow> read_bytes ship_fs p = Inr c"
  by (simp add: read_bytes_def stat_link_free ship_link_free)

lemma ship_resolve [simp]: "''..'' \<notin> set p \<Longrightarrow> resolve ship_fs p = Inr p"
  by (simp add: resolve_def ship_full)

lemma ship_external [simp]:
  "''..'' \<notin> set p \<Longrightarrow> prefix [''d''] p \<Longrightarrow> ensure_external_path ship_lib ship_fs p = Inr p"
  by (auto simp: ensure_external_path_def ship_lib_def strictly_under_def strict_prefix_def prefix_def)

lemma ship_evidence:
  assumes "''..'' \<notin> set p" "node_at ship_fs p = Some (File c)" "c \<noteq> []"
  shows "evidence_file ship_lib ship_fs p = Inr (evidence_of p c)"
  using assms
  by (simp add: evidence_file_def is_symlink_link_free is_file_def stat_link_free ship_link_free ship_read evidence_of_def ship_lib_def)

lemma ship_load:
  assumes "''..'' \<notin> set p" "node_at ship_fs p = Some (File c)" "map_of ship_docs c = Some d"
  shows "load_object ship_lib ship_fs p = Inr d"
proof -
  have "map_of (map (\<lambda>(c, d). (c, JDict d)) ds) c = map_option JDict (map_of ds c)" for ds
    by (induction ds) auto
  with assms show ?thesis by (simp add: load_object_def parse_json_def ship_read ship_lib_def)
qed

lemma ship_value_path [simp]:
  "list_all name_ok p \<Longrightarrow> p \<noteq> [] \<Longrightarrow> value_path L (JStr (path_str p)) = Inr p"
proof -
  assume p: "list_all name_ok p" "p \<noteq> []"
  then obtain c cs where "p = c # cs" by (cases p) auto
  with p path_parts_path_str[OF p(1)] show ?thesis
    by (simp add: value_path_def text_path_def locate_def is_absolute_def path_str_def)
qed

lemma evidence_eq [simp]: "py_eq (JDict (evidence_of p c)) (JDict (evidence_of p c))"
  by (simp add: evidence_of_def py_eq.simps[of "JDict _"])

text \<open>A file of the output directory.\<close>

definition in_output :: "string \<Rightarrow> string \<Rightarrow> bool" where
  "in_output n c \<longleftrightarrow> map_of output_files n = Some c"

lemma ship_output:
  assumes "in_output n c"
  shows "node_at ship_fs (O_dir @ [n]) = Some (File c)" "c \<noteq> []" "n \<noteq> ''..''" "name_ok n"
  using ship_files_at map_of_SomeD[OF assms[unfolded in_output_def]] by (auto simp: list_all_iff)

lemma ship_output_doc:
  assumes "in_output n c" "map_of ship_docs c = Some d"
  shows "load_object ship_lib ship_fs (O_dir @ [n]) = Inr d"
    "check_run_identity [] ship_run False False (JDict d) = Inr ()"
  using ship_output[OF assms(1)] ship_load[OF _ _ assms(2)] ship_identities map_of_SomeD[OF assms(2)]
  by (auto simp: list_all_iff)

lemma ship_output_evidence:
  "in_output n c \<Longrightarrow> evidence_file ship_lib ship_fs (O_dir @ [n]) = Inr (evidence_of (O_dir @ [n]) c)"
  by (rule ship_evidence) (use ship_output[of n c] in auto)

lemma ship_nodes: "list_all (\<lambda>(p, x). (case x of File c \<Rightarrow> c \<noteq> [] | _ \<Rightarrow> True) \<and> ''..'' \<notin> set p) ship_fs"
  by code_simp

definition ship_files :: pyval where
  "ship_files = (case fact_files ship_lib ship_fs O_dir of Inl _ \<Rightarrow> JNone | Inr v \<Rightarrow> v)"

lemma evidence_listed:
  assumes "p \<in> set (map fst ship_fs)" "is_file ship_fs p"
  shows "\<exists>c. evidence_file ship_lib ship_fs p = Inr (evidence_of p c)"
proof -
  have d: "''..'' \<notin> set p" using assms(1) ship_nodes by (auto simp: list_all_iff)
  then obtain c where "node_at ship_fs p = Some (File c)"
    using assms(2) by (auto simp: is_file_def stat_link_free ship_link_free split: option.splits node.splits)
  moreover from this have "c \<noteq> []"
    using ship_nodes by (auto simp: node_at_def list_all_iff split: if_splits dest!: map_of_SomeD)
  ultimately show ?thesis using d ship_evidence by blast
qed

lemma ship_fact_files:
  "fact_files ship_lib ship_fs O_dir = Inr ship_files" "\<not> has_nonfinite ship_files"
proof -
  define ps where "ps = filter (is_file ship_fs) (sort (remdups (filter (\<lambda>p. strictly_under p O_dir) (map fst ship_fs))))"
  have e: "\<exists>c. evidence_file ship_lib ship_fs p = Inr (evidence_of p c)" if "p \<in> set ps" for p
    using that evidence_listed by (auto simp: ps_def)
  have m: "\<exists>es. rmapM (evidence_file ship_lib ship_fs) qs = Inr es \<and> (\<forall>d \<in> set es. \<exists>p c. d = evidence_of p c)"
    if "set qs \<subseteq> set ps" for qs
    using that
  proof (induction qs)
    case (Cons q qs)
    then obtain es c where "rmapM (evidence_file ship_lib ship_fs) qs = Inr es" "\<forall>d \<in> set es. \<exists>p c. d = evidence_of p c"
      "evidence_file ship_lib ship_fs q = Inr (evidence_of q c)"
      using e by fastforce
    then show ?case by auto
  qed simp
  then obtain es where es: "rmapM (evidence_file ship_lib ship_fs) ps = Inr es" "\<forall>d \<in> set es. \<exists>p c. d = evidence_of p c"
    by blast
  then show f: "fact_files ship_lib ship_fs O_dir = Inr ship_files"
    by (simp add: ship_files_def fact_files_def ps_def[symmetric])
  have j: "ship_files = JList (map JDict es)"
    using f es by (simp add: fact_files_def ps_def[symmetric])
  have "\<not> has_nonfinite (JDict d)" if "d \<in> set es" for d
    using es(2) that by (auto simp: evidence_of_def)
  then have "\<not> has_nonfinite (JList (map JDict es))"
    by (auto simp: list_ex_iff simp del: has_nonfinite.simps(3))
  then show "\<not> has_nonfinite ship_files" unfolding j .
qed

section \<open>The gate is ready\<close>

lemma ship_environment_file:
  "evidence_file ship_lib ship_fs (E_dir @ [''status.json'']) = Inr (evidence_of (E_dir @ [''status.json'']) ''env'')"
  "load_object ship_lib ship_fs (E_dir @ [''status.json'']) = Inr environment_doc"
proof -
  note n = ship_lib_files(1)
  show "evidence_file ship_lib ship_fs (E_dir @ [''status.json'']) = Inr (evidence_of (E_dir @ [''status.json'']) ''env'')"
    by (rule ship_evidence[OF _ n]) simp_all
  show "load_object ship_lib ship_fs (E_dir @ [''status.json'']) = Inr environment_doc"
    by (rule ship_load[OF _ n]) (simp_all add: ship_docs_def)
qed

lemma ship_run_fields [simp]:
  "r_status ship_run = ''ENVIRONMENT_READY''" "r_model ship_run = ''m''" "r_id ship_run = ''r''"
  "r_model_revision ship_run = ''1''" "run_mode ship_run = JStr ''real''"
  "br_environment ship_bridge = []" "br_run ship_bridge = ''r''" "br_execute ship_bridge"
  "br_root ship_bridge = [''d'']" "br_state ship_bridge = [''d'', ''s'']" "br_subject ship_bridge = ''m''"
  by (simp_all add: ship_run_def ship_bridge_def run_mode_def dget_or_def)

lemma ship_meta [simp]:
  "dget (r_metadata ship_run) ''graph_environment'' = JDict [(''status_path'', JStr (path_str (E_dir @ [''status.json'']))),
     (''files'', JList [JDict (evidence_of (E_dir @ [''status.json'']) ''env'')]), (''imported'', JBool False)]"
  "dget (r_metadata ship_run) ''graph_discovery'' = JDict [(''state'', JStr ''DISPATCH_SKIPPED''),
     (''status_path'', JStr (path_str (O_dir @ [''dispatch_status.json'']))),
     (''status_sha256'', JStr (sample_hash ''dispatch'')), (''reports'', JList [])]"
  "dget (r_metadata ship_run) ''artifact_root'' = JStr ''/d''"
  "dhas (r_metadata ship_run) ''graph_environment''" "dhas (r_metadata ship_run) ''graph_discovery''"
  "\<not> dhas (r_metadata ship_run) ''graph_shim_discovery''"
  by (simp_all add: ship_run_def evidence_of_def dhas_def)

lemma ship_environment_ok: "validate_environment_status environment_doc = Inr []"
  by code_simp

lemma ship_names_status: "list_all name_ok (E_dir @ [''status.json''])" "list_all name_ok (O_dir @ [''dispatch_status.json''])"
  by (simp_all add: ship_names name_ok_def)

lemma ship_environment_doc:
  "validate_environment_status environment_doc = Inr []" "is_dict (dget environment_doc ''checks'')"
  "dget_or environment_doc ''evidence_mode'' (JStr ''real'') = JStr ''real''"
  by code_simp+

lemma evidence_fields: "vindex (JDict (evidence_of p c)) ''path'' = Inr (JStr (path_str p))"
  "dget (evidence_of p c) ''sha256'' = JStr (sample_hash c)" "dget (evidence_of p c) ''path'' = JStr (path_str p)"
  by (simp_all add: vindex_def evidence_of_def)

lemma ship_environment_checks: "check_environment_proof ship_bridge ship_run (JBool False) environment_doc = Inr ()"
  by (simp add: check_environment_proof_def ship_environment_doc env_identity no_errors_def)

lemma ship_recheck: "recheck_environment ship_lib ship_fs ship_bridge ship_run (dget (r_metadata ship_run) ''graph_environment'') = Inr ()"
proof -
  have "recheck_file ship_lib ship_fs (JDict (evidence_of (E_dir @ [''status.json'']) ''env'')) = Inr ()"
    using ship_names_status by (simp add: recheck_file_def evidence_fields ship_environment_file)
  then show ?thesis
    using ship_names_status
    by (simp add: recheck_environment_def vindex_def recheck_files_def viter_def vget_or_def dget_or_def
      ship_environment_file ship_environment_checks)
qed

lemma ship_run_found [simp]: "run_of (db ship_world) ''r'' = Some ship_run" "files ship_world = ship_fs"
  "tasks_of (db ship_world) (Some ''r'') = []" "db_path ship_world = Some [''d'', ''s'']" "bridge_run ship_bridge ship_world = (Inr ship_run, ship_world)"
  by (simp_all add: ship_world_def run_of_def tasks_of_def bridge_run_def actreadR_def)

lemma ship_environment: "environment_errors ship_lib b ship_world = (Inr [], ship_world)"
  if "br_run b = ''r''" "br_environment b = []"
proof -
  have "recheck_environment ship_lib ship_fs b ship_run (dget (r_metadata ship_run) ''graph_environment'') = Inr ()"
    using ship_recheck that by (simp add: recheck_environment_def check_environment_proof_def)
  with that show ?thesis
    by (simp add: environment_errors_def actbind_def actread_def actret_def bridge_run_def actreadR_def)
qed

lemma ship_output_names: "in_output n c \<Longrightarrow> list_all name_ok (O_dir @ [n])"
  by (simp add: ship_names ship_output)

lemma ship_discovery: "discovery_errors ship_lib ship_fs (dget (r_metadata ship_run) ''graph_discovery'') = Inr []"
proof -
  have o: "in_output ''dispatch_status.json'' ''dispatch''" by (simp add: in_output_def output_files_def)
  show ?thesis
    using ship_output_names[OF o] ship_output_evidence[OF o]
    by (simp add: discovery_errors_def check_discovery_files_def vindex_def in_strset_def in_strs_def
      recheck_files_def viter_def evidence_fields)
qed

lemma ship_fingerprint: "run_fingerprint ship_run = Inr (JStr ''fp'')"
  by (simp add: run_fingerprint_def ship_run_def dget_or_def)

definition ship_gate :: "bridge \<Rightarrow> pydict" where
  "ship_gate b = with_token ship_lib (gate_status b ship_run (JStr ''fp'') [] ''OPERATORS_READY'' [])"

lemma ship_delivery:
  assumes "br_run b = ''r''" "br_environment b = []"
  shows "delivery_status ship_lib b ship_world = (Inr (ship_gate b), ship_world)"
proof -
  have "accepted_discoveries ship_run = [dget (r_metadata ship_run) ''graph_discovery'']"
    by (simp add: accepted_discoveries_def del: ship_meta(1,2))
  then have "operators_gate ship_lib b ship_fs ship_run [] [] = Inr (ship_gate b)"
    using ship_discovery
    by (simp add: operators_gate_def ship_fingerprint ship_gate_def gate_state_def operator_keys_def ship_meta(2)[symmetric] del: ship_meta)
      (simp add: ship_meta(2))
  with assms ship_environment[OF assms] show ?thesis
    by (simp add: delivery_status_def actbind_def bridge_run_def actreadR_def)
qed

lemma ship_gate_fields:
  assumes "br_run b = ''r''"
  shows "dget (ship_gate b) ''state'' = JStr ''OPERATORS_READY''" "dget (ship_gate b) ''errors'' = JList []"
    "dget (ship_gate b) ''operator_keys'' = JList []" 
    "list_all (\<lambda>k. dget gate_fields k = dget (ship_gate b) k) integration_keys"
    "dget (ship_gate b) ''run_id'' = JStr ''r''"
  using assms
  by (simp_all add: ship_gate_def with_token_def gate_status_def gate_fields_def integration_keys_def operator_keys_def
    ship_token_def ship_lib_def)

definition snapshot_doc :: pydict where
  "snapshot_doc = gate_fields @ [(''service_proof'', JDict (evidence_of (O_dir @ [''status.json'']) ''service''))]"

definition ship_attempt :: attempt where
  "ship_attempt = \<lparr>a_root = X_dir, a_run = ''r'', a_task = ''t'', a_number = ''000001''\<rparr>"

lemma ship_snapshot:
  "snapshot_path ship_attempt = X_dir @ [''input'', ''scheduler_snapshot.json'']"
  "load_object ship_lib ship_fs (X_dir @ [''input'', ''scheduler_snapshot.json'']) = Inr snapshot_doc"
  "evidence_file ship_lib ship_fs (X_dir @ [''input'', ''scheduler_snapshot.json'']) =
     Inr (evidence_of (X_dir @ [''input'', ''scheduler_snapshot.json'']) ''snapshot'')"
proof -
  show "snapshot_path ship_attempt = X_dir @ [''input'', ''scheduler_snapshot.json'']"
    by (simp add: snapshot_path_def a_input_def ship_attempt_def)
  note n = ship_lib_files(2)
  show "load_object ship_lib ship_fs (X_dir @ [''input'', ''scheduler_snapshot.json'']) = Inr snapshot_doc"
    by (rule ship_load[OF _ n]) (simp_all add: ship_docs_def snapshot_doc_def)
  show "evidence_file ship_lib ship_fs (X_dir @ [''input'', ''scheduler_snapshot.json'']) =
     Inr (evidence_of (X_dir @ [''input'', ''scheduler_snapshot.json'']) ''snapshot'')"
    by (rule ship_evidence[OF _ n]) simp_all
qed

lemma gate_fields_eq: "list_all (\<lambda>k. dhas snapshot_doc k \<and> py_eq (dget snapshot_doc k) (dget gate_fields k)) regression_keys"
  by code_simp

lemma ship_regression:
  assumes "br_run b = ''r''"
  shows "regression_snapshot ship_lib ship_fs b O_dir (ship_gate b) =
    Inr (evidence_of (X_dir @ [''input'', ''scheduler_snapshot.json'']) ''snapshot'')"
proof -
  have "managed_attempt ship_lib ship_fs b O_dir s = Inr ship_attempt" for s
    using ship_located assms by (simp add: managed_attempt_def ship_attempt_def)
  moreover have "list_all (\<lambda>k. dhas snapshot_doc k \<and> py_eq (dget snapshot_doc k) (dget (ship_gate b) k)) regression_keys"
    using gate_fields_eq ship_gate_fields(4)[OF assms] by (auto simp: list_all_iff regression_keys_def integration_keys_def)
  moreover have "says snapshot_doc ''state'' ''OPERATORS_READY''"
    by (simp add: snapshot_doc_def gate_fields_def says_def)
  ultimately show ?thesis by (simp add: regression_snapshot_def ship_snapshot)
qed

lemma in_output_simps:
  "in_output ''status.json'' ''service''" "in_output ''accuracy_differential.json'' ''accuracy''"
  "in_output ''torch_shim_registry.json'' ''shims''" "in_output ''baseline_manifest.json'' ''baseline''"
  "in_output ''dispatch_status.json'' ''dispatch''"
  by (simp_all add: in_output_def output_files_def)

lemma ship_accuracy_snapshot:
  assumes "br_run b = ''r''"
  shows "accuracy_snapshot ship_lib ship_fs b O_dir O_dir (ship_gate b) =
    Inr (evidence_of (X_dir @ [''input'', ''scheduler_snapshot.json'']) ''snapshot'')"
proof -
  have "list_all name_ok (X_dir @ [''input'', ''scheduler_snapshot.json''])"
    by (simp add: ship_names) (simp add: name_ok_def)
  moreover have "dget snapshot_doc ''service_proof'' = JDict (evidence_of (O_dir @ [''status.json'']) ''service'')"
    by (simp add: snapshot_doc_def gate_fields_def)
  ultimately show ?thesis
    by (simp add: accuracy_snapshot_def ship_regression[OF assms] evidence_fields ship_snapshot
      ship_output_evidence[OF in_output_simps(1)])
qed

section \<open>The facts\<close>

lemma ship_below [simp]: "prefix [''d''] O_dir" "prefix [''d''] E_dir" "prefix [''d''] (O_dir @ p)"  "prefix [''d''] (E_dir @ p)"
  by (simp_all add: O_dir_def E_dir_def X_dir_def)

lemma ship_unmarked:
  "node_at ship_fs (O_dir @ [''.attempt.json'']) = None" "node_at ship_fs (E_dir @ [''.attempt.json'']) = None"
  "node_at ship_fs (O_dir @ [''status.json'', ''.attempt.json'']) = None"
  "node_at ship_fs (O_dir @ [''accuracy_differential.json'', ''.attempt.json'']) = None"
  by code_simp+

lemma locate_unmarked:
  assumes "''..'' \<notin> set p" "node_at ship_fs (p @ [''.attempt.json'']) = None"
  shows "locate_at ship_lib ship_fs p = Inr None"
  using assms by (simp add: locate_at_def path_exists_def stat_link_free is_symlink_link_free ship_link_free)

lemma ship_located_all:
  "locate_attempt ship_lib ship_fs O_dir = Inr (Some ship_attempt)"
  "locate_attempt ship_lib ship_fs E_dir = Inr (Some ship_attempt)"
  "locate_attempt ship_lib ship_fs (O_dir @ [''status.json'']) = Inr (Some ship_attempt)"
  "locate_attempt ship_lib ship_fs (O_dir @ [''accuracy_differential.json'']) = Inr (Some ship_attempt)"
proof -
  have o: "rev (prefixes O_dir) = O_dir # rev (prefixes X_dir)" "rev (prefixes E_dir) = E_dir # rev (prefixes X_dir)"
    by (simp_all add: O_dir_def E_dir_def)
  have x: "locate_up ship_lib ship_fs (rev (prefixes X_dir)) = Inr (Some ship_attempt)"
    using ship_located locate_unmarked[OF _ ship_unmarked(1)] by (simp add: locate_attempt_def o ship_attempt_def)
  show "locate_attempt ship_lib ship_fs O_dir = Inr (Some ship_attempt)"
    "locate_attempt ship_lib ship_fs E_dir = Inr (Some ship_attempt)"
    using locate_unmarked[OF _ ship_unmarked(1)] locate_unmarked[OF _ ship_unmarked(2)] x by (simp_all add: locate_attempt_def o)
  show "locate_attempt ship_lib ship_fs (O_dir @ [''status.json'']) = Inr (Some ship_attempt)"
    "locate_attempt ship_lib ship_fs (O_dir @ [''accuracy_differential.json'']) = Inr (Some ship_attempt)"
    using locate_unmarked[OF _ ship_unmarked(1)] locate_unmarked[of "O_dir @ [''status.json'']"]
      locate_unmarked[of "O_dir @ [''accuracy_differential.json'']"] ship_unmarked x
    by (simp_all add: locate_attempt_def o)
qed

definition fact_entry :: "string \<Rightarrow> path \<Rightarrow> pyval \<Rightarrow> string \<times> pydict" where
  "fact_entry n dir fs = (n, [(''root'', JStr (path_str dir)), (''files'', fs)])"

lemma collect_output:
  assumes "n \<noteq> ''EnvironmentProof''" "map_of ship_facts n = Some O_dir" "in_output s c" "map_of ship_docs c = Some d"
    "dget_or d ''validator'' (JDict []) = JDict []"
  shows "collect_fact ship_lib ship_fs ship_bridge ship_run ship_facts (n, s) =
    Inr ((n, d), fact_entry n O_dir ship_files)"
proof -
  have "owned_by_run ship_lib ship_fs ''r'' O_dir = Inr True"
    by (simp add: owned_by_run_def ship_located_all ship_attempt_def)
  then show ?thesis
    using assms ship_output_doc[OF assms(3,4)]
    by (simp add: collect_fact_def fact_root_def imported_fact_def under_def ship_fact_files fact_entry_def is_False_def)
qed

lemma collect_environment:
  "collect_fact ship_lib ship_fs ship_bridge ship_run ship_facts (''EnvironmentProof'', ''status.json'') =
    Inr ((''EnvironmentProof'', environment_doc),
      fact_entry ''EnvironmentProof'' E_dir (JList [JDict (evidence_of (E_dir @ [''status.json'']) ''env'')]))"
proof -
  have "owned_by_run ship_lib ship_fs ''r'' E_dir = Inr True"
    by (simp add: owned_by_run_def ship_located_all ship_attempt_def)
  moreover have "map_of ship_facts ''EnvironmentProof'' = Some E_dir"
    by (simp add: ship_facts_def fact_status_def)
  moreover have "dget_or environment_doc ''validator'' (JDict []) = JDict []" by code_simp
  moreover have "vindex (JDict (r_metadata ship_run)) ''graph_environment'' = Inr (dget (r_metadata ship_run) ''graph_environment'')"
    by (simp add: vindex_def ship_run_def)
  ultimately show ?thesis
    by (simp add: collect_fact_def fact_root_def imported_fact_def under_def fact_entry_def is_False_def
      ship_environment_file env_identity vget_or_def dget_or_def vindex_def[of "JDict [_, _, _]"] Let_def)
qed

definition ship_statuses :: "(string \<times> pydict) list" where
  "ship_statuses = [(''ModelRequest'', []), (''EnvironmentProof'', environment_doc), (''ModelSupportCard'', []),
     (''CapabilityMatch'', []), (''GapClassification'', []), (''CapabilityEvaluation'', []), (''DeploymentPlan'', []),
     (''ToyBringupReport'', []), (''TorchShimRegistry'', [(''state'', JStr ''HANDOFF_CLEAR'')]),
     (''DeploymentProof'', service_doc), (''AccuracyDifferential'', [(''state'', JStr ''ACCURACY_PASS'')]),
     (''ServingBaseline'', [(''state'', JStr ''BASELINE_FROZEN'')]),
     (''OperatorTaskDispatch'', [(''state'', JStr ''DISPATCH_SKIPPED'')]), (''OperatorIntegration'', integration_doc),
     (''SupportMatrixEntry'', [])]"

definition ship_inventory :: "(string \<times> pydict) list" where
  "ship_inventory = map (\<lambda>(n, _). if n = ''EnvironmentProof''
     then fact_entry n E_dir (JList [JDict (evidence_of (E_dir @ [''status.json'']) ''env'')])
     else fact_entry n O_dir ship_files) fact_status"

lemma ship_fact_dirs:
  "map_of ship_facts n = (if n = ''EnvironmentProof'' then Some E_dir else if n \<in> set (map fst fact_status) then Some O_dir else None)"
  unfolding ship_facts_def by (simp add: fact_status_def)

lemma in_output_status:
  "in_output ''intake_status.json'' ''other''" "in_output ''scan_status.json'' ''other''"
  "in_output ''match_status.json'' ''other''" "in_output ''classification_status.json'' ''other''"
  "in_output ''evaluation_status.json'' ''other''" "in_output ''plan_status.json'' ''other''"
  "in_output ''bringup_status.json'' ''other''" "in_output ''shim_status.json'' ''clear''"
  "in_output ''accuracy_status.json'' ''pass''" "in_output ''baseline_status.json'' ''frozen''"
  "in_output ''integration_status.json'' ''integration''" "in_output ''matrix_status.json'' ''other''"
  by (simp_all add: in_output_def output_files_def)

lemma ship_doc:
  "map_of ship_docs ''other'' = Some []" "map_of ship_docs ''clear'' = Some [(''state'', JStr ''HANDOFF_CLEAR'')]"
  "map_of ship_docs ''pass'' = Some [(''state'', JStr ''ACCURACY_PASS'')]"
  "map_of ship_docs ''frozen'' = Some [(''state'', JStr ''BASELINE_FROZEN'')]"
  "map_of ship_docs ''integration'' = Some integration_doc" "map_of ship_docs ''service'' = Some service_doc"
  "map_of ship_docs ''dispatch'' = Some [(''state'', JStr ''DISPATCH_SKIPPED'')]"
  "map_of ship_docs ''baseline'' = Some baseline_doc" "map_of ship_docs ''accuracy'' = Some accuracy_doc"
  "map_of ship_docs ''shims'' = Some shim_doc"
  by (simp_all add: ship_docs_def)

lemma ship_no_validator: "dget_or service_doc ''validator'' (JDict []) = JDict []"
  "dget_or integration_doc ''validator'' (JDict []) = JDict []"
  by code_simp+

lemma ship_collected:
  "rmapM (collect_fact ship_lib ship_fs ship_bridge ship_run ship_facts) fact_status =
     Inr (zip ship_statuses ship_inventory)"
proof -
  note c = collect_output[OF _ _ _ ship_doc(1)] collect_output[OF _ _ _ ship_doc(2)] collect_output[OF _ _ _ ship_doc(3)]
    collect_output[OF _ _ _ ship_doc(4)] collect_output[OF _ _ _ ship_doc(5)] collect_output[OF _ _ _ ship_doc(6)]
    collect_output[OF _ _ _ ship_doc(7)]
  note o1 = c(1)[OF _ _ in_output_status(1)] c(1)[OF _ _ in_output_status(2)] c(1)[OF _ _ in_output_status(3)]
    c(1)[OF _ _ in_output_status(4)] c(1)[OF _ _ in_output_status(5)] c(1)[OF _ _ in_output_status(6)]
    c(1)[OF _ _ in_output_status(7)] c(2)[OF _ _ in_output_status(8)] c(3)[OF _ _ in_output_status(9)]
    c(4)[OF _ _ in_output_status(10)] c(5)[OF _ _ in_output_status(11)] c(1)[OF _ _ in_output_status(12)]
    c(6)[OF _ _ in_output_simps(1)] c(7)[OF _ _ in_output_simps(5)]
  show ?thesis
    by (simp add: fact_status_def o1 collect_environment ship_fact_dirs dget_or_def ship_no_validator[unfolded dget_or_def]
      ship_statuses_def ship_inventory_def)
qed

lemma ship_statuses_simps:
  "status_of ship_statuses ''OperatorIntegration'' = integration_doc"
  "status_of ship_statuses ''OperatorTaskDispatch'' = [(''state'', JStr ''DISPATCH_SKIPPED'')]"
  "list_all (\<lambda>(n, s). dget (status_of ship_statuses n) ''state'' = JStr s) required_states"
proof -
  have "dget service_doc ''state'' = JStr ''DEPLOYMENT_READY''" "dget integration_doc ''state'' = JStr ''OPERATORS_READY''"
    by code_simp+
  then show "list_all (\<lambda>(n, s). dget (status_of ship_statuses n) ''state'' = JStr s) required_states"
    by (simp add: required_states_def status_of_def ship_statuses_def)
qed (simp_all add: status_of_def ship_statuses_def)

definition ship_evidence_snapshot :: pydict where
  "ship_evidence_snapshot = evidence_of (X_dir @ [''input'', ''scheduler_snapshot.json'']) ''snapshot''"

lemma ship_roots:
  "fact_root ship_facts ''EnvironmentProof'' = Inr E_dir" "fact_root ship_facts ''DeploymentProof'' = Inr O_dir"
  "fact_root ship_facts ''AccuracyDifferential'' = Inr O_dir" "fact_root ship_facts ''ServingBaseline'' = Inr O_dir"
  "fact_root ship_facts ''TorchShimRegistry'' = Inr O_dir"
  by (simp_all add: fact_root_def ship_fact_dirs fact_status_def)

lemma ship_bound_proof:
  "rbind (vindex (JDict (r_environment ship_run)) ''environment_proof'') (\<lambda>x. vindex x ''artifact_root'') = Inr (JStr (path_str E_dir))"
  "rbind (vindex (JDict (r_metadata ship_run)) ''graph_discovery'') (\<lambda>g. vindex g ''status_path'') =
     Inr (JStr (path_str (O_dir @ [''dispatch_status.json''])))"
  by (simp_all add: vindex_def ship_run_def)

lemma ship_lengths [simp]: "O_dir \<noteq> []" "E_dir \<noteq> []" "X_dir \<noteq> []"
  by (simp_all add: O_dir_def E_dir_def X_dir_def)

lemma ship_check_facts:
  "check_facts ship_lib ship_fs ship_bridge ship_run ship_facts (ship_gate ship_bridge) =
     Inr (ship_statuses, ship_inventory, ship_evidence_snapshot, ship_evidence_snapshot)"
proof -
  have z: "map fst (zip ship_statuses ship_inventory) = ship_statuses" "map snd (zip ship_statuses ship_inventory) = ship_inventory"
    by (simp_all add: ship_statuses_def ship_inventory_def fact_status_def)
  show ?thesis
    using ship_statuses_simps(3) ship_output_doc[OF in_output_simps(5) ship_doc(7)] ship_names_status
    by (simp add: check_facts_def ship_collected z ship_roots ship_bound_proof same_location_def require_def ship_names
      ship_regression ship_accuracy_snapshot ship_evidence_snapshot_def[symmetric] ship_statuses_simps py_eq.simps[of "JDict _"])
qed

lemma ship_accepted:
  "deployment_errors service_doc = Inr []" "accuracy_errors ship_lib accuracy_doc = Inr []"
  "validate_shim_handoff shim_doc = Inr []"
  by code_simp+

lemma ship_service_artifacts: "artifacts_exist ship_lib ship_fs O_dir service_doc = Inr ()"
proof -
  have "viter (dget_or service_doc ''artifacts'' (JList [])) = Inr [JStr ''status.json'']" by code_simp
  moreover have "store_path ship_lib ship_fs O_dir ''status.json'' = Inr (O_dir @ [''status.json''])" 
  proof -
    have "path_parts ''status.json'' = [''status.json'']" "\<not> is_absolute ''status.json''" by code_simp+
    then show ?thesis
      by (simp add: store_path_def is_symlink_link_free ship_link_free strictly_under_def strict_prefix_def Let_def)
  qed
  ultimately show ?thesis
    by (simp add: artifacts_exist_def proof_artifact_def text_path_def ship_output_evidence[OF in_output_simps(1)])
qed

lemma ship_baseline_path: "below p (path_str (O_dir @ [n])) = O_dir @ [n]" if "name_ok n"
proof -
  have "list_all name_ok (O_dir @ [n])" using that by (simp add: ship_names)
  moreover have "is_absolute (path_str (O_dir @ [n]))" by (simp add: is_absolute_def path_str_def O_dir_def X_dir_def)
  ultimately show ?thesis by (simp add: below_def path_parts_path_str)
qed

lemma ship_baseline_fields:
  "dget_or baseline_doc ''service'' (JDict []) = JDict [(''state'', JStr ''DEPLOYMENT_READY''),
        (''artifact'', JStr (path_str (O_dir @ [''status.json'']))), (''sha256'', JStr (sample_hash ''service''))]"
  "dget_or baseline_doc ''accuracy'' (JDict []) = JDict [(''state'', JStr ''ACCURACY_PASS''),
        (''artifact'', JStr (path_str (O_dir @ [''accuracy_differential.json'']))),
        (''sha256'', JStr (sample_hash ''accuracy''))]"
  "says baseline_doc ''status'' ''FROZEN''" "says baseline_doc ''subject'' ''m''" "truthy (dget baseline_doc ''baseline_id'')"
  "dget_or baseline_doc ''environment'' (JDict []) = JDict []"
  by (simp_all add: baseline_doc_def dget_or_def says_def)

lemma ship_reports:
  "dget_or service_doc ''state'' (dget service_doc ''status'') = JStr ''DEPLOYMENT_READY''"
  "dget_or accuracy_doc ''state'' (dget accuracy_doc ''status'') = JStr ''ACCURACY_PASS''"
  "revision_agrees ship_run accuracy_doc" "says accuracy_doc ''status'' ''ACCURACY_PASS''"
  by code_simp+

lemma path_str_nonempty [simp]: "path_str p \<noteq> []"
  by (cases p) (simp_all add: path_str_def)

lemma ship_field:
  assumes "br_run b = ''r''" "br_environment b = []" "br_root b = [''d'']"
    and "(field, expected, n, c, d) \<in> {(''service'', ''DEPLOYMENT_READY'', ''status.json'', ''service'', service_doc),
      (''accuracy'', ''ACCURACY_PASS'', ''accuracy_differential.json'', ''accuracy'', accuracy_doc)}"
  shows "check_baseline_field ship_lib ship_fs b ship_run p baseline_doc (field, expected) = Inr ()"
  using assms ship_baseline_fields ship_reports ship_accepted ship_service_artifacts ship_output[OF in_output_simps(1)] ship_output[OF in_output_simps(2)]
    ship_output_doc[OF in_output_simps(1) ship_doc(6)] ship_output_doc[OF in_output_simps(2) ship_doc(9)]
    ship_output_evidence[OF in_output_simps(1)] ship_output_evidence[OF in_output_simps(2)]
  by (elim insertE emptyE; simp add: check_baseline_field_def text_path_def ship_baseline_path under_def evidence_fields
      managed_attempt_def ship_located_all ship_attempt_def no_errors_def)

definition bridge_like :: "bridge \<Rightarrow> bool" where
  "bridge_like b \<longleftrightarrow> br_run b = ''r'' \<and> br_environment b = [] \<and> br_root b = [''d''] \<and> br_subject b = ''m''"

lemma ship_identity_empty: "check_run_identity [] ship_run False False (JDict []) = Inr ()"
  by (rule ship_output_doc(2)[OF in_output_status(1) ship_doc(1)])

lemma ship_baseline:
  assumes "bridge_like b"
  shows "bridge_validate_baseline ship_lib ship_fs b ship_run (O_dir @ [''baseline_manifest.json'']) = Inr baseline_doc"
  using assms ship_output_doc[OF in_output_simps(4) ship_doc(8)] ship_baseline_fields ship_identity_empty
    ship_field[where b = b and field = "''service''"] ship_field[where b = b and field = "''accuracy''"]
  by (simp add: bridge_validate_baseline_def bridge_like_def baseline_fields_def)

lemma ship_bridge_like: "bridge_like ship_bridge"
  by (simp add: bridge_like_def)

lemma ship_integration_fields:
  "dget integration_doc ''baseline_path'' = JStr (path_str (O_dir @ [''baseline_manifest.json'']))"
  "vindex (JDict integration_doc) ''baseline_path'' = Inr (JStr (path_str (O_dir @ [''baseline_manifest.json''])))"
  "vindex (JDict integration_doc) ''scheduler_state'' = Inr (JStr ''/d/s'')"
  "vindex (JDict integration_doc) ''run_id'' = Inr (JStr ''r'')"
  "vindex (JDict integration_doc) ''subject'' = Inr (JStr ''m'')"
  "vindex (JDict integration_doc) ''artifact_root'' = Inr (JStr ''/d'')"
  "dget integration_doc ''baseline_id'' = JStr ''b1''" "dget integration_doc ''state'' = JStr ''OPERATORS_READY''"
  "dget integration_doc ''errors'' = JNone"
  by (simp_all add: integration_doc_def gate_fields_def vindex_def)

lemma ship_manifest_names: "list_all name_ok (O_dir @ [''baseline_manifest.json''])"
  by (rule ship_output_names[OF in_output_simps(4)])

lemma ship_current:
  "check_current_field ship_lib ship_fs ship_bridge ship_run baseline_doc (''service'', O_dir @ [''status.json'']) =
     Inr (''service_source'', JDict (evidence_of (O_dir @ [''status.json'']) ''service''))"
  "check_current_field ship_lib ship_fs ship_bridge ship_run baseline_doc (''accuracy'', O_dir @ [''accuracy_differential.json'']) =
     Inr (''accuracy_source'', JDict (evidence_of (O_dir @ [''accuracy_differential.json'']) ''accuracy''))"
proof -
  have v: "rbind (vindex (JDict baseline_doc) ''service'') (\<lambda>x. vindex x ''artifact'') = Inr (JStr (path_str (O_dir @ [''status.json''])))"
    "rbind (vindex (JDict baseline_doc) ''accuracy'') (\<lambda>x. vindex x ''artifact'') = Inr (JStr (path_str (O_dir @ [''accuracy_differential.json''])))"
    by (simp_all add: vindex_def baseline_doc_def)
  show "check_current_field ship_lib ship_fs ship_bridge ship_run baseline_doc (''service'', O_dir @ [''status.json'']) =
     Inr (''service_source'', JDict (evidence_of (O_dir @ [''status.json'']) ''service''))"
    using ship_output_doc[OF in_output_simps(1) ship_doc(6)] ship_output_names[OF in_output_simps(1)]
    by (simp add: check_current_field_def v ship_accepted no_errors_def ship_service_artifacts ship_output_evidence[OF in_output_simps(1)])
  show "check_current_field ship_lib ship_fs ship_bridge ship_run baseline_doc (''accuracy'', O_dir @ [''accuracy_differential.json'']) =
     Inr (''accuracy_source'', JDict (evidence_of (O_dir @ [''accuracy_differential.json'']) ''accuracy''))"
    using ship_output_doc[OF in_output_simps(2) ship_doc(9)] ship_output_names[OF in_output_simps(2)] ship_reports(3,4)
    by (simp add: check_current_field_def v ship_accepted no_errors_def ship_output_evidence[OF in_output_simps(2)])
qed

lemma ship_shims: "check_shims ship_lib ship_fs ship_bridge d (ship_gate ship_bridge) O_dir = Inr ()"
proof -
  have "list_all (\<lambda>k. list_of_objects (dget shim_doc k)) [''signals'', ''entries'', ''unmapped_signals'']"
    "viter (dget_or shim_doc ''entries'' (JList [])) = Inr []" "viter (JList []) = Inr []"
    by code_simp+
  then show ?thesis
    using ship_output_doc(1)[OF in_output_simps(3) ship_doc(10)] ship_gate_fields(3)[of ship_bridge]
    by (simp add: check_shims_def ship_accepted no_errors_def require_def)
qed

lemma ship_deliverables:
  "\<exists>sources. check_deliverables ship_lib ship_fs ship_bridge ship_run d ship_facts (ship_gate ship_bridge) ship_statuses = Inr sources \<and>
     (\<exists>p c q e. sources = [(''service_source'', JDict (evidence_of p c)), (''accuracy_source'', JDict (evidence_of q e))])"
  using ship_baseline[OF ship_bridge_like] ship_manifest_names
  by (simp add: check_deliverables_def ship_roots ship_statuses_simps ship_integration_fields same_location_def ship_current ship_shims require_def)
    blast

section \<open>The live gate\<close>

definition ship_reader :: bridge where "ship_reader = ship_bridge\<lparr>br_execute := False\<rparr>"

lemma ship_reader_like: "bridge_like ship_reader" "br_run ship_reader = ''r''" "br_environment ship_reader = []"
  by (simp_all add: bridge_like_def ship_reader_def)

lemma ship_paths:
  "value_path ship_lib (JStr ''/d/s'') = Inr [''d'', ''s'']" "value_path ship_lib (JStr ''/d'') = Inr [''d'']"
  "ensure_external ship_lib ship_fs ''/d'' = Inr [''d'']" "ensure_external ship_lib ship_fs ''/d/s'' = Inr [''d'', ''s'']"
  "path_str [''d'', ''s''] = ''/d/s''"
  by code_simp+

lemma ship_opened: "open_bridge ship_lib [''d'', ''s''] ''r'' ''m'' [''d''] [] False ship_world = (Inr ship_reader, ship_world)"
  using ship_identity_empty
  by (simp add: open_bridge_def actbind_def actreadR_def actret_def open_readonly_def text_path_def ship_paths check_opened_def
    ship_reader_def ship_bridge_def Let_def)

lemma ship_matches: "integration_matches integration_doc (ship_gate ship_reader) = []"
proof -
  have "list_all (\<lambda>k. py_eq (dget integration_doc k) (dget gate_fields k)) integration_keys" by code_simp
  then have "list_all (\<lambda>k. py_eq (dget integration_doc k) (dget (ship_gate ship_reader) k)) integration_keys"
    using ship_gate_fields(4)[OF ship_reader_like(2)] by (auto simp: list_all_iff integration_keys_def)
  then show ?thesis
    by (simp add: integration_matches_def ship_integration_fields says_def integration_keys_def)
qed

lemma ship_integration: "validate_integration ship_lib integration_doc ship_world = (Inr [], ship_world)"
proof -
  have "vindex (JDict baseline_doc) ''baseline_id'' = Inr (JStr ''b1'')" by (simp add: vindex_def baseline_doc_def)
  then have "integration_baseline ship_lib ship_reader integration_doc (ship_gate ship_reader) ship_world =
      (Inr (ship_gate ship_reader, []), ship_world)"
    using ship_baseline[OF ship_reader_like(1)] ship_manifest_names ship_reader_like(2)
    by (simp add: integration_baseline_def attempt_of_def actcatch_def actbind_def actreadR_def actret_def bridge_run_def
      ship_integration_fields err_if_def)
  then have "compare_live ship_lib integration_doc [''d'', ''s''] ''r'' ''m'' [''d''] ship_world = (Inr [], ship_world)"
    using ship_delivery[OF ship_reader_like(2,3)]
    by (simp add: compare_live_def actbind_def ship_opened actret_def ship_matches)
  then show ?thesis
    by (simp add: validate_integration_def scheduled_integration_def attempt_of_def actcatch_def actbind_def actlift_def actret_def
      ship_integration_fields in_strset_def in_strs_def ship_paths text_path_def)
qed

lemma ship_checked:
  "\<exists>sources. check_delivery ship_lib ship_bridge ship_facts (ship_gate ship_bridge) ship_world =
     (Inr (inventory_value ship_inventory ship_evidence_snapshot ship_evidence_snapshot sources), ship_world) \<and>
     (\<exists>p c q e. sources = [(''service_source'', JDict (evidence_of p c)), (''accuracy_source'', JDict (evidence_of q e))])"
proof -
  obtain sources where s: "check_deliverables ship_lib ship_fs ship_bridge ship_run (db ship_world) ship_facts (ship_gate ship_bridge) ship_statuses = Inr sources"
    "\<exists>p c q e. sources = [(''service_source'', JDict (evidence_of p c)), (''accuracy_source'', JDict (evidence_of q e))]"
    using ship_deliverables by blast
  have "list_all (\<lambda>(n, _). n \<in> set (map fst ship_facts)) fact_status"
    by (auto simp: ship_facts_def list_all_iff rev_image_eqI)
  moreover have "recheck_gate ship_lib ship_bridge ship_facts ship_evidence_snapshot ship_evidence_snapshot ship_world = (Inr (), ship_world)"
    using ship_delivery[of ship_bridge] ship_gate_fields[of ship_bridge]
    by (simp add: recheck_gate_def actbind_def actguard_def actreadR_def ship_roots ship_regression ship_accuracy_snapshot
      ship_evidence_snapshot_def[symmetric] require_def) (simp add: ship_evidence_snapshot_def)
  ultimately have "check_delivery ship_lib ship_bridge ship_facts (ship_gate ship_bridge) ship_world =
     (Inr (inventory_value ship_inventory ship_evidence_snapshot ship_evidence_snapshot sources), ship_world)"
    using s(1) ship_gate_fields[of ship_bridge]
    by (simp add: check_delivery_def actbind_def actguard_def actreadR_def actret_def ship_check_facts ship_statuses_simps ship_integration)
  with s(2) show ?thesis by blast
qed

lemma ship_inventory_finite:
  assumes "sources = [(''service_source'', JDict (evidence_of p c)), (''accuracy_source'', JDict (evidence_of q e))]"
  shows "\<not> has_nonfinite (inventory_value ship_inventory ship_evidence_snapshot ship_evidence_snapshot sources)"
proof -
  have s: "\<not> list_ex (\<lambda>(_, v). has_nonfinite v) ship_evidence_snapshot"
    by (simp add: ship_evidence_snapshot_def evidence_of_def)
  show ?thesis
    using assms ship_fact_files(2) s
    by (auto simp: inventory_value_def ship_inventory_def fact_entry_def fact_status_def evidence_of_def)
qed

end
