(* ===== verification/DeliveryReceipt.thy ===== *)
theory DeliveryReceipt
  imports DeliverySample
begin

text \<open>
  The end of \<open>finalize\<close> on the sample run: the receipt's attempt is allocated, the receipt written, its
  inventory registered and the transition recorded. Only paths below the new task directory are added to
  the table (\<open>grown\<close>).
\<close>

section \<open>Writing the receipt\<close>

definition N_task :: path where "N_task = [''d'', ''tasks'', ''model-adaptation-delivery'']"
definition N_dir :: path where "N_dir = N_task @ [''attempts'', ''000001'']"

lemma plain_append [simp]: "plain (f @ g) \<longleftrightarrow> plain f \<and> plain g"
  by (simp add: plain_def)

lemma set_node_new: "map_of f p = None \<Longrightarrow> set_node f p x = f @ [(p, x)]"
  unfolding set_node_def by (induction f) (auto split: if_splits)

lemma ship_fresh: "prefix N_task p \<Longrightarrow> map_of ship_fs p = None"
proof -
  have "list_all (\<lambda>(q, _). \<not> prefix N_task q) ship_fs" by code_simp
  then show "prefix N_task p \<Longrightarrow> map_of ship_fs p = None"
    by (auto simp: list_all_iff map_of_eq_None_iff)
qed

definition grown :: "fs \<Rightarrow> fs" where "grown g = ship_fs @ g"

definition all_new :: "fs \<Rightarrow> bool" where
  "all_new g \<longleftrightarrow> plain g \<and> list_all (\<lambda>(p, _). prefix N_task p) g"

lemma all_new_simps [simp]:
  "all_new []" "all_new (g @ [(p, x)]) \<longleftrightarrow> all_new g \<and> plain [(p, x)] \<and> prefix N_task p"
  by (auto simp: all_new_def plain_def)

lemma grown_node:
  assumes "all_new g"
  shows "node_at (grown g) p = (if prefix N_task p then map_of g p else node_at ship_fs p)"
proof -
  have "map_of g p = None" if "\<not> prefix N_task p"
    using assms that by (auto simp: all_new_def list_all_iff map_of_eq_None_iff)
  then show ?thesis
    using ship_fresh[of p] by (auto simp: node_at_def grown_def map_add_def N_task_def split: option.splits)
qed

lemma grown_link_free: "all_new g \<Longrightarrow> ''..'' \<notin> set p \<Longrightarrow> link_free (grown g) p"
  by (rule plain_link_free) (simp_all add: grown_def ship_plain all_new_def)

lemma grown_stat:
  assumes "all_new g" "''..'' \<notin> set p"
  shows "stat (grown g) p = (if prefix N_task p then map_of g p else node_at ship_fs p)"
    "lstat (grown g) p = (if prefix N_task p then map_of g p else node_at ship_fs p)"
    "\<not> is_symlink (grown g) p" "resolve (grown g) p = Inr p" "lpath (grown g) p = Some p"
  using grown_link_free[OF assms]
  by (simp_all add: stat_link_free grown_node[OF assms(1)] lstat_def lpath_link_free is_symlink_link_free resolve_link_free)

lemma grown_external:
  "all_new g \<Longrightarrow> ''..'' \<notin> set p \<Longrightarrow> prefix [''d''] p \<Longrightarrow> ensure_external_path ship_lib (grown g) p = Inr p"
  by (auto simp: ensure_external_path_def grown_stat ship_lib_def strictly_under_def strict_prefix_def prefix_def)

lemma grown_set:
  "all_new g \<Longrightarrow> prefix N_task p \<Longrightarrow> map_of g p = None \<Longrightarrow> set_node (grown g) p x = grown (g @ [(p, x)])"
  by (simp add: grown_def set_node_new ship_fresh map_add_def)

lemma grown_mkdir:
  assumes "all_new g" "''..'' \<notin> set p" "prefix N_task p" "map_of g p = None" "node_at (grown g) (butlast p) = Some Dir"
  shows "mkdir p (grown g) = Inr (grown (g @ [(p, Dir)]))"
proof -
  have "p \<noteq> []" using assms(3) by (auto simp: N_task_def)
  then show ?thesis
    using assms grown_stat[OF assms(1,2)] by (simp add: mkdir_def grown_node parent_is_dir_def grown_set)
qed

lemma grown_put:
  assumes "all_new g" "''..'' \<notin> set p" "prefix N_task p" "map_of g p = None" "node_at (grown g) (butlast p) = Some Dir"
  shows "put_file p c o' (grown g) = Inr (grown (g @ [(p, File c)]))"
proof -
  have "p \<noteq> []" using assms(3) by (auto simp: N_task_def)
  then show ?thesis
    using assms grown_stat[OF assms(1,2)] by (simp add: put_file_def grown_node parent_is_dir_def grown_set)
qed
lemma N_simps: "prefix N_task (N_task @ p)" "prefix N_task (N_dir @ p)" "prefix N_task N_dir"
  by (simp_all add: N_dir_def)

lemma ship_dir_nodes:
  "node_at ship_fs [''d''] = Some Dir" "node_at ship_fs [''d'', ''tasks''] = Some Dir"
  "node_at ship_fs [''d'', ''run.json''] = Some (File ''marker'')"
  by code_simp+

definition ship_paths_of_run :: run_paths where
  "ship_paths_of_run = \<lparr>rp_root = [''d''], rp_run = Some ''r''\<rparr>"

definition ship_new :: fs where
  "ship_new = [(N_task, Dir), (N_task @ [''attempts''], Dir), (N_dir, Dir), (N_dir @ [''input''], Dir),
     (N_dir @ [''scratch''], Dir), (N_dir @ [''output''], Dir), (N_dir @ [''logs''], Dir),
     (N_dir @ [''.attempt.json''], File ''doc'')]"

definition ship_delivery_attempt :: attempt where
  "ship_delivery_attempt = \<lparr>a_root = N_dir, a_run = ''r'', a_task = ''model-adaptation-delivery'', a_number = ''000001''\<rparr>"

lemma ship_names_ok: "safe_component ship_lib ''r'' = Inr ''r''"
  "safe_component ship_lib ''model-adaptation-delivery'' = Inr ''model-adaptation-delivery''"
  "pad6 1 = ''000001''"
  "json_loads ship_lib ''marker'' = Some (JDict [(''schema_version'', JInt 1), (''run_id'', JStr ''r'')])"
  "marker_run ship_lib (Some ''r'') ''marker'' = Inr ''r''"
  by code_simp+

lemma grown_Nil: "grown [] = ship_fs" by (simp add: grown_def)

lemma ship_initialized:
  "run_initialize ship_lib ship_paths_of_run ship_world = (Inr ''r'', ship_world)"
proof -
  have "mkdir_parents [''d''] ship_fs = Inr ship_fs"
    using ship_dir_nodes(1) by (simp add: mkdir_parents_def stat_link_free ship_link_free node_at_def[of _ "[]"])
  moreover have "ship_world\<lparr>files := ship_fs\<rparr> = ship_world" by (simp add: ship_world_def)
  ultimately show ?thesis
    using ship_dir_nodes
    by (simp add: run_initialize_def ship_paths_of_run_def actbind_def actreadR_def fsop_def actread_def actlift_def Let_def
      is_symlink_link_free ship_link_free path_exists_def stat_link_free ship_read ship_names_ok)
qed

lemma ship_made: "mkdir_parents (N_task @ [''attempts'']) ship_fs = Inr (grown (take 2 ship_new))"
proof -
  have p: "prefixes (N_task @ [''attempts'']) = [[], [''d''], [''d'', ''tasks''], N_task, N_task @ [''attempts'']]"
    by (simp add: N_task_def)
  have "mkdir N_task (grown []) = Inr (grown [(N_task, Dir)])"
    using grown_mkdir[of "[]" N_task] ship_dir_nodes by (simp add: grown_Nil) (simp add: N_task_def)
  moreover have "mkdir (N_task @ [''attempts'']) (grown [(N_task, Dir)]) = Inr (grown [(N_task, Dir), (N_task @ [''attempts''], Dir)])"
    using grown_mkdir[of "[(N_task, Dir)]" "N_task @ [''attempts'']"] all_new_simps(2)[of "[]" N_task Dir]
    by (simp add: grown_node plain_def) (simp add: N_task_def)
  moreover have "stat ship_fs [] = Some Dir" "stat ship_fs [''d''] = Some Dir" "stat ship_fs [''d'', ''tasks''] = Some Dir"
    "stat ship_fs N_task = None"
    using ship_dir_nodes ship_fresh[of N_task]
    by (simp_all add: stat_link_free ship_link_free node_at_def[of _ "[]"]) (simp_all add: node_at_def N_task_def stat_link_free ship_link_free)
  moreover have "stat (grown [(N_task, Dir)]) (N_task @ [''attempts'']) = None"
    using grown_stat(1)[of "[(N_task, Dir)]" "N_task @ [''attempts'']"] all_new_simps(2)[of "[]" N_task Dir]
    by (simp add: plain_def) (simp add: N_task_def)
  ultimately show ?thesis unfolding mkdir_parents_def p by (simp add: grown_Nil ship_new_def)
qed

lemma N_safe [simp]: "''..'' \<notin> set N_task" "''..'' \<notin> set N_dir" "prefix [''d''] N_task" "prefix [''d''] N_dir"
  "prefix [''d''] (N_task @ p)" "prefix [''d''] (N_dir @ p)" "N_dir \<noteq> []" "N_task \<noteq> []"
  by (simp_all add: N_task_def N_dir_def)

lemma ship_new_ok: "all_new (take n ship_new)"
proof -
  have "all_new ship_new" by (simp add: all_new_def plain_def ship_new_def N_simps)
  then show ?thesis by (auto simp: all_new_def plain_def list_all_iff dest: in_set_takeD)
qed

lemma N_parts: "N_task @ [''attempts''] \<noteq> N_task" "N_dir \<noteq> N_task" "N_dir \<noteq> N_task @ [''attempts'']"
  "N_dir @ p \<noteq> N_task" "N_dir @ p \<noteq> N_task @ [''attempts'']" "butlast N_dir = N_task @ [''attempts'']"
  by (auto simp: N_dir_def butlast_append)

lemma ship_make: "make_attempt_dirs ship_lib ship_delivery_attempt (ship_world\<lparr>files := grown (take 2 ship_new)\<rparr>) =
  (Inr (), ship_world\<lparr>files := grown ship_new\<rparr>)"
proof -
  note n = ship_new_ok[unfolded ship_new_def]
  note g = n[of 2, simplified] n[of 3, simplified] n[of 4, simplified] n[of 5, simplified] n[of 6, simplified] n[of 7, simplified]
  note s = grown_node[OF g(1)] grown_node[OF g(2)] grown_node[OF g(3)] grown_node[OF g(4)] grown_node[OF g(5)] grown_node[OF g(6)]
  have m: "mkdir (fst (ship_new ! i)) (grown (take i ship_new)) = Inr (grown (take (Suc i) ship_new))" if "i \<in> {2, 3, 4, 5, 6}" for i
    using that grown_mkdir[OF ship_new_ok[of i], of "fst (ship_new ! i)"] N_simps N_parts
    by (elim insertE emptyE; simp add: ship_new_def s)
  have "put_file (N_dir @ [''.attempt.json'']) ''doc'' True (grown (take 7 ship_new)) = Inr (grown ship_new)"
    using grown_put[OF ship_new_ok[of 7], of "N_dir @ [''.attempt.json'']"] N_simps N_parts
    by (simp add: ship_new_def s)
  with m[of 2] m[of 3] m[of 4] m[of 5] m[of 6] show ?thesis
    by (simp add: make_attempt_dirs_def actbind_def fsop_def ship_delivery_attempt_def a_input_def a_scratch_def a_output_def a_logs_def
      ship_new_def ship_lib_def)
qed

lemma N_parent: "[''d'', ''tasks'', ''model-adaptation-delivery'', ''attempts''] = N_task @ [''attempts'']"
  "butlast (N_task @ [''attempts'']) = N_task" "butlast N_task = [''d'', ''tasks'']" "N_task @ [''attempts'', ''000001''] = N_dir"
  by (simp_all add: N_task_def N_dir_def)

lemma ship_allocated:
  "allocate_attempt ship_lib ship_paths_of_run ''model-adaptation-delivery'' ship_world =
     (Inr ship_delivery_attempt, ship_world\<lparr>files := grown ship_new\<rparr>)"
proof -
  have g: "all_new (take 2 ship_new)" by (rule ship_new_ok)
  have "map_of (take 2 ship_new) (N_dir) = None" using N_parts by (simp add: ship_new_def)
  then have l: "lstat (grown (take 2 ship_new)) N_dir = None"
    using grown_stat(2)[OF g, of N_dir] N_simps by simp
  have "strictly_under (N_task @ [''attempts'']) [''d'']"
    by (simp add: strictly_under_def strict_prefix_def N_task_def)
  then show ?thesis
    using ship_initialized ship_made ship_make l ship_names_ok(3) N_parent(4)
    by (simp add: allocate_attempt_def actbind_def actlift_def actread_def actreadR_def actret_def fsop_def ship_names_ok Let_def
      N_parent is_symlink_link_free ship_link_free ship_delivery_attempt_def[symmetric] ship_paths_of_run_def)
qed

definition receipt_files :: fs where
  "receipt_files = ship_new @ [(N_dir @ [''output'', ''delivery_receipt.json''], File ''doc'')]"

lemma receipt_new: "all_new receipt_files" "all_new (receipt_files @ [(N_dir @ [''manifest.json''], File ''doc'')])" "all_new ship_new"
  using ship_new_ok[of "length ship_new"] by (simp_all add: all_new_def receipt_files_def plain_def N_simps)

lemma receipt_nodes:
  "map_of ship_new N_task = Some Dir" "map_of ship_new (N_task @ [''attempts'']) = Some Dir" "map_of ship_new N_dir = Some Dir" "map_of ship_new (N_dir @ [''output'']) = Some Dir"
  "map_of ship_new (N_dir @ [''output'', ''delivery_receipt.json'']) = None"
  "map_of receipt_files N_task = Some Dir" "map_of receipt_files (N_task @ [''attempts'']) = Some Dir" "map_of receipt_files N_dir = Some Dir"
  "map_of receipt_files (N_dir @ [''manifest.json'']) = None"
  by code_simp+

lemma N_prefixes:
  "prefixes N_dir = [[], [''d''], [''d'', ''tasks''], N_task, N_task @ [''attempts''], N_dir]"
  "prefixes (N_dir @ [x]) = [[], [''d''], [''d'', ''tasks''], N_task, N_task @ [''attempts''], N_dir, N_dir @ [x]]"
  by (simp_all add: N_task_def N_dir_def)

lemma grown_made:
  assumes "all_new g" "list_all (\<lambda>p. map_of g p = Some Dir) (filter (prefix N_task) (prefixes p))" "''..'' \<notin> set p"
    "list_all (\<lambda>p. prefix N_task p \<or> p \<in> {[], [''d''], [''d'', ''tasks'']}) (prefixes p)"
  shows "mkdir_parents p (grown g) = Inr (grown g)"
proof -
  have "stat (grown g) q = Some Dir" if "q \<in> set (prefixes p)" for q
  proof -
    have d: "''..'' \<notin> set q" using that assms(3) by (auto dest: set_mono_prefix)
    show ?thesis
      using assms(2,4) that grown_stat(1)[OF assms(1) d] ship_dir_nodes
      by (auto simp: list_all_iff node_at_def)
  qed
  moreover have "mkdirs ps (grown g) = Inr (grown g)" if "\<forall>q \<in> set ps. stat (grown g) q = Some Dir" for ps
    using that by (induction ps) auto
  ultimately show ?thesis by (simp add: mkdir_parents_def)
qed

lemma receipt_made:
  "mkdir_parents (N_dir @ [''output'']) (grown ship_new) = Inr (grown ship_new)"
  "mkdir_parents N_dir (grown receipt_files) = Inr (grown receipt_files)"
proof -
  have n: "\<not> prefix N_task []" "\<not> prefix N_task [''d'']" "\<not> prefix N_task [''d'', ''tasks'']"
    by (simp_all add: N_task_def)
  show "mkdir_parents (N_dir @ [''output'']) (grown ship_new) = Inr (grown ship_new)"
    by (rule grown_made[OF receipt_new(3)]) (use n receipt_nodes N_simps in \<open>simp_all add: N_prefixes\<close>)
  show "mkdir_parents N_dir (grown receipt_files) = Inr (grown receipt_files)"
    by (rule grown_made[OF receipt_new(1)]) (use n receipt_nodes N_simps in \<open>simp_all add: N_prefixes\<close>)
qed

lemma grown_store_path:
  assumes "all_new g" "path_parts s = [x]" "\<not> is_absolute s" "x \<noteq> ''..''" "''..'' \<notin> set dir" "prefix [''d''] dir"
  shows "store_path ship_lib (grown g) dir s = Inr (dir @ [x])"
  using assms grown_stat(3)[OF assms(1), of "dir @ [x]"] grown_external[OF assms(1), of "dir @ [x]"]
  by (auto simp: store_path_def strictly_under_def strict_prefix_def)

lemma receipt_written:
  assumes "\<not> has_nonfinite v"
  shows "store_write_json ship_lib (N_dir @ [''output'']) ''delivery_receipt.json'' v False (ship_world\<lparr>files := grown ship_new\<rparr>) =
    (Inr (N_dir @ [''output'', ''delivery_receipt.json'']), ship_world\<lparr>files := grown receipt_files\<rparr>)"
proof -
  have p: "path_parts ''delivery_receipt.json'' = [''delivery_receipt.json'']" "\<not> is_absolute ''delivery_receipt.json''"
    by code_simp+
  have "put_file (N_dir @ [''output'', ''delivery_receipt.json'']) ''doc'' False (grown ship_new) = Inr (grown receipt_files)"
    using grown_put[OF receipt_new(3), of "N_dir @ [''output'', ''delivery_receipt.json'']"] N_simps receipt_nodes
    by (simp add: receipt_files_def grown_node[OF receipt_new(3)] butlast_append)
  then show ?thesis
    using assms grown_store_path[OF receipt_new(3) p] receipt_made(1)
    by (simp add: store_write_json_def store_write_text_def json_file_text_def actbind_def actlift_def actreadR_def actret_def fsop_def
      butlast_append) (simp add: ship_lib_def)
qed

lemma children_grown:
  assumes "prefix N_task d"
  shows "children (grown g) d = children g d"
proof -
  have "filter (\<lambda>(p, _). p \<noteq> [] \<and> butlast p = d) ship_fs = []"
  proof (rule filter_False, safe)
    fix p x assume m: "(p, x) \<in> set ship_fs" "p \<noteq> []" "d = butlast p"
    then have "prefix N_task p" using assms prefixeq_butlast prefix_order.trans by blast
    from ship_fresh[OF this] m(1) show False by (auto simp: map_of_eq_None_iff rev_image_eqI)
  qed
  then show ?thesis by (simp add: children_def grown_def)
qed

lemma N_children:
  "children receipt_files N_dir = [''.attempt.json'', ''input'', ''logs'', ''output'', ''scratch'']"
  "children receipt_files (N_dir @ [''output'']) = [''delivery_receipt.json'']"
  "children receipt_files (N_dir @ [''input'']) = []" "children receipt_files (N_dir @ [''logs'']) = []"
  by code_simp+

definition in_receipt :: "path \<Rightarrow> node option" where
  "in_receipt p = map_of receipt_files (N_dir @ p)"

lemma receipt_at:
  "in_receipt [''.attempt.json''] = Some (File ''doc'')" "in_receipt [''input''] = Some Dir" "in_receipt [''logs''] = Some Dir"
  "in_receipt [''output''] = Some Dir" "in_receipt [''scratch''] = Some Dir"
  "in_receipt [''output'', ''delivery_receipt.json''] = Some (File ''doc'')"
  by code_simp+

lemma receipt_stat:
  assumes "''..'' \<notin> set p"
  shows "stat (grown receipt_files) (N_dir @ p) = in_receipt p" "\<not> is_symlink (grown receipt_files) (N_dir @ p)"
    "ensure_external_path ship_lib (grown receipt_files) (N_dir @ p) = Inr (N_dir @ p)"
  using assms grown_stat[OF receipt_new(1), of "N_dir @ p"] grown_external[OF receipt_new(1), of "N_dir @ p"] N_simps
  by (simp_all add: in_receipt_def)

lemma receipt_walk_lists:
  "walk_files (grown receipt_files) N_dir [] = [''.attempt.json'']"
  "walk_dirs (grown receipt_files) N_dir None [] = [''input'', ''logs'', ''output'', ''scratch'']"
  "walk_files (grown receipt_files) N_dir [''output''] = [''delivery_receipt.json'']"
  "walk_dirs (grown receipt_files) N_dir None [''output''] = []"
  "walk_files (grown receipt_files) N_dir [''input''] = []" "walk_dirs (grown receipt_files) N_dir None [''input''] = []"
  "walk_files (grown receipt_files) N_dir [''logs''] = []" "walk_dirs (grown receipt_files) N_dir None [''logs''] = []"
  using N_children receipt_at N_simps
  by (simp_all add: walk_files_def walk_dirs_def children_grown receipt_stat)

lemma receipt_registered_file:
  "register_file ship_lib (grown receipt_files) N_dir (N_dir @ [''manifest.json'']) None [''.attempt.json''] = Inr []"
  "\<exists>a. register_file ship_lib (grown receipt_files) N_dir (N_dir @ [''manifest.json'']) None
     [''output'', ''delivery_receipt.json''] = Inr [a] \<and> af_path a = [''output'', ''delivery_receipt.json'']"
  using receipt_at
  by (simp_all add: register_file_def receipt_stat is_file_def read_bytes_def strictly_under_def strict_prefix_def)

lemma receipt_walk:
  "\<exists>a. walk (Suc (length (grown receipt_files))) ship_lib (grown receipt_files) N_dir (N_dir @ [''manifest.json'']) None [] =
     Inr [a] \<and> af_path a = [''output'', ''delivery_receipt.json'']"
proof -
  obtain n where n: "length (grown receipt_files) = Suc n"
    by (cases "length (grown receipt_files)") (auto simp: receipt_files_def grown_def)
  show ?thesis
    using receipt_registered_file
    by (auto simp: n receipt_walk_lists receipt_stat)
qed

lemma receipt_paths:
  "store_path ship_lib (grown receipt_files) N_dir ''manifest.json'' = Inr (N_dir @ [''manifest.json''])"
  "store_path ship_lib (grown receipt_files) N_dir ''output/delivery_receipt.json'' = Inr (N_dir @ [''output'', ''delivery_receipt.json''])"
proof -
  have p: "path_parts ''manifest.json'' = [''manifest.json'']" "\<not> is_absolute ''manifest.json''"
    "path_parts ''output/delivery_receipt.json'' = [''output'', ''delivery_receipt.json'']" "\<not> is_absolute ''output/delivery_receipt.json''"
    "posix [''output'', ''delivery_receipt.json''] = ''output/delivery_receipt.json''"
    by code_simp+
  show "store_path ship_lib (grown receipt_files) N_dir ''manifest.json'' = Inr (N_dir @ [''manifest.json''])"
    by (rule grown_store_path[OF receipt_new(1) p(1,2)]) simp_all
  show "store_path ship_lib (grown receipt_files) N_dir ''output/delivery_receipt.json'' = Inr (N_dir @ [''output'', ''delivery_receipt.json''])"
    using p receipt_stat by (simp add: store_path_def strictly_under_def strict_prefix_def Let_def)
qed

definition receipt_world :: world where
  "receipt_world = ship_world\<lparr>files := grown (receipt_files @ [(N_dir @ [''manifest.json''], File ''doc'')])\<rparr>"

lemma receipt_registered:
  "register ship_lib N_dir (attempt_identity ship_delivery_attempt @ [(''evidence_mode'', JStr ''real'')]) outcome
     [''output/delivery_receipt.json''] None ''manifest.json'' (ship_world\<lparr>files := grown receipt_files\<rparr>) =
   (Inr (N_dir @ [''manifest.json'']), receipt_world)"
proof -
  obtain a where a: "walk (Suc (length (grown receipt_files))) ship_lib (grown receipt_files) N_dir (N_dir @ [''manifest.json'']) None [] = Inr [a]"
    "af_path a = [''output'', ''delivery_receipt.json'']"
    using receipt_walk by blast
  have "posix [''output'', ''delivery_receipt.json''] = ''output/delivery_receipt.json''" by code_simp
  then have m: "register_missing [''output/delivery_receipt.json''] None [a] = []"
    by (simp add: register_missing_def a(2))
  have p: "put_file (N_dir @ [''manifest.json'']) ''doc'' True (grown receipt_files) =
      Inr (grown (receipt_files @ [(N_dir @ [''manifest.json''], File ''doc'')]))"
    using grown_put[OF receipt_new(1), of "N_dir @ [''manifest.json'']"] N_simps receipt_nodes
    by (simp add: grown_node[OF receipt_new(1)])
  have "ensure_external_path ship_lib (grown receipt_files) N_dir = Inr N_dir"
    using receipt_stat(3)[of "[]"] by simp
  then show ?thesis
    using p
    by (simp add: register_def actbind_def actreadR_def actlift_def actguard_def actret_def fsop_def receipt_made receipt_paths
      a(1) m json_file_text_def attempt_identity_def artifact_dict_def receipt_world_def del: walk.simps)
      (simp add: ship_lib_def)
qed

lemma receipt_evidence:
  "\<exists>e. evidence_file ship_lib (files receipt_world) (N_dir @ [''output'', ''delivery_receipt.json'']) = Inr e"
  "\<exists>e. evidence_file ship_lib (files receipt_world) (N_dir @ [''manifest.json'']) = Inr e"
proof -
  have w: "files receipt_world = grown (receipt_files @ [(N_dir @ [''manifest.json''], File ''doc'')])"
    by (simp add: receipt_world_def)
  note g = grown_stat[OF receipt_new(2)]
  have "map_of receipt_files (N_dir @ [''output'', ''delivery_receipt.json'']) = Some (File ''doc'')"
    using receipt_at(6) by (simp add: in_receipt_def)
  then show "\<exists>e. evidence_file ship_lib (files receipt_world) (N_dir @ [''output'', ''delivery_receipt.json'']) = Inr e"
    using N_simps by (simp add: w evidence_file_def is_file_def read_bytes_def g map_add_def)
  show "\<exists>e. evidence_file ship_lib (files receipt_world) (N_dir @ [''manifest.json'']) = Inr e"
    using N_simps receipt_nodes by (simp add: w evidence_file_def is_file_def read_bytes_def g map_add_def)
qed

lemma receipt_recorded:
  "\<exists>r w. record_graph_transition ship_lib ''r'' ''graph_delivery'' p receipt_world = (Inr r, w)"
proof -
  have "run_of (db receipt_world) ''r'' = Some ship_run" "events (db receipt_world) = []"
    by (simp_all add: receipt_world_def) (simp add: ship_world_def)
  moreover have "dget (r_metadata ship_run) ''graph_delivery'' = JNone"
    by (simp add: ship_run_def)
  ultimately show ?thesis
    by (simp add: record_graph_transition_def actbind_def actguard_def graph_keys_def get_run_def Let_def actreadR_def actret_def
      update_run_def emit_def now_def dbwrite_def actwrite_def draw_uuid_def append_event_def actread_def)
qed

lemma ship_run_paths: "mk_run_paths ship_lib ship_fs [''d''] (Some ''r'') = Inr ship_paths_of_run"
  by (simp add: mk_run_paths_def ship_names_ok ship_paths_of_run_def)

lemma ship_gate_finite:
  "\<not> has_nonfinite (dget (ship_gate ship_bridge) ''task_ids'')" "\<not> has_nonfinite (dget (ship_gate ship_bridge) ''operator_keys'')"
  "\<not> has_nonfinite (dget (ship_gate ship_bridge) ''task_results'')" "\<not> has_nonfinite (dget (ship_gate ship_bridge) ''snapshot_token'')"
  by (simp_all add: ship_gate_def with_token_def gate_status_def operator_keys_def)

lemma ship_receipt:
  assumes "\<not> has_nonfinite inventory"
  shows "\<exists>result w. write_receipt ship_lib ship_bridge ship_run (ship_gate ship_bridge) inventory ship_world = (Inr result, w)"
proof -
  have f: "rbind (vindex (JDict (r_environment ship_run)) ''environment_proof'') (\<lambda>x. vindex x ''fingerprint'') = Inr (JStr ''fp'')"
    by (simp add: vindex_def ship_run_def)
  have n: "\<not> has_nonfinite (JDict (delivery_receipt ship_bridge ship_run (JStr ''fp'') (ship_gate ship_bridge) inventory))"
    using assms ship_gate_finite by (simp add: delivery_receipt_def)
  have e: "ensure_external_path ship_lib (grown ship_new) (N_dir @ [''output'']) = Inr (N_dir @ [''output''])"
    "ensure_external_path ship_lib (grown receipt_files) N_dir = Inr N_dir"
    using grown_external[OF receipt_new(3), of "N_dir @ [''output'']"] receipt_stat(3)[of "[]"] by simp_all
  have a: "a_root ship_delivery_attempt = N_dir" by (simp add: ship_delivery_attempt_def)
  obtain e1 e2 where ev: "evidence_file ship_lib (files receipt_world) (N_dir @ [''output'', ''delivery_receipt.json'']) = Inr e1"
    "evidence_file ship_lib (files receipt_world) (N_dir @ [''manifest.json'']) = Inr e2"
    using receipt_evidence by blast
  define result where "result = delivery_receipt ship_bridge ship_run (JStr ''fp'') (ship_gate ship_bridge) inventory @
    [(''receipt_path'', JStr (path_str (N_dir @ [''output'', ''delivery_receipt.json'']))),
     (''manifest_path'', JStr (path_str (N_dir @ [''manifest.json'']))),
     (''receipt_sha256'', dget e1 ''sha256''), (''manifest_sha256'', dget e2 ''sha256'')]"
  obtain r w where "record_graph_transition ship_lib ''r'' ''graph_delivery'' result receipt_world = (Inr r, w)"
    using receipt_recorded by blast
  then show ?thesis
    by (simp add: write_receipt_def actbind_def actreadR_def actlift_def actret_def ship_run_paths ship_allocated f
      a_output_def a e receipt_written[OF n] receipt_registered Let_def ev result_def)
qed

end
