(* ===== verification/Delivered.thy ===== *)
theory Delivered
  imports DeliveryReceipt
begin

text \<open>The theorem on the receipt, and the sample run as its witness.\<close>

definition receipt_for :: "database \<Rightarrow> string \<Rightarrow> pydict \<Rightarrow> bool" where
  "receipt_for d rid result \<longleftrightarrow> (case run_of d rid of None \<Rightarrow> False
     | Some r \<Rightarrow> dget result ''verdict'' = JStr (delivery_verdict r) \<and> dget result ''run_id'' = JStr rid)"




lemma receipt_fields:
  assumes "write_receipt L b r gate inventory w = (Inr result, w')"
  shows "dget result ''verdict'' = JStr (delivery_verdict r) \<and> dget result ''run_id'' = JStr (br_run b)"
  using assms
  by (auto simp: write_receipt_def actbind_returns actret_returns Let_def split: prod.splits) (simp_all add: delivery_receipt_def)

lemma tried_returns:
  "(case x of Inl e \<Rightarrow> f e | Inr y \<Rightarrow> k y) w = z \<longleftrightarrow> (\<exists>e. x = Inl e \<and> f e w = z) \<or> (\<exists>y. x = Inr y \<and> k y w = z)"
  by (cases x) auto

text \<open>A receipt was written after the checks of this very state.\<close>

lemma finalize_checked:
  assumes "finalize L b facts w = (Inr result, w')"
  shows "\<exists>gate inventory w2 r. check_delivery L b facts gate w = (Inr inventory, w2) \<and>
    run_of (db w2) (br_run b) = Some r \<and> write_receipt L b r gate inventory w2 = (Inr result, w')"
proof -
  have "finalize_body L b facts w = (Inr result, w')"
    using assms
    by (auto simp: finalize_def require_execute_def actbind_returns actguard_returns actret_returns actraise_returns
      attempt_of_returns atomic_returns tried_returns)
  then obtain gate w1 inventory w2 r where s: "delivery_status L b w = (Inr gate, w1)"
    and c: "check_delivery L b facts gate w1 = (Inr inventory, w2)"
    and r: "run_of (db w2) (br_run b) = Some r" "write_receipt L b r gate inventory w2 = (Inr result, w')"
    by (auto simp: finalize_body_def actbind_returns actraise_returns attempt_of_returns bridge_run_def actreadR_returns
      tried_returns split: option.splits)
  have "dget gate ''state'' = JStr ''OPERATORS_READY''"
    using c by (auto simp: check_delivery_def actbind_returns actguard_returns)
  with delivery_ready[OF s] have "w1 = w" by simp
  with c r show ?thesis by blast
qed

text \<open>C5: A receipt of \<open>finalize\<close> exists only for a delivered model: when the call returns, every operator
  of the run has succeeded in all its stages with evidence that still validates, no diagnosis blocks, the
  environment and the discoveries still hold; all fifteen facts of the graph are there, each in its
  required state, the service validates, the accuracy pass is earned case by case and every torch shim is
  waived or integrated by an operator of this run; and the receipt names this run with the verdict of its
  evidence mode.\<close>

theorem delivery_sound:
  assumes "finalize L b facts w = (Inr result, w')"
  shows "operators_delivered L b w \<and> facts_delivered L w b facts \<and> receipt_for (db w) (br_run b) result"
proof -
  obtain gate inventory w2 r where c: "check_delivery L b facts gate w = (Inr inventory, w2)"
    and r: "run_of (db w2) (br_run b) = Some r" "write_receipt L b r gate inventory w2 = (Inr result, w')"
    using finalize_checked[OF assms] by blast
  from check_delivery_sound[OF c] receipt_fields[OF r(2)] r(1) show ?thesis by (simp add: receipt_for_def)
qed

lemma ship_finalized: "returned (\<lambda>_. True) (finalize ship_lib ship_bridge ship_facts ship_world)"
proof -
  obtain sources where c: "check_delivery ship_lib ship_bridge ship_facts (ship_gate ship_bridge) ship_world =
     (Inr (inventory_value ship_inventory ship_evidence_snapshot ship_evidence_snapshot sources), ship_world)"
    and "\<exists>p c q e. sources = [(''service_source'', JDict (evidence_of p c)), (''accuracy_source'', JDict (evidence_of q e))]"
    using ship_checked by blast
  then have "\<not> has_nonfinite (inventory_value ship_inventory ship_evidence_snapshot ship_evidence_snapshot sources)"
    using ship_inventory_finite by blast
  then obtain result w where "write_receipt ship_lib ship_bridge ship_run (ship_gate ship_bridge)
      (inventory_value ship_inventory ship_evidence_snapshot ship_evidence_snapshot sources) ship_world = (Inr result, w)"
    using ship_receipt by blast
  then have "finalize_body ship_lib ship_bridge ship_facts ship_world = (Inr result, w)"
    using c ship_delivery[of ship_bridge]
    by (simp add: finalize_body_def actbind_def attempt_of_def actcatch_def actret_def)
  then show ?thesis
    by (simp add: returned_def finalize_def require_execute_def actbind_def actguard_def attempt_of_def actcatch_def actret_def atomic_def)
qed

theorem delivery_sound_witness:
  "\<exists>result. operators_delivered ship_lib ship_bridge ship_world \<and>
     facts_delivered ship_lib ship_world ship_bridge ship_facts \<and> receipt_for (db ship_world) ''r'' result"
proof -
  obtain result w where "finalize ship_lib ship_bridge ship_facts ship_world = (Inr result, w)"
    using ship_finalized by (rule returnedE)
  from delivery_sound[OF this] show ?thesis by auto
qed

end
