(* ===== verification/FactDelivery.thy ===== *)
theory FactDelivery
  imports GraphRun Delivered TaskMemory
begin

text \<open>
  The end of a scheduled graph (\<open>finish_scheduled_graph\<close> of \<open>runners/graph_runner.py\<close>): the current fact of
  every node is handed to the delivery gate of the bridge, and a delivery is written into the task memory.
  \<open>patched_run_undelivered\<close>: a run that holds a valid placed patch is never delivered, because the plan and
  the patch are inputs of each other and \<open>reusable_inputs_current\<close> refuses a fact on a cycle.
\<close>

section \<open>The facts of a run\<close>

definition current_fact ::
  "lib \<Rightarrow> fs \<Rightarrow> path \<Rightarrow> string \<Rightarrow> pydict \<Rightarrow> pydict \<Rightarrow> string \<times> node_spec \<Rightarrow> exc + (string \<times> path) list" where
  "current_fact L f journal subject environment context ns =
     (let s = snd ns in
      rbind (input_fact L f journal (ns_produces s) subject environment context True) (\<lambda>found. case found of
          None \<Rightarrow> Inr []
        | Some v \<Rightarrow>
            rbind (reusable_inputs_current L f journal subject environment context False s v []) (\<lambda>current.
            if \<not> current then Inr []
            else rbind (rbind (vindex v ''artifacts'') (value_path L)) (\<lambda>p. Inr [(ns_produces s, p)]))))"

definition current_facts :: "lib \<Rightarrow> fs \<Rightarrow> path \<Rightarrow> string \<Rightarrow> pydict \<Rightarrow> pydict \<Rightarrow> exc + facts" where
  "current_facts L f journal subject environment context =
     rbind (rmapM (current_fact L f journal subject environment context) NODES) (\<lambda>xs. Inr (concat xs))"

definition deliver_facts ::
  "lib \<Rightarrow> bridge \<Rightarrow> path \<Rightarrow> string \<Rightarrow> pydict \<Rightarrow> pydict \<Rightarrow> (exc + pydict) exec" where
  "deliver_facts L b journal subject environment context =
     actbind (actreadR (\<lambda>w. current_facts L (files w) journal subject environment context)) (\<lambda>facts.
     attempt_of (\<lambda>e. is_ValueError e \<or> is_OSError e) (finalize L b facts))"

definition record_delivery :: "lib \<Rightarrow> path \<Rightarrow> string \<Rightarrow> pydict \<Rightarrow> unit memexec" where
  "record_delivery L p evidence_mode result =
     actbind (actreadR (\<lambda>w. rbind (vindex (JDict (mem w)) ''completed_loop_blocks'') viter)) (\<lambda>blocks.
     actbind (actlift (vindex (JDict result) ''state'')) (\<lambda>state.
     actbind (start_block L (''delivery:'' @ dec_int (int (length blocks) + 1)) ''model-adaptation-delivery''
       [(''delivery_state'', state)] (Some [(''mode'', JStr ''scheduler_delivery''), (''evidence_mode'', JStr evidence_mode)])) (\<lambda>_.
     actbind (actlift (rbind (vindex (JDict result) ''receipt_path'') text_path)) (\<lambda>receipt.
     actbind (actlift (rbind (vindex (JDict result) ''manifest_path'') text_path)) (\<lambda>manifest.
     actbind (finish_block L ''DELIVERED'' (Some [receipt, manifest]) None) (\<lambda>_.
     save_memory L p))))))"

section \<open>A placed patch\<close>

lemma rmapM_source: "rmapM g xs = Inr ys \<Longrightarrow> y \<in> set ys \<Longrightarrow> \<exists>x \<in> set xs. g x = Inr y"
  by (induction xs arbitrary: ys) (auto simp: rbind_eq_Inr)

lemma current_facts_members:
  assumes "current_facts L f journal subject environment context = Inr facts" "(kind, p) \<in> set facts"
  shows "\<exists>name s v. (name, s) \<in> set NODES \<and> ns_produces s = kind \<and>
    reusable_inputs_current L f journal subject environment context False s v [] = Inr True"
proof -
  obtain xs where xs: "rmapM (current_fact L f journal subject environment context) NODES = Inr xs" "facts = concat xs"
    using assms(1) by (auto simp: current_facts_def rbind_eq_Inr)
  then obtain x where x: "x \<in> set xs" "(kind, p) \<in> set x" using assms(2) by auto
  then obtain ns where "ns \<in> set NODES" "current_fact L f journal subject environment context ns = Inr x"
    using rmapM_source[OF xs(1)] by blast
  moreover from this have "ns_produces (snd ns) = kind \<and>
      (\<exists>v. facts_current L f journal subject environment context False (snd ns) v [])"
    using x(2) by (auto simp: current_fact_def Let_def rbind_eq_Inr split: option.splits if_splits)
  ultimately show ?thesis by (metis prod.collapse)
qed

text \<open>C9: A run with a valid placed patch cannot be delivered. The deployment plan takes the placed patch as
  an optional input and the patch was placed for a plan, so \<open>reusable_inputs_current\<close> comes back to the
  plan while it checks the plan, and answers no, with or without the order of the journal. The plan is then
  missing from the facts that \<open>finish_scheduled_graph\<close> collects, and \<open>finalize\<close> never returns a
  receipt. The workflow itself leads there: a failed node is triaged and patched before it runs again.\<close>

theorem patched_run_undelivered:
  assumes patch: "input_fact L f journal ''PlacedPatch'' subject environment context True = Inr (Some v)"
    and facts: "current_facts L f journal subject environment context = Inr facts"
  shows "map_of facts ''DeploymentPlan'' = None \<and> finalize L b facts w \<noteq> (Inr result, w')"
proof -
  have n: "(''DeploymentPlan'', p) \<notin> set facts" for p
  proof
    assume "(''DeploymentPlan'', p) \<in> set facts"
    then obtain name s e where "(name, s) \<in> set NODES" "ns_produces s = ''DeploymentPlan''"
      "facts_current L f journal subject environment context False s e []"
      using current_facts_members[OF facts] by blast
    then show False using patched_plan_not_current patch by blast
  qed
  then have m: "map_of facts ''DeploymentPlan'' = None" by (metis map_of_SomeD not_None_eq)
  have False if done1: "finalize L b facts w = (Inr result, w')"
  proof -
    obtain gate inventory w2 where "check_delivery L b facts gate w = (Inr inventory, w2)"
      using finalize_checked[OF done1] by blast
    then have "list_all (fact_in_state L (files w) facts) fact_status"
      using check_delivery_sound by (auto simp: facts_delivered_def)
    then show False using m
      by (auto simp: fact_status_def fact_in_state_def document_says_def fact_document_def fact_root_def split: sum.splits)
  qed
  with m show ?thesis by blast
qed

definition patch_entry :: pydict where
  "patch_entry = [(''kind'', JStr ''PlacedPatch''), (''subject'', JStr ''m''), (''state'', JStr ''PATCH_PLACED''),
     (''artifacts'', JStr ''/data''), (''environment'', JDict journal_env),
     (''fingerprint'', JStr (fingerprint (sample_lib []) journal_env)),
     (''detail'', JDict [(''status_sha256'', JStr (sample_hash ''placed'')), (''returncode'', JInt 0),
        (''skill'', JDict [(''id'', JStr ''k''), (''method_sha256'', JNone)])])]"

definition patch_lib :: lib where
  "patch_lib = (sample_lib [(''entry'', JDict patch_entry), (''placed'', JDict [(''state'', JStr ''PATCH_PLACED'')])])
     \<lparr>yaml_loads := (\<lambda>_. Inr (JDict [(''kind'', JStr ''SkillCatalog''), (''entries'', JList [JDict
        [(''id'', JStr ''k''), (''task_types'', JList [JStr ''patch_placement''])]])]))\<rparr>"

definition patch_fs :: fs where
  "patch_fs = [([''data''], Dir), ([''data'', ''journal''], File (''entry'' @ [newline])),
     ([''data'', ''status.json''], File ''placed''), ([''repo''], Dir), ([''repo'', ''catalog''], Dir),
     ([''repo'', ''catalog'', ''skill_catalog.yaml''], File ''catalog'')]"

lemma patch_conditions:
  "input_fact patch_lib patch_fs [''data'', ''journal''] ''PlacedPatch'' ''m'' journal_env [] True = Inr (Some (JDict patch_entry))"
  "current_facts patch_lib patch_fs [''data'', ''journal''] ''m'' journal_env [] = Inr []"
  by code_simp+

theorem patched_run_undelivered_witness:
  "\<forall>result w'. finalize patch_lib ship_bridge [] ship_world \<noteq> (Inr result, w')"
  using patched_run_undelivered[OF patch_conditions] by blast

end
