(* ===== verification/NodeCommands.thy ===== *)
theory NodeCommands
  imports GraphRun TaskMemory
begin

text \<open>
  From a node of the graph to the commands that are started (\<open>runners/graph_runner.py\<close>): the children of a
  node that fans out (\<open>fan_out_items\<close>, \<open>fan_out_plan\<close>), the binding of a plan to the workspace of an attempt
  (\<open>allocate_commands\<close>) and the Skill that each command is given.

  The processes are parameters: \<open>ps_list\<close> is \<open>subprocess.run\<close> of a list command (its words, \<open>USER_ID\<close>
  and Skill contract of its environment; exit code, output, errors), \<open>ps_run\<close> is
  \<open>evidence.run_logged\<close> of a node command (its words, the directory of its log, \<open>USER_ID\<close>, the Skill
  contract; exit code and crash log). Both may change files, read the clock and raise.
\<close>

record processes =
  ps_list :: "string list \<Rightarrow> string option \<Rightarrow> path option \<Rightarrow> (int \<times> string \<times> string) memexec"
  ps_run :: "string list \<Rightarrow> path \<Rightarrow> string option \<Rightarrow> path \<Rightarrow> (int \<times> string option) memexec"

section \<open>Fan-out\<close>

text \<open>\<open>re.fullmatch(r"[A-Za-z0-9][A-Za-z0-9_.-]*", item)\<close>\<close>

definition item_name :: "string \<Rightarrow> bool" where
  "item_name s \<longleftrightarrow> (case s of [] \<Rightarrow> False
     | c # cs \<Rightarrow> is_alnum c \<and> list_all (\<lambda>d. is_alnum d \<or> d \<in> set ''_.-'') cs)"

definition item_names :: "pyval \<Rightarrow> string list option" where
  "item_names v = (case v of
      JList xs \<Rightarrow>
        (let ss = map (\<lambda>x. str_or x []) xs in
         if list_all (\<lambda>x. is_str x \<and> item_name (str_or x [])) xs \<and> distinct ss then Some ss else None)
    | _ \<Rightarrow> None)"

definition parse_items :: "lib \<Rightarrow> string \<Rightarrow> exc + string list" where
  "parse_items L out =
     (case find (\<lambda>l. starts_with l ''['') (rev (splitlines (strip out))) of
        None \<Rightarrow> Inl (unresolved ''the fan-out list command printed no JSON array'' [])
      | Some line \<Rightarrow> (case json_loads L line of
          None \<Rightarrow> Inl (ValueError (Msg ''Expecting value'' []))
        | Some v \<Rightarrow> (case item_names v of
            None \<Rightarrow> Inl (WritePolicyError (Msg ''fan-out items must be unique safe directory names'' []))
          | Some items \<Rightarrow> Inr items)))"

definition child_user :: "lib \<Rightarrow> pydict \<Rightarrow> exc + string option" where
  "child_user L context =
     (if dhas context ''user_id''
      then rbind (resolve_user_id L (dget context ''user_id'') JNone) (\<lambda>u. Inr (Some u)) else Inr None)"

definition fan_out_items ::
  "lib \<Rightarrow> processes \<Rightarrow> node_spec \<Rightarrow> fan_out_spec \<Rightarrow> pydict \<Rightarrow> path \<Rightarrow> pydict \<Rightarrow> bool \<Rightarrow> path option \<Rightarrow> string list memexec" where
  "fan_out_items L P s fo context journal environment verify contract =
     actbind (actreadR (\<lambda>w. resolve_command L (files w) s context journal environment (Some (fo_list fo)) False verify)) (\<lambda>command.
     actbind (actlift (child_user L context)) (\<lambda>user.
     actbind (ps_list P command user contract) (\<lambda>(code, out, err).
     actbind (actguard (code = 0) (unresolved ''the fan-out list command failed'' [JStr err])) (\<lambda>_.
     actlift (parse_items L out)))))"

definition child_context :: "pydict \<Rightarrow> string \<Rightarrow> path \<Rightarrow> string \<Rightarrow> pydict" where
  "child_context context var artifacts item =
     dset (dset context var (JStr item)) ''artifacts'' (JStr (path_str (artifacts @ [item])))"

definition child_words :: "path \<Rightarrow> string \<Rightarrow> string list" where
  "child_words artifacts item = [''--child'', path_str (artifacts @ [item])]"

definition plan_children ::
  "lib \<Rightarrow> fs \<Rightarrow> node_spec \<Rightarrow> fan_out_spec \<Rightarrow> pydict \<Rightarrow> path \<Rightarrow> pydict \<Rightarrow> path \<Rightarrow> bool \<Rightarrow> string list \<Rightarrow>
     exc + (path \<times> string list) list" where
  "plan_children L f s fo context journal environment artifacts verify items =
     rbind (rmapM (\<lambda>item. rbind (resolve_command L f s (child_context context (fo_var fo) artifacts item) journal environment
         None True verify) (\<lambda>c. Inr (artifacts @ [item], c))) items) (\<lambda>children.
     rbind (rmapM (format_part L (dset context ''artifacts'' (JStr (path_str artifacts)))) (fo_aggregate fo)) (\<lambda>aggregate.
     Inr (children @ [(artifacts, aggregate @ concat (map (child_words artifacts) items))])))"

definition fan_out_plan ::
  "lib \<Rightarrow> processes \<Rightarrow> node_spec \<Rightarrow> fan_out_spec \<Rightarrow> pydict \<Rightarrow> path \<Rightarrow> pydict \<Rightarrow> path \<Rightarrow> bool \<Rightarrow> path option \<Rightarrow>
     (path \<times> string list) list memexec" where
  "fan_out_plan L P s fo context journal environment artifacts verify contract =
     actbind (fan_out_items L P s fo context journal environment verify contract) (\<lambda>items.
     actbind (actguard (items \<noteq> []) (unresolved ''the fan-out list is empty'' [])) (\<lambda>_.
     actreadR (\<lambda>w. plan_children L (files w) s fo context journal environment artifacts verify items)))"

section \<open>The workspace of an attempt\<close>

text \<open>\<open>p.relative_to(base)\<close>; \<open>s.replace(old, new)\<close>.\<close>

definition relative_to :: "path \<Rightarrow> path \<Rightarrow> exc + path" where
  "relative_to p base = (if prefix base p then Inr (drop (length base) p)
     else Inl (ValueError (Msg ''is not in the subpath of'' [])))"

fun replace_all :: "string \<Rightarrow> string \<Rightarrow> string \<Rightarrow> string" where
  "replace_all [] new s = s"
| "replace_all (c # cs) new [] = []"
| "replace_all (c # cs) new (d # s) =
     (if starts_with (d # s) (c # cs) then new @ replace_all (c # cs) new (drop (length cs) s)
      else d # replace_all (c # cs) new s)"

definition bind_word :: "path \<Rightarrow> attempt \<Rightarrow> string \<Rightarrow> string" where
  "bind_word artifacts a part =
     replace_all ''{attempt-id}'' (a_number a) (replace_all (path_str artifacts) (path_str (a_output a)) part)"

definition bind_target :: "path \<Rightarrow> attempt \<Rightarrow> path \<times> string list \<Rightarrow> exc + path \<times> string list" where
  "bind_target artifacts a tc = rbind (relative_to (fst tc) artifacts) (\<lambda>r.
     Inr (a_output a @ r, map (bind_word artifacts a) (snd tc)))"

definition json_packet :: "lib \<Rightarrow> pydict \<Rightarrow> string" where
  "json_packet L d = json_as L JsonIndented (JDict d) @ [CHR 0x0A]"

definition write_skill_contract :: "lib \<Rightarrow> attempt \<Rightarrow> pydict \<Rightarrow> path memexec" where
  "write_skill_contract L a skill =
     (let packet = a_input a @ [''skill.json''] in
      actbind (fsop (put_file packet (json_packet L skill) True)) (\<lambda>_. actret packet))"

definition words_value :: "string list \<Rightarrow> pyval" where
  "words_value command = JList (map JStr command)"

definition allocate_commands ::
  "lib \<Rightarrow> run_paths \<Rightarrow> string \<Rightarrow> path \<Rightarrow> (path \<times> string list) list \<Rightarrow> pydict \<Rightarrow> attempt option \<Rightarrow>
     (attempt \<times> (path \<times> string list) list) memexec" where
  "allocate_commands L rp node artifacts commands skill existing =
     actbind (case existing of Some a \<Rightarrow> actret a | None \<Rightarrow> allocate_attempt L rp node) (\<lambda>a.
     actbind (actlift (rmapM (bind_target artifacts a) commands)) (\<lambda>resolved.
     actbind (fsop (put_file (a_input a @ [''commands.json''])
       (json_as L JsonPlain (JList (map (words_value \<circ> snd) resolved))) True)) (\<lambda>_.
     actbind (write_skill_contract L a skill) (\<lambda>_.
     actret (a, resolved)))))"

section \<open>The Skill of a command\<close>

definition node_skill :: "lib \<Rightarrow> fs \<Rightarrow> pyval \<Rightarrow> pydict \<Rightarrow> exc + pydict" where
  "node_skill L f t context =
     rbind (resolve_for_context L f (default_catalog L) t context) (\<lambda>s.
     execution_contract L f (default_skills L) (default_catalog L) s t)"

type_synonym skill_cache = "(string \<times> path) list"

text \<open>The first component under the output directory of a child, where the node fans out by a variable.\<close>

definition fan_out_var :: "node_spec \<Rightarrow> string option" where
  "fan_out_var s = (case ns_fan_out s of None \<Rightarrow> None | Some fo \<Rightarrow> if fo_var fo = [] then None else Some (fo_var fo))"

definition child_dimension :: "node_spec \<Rightarrow> path \<Rightarrow> path \<Rightarrow> (string \<times> string) option" where
  "child_dimension s output_root target =
     (case (fan_out_var s, relative_to target output_root) of
        (Some var, Inr (dimension # _)) \<Rightarrow> Some (var, dimension)
      | _ \<Rightarrow> None)"

definition child_skill_contract ::
  "lib \<Rightarrow> attempt \<Rightarrow> pyval \<Rightarrow> pydict \<Rightarrow> string \<Rightarrow> string \<Rightarrow> path memexec" where
  "child_skill_contract L a t context var dimension =
     actbind (actreadR (\<lambda>w. node_skill L (files w) t (dset context var (JStr dimension)))) (\<lambda>contract.
     actbind (actlift (safe_component L dimension)) (\<lambda>c.
     let folder = a_input a @ [''skill-contracts'']; packet = folder @ [c @ ''.json''] in
     actbind (fsop (mkdir_parents folder)) (\<lambda>_.
     actbind (fsop (put_file packet (json_packet L contract) True)) (\<lambda>_. actret packet))))"

definition command_skill_contract_path ::
  "lib \<Rightarrow> attempt \<Rightarrow> path \<Rightarrow> path \<Rightarrow> node_spec \<Rightarrow> pyval \<Rightarrow> pydict \<Rightarrow> skill_cache \<Rightarrow> (path \<times> skill_cache) memexec" where
  "command_skill_contract_path L a target output_root s t context cache =
     (case child_dimension s output_root target of
        None \<Rightarrow> actret (a_input a @ [''skill.json''], cache)
      | Some (var, dimension) \<Rightarrow>
          (case map_of cache dimension of
             Some p \<Rightarrow> actret (p, cache)
           | None \<Rightarrow> actbind (child_skill_contract L a t context var dimension) (\<lambda>p.
               actret (p, cache @ [(dimension, p)]))))"

definition skill_binding :: "lib \<Rightarrow> fs \<Rightarrow> string \<Rightarrow> string \<times> path \<Rightarrow> exc + pydict" where
  "skill_binding L f var vp =
     rbind (rbind (read_bytes f (snd vp)) (parse_json L)) (\<lambda>contract.
     rbind (vget contract ''method'') (\<lambda>m.
     rbind (vindex contract ''id'') (\<lambda>i.
     rbind (if truthy m then vindex m ''sha256'' else Inr JNone) (\<lambda>h.
     Inr [(''context'', JDict [(var, JStr (fst vp))]), (''id'', i), (''method_sha256'', h)]))))"

definition fan_out_skill_bindings :: "lib \<Rightarrow> fs \<Rightarrow> node_spec \<Rightarrow> skill_cache \<Rightarrow> exc + pydict list" where
  "fan_out_skill_bindings L f s cache =
     (case fan_out_var s of None \<Rightarrow> Inr []
      | Some var \<Rightarrow> rmapM (skill_binding L f var) (sort_key fst cache))"

definition command_logs :: "attempt \<Rightarrow> path \<Rightarrow> exc + path" where
  "command_logs a target = rbind (relative_to target (a_output a)) (\<lambda>r.
     Inr (a_logs a @ [if r = [] then ''aggregate'' else ''children''] @ r))"

section \<open>What a plan looks like\<close>

text \<open>A fan-out runs one command for each item, in its own directory directly below the output, and
  then the aggregate, which is handed every child.\<close>

lemma item_names_safe:
  assumes "item_names v = Some items" "x \<in> set items"
  shows "item_name x"
  using assms
  by (auto simp: item_names_def Let_def list_all_iff split: pyval.splits if_splits)

lemma item_names_distinct: "item_names v = Some items \<Longrightarrow> distinct items"
  by (auto simp: item_names_def Let_def split: pyval.splits if_splits)

lemma children_directories:
  assumes "plan_children L f s fo context journal environment artifacts verify items = Inr plan"
  shows "map fst plan = map (\<lambda>i. artifacts @ [i]) items @ [artifacts] \<and>
    set (concat (map (child_words artifacts) items)) \<subseteq> set (snd (last plan))"
proof -
  obtain children aggregate where c: "rmapM (\<lambda>item. rbind (resolve_command L f s (child_context context (fo_var fo) artifacts item)
        journal environment None True verify) (\<lambda>c. Inr (artifacts @ [item], c))) items = Inr children"
    and p: "plan = children @ [(artifacts, aggregate @ concat (map (child_words artifacts) items))]"
    using assms by (auto simp: plan_children_def rbind_eq_Inr)
  have "map fst children = map (\<lambda>i. artifacts @ [i]) items"
    using c unfolding rmapM_Inr_iff by (induction rule: list_all2_induct) (auto simp: rbind_eq_Inr)
  with p show ?thesis by auto
qed

text \<open>Two children of a plan have different directories, so that no child writes into the evidence of
  another, nor into that of the aggregate.\<close>

lemma fan_out_directories_distinct:
  assumes "parse_items L out = Inr items"
    and "plan_children L f s fo context journal environment artifacts verify items = Inr plan"
  shows "distinct (map fst plan)"
proof -
  have "distinct items"
    using assms(1) item_names_distinct by (auto simp: parse_items_def split: option.splits)
  then show ?thesis
    using children_directories[OF assms(2)] by (auto simp: distinct_map inj_on_def)
qed

text \<open>The bound commands write under the output of the attempt.\<close>

lemma bound_targets:
  assumes "rmapM (bind_target artifacts a) commands = Inr resolved" "(target, command) \<in> set resolved"
  shows "prefix (a_output a) target"
  using rmapM_elem[OF assms] by (auto simp: bind_target_def rbind_eq_Inr)

end
