(* ===== verification/GraphWalk.thy ===== *)
theory GraphWalk
  imports NodeCommands
begin

text \<open>
  The walk over a workflow (\<open>_run\<close> of \<open>runners/graph_runner.py\<close>) for a run without a scheduler and
  without \<open>--auto-recover\<close>, planned or executed: the reuse of recorded facts, the commands of a node, what is
  recorded of them, the choice of the next node, and the bound on the cycles that the failure edges form.

  The world holds the memory and the files, the dictionaries \<open>context\<close> and \<open>environment\<close>, and the summaries
  that \<open>emit_summary\<close> was given; what \<open>emit_summary\<close> adds to a summary and prints is not represented.
\<close>

record graph_world =
  gw_mem :: mem_world
  gw_context :: pydict
  gw_environment :: pydict
  gw_emitted :: "pydict list"

type_synonym 'a walk = "(graph_world, exc, 'a) act"

record walk_args =
  wa_subject :: string
  wa_journal :: path
  wa_paths :: run_paths
  wa_loop_state :: path
  wa_workflow :: path
  wa_execute :: bool
  wa_resume :: bool
  wa_from :: "string option"
  wa_until :: "string option"

definition in_memory :: "'a memexec \<Rightarrow> 'a walk" where
  "in_memory m = (\<lambda>w. case m (gw_mem w) of (r, u) \<Rightarrow> (r, w\<lparr>gw_mem := u\<rparr>))"

definition the_files :: "graph_world \<Rightarrow> fs" where
  "the_files w = files (gw_mem w)"

definition emit_summary :: "pydict \<Rightarrow> unit walk" where
  "emit_summary s = actwrite (\<lambda>w. w\<lparr>gw_emitted := gw_emitted w @ [s]\<rparr>)"

definition set_context :: "string \<Rightarrow> pyval \<Rightarrow> unit walk" where
  "set_context k v = actwrite (\<lambda>w. w\<lparr>gw_context := dset (gw_context w) k v\<rparr>)"

definition stop_summary :: "string \<Rightarrow> string \<Rightarrow> string \<Rightarrow> pydict \<Rightarrow> pydict" where
  "stop_summary status node reason details =
     [(''status'', JStr status), (''node'', JStr node), (''reason_code'', JStr reason)] @ details"

text \<open>What a visit decides: the next node, the end of the walk (\<open>break\<close>, or no next node), or an exit code.\<close>

datatype edge = Goto string | Leave | Exit int

section \<open>The workflow\<close>

definition workflow_nodes :: "pyval \<Rightarrow> exc + pyval" where
  "workflow_nodes workflow = rbind (vindex workflow ''spec'') (\<lambda>s. vindex s ''nodes'')"

definition node_id :: "pyval \<Rightarrow> string" where
  "node_id v = (case v of JDict d \<Rightarrow> str_or (dget d ''id'') [] | _ \<Rightarrow> [])"

definition workflow_ok :: "pyval list \<Rightarrow> bool" where
  "workflow_ok nodes \<longleftrightarrow> nodes \<noteq> [] \<and> list_all (\<lambda>v. is_dict v \<and> strip (node_id v) \<noteq> []) nodes \<and> distinct (map node_id nodes)"

definition workflow_error :: "exc \<Rightarrow> bool" where
  "workflow_error e \<longleftrightarrow> is_KeyError e \<or> is_TypeError e \<or> (case e of YAMLError _ \<Rightarrow> True | _ \<Rightarrow> False)"

definition load_workflow :: "lib \<Rightarrow> fs \<Rightarrow> path \<Rightarrow> exc + pydict list" where
  "load_workflow L f p =
     (case rbind (rbind (read_text f p) (yaml_loads L)) workflow_nodes of
        Inl e \<Rightarrow> Inl (if workflow_error e then ValueError (Msg ''workflow must declare spec.nodes'' []) else e)
      | Inr (JList nodes) \<Rightarrow>
          if workflow_ok nodes then Inr (map (\<lambda>v. case v of JDict d \<Rightarrow> d | _ \<Rightarrow> []) nodes)
          else Inl (ValueError (Msg ''workflow nodes must have unique nonempty identities'' []))
      | Inr _ \<Rightarrow> Inl (ValueError (Msg ''workflow nodes must have unique nonempty identities'' [])))"

definition id_of_node :: "pydict \<Rightarrow> string" where
  "id_of_node node = str_or (dget node ''id'') []"

definition node_task_type :: "lib \<Rightarrow> fs \<Rightarrow> pydict \<Rightarrow> exc + pyval" where
  "node_task_type L f node =
     (let task = dget node ''task'' in
      if \<not> truthy task \<or> task = JStr ''PLANNED'' then Inr JNone
      else rbind (text_path task) (\<lambda>s. rbind (rbind (read_text f (below (repo_root L) s)) (yaml_loads L)) (\<lambda>c.
        rbind (vindex c ''metadata'') (\<lambda>m. vindex m ''task_type''))))"

definition spec_of :: "pyval \<Rightarrow> node_spec option" where
  "spec_of t = (case t of JStr s \<Rightarrow> map_of NODES s | _ \<Rightarrow> None)"

section \<open>Edges\<close>

text \<open>\<open>next if next in by_id else None\<close>.\<close>

definition follow :: "string list \<Rightarrow> pyval \<Rightarrow> exc + edge" where
  "follow ids v = rbind (in_strset v ids) (\<lambda>b. Inr (if b then Goto (str_or v []) else Leave))"

definition emit_terminal :: "lib \<Rightarrow> walk_args \<Rightarrow> string \<Rightarrow> pyval \<Rightarrow> unit walk" where
  "emit_terminal L args node target_id =
     (let delivered = target_id = JStr ''DELIVERED'' in
      emit_summary (stop_summary
        (if \<not> wa_execute args then ''PLANNED'' else if delivered then ''DELIVERED'' else ''NEEDS_HUMAN'') node
        (if \<not> wa_execute args then ''PLAN_COMPLETE'' else if delivered then ''GRAPH_ONLY_COMPLETE'' else ''WORKFLOW_STOPPED'')
        [(''next_task'', target_id),
         (''message'', JStr (''Workflow reached '' @ py_str L (py_or target_id (JStr ''an unspecified target_id'')) @ ''.''))]))"

definition until_summary :: "walk_args \<Rightarrow> string \<Rightarrow> pyval \<Rightarrow> pydict" where
  "until_summary args node next_task =
     stop_summary (if wa_execute args then ''READY'' else ''PLANNED'') node
       (if wa_execute args then ''UNTIL_NODE_REACHED'' else ''PLAN_COMPLETE'') [(''next_task'', next_task)]"

section \<open>Reuse of a recorded fact\<close>

definition prior_fact ::
  "lib \<Rightarrow> walk_args \<Rightarrow> fs \<Rightarrow> node_spec \<Rightarrow> pydict \<Rightarrow> pydict \<Rightarrow> pydict \<Rightarrow> exc + pyval option" where
  "prior_fact L args f s skill context environment =
     rbind (reusable_fact L f s (wa_subject args) (wa_journal args) environment (Some skill) context) (\<lambda>prior.
     if ns_fan_out s \<noteq> None then Inr None
     else (case prior of
         None \<Rightarrow> Inr None
       | Some v \<Rightarrow>
           rbind (reusable_inputs_current L f (wa_journal args) (wa_subject args) environment context True s v [])
             (\<lambda>current. Inr (if current then Some v else None))))"

definition block_number :: "mem_world \<Rightarrow> exc + string" where
  "block_number m = rbind (rbind (vindex (JDict (mem m)) ''completed_loop_blocks'') vlen) (\<lambda>n. Inr (dec (n + 1)))"

definition sorted_states :: pyval where
  "sorted_states = JList (map JStr (sort success_states))"

definition exit_states :: "node_spec \<Rightarrow> pydict" where
  "exit_states s = [(''state_file'', JStr (ns_state_file s)), (''success_states'', sorted_states)]"

definition next_target :: "pyval \<Rightarrow> pydict" where
  "next_target v = [(''sub_target'', v)]"

definition remember_reuse :: "lib \<Rightarrow> walk_args \<Rightarrow> pydict \<Rightarrow> pydict \<Rightarrow> node_spec \<Rightarrow> pyval \<Rightarrow> string memexec" where
  "remember_reuse L args node skill s prior =
     actbind (actreadR block_number) (\<lambda>n.
     actbind (actlift (skill_routing skill [(''mode'', JStr ''reuse_journal_fact'')])) (\<lambda>routing.
     actbind (start_block L (id_of_node node @ '':reused:'' @ n) (id_of_node node) (exit_states s) (Some routing)) (\<lambda>_.
     actbind (actlift (rbind (vindex prior ''state'') text_path)) (\<lambda>state.
     actbind (actlift (rbind (vindex prior ''artifacts'') text_path)) (\<lambda>artifacts.
     actbind (finish_block L state (Some [artifacts]) (Some (next_target (dget node ''on_success'')))) (\<lambda>_.
     actbind (actwhen (wa_execute args) (save_memory L (wa_loop_state args))) (\<lambda>_.
     actret artifacts)))))))"

text \<open>The end of a visit that succeeded or was planned.\<close>

definition leave_or_follow :: "lib \<Rightarrow> walk_args \<Rightarrow> string list \<Rightarrow> pydict \<Rightarrow> pydict option \<Rightarrow> edge walk" where
  "leave_or_follow L args ids node going_on =
     (if wa_until args = Some (id_of_node node)
      then actbind (emit_summary (until_summary args (id_of_node node) (dget node ''on_success''))) (\<lambda>_. actret (Exit 0))
      else actbind (actlift (follow ids (dget node ''on_success''))) (\<lambda>e.
        actbind (case e of
            Goto _ \<Rightarrow> (case going_on of None \<Rightarrow> actret () | Some s \<Rightarrow> emit_summary s)
          | _ \<Rightarrow> emit_terminal L args (id_of_node node) (dget node ''on_success'')) (\<lambda>_. actret e)))"

definition reuse_node :: "lib \<Rightarrow> walk_args \<Rightarrow> string list \<Rightarrow> pydict \<Rightarrow> pydict \<Rightarrow> node_spec \<Rightarrow> pyval \<Rightarrow> edge walk" where
  "reuse_node L args ids node skill s prior =
     actbind (in_memory (remember_reuse L args node skill s prior)) (\<lambda>artifacts.
     actbind (actlift (vindex (JDict skill) ''id'')) (\<lambda>i.
     actbind (emit_summary (stop_summary ''REUSED'' (id_of_node node) ''SUCCESSFUL_FACT_REUSED''
       [(''next_task'', dget node ''on_success''), (''skill'', i), (''artifacts'', words_value [artifacts])])) (\<lambda>_.
     leave_or_follow L args ids node None)))"

section \<open>The commands of a node\<close>

definition input_error :: "exc \<Rightarrow> bool" where
  "input_error e \<longleftrightarrow> \<not> is_WritePolicyError e \<and>
     (is_KeyError e \<or> is_ValueError e \<or> is_OSError e \<or> (case e of Unresolved _ \<Rightarrow> True | _ \<Rightarrow> False))"

definition trying :: "(exc \<Rightarrow> bool) \<Rightarrow> ('w, exc, 'a) act \<Rightarrow> ('w, exc, exc + 'a) act" where
  "trying caught m = actcatch (actbind m (\<lambda>x. actret (Inr x))) (\<lambda>e. if caught e then Some (actret (Inl e)) else None)"

definition plan_node ::
  "lib \<Rightarrow> processes \<Rightarrow> walk_args \<Rightarrow> string \<Rightarrow> pydict \<Rightarrow> node_spec \<Rightarrow> path \<Rightarrow> pydict \<Rightarrow> pydict \<Rightarrow>
     (attempt option \<times> (path \<times> string list) list) memexec" where
  "plan_node L P args node skill s artifacts context environment =
     (let verify = wa_from args \<noteq> None in
      case ns_fan_out s of
        None \<Rightarrow>
          actbind (actreadR (\<lambda>w. resolve_command L (files w) s context (wa_journal args) environment None True verify)) (\<lambda>c.
          actret (None, [(artifacts, c)]))
      | Some fo \<Rightarrow>
          actbind (if wa_execute args
            then actbind (allocate_attempt L (wa_paths args) node) (\<lambda>a.
              actbind (write_skill_contract L a skill) (\<lambda>packet. actret (Some (a, packet))))
            else actret None) (\<lambda>got.
          actbind (fan_out_plan L P s fo context (wa_journal args) environment artifacts verify (map_option snd got)) (\<lambda>commands.
          actret (map_option fst got, commands))))"

definition context_user :: "pydict \<Rightarrow> string option" where
  "context_user context = (case map_of context ''user_id'' of Some (JStr s) \<Rightarrow> Some s | _ \<Rightarrow> None)"

text \<open>A Skill that cannot be resolved for a child ends the node; an exception of the process is
  recorded in the inventory and passed on.\<close>

fun run_commands ::
  "lib \<Rightarrow> processes \<Rightarrow> attempt \<Rightarrow> node_spec \<Rightarrow> pyval \<Rightarrow> pydict \<Rightarrow> (path \<times> string list) list \<Rightarrow> skill_cache \<Rightarrow> int \<Rightarrow>
     string list \<Rightarrow> (exc + skill_cache \<times> int \<times> string list) memexec" where
  "run_commands L P a s t context [] cache code crashes = actret (Inr (cache, code, crashes))"
| "run_commands L P a s t context ((target, command) # rest) cache code crashes =
     actbind (fsop (mkdir_parents target)) (\<lambda>_.
     actbind (trying skill_caught (command_skill_contract_path L a target (a_output a) s t context cache)) (\<lambda>found.
     case found of
       Inl e \<Rightarrow> actret (Inl e)
     | Inr (packet, cache') \<Rightarrow>
         actbind (actlift (command_logs a target)) (\<lambda>logs.
         actbind (actcatch (ps_run P command logs (context_user context) packet)
           (\<lambda>e. if is_OSError e \<or> is_ValueError e
             then Some (actbind (register L (a_root a) (attempt_identity a) ''BLOCKED'' [] None ''manifest.json'') (\<lambda>_. actraise e))
             else None)) (\<lambda>(c, crash).
         run_commands L P a s t context rest cache' (if code \<noteq> 0 then code else c)
           (crashes @ (case crash of None \<Rightarrow> [] | Some p \<Rightarrow> [p])))))) "

section \<open>What is recorded\<close>

definition failure_record :: "lib \<Rightarrow> fs \<Rightarrow> string \<Rightarrow> node_spec \<Rightarrow> path \<Rightarrow> int \<Rightarrow> pydict" where
  "failure_record L f node s artifacts code =
     [(''task_id'', JStr node), (''state'', JStr ''UNKNOWN''), (''returncode'', JInt code),
      (''reason'', JStr ''Task did not pass; inspect the original status and command logs.''),
      (''expected_status_file'', JStr (ns_state_file s)), (''observed_status'', JDict (read_status L f artifacts s))]"

text \<open>\<open>memory["current_loop_block"]["routing"]["child_skills"] = child_skills\<close>\<close>

definition note_children :: "pydict list \<Rightarrow> unit memexec" where
  "note_children cs =
     actbind (actreadR (\<lambda>w. vindex (JDict (mem w)) ''current_loop_block'')) (\<lambda>b.
     actbind (actlift (vindex b ''routing'')) (\<lambda>r.
     (case (b, r) of
        (JDict block, JDict routing) \<Rightarrow>
          mem_set ''current_loop_block'' (JDict (dset block ''routing'' (JDict (dset routing ''child_skills'' (child_skill_list cs)))))
      | _ \<Rightarrow> actraise TypeError)))"

definition record_result ::
  "lib \<Rightarrow> walk_args \<Rightarrow> pydict \<Rightarrow> pydict \<Rightarrow> node_spec \<Rightarrow> attempt \<Rightarrow> pydict \<Rightarrow> skill_cache \<Rightarrow> int \<Rightarrow> (string \<times> bool) memexec" where
  "record_result L args node skill s a environment cache code =
     actbind (actread (\<lambda>w. (read_state L (files w) (a_output a) s, node_passed L (files w) (a_output a) s (JInt code)))) (\<lambda>(state, passed).
     actbind (actwhen (\<not> passed) (actbind (actread (\<lambda>w. failure_record L (files w) (id_of_node node) s (a_output a) code)) (\<lambda>d.
       actbind (store_write_json L (a_output a) ''failure_record.json'' (JDict d) False) (\<lambda>_. actret ())))) (\<lambda>_.
     actbind (register L (a_root a) (attempt_identity a) state (if passed then [''output/'' @ ns_state_file s] else []) None
       ''manifest.json'') (\<lambda>_.
     actbind (actreadR (\<lambda>w. fan_out_skill_bindings L (files w) s cache)) (\<lambda>children.
     actbind (record_fact L (wa_journal args) s (wa_subject args) (a_output a) environment code (Some skill) children) (\<lambda>_.
     actbind (actwhen (children \<noteq> []) (note_children children)) (\<lambda>_.
     actbind (finish_block L state (Some [path_str (a_output a)])
       (Some (next_target (dget node (if passed then ''on_success'' else ''on_failure''))))) (\<lambda>_.
     actbind (save_memory L (wa_loop_state args)) (\<lambda>_.
     actret (state, passed)))))))))"

text \<open>\<open>",".join(f"{k}={v}" for k, v in sorted(environment.items()))\<close>\<close>

fun comma_joined :: "string list \<Rightarrow> string" where
  "comma_joined [] = []"
| "comma_joined [s] = s"
| "comma_joined (s # t # ss) = s @ '','' @ comma_joined (t # ss)"

definition environment_text :: "lib \<Rightarrow> pydict \<Rightarrow> string" where
  "environment_text L e = comma_joined (map (\<lambda>(k, v). k @ ''='' @ py_str L v) (sort_key fst e))"

section \<open>After the commands\<close>

definition evidence_words :: "attempt \<Rightarrow> string list \<Rightarrow> pyval" where
  "evidence_words a crashes = words_value ([path_str (a_output a), path_str (a_logs a)] @ crashes)"

definition failed_node ::
  "lib \<Rightarrow> walk_args \<Rightarrow> string list \<Rightarrow> pydict \<Rightarrow> pydict \<Rightarrow> node_spec \<Rightarrow> attempt \<Rightarrow> string \<Rightarrow> int \<Rightarrow> string list \<Rightarrow> edge walk" where
  "failed_node L args ids node skill s a state code crashes =
     (let here = words_value [path_str (a_output a)] in
      actbind (actread (\<lambda>w. JStr (failure_reason L (the_files w) (a_output a) s state))) (\<lambda>reason.
      if ns_produces s = ''EnvironmentProof'' then
        actbind (emit_summary (stop_summary ''BLOCKED'' (id_of_node node) ''ENVIRONMENT_FAILED''
          [(''next_task'', JStr (id_of_node node)), (''state'', JStr state), (''message'', reason), (''artifacts'', evidence_words a crashes)]))
          (\<lambda>_. actret (Exit 2))
      else if ns_produces s = ''FailureTriage'' \<and> state = ''NEEDS_HUMAN'' then
        actbind (emit_summary (stop_summary ''NEEDS_HUMAN'' (id_of_node node) ''FAILURE_DIAGNOSIS_REQUIRED''
          [(''message'', reason), (''artifacts'', here)])) (\<lambda>_. actret (Exit 2))
      else
        let failure = dget_or node ''on_failure'' (JStr ''NEEDS_HUMAN'') in
        actbind (actread gw_environment) (\<lambda>environment.
        actbind (in_memory (record_observed_issue ''command_failure'' [path_str (a_output a)] environment (id_of_node node))) (\<lambda>_.
        actbind (in_memory (save_memory L (wa_loop_state args))) (\<lambda>_.
        actbind (actlift (vindex (JDict skill) ''id'')) (\<lambda>i.
        actbind (emit_summary (stop_summary ''REWORK'' (id_of_node node) (if code = 0 then ''STATE_NOT_SUCCESS'' else ''COMMAND_FAILED'')
          [(''next_task'', failure), (''state'', JStr state), (''message'', reason), (''skill'', i),
           (''artifacts'', words_value (path_str (a_output a) # crashes))])) (\<lambda>_.
        actlift (follow ids failure)))))))) "

text \<open>A proof of the environment replaces the scope of the facts that follow.\<close>

definition bind_scope :: "lib \<Rightarrow> walk_args \<Rightarrow> (exc + unit) walk" where
  "bind_scope L args = trying (\<lambda>e. case e of Unresolved _ \<Rightarrow> True | _ \<Rightarrow> False)
     (actbind (actreadR (\<lambda>w. bind_proven_environment L (the_files w) (wa_journal args) (gw_context w) (gw_environment w)))
       (\<lambda>(context, environment). actwrite (\<lambda>w. w\<lparr>gw_environment := environment,
          gw_context := dset context ''environment_text'' (JStr (environment_text L environment))\<rparr>)))"

definition rebind_environment :: "lib \<Rightarrow> walk_args \<Rightarrow> (exc + unit) walk" where
  "rebind_environment L args =
     actbind (actwrite (\<lambda>w. w\<lparr>gw_environment := AList.delete ''environment_pod''
       (AList.delete ''environment_fingerprint'' (gw_environment w))\<rparr>)) (\<lambda>_. bind_scope L args)"

definition passed_node ::
  "lib \<Rightarrow> walk_args \<Rightarrow> string list \<Rightarrow> pydict \<Rightarrow> pydict \<Rightarrow> node_spec \<Rightarrow> attempt \<Rightarrow> edge walk" where
  "passed_node L args ids node skill s a =
     actbind (if ns_produces s = ''EnvironmentProof'' then rebind_environment L args else actret (Inr ())) (\<lambda>bound.
     case bound of
       Inl e \<Rightarrow> actbind (emit_summary (stop_summary ''BLOCKED'' (id_of_node node) ''ENVIRONMENT_MISMATCH''
           [(''message'', JStr (exc_text L e))])) (\<lambda>_. actret (Exit 2))
     | Inr _ \<Rightarrow>
         actbind (actread (\<lambda>w. read_state L (the_files w) (a_output a) s)) (\<lambda>state.
         leave_or_follow L args ids node (Some (stop_summary ''CONTINUE'' (id_of_node node) ''NODE_COMPLETE''
           [(''next_task'', dget node ''on_success''), (''state'', JStr state), (''skill'', dget skill ''id''),
            (''artifacts'', words_value [path_str (a_output a)])]))))"

definition after_commands ::
  "lib \<Rightarrow> walk_args \<Rightarrow> string list \<Rightarrow> pydict \<Rightarrow> pydict \<Rightarrow> node_spec \<Rightarrow> attempt \<Rightarrow> pydict \<Rightarrow>
     exc + skill_cache \<times> int \<times> string list \<Rightarrow> edge walk" where
  "after_commands L args ids node skill s a environment outcome =
     (case outcome of
       Inl e \<Rightarrow> actbind (emit_summary (stop_summary ''NEEDS_HUMAN'' (id_of_node node) ''SKILL_UNRESOLVED''
           [(''next_task'', JStr (id_of_node node)), (''message'', JStr (exc_text L e))])) (\<lambda>_. actret (Exit 2))
     | Inr (cache, code, crashes) \<Rightarrow>
         actbind (in_memory (record_result L args node skill s a environment cache code)) (\<lambda>(state, passed).
         if passed then passed_node L args ids node skill s a
         else failed_node L args ids node skill s a state code crashes))"

definition execute_node ::
  "lib \<Rightarrow> processes \<Rightarrow> walk_args \<Rightarrow> string list \<Rightarrow> pydict \<Rightarrow> pyval \<Rightarrow> pydict \<Rightarrow> node_spec \<Rightarrow> path \<Rightarrow>
     attempt option \<times> (path \<times> string list) list \<Rightarrow> edge walk" where
  "execute_node L P args ids node t skill s artifacts plan =
     actbind (in_memory (allocate_commands L (wa_paths args) (id_of_node node) artifacts (snd plan) skill (fst plan))) (\<lambda>(a, commands).
     actbind (set_context ''artifacts'' (JStr (path_str (a_output a)))) (\<lambda>_.
     actbind (set_context ''attempt'' (JStr (a_number a))) (\<lambda>_.
     actbind (in_memory (actbind (actreadR block_number) (\<lambda>n.
       actbind (actlift (skill_routing skill [])) (\<lambda>routing.
       actbind (start_block L (id_of_node node @ '':'' @ n) (id_of_node node) (exit_states s) (Some routing)) (\<lambda>_.
       save_memory L (wa_loop_state args)))))) (\<lambda>_.
     actbind (emit_summary (stop_summary ''RUNNING'' (id_of_node node) ''NODE_STARTED'' [(''artifacts'', evidence_words a [])])) (\<lambda>_.
     actbind (actread gw_context) (\<lambda>context. actbind (actread gw_environment) (\<lambda>environment.
     actbind (in_memory (run_commands L P a s t context commands [] 0 [])) (\<lambda>outcome.
     after_commands L args ids node skill s a environment outcome))))))))"

section \<open>A visit\<close>

definition fresh_node ::
  "lib \<Rightarrow> processes \<Rightarrow> walk_args \<Rightarrow> string list \<Rightarrow> pydict \<Rightarrow> pyval \<Rightarrow> pydict \<Rightarrow> node_spec \<Rightarrow> path \<Rightarrow> pydict \<Rightarrow> pydict \<Rightarrow>
     edge walk" where
  "fresh_node L P args ids node t skill s artifacts context environment =
     actbind (trying input_error (in_memory (plan_node L P args (id_of_node node) skill s artifacts context environment))) (\<lambda>planned.
     case planned of
       Inl e \<Rightarrow> actbind (emit_summary (stop_summary ''NEEDS_HUMAN'' (id_of_node node) ''INPUT_UNRESOLVED''
           [(''next_task'', JStr (id_of_node node)), (''message'', JStr (exc_text L e))])) (\<lambda>_. actret (Exit 2))
     | Inr plan \<Rightarrow>
         if wa_execute args then execute_node L P args ids node t skill s artifacts plan
         else leave_or_follow L args ids node None)"

definition visit_spec ::
  "lib \<Rightarrow> processes \<Rightarrow> walk_args \<Rightarrow> string list \<Rightarrow> pydict \<Rightarrow> pyval \<Rightarrow> pydict \<Rightarrow> node_spec \<Rightarrow> edge walk" where
  "visit_spec L P args ids node t skill s =
     (let artifacts = rp_root (wa_paths args) @ [''{attempt-output}''] in
      actbind (set_context ''artifacts'' (JStr (path_str artifacts))) (\<lambda>_.
      actbind (set_context ''attempt'' (JStr ''{attempt-id}'')) (\<lambda>_.
      actbind (actread gw_context) (\<lambda>context. actbind (actread gw_environment) (\<lambda>environment.
      actbind (actreadR (\<lambda>w. prior_fact L args (the_files w) s skill context environment)) (\<lambda>prior.
      case prior of
        Some v \<Rightarrow> if wa_resume args then reuse_node L args ids node skill s v
          else fresh_node L P args ids node t skill s artifacts context environment
      | None \<Rightarrow> fresh_node L P args ids node t skill s artifacts context environment))))))"

definition dispatch_node :: "lib \<Rightarrow> processes \<Rightarrow> walk_args \<Rightarrow> string list \<Rightarrow> pydict \<Rightarrow> pyval \<Rightarrow> pydict \<Rightarrow> edge walk" where
  "dispatch_node L P args ids node t skill =
     (case spec_of t of
        None \<Rightarrow> actbind (actlift (vindex (JDict skill) ''id'')) (\<lambda>i.
          actbind (emit_summary (stop_summary ''NEEDS_HUMAN'' (id_of_node node) ''NO_EXECUTOR''
            [(''next_task'', JStr (id_of_node node)), (''skill'', i), (''message'', JStr (''task_type='' @ py_str L t))])) (\<lambda>_.
          actret Leave))
      | Some s \<Rightarrow> actbind (actread gw_context) (\<lambda>context.
          visit_spec L P args ids node t skill (scheduled_spec s context)))"

text \<open>A node without a task type has no Skill; its summary reads \<open>skill["id"]\<close> and raises \<open>TypeError\<close>.
  \<open>MANUAL\<close> is empty.\<close>

definition visit_node :: "lib \<Rightarrow> processes \<Rightarrow> walk_args \<Rightarrow> string list \<Rightarrow> pydict \<Rightarrow> edge walk" where
  "visit_node L P args ids node =
     actbind (actreadR (\<lambda>w. node_task_type L (the_files w) node)) (\<lambda>t.
     if \<not> truthy t then actraise TypeError
     else
       actbind (trying skill_caught (actreadR (\<lambda>w. node_skill L (the_files w) t (gw_context w)))) (\<lambda>found.
       case found of
         Inl e \<Rightarrow> actbind (emit_summary (stop_summary ''NEEDS_HUMAN'' (id_of_node node) ''SKILL_UNRESOLVED''
             [(''next_task'', JStr (id_of_node node)), (''message'', JStr (exc_text L e))])) (\<lambda>_. actret Leave)
       | Inr skill \<Rightarrow> dispatch_node L P args ids node t skill))"

section \<open>The walk\<close>

definition no_contract :: "pydict \<Rightarrow> bool" where
  "no_contract node \<longleftrightarrow> in_list (dget node ''task'') [JNone, JStr ''PLANNED'']"

definition visits_left :: "pydict list \<Rightarrow> (string \<Rightarrow> nat) \<Rightarrow> nat" where
  "visits_left nodes visits = (\<Sum>i \<in> set (map id_of_node nodes). 3 - visits i)"

lemma visits_left_less:
  assumes "n \<in> set nodes" "visits (id_of_node n) < 3"
  shows "visits_left nodes (visits(id_of_node n := Suc (visits (id_of_node n)))) < visits_left nodes visits"
  unfolding visits_left_def
  by (rule sum_strict_mono_ex1) (use assms in \<open>auto intro!: bexI[of _ "id_of_node n"]\<close>)

lemma found_node: "find (\<lambda>n. id_of_node n = current) nodes = Some node \<Longrightarrow> node \<in> set nodes \<and> id_of_node node = current"
  by (auto simp: find_Some_iff)

function walk_loop ::
  "(pydict \<Rightarrow> edge walk) \<Rightarrow> pydict list \<Rightarrow> (string \<Rightarrow> nat) \<Rightarrow> string option \<Rightarrow> int walk" where
  "walk_loop visit nodes visits None = actret 0"
| "walk_loop visit nodes visits (Some current) =
     (case find (\<lambda>n. id_of_node n = current) nodes of
        None \<Rightarrow> actbind (emit_summary (stop_summary ''BLOCKED'' current ''NO_CONTRACT'' [])) (\<lambda>_. actret 0)
      | Some node \<Rightarrow>
          if no_contract node then actbind (emit_summary (stop_summary ''BLOCKED'' current ''NO_CONTRACT'' [])) (\<lambda>_. actret 0)
          else if 3 \<le> visits current then
            actbind (emit_summary (stop_summary ''NEEDS_HUMAN'' current ''FAILURE_EDGE_CYCLE'' [(''next_task'', JStr current)])) (\<lambda>_. actret 0)
          else actbind (visit node) (\<lambda>e. case e of
              Exit code \<Rightarrow> actret code
            | Leave \<Rightarrow> walk_loop visit nodes (visits(current := visits current + 1)) None
            | Goto n \<Rightarrow> walk_loop visit nodes (visits(current := visits current + 1)) (Some n)))"
  by pat_completeness auto
termination
  by (relation "measure (\<lambda>(visit, nodes, visits, current). 2 * visits_left nodes visits + (if current = None then 0 else 1))")
     (use visits_left_less in \<open>auto dest!: found_node intro!: less_SucI simp: not_le\<close>)

declare walk_loop.simps(2) [simp del]

lemma loop_step:
  assumes "find (\<lambda>n. id_of_node n = current) nodes = Some node" "\<not> (no_contract node \<or> 3 \<le> visits current)"
  shows "walk_loop visit nodes visits (Some current) = actbind (visit node) (\<lambda>e. case e of
      Exit code \<Rightarrow> actret code
    | Leave \<Rightarrow> walk_loop visit nodes (visits(current := visits current + 1)) None
    | Goto n \<Rightarrow> walk_loop visit nodes (visits(current := visits current + 1)) (Some n))"
  using assms by (subst walk_loop.simps(2)) simp

section \<open>The run around it\<close>

text \<open>\<open>Path.stem\<close>\<close>

definition path_stem :: "path \<Rightarrow> string" where
  "path_stem p =
     (let name = (if p = [] then [] else last p); ext = takeWhile (\<lambda>c. c \<noteq> CHR ''.'') (rev name);
          stem = take (length name - length ext - 1) name in
      if CHR ''.'' \<in> set name \<and> ext \<noteq> [] \<and> stem \<noteq> [] then stem else name)"

definition start_of :: "walk_args \<Rightarrow> pydict list \<Rightarrow> exc + string" where
  "start_of args nodes = (case wa_from args of
      Some (c # cs) \<Rightarrow> if c # cs \<in> set (map id_of_node nodes) then Inr (c # cs) else Inl (ValueError (Msg ''is not in list'' [JStr (c # cs)]))
    | _ \<Rightarrow> (case nodes of [] \<Rightarrow> Inl IndexError | n # _ \<Rightarrow> Inr (id_of_node n)))"

definition producer_type :: "lib \<Rightarrow> fs \<Rightarrow> pydict \<Rightarrow> exc + pydict" where
  "producer_type L f node = rbind (node_task_type L f node) (\<lambda>t.
     case spec_of t of
       None \<Rightarrow> if hashable t \<or> \<not> truthy t then Inr [] else Inl TypeError
     | Some s \<Rightarrow> Inr [(ns_produces s, t)])"

definition producer_types :: "lib \<Rightarrow> fs \<Rightarrow> pydict list \<Rightarrow> exc + pydict" where
  "producer_types L f nodes = rbind (rmapM (producer_type L f) nodes) (\<lambda>ds. Inr (foldl dmerge [] ds))"

text \<open>From the arguments to the first node: the environment of the current proof, the memory, the workflow.\<close>

definition bind_run :: "lib \<Rightarrow> walk_args \<Rightarrow> (exc + unit) walk" where
  "bind_run L args =
     actbind (set_context ''subject'' (JStr (wa_subject args))) (\<lambda>_.
     actbind (set_context ''attempt'' (JStr ''{attempt-id}'')) (\<lambda>_.
     bind_scope L args))"

definition walk_nodes :: "lib \<Rightarrow> processes \<Rightarrow> walk_args \<Rightarrow> int walk" where
  "walk_nodes L P args =
     actbind (actreadR (\<lambda>w. load_memory L (the_files w) (wa_loop_state args) (path_stem (wa_workflow args)) (wa_subject args))) (\<lambda>m.
     actbind (in_memory (actwrite (\<lambda>u. u\<lparr>mem := m\<rparr>))) (\<lambda>_.
     actbind (actreadR (\<lambda>w. load_workflow L (the_files w) (wa_workflow args))) (\<lambda>nodes.
     actbind (actlift (start_of args nodes)) (\<lambda>start.
     actbind (actreadR (\<lambda>w. producer_types L (the_files w) nodes)) (\<lambda>types.
     actbind (set_context ''_producer_task_types'' (JDict types)) (\<lambda>_.
     walk_loop (visit_node L P args (map id_of_node nodes)) nodes (\<lambda>_. 0) (Some start)))))))"

definition run_walk :: "lib \<Rightarrow> processes \<Rightarrow> walk_args \<Rightarrow> int walk" where
  "run_walk L P args =
     actbind (bind_run L args) (\<lambda>bound.
     case bound of
       Inl e \<Rightarrow> actbind (emit_summary [(''status'', JStr ''BLOCKED''), (''reason_code'', JStr ''ENVIRONMENT_MISMATCH''),
           (''message'', JStr (exc_text L e))]) (\<lambda>_. actret 2)
     | Inr _ \<Rightarrow> walk_nodes L P args)"

definition reported :: "exc \<Rightarrow> bool" where
  "reported e \<longleftrightarrow> is_OSError e \<or> is_ValueError e \<or> is_KeyError e \<or> is_TypeError e \<or> e = AttributeError"

definition run_graph :: "lib \<Rightarrow> processes \<Rightarrow> walk_args \<Rightarrow> int walk" where
  "run_graph L P args = actcatch (run_walk L P args)
     (\<lambda>e. if reported e
       then Some (actbind (emit_summary [(''status'', JStr ''BLOCKED''),
           (''reason_code'', JStr (if is_WritePolicyError e then ''WRITE_POLICY'' else ''INVALID_INPUT'')),
           (''message'', JStr (exc_text L e))]) (\<lambda>_. actret 2))
       else None)"

end
