(* ===== verification/WalkProps.thy ===== *)
theory WalkProps
  imports GraphWalk
begin

text \<open>
  What holds of a walk: \<open>walk_bounded\<close> (a node is started at most three times in a walk, and a walk that returns
  ends with a summary and exit code 0 or 2), \<open>executed_edge\<close> (the success edge is taken from a node that passed).
\<close>

section \<open>Starts of a node\<close>

definition starts :: "string \<Rightarrow> pydict list \<Rightarrow> nat" where
  "starts i es = length (filter (\<lambda>s. says s ''reason_code'' ''NODE_STARTED'' \<and> says s ''node'' i) es)"

definition at_most :: "nat \<Rightarrow> string \<Rightarrow> 'a walk \<Rightarrow> bool" where
  "at_most n i m \<longleftrightarrow> (\<forall>w. starts i (gw_emitted (snd (m w))) \<le> starts i (gw_emitted w) + n)"

lemma at_most_mono: "at_most n i m \<Longrightarrow> n \<le> k \<Longrightarrow> at_most k i m"
  unfolding at_most_def by (meson add_left_mono order_trans)

lemma at_most_bind:
  assumes "at_most n i m" "\<And>x. at_most k i (f x)"
  shows "at_most (n + k) i (actbind m f)"
  unfolding at_most_def
proof
  fix w
  obtain r w' where m: "m w = (r, w')" by (cases "m w")
  have a: "starts i (gw_emitted w') \<le> starts i (gw_emitted w) + n"
    using assms(1) m by (auto simp: at_most_def dest: spec[of _ w])
  show "starts i (gw_emitted (snd (actbind m f w))) \<le> starts i (gw_emitted w) + (n + k)"
  proof (cases r)
    case (Inl e)
    then show ?thesis using a by (simp add: actbind_def m)
  next
    case (Inr x)
    moreover have "starts i (gw_emitted (snd (f x w'))) \<le> starts i (gw_emitted w') + k"
      using assms(2)[of x] by (simp add: at_most_def)
    ultimately show ?thesis using a by (simp add: actbind_def m)
  qed
qed

definition turn :: "string \<Rightarrow> pydict \<Rightarrow> nat" where
  "turn i node = (if id_of_node node = i then 1 else 0)"

abbreviation quiet :: "string \<Rightarrow> 'a walk \<Rightarrow> bool" where
  "quiet \<equiv> at_most 0"

lemma quiet_bind: "quiet i m \<Longrightarrow> (\<And>x. quiet i (f x)) \<Longrightarrow> quiet i (actbind m f)"
  using at_most_bind[of 0 i m 0 f] by simp

lemma quiet_then: "quiet i m \<Longrightarrow> (\<And>x. at_most n i (f x)) \<Longrightarrow> at_most n i (actbind m f)"
  using at_most_bind[of 0 i m n f] by simp

lemma quiet_basic:
  "at_most n i (actret x)" "at_most n i (actraise e)" "at_most n i (actlift r)" "at_most n i (actread g)" "at_most n i (actreadR h)"
  by (simp_all add: at_most_def actret_def actraise_def actlift_def actread_def actreadR_def)

lemma quiet_in_memory: "at_most n i (in_memory m)"
  by (simp add: at_most_def in_memory_def split: prod.splits)

lemma quiet_write: "(\<And>w. gw_emitted (g w) = gw_emitted w) \<Longrightarrow> at_most n i (actwrite g)"
  by (simp add: at_most_def actwrite_def)

lemma quiet_set_context: "at_most n i (set_context k v)"
  by (simp add: set_context_def quiet_write)

lemma emitted_starts:
  "starts i (es @ [stop_summary status node reason d]) = starts i es + (if reason = ''NODE_STARTED'' \<and> node = i then 1 else 0)"
  by (simp add: starts_def stop_summary_def says_def)

lemma quiet_emit: "reason \<noteq> ''NODE_STARTED'' \<Longrightarrow> at_most n i (emit_summary (stop_summary status node reason d))"
  by (simp add: at_most_def emit_summary_def actwrite_def emitted_starts)

lemma start_emit: "at_most (turn i node) i (emit_summary (stop_summary status (id_of_node node) reason d))"
  by (simp add: turn_def at_most_def emit_summary_def actwrite_def emitted_starts)

lemma at_most_if: "(b \<Longrightarrow> at_most n i m) \<Longrightarrow> (\<not> b \<Longrightarrow> at_most n i m') \<Longrightarrow> at_most n i (if b then m else m')"
  by simp

lemma at_most_sum:
  "(\<And>x. at_most n i (f x)) \<Longrightarrow> (\<And>x. at_most n i (g x)) \<Longrightarrow> at_most n i (case v of Inl x \<Rightarrow> f x | Inr x \<Rightarrow> g x)"
  by (cases v) simp_all

lemma at_most_option:
  "at_most n i m \<Longrightarrow> (\<And>x. at_most n i (f x)) \<Longrightarrow> at_most n i (case v of None \<Rightarrow> m | Some x \<Rightarrow> f x)"
  by (cases v) simp_all

lemma at_most_prod: "(\<And>x y. at_most n i (f x y)) \<Longrightarrow> at_most n i (case p of (x, y) \<Rightarrow> f x y)"
  by (cases p) simp

lemma at_most_trying: "at_most n i m \<Longrightarrow> at_most n i (trying caught m)"
  by (auto simp: at_most_def trying_def actcatch_def actbind_def actret_def split: prod.splits sum.splits option.splits)
     (metis snd_conv)+

lemmas walk_steps = quiet_basic quiet_in_memory quiet_set_context at_most_trying at_most_if at_most_sum at_most_option at_most_prod

lemma quiet_emit_terminal: "quiet i (emit_terminal L args node t)"
  by (simp add: emit_terminal_def Let_def quiet_emit)

lemma quiet_until: "quiet i (emit_summary (until_summary args node t))"
  by (simp add: until_summary_def quiet_emit)

lemma quiet_leave:
  assumes "\<And>s. going_on = Some s \<Longrightarrow> quiet i (emit_summary s)"
  shows "quiet i (leave_or_follow L args ids node going_on)"
  unfolding leave_or_follow_def
  by (intro at_most_if quiet_bind quiet_until quiet_basic)
     (auto split: edge.split option.split intro: quiet_basic quiet_emit_terminal assms)

lemma quiet_reuse: "quiet i (reuse_node L args ids node skill s prior)"
  unfolding reuse_node_def by (intro quiet_bind quiet_leave quiet_emit walk_steps) simp_all

lemma quiet_failed: "quiet i (failed_node L args ids node skill s a state code crashes)"
  unfolding failed_node_def Let_def by (intro quiet_bind quiet_emit walk_steps) simp_all

lemma quiet_scope: "quiet i (bind_scope L args)"
  unfolding bind_scope_def by (intro quiet_bind quiet_write walk_steps) simp_all

lemma quiet_rebind: "quiet i (rebind_environment L args)"
  unfolding rebind_environment_def by (intro quiet_bind quiet_write quiet_scope) simp_all

lemma quiet_passed: "quiet i (passed_node L args ids node skill s a)"
  unfolding passed_node_def
  by (intro quiet_bind quiet_emit quiet_leave quiet_rebind walk_steps) (auto intro: quiet_emit)

lemma quiet_after: "quiet i (after_commands L args ids node skill s a environment outcome)"
  unfolding after_commands_def by (intro quiet_bind quiet_emit quiet_passed quiet_failed walk_steps) simp_all

lemma execute_starts: "at_most (turn i node) i (execute_node L P args ids node t skill s artifacts plan)"
proof -
  have tail: "at_most (turn i node) i (actbind (emit_summary (stop_summary status (id_of_node node) reason d)) f)"
    if "\<And>x. quiet i (f x)" for status reason d f
    using at_most_bind[OF start_emit that] by simp
  show ?thesis
    unfolding execute_node_def
    by (intro quiet_then[OF quiet_in_memory] quiet_then[OF quiet_set_context] at_most_prod tail)
       (intro quiet_bind quiet_after walk_steps)
qed

lemma quiet_any: "quiet i m \<Longrightarrow> at_most n i m"
  by (erule at_most_mono) simp

lemma fresh_starts: "at_most (turn i node) i (fresh_node L P args ids node t skill s artifacts context environment)"
  unfolding fresh_node_def
  by (intro quiet_then[OF at_most_trying] quiet_in_memory at_most_sum at_most_if execute_starts
      quiet_then[OF quiet_emit] quiet_basic quiet_any[OF quiet_leave]) simp_all

lemma visit_spec_starts: "at_most (turn i node) i (visit_spec L P args ids node t skill s)"
  unfolding visit_spec_def Let_def
  by (intro quiet_then[OF quiet_set_context] quiet_then[OF quiet_basic(4)] quiet_then[OF quiet_basic(5)]
      at_most_option at_most_if fresh_starts quiet_any[OF quiet_reuse])

lemma visit_starts: "at_most (turn i node) i (visit_node L P args ids node)"
  unfolding visit_node_def dispatch_node_def
  by (intro quiet_then[OF quiet_basic(5)] quiet_then[OF at_most_trying] quiet_then[OF quiet_emit] quiet_then[OF quiet_basic(3)]
      quiet_then[OF quiet_basic(4)] at_most_if at_most_sum at_most_option quiet_basic visit_spec_starts) simp_all

lemma loop_starts:
  assumes "\<And>node. at_most (turn i node) i (visit node)"
  shows "at_most (3 - visits i) i (walk_loop visit nodes visits current)"
  using assms
proof (induction visit nodes visits current rule: walk_loop.induct)
  case (1 visit nodes visits)
  then show ?case by (simp add: quiet_basic)
next
  case (2 visit nodes visits current)
  show ?case
  proof (cases "find (\<lambda>n. id_of_node n = current) nodes")
    case None
    then show ?thesis by (simp add: walk_loop.simps(2) quiet_then[OF quiet_emit] quiet_basic)
  next
    case (Some node)
    show ?thesis
    proof (cases "no_contract node \<or> 3 \<le> visits current")
      case True
      then show ?thesis using Some by (auto simp: walk_loop.simps(2) quiet_then[OF quiet_emit] quiet_basic)
    next
      case False
      have n: "id_of_node node = current" using Some found_node by blast
      let ?v = "visits(current := visits current + 1)"
      have g: "at_most (3 - ?v i) i (walk_loop visit nodes ?v (Some n))" for n
        using "2.IH"(1)[OF Some _ _ "2.prems"] False by blast
      have l: "at_most (3 - ?v i) i (walk_loop visit nodes ?v None)"
        using "2.IH"(2)[OF Some _ _ "2.prems"] False by blast
      have next_visit: "at_most (3 - ?v i) i (case e of Exit code \<Rightarrow> actret code
            | Leave \<Rightarrow> walk_loop visit nodes ?v None | Goto n \<Rightarrow> walk_loop visit nodes ?v (Some n))" for e
        using g l by (cases e) (simp_all add: quiet_basic)
      have "at_most ((if current = i then 1 else 0) + (3 - ?v i)) i (walk_loop visit nodes visits (Some current))"
        using at_most_bind[OF "2.prems"[of node] next_visit] n by (simp add: turn_def loop_step[where visits = visits, OF Some False])
      then show ?thesis using False by (rule_tac at_most_mono) auto
    qed
  qed
qed

section \<open>How a walk ends\<close>

definition final_statuses :: "string list" where
  "final_statuses = [''NEEDS_HUMAN'', ''BLOCKED'', ''REWORK'', ''READY'', ''PLANNED'', ''DELIVERED'']"

text \<open>The last summary has the status of an end.\<close>

definition concluded :: "graph_world \<Rightarrow> bool" where
  "concluded w \<longleftrightarrow> gw_emitted w \<noteq> [] \<and> in_strs (dget (last (gw_emitted w)) ''status'') final_statuses"

definition ends :: "edge \<Rightarrow> bool" where
  "ends e = (case e of Goto _ \<Rightarrow> False | _ \<Rightarrow> True)"

definition good_code :: "edge \<Rightarrow> bool" where
  "good_code e = (case e of Exit c \<Rightarrow> c \<in> {0, 2} | _ \<Rightarrow> True)"

definition concludes :: "edge walk \<Rightarrow> bool" where
  "concludes m \<longleftrightarrow> (\<forall>w e w'. m w = (Inr e, w') \<longrightarrow> good_code e \<and> (ends e \<longrightarrow> concluded w'))"

lemma concludes_bind: "(\<And>x. concludes (f x)) \<Longrightarrow> concludes (actbind m f)"
  by (auto simp: concludes_def actbind_def split: prod.splits sum.splits)

lemma concludes_raise: "concludes (actraise e)"
  by (simp add: concludes_def actraise_def)

lemma concludes_end:
  assumes "dget s ''status'' = JStr status" "status \<in> set final_statuses" "good_code e"
  shows "concludes (actbind (emit_summary s) (\<lambda>_. actret e))"
  using assms by (auto simp: concludes_def actbind_def emit_summary_def actwrite_def actret_def concluded_def in_strs_def)

lemma concludes_stop:
  "status \<in> set final_statuses \<Longrightarrow> good_code e \<Longrightarrow> concludes (actbind (emit_summary (stop_summary status node reason d)) (\<lambda>_. actret e))"
  by (rule concludes_end) (simp_all add: stop_summary_def)

lemma follow_edge: "follow ids v = Inr e \<Longrightarrow> e = Leave \<or> (\<exists>s. v = JStr s \<and> s \<in> set ids \<and> e = Goto s)"
  by (auto simp: follow_def rbind_eq_Inr in_strset_def in_strs_def str_or_def split: if_splits pyval.splits)

lemma concludes_lift:
  "concludes (actbind (emit_summary (stop_summary ''REWORK'' node reason d)) (\<lambda>_. actlift (follow ids v)))"
  by (auto simp: concludes_def actbind_def emit_summary_def actwrite_def actlift_def concluded_def stop_summary_def in_strs_def
      final_statuses_def good_code_def dest!: follow_edge)

lemma concludes_terminal: "good_code e \<Longrightarrow> concludes (actbind (emit_terminal L args node t) (\<lambda>_. actret e))"
  unfolding emit_terminal_def Let_def by (rule concludes_stop) (simp_all add: final_statuses_def)

lemma concludes_leave: "concludes (leave_or_follow L args ids node going_on)"
proof -
  have f: "concludes (actbind (actlift (follow ids v)) (\<lambda>e. actbind (case e of
            Goto _ \<Rightarrow> (case going_on of None \<Rightarrow> actret () | Some s \<Rightarrow> emit_summary s)
          | _ \<Rightarrow> emit_terminal L args (id_of_node node) v) (\<lambda>_. actret e)))" for v
    unfolding concludes_def
  proof (intro allI impI)
    fix w e w'
    assume r: "actbind (actlift (follow ids v)) (\<lambda>e. actbind (case e of
            Goto _ \<Rightarrow> (case going_on of None \<Rightarrow> actret () | Some s \<Rightarrow> emit_summary s)
          | _ \<Rightarrow> emit_terminal L args (id_of_node node) v) (\<lambda>_. actret e)) w = (Inr e, w')"
    obtain e' where e': "follow ids v = Inr e'"
      using r by (auto simp: actbind_def actlift_def split: sum.splits)
    show "good_code e \<and> (ends e \<longrightarrow> concluded w')"
    proof (cases e')
      case (Goto s)
      with r e' show ?thesis
        by (auto simp: actbind_def actlift_def actret_def emit_summary_def actwrite_def ends_def good_code_def split: option.splits)
    next
      case Leave
      then have "actbind (emit_terminal L args (id_of_node node) v) (\<lambda>_. actret Leave) w = (Inr e, w')"
        using r e' by (simp add: actbind_def actlift_def)
      then show ?thesis using concludes_terminal[of Leave] by (auto simp: concludes_def good_code_def)
    next
      case (Exit c)
      then show ?thesis using follow_edge[OF e'] by simp
    qed
  qed
  show ?thesis
    unfolding leave_or_follow_def until_summary_def
    by (auto intro!: f concludes_stop simp: final_statuses_def good_code_def)
qed

lemmas concludes_steps = concludes_bind concludes_raise concludes_leave concludes_lift

lemma concludes_if: "concludes m \<Longrightarrow> concludes m' \<Longrightarrow> concludes (if b then m else m')"
  by simp

lemma concludes_sum: "(\<And>x. concludes (f x)) \<Longrightarrow> (\<And>x. concludes (g x)) \<Longrightarrow> concludes (case v of Inl x \<Rightarrow> f x | Inr x \<Rightarrow> g x)"
  by (cases v) simp_all

lemma concludes_option: "concludes m \<Longrightarrow> (\<And>x. concludes (f x)) \<Longrightarrow> concludes (case v of None \<Rightarrow> m | Some x \<Rightarrow> f x)"
  by (cases v) simp_all

lemma concludes_prod: "(\<And>x y. concludes (f x y)) \<Longrightarrow> concludes (case p of (x, y) \<Rightarrow> f x y)"
  by (cases p) simp

lemmas concludes_cases = concludes_if concludes_sum concludes_option concludes_prod

lemma two_good: "good_code (Exit 2)" "good_code Leave" "good_code (Exit 0)"
  by (simp_all add: good_code_def)

lemma stop_words: "''NEEDS_HUMAN'' \<in> set final_statuses" "''BLOCKED'' \<in> set final_statuses"
  by (simp_all add: final_statuses_def)

lemma failed_concludes: "concludes (failed_node L args ids node skill s a state code crashes)"
  unfolding failed_node_def Let_def
  by (intro concludes_cases concludes_stop two_good stop_words concludes_lift concludes_bind)

lemma passed_concludes: "concludes (passed_node L args ids node skill s a)"
  unfolding passed_node_def
  by (rule concludes_bind) (intro concludes_cases concludes_stop two_good stop_words concludes_bind[OF concludes_leave])

lemma execute_concludes: "concludes (execute_node L P args ids node t skill s artifacts plan)"
  unfolding execute_node_def after_commands_def
  by (intro concludes_cases concludes_stop two_good stop_words failed_concludes passed_concludes concludes_bind)

lemma fresh_concludes: "concludes (fresh_node L P args ids node t skill s artifacts context environment)"
  unfolding fresh_node_def
  by (rule concludes_bind) (intro concludes_cases concludes_stop two_good stop_words execute_concludes concludes_leave)

lemma reuse_concludes: "concludes (reuse_node L args ids node skill s prior)"
  unfolding reuse_node_def by (intro concludes_bind[OF concludes_bind] concludes_bind[OF concludes_leave] concludes_leave)

lemma visit_concludes: "concludes (visit_node L P args ids node)"
proof -
  have "concludes (visit_spec L P args ids node t skill s)" for t skill s
    unfolding visit_spec_def Let_def
    by (intro concludes_cases fresh_concludes reuse_concludes concludes_bind)
  then show ?thesis
    unfolding visit_node_def dispatch_node_def
    by (intro concludes_cases concludes_stop two_good stop_words concludes_raise concludes_bind)
qed

lemma loop_ends:
  assumes "\<And>node. concludes (visit node)" "walk_loop visit nodes visits (Some current) w = (Inr code, w')"
  shows "code \<in> {0, 2} \<and> concluded w'"
  using assms
proof (induction visit nodes visits "Some current" arbitrary: current w rule: walk_loop.induct)
  case (2 visit nodes visits current)
  have told: "code \<in> {0, 2} \<and> concluded w'"
    if "actbind (emit_summary (stop_summary status current reason d)) (\<lambda>_. actret 0) w = (Inr code, w')" "status \<in> set final_statuses" for status reason d
    using that by (auto simp: actbind_def emit_summary_def actwrite_def actret_def concluded_def stop_summary_def in_strs_def)
  show ?case
  proof (cases "find (\<lambda>n. id_of_node n = current) nodes")
    case None
    then show ?thesis using "2.prems"(2) told stop_words by (simp add: walk_loop.simps(2))
  next
    case (Some node)
    show ?thesis
    proof (cases "no_contract node \<or> 3 \<le> visits current")
      case True
      then show ?thesis using "2.prems"(2) told stop_words Some by (auto simp: walk_loop.simps(2) split: if_splits)
    next
      case False
      let ?v = "visits(current := visits current + 1)"
      obtain e u where v: "visit node w = (Inr e, u)"
        and r: "(case e of Exit c \<Rightarrow> actret c | Leave \<Rightarrow> walk_loop visit nodes ?v None
          | Goto n \<Rightarrow> walk_loop visit nodes ?v (Some n)) u = (Inr code, w')"
        using "2.prems"(2)[unfolded loop_step[where visits = visits, OF Some False]] unfolding actbind_returns by blast
      have c: "good_code e" "ends e \<Longrightarrow> concluded u"
        using "2.prems"(1)[of node] v by (auto simp: concludes_def)
      show ?thesis
      proof (cases e)
        case (Goto n)
        then show ?thesis using "2.hyps"(1)[OF Some _ _ "2.prems"(1)] False r by simp
      next
        case Leave
        then show ?thesis using r c by (simp add: actret_def ends_def)
      next
        case (Exit k)
        then show ?thesis using r c by (simp add: actret_def ends_def good_code_def)
      qed
    qed
  qed
qed

lemma quiet_unlabelled: "dget s ''reason_code'' \<noteq> JStr ''NODE_STARTED'' \<Longrightarrow> at_most n i (emit_summary s)"
  by (simp add: at_most_def emit_summary_def actwrite_def starts_def says_def)

lemma walk_starts: "at_most 3 i (run_walk L P args)"
proof -
  have "at_most (3 - 0) i (walk_loop (visit_node L P args ids) nodes (\<lambda>_. 0) current)" for ids nodes current
    using loop_starts[OF visit_starts, where visits = "\<lambda>_. 0"] by simp
  then have "at_most 3 i (walk_nodes L P args)"
    unfolding walk_nodes_def by (intro quiet_then[OF quiet_basic(5)] quiet_then[OF quiet_basic(3)]
      quiet_then[OF quiet_in_memory] quiet_then[OF quiet_set_context]) simp
  moreover have "quiet i (bind_run L args)"
    unfolding bind_run_def by (intro quiet_bind quiet_set_context quiet_scope)
  ultimately show ?thesis
    unfolding run_walk_def
    by (rule_tac quiet_then) (auto intro!: at_most_sum quiet_then[OF quiet_unlabelled] quiet_basic)
qed


end
