(* ===== verification/WalkEdges.thy ===== *)
theory WalkEdges
  imports WalkProps FactReuse
begin

text \<open>
  The edges of an executed walk: a node is left along its success edge only when it passed
  (\<open>success_edge_earned\<close>). A result predicate is carried through the parts of a visit (\<open>yields\<close>).
\<close>

section \<open>The success edge\<close>

definition yields :: "('a \<Rightarrow> bool) \<Rightarrow> ('w, exc, 'a) act \<Rightarrow> bool" where
  "yields R m \<longleftrightarrow> (\<forall>w x w'. m w = (Inr x, w') \<longrightarrow> R x)"

lemma yields_bind: "yields Q m \<Longrightarrow> (\<And>x. Q x \<Longrightarrow> yields R (f x)) \<Longrightarrow> yields R (actbind m f)"
  by (auto simp: yields_def actbind_returns) blast

lemma yields_then: "(\<And>x. yields R (f x)) \<Longrightarrow> yields R (actbind m f)"
  by (rule yields_bind[where Q = "\<lambda>_. True"]) (auto simp: yields_def)

lemma yields_ret: "R x \<Longrightarrow> yields R (actret x)"
  by (simp add: yields_def actret_def)

lemma yields_raise: "yields R (actraise e)"
  by (simp add: yields_def actraise_def)

lemma yields_lift: "(\<And>x. r = Inr x \<Longrightarrow> R x) \<Longrightarrow> yields R (actlift r)"
  by (simp add: yields_def actlift_def)

lemma yields_read: "(\<And>w. R (g w)) \<Longrightarrow> yields R (actread g)"
  by (auto simp: yields_def actread_def)

lemma yields_readR: "(\<And>w x. g w = Inr x \<Longrightarrow> R x) \<Longrightarrow> yields R (actreadR g)"
  by (auto simp: yields_def actreadR_def)

lemma yields_in_memory: "yields R m \<Longrightarrow> yields R (in_memory m)"
  by (auto simp: yields_def in_memory_def split: prod.splits)

lemma yields_if: "(b \<Longrightarrow> yields R m) \<Longrightarrow> (\<not> b \<Longrightarrow> yields R m') \<Longrightarrow> yields R (if b then m else m')"
  by simp

lemma yields_sum: "(\<And>x. yields R (f x)) \<Longrightarrow> (\<And>x. yields R (g x)) \<Longrightarrow> yields R (case v of Inl x \<Rightarrow> f x | Inr x \<Rightarrow> g x)"
  by (cases v) simp_all

lemma yields_option:
  "yields R m \<Longrightarrow> (\<And>x. v = Some x \<Longrightarrow> yields R (f x)) \<Longrightarrow> yields R (case v of None \<Rightarrow> m | Some x \<Rightarrow> f x)"
  by (cases v) simp_all

lemma yields_prod: "(\<And>x y. p = (x, y) \<Longrightarrow> yields R (f x y)) \<Longrightarrow> yields R (case p of (x, y) \<Rightarrow> f x y)"
  by (cases p) simp

text \<open>A node that passed: its status file says so in some state of the files.\<close>

definition has_passed :: "lib \<Rightarrow> node_spec \<Rightarrow> bool" where
  "has_passed L s \<longleftrightarrow> (\<exists>f dir code. node_passed L f dir s code)"

definition right_edge :: "string list \<Rightarrow> pydict \<Rightarrow> bool \<Rightarrow> edge \<Rightarrow> bool" where
  "right_edge ids node earned e \<longleftrightarrow> (case e of
      Goto n \<Rightarrow> n \<in> set ids \<and>
        (dget node ''on_success'' = JStr n \<and> earned \<or> dget_or node ''on_failure'' (JStr ''NEEDS_HUMAN'') = JStr n)
    | _ \<Rightarrow> True)"

lemma right_stop [simp]: "right_edge ids node b Leave" "right_edge ids node b (Exit c)"
  by (simp_all add: right_edge_def)

lemma leave_right: "earned \<Longrightarrow> yields (right_edge ids node earned) (leave_or_follow L args ids node going_on)"
  unfolding leave_or_follow_def
  by (intro yields_if yields_then yields_ret right_stop yields_bind[OF yields_lift[where R = "right_edge ids node earned"]])
     (auto dest!: follow_edge simp: right_edge_def)

lemma failed_right: "yields (right_edge ids node b) (failed_node L args ids node skill s a state code crashes)"
  unfolding failed_node_def Let_def
  by (intro yields_if yields_then yields_ret right_stop yields_lift) (auto dest!: follow_edge simp: right_edge_def)

lemma passed_right: "earned \<Longrightarrow> yields (right_edge ids node earned) (passed_node L args ids node skill s a)"
  unfolding passed_node_def by (intro yields_then yields_sum yields_ret right_stop leave_right)

lemma result_passed:
  "yields (\<lambda>(state, passed). passed \<longrightarrow> has_passed L s) (record_result L args node skill s a environment cache code)"
  unfolding record_result_def
  by (rule yields_bind[where Q = "\<lambda>(state, passed). passed \<longrightarrow> has_passed L s"])
     (auto simp: has_passed_def intro!: yields_read yields_then yields_ret)

lemma after_right: "yields (right_edge ids node (has_passed L s)) (after_commands L args ids node skill s a environment outcome)"
proof -
  have recorded: "yields (right_edge ids node (has_passed L s)) (actbind (in_memory (record_result L args node skill s a environment cache code))
      (\<lambda>(state, passed). if passed then passed_node L args ids node skill s a
         else failed_node L args ids node skill s a state code crashes))" for cache code crashes
    by (rule yields_bind[OF yields_in_memory[OF result_passed]]) (auto intro: passed_right failed_right)
  show ?thesis
  proof (cases outcome)
    case (Inl e)
    then show ?thesis by (simp add: after_commands_def yields_then yields_ret)
  next
    case (Inr r)
    then show ?thesis using recorded by (cases r) (simp add: after_commands_def)
  qed
qed

lemma execute_right: "yields (right_edge ids node (has_passed L s)) (execute_node L P args ids node t skill s artifacts plan)"
  unfolding execute_node_def by (intro yields_then yields_prod after_right)

lemma prior_passed: "prior_fact L args f s skill context environment = Inr (Some v) \<Longrightarrow> has_passed L s"
  by (auto simp: prior_fact_def rbind_eq_Inr has_passed_def split: if_splits option.splits dest!: reuse_facts)

lemma fresh_right:
  "wa_execute args \<Longrightarrow> yields (right_edge ids node (has_passed L s)) (fresh_node L P args ids node t skill s artifacts context environment)"
  unfolding fresh_node_def by (simp add: yields_then yields_sum yields_ret execute_right)

lemma visit_spec_right:
  assumes "wa_execute args"
  shows "yields (right_edge ids node (has_passed L s)) (visit_spec L P args ids node t skill s)"
proof -
  have r: "yields (right_edge ids node (has_passed L s)) (reuse_node L args ids node skill s v)" if "has_passed L s" for v
    unfolding reuse_node_def by (intro yields_then leave_right that)
  show ?thesis
    unfolding visit_spec_def Let_def
    by (intro yields_then yields_bind[where m = "actreadR _" and Q = "\<lambda>p. p \<noteq> None \<longrightarrow> has_passed L s"])
       (auto intro!: yields_readR yields_option yields_if fresh_right assms r dest: prior_passed)
qed

lemma trying_read: "trying c (actreadR g) w = (Inr x, w') \<Longrightarrow> w' = w"
  by (auto simp: trying_def actcatch_def actbind_def actreadR_def actret_def split: sum.splits if_splits)


definition walk_lib :: lib where
  "walk_lib = drift_lib\<lparr>yaml_loads := (\<lambda>_. Inr (JDict [(''kind'', JStr ''SkillCatalog''), (''entries'', JList [JDict
      [(''id'', JStr ''k''), (''task_types'', JList [JStr ''environment_proof'']), (''verification'', JStr ''v''), (''tools'', JList [])]]),
      (''metadata'', JDict [(''task_type'', JStr ''environment_proof'')])]))\<rparr>"

definition walk_fs :: fs where
  "walk_fs = drift_fs @ [([''repo'', ''task''], File ''task'')]"

definition walk_demo_args :: walk_args where
  "walk_demo_args = \<lparr>wa_subject = ''m'', wa_journal = [''data'', ''journal''], wa_paths = \<lparr>rp_root = [''data'', ''run''], rp_run = Some ''r''\<rparr>,
     wa_loop_state = [''data'', ''memory''], wa_workflow = [''repo'', ''flow''], wa_execute = True, wa_resume = True,
     wa_from = None, wa_until = None\<rparr>"

definition walk_node :: pydict where
  "walk_node = [(''id'', JStr ''a''), (''task'', JStr ''task''), (''on_success'', JStr ''b'')]"

definition no_processes :: processes where
  "no_processes = \<lparr>ps_list = (\<lambda>_ _ _. actraise TimeoutExpired), ps_run = (\<lambda>_ _ _ _. actraise TimeoutExpired)\<rparr>"

definition walk_world :: graph_world where
  "walk_world = \<lparr>gw_mem = \<lparr>files = walk_fs, clock_reads = 0, ids_drawn = 0, mem = empty_memory ''flow'' ''m''\<rparr>,
     gw_context = [], gw_environment = journal_env, gw_emitted = []\<rparr>"

definition demo_visit :: "(exc + edge) \<times> graph_world" where
  "demo_visit = visit_node walk_lib no_processes walk_demo_args [''a'', ''b''] walk_node walk_world"

lemma demo_visit_goes_on: "returned (\<lambda>e. e = Goto ''b'') demo_visit"
  by code_simp


end
