(* ===== verification/Spec2Isabelle.thy ===== *)
theory Spec2Isabelle
  imports QueueClaims RecoveryClaims Journal TaskMemory GapClassification CapabilityMatch DeploymentInstance
    MemoryBudget HandoffGates ReportGates IntakeGate CommandGate FactDelivery WalkEdges
begin

text \<open>
  Infer-Forge organises the adaptation of a model to an accelerator as a graph of tasks. A graph
  runner walks the graph and keeps facts; operators that are missing become tasks of a durable queue,
  where external workers take them through the stages torch, xpu and integration under leases and an
  evidence gate; a failure gets a diagnosis; and a model is delivered only when every fact and every
  operator result still holds. This development models the Python of that machinery and of the
  validators beside it. It is a shallow embedding: a function of the source is a function here, with
  the source's name where Isabelle allows it, an exception is a value, a mutable object is a state
  passed along.

  \<^bold>\<open>Values and effects.\<close> \<open>Prelude\<close> holds the results (\<open>exc + 'a\<close>, \<open>rbind\<close>), the
  actions on a world that may raise (\<open>actbind\<close>, \<open>actcatch\<close>) and their weakest preconditions
  (\<open>wp\<close>, collection \<open>wp_rules\<close>). \<open>PyVal\<close> is the universe of JSON values with Python's truth,
  equality, order and dictionary operations; \<open>Lib\<close> the record \<open>lib\<close> of what the interpreter and its
  surroundings provide (hashing, the JSON and YAML text formats, clock, identifiers, environment
  variables), an argument of every definition that needs it; \<open>Rounding\<close> the number formats.
  \<open>Files\<close> is the file table with symbolic links. \<open>SampleLib\<close> and \<open>Sample\<close> are concrete instances
  for the witnesses.

  \<^bold>\<open>Storage\<close> (\<open>core/storage.py\<close>, \<open>core/user_identity.py\<close>): \<open>Storage\<close>, \<open>Artifacts\<close>,
  \<open>Identity\<close>. \<open>StorageProps\<close> and \<open>FileGrowth\<close> show that attempts get fresh directories, that
  an attempt is found again from any file in it, and that an inventory holds the hashes of the files.

  \<^bold>\<open>The queue\<close> (\<open>engine/contracts.py\<close>, \<open>engine/result_validation.py\<close>,
  \<open>engine/scheduler.py\<close>): \<open>Contracts\<close>, \<open>ResultGate\<close>, \<open>Store\<close> (the four tables as lists of rows, a
  transaction as \<open>atomic\<close>) and \<open>Scheduler\<close> (every method of \<open>TaskScheduler\<close>). \<open>Lifecycle\<close> is the
  abstract machine of rows and \<open>SchedulerSteps\<close> shows that every transition refines it; \<open>Frames\<close> says
  what each operation leaves alone. \<open>SchedulerProps\<close>, \<open>QueueProps\<close>, \<open>ClaimProps\<close>,
  \<open>RunProps\<close>, \<open>GateProps\<close> and \<open>QueueClaims\<close> hold the outcomes of the transitions on every branch, the
  invariant of the tables over reachable states, and the soundness of the evidence gate.

  \<^bold>\<open>Recovery\<close> (\<open>engine/brain.py\<close>, \<open>engine/recovery.py\<close>): \<open>Brain\<close>, \<open>Agent\<close>,
  \<open>Recovery\<close>, \<open>RecoveryClaims\<close>. The decider, the commands and sleeping are parameters (record
  \<open>outside\<close>); the locale \<open>brain\<close> is the source's protocol and both brains are instances of it.

  \<^bold>\<open>Memory of a run\<close> (\<open>engine/state/journal.py\<close>, \<open>engine/state/task_memory.py\<close>):
  \<open>Journal\<close>, \<open>TaskMemory\<close>.

  \<^bold>\<open>Operations and their independent validators.\<close> \<open>Checks\<close> is the vocabulary of
  \<open>validators/*.py\<close>: a validator is a list of statements that leave messages or raise, and the collection
  \<open>accepts\<close> turns "no message" into what was checked. \<open>GapClassification\<close> (\<open>classify_gaps.py\<close>,
  \<open>gap_validator.py\<close>), \<open>CapabilityMatch\<close> (\<open>capability_match_probe.py\<close>, \<open>capability_validator.py\<close>,
  the aggregation of \<open>evaluate_capability.py\<close>), \<open>DeploymentPlan\<close> (\<open>plan_deployment.py\<close>,
  \<open>plan_validator.py\<close>), \<open>TaskContract\<close> (\<open>contract_validator.py\<close>), \<open>DeploymentInstance\<close>
  (\<open>render_instance\<close>) and \<open>MemoryBudget\<close> (\<open>memory_budget.py\<close>, \<open>memory_validator.py\<close>) each pair
  a derivation with its gate and show that what is derived passes, or what passing means.
  \<open>HandoffGates\<close> holds \<open>triage_validator.py\<close>, \<open>patch_validator.py\<close> and \<open>handoff_validator.py\<close>;
  \<open>EvidenceGates\<close> the deployment, accuracy, shim and lifecycle validators; \<open>RuntimeGates\<close>,
  \<open>ReportGates\<close> and \<open>IntakeGate\<close> the validators of what is known of a runtime, of measured results and
  of a model request, each with what acceptance guarantees.

  \<^bold>\<open>The graph bridge\<close> (\<open>engine/discovery.py\<close>, \<open>engine/graph_bridge.py\<close>): \<open>Discovery\<close> makes
  operator specifications out of reports; \<open>GraphEvidence\<close> reads evidence and compares identities;
  \<open>GraphBridge\<close> accepts the environment and computes the operator gate; \<open>GraphDispatch\<close> turns reports
  into tasks of the queue; \<open>GraphDelivery\<close> validates the integration and writes the receipt.
  \<open>DeliveryClaims\<close> and \<open>Delivered\<close> state what a receipt rests on; \<open>DeliverySample\<close> and
  \<open>DeliveryReceipt\<close> follow a concrete run to its receipt.

  \<^bold>\<open>The graph runner\<close> (\<open>runners/graph_runner.py\<close>, \<open>engine/skill_registry.py\<close>,
  \<open>core/target.py\<close>): \<open>SkillRegistry\<close> resolves a task type to a skill and its method document;
  \<open>Target\<close> reads targets and the compatibility matrix; \<open>NodeTable\<close> is the table of nodes;
  \<open>GraphFacts\<close> decides whether a recorded fact, and everything it was made from, may be used again;
  \<open>GraphRun\<close> binds the proven environment, builds the command line of a node and records its fact.
  \<open>FactReuse\<close> and \<open>CommandGate\<close> say what reuse and a command rest on; \<open>FactDelivery\<close> hands the
  current facts to the bridge and shows that a placed patch makes that impossible. \<open>NodeCommands\<close> has
  the commands of a node that fans out, its workspace and the Skill of each command; \<open>GraphWalk\<close> is the walk
  over a workflow, planned or executed, of a run without a scheduler: the processes are parameters, the loop
  terminates because a node is visited at most three times. \<open>WalkProps\<close> and \<open>WalkEdges\<close> say how a
  walk ends and which edges it takes.

  \<^bold>\<open>Bounds and fuel.\<close> \<open>link_fuel\<close> is the 40 links after which the operating system gives up.
  \<open>free_number\<close> tries one number more than the table has entries, which always finds a free one
  (\<open>attempt_number_found\<close>). The walk of an inventory may go as deep as the table has entries, which
  no path exceeds. Waiting for an external decider has fuel because it may last for ever; \<open>await_returns\<close>
  says when enough exists. Everything else is structural or has its termination proved.

  \<^bold>\<open>Abstractions.\<close> JSON columns of the database hold decoded values. An f-string is a template
  with the values it shows (\<open>Msg\<close>); no text of a message is ever inspected by the program. Floats are
  exact rationals, infinities and NaN: rounding of double arithmetic is not represented, the rounding
  that the program itself asks for (\<open>round\<close>) is. Characters are the code points below 256.
  \<open>py_less\<close> raises on two lists, which Python would compare; the program compares none. Transactions are
  serialised, so concurrent processes are sequences of transitions. The world has one database. A
  \<open>RunPaths\<close> memoises its identity; here it is read again, which agrees because a marker is
  never rewritten. Temporary files of atomic writes are not visible.

  \<^bold>\<open>Not modelled.\<close> Of the graph runner: the branches of the walk for a run with a scheduler, the
  recovery of a failed node within the walk, the checks of the arguments, and how a summary is completed and
  printed. The other \<open>runners/*\<close> start subprocesses, SSH sessions and services and copy
  files: their logic is in what they run. \<open>cli/*\<close> parses arguments. \<open>tools/*\<close> (but the capability probe) run
  inside the accelerator's container on torch tensors or patch third-party source text. \<open>adapters/*\<close>,
  \<open>runtimes/*\<close> build command lines for a cluster. \<open>engine/progress.py\<close> and
  \<open>engine/fake_agents.py\<close> explain or simulate and decide nothing. The remaining
  operations are listed in the manifest.
\<close>

end
